(* ===== verification/Prelude.thy ===== *)
theory Prelude
  imports Complex_Main "HOL-Library.AList" "HOL-Library.Char_ord" "HOL-Library.List_Lexorder"
    "HOL-Library.Option_ord"
begin

text \<open>
  Shared vocabulary of the development: the exceptions of the program as one datatype, fallible
  calls as values of \<open>py_exn + 'a\<close>, Python strings as byte strings, dynamic JSON values
  as the datatype \<open>pyval\<close>, dictionaries as association lists in insertion order, and the
  theorem collections the component theories extend.

  A Python string is the list of the bytes of its UTF-8 form. Substring tests, equality and
  concatenation agree with Python on that form, the number of code points is computed by
  \<open>py_len\<close>, slices go through \<open>chars\<close>. A Python float is a \<open>rat\<close>: thresholds
  and scores of the source are decimals, which are exact here and rounded to binary there.
\<close>

named_theorems exn_simps \<open>definitions that decide which branch of a fallible call is taken\<close>
named_theorems machine_simps \<open>membership facts of the transition tables\<close>
named_theorems guard_simps \<open>definitions of the guards in front of an effect\<close>

section \<open>Exceptions and results\<close>

datatype py_exn =
    ValueError string
  | ValidationError
  | TypeError
  | KeyError
  | IndexError
  | LookupError string
  | RuntimeError string
  | IntegrityError
  | StateTransitionError
  | PipelineSequenceError string
  | PipelineInputError string
  | DecisionValidationError string
  | PolicyEngineError string
  | ToolRegistryError string
  | ModelGatewayError string
  | WorkflowRegistryError string
  | MutationWorkflowError string "string list"
  | MutationExecutionError string
  | MutationPlanningError string "string list"
  | LowRiskWorkflowError string "string list"
  | ConfirmationUnavailableError
  | IdempotencyConflictError
  | MutationExecutionUnavailableError
  | VersionConflictError
  | MutationCompletionConflictError
  | EventReplayError string
  | ActiveRunConflictError
  | MessageConflictError
  | SkillTransitionError string
  | ReleaseTransitionError string
  | BaselineValidationError string
  | MemoryValidationError string
  | OtherError string

text \<open>The subclasses of \<open>ValueError\<close>, for the handlers that catch it.\<close>

definition is_value_error :: "py_exn \<Rightarrow> bool" where
  "is_value_error e \<longleftrightarrow> (case e of
      ValueError _ \<Rightarrow> True | ValidationError \<Rightarrow> True | StateTransitionError \<Rightarrow> True
    | PipelineInputError _ \<Rightarrow> True | DecisionValidationError _ \<Rightarrow> True | PolicyEngineError _ \<Rightarrow> True
    | ToolRegistryError _ \<Rightarrow> True | WorkflowRegistryError _ \<Rightarrow> True | MutationPlanningError _ _ \<Rightarrow> True
    | LowRiskWorkflowError _ _ \<Rightarrow> True | EventReplayError _ \<Rightarrow> True | MessageConflictError \<Rightarrow> True
    | SkillTransitionError _ \<Rightarrow> True | ReleaseTransitionError _ \<Rightarrow> True
    | BaselineValidationError _ \<Rightarrow> True | MemoryValidationError _ \<Rightarrow> True | _ \<Rightarrow> False)"

type_synonym 'a result = "py_exn + 'a"

definition ok :: "'a \<Rightarrow> 'a result" where
  "ok x = Inr x"

definition raise :: "py_exn \<Rightarrow> 'a result" where
  "raise e = Inl e"

definition bind_res :: "'a result \<Rightarrow> ('a \<Rightarrow> 'b result) \<Rightarrow> 'b result" where
  "bind_res r f = (case r of Inl e \<Rightarrow> Inl e | Inr x \<Rightarrow> f x)"

definition require :: "bool \<Rightarrow> py_exn \<Rightarrow> unit result" where
  "require b e = (if b then Inr () else Inl e)"

lemma bind_res_simps [simp]:
  "bind_res (Inl e) f = Inl e"
  "bind_res (Inr x) f = f x"
  by (simp_all add: bind_res_def)

lemma bind_res_eq_Inr:
  "bind_res r f = Inr y \<longleftrightarrow> (\<exists>x. r = Inr x \<and> f x = Inr y)"
  by (cases r) simp_all

lemma require_eq_Inr [simp]: "require b e = Inr u \<longleftrightarrow> b"
  by (simp add: require_def)

lemma require_eq_Inl [simp]: "require b e = Inl x \<longleftrightarrow> \<not> b \<and> x = e"
  by (auto simp: require_def)

lemma isl_require [simp]: "isl (require b e) \<longleftrightarrow> \<not> b"
  by (simp add: require_def)

text \<open>A transaction on a state of its own: an error leaves the state as it was.\<close>

definition atomic :: "'s \<Rightarrow> ('a \<times> 's) result \<Rightarrow> 'a result \<times> 's" where
  "atomic db r = (case r of Inl e \<Rightarrow> (Inl e, db) | Inr (x, db) \<Rightarrow> (Inr x, db))"

lemma atomic_Inr: "atomic db r = (Inr x, db') \<longleftrightarrow> r = Inr (x, db')"
  by (auto simp: atomic_def split: sum.splits)

lemma atomic_Inl: "atomic db r = (Inl e, db') \<longleftrightarrow> r = Inl e \<and> db' = db"
  by (auto simp: atomic_def split: sum.splits)

lemma atomic_inv:
  assumes "atomic db r = (x, db')" "\<And>y d. r = Inr (y, d) \<Longrightarrow> P d" "P db"
  shows "P db'"
  using assms by (auto simp: atomic_def split: sum.splits)

fun map_res :: "('a \<Rightarrow> 'b result) \<Rightarrow> 'a list \<Rightarrow> 'b list result" where
  "map_res f [] = Inr []"
| "map_res f (x # xs) = bind_res (f x) (\<lambda>y. bind_res (map_res f xs) (\<lambda>ys. Inr (y # ys)))"

lemma map_res_length: "map_res f xs = Inr ys \<Longrightarrow> length ys = length xs"
  by (induction xs arbitrary: ys) (auto simp: bind_res_eq_Inr)

section \<open>Strings\<close>

text \<open>\<open>len(s)\<close>: the bytes that are not continuation bytes, \<open>10xxxxxx\<close>, are the code points.\<close>

fun is_continuation :: "char \<Rightarrow> bool" where
  "is_continuation (Char b0 b1 b2 b3 b4 b5 b6 b7) = (b7 \<and> \<not> b6)"

definition py_len :: "string \<Rightarrow> nat" where
  "py_len s = length (filter (\<lambda>c. \<not> is_continuation c) s)"

lemma py_len_le: "py_len s \<le> length s"
  by (simp add: py_len_def)

fun chars :: "string \<Rightarrow> string list" where
  "chars [] = []"
| "chars (c # cs) = (case chars cs of
      [] \<Rightarrow> [[c]]
    | d # ds \<Rightarrow> (case d of
          [] \<Rightarrow> [c] # ds
        | e # _ \<Rightarrow> if is_continuation e then (c # d) # ds else [c] # d # ds))"

definition slice_to :: "string \<Rightarrow> nat \<Rightarrow> string" where
  "slice_to s n = concat (take n (chars s))"

lemma concat_chars [simp]: "concat (chars s) = s"
  by (induction s) (auto split: list.splits)

lemma slice_to_prefix: "\<exists>t. s = slice_to s n @ t"
  unfolding slice_to_def by (metis append_take_drop_id concat_append concat_chars)

lemma chars_tails: "list_all (\<lambda>c. c \<noteq> [] \<and> list_all is_continuation (tl c)) (chars s)"
  by (induction s) (auto split: list.splits)

lemma py_len_char: "c \<noteq> [] \<Longrightarrow> list_all is_continuation (tl c) \<Longrightarrow> py_len c \<le> 1"
  by (cases c) (auto simp: py_len_def list_all_iff filter_empty_conv)

lemma chars_py_len: "list_all (\<lambda>c. py_len c \<le> 1) (chars s)"
  using chars_tails [of s] py_len_char by (auto simp: list_all_iff)

lemma concat_py_len: "list_all (\<lambda>c. py_len c \<le> 1) cs \<Longrightarrow> py_len (concat cs) \<le> length cs"
  by (induction cs) (auto simp: py_len_def)

lemma slice_to_len: "py_len (slice_to s n) \<le> n"
proof -
  have "list_all (\<lambda>c. py_len c \<le> 1) (take n (chars s))"
    using chars_py_len [of s] by (auto simp: list_all_iff dest: in_set_takeD)
  then have "py_len (slice_to s n) \<le> length (take n (chars s))" unfolding slice_to_def by (rule concat_py_len)
  then show ?thesis by simp
qed

text \<open>\<open>p in s\<close>\<close>

fun starts_with :: "string \<Rightarrow> string \<Rightarrow> bool" where
  "starts_with [] s = True"
| "starts_with (p # ps) [] = False"
| "starts_with (p # ps) (c # cs) = (p = c \<and> starts_with ps cs)"

fun str_in :: "string \<Rightarrow> string \<Rightarrow> bool" where
  "str_in p [] = (p = [])"
| "str_in p (c # cs) = (starts_with p (c # cs) \<or> str_in p cs)"

lemma starts_with_iff: "starts_with p s \<longleftrightarrow> (\<exists>t. s = p @ t)"
  by (induction p s rule: starts_with.induct) auto

lemma str_in_iff: "str_in p s \<longleftrightarrow> (\<exists>a b. s = a @ p @ b)"
proof (induction s)
  case Nil
  then show ?case by auto
next
  case (Cons c cs)
  show ?case
    by (auto simp: Cons.IH starts_with_iff intro: exI [of _ "[]"] exI [of _ "c # a" for a])
       (metis append_eq_Cons_conv)+
qed

lemma str_in_append: "str_in p s \<Longrightarrow> str_in p (a @ s @ b)"
  by (auto simp: str_in_iff) (metis append.assoc)

text \<open>\<open>sep.join(xs)\<close>.\<close>

fun join_with :: "string \<Rightarrow> string list \<Rightarrow> string" where
  "join_with sep [] = []"
| "join_with sep [x] = x"
| "join_with sep (x # y # xs) = x @ sep @ join_with sep (y # xs)"

definition any_marker :: "string list \<Rightarrow> string \<Rightarrow> bool" where
  "any_marker ms s \<longleftrightarrow> (\<exists>m\<in>set ms. str_in m s)"

text \<open>
  \<open>str.lower\<close>, \<open>str.upper\<close> and \<open>str.strip\<close>. Case mapping is the ASCII part of Python's; white
  space is Python's list, the characters outside ASCII by their bytes.
\<close>

definition lower_char :: "char \<Rightarrow> char" where
  "lower_char c = (let n = of_char c :: nat in if 65 \<le> n \<and> n \<le> 90 then char_of (n + 32) else c)"

definition upper_char :: "char \<Rightarrow> char" where
  "upper_char c = (let n = of_char c :: nat in if 97 \<le> n \<and> n \<le> 122 then char_of (n - 32) else c)"

definition lower :: "string \<Rightarrow> string" where
  "lower s = map lower_char s"

definition upper :: "string \<Rightarrow> string" where
  "upper s = map upper_char s"

definition white_space :: "string list" where
  "white_space =
     [[CHR 0x09], [CHR 0x0A], [CHR 0x0B], [CHR 0x0C], [CHR 0x0D], [CHR 0x1C], [CHR 0x1D],
      [CHR 0x1E], [CHR 0x1F], [CHR 0x20], [CHR 0xC2, CHR 0x85], [CHR 0xC2, CHR 0xA0],
      [CHR 0xE1, CHR 0x9A, CHR 0x80], [CHR 0xE2, CHR 0x80, CHR 0x80],
      [CHR 0xE2, CHR 0x80, CHR 0x81], [CHR 0xE2, CHR 0x80, CHR 0x82],
      [CHR 0xE2, CHR 0x80, CHR 0x83], [CHR 0xE2, CHR 0x80, CHR 0x84],
      [CHR 0xE2, CHR 0x80, CHR 0x85], [CHR 0xE2, CHR 0x80, CHR 0x86],
      [CHR 0xE2, CHR 0x80, CHR 0x87], [CHR 0xE2, CHR 0x80, CHR 0x88],
      [CHR 0xE2, CHR 0x80, CHR 0x89], [CHR 0xE2, CHR 0x80, CHR 0x8A],
      [CHR 0xE2, CHR 0x80, CHR 0xA8], [CHR 0xE2, CHR 0x80, CHR 0xA9],
      [CHR 0xE2, CHR 0x80, CHR 0xAF], [CHR 0xE2, CHR 0x81, CHR 0x9F],
      [CHR 0xE3, CHR 0x80, CHR 0x80]]"

definition is_white :: "string \<Rightarrow> bool" where
  "is_white c \<longleftrightarrow> c \<in> set white_space"

definition strip :: "string \<Rightarrow> string" where
  "strip s = concat (rev (dropWhile is_white (rev (dropWhile is_white (chars s)))))"

definition nonblank :: "string \<Rightarrow> bool" where
  "nonblank s \<longleftrightarrow> strip s \<noteq> []"

lemma lower_char_idem [simp]: "lower_char (lower_char c) = lower_char c"
  by (simp add: lower_char_def Let_def)

lemma lower_idem [simp]: "lower (lower s) = lower s"
  by (simp add: lower_def)

text \<open>A pydantic string field with \<open>min_length\<close> 1 and a \<open>max_length\<close>.\<close>

definition str_field :: "nat \<Rightarrow> string \<Rightarrow> bool" where
  "str_field m s \<longleftrightarrow> 1 \<le> py_len s \<and> py_len s \<le> m"

lemma Suc_length_filter: "Suc (length xs) \<le> m \<Longrightarrow> Suc (length (filter P xs)) \<le> m"
  using length_filter_le [of P xs] by linarith

lemma str_field_short:
  "s \<noteq> [] \<Longrightarrow> \<not> is_continuation (hd s) \<Longrightarrow> length s \<le> m \<Longrightarrow> str_field m s"
  by (cases s) (auto simp: str_field_def py_len_def intro: Suc_length_filter)

definition opt_field :: "('a \<Rightarrow> bool) \<Rightarrow> 'a option \<Rightarrow> bool" where
  "opt_field p x \<longleftrightarrow> (case x of None \<Rightarrow> True | Some y \<Rightarrow> p y)"

lemma opt_field_simps [simp]: "opt_field p None" "opt_field p (Some x) = p x"
  by (simp_all add: opt_field_def)

section \<open>Dynamic values\<close>

datatype pyval =
    PNone
  | PBool bool
  | PInt int
  | PFloat rat
  | PStr string
  | PList "pyval list"
  | PDict "(string \<times> pyval) list"

type_synonym pydict = "(string \<times> pyval) list"

abbreviation dget :: "('k \<times> 'v) list \<Rightarrow> 'k \<Rightarrow> 'v option" where
  "dget d k \<equiv> map_of d k"

abbreviation dset :: "('k \<times> 'v) list \<Rightarrow> 'k \<Rightarrow> 'v \<Rightarrow> ('k \<times> 'v) list" where
  "dset d k v \<equiv> AList.update k v d"

abbreviation dpop :: "('k \<times> 'v) list \<Rightarrow> 'k \<Rightarrow> ('k \<times> 'v) list" where
  "dpop d k \<equiv> AList.delete k d"

definition dkeys :: "('k \<times> 'v) list \<Rightarrow> 'k list" where
  "dkeys d = map fst d"

definition dget_or :: "('k \<times> 'v) list \<Rightarrow> 'k \<Rightarrow> 'v \<Rightarrow> 'v" where
  "dget_or d k v = (case map_of d k of None \<Rightarrow> v | Some w \<Rightarrow> w)"

lemma dget_dset [simp]: "dget (dset d k v) k' = (if k' = k then Some v else dget d k')"
  by (simp add: update_conv')

lemma dget_dpop [simp]: "dget (dpop d k) k' = (if k' = k then None else dget d k')"
  by (simp add: delete_conv')

lemma distinct_dset: "distinct (map fst d) \<Longrightarrow> distinct (map fst (dset d k v))"
  by (rule distinct_update)

lemma dset_new: "k \<notin> fst ` set d \<Longrightarrow> dset d k v = d @ [(k, v)]"
  by (induction d) auto

lemma foldl_dset_distinct:
  "distinct (map f (xs @ ys)) \<Longrightarrow>
     foldl (\<lambda>d r. dset d (f r) r) (map (\<lambda>r. (f r, r)) xs) ys = map (\<lambda>r. (f r, r)) (xs @ ys)"
proof (induction ys arbitrary: xs)
  case (Cons y ys)
  have "dset (map (\<lambda>r. (f r, r)) xs) (f y) y = map (\<lambda>r. (f r, r)) (xs @ [y])"
    using Cons.prems by (subst dset_new) (auto simp: image_iff)
  then show ?case using Cons.prems Cons.IH [of "xs @ [y]"] by auto
qed simp

text \<open>Truth value: \<open>bool(v)\<close>.\<close>

fun truthy :: "pyval \<Rightarrow> bool" where
  "truthy PNone = False"
| "truthy (PBool b) = b"
| "truthy (PInt i) = (i \<noteq> 0)"
| "truthy (PFloat q) = (q \<noteq> 0)"
| "truthy (PStr s) = (s \<noteq> [])"
| "truthy (PList xs) = (xs \<noteq> [])"
| "truthy (PDict d) = (d \<noteq> [])"

text \<open>The number a value stands for in a comparison: a Python bool is an int.\<close>

fun num_of :: "pyval \<Rightarrow> rat option" where
  "num_of (PBool b) = Some (if b then 1 else 0)"
| "num_of (PInt i) = Some (of_int i)"
| "num_of (PFloat q) = Some q"
| "num_of _ = None"

text \<open>\<open>a == b\<close>: numbers across their types, lists by position, dicts whatever their order.\<close>

function (sequential) py_eq :: "pyval \<Rightarrow> pyval \<Rightarrow> bool"
  and py_eq_list :: "pyval list \<Rightarrow> pyval list \<Rightarrow> bool"
  and py_eq_dict :: "(string \<times> pyval) list \<Rightarrow> (string \<times> pyval) list \<Rightarrow> bool"
where
  "py_eq PNone PNone = True"
| "py_eq (PStr s) (PStr t) = (s = t)"
| "py_eq (PList xs) (PList ys) = py_eq_list xs ys"
| "py_eq (PDict d) (PDict e) = (length d = length e \<and> py_eq_dict d e)"
| "py_eq a b = (case (num_of a, num_of b) of (Some p, Some q) \<Rightarrow> p = q | _ \<Rightarrow> False)"
| "py_eq_list [] [] = True"
| "py_eq_list (x # xs) (y # ys) = (py_eq x y \<and> py_eq_list xs ys)"
| "py_eq_list _ _ = False"
| "py_eq_dict [] e = True"
| "py_eq_dict ((k, v) # d) e =
     ((case map_of e k of None \<Rightarrow> False | Some w \<Rightarrow> py_eq v w) \<and> py_eq_dict d e)"
  by pat_completeness auto
termination
  by (relation "measure (\<lambda>x. case x of
        Inl (a, b) \<Rightarrow> size a
      | Inr (Inl (xs, ys)) \<Rightarrow> size_list size xs
      | Inr (Inr (d, e)) \<Rightarrow> size_list (size_prod (\<lambda>_. 0) size) d)") auto

text \<open>\<open>a < b\<close>: \<open>None\<close> when Python raises \<open>TypeError\<close>.\<close>

definition str_less :: "string \<Rightarrow> string \<Rightarrow> bool" where
  "str_less a b \<longleftrightarrow> a < b"

function (sequential) py_less :: "pyval \<Rightarrow> pyval \<Rightarrow> bool option"
  and py_less_list :: "pyval list \<Rightarrow> pyval list \<Rightarrow> bool option"
where
  "py_less (PStr s) (PStr t) = Some (str_less s t)"
| "py_less (PList xs) (PList ys) = py_less_list xs ys"
| "py_less a b = (case (num_of a, num_of b) of (Some p, Some q) \<Rightarrow> Some (p < q) | _ \<Rightarrow> None)"
| "py_less_list [] [] = Some False"
| "py_less_list [] (y # ys) = Some True"
| "py_less_list (x # xs) [] = Some False"
| "py_less_list (x # xs) (y # ys) = (if py_eq x y then py_less_list xs ys else py_less x y)"
  by pat_completeness auto
termination
  by (relation "measure (\<lambda>x. case x of Inl (a, b) \<Rightarrow> size a | Inr (xs, ys) \<Rightarrow> size_list size xs)") auto

definition py_mem :: "pyval \<Rightarrow> pyval list \<Rightarrow> bool" where
  "py_mem x ys \<longleftrightarrow> (\<exists>y\<in>set ys. py_eq x y)"

lemma py_eq_str [simp]: "py_eq (PStr s) v \<longleftrightarrow> v = PStr s"
  by (cases v) auto

section \<open>Numbers\<close>

text \<open>\<open>round(x, 6)\<close>: half to even on the exact value.\<close>

definition round_even :: "rat \<Rightarrow> int" where
  "round_even x =
     (let f = \<lfloor>x\<rfloor>; r = x - of_int f in
      if r < 1 / 2 then f else if 1 / 2 < r then f + 1 else if even f then f else f + 1)"

definition round_to :: "nat \<Rightarrow> rat \<Rightarrow> rat" where
  "round_to n x = of_int (round_even (x * 10 ^ n)) / 10 ^ n"

lemma round_even_bounds: "of_int (round_even x) - x \<le> 1 / 2" "x - of_int (round_even x) \<le> 1 / 2"
  unfolding round_even_def Let_def by (auto simp: field_simps) linarith+

lemma round_even_mono: "x \<le> y \<Longrightarrow> round_even x \<le> round_even y"
proof -
  assume le: "x \<le> y"
  have f: "\<lfloor>x\<rfloor> \<le> \<lfloor>y\<rfloor>" using le by (rule floor_mono)
  consider "\<lfloor>x\<rfloor> = \<lfloor>y\<rfloor>" | "\<lfloor>x\<rfloor> + 1 \<le> \<lfloor>y\<rfloor>" using f by linarith
  then show ?thesis
  proof cases
    case 1
    then show ?thesis using le by (auto simp: round_even_def Let_def)
  next
    case 2
    then show ?thesis by (auto simp: round_even_def Let_def)
  qed
qed

lemma round_even_of_int [simp]: "round_even (of_int i) = i"
  by (simp add: round_even_def)

lemma round_to_mono: "x \<le> y \<Longrightarrow> round_to n x \<le> round_to n y"
  unfolding round_to_def
  by (intro divide_right_mono of_int_le_iff [THEN iffD2] round_even_mono mult_right_mono) simp_all

end
