(* ===== verification/Protocols.thy ===== *)
theory Protocols
  imports Prelude
begin

text \<open>
  The contracts of \<open>src/protocols.py\<close>: every enum as a datatype, every pydantic model as a record,
  its \<open>Field\<close> constraints as a bool-valued \<open>valid_*\<close> predicate. The code builds a model only if
  its constraints hold and raises \<open>ValidationError\<close> otherwise; where that matters (the checkpoint
  that is read back, the model output) the operations below call the predicate.
\<close>

section \<open>Slots, messages and prompt views\<close>

datatype slot_source = SLOT_USER | SLOT_TOOL | SLOT_POLICY | SLOT_SYSTEM

record slot_value =
  sv_value :: pyval
  sv_source :: slot_source
  sv_verified :: bool

datatype message_role = ROLE_USER | ROLE_ASSISTANT | ROLE_SYSTEM

record message =
  msg_role :: message_role
  msg_content :: string

definition valid_message :: "message \<Rightarrow> bool" where
  "valid_message m \<longleftrightarrow> str_field 8000 (msg_content m)"

record prompt_view =
  pv_system_policy_version :: string
  pv_workflow_id :: string
  pv_workflow_version :: string
  pv_current_step :: string
  pv_allowed_decisions :: "string list"
  pv_conversation :: "message list"
  pv_known_slots :: "(string \<times> slot_value) list"
  pv_required_slots :: "string list"
  pv_allowed_tools :: "string list"
  pv_evidence_ids :: "string list"
  pv_remaining_steps :: int

definition valid_prompt_view :: "prompt_view \<Rightarrow> bool" where
  "valid_prompt_view v \<longleftrightarrow>
     str_field 128 (pv_system_policy_version v) \<and> str_field 128 (pv_workflow_id v) \<and>
     str_field 64 (pv_workflow_version v) \<and> str_field 128 (pv_current_step v) \<and>
     list_all valid_message (pv_conversation v) \<and>
     0 \<le> pv_remaining_steps v \<and> pv_remaining_steps v \<le> 6"

section \<open>Classification of a request\<close>

datatype risk_hint = RH_READ_ONLY | RH_WRITE | RH_UNKNOWN

datatype request_domain =
    RD_COMMERCE | RD_SOCIAL | RD_CAPABILITY | RD_UNSUPPORTED | RD_UNKNOWN

datatype request_risk_level = RL_LOW | RL_MEDIUM | RL_HIGH | RL_UNKNOWN

datatype response_policy =
    RP_EXECUTE
  | RP_ASK_USER
  | RP_CONVERSATIONAL_RESPONSE
  | RP_GRACEFUL_UNSUPPORTED
  | RP_SAFETY_DEESCALATION
  | RP_HUMAN_HANDOFF

record token_usage =
  tu_input_tokens :: "int option"
  tu_output_tokens :: "int option"
  tu_cached_input_tokens :: "int option"
  tu_reasoning_tokens :: "int option"
  tu_total_tokens :: "int option"
  tu_estimated :: bool
  tu_provider_usage_version :: "string option"

definition valid_token_usage :: "token_usage \<Rightarrow> bool" where
  "valid_token_usage u \<longleftrightarrow>
     list_all (opt_field (\<lambda>n. 0 \<le> n))
       [tu_input_tokens u, tu_output_tokens u, tu_cached_input_tokens u,
        tu_reasoning_tokens u, tu_total_tokens u] \<and>
     opt_field (str_field 32) (tu_provider_usage_version u)"

record intent_classification =
  ic_intent :: string
  ic_risk_hint :: risk_hint
  ic_route_hint :: string
  ic_confidence :: rat
  ic_domain_confidence :: "rat option"
  ic_risk_confidence :: "rat option"
  ic_required_slots :: "string list"
  ic_domain :: request_domain
  ic_request_risk_level :: request_risk_level
  ic_alternatives :: "string list"

definition unit_interval :: "rat \<Rightarrow> bool" where
  "unit_interval x \<longleftrightarrow> 0 \<le> x \<and> x \<le> 1"

definition valid_classification :: "intent_classification \<Rightarrow> bool" where
  "valid_classification c \<longleftrightarrow>
     str_field 128 (ic_intent c) \<and> str_field 128 (ic_route_hint c) \<and>
     unit_interval (ic_confidence c) \<and> opt_field unit_interval (ic_domain_confidence c) \<and>
     opt_field unit_interval (ic_risk_confidence c)"

section \<open>Runs, decisions and steps\<close>

record state_patch =
  sp_set_values :: pydict
  sp_remove_keys :: "string list"

datatype run_status =
    RS_CREATED
  | RS_ROUTING
  | RS_RUNNING_READONLY
  | RS_RUNNING_WORKFLOW
  | RS_WAITING_USER
  | RS_WAITING_CONFIRMATION
  | RS_COMMITTING
  | RS_VERIFYING
  | RS_WAITING_HUMAN
  | RS_COMPLETED
  | RS_FAILED
  | RS_CANCELLED
  | RS_EXPIRED

definition run_statuses :: "run_status list" where
  "run_statuses = [RS_CREATED, RS_ROUTING, RS_RUNNING_READONLY, RS_RUNNING_WORKFLOW, RS_WAITING_USER,
     RS_WAITING_CONFIRMATION, RS_COMMITTING, RS_VERIFYING, RS_WAITING_HUMAN, RS_COMPLETED, RS_FAILED,
     RS_CANCELLED, RS_EXPIRED]"

fun status_value :: "run_status \<Rightarrow> string" where
  "status_value RS_CREATED = ''created''"
| "status_value RS_ROUTING = ''routing''"
| "status_value RS_RUNNING_READONLY = ''running_readonly''"
| "status_value RS_RUNNING_WORKFLOW = ''running_workflow''"
| "status_value RS_WAITING_USER = ''waiting_user''"
| "status_value RS_WAITING_CONFIRMATION = ''waiting_confirmation''"
| "status_value RS_COMMITTING = ''committing''"
| "status_value RS_VERIFYING = ''verifying''"
| "status_value RS_WAITING_HUMAN = ''waiting_human''"
| "status_value RS_COMPLETED = ''completed''"
| "status_value RS_FAILED = ''failed''"
| "status_value RS_CANCELLED = ''cancelled''"
| "status_value RS_EXPIRED = ''expired''"

text \<open>\<open>RunStatus(value)\<close>: the enum member with this value, \<open>ValueError\<close> if there is none.\<close>

definition parse_status :: "string \<Rightarrow> run_status result" where
  "parse_status v = (case find (\<lambda>s. status_value s = v) run_statuses of
      Some s \<Rightarrow> Inr s | None \<Rightarrow> Inl (ValueError ''RunStatus''))"

lemma set_run_statuses [simp]: "s \<in> set run_statuses"
  by (cases s) (simp_all add: run_statuses_def)

lemma status_value_inject [simp]: "status_value s = status_value t \<longleftrightarrow> s = t"
  by (cases s; cases t) simp_all

lemma parse_status_value [simp]: "parse_status (status_value s) = Inr s"
proof -
  have "find (\<lambda>t. status_value t = status_value s) run_statuses = Some s"
    by (cases s) (simp_all add: run_statuses_def)
  then show ?thesis by (simp add: parse_status_def)
qed

lemma parse_status_Inr: "parse_status v = Inr s \<Longrightarrow> v = status_value s"
  by (auto simp: parse_status_def find_Some_iff split: option.splits)

datatype execution_mode = EM_READONLY_LOOP | EM_WORKFLOW

record run_context =
  rc_run_id :: string
  rc_conversation_id :: string
  rc_tenant_id :: string
  rc_actor_id :: string
  rc_execution_mode :: "execution_mode option"
  rc_workflow_id :: "string option"
  rc_workflow_version :: "string option"
  rc_status :: run_status
  rc_state :: pydict
  rc_step_count :: int
  rc_checkpoint_version :: int

text \<open>What \<open>RunContext.model_validate\<close> requires; \<open>model_copy\<close> does not check it.\<close>

definition valid_run_context :: "run_context \<Rightarrow> bool" where
  "valid_run_context c \<longleftrightarrow>
     str_field 64 (rc_tenant_id c) \<and> str_field 128 (rc_actor_id c) \<and>
     opt_field (str_field 128) (rc_workflow_id c) \<and> opt_field (str_field 64) (rc_workflow_version c) \<and>
     0 \<le> rc_step_count c \<and> rc_step_count c \<le> 6 \<and> 0 \<le> rc_checkpoint_version c"

datatype decision_type = DT_RESPOND | DT_ASK_USER | DT_CALL_TOOL | DT_HANDOFF | DT_FINISH

fun decision_type_value :: "decision_type \<Rightarrow> string" where
  "decision_type_value DT_RESPOND = ''respond''"
| "decision_type_value DT_ASK_USER = ''ask_user''"
| "decision_type_value DT_CALL_TOOL = ''call_tool''"
| "decision_type_value DT_HANDOFF = ''handoff''"
| "decision_type_value DT_FINISH = ''finish''"

record decision =
  de_type :: decision_type
  de_intent :: string
  de_route :: string
  de_confidence :: rat
  de_missing_slots :: "string list"
  de_tool :: "string option"
  de_args :: pydict
  de_evidence_ids :: "string list"
  de_response :: "string option"
  de_handoff_reason :: "string option"

definition valid_decision :: "decision \<Rightarrow> bool" where
  "valid_decision d \<longleftrightarrow>
     str_field 128 (de_intent d) \<and> str_field 128 (de_route d) \<and> unit_interval (de_confidence d) \<and>
     opt_field (\<lambda>s. py_len s \<le> 128) (de_tool d) \<and> opt_field (\<lambda>s. py_len s \<le> 8000) (de_response d) \<and>
     opt_field (\<lambda>s. py_len s \<le> 256) (de_handoff_reason d)"

datatype step_status = SS_CONTINUE | SS_WAIT_USER | SS_WAIT_HUMAN | SS_COMPLETE | SS_FAIL

datatype event_type =
    ET_RUN_CREATED
  | ET_MODEL_REQUEST_STARTED
  | ET_MODEL_REQUEST_SUCCEEDED
  | ET_MODEL_REQUEST_FAILED
  | ET_STEP_COMPLETED
  | ET_TOOL_CALLED
  | ET_TOOL_OBSERVED
  | ET_TOOL_REQUEST_STARTED
  | ET_TOOL_REQUEST_SUCCEEDED
  | ET_TOOL_REQUEST_FAILED
  | ET_ASSISTANT_RESPONSE
  | ET_DECISION_VALIDATION_FAILED
  | ET_RECOVERY_ATTEMPT_STARTED
  | ET_RECOVERY_ATTEMPT_SUCCEEDED
  | ET_RECOVERY_ATTEMPT_FAILED
  | ET_TERMINAL_RESPONSE_PUBLISHED
  | ET_TERMINAL_RESPONSE_PUBLISH_FAILED
  | ET_WAITING_FOR_USER
  | ET_FAILED
  | ET_MUTATION_PREPARED
  | ET_USER_CONFIRMED
  | ET_COMMIT_STARTED
  | ET_COMMIT_OBSERVED
  | ET_STATE_VERIFIED
  | ET_MUTATION_UNCERTAIN
  | ET_HANDOFF_CREATED
  | ET_HANDOFF_RESOLVED
  | ET_SAFETY_ROUTED
  | ET_ROUTING_SHADOW_COMPARED
  | ET_SKILL_MATCHED
  | ET_RELEASE_ASSIGNED

record domain_event =
  ev_type :: event_type
  ev_payload :: pydict

abbreviation event :: "event_type \<Rightarrow> pydict \<Rightarrow> domain_event" where
  "event t p \<equiv> \<lparr>ev_type = t, ev_payload = p\<rparr>"

record step =
  st_name :: string
  st_version :: string

record step_result =
  sr_status :: step_status
  sr_state_patch :: state_patch
  sr_events :: "domain_event list"
  sr_next_step :: "string option"

section \<open>Tools\<close>

datatype tool_risk = TR_READ_ONLY | TR_PREPARE | TR_LOW_WRITE | TR_COMMIT

record retry_policy =
  rp_max_attempts :: int
  rp_backoff_ms :: "int list"

record resource_binding =
  rb_argument :: string
  rb_owner_check :: string

record tool_spec =
  ts_name :: string
  ts_version :: string
  ts_input_schema :: pydict
  ts_output_schema :: pydict
  ts_risk :: tool_risk
  ts_required_scopes :: "string list"
  ts_timeout_ms :: int
  ts_retry_policy :: retry_policy
  ts_model_visible :: bool
  ts_allowed_workflows :: "string list"
  ts_allowed_steps :: "string list"
  ts_resource_binding :: "resource_binding option"

definition valid_tool_spec :: "tool_spec \<Rightarrow> bool" where
  "valid_tool_spec s \<longleftrightarrow>
     str_field 128 (ts_name s) \<and> str_field 64 (ts_version s) \<and>
     1 \<le> ts_timeout_ms s \<and> ts_timeout_ms s \<le> 30000 \<and>
     1 \<le> rp_max_attempts (ts_retry_policy s) \<and> rp_max_attempts (ts_retry_policy s) \<le> 2 \<and>
     opt_field (\<lambda>b. str_field 128 (rb_argument b) \<and> str_field 128 (rb_owner_check b))
       (ts_resource_binding s)"

record tool_context =
  tc_request_id :: string
  tc_run_id :: string
  tc_conversation_id :: string
  tc_tenant_id :: string
  tc_actor_id :: string
  tc_scopes :: "string list"
  tc_workflow_id :: "string option"
  tc_workflow_version :: "string option"
  tc_current_step :: "string option"
  tc_policy_version :: "string option"

datatype tool_error_code =
    TE_INVALID_ARGUMENT
  | TE_UNAUTHENTICATED
  | TE_PERMISSION_DENIED
  | TE_RESOURCE_NOT_FOUND
  | TE_CONFLICT
  | TE_POLICY_DENIED
  | TE_RATE_LIMITED
  | TE_UPSTREAM_TIMEOUT
  | TE_STATUS_UNKNOWN
  | TE_INTERNAL_ERROR

fun tool_error_value :: "tool_error_code \<Rightarrow> string" where
  "tool_error_value TE_INVALID_ARGUMENT = ''INVALID_ARGUMENT''"
| "tool_error_value TE_UNAUTHENTICATED = ''UNAUTHENTICATED''"
| "tool_error_value TE_PERMISSION_DENIED = ''PERMISSION_DENIED''"
| "tool_error_value TE_RESOURCE_NOT_FOUND = ''RESOURCE_NOT_FOUND''"
| "tool_error_value TE_CONFLICT = ''CONFLICT''"
| "tool_error_value TE_POLICY_DENIED = ''POLICY_DENIED''"
| "tool_error_value TE_RATE_LIMITED = ''RATE_LIMITED''"
| "tool_error_value TE_UPSTREAM_TIMEOUT = ''UPSTREAM_TIMEOUT''"
| "tool_error_value TE_STATUS_UNKNOWN = ''STATUS_UNKNOWN''"
| "tool_error_value TE_INTERNAL_ERROR = ''INTERNAL_ERROR''"

record tool_error =
  err_code :: tool_error_code
  err_retryable :: bool
  err_message :: string

record tool_result =
  tr_tool_name :: string
  tr_tool_version :: string
  tr_data :: "pydict option"
  tr_error :: "tool_error option"

end
