(* ===== verification/RunStateMachine.thy ===== *)
theory RunStateMachine
  imports Protocols
begin

text \<open>
  \<open>src/orchestration/state_machine.py\<close>: the table of legal run transitions, the guard
  \<open>require_transition\<close> every persisted status change goes through, and the actions the API offers in
  each status. The interface \<open>guarded_machine\<close> states what a lifecycle guarded by a table promises;
  the run lifecycle is one instance, the skill and release lifecycles are others.
\<close>

section \<open>Lifecycles guarded by a table\<close>

fun path :: "('s \<Rightarrow> 's \<Rightarrow> bool) \<Rightarrow> 's \<Rightarrow> 's list \<Rightarrow> bool" where
  "path r s [] = True"
| "path r s (t # ts) = (r s t \<and> path r t ts)"

lemma path_append: "path r s (xs @ ys) \<longleftrightarrow> path r s xs \<and> path r (last (s # xs)) ys"
  by (induction xs arbitrary: s) auto

lemma path_invariant:
  assumes "path r s ts" "I s" "\<And>x y. I x \<Longrightarrow> r x y \<Longrightarrow> I y"
  shows "list_all I ts"
  using assms(1,2) by (induction ts arbitrary: s) (auto intro: assms(3))

locale guarded_machine =
  fixes allowed :: "'s \<Rightarrow> 's \<Rightarrow> bool"
    and final :: "'s \<Rightarrow> bool"
  assumes final_absorbing: "allowed s t \<Longrightarrow> \<not> final s"
begin

lemma path_final: "path allowed s ts \<Longrightarrow> final s \<Longrightarrow> ts = []"
  by (cases ts) (auto dest: final_absorbing)

lemma path_one_final:
  assumes "path allowed s (xs @ t # ys)" "final t"
  shows "ys = []"
  using assms by (auto simp: path_append dest: path_final)

lemma final_only_at_end:
  assumes "path allowed s ts" "i < length ts" "final (ts ! i)"
  shows "Suc i = length ts"
proof -
  have "ts = take i ts @ ts ! i # drop (Suc i) ts" using assms(2) by (rule id_take_nth_drop)
  then have "drop (Suc i) ts = []" using assms(1,3) by (metis path_one_final)
  then show ?thesis using assms(2) by simp
qed

end

section \<open>The run lifecycle\<close>

definition run_terminal :: "run_status \<Rightarrow> bool" where
  "run_terminal s \<longleftrightarrow> s \<in> {RS_COMPLETED, RS_FAILED, RS_CANCELLED, RS_EXPIRED}"

fun transitions :: "run_status \<Rightarrow> run_status list" where
  "transitions RS_CREATED = [RS_ROUTING, RS_CANCELLED, RS_FAILED]"
| "transitions RS_ROUTING =
     [RS_RUNNING_READONLY, RS_RUNNING_WORKFLOW, RS_WAITING_HUMAN, RS_FAILED, RS_CANCELLED]"
| "transitions RS_RUNNING_READONLY =
     [RS_RUNNING_READONLY, RS_WAITING_USER, RS_WAITING_HUMAN, RS_COMPLETED, RS_FAILED, RS_CANCELLED,
      RS_EXPIRED]"
| "transitions RS_RUNNING_WORKFLOW =
     [RS_WAITING_USER, RS_WAITING_CONFIRMATION, RS_COMMITTING, RS_WAITING_HUMAN, RS_FAILED,
      RS_CANCELLED, RS_EXPIRED]"
| "transitions RS_WAITING_USER =
     [RS_RUNNING_READONLY, RS_RUNNING_WORKFLOW, RS_WAITING_HUMAN, RS_CANCELLED, RS_EXPIRED]"
| "transitions RS_WAITING_CONFIRMATION =
     [RS_WAITING_CONFIRMATION, RS_COMMITTING, RS_RUNNING_WORKFLOW, RS_CANCELLED, RS_EXPIRED]"
| "transitions RS_COMMITTING = [RS_VERIFYING, RS_WAITING_HUMAN, RS_FAILED]"
| "transitions RS_VERIFYING = [RS_COMPLETED, RS_WAITING_HUMAN, RS_FAILED]"
| "transitions RS_WAITING_HUMAN = [RS_COMPLETED, RS_FAILED, RS_CANCELLED]"
| "transitions _ = []"

definition require_transition :: "run_status \<Rightarrow> run_status \<Rightarrow> unit result" where
  "require_transition current target =
     (if run_terminal current \<or> target \<notin> set (transitions current)
      then Inl StateTransitionError else Inr ())"

definition legal :: "run_status \<Rightarrow> run_status \<Rightarrow> bool" where
  "legal s t \<longleftrightarrow> require_transition s t = Inr ()"

text \<open>The rows of the definition the UI reads; the display labels are not modelled.\<close>

definition state_machine_definition :: "(string \<times> bool \<times> string list) list" where
  "state_machine_definition =
     map (\<lambda>s. (status_value s, run_terminal s, map status_value (transitions s))) run_statuses"

definition allowed_actions :: "run_status \<Rightarrow> string list" where
  "allowed_actions s =
     (if s \<in> {RS_CREATED, RS_ROUTING, RS_RUNNING_READONLY, RS_RUNNING_WORKFLOW, RS_COMMITTING, RS_VERIFYING}
      then [''cancel'']
      else if s = RS_WAITING_USER then [''continue'', ''cancel'']
      else if s = RS_WAITING_CONFIRMATION then [''confirm'', ''reject'', ''cancel'']
      else if s = RS_WAITING_HUMAN then [''refresh'']
      else if run_terminal s then [''new_message'', ''retry'']
      else [])"

lemma require_transition_legal [simp]: "require_transition s t = Inr u \<longleftrightarrow> legal s t"
  by (simp add: legal_def)

lemma legal_iff [machine_simps]: "legal s t \<longleftrightarrow> t \<in> set (transitions s)"
  by (cases s) (auto simp: legal_def require_transition_def run_terminal_def)

lemma require_transition_illegal [simp]: "\<not> legal s t \<Longrightarrow> require_transition s t = Inl StateTransitionError"
  by (auto simp: legal_def require_transition_def split: if_splits)

lemma terminal_transitions: "run_terminal s \<longleftrightarrow> transitions s = []"
  by (cases s) (simp_all add: run_terminal_def)

lemma legal_not_terminal: "legal s t \<Longrightarrow> \<not> run_terminal s"
  by (auto simp: legal_def require_transition_def)

interpretation run_machine: guarded_machine legal run_terminal
  by unfold_locales (rule legal_not_terminal)

lemma legal_source_not_terminal_RS [simp]:
  "\<not> legal RS_COMPLETED t" "\<not> legal RS_FAILED t" "\<not> legal RS_CANCELLED t" "\<not> legal RS_EXPIRED t"
  by (simp_all add: machine_simps)

lemma legal_verifying: "legal s RS_VERIFYING \<Longrightarrow> s = RS_COMMITTING"
  by (cases s) (auto simp: legal_iff)

lemma legal_committing: "legal s RS_COMMITTING \<Longrightarrow> s = RS_RUNNING_WORKFLOW \<or> s = RS_WAITING_CONFIRMATION"
  by (cases s) (auto simp: legal_iff)

text \<open>
  A run is committed or verified only by a workflow: from any status but \<open>committing\<close>,
  \<open>verifying\<close> is reached through \<open>committing\<close>.
\<close>

lemma path_to_verifying:
  assumes "path legal s ts" "RS_VERIFYING \<in> set ts" "s \<noteq> RS_COMMITTING"
  shows "RS_COMMITTING \<in> set ts"
  using assms by (induction ts arbitrary: s) (auto dest: legal_verifying)

text \<open>A run that has reached a terminal status never leaves it: in every legal history the
  terminal status is the last one, whatever sequence of transitions led to it.\<close>

theorem run_terminal_is_last:
  assumes "path legal s (before @ t # after)" "run_terminal t"
  shows "after = []"
  using assms by (rule run_machine.path_one_final)

lemma run_terminal_is_last_witness:
  "path legal RS_CREATED [RS_ROUTING, RS_RUNNING_READONLY, RS_COMPLETED] \<and> ([] :: run_status list) = []"
  using run_terminal_is_last [of RS_CREATED "[RS_ROUTING, RS_RUNNING_READONLY]" RS_COMPLETED "[]"]
  by (simp add: machine_simps run_terminal_def)

end
