(* ===== verification/Policy.thy ===== *)
theory Policy
  imports RunStateMachine "HOL-Library.Product_Lexorder" "HOL-Library.Multiset"
begin

text \<open>
  \<open>src/policies/engine.py\<close>: the immutable policy catalog, its constructor checks, and \<open>evaluate\<close>,
  which combines the matching rules by the severity of their effect. Comparisons are Python's on
  dynamic values, \<open>TypeError\<close> included. The hash of the facts is a parameter: any function of the facts.
\<close>

datatype policy_effect = PE_ALLOW | PE_DENY | PE_REQUIRE_HANDOFF

definition policy_operators :: "string list" where
  "policy_operators = [''eq'', ''ne'', ''lt'', ''lte'', ''gt'', ''gte'', ''in'', ''not_in'']"

fun effect_order :: "policy_effect \<Rightarrow> nat" where
  "effect_order PE_ALLOW = 0"
| "effect_order PE_REQUIRE_HANDOFF = 1"
| "effect_order PE_DENY = 2"

record fact_condition =
  fc_fact :: string
  fc_op :: string
  fc_value :: pyval

record policy_rule =
  pr_rule_id :: string
  pr_applies_to :: string
  pr_priority :: int
  pr_conditions :: "fact_condition list"
  pr_effect :: policy_effect
  pr_reason_code :: string

record policy_decision =
  pd_policy_version :: string
  pd_effect :: policy_effect
  pd_rule_ids :: "string list"
  pd_reason_code :: string
  pd_facts_hash :: string

record policy_engine =
  pe_version :: string
  pe_allowed_facts :: "string list"
  pe_rules :: "policy_rule list"

fun is_dict :: "pyval \<Rightarrow> bool" where
  "is_dict (PDict d) = True"
| "is_dict _ = False"

definition check_condition :: "string list \<Rightarrow> fact_condition \<Rightarrow> unit result" where
  "check_condition allowed c =
     (if fc_fact c \<notin> set allowed then Inl (PolicyEngineError ''policy rule uses an unapproved fact'')
      else if fc_op c \<notin> set policy_operators
      then Inl (PolicyEngineError ''policy rule uses an unapproved operator'')
      else if is_dict (fc_value c)
      then Inl (PolicyEngineError ''policy constants must be scalar or a list'')
      else Inr ())"

definition make_policy_engine :: "string \<Rightarrow> string list \<Rightarrow> policy_rule list \<Rightarrow> policy_engine result" where
  "make_policy_engine version allowed rules =
     (if version = [] then Inl (PolicyEngineError ''policy version must not be empty'')
      else if length (remdups (map pr_rule_id rules)) \<noteq> length rules
      then Inl (PolicyEngineError ''duplicate policy rule id'')
      else bind_res (map_res (check_condition allowed) (concat (map pr_conditions rules))) (\<lambda>_.
        Inr \<lparr>pe_version = version, pe_allowed_facts = allowed, pe_rules = rules\<rparr>))"

text \<open>\<open>a <= b\<close> and \<open>x in c\<close> of Python; \<open>None\<close> and \<open>TypeError\<close> where Python raises.\<close>

function (sequential) py_le :: "pyval \<Rightarrow> pyval \<Rightarrow> bool option"
  and py_le_list :: "pyval list \<Rightarrow> pyval list \<Rightarrow> bool option"
where
  "py_le (PStr s) (PStr t) = Some (s = t \<or> str_less s t)"
| "py_le (PList xs) (PList ys) = py_le_list xs ys"
| "py_le a b = (case (num_of a, num_of b) of (Some p, Some q) \<Rightarrow> Some (p \<le> q) | _ \<Rightarrow> None)"
| "py_le_list [] ys = Some True"
| "py_le_list (x # xs) [] = Some False"
| "py_le_list (x # xs) (y # ys) = (if py_eq x y then py_le_list xs ys else py_le x y)"
  by pat_completeness auto
termination
  by (relation "measure (\<lambda>x. case x of Inl (a, b) \<Rightarrow> size a | Inr (xs, ys) \<Rightarrow> size_list size xs)") auto

definition raise_type :: "bool option \<Rightarrow> bool result" where
  "raise_type r = (case r of None \<Rightarrow> Inl TypeError | Some b \<Rightarrow> Inr b)"

fun contains :: "pyval \<Rightarrow> pyval \<Rightarrow> bool result" where
  "contains (PList ys) x = Inr (py_mem x ys)"
| "contains (PStr s) (PStr t) = Inr (str_in t s)"
| "contains (PDict d) (PStr t) = Inr (t \<in> set (dkeys d))"
| "contains (PDict d) (PList _) = Inl TypeError"
| "contains (PDict d) (PDict _) = Inl TypeError"
| "contains (PDict d) _ = Inr False"
| "contains _ _ = Inl TypeError"

definition matches_condition :: "fact_condition \<Rightarrow> pyval \<Rightarrow> bool result" where
  "matches_condition c actual =
     (let expected = fc_value c; p = fc_op c in
      if p = ''eq'' then Inr (py_eq actual expected)
      else if p = ''ne'' then Inr (\<not> py_eq actual expected)
      else if p = ''lt'' then raise_type (py_less actual expected)
      else if p = ''lte'' then raise_type (py_le actual expected)
      else if p = ''gt'' then raise_type (py_less expected actual)
      else if p = ''gte'' then raise_type (py_le expected actual)
      else if p = ''in'' then contains expected actual
      else bind_res (contains expected actual) (\<lambda>b. Inr (\<not> b)))"

text \<open>\<open>all(...)\<close> over the conditions: it stops at the first that does not match.\<close>

fun matches_all :: "fact_condition list \<Rightarrow> pydict \<Rightarrow> bool result" where
  "matches_all [] facts = Inr True"
| "matches_all (c # cs) facts =
     (case dget facts (fc_fact c) of
        None \<Rightarrow> Inl KeyError
      | Some v \<Rightarrow> bind_res (matches_condition c v) (\<lambda>b. if b then matches_all cs facts else Inr False))"

fun filter_res :: "('a \<Rightarrow> bool result) \<Rightarrow> 'a list \<Rightarrow> 'a list result" where
  "filter_res p [] = Inr []"
| "filter_res p (x # xs) =
     bind_res (p x) (\<lambda>b. bind_res (filter_res p xs) (\<lambda>ys. Inr (if b then x # ys else ys)))"

definition policy_matches :: "pydict \<Rightarrow> policy_rule \<Rightarrow> bool result" where
  "policy_matches facts r = matches_all (pr_conditions r) facts"

definition rule_key :: "policy_rule \<Rightarrow> int \<times> string" where
  "rule_key r = (- pr_priority r, pr_rule_id r)"

text \<open>\<open>max(..., key=...)\<close> of a non-empty sequence: the first of the greatest.\<close>

fun max_effect :: "policy_effect \<Rightarrow> policy_effect list \<Rightarrow> policy_effect" where
  "max_effect e [] = e"
| "max_effect e (f # fs) = max_effect (if effect_order e < effect_order f then f else e) fs"

definition combine_matched :: "policy_rule \<Rightarrow> policy_rule list \<Rightarrow> policy_effect \<times> string list \<times> string" where
  "combine_matched m ms =
     (let effect = max_effect (pr_effect m) (map pr_effect ms);
          winning = sort_key rule_key (filter (\<lambda>r. pr_effect r = effect) (m # ms))
      in (effect, map pr_rule_id winning, case winning of [] \<Rightarrow> [] | w # _ \<Rightarrow> pr_reason_code w))"

definition missing_facts :: "policy_rule list \<Rightarrow> pydict \<Rightarrow> bool" where
  "missing_facts candidates facts \<longleftrightarrow>
     (\<exists>r\<in>set candidates. \<exists>c\<in>set (pr_conditions r). dget facts (fc_fact c) = None)"

definition evaluate_policy ::
  "(pydict \<Rightarrow> string) \<Rightarrow> policy_engine \<Rightarrow> string \<Rightarrow> pydict \<Rightarrow> policy_decision result" where
  "evaluate_policy hash e action facts =
     (if \<not> list_all (\<lambda>k. k \<in> set (pe_allowed_facts e)) (dkeys facts)
      then Inl (PolicyEngineError ''unapproved policy fact supplied'')
      else
       (let candidates = filter (\<lambda>r. pr_applies_to r = action) (pe_rules e);
            result = (\<lambda>effect ids reason.
              \<lparr>pd_policy_version = pe_version e, pd_effect = effect, pd_rule_ids = ids,
               pd_reason_code = reason, pd_facts_hash = hash facts\<rparr>)
        in
        if missing_facts candidates facts then Inr (result PE_DENY [] ''MISSING_REQUIRED_FACTS'')
        else bind_res (filter_res (policy_matches facts) candidates) (\<lambda>matched.
          case matched of
            [] \<Rightarrow> Inr (result PE_DENY [] ''NO_POLICY_RULE_MATCHED'')
          | m # ms \<Rightarrow>
              (case combine_matched m ms of (effect, ids, reason) \<Rightarrow> Inr (result effect ids reason)))))"

section \<open>The combination of the matching rules\<close>

lemma filter_res_Inr:
  "filter_res p xs = Inr ys \<longleftrightarrow>
     (\<forall>x\<in>set xs. \<exists>b. p x = Inr b) \<and> ys = filter (\<lambda>x. p x = Inr True) xs"
proof (induction xs arbitrary: ys)
  case (Cons x xs)
  show ?case
  proof (cases "p x")
    case (Inr b)
    then show ?thesis by (simp add: bind_res_eq_Inr Cons.IH) blast
  qed simp
qed auto

lemma effect_order_inject [simp]: "effect_order e = effect_order f \<longleftrightarrow> e = f"
  by (cases e; cases f) simp_all

lemma max_effect_Max: "effect_order (max_effect e fs) = Max (effect_order ` set (e # fs))"
proof (induction fs arbitrary: e)
  case (Cons f fs)
  then show ?case by (cases "fs = []") (auto simp: max_def)
qed simp

lemma max_effect_ge: "f \<in> set (e # fs) \<Longrightarrow> effect_order f \<le> effect_order (max_effect e fs)"
  unfolding max_effect_Max by (rule Max_ge) auto

lemma max_effect_mem: "max_effect e fs \<in> set (e # fs)"
  by (induction fs arbitrary: e) (auto split: if_splits)

lemma max_effect_mset:
  assumes "mset (e # fs) = mset (e' # fs')"
  shows "max_effect e fs = max_effect e' fs'"
proof -
  have "set (e # fs) = set (e' # fs')" using assms by (rule mset_eq_setD)
  then have "effect_order (max_effect e fs) = effect_order (max_effect e' fs')"
    by (simp only: max_effect_Max)
  then show ?thesis by simp
qed

lemma allow_is_least: "effect_order e \<le> effect_order PE_ALLOW \<Longrightarrow> e = PE_ALLOW"
  by (cases e) simp_all

lemma sort_rule_key_unique:
  assumes "mset xs = mset ys" "distinct (map pr_rule_id xs)"
  shows "sort_key rule_key xs = sort_key rule_key ys"
proof -
  have "inj_on rule_key (set xs)"
    using assms(2) by (auto simp: inj_on_def rule_key_def distinct_map)
  then show ?thesis
    using assms(1) mset_eq_setD [OF assms(1)]
    by (intro sort_key_inj_key_eq) simp_all
qed

text \<open>Nothing in the decision depends on the order the rules are stored in.\<close>

lemma filter_res_mset:
  assumes "mset xs = mset ys"
  shows "isl (filter_res p xs) = isl (filter_res p ys)"
    "filter_res p xs = Inr xs' \<Longrightarrow> filter_res p ys = Inr ys' \<Longrightarrow> mset xs' = mset ys'"
proof -
  have "isl (filter_res p zs) \<longleftrightarrow> (\<exists>z\<in>set zs. isl (p z))" for zs
    by (induction zs) (auto simp: bind_res_def split: sum.splits)
  then show "isl (filter_res p xs) = isl (filter_res p ys)"
    using mset_eq_setD [OF assms] by simp
  show "filter_res p xs = Inr xs' \<Longrightarrow> filter_res p ys = Inr ys' \<Longrightarrow> mset xs' = mset ys'"
    using assms by (auto simp: filter_res_Inr)
qed

lemma remdups_length_distinct: "length (remdups xs) = length xs \<longleftrightarrow> distinct xs"
  by simp

lemma filter_res_distinct:
  "filter_res p xs = Inr ys \<Longrightarrow> distinct (map f xs) \<Longrightarrow> distinct (map f (filter q ys))"
  by (auto simp: filter_res_Inr distinct_map_filter)

lemma combine_matched_mset:
  assumes m: "mset (m # ms) = mset (m' # ms')" and d: "distinct (map pr_rule_id (m # ms))"
  shows "combine_matched m ms = combine_matched m' ms'"
proof -
  have "mset (pr_effect m # map pr_effect ms) = mset (pr_effect m' # map pr_effect ms')"
    using m by (metis list.simps(9) mset_map)
  then have eff: "max_effect (pr_effect m) (map pr_effect ms) = max_effect (pr_effect m') (map pr_effect ms')"
    by (rule max_effect_mset)
  have "sort_key rule_key (filter q (m # ms)) = sort_key rule_key (filter q (m' # ms'))" for q
    using m d by (intro sort_rule_key_unique distinct_map_filter) (simp_all only: mset_filter)
  then show ?thesis by (simp only: combine_matched_def Let_def eff)
qed

lemma evaluate_policy_mset:
  assumes "evaluate_policy hash \<lparr>pe_version = v, pe_allowed_facts = allowed, pe_rules = rs\<rparr> action facts = Inr d"
    "mset rs = mset rs'" "distinct (map pr_rule_id rs)"
  shows "evaluate_policy hash \<lparr>pe_version = v, pe_allowed_facts = allowed, pe_rules = rs'\<rparr> action facts = Inr d"
proof -
  let ?c = "filter (\<lambda>r. pr_applies_to r = action)"
  have c: "mset (?c rs) = mset (?c rs')" using assms(2) by simp
  have miss: "missing_facts (?c rs) facts = missing_facts (?c rs') facts"
    using mset_eq_setD [OF c] by (simp add: missing_facts_def)
  have known: "list_all (\<lambda>k. k \<in> set allowed) (dkeys facts)"
    using assms(1) by (auto simp: evaluate_policy_def split: if_splits)
  show ?thesis
  proof (cases "missing_facts (?c rs) facts")
    case True
    then show ?thesis using assms(1) known miss by (simp add: evaluate_policy_def Let_def)
  next
    case False
    then obtain ms where ms: "filter_res (policy_matches facts) (?c rs) = Inr ms"
      using assms(1) known by (auto simp: evaluate_policy_def Let_def bind_res_eq_Inr)
    then have "\<not> isl (filter_res (policy_matches facts) (?c rs'))"
      using filter_res_mset(1) [OF c, of "policy_matches facts"] by simp
    then obtain ms' where ms': "filter_res (policy_matches facts) (?c rs') = Inr ms'"
      by (cases "filter_res (policy_matches facts) (?c rs')") auto
    have mm: "mset ms = mset ms'" using filter_res_mset(2) [OF c ms ms'] .
    show ?thesis
    proof (cases ms)
      case Nil
      then show ?thesis using mm assms(1) known miss False ms ms' by (simp add: evaluate_policy_def Let_def)
    next
      case (Cons m ts)
      then obtain m' ts' where c': "ms' = m' # ts'" using mm by (cases ms') auto
      have "combine_matched m ts = combine_matched m' ts'"
        using mm filter_res_distinct [OF ms, of pr_rule_id "\<lambda>_. True"] assms(3) Cons c'
        by (intro combine_matched_mset) (simp_all add: distinct_map_filter)
      then show ?thesis
        using assms(1) known miss False ms ms' Cons c' by (simp add: evaluate_policy_def Let_def)
    qed
  qed
qed

section \<open>Properties\<close>

text \<open>C17: an allowed action is allowed by every rule that speaks about it. If \<open>evaluate\<close> says allow,
  then no fact was unapproved, no fact a rule for the action needs was missing, at least one rule
  matched, and every rule for the action that matches the facts has effect allow: one matching deny
  or handoff rule overrides any number and any priority of allow rules.\<close>

theorem policy_allow_unanimous:
  assumes "evaluate_policy hash e action facts = Inr d" "pd_effect d = PE_ALLOW"
  shows "set (dkeys facts) \<subseteq> set (pe_allowed_facts e) \<and>
    (\<exists>r\<in>set (pe_rules e). pr_applies_to r = action \<and> policy_matches facts r = Inr True) \<and>
    (\<forall>r\<in>set (pe_rules e). pr_applies_to r = action \<longrightarrow>
       (\<forall>c\<in>set (pr_conditions r). dget facts (fc_fact c) \<noteq> None) \<and>
       (policy_matches facts r = Inr True \<longrightarrow> pr_effect r = PE_ALLOW))"
proof -
  let ?cs = "filter (\<lambda>r. pr_applies_to r = action) (pe_rules e)"
  have known: "list_all (\<lambda>k. k \<in> set (pe_allowed_facts e)) (dkeys facts)"
    and present: "\<not> missing_facts ?cs facts"
    using assms by (auto simp: evaluate_policy_def Let_def split: if_splits)
  obtain ms where m: "filter_res (policy_matches facts) ?cs = Inr ms"
    using assms known present by (auto simp: evaluate_policy_def Let_def bind_res_eq_Inr)
  obtain r rs where rs: "ms = r # rs" and eff: "max_effect (pr_effect r) (map pr_effect rs) = PE_ALLOW"
    using assms known present m by (cases ms) (auto simp: evaluate_policy_def combine_matched_def Let_def)
  have "pr_effect s = PE_ALLOW" if "s \<in> set ms" for s
    using max_effect_ge [of "pr_effect s" "pr_effect r" "map pr_effect rs"] that rs eff
    by (auto intro: allow_is_least)
  moreover have "set ms = {s \<in> set ?cs. policy_matches facts s = Inr True}"
    using m by (auto simp: filter_res_Inr)
  moreover have "r \<in> set ms" using rs by simp
  ultimately show ?thesis
    using known present by (fastforce simp: missing_facts_def list_all_iff)
qed

definition demo_policy :: policy_engine where
  "demo_policy =
     \<lparr>pe_version = ''v1'', pe_allowed_facts = [''request.authenticated''],
      pe_rules = [\<lparr>pr_rule_id = ''allow-authenticated-get_order'', pr_applies_to = ''get_order'',
        pr_priority = 100,
        pr_conditions = [\<lparr>fc_fact = ''request.authenticated'', fc_op = ''eq'', fc_value = PBool True\<rparr>],
        pr_effect = PE_ALLOW, pr_reason_code = ''AUTHENTICATED_READ''\<rparr>]\<rparr>"

lemma policy_allow_unanimous_witness:
  "\<exists>r\<in>set (pe_rules demo_policy). policy_matches [(''request.authenticated'', PBool True)] r = Inr True"
proof -
  obtain d where "evaluate_policy (\<lambda>_. ''h'') demo_policy ''get_order'' [(''request.authenticated'', PBool True)] = Inr d"
    "pd_effect d = PE_ALLOW"
    by (simp add: evaluate_policy_def demo_policy_def dkeys_def missing_facts_def policy_matches_def
        matches_condition_def combine_matched_def Let_def)
  then show ?thesis using policy_allow_unanimous by blast
qed

text \<open>The verdict does not depend on the order of the rules: two engines whose constructor
  accepted the same rules in different orders give the same decision, rule ids and reason included,
  and raise on the same facts.\<close>

theorem policy_order_irrelevant:
  assumes "make_policy_engine v allowed rules = Inr e" "make_policy_engine v allowed rules' = Inr e'"
    "mset rules = mset rules'"
  shows "(\<forall>d. evaluate_policy hash e action facts = Inr d \<longleftrightarrow> evaluate_policy hash e' action facts = Inr d)"
proof -
  have e: "e = \<lparr>pe_version = v, pe_allowed_facts = allowed, pe_rules = rules\<rparr>"
    "e' = \<lparr>pe_version = v, pe_allowed_facts = allowed, pe_rules = rules'\<rparr>"
    "distinct (map pr_rule_id rules)"
    using assms(1,2) remdups_length_distinct [of "map pr_rule_id rules"]
    by (auto simp: make_policy_engine_def bind_res_eq_Inr split: if_splits)
  have one_way: "evaluate_policy hash \<lparr>pe_version = v, pe_allowed_facts = allowed, pe_rules = rs'\<rparr> action facts = Inr d"
    if "evaluate_policy hash \<lparr>pe_version = v, pe_allowed_facts = allowed, pe_rules = rs\<rparr> action facts = Inr d"
      "mset rs = mset rs'" "distinct (map pr_rule_id rs)" for rs rs' d
    using that by (rule evaluate_policy_mset)
  have "distinct (map pr_rule_id rules')"
    using e(3) assms(3) by (metis mset_eq_imp_distinct_iff mset_map)
  then show ?thesis using one_way e assms(3) by metis
qed

definition deny_rule :: policy_rule where
  "deny_rule =
     \<lparr>pr_rule_id = ''deny-large'', pr_applies_to = ''get_order'', pr_priority = 1,
      pr_conditions = [\<lparr>fc_fact = ''amount'', fc_op = ''gt'', fc_value = PInt 100\<rparr>],
      pr_effect = PE_DENY, pr_reason_code = ''TOO_LARGE''\<rparr>"

definition two_rules :: "policy_rule list" where
  "two_rules = deny_rule # pe_rules demo_policy"

definition two_rule_engine :: "policy_rule list \<Rightarrow> policy_engine" where
  "two_rule_engine rs =
     \<lparr>pe_version = ''v1'', pe_allowed_facts = [''request.authenticated'', ''amount''], pe_rules = rs\<rparr>"

lemma policy_order_irrelevant_witness:
  "\<forall>d. evaluate_policy (\<lambda>_. ''h'') (two_rule_engine two_rules) ''get_order''
         [(''request.authenticated'', PBool True), (''amount'', PInt 250)] = Inr d \<longleftrightarrow>
       evaluate_policy (\<lambda>_. ''h'') (two_rule_engine (rev two_rules)) ''get_order''
         [(''request.authenticated'', PBool True), (''amount'', PInt 250)] = Inr d"
proof -
  have m: "make_policy_engine ''v1'' [''request.authenticated'', ''amount''] rs = Inr (two_rule_engine rs)"
    if "rs = two_rules \<or> rs = rev two_rules" for rs
    using that by (auto simp: make_policy_engine_def two_rule_engine_def two_rules_def demo_policy_def
        deny_rule_def check_condition_def policy_operators_def)
  show ?thesis
    using policy_order_irrelevant [OF m m, of two_rules "rev two_rules"] by simp
qed

end
