(* ===== verification/MutationSafety.thy ===== *)
theory MutationSafety
  imports Protocols
begin

text \<open>
  \<open>src/mutation_safety.py\<close>: the states of a durable mutation and the values that cross the mutation
  boundary, and \<open>MutationGuards\<close>, the in-process semantics of confirmation tokens and idempotency
  records. Its docstring calls it the reference the SQL repository mirrors; the theory of that
  repository proves so. The lock makes each operation one step. The clock is an argument.
\<close>

section \<open>States and values\<close>

datatype execution_status = MX_RESERVED | MX_IN_PROGRESS | MX_SUCCEEDED | MX_FAILED | MX_UNKNOWN

fun execution_status_value :: "execution_status \<Rightarrow> string" where
  "execution_status_value MX_RESERVED = ''reserved''"
| "execution_status_value MX_IN_PROGRESS = ''in_progress''"
| "execution_status_value MX_SUCCEEDED = ''succeeded''"
| "execution_status_value MX_FAILED = ''failed''"
| "execution_status_value MX_UNKNOWN = ''unknown''"

definition parse_execution_status :: "string \<Rightarrow> execution_status option" where
  "parse_execution_status v =
     find (\<lambda>s. execution_status_value s = v) [MX_RESERVED, MX_IN_PROGRESS, MX_SUCCEEDED, MX_FAILED, MX_UNKNOWN]"

lemma parse_execution_status_value [simp]: "parse_execution_status (execution_status_value s) = Some s"
  by (cases s) (simp_all add: parse_execution_status_def)

lemma execution_status_value_inject [simp]:
  "execution_status_value s = execution_status_value t \<longleftrightarrow> s = t"
  by (cases s; cases t) simp_all

lemma parse_execution_status_Some: "parse_execution_status v = Some s \<Longrightarrow> v = execution_status_value s"
  unfolding parse_execution_status_def find_Some_iff by auto

datatype adapter_status = MA_SUCCEEDED | MA_REJECTED | MA_UNKNOWN

record mutation_intent =
  mi_record_id :: string
  mi_tenant_id :: string
  mi_operation :: string
  mi_fingerprint :: string

record stored_execution =
  sx_intent :: mutation_intent
  sx_status :: execution_status
  sx_reference :: "string option"
  sx_response :: "pydict option"

record execution_claim =
  cl_execution :: stored_execution
  cl_acquired :: bool

record adapter_result =
  ar_status :: adapter_status
  ar_reference :: "string option"
  ar_response :: pydict

record mutation_completion =
  mc_record_id :: string
  mc_fingerprint :: string
  mc_status :: execution_status
  mc_reference :: "string option"
  mc_response :: pydict

record guard_token =
  gt_hash :: string
  gt_tenant :: string
  gt_actor :: string
  gt_preview :: string
  gt_expires :: int
  gt_version :: int
  gt_status :: string

record guard_record =
  gr_tenant :: string
  gr_operation :: string
  gr_key :: string
  gr_fingerprint :: string
  gr_status :: string

section \<open>The guards\<close>

record guards =
  mg_tokens :: "(string \<times> guard_token) list"
  mg_idempotency :: "((string \<times> string \<times> string) \<times> guard_record) list"

definition no_guards :: guards where
  "no_guards = \<lparr>mg_tokens = [], mg_idempotency = []\<rparr>"

definition register_token :: "guard_token \<Rightarrow> guards \<Rightarrow> unit result \<times> guards" where
  "register_token t g =
     (if dget (mg_tokens g) (gt_hash t) \<noteq> None then (Inl (ValueError ''duplicate confirmation token''), g)
      else (Inr (), g\<lparr>mg_tokens := dset (mg_tokens g) (gt_hash t) t\<rparr>))"

definition consumed_token :: "guard_token \<Rightarrow> guard_token" where
  "consumed_token t = t\<lparr>gt_status := ''consumed'', gt_version := gt_version t + 1\<rparr>"

definition consume_token ::
  "int \<Rightarrow> string \<Rightarrow> string \<Rightarrow> string \<Rightarrow> int \<Rightarrow> guards \<Rightarrow> guard_token result \<times> guards" where
  "consume_token now h tenant actor version g =
     (case dget (mg_tokens g) h of
        None \<Rightarrow> (Inl (OtherError ''PermissionError''), g)
      | Some t \<Rightarrow>
          if gt_tenant t \<noteq> tenant \<or> gt_actor t \<noteq> actor then (Inl (OtherError ''PermissionError''), g)
          else if gt_status t \<noteq> ''waiting'' \<or> gt_expires t \<le> now \<or> gt_version t \<noteq> version
          then (Inl (ValueError ''confirmation token is stale''), g)
          else (Inr (consumed_token t), g\<lparr>mg_tokens := dset (mg_tokens g) h (consumed_token t)\<rparr>))"

definition guard_key :: "guard_record \<Rightarrow> string \<times> string \<times> string" where
  "guard_key r = (gr_tenant r, gr_operation r, gr_key r)"

definition reserve_idempotency :: "guard_record \<Rightarrow> guards \<Rightarrow> guard_record result \<times> guards" where
  "reserve_idempotency r g =
     (case dget (mg_idempotency g) (guard_key r) of
        Some old \<Rightarrow>
          if gr_fingerprint old \<noteq> gr_fingerprint r then (Inl (ValueError ''idempotency fingerprint conflict''), g)
          else (Inr old, g)
      | None \<Rightarrow> (Inr r, g\<lparr>mg_idempotency := dset (mg_idempotency g) (guard_key r) r\<rparr>))"

section \<open>Interleavings\<close>

text \<open>Every method is one step under the lock, so concurrent callers are sequences of operations.\<close>

datatype guard_op =
    Register guard_token
  | Consume int string string string int
  | Reserve guard_record

datatype guard_reply =
    Registered "unit result"
  | Consumed string "guard_token result"
  | Reserved "guard_record result"

fun guard_step :: "guard_op \<Rightarrow> guards \<Rightarrow> guard_reply \<times> guards" where
  "guard_step (Register t) g = map_prod Registered id (register_token t g)"
| "guard_step (Consume now h tenant actor version) g =
     map_prod (Consumed h) id (consume_token now h tenant actor version g)"
| "guard_step (Reserve r) g = map_prod Reserved id (reserve_idempotency r g)"

fun guard_run :: "guard_op list \<Rightarrow> guards \<Rightarrow> guard_reply list \<times> guards" where
  "guard_run [] g = ([], g)"
| "guard_run (x # xs) g =
     (let (r, g) = guard_step x g; (rs, g) = guard_run xs g in (r # rs, g))"

fun consumes :: "string \<Rightarrow> guard_reply \<Rightarrow> bool" where
  "consumes h (Consumed h' r) = (h' = h \<and> \<not> isl r)"
| "consumes h _ = False"

definition spent :: "string \<Rightarrow> guards \<Rightarrow> bool" where
  "spent h g \<longleftrightarrow> (\<exists>t. dget (mg_tokens g) h = Some t \<and> gt_status t \<noteq> ''waiting'')"

lemma consume_token_Inr:
  "consume_token now h tenant actor version g = (Inr u, g') \<longleftrightarrow>
     (\<exists>t. dget (mg_tokens g) h = Some t \<and> gt_tenant t = tenant \<and> gt_actor t = actor \<and>
        gt_status t = ''waiting'' \<and> now < gt_expires t \<and> gt_version t = version \<and> u = consumed_token t \<and>
        g' = g\<lparr>mg_tokens := dset (mg_tokens g) h (consumed_token t)\<rparr>)"
  by (auto simp: consume_token_def split: option.splits if_splits)

lemma consume_spends: "consume_token now h tenant actor version g = (Inr u, g') \<Longrightarrow> spent h g'"
  by (auto simp: consume_token_Inr spent_def consumed_token_def)

lemma spent_step: "spent h g \<Longrightarrow> guard_step x g = (r, g') \<Longrightarrow> spent h g' \<and> \<not> consumes h r"
  by (cases x)
    (auto simp: spent_def register_token_def consume_token_def reserve_idempotency_def consumed_token_def
      split: option.splits if_splits)

lemma spent_run: "spent h g \<Longrightarrow> guard_run xs g = (rs, g') \<Longrightarrow> spent h g' \<and> filter (consumes h) rs = []"
proof (induction xs arbitrary: g rs)
  case (Cons x xs)
  then show ?case by (auto simp: Let_def dest: spent_step split: prod.splits)
qed simp

lemma consumes_spends:
  assumes "guard_step x g = (r, g')" "consumes h r"
  shows "spent h g'"
proof (cases x)
  case (Consume now h' tenant actor version)
  then obtain u where "consume_token now h' tenant actor version g = (Inr u, g')" "h' = h"
    using assms by (auto simp: isl_def map_prod_def split: prod.splits) (metis sum.exhaust_sel)
  then show ?thesis using consume_spends by blast
qed (use assms in \<open>auto simp: map_prod_def split: prod.splits\<close>)

lemma reserved_step: "guard_step x g = (r, g') \<Longrightarrow> map_of (mg_idempotency g) \<subseteq>\<^sub>m map_of (mg_idempotency g')"
  by (cases x)
    (auto simp: register_token_def consume_token_def reserve_idempotency_def map_le_def
      split: option.splits if_splits)

lemma reserved_run: "map_of (mg_idempotency g) \<subseteq>\<^sub>m map_of (mg_idempotency (snd (guard_run xs g)))"
proof (induction xs arbitrary: g)
  case (Cons x xs)
  obtain r g' where g': "guard_step x g = (r, g')" by force
  show ?case
    using map_le_trans [OF reserved_step [OF g'] Cons.IH [of g']] g' by (simp add: Let_def case_prod_beta)
qed simp

lemma consumed_once: "length (filter (consumes h) (fst (guard_run xs g))) \<le> 1"
proof (induction xs arbitrary: g)
  case (Cons x xs)
  obtain r g' where r: "guard_step x g = (r, g')" by force
  obtain rs g'' where rs: "guard_run xs g' = (rs, g'')" by force
  show ?case
  proof (cases "consumes h r")
    case True
    then have "filter (consumes h) rs = []" using consumes_spends [OF r] spent_run rs by metis
    then show ?thesis using r rs True by simp
  next
    case False
    then show ?thesis using r rs Cons.IH [of g'] by simp
  qed
qed simp

text \<open>A confirmation token is consumed at most once. In every interleaving of registrations,
  consumptions and reservations of all callers, at most one consumption of a token hash succeeds, and
  a reserved idempotency key keeps
  the record, and so the fingerprint, it was first reserved with.\<close>

theorem token_consumed_at_most_once:
  "length (filter (consumes h) (fst (guard_run xs g))) \<le> 1 \<and>
   map_of (mg_idempotency g) \<subseteq>\<^sub>m map_of (mg_idempotency (snd (guard_run xs g)))"
  using consumed_once reserved_run by blast

end
