(* ===== verification/Database.thy ===== *)
theory Database
  imports RunStateMachine MutationSafety
begin

text \<open>
  The tables of the runtime database as \<open>infra/migrations/versions\<close> creates them, each a list of
  rows in the order of insertion, and the statements the repositories are built from. A statement
  returns the changed database or the error PostgreSQL reports: a row that breaks a \<open>CHECK\<close>, a key or
  a unique index is an \<open>IntegrityError\<close>, an over-long string a \<open>DataError\<close>, the exception of a trigger
  a \<open>DBAPIError\<close>. A transaction that fails leaves the database as it was; transactions are serial,
  the interleavings of workers are sequences of them.

  A UUID and a hash are strings, a time is a number of microseconds. A \<open>jsonb\<close> column holds the value
  itself. Columns the modelled code neither reads nor writes are left out.
\<close>

section \<open>Rows\<close>

record run_pins =
  pin_policy_version :: string
  pin_model_config_hash :: string
  pin_prompt_version :: string
  pin_max_steps :: int
  pin_deadline_at :: int

record run_times =
  rt_accepted_at :: "int option"
  rt_dispatch_started_at :: "int option"
  rt_terminal_at :: "int option"
  rt_response_published_at :: "int option"
  rt_created_at :: int
  rt_updated_at :: int

record run_row =
  rr_run_id :: string
  rr_conversation_id :: string
  rr_parent_run_id :: "string option"
  rr_tenant_id :: string
  rr_actor_ref :: string
  rr_status :: run_status
  rr_mode :: "execution_mode option"
  rr_workflow_id :: "string option"
  rr_workflow_version :: "string option"
  rr_pins :: run_pins
  rr_step :: string
  rr_step_count :: int
  rr_reason :: "string option"
  rr_checkpoint_seq :: int
  rr_times :: run_times
  rr_version :: int

record event_row =
  ew_event_id :: string
  ew_run_id :: string
  ew_seq :: int
  ew_type :: string
  ew_schema :: string
  ew_step :: string
  ew_payload :: pyval
  ew_hash :: string
  ew_causation :: "string option"
  ew_correlation :: string
  ew_created_at :: int

record checkpoint_row =
  cp_run_id :: string
  cp_seq :: int
  cp_step :: string
  cp_state :: run_context
  cp_hash :: string
  cp_from :: int
  cp_to :: int

record outbox_row =
  ox_outbox_id :: string
  ox_run_id :: string
  ox_event_id :: string
  ox_topic :: string
  ox_payload :: pydict
  ox_status :: string
  ox_attempts :: int
  ox_available_at :: int
  ox_locked_at :: "int option"
  ox_published_at :: "int option"
  ox_last_error :: "string option"
  ox_dead_lettered_at :: "int option"

record idempotency_row =
  im_record_id :: string
  im_tenant_id :: string
  im_operation :: string
  im_key_hash :: string
  im_fingerprint :: string
  im_status :: string
  im_reference :: "string option"
  im_response :: "pydict option"
  im_expires_at :: "int option"
  im_version :: int

record token_row =
  tk_token_id :: string
  tk_hash :: string
  tk_run_id :: string
  tk_tenant_id :: string
  tk_actor_ref :: string
  tk_mutation_type :: string
  tk_resource_ref :: string
  tk_preview_hash :: string
  tk_arguments_hash :: string
  tk_policy_version :: string
  tk_workflow_version :: string
  tk_status :: string
  tk_expires_at :: int
  tk_created_at :: int
  tk_version :: int

record conversation_row =
  cv_id :: string
  cv_tenant_id :: string
  cv_actor_id :: string
  cv_client_request_id :: string
  cv_status :: string
  cv_created_at :: int
  cv_updated_at :: int

record message_row =
  ms_message_id :: string
  ms_conversation_id :: string
  ms_run_id :: "string option"
  ms_client_id :: "string option"
  ms_role :: string
  ms_content :: string
  ms_hash :: string
  ms_sequence :: int
  ms_terminal :: bool
  ms_created_at :: int

record ticket_row =
  hd_ticket_id :: string
  hd_run_id :: string
  hd_tenant_id :: string
  hd_actor_ref :: string
  hd_reason_code :: string
  hd_status :: string
  hd_operation :: "string option"
  hd_details :: pyval
  hd_created_at :: int
  hd_resolved_at :: "int option"
  hd_resolution :: "string option"

record audit_row =
  au_id :: string
  au_tenant_id :: "string option"
  au_actor_ref :: "string option"
  au_event_type :: string
  au_payload :: pydict
  au_hash :: string
  au_created_at :: int

record runtime_db =
  db_conversations :: "conversation_row list"
  db_messages :: "message_row list"
  db_runs :: "run_row list"
  db_events :: "event_row list"
  db_checkpoints :: "checkpoint_row list"
  db_outbox :: "outbox_row list"
  db_idempotency :: "idempotency_row list"
  db_tokens :: "token_row list"
  db_tickets :: "ticket_row list"
  db_audit :: "audit_row list"

definition empty_db :: runtime_db where
  "empty_db = \<lparr>db_conversations = [], db_messages = [], db_runs = [], db_events = [], db_checkpoints = [],
     db_outbox = [], db_idempotency = [], db_tokens = [], db_tickets = [], db_audit = []\<rparr>"

section \<open>Transactions\<close>

definition transaction :: "runtime_db \<Rightarrow> ('a \<times> runtime_db) result \<Rightarrow> 'a result \<times> runtime_db" where
  "transaction db r = (case r of Inl e \<Rightarrow> (Inl e, db) | Inr (x, db') \<Rightarrow> (Inr x, db'))"

lemma transaction_simps [simp]:
  "transaction db (Inl e) = (Inl e, db)" "transaction db (Inr (x, db')) = (Inr x, db')"
  by (simp_all add: transaction_def)

lemma transaction_Inr: "transaction db r = (Inr x, db') \<longleftrightarrow> r = Inr (x, db')"
  by (auto simp: transaction_def split: sum.splits)

lemma transaction_Inl: "transaction db r = (Inl e, db') \<longleftrightarrow> r = Inl e \<and> db' = db"
  by (auto simp: transaction_def split: sum.splits)

definition update_rows :: "('r \<Rightarrow> bool) \<Rightarrow> ('r \<Rightarrow> 'r) \<Rightarrow> 'r list \<Rightarrow> 'r list" where
  "update_rows p f rows = map (\<lambda>r. if p r then f r else r) rows"

definition row_count :: "('r \<Rightarrow> bool) \<Rightarrow> 'r list \<Rightarrow> nat" where
  "row_count p rows = length (filter p rows)"

lemma update_rows_Nil [simp]: "update_rows p f [] = []"
  by (simp add: update_rows_def)

lemma update_rows_Cons [simp]: "update_rows p f (r # rs) = (if p r then f r else r) # update_rows p f rs"
  by (simp add: update_rows_def)

lemma length_update_rows [simp]: "length (update_rows p f rows) = length rows"
  by (simp add: update_rows_def)

lemma map_update_rows_same: "(\<And>r. p r \<Longrightarrow> g (f r) = g r) \<Longrightarrow> map g (update_rows p f rows) = map g rows"
  by (induction rows) auto

lemma update_rows_none: "row_count p rows = 0 \<Longrightarrow> update_rows p f rows = rows"
  by (induction rows) (auto simp: row_count_def split: if_splits)

text \<open>\<open>one_or_none\<close> of a query on a key.\<close>

definition select_one :: "('r \<Rightarrow> bool) \<Rightarrow> 'r list \<Rightarrow> 'r option" where
  "select_one p rows = find p rows"

lemma select_one_simps [simp]:
  "select_one p [] = None"
  "select_one p (r # rs) = (if p r then Some r else select_one p rs)"
  by (simp_all add: select_one_def)

lemma select_one_Some: "select_one p rows = Some r \<Longrightarrow> r \<in> set rows \<and> p r"
  by (induction rows) (auto split: if_splits)

lemma select_one_None: "select_one p rows = None \<longleftrightarrow> (\<forall>r\<in>set rows. \<not> p r)"
  by (induction rows) auto

lemma select_one_distinct:
  assumes "distinct (map k rows)" "r \<in> set rows" "p r" "\<And>x. p x \<Longrightarrow> k x = k r"
  shows "select_one p rows = Some r"
  using assms(1,2)
proof (induction rows)
  case (Cons a rows)
  have "\<not> p a" if "r \<in> set rows"
    using Cons.prems(1) that assms(4) [of a] by (metis distinct.simps(2) image_eqI list.set_map list.simps(9))
  then show ?case using Cons assms(3) by auto
qed simp

lemma select_one_update:
  "(\<And>r. q (f r) = q r) \<Longrightarrow>
     select_one q (update_rows p f rows) = map_option (\<lambda>r. if p r then f r else r) (select_one q rows)"
  by (induction rows) auto

lemma row_count_Cons: "row_count p (r # rows) = (if p r then 1 else 0) + row_count p rows"
  by (simp add: row_count_def)

lemma row_count_0: "row_count p rows = 0 \<longleftrightarrow> (\<forall>r\<in>set rows. \<not> p r)"
  by (simp add: row_count_def filter_empty_conv)

lemma row_count_one:
  assumes "distinct (map k rows)" "\<And>x y. p x \<Longrightarrow> p y \<Longrightarrow> k x = k y"
  shows "row_count p rows \<le> 1"
  using assms(1)
proof (induction rows)
  case (Cons a rows)
  have "row_count p rows = 0" if "p a"
    using Cons.prems that assms(2) by (metis row_count_0 distinct.simps(2) image_eqI list.set_map list.simps(9))
  then show ?case using Cons by (auto simp: row_count_Cons)
qed (simp add: row_count_def)

section \<open>The table of runs\<close>

text \<open>\<open>ck_agent_runs_dual_executor_shape\<close>, \<open>..._mode_matches_status\<close> and \<open>..._workflow_states\<close>.\<close>

definition executor_shape :: "run_row \<Rightarrow> bool" where
  "executor_shape r \<longleftrightarrow>
     (rr_mode r = None \<and> rr_workflow_id r = None \<and> rr_workflow_version r = None \<and>
      rr_status r \<in> {RS_CREATED, RS_ROUTING, RS_WAITING_USER, RS_WAITING_HUMAN, RS_FAILED, RS_CANCELLED,
        RS_EXPIRED}) \<or>
     (rr_mode r = Some EM_READONLY_LOOP \<and> rr_workflow_id r \<noteq> None \<and> rr_workflow_version r \<noteq> None) \<or>
     (rr_mode r = Some EM_WORKFLOW \<and> rr_workflow_id r \<noteq> None \<and> rr_workflow_version r \<noteq> None)"

definition mode_matches_status :: "run_row \<Rightarrow> bool" where
  "mode_matches_status r \<longleftrightarrow>
     (rr_status r \<noteq> RS_RUNNING_READONLY \<or> rr_mode r = Some EM_READONLY_LOOP) \<and>
     (rr_status r \<notin> {RS_RUNNING_WORKFLOW, RS_WAITING_CONFIRMATION, RS_COMMITTING, RS_VERIFYING} \<or>
      rr_mode r = Some EM_WORKFLOW)"

definition run_checks :: "run_row \<Rightarrow> bool" where
  "run_checks r \<longleftrightarrow>
     0 \<le> rr_step_count r \<and> 1 \<le> pin_max_steps (rr_pins r) \<and> pin_max_steps (rr_pins r) \<le> 6 \<and>
     executor_shape r \<and> mode_matches_status r"

definition run_widths :: "run_row \<Rightarrow> bool" where
  "run_widths r \<longleftrightarrow>
     py_len (rr_tenant_id r) \<le> 64 \<and> py_len (rr_actor_ref r) \<le> 128 \<and>
     opt_field (\<lambda>s. py_len s \<le> 64) (rr_workflow_id r) \<and> opt_field (\<lambda>s. py_len s \<le> 32) (rr_workflow_version r) \<and>
     py_len (pin_policy_version (rr_pins r)) \<le> 64 \<and> py_len (pin_model_config_hash (rr_pins r)) \<le> 80 \<and>
     py_len (pin_prompt_version (rr_pins r)) \<le> 64 \<and> py_len (rr_step r) \<le> 64 \<and>
     opt_field (\<lambda>s. py_len s \<le> 128) (rr_reason r)"

text \<open>\<open>uq_agent_runs_active_conversation\<close>: at most one run that is not terminal per conversation.\<close>

definition one_active_run :: "run_row list \<Rightarrow> bool" where
  "one_active_run rows \<longleftrightarrow> distinct (map rr_conversation_id (filter (\<lambda>r. \<not> run_terminal (rr_status r)) rows))"

definition runs_ok :: "run_row list \<Rightarrow> bool" where
  "runs_ok rows \<longleftrightarrow> distinct (map rr_run_id rows) \<and> list_all run_checks rows \<and> one_active_run rows"

text \<open>The trigger \<open>guard_agent_run_executor_selection\<close>.\<close>

definition executor_selection_kept :: "run_row \<Rightarrow> run_row \<Rightarrow> bool" where
  "executor_selection_kept old new \<longleftrightarrow>
     \<not> (rr_mode old \<noteq> None \<and> rr_mode new \<noteq> rr_mode old) \<and>
     \<not> (rr_workflow_id old \<noteq> None \<and>
        (rr_workflow_id new \<noteq> rr_workflow_id old \<or> rr_workflow_version new \<noteq> rr_workflow_version old)) \<and>
     \<not> (rr_mode old = None \<and> rr_mode new \<noteq> None \<and> rr_status old \<notin> {RS_CREATED, RS_ROUTING})"

definition insert_run :: "run_row \<Rightarrow> runtime_db \<Rightarrow> (unit \<times> runtime_db) result" where
  "insert_run r db =
     (if \<not> run_widths r then Inl (OtherError ''DataError'')
      else if \<not> runs_ok (db_runs db @ [r]) then Inl IntegrityError
      else Inr ((), db\<lparr>db_runs := db_runs db @ [r]\<rparr>))"

definition update_runs ::
  "(run_row \<Rightarrow> bool) \<Rightarrow> (run_row \<Rightarrow> run_row) \<Rightarrow> runtime_db \<Rightarrow> (nat \<times> runtime_db) result" where
  "update_runs p f db =
     (let changed = filter p (db_runs db); rows = update_rows p f (db_runs db) in
      if \<not> list_all (\<lambda>r. executor_selection_kept r (f r)) changed then Inl (OtherError ''DBAPIError'')
      else if \<not> list_all (\<lambda>r. run_widths (f r)) changed then Inl (OtherError ''DataError'')
      else if \<not> runs_ok rows then Inl IntegrityError
      else Inr (length changed, db\<lparr>db_runs := rows\<rparr>))"

definition load_run_row :: "string \<Rightarrow> string \<Rightarrow> runtime_db \<Rightarrow> run_row option" where
  "load_run_row run_id tenant db = select_one (\<lambda>r. rr_run_id r = run_id \<and> rr_tenant_id r = tenant) (db_runs db)"

lemma insert_run_Inr:
  "insert_run r db = Inr (u, db') \<longleftrightarrow>
     run_widths r \<and> runs_ok (db_runs db @ [r]) \<and> db' = db\<lparr>db_runs := db_runs db @ [r]\<rparr>"
  by (auto simp: insert_run_def)

lemma guard3_Inr:
  "(if \<not> a then Inl x else if \<not> b then Inl y else if \<not> c then Inl z else Inr v) = Inr w \<longleftrightarrow> a \<and> b \<and> c \<and> w = v"
  by auto

lemma update_runs_Inr:
  "update_runs p f db = Inr (n, db') \<longleftrightarrow>
     n = row_count p (db_runs db) \<and> db' = db\<lparr>db_runs := update_rows p f (db_runs db)\<rparr> \<and>
     list_all (\<lambda>r. executor_selection_kept r (f r)) (filter p (db_runs db)) \<and>
     list_all (\<lambda>r. run_widths (f r)) (filter p (db_runs db)) \<and> runs_ok (update_rows p f (db_runs db))"
  unfolding update_runs_def Let_def row_count_def guard3_Inr prod.inject by blast

lemma runs_okD: "runs_ok rows \<Longrightarrow> distinct (map rr_run_id rows)"
  by (simp add: runs_ok_def)

lemma load_run_rowD: "load_run_row run_id tenant db = Some r \<Longrightarrow>
    r \<in> set (db_runs db) \<and> rr_run_id r = run_id \<and> rr_tenant_id r = tenant"
  unfolding load_run_row_def by (drule select_one_Some) simp

lemma load_run_rowI:
  "runs_ok (db_runs db) \<Longrightarrow> r \<in> set (db_runs db) \<Longrightarrow> load_run_row (rr_run_id r) (rr_tenant_id r) db = Some r"
  unfolding load_run_row_def by (rule select_one_distinct [OF runs_okD]) auto

section \<open>The append-only tables\<close>

definition insert_event :: "event_row \<Rightarrow> runtime_db \<Rightarrow> (unit \<times> runtime_db) result" where
  "insert_event e db =
     (if \<not> (py_len (ew_type e) \<le> 64 \<and> py_len (ew_schema e) \<le> 16 \<and> py_len (ew_step e) \<le> 64 \<and>
            py_len (ew_hash e) \<le> 80) then Inl (OtherError ''DataError'')
      else if \<not> 0 < ew_seq e \<or> ew_event_id e \<in> set (map ew_event_id (db_events db)) \<or>
        (ew_run_id e, ew_seq e) \<in> set (map (\<lambda>x. (ew_run_id x, ew_seq x)) (db_events db)) \<or>
        ew_run_id e \<notin> set (map rr_run_id (db_runs db)) then Inl IntegrityError
      else Inr ((), db\<lparr>db_events := db_events db @ [e]\<rparr>))"

definition insert_checkpoint :: "checkpoint_row \<Rightarrow> runtime_db \<Rightarrow> (unit \<times> runtime_db) result" where
  "insert_checkpoint c db =
     (if \<not> (py_len (cp_step c) \<le> 64 \<and> py_len (cp_hash c) \<le> 80) then Inl (OtherError ''DataError'')
      else if \<not> 0 < cp_seq c \<or> (cp_run_id c, cp_seq c) \<in> set (map (\<lambda>x. (cp_run_id x, cp_seq x)) (db_checkpoints db)) \<or>
        cp_run_id c \<notin> set (map rr_run_id (db_runs db)) then Inl IntegrityError
      else Inr ((), db\<lparr>db_checkpoints := db_checkpoints db @ [c]\<rparr>))"

definition insert_outbox :: "outbox_row \<Rightarrow> runtime_db \<Rightarrow> (unit \<times> runtime_db) result" where
  "insert_outbox x db =
     (if \<not> py_len (ox_topic x) \<le> 128 then Inl (OtherError ''DataError'')
      else if ox_outbox_id x \<in> set (map ox_outbox_id (db_outbox db)) \<or>
        (ox_event_id x, ox_topic x) \<in> set (map (\<lambda>y. (ox_event_id y, ox_topic y)) (db_outbox db)) \<or>
        ox_run_id x \<notin> set (map rr_run_id (db_runs db)) \<or> ox_event_id x \<notin> set (map ew_event_id (db_events db))
      then Inl IntegrityError
      else Inr ((), db\<lparr>db_outbox := db_outbox db @ [x]\<rparr>))"

text \<open>\<open>COALESCE(MAX(event_seq), 0)\<close> over the events of a run.\<close>

definition last_event_seq :: "string \<Rightarrow> runtime_db \<Rightarrow> int" where
  "last_event_seq run_id db = foldl max 0 (map ew_seq (filter (\<lambda>e. ew_run_id e = run_id) (db_events db)))"

lemma insert_event_Inr:
  "insert_event e db = Inr (u, db') \<Longrightarrow>
     db' = db\<lparr>db_events := db_events db @ [e]\<rparr> \<and> ew_event_id e \<notin> set (map ew_event_id (db_events db)) \<and>
     ew_run_id e \<in> set (map rr_run_id (db_runs db))"
  by (auto simp: insert_event_def split: if_splits)

lemma insert_checkpoint_Inr:
  "insert_checkpoint c db = Inr (u, db') \<Longrightarrow> db' = db\<lparr>db_checkpoints := db_checkpoints db @ [c]\<rparr>"
  by (auto simp: insert_checkpoint_def split: if_splits)

lemma insert_outbox_Inr:
  "insert_outbox x db = Inr (u, db') \<Longrightarrow> db' = db\<lparr>db_outbox := db_outbox db @ [x]\<rparr>"
  by (auto simp: insert_outbox_def split: if_splits)

section \<open>The mutation tables\<close>

definition insert_token :: "token_row \<Rightarrow> runtime_db \<Rightarrow> (unit \<times> runtime_db) result" where
  "insert_token t db =
     (if \<not> (py_len (tk_hash t) \<le> 128 \<and> py_len (tk_tenant_id t) \<le> 64 \<and> py_len (tk_actor_ref t) \<le> 128 \<and>
            py_len (tk_mutation_type t) \<le> 64 \<and> py_len (tk_resource_ref t) \<le> 128 \<and>
            py_len (tk_preview_hash t) \<le> 80 \<and> py_len (tk_arguments_hash t) \<le> 80 \<and>
            py_len (tk_policy_version t) \<le> 64 \<and> py_len (tk_workflow_version t) \<le> 32)
      then Inl (OtherError ''DataError'')
      else if tk_token_id t \<in> set (map tk_token_id (db_tokens db)) \<or> tk_hash t \<in> set (map tk_hash (db_tokens db)) \<or>
        tk_run_id t \<notin> set (map rr_run_id (db_runs db)) then Inl IntegrityError
      else Inr ((), db\<lparr>db_tokens := db_tokens db @ [t]\<rparr>))"

definition update_tokens ::
  "(token_row \<Rightarrow> bool) \<Rightarrow> (token_row \<Rightarrow> token_row) \<Rightarrow> runtime_db \<Rightarrow> (nat \<times> runtime_db) result" where
  "update_tokens p f db =
     Inr (row_count p (db_tokens db), db\<lparr>db_tokens := update_rows p f (db_tokens db)\<rparr>)"

definition idempotency_key :: "idempotency_row \<Rightarrow> string \<times> string \<times> string" where
  "idempotency_key r = (im_tenant_id r, im_operation r, im_key_hash r)"

definition idempotency_widths :: "idempotency_row \<Rightarrow> bool" where
  "idempotency_widths r \<longleftrightarrow> py_len (im_tenant_id r) \<le> 64 \<and> py_len (im_operation r) \<le> 80 \<and>
     py_len (im_key_hash r) \<le> 128 \<and> py_len (im_fingerprint r) \<le> 80 \<and>
     opt_field (\<lambda>s. py_len s \<le> 128) (im_reference r)"

definition idempotency_clash :: "idempotency_row \<Rightarrow> runtime_db \<Rightarrow> bool" where
  "idempotency_clash r db \<longleftrightarrow> im_record_id r \<in> set (map im_record_id (db_idempotency db)) \<or>
     idempotency_key r \<in> set (map idempotency_key (db_idempotency db))"

definition insert_idempotency :: "idempotency_row \<Rightarrow> runtime_db \<Rightarrow> (unit \<times> runtime_db) result" where
  "insert_idempotency r db =
     (if \<not> idempotency_widths r then Inl (OtherError ''DataError'')
      else if idempotency_clash r db then Inl IntegrityError
      else Inr ((), db\<lparr>db_idempotency := db_idempotency db @ [r]\<rparr>))"

definition update_idempotency ::
  "(idempotency_row \<Rightarrow> bool) \<Rightarrow> (idempotency_row \<Rightarrow> idempotency_row) \<Rightarrow> runtime_db \<Rightarrow>
   (nat \<times> runtime_db) result" where
  "update_idempotency p f db =
     (if \<not> list_all (\<lambda>r. idempotency_widths (f r)) (filter p (db_idempotency db))
      then Inl (OtherError ''DataError'')
      else Inr (row_count p (db_idempotency db),
        db\<lparr>db_idempotency := update_rows p f (db_idempotency db)\<rparr>))"

text \<open>Keys and unique indexes of the mutation tables.\<close>

definition mutation_tables_ok :: "runtime_db \<Rightarrow> bool" where
  "mutation_tables_ok db \<longleftrightarrow>
     distinct (map tk_token_id (db_tokens db)) \<and> distinct (map tk_hash (db_tokens db)) \<and>
     distinct (map im_record_id (db_idempotency db)) \<and> distinct (map idempotency_key (db_idempotency db))"

lemma insert_token_Inr:
  "insert_token t db = Inr (u, db') \<Longrightarrow>
     db' = db\<lparr>db_tokens := db_tokens db @ [t]\<rparr> \<and> tk_token_id t \<notin> set (map tk_token_id (db_tokens db)) \<and>
     tk_hash t \<notin> set (map tk_hash (db_tokens db))"
  by (auto simp: insert_token_def split: if_splits)

lemma insert_idempotency_Inr:
  "insert_idempotency r db = Inr (u, db') \<longleftrightarrow>
     db' = db\<lparr>db_idempotency := db_idempotency db @ [r]\<rparr> \<and> idempotency_widths r \<and> \<not> idempotency_clash r db"
  by (auto simp: insert_idempotency_def)

lemma update_tokens_Inr [simp]:
  "update_tokens p f db = Inr (n, db') \<longleftrightarrow>
     n = row_count p (db_tokens db) \<and> db' = db\<lparr>db_tokens := update_rows p f (db_tokens db)\<rparr>"
  by (auto simp: update_tokens_def)

lemma update_idempotency_Inr:
  "update_idempotency p f db = Inr (n, db') \<longleftrightarrow>
     n = row_count p (db_idempotency db) \<and> db' = db\<lparr>db_idempotency := update_rows p f (db_idempotency db)\<rparr> \<and>
     list_all (\<lambda>r. idempotency_widths (f r)) (filter p (db_idempotency db))"
  by (auto simp: update_idempotency_def)

end
