(* ===== verification/Outbox.thy ===== *)
theory Outbox
  imports Database
begin

text \<open>
  \<open>src/repositories/outbox.py\<close>: the outbox table a commit fills and workers empty. A worker leases rows,
  publishes them outside and marks them published, gives them back for a retry, or a sweep puts rows that
  failed too often aside. \<open>now\<close> is the clock of the database in microseconds; an interval is cut to whole
  seconds. Rows are returned in the order of the table, the code relies on no order.
\<close>

section \<open>Operations\<close>

record outbox_lease =
  ol_outbox_id :: string
  ol_run_id :: string
  ol_event_id :: string
  ol_topic :: string
  ol_payload :: pydict
  ol_attempts :: int

definition lease_of :: "outbox_row \<Rightarrow> outbox_lease" where
  "lease_of x = \<lparr>ol_outbox_id = ox_outbox_id x, ol_run_id = ox_run_id x, ol_event_id = ox_event_id x,
     ol_topic = ox_topic x, ol_payload = ox_payload x, ol_attempts = ox_attempts x\<rparr>"

text \<open>\<open>f"{int(delta.total_seconds())} seconds"\<close> for a delta that is not negative.\<close>

definition whole_seconds :: "int \<Rightarrow> int" where
  "whole_seconds us = us div 1000000 * 1000000"

definition leasable :: "int \<Rightarrow> int \<Rightarrow> outbox_row \<Rightarrow> bool" where
  "leasable now lease_for x \<longleftrightarrow>
     (ox_status x = ''pending'' \<and> ox_available_at x \<le> now) \<or>
     (ox_status x = ''publishing'' \<and>
        (case ox_locked_at x of None \<Rightarrow> False | Some t \<Rightarrow> t \<le> now - whole_seconds lease_for))"

definition leased :: "int \<Rightarrow> outbox_row \<Rightarrow> outbox_row" where
  "leased now x = x\<lparr>ox_status := ''publishing'', ox_locked_at := Some now, ox_attempts := ox_attempts x + 1\<rparr>"

definition oldest_ids :: "nat \<Rightarrow> (outbox_row \<Rightarrow> bool) \<Rightarrow> outbox_row list \<Rightarrow> string list" where
  "oldest_ids limit p rows = map ox_outbox_id (take limit (sort_key ox_available_at (filter p rows)))"

definition update_outbox :: "(outbox_row \<Rightarrow> bool) \<Rightarrow> (outbox_row \<Rightarrow> outbox_row) \<Rightarrow> runtime_db \<Rightarrow> nat \<times> runtime_db" where
  "update_outbox p f db = (row_count p (db_outbox db), db\<lparr>db_outbox := update_rows p f (db_outbox db)\<rparr>)"

definition lease_pending :: "int \<Rightarrow> int \<Rightarrow> int \<Rightarrow> runtime_db \<Rightarrow> outbox_lease list result \<times> runtime_db" where
  "lease_pending now limit lease_for db =
     (if \<not> (1 \<le> limit \<and> limit \<le> 100) \<or> lease_for \<le> 0 then (Inl (ValueError ''invalid outbox lease request''), db)
      else (let candidates = oldest_ids (nat limit) (leasable now lease_for) (db_outbox db);
                mine = (\<lambda>x. ox_outbox_id x \<in> set candidates)
            in (Inr (map (lease_of \<circ> leased now) (filter mine (db_outbox db))),
                snd (update_outbox mine (leased now) db))))"

definition publishing :: "string \<Rightarrow> outbox_row \<Rightarrow> bool" where
  "publishing outbox_id x \<longleftrightarrow> ox_outbox_id x = outbox_id \<and> ox_status x = ''publishing''"

definition mark_published :: "int \<Rightarrow> string \<Rightarrow> runtime_db \<Rightarrow> bool \<times> runtime_db" where
  "mark_published now outbox_id db =
     (case update_outbox (publishing outbox_id)
        (\<lambda>x. x\<lparr>ox_status := ''published'', ox_published_at := Some now, ox_locked_at := None\<rparr>) db of
        (n, db) \<Rightarrow> (n = 1, db))"

definition retry_outbox :: "int \<Rightarrow> string \<Rightarrow> string \<Rightarrow> int \<Rightarrow> runtime_db \<Rightarrow> bool result \<times> runtime_db" where
  "retry_outbox now outbox_id error_code delay db =
     (if delay < 0 then (Inl (ValueError ''retry delay must not be negative''), db)
      else if py_len error_code > 500 \<and> row_count (publishing outbox_id) (db_outbox db) > 0
      then (Inl (OtherError ''DataError''), db)
      else (case update_outbox (publishing outbox_id)
        (\<lambda>x. x\<lparr>ox_status := ''pending'', ox_locked_at := None, ox_last_error := Some error_code,
            ox_available_at := now + whole_seconds delay\<rparr>) db of
        (n, db) \<Rightarrow> (Inr (n = 1), db)))"

definition exhausted :: "int \<Rightarrow> outbox_row \<Rightarrow> bool" where
  "exhausted max_attempts x \<longleftrightarrow> ox_status x \<in> {''pending'', ''publishing''} \<and> max_attempts \<le> ox_attempts x"

definition dead_letter :: "int \<Rightarrow> int \<Rightarrow> int \<Rightarrow> runtime_db \<Rightarrow> nat result \<times> runtime_db" where
  "dead_letter now max_attempts limit db =
     (if max_attempts < 1 \<or> \<not> (1 \<le> limit \<and> limit \<le> 1000) then (Inl (ValueError ''invalid dead-letter policy''), db)
      else (let candidates = oldest_ids (nat limit) (exhausted max_attempts) (db_outbox db) in
        case update_outbox (\<lambda>x. ox_outbox_id x \<in> set candidates)
          (\<lambda>x. x\<lparr>ox_status := ''dead_letter'', ox_dead_lettered_at := Some now, ox_locked_at := None,
             ox_last_error := Some (case ox_last_error x of None \<Rightarrow> ''max_attempts'' | Some e \<Rightarrow> e)\<rparr>) db of
          (n, db) \<Rightarrow> (Inr n, db)))"

section \<open>The lifecycle of a row\<close>

fun outbox_next :: "string \<Rightarrow> string \<Rightarrow> bool" where
  "outbox_next s t =
     ((s = ''pending'' \<and> t \<in> {''publishing'', ''dead_letter''}) \<or>
      (s = ''publishing'' \<and> t \<in> {''publishing'', ''published'', ''pending'', ''dead_letter''}))"

definition outbox_final :: "string \<Rightarrow> bool" where
  "outbox_final s \<longleftrightarrow> s \<in> {''published'', ''dead_letter''}"

interpretation outbox_machine: guarded_machine outbox_next outbox_final
  by unfold_locales (auto simp: outbox_final_def)

text \<open>What one transaction may do to a row: the delivery is fixed, the status follows the lifecycle.\<close>

definition delivers_same :: "outbox_row \<Rightarrow> outbox_row \<Rightarrow> bool" where
  "delivers_same x y \<longleftrightarrow> lease_of (y\<lparr>ox_attempts := 0\<rparr>) = lease_of (x\<lparr>ox_attempts := 0\<rparr>)"

definition row_step :: "outbox_row \<Rightarrow> outbox_row \<Rightarrow> bool" where
  "row_step x y \<longleftrightarrow> delivers_same x y \<and>
     (y = x \<or> (outbox_next (ox_status x) (ox_status y) \<and>
        ox_attempts y = ox_attempts x + (if ox_status y = ''publishing'' then 1 else 0)))"

inductive outbox_transaction :: "runtime_db \<Rightarrow> runtime_db \<Rightarrow> bool" where
  lease: "lease_pending now limit lease_for db = (r, db') \<Longrightarrow> outbox_transaction db db'"
| published: "mark_published now outbox_id db = (b, db') \<Longrightarrow> outbox_transaction db db'"
| retry: "retry_outbox now outbox_id error_code delay db = (r, db') \<Longrightarrow> outbox_transaction db db'"
| dead: "dead_letter now max_attempts limit db = (n, db') \<Longrightarrow> outbox_transaction db db'"
| insert: "insert_outbox x db = Inr (u, db') \<Longrightarrow> outbox_transaction db db'"
| elsewhere: "db_outbox db' = db_outbox db \<Longrightarrow> outbox_transaction db db'"

text \<open>The rows before are found again, changed by a step each, in front of the new ones.\<close>

definition outbox_steps :: "runtime_db \<Rightarrow> runtime_db \<Rightarrow> bool" where
  "outbox_steps db db' \<longleftrightarrow>
     (\<exists>f new. db_outbox db' = map f (db_outbox db) @ new \<and> (\<forall>x\<in>set (db_outbox db). row_step x (f x)))"

lemma row_step_refl [simp]: "row_step x x"
  by (simp add: row_step_def delivers_same_def)

lemma outbox_steps_update:
  assumes "\<And>x. x \<in> set (db_outbox db) \<Longrightarrow> p x \<Longrightarrow> row_step x (f x)"
  shows "outbox_steps db (snd (update_outbox p f db))"
  unfolding outbox_steps_def
  by (intro exI [of _ "\<lambda>x. if p x then f x else x"] exI [of _ "[]"])
    (use assms in \<open>auto simp: update_outbox_def update_rows_def\<close>)

lemma outbox_steps_same: "db_outbox db' = db_outbox db \<Longrightarrow> outbox_steps db db'"
  unfolding outbox_steps_def by (intro exI [of _ "\<lambda>x. x"] exI [of _ "[]"]) simp

lemma oldest_ids_sound:
  assumes "distinct (map ox_outbox_id rows)" "x \<in> set rows" "ox_outbox_id x \<in> set (oldest_ids n p rows)"
  shows "p x"
proof -
  obtain y where y: "y \<in> set (take n (sort_key ox_available_at (filter p rows)))" "ox_outbox_id y = ox_outbox_id x"
    using assms(3) by (auto simp: oldest_ids_def)
  then have "y \<in> set rows" "p y" by (auto dest: in_set_takeD)
  moreover have "y = x" using assms(1,2) calculation(1) y(2) by (auto simp: distinct_map dest: inj_onD)
  ultimately show ?thesis by simp
qed

lemma leased_step: "leasable now lease_for x \<Longrightarrow> row_step x (leased now x)"
  by (auto simp: leasable_def row_step_def delivers_same_def lease_of_def leased_def)

lemma outbox_transaction_steps:
  assumes "outbox_transaction db db'" "distinct (map ox_outbox_id (db_outbox db))"
  shows "outbox_steps db db'"
  using assms
proof (induction rule: outbox_transaction.induct)
  case (lease now limit lease_for db r db')
  show ?case
  proof (cases "1 \<le> limit \<and> limit \<le> 100 \<and> 0 < lease_for")
    case True
    let ?mine = "\<lambda>x. ox_outbox_id x \<in> set (oldest_ids (nat limit) (leasable now lease_for) (db_outbox db))"
    have "db' = snd (update_outbox ?mine (leased now) db)" using lease(1) True by (auto simp: lease_pending_def Let_def)
    moreover have "outbox_steps db (snd (update_outbox ?mine (leased now) db))"
      by (rule outbox_steps_update) (use oldest_ids_sound [OF lease(2)] leased_step in blast)
    ultimately show ?thesis by simp
  next
    case False
    then show ?thesis using lease(1) by (auto simp: lease_pending_def Let_def intro: outbox_steps_same split: if_splits)
  qed
next
  case (published now outbox_id db b db')
  have "outbox_steps db (snd (update_outbox (publishing outbox_id)
      (\<lambda>x. x\<lparr>ox_status := ''published'', ox_published_at := Some now, ox_locked_at := None\<rparr>) db))"
    by (rule outbox_steps_update) (auto simp: publishing_def row_step_def delivers_same_def lease_of_def)
  then show ?case using published(1) by (auto simp: mark_published_def split: prod.splits)
next
  case (retry now outbox_id error_code delay db r db')
  have "outbox_steps db (snd (update_outbox (publishing outbox_id)
      (\<lambda>x. x\<lparr>ox_status := ''pending'', ox_locked_at := None, ox_last_error := Some error_code,
        ox_available_at := now + whole_seconds delay\<rparr>) db))"
    by (rule outbox_steps_update) (auto simp: publishing_def row_step_def delivers_same_def lease_of_def)
  then show ?case using retry(1) by (auto simp: retry_outbox_def outbox_steps_same split: prod.splits if_splits)
next
  case (dead now max_attempts limit db n db')
  let ?ids = "oldest_ids (nat limit) (exhausted max_attempts) (db_outbox db)"
  have "outbox_steps db (snd (update_outbox (\<lambda>x. ox_outbox_id x \<in> set ?ids)
      (\<lambda>x. x\<lparr>ox_status := ''dead_letter'', ox_dead_lettered_at := Some now, ox_locked_at := None,
        ox_last_error := Some (case ox_last_error x of None \<Rightarrow> ''max_attempts'' | Some e \<Rightarrow> e)\<rparr>) db))"
    by (rule outbox_steps_update)
      (use oldest_ids_sound [OF dead(2)] in \<open>fastforce simp: exhausted_def row_step_def delivers_same_def lease_of_def\<close>)
  then show ?case using dead(1) by (auto simp: dead_letter_def Let_def outbox_steps_same split: prod.splits if_splits)
next
  case (insert x db u db')
  then show ?case unfolding outbox_steps_def
    by (intro exI [of _ "\<lambda>x. x"] exI [of _ "[x]"]) (auto dest: insert_outbox_Inr)
qed (rule outbox_steps_same)


lemma row_step_id: "row_step x y \<Longrightarrow> ox_outbox_id y = ox_outbox_id x"
  by (auto simp: row_step_def delivers_same_def lease_of_def)

lemma insert_outbox_new: "insert_outbox x db = Inr (u, db') \<Longrightarrow>
    db_outbox db' = db_outbox db @ [x] \<and> ox_outbox_id x \<notin> set (map ox_outbox_id (db_outbox db))"
  by (auto simp: insert_outbox_def split: if_splits)

lemma update_outbox_ids: "(\<And>x. ox_outbox_id (f x) = ox_outbox_id x) \<Longrightarrow>
    map ox_outbox_id (db_outbox (snd (update_outbox p f db))) = map ox_outbox_id (db_outbox db)"
  by (simp add: update_outbox_def map_update_rows_same)

text \<open>The ids of the table stay distinct; other transactions are assumed to leave the table alone.\<close>

lemma outbox_ids_distinct:
  "outbox_transaction db db' \<Longrightarrow> distinct (map ox_outbox_id (db_outbox db)) \<Longrightarrow> distinct (map ox_outbox_id (db_outbox db'))"
proof (induction rule: outbox_transaction.induct)
  case (insert x db u db')
  then show ?case using insert_outbox_new by fastforce
qed (auto simp: lease_pending_def mark_published_def retry_outbox_def dead_letter_def Let_def update_outbox_def
    leased_def map_update_rows_same split: if_splits)

lemma outbox_history_row:
  assumes "outbox_transaction\<^sup>*\<^sup>* db db'" "distinct (map ox_outbox_id (db_outbox db))" "x \<in> set (db_outbox db)"
  shows "distinct (map ox_outbox_id (db_outbox db')) \<and> (\<exists>y\<in>set (db_outbox db'). row_step\<^sup>*\<^sup>* x y)"
  using assms(1)
proof (induction rule: rtranclp_induct)
  case base
  then show ?case using assms(2,3) by blast
next
  case (step y z)
  then obtain w where w: "w \<in> set (db_outbox y)" "row_step\<^sup>*\<^sup>* x w" "distinct (map ox_outbox_id (db_outbox y))" by blast
  obtain f new where f: "db_outbox z = map f (db_outbox y) @ new" "\<forall>x\<in>set (db_outbox y). row_step x (f x)"
    using outbox_transaction_steps [OF step.hyps(2) w(3)] unfolding outbox_steps_def by blast
  have "row_step\<^sup>*\<^sup>* x (f w)" using w f(2) by (meson rtranclp.rtrancl_into_rtrancl)
  then show ?case using f(1) w(1) outbox_ids_distinct [OF step.hyps(2) w(3)] by auto
qed

lemma row_steps_facts:
  assumes "row_step\<^sup>*\<^sup>* x y"
  shows "ox_outbox_id y = ox_outbox_id x \<and> delivers_same x y \<and> outbox_next\<^sup>*\<^sup>* (ox_status x) (ox_status y) \<and>
    ox_attempts x \<le> ox_attempts y \<and> (outbox_final (ox_status x) \<longrightarrow> y = x)"
  using assms
proof (induction rule: rtranclp_induct)
  case (step y z)
  have "outbox_next\<^sup>*\<^sup>* (ox_status x) (ox_status z)"
    using step by (auto simp: row_step_def simp del: outbox_next.simps intro: rtranclp.rtrancl_into_rtrancl)
  moreover have "outbox_final (ox_status x) \<longrightarrow> z = x"
    using step outbox_machine.final_absorbing by (auto simp: row_step_def simp del: outbox_next.simps)
  moreover have "delivers_same x z" "ox_outbox_id z = ox_outbox_id x"
    using step by (auto simp: row_step_def delivers_same_def lease_of_def)
  moreover have "ox_attempts x \<le> ox_attempts z"
    using step by (auto simp: row_step_def simp del: outbox_next.simps split: if_splits)
  ultimately show ?case by blast
qed (simp add: delivers_same_def)

lemma published_once:
  assumes "distinct (map ox_outbox_id (db_outbox db))" "y \<in> set (db_outbox db)" "outbox_final (ox_status y)"
  shows "mark_published now (ox_outbox_id y) db = (False, db)"
    and "lease_pending now limit lease_for db = (Inr ls, db') \<Longrightarrow> ox_outbox_id y \<notin> set (map ol_outbox_id ls)"
proof -
  have same: "x = y" if "x \<in> set (db_outbox db)" "ox_outbox_id x = ox_outbox_id y" for x
    using assms(1,2) that by (auto simp: distinct_map dest: inj_onD)
  have none: "row_count (publishing (ox_outbox_id y)) (db_outbox db) = 0"
    using same assms(3) by (fastforce simp: row_count_0 publishing_def outbox_final_def)
  then show "mark_published now (ox_outbox_id y) db = (False, db)"
    by (simp add: mark_published_def update_outbox_def update_rows_none)
  assume "lease_pending now limit lease_for db = (Inr ls, db')"
  then have "map ol_outbox_id ls = map ox_outbox_id (filter (\<lambda>x. ox_outbox_id x \<in>
      set (oldest_ids (nat limit) (leasable now lease_for) (db_outbox db))) (db_outbox db))"
    by (auto simp: lease_pending_def Let_def comp_def lease_of_def leased_def split: if_splits)
  moreover have "ox_outbox_id y \<notin> set (oldest_ids (nat limit) (leasable now lease_for) (db_outbox db))"
    using oldest_ids_sound [OF assms(1,2), of "nat limit" "leasable now lease_for"] assms(3)
    by (auto simp: leasable_def outbox_final_def)
  ultimately show "ox_outbox_id y \<notin> set (map ol_outbox_id ls)"
    by auto
qed

section \<open>Property\<close>

text \<open>An event that was put into the outbox is neither lost nor changed, and it is finished once. Through
  every history of leases, publications, retries and sweeps by any number of workers its row stays with
  the same event, topic and payload, its status moves along the lifecycle, its attempts only grow; and
  when it has been published or put aside, it is the same row ever after, is never leased again and is
  never reported as published a second time.\<close>

theorem outbox_row_finished_once:
  assumes "outbox_transaction\<^sup>*\<^sup>* db db'" "distinct (map ox_outbox_id (db_outbox db))" "x \<in> set (db_outbox db)"
  shows "\<exists>y\<in>set (db_outbox db'). ox_outbox_id y = ox_outbox_id x \<and> delivers_same x y \<and>
    outbox_next\<^sup>*\<^sup>* (ox_status x) (ox_status y) \<and> ox_attempts x \<le> ox_attempts y \<and>
    (outbox_final (ox_status x) \<longrightarrow> y = x \<and>
      (\<forall>now. mark_published now (ox_outbox_id x) db' = (False, db')) \<and>
      (\<forall>now limit lease_for ls db3. lease_pending now limit lease_for db' = (Inr ls, db3) \<longrightarrow>
         ox_outbox_id x \<notin> set (map ol_outbox_id ls)))"
proof -
  obtain y where y: "y \<in> set (db_outbox db')" "row_step\<^sup>*\<^sup>* x y" "distinct (map ox_outbox_id (db_outbox db'))"
    using outbox_history_row [OF assms] by blast
  show ?thesis
    by (rule bexI [OF _ y(1)]) (use row_steps_facts [OF y(2)] published_once [OF y(3,1)] in metis)
qed

section \<open>Witness\<close>

definition demo_outbox_row :: outbox_row where
  "demo_outbox_row =
     \<lparr>ox_outbox_id = ''o'', ox_run_id = ''run'', ox_event_id = ''e'', ox_topic = ''mutation.observed'', ox_payload = [],
      ox_status = ''pending'', ox_attempts = 0, ox_available_at = 0, ox_locked_at = None, ox_published_at = None,
      ox_last_error = None, ox_dead_lettered_at = None\<rparr>"

definition demo_outbox_db :: "runtime_db" where
  "demo_outbox_db = empty_db\<lparr>db_outbox := [demo_outbox_row]\<rparr>"

definition demo_leased :: "outbox_lease list result \<times> runtime_db" where
  "demo_leased = lease_pending 5 10 2000000 demo_outbox_db"

definition demo_delivered :: "bool \<times> runtime_db" where
  "demo_delivered = mark_published 6 ''o'' (snd demo_leased)"

lemma demo_outbox_facts:
  "fst demo_delivered = True" "map ox_status (db_outbox (snd demo_delivered)) = [''published'']"
  "map ox_outbox_id (db_outbox (snd demo_delivered)) = [''o'']"
  by code_simp+

text \<open>After the lease has run out, another worker finds nothing to lease.\<close>

lemma outbox_row_finished_once_witness:
  "mark_published 99 ''o'' (snd (lease_pending 90 10 1 (snd demo_delivered))) =
     (False, snd (lease_pending 90 10 1 (snd demo_delivered)))"
proof -
  let ?db' = "snd (lease_pending 90 10 1 (snd demo_delivered))"
  obtain x where x: "db_outbox (snd demo_delivered) = [x]" "ox_status x = ''published''" "ox_outbox_id x = ''o''"
    using demo_outbox_facts(2,3) by (auto simp: map_eq_Cons_conv)
  have "outbox_transaction\<^sup>*\<^sup>* (snd demo_delivered) ?db'"
    by (rule r_into_rtranclp, rule outbox_transaction.lease, rule prod.collapse [symmetric])
  then show ?thesis using outbox_row_finished_once [of "snd demo_delivered" ?db' x] x by (auto simp: outbox_final_def)
qed

end
