(* ===== verification/Memory.thy ===== *)
theory Memory
  imports Database
begin

text \<open>
  \<open>src/repositories/memory.py\<close>: the preferences of a customer, kept as facts of a few types. A new
  preference supersedes the one before, a deletion leaves a tombstone. UUIDs and the clock are arguments; the
  rounding of a confidence to four digits is left out.
\<close>

record memory_row =
  mf_fact_id :: string
  mf_tenant_id :: string
  mf_actor_ref :: string
  mf_type :: string
  mf_value :: pydict
  mf_source_type :: string
  mf_source_ref :: string
  mf_confidence :: rat
  mf_observed_at :: int
  mf_valid_until :: "int option"
  mf_supersedes :: "string option"
  mf_status :: string

definition allowed_preferences :: "string list" where
  "allowed_preferences =
     [''preferred_category'', ''preferred_size'', ''preferred_color'', ''preferred_delivery_method'', ''preferred_language'']"

definition forbidden_facts :: "string list" where
  "forbidden_facts =
     [''order_status'', ''payment_status'', ''refund_status'', ''delivery_status'', ''inferred_preference'']"

definition memory_error :: "string \<Rightarrow> 'a result" where
  "memory_error s = Inl (MemoryValidationError s)"

definition validate_write :: "memory_row \<Rightarrow> unit result" where
  "validate_write m =
     (if mf_type m \<notin> set allowed_preferences \<or> mf_type m \<in> set forbidden_facts
      then memory_error ''only controlled preference facts may be stored''
      else if mf_source_type m \<notin> {''user'', ''tool''} then memory_error ''memory source must be user or tool''
      else if \<not> (0 \<le> mf_confidence m \<and> mf_confidence m \<le> 1) then memory_error ''memory confidence must be between 0 and 1''
      else if mf_value m = [] \<or> length (mf_value m) > 8 then memory_error ''memory value is invalid'' else Inr ())"

definition insert_fact :: "memory_row \<Rightarrow> memory_row list \<Rightarrow> memory_row list result" where
  "insert_fact m rows =
     (if \<not> (py_len (mf_tenant_id m) \<le> 64 \<and> py_len (mf_actor_ref m) \<le> 128 \<and> py_len (mf_source_ref m) \<le> 64)
      then Inl (OtherError ''DataError'')
      else if mf_fact_id m \<in> set (map mf_fact_id rows) then Inl IntegrityError else Inr (rows @ [m]))"

text \<open>A write with a fresh UUID; the status and the reference to the fact before are the repository's.\<close>

definition add_fact :: "string \<Rightarrow> memory_row \<Rightarrow> memory_row list \<Rightarrow> string result \<times> memory_row list" where
  "add_fact i m rows = atomic rows
     (bind_res (validate_write m) (\<lambda>_.
      bind_res (insert_fact (m\<lparr>mf_fact_id := i, mf_supersedes := None, mf_status := ''active''\<rparr>) rows) (\<lambda>rows. Inr (i, rows))))"

definition fact_key :: "memory_row \<Rightarrow> string \<times> string \<times> string" where
  "fact_key m = (mf_tenant_id m, mf_actor_ref m, mf_type m)"

definition active_fact :: "string \<times> string \<times> string \<Rightarrow> memory_row \<Rightarrow> bool" where
  "active_fact k m \<longleftrightarrow> fact_key m = k \<and> mf_status m = ''active''"

definition previous_fact :: "memory_row \<Rightarrow> memory_row list \<Rightarrow> memory_row option" where
  "previous_fact m rows =
     (case sort_key (\<lambda>x. - mf_observed_at x) (filter (active_fact (fact_key m)) rows) of [] \<Rightarrow> None | x # _ \<Rightarrow> Some x)"

definition supersede :: "string \<Rightarrow> memory_row option \<Rightarrow> memory_row list \<Rightarrow> memory_row list" where
  "supersede tenant previous rows =
     (case previous of
        None \<Rightarrow> rows
      | Some x \<Rightarrow> update_rows (\<lambda>r. mf_fact_id r = mf_fact_id x \<and> mf_tenant_id r = tenant) (\<lambda>r. r\<lparr>mf_status := ''superseded''\<rparr>) rows)"

definition upsert_preference :: "string \<Rightarrow> memory_row \<Rightarrow> memory_row list \<Rightarrow> string result \<times> memory_row list" where
  "upsert_preference i m rows = atomic rows
     (bind_res (validate_write m) (\<lambda>_.
      (let previous = previous_fact m rows in
       bind_res (insert_fact (m\<lparr>mf_fact_id := i, mf_supersedes := map_option mf_fact_id previous, mf_status := ''active''\<rparr>)
           (supersede (mf_tenant_id m) previous rows)) (\<lambda>rows. Inr (i, rows)))))"

definition deletable :: "string \<Rightarrow> string \<Rightarrow> string \<Rightarrow> memory_row \<Rightarrow> bool" where
  "deletable i tenant actor r \<longleftrightarrow>
     mf_fact_id r = i \<and> mf_tenant_id r = tenant \<and> mf_actor_ref r = actor \<and> mf_status r = ''active''"

definition delete_fact :: "string \<Rightarrow> string \<Rightarrow> string \<Rightarrow> memory_row list \<Rightarrow> bool \<times> memory_row list" where
  "delete_fact i tenant actor rows =
     (row_count (deletable i tenant actor) rows = 1,
      update_rows (deletable i tenant actor) (\<lambda>r. r\<lparr>mf_status := ''deleted''\<rparr>) rows)"

definition active_for_actor :: "int \<Rightarrow> string \<Rightarrow> string \<Rightarrow> memory_row list \<Rightarrow> memory_row list" where
  "active_for_actor now tenant actor rows =
     sort_key (\<lambda>x. - mf_observed_at x) (filter (\<lambda>r. mf_tenant_id r = tenant \<and> mf_actor_ref r = actor \<and>
       mf_status r = ''active'' \<and> (case mf_valid_until r of None \<Rightarrow> True | Some u \<Rightarrow> now < u)) rows)"

section \<open>Histories\<close>

text \<open>The two operations the API calls.\<close>

inductive memory_step :: "memory_row list \<Rightarrow> memory_row list \<Rightarrow> bool" where
  upsert: "upsert_preference i m rows = (r, rows') \<Longrightarrow> memory_step rows rows'"
| delete: "delete_fact i tenant actor rows = (b, rows') \<Longrightarrow> memory_step rows rows'"

definition memory_ok :: "memory_row list \<Rightarrow> bool" where
  "memory_ok rows \<longleftrightarrow> distinct (map mf_fact_id rows) \<and>
     distinct (map fact_key (filter (\<lambda>r. mf_status r = ''active'') rows)) \<and>
     (\<forall>r\<in>set rows. mf_type r \<in> set allowed_preferences \<and> mf_source_type r \<in> {''user'', ''tool''})"

text \<open>A fact that is no longer active keeps its status.\<close>

definition facts_kept :: "memory_row list \<Rightarrow> memory_row list \<Rightarrow> bool" where
  "facts_kept rows rows' \<longleftrightarrow> (\<forall>r\<in>set rows. \<exists>r'\<in>set rows'. mf_fact_id r' = mf_fact_id r \<and> mf_value r' = mf_value r \<and>
     fact_key r' = fact_key r \<and> (mf_status r \<noteq> ''active'' \<longrightarrow> mf_status r' = mf_status r))"

lemma facts_kept_refl: "facts_kept rows rows"
  by (auto simp: facts_kept_def)

lemma facts_kept_trans: "facts_kept a b \<Longrightarrow> facts_kept b c \<Longrightarrow> facts_kept a c"
  unfolding facts_kept_def by metis

lemma facts_kept_update:
  assumes "\<And>r. p r \<Longrightarrow> mf_status r = ''active'' \<or> mf_status (f r) = mf_status r"
    "\<And>r. mf_fact_id (f r) = mf_fact_id r \<and> mf_value (f r) = mf_value r \<and> fact_key (f r) = fact_key r"
  shows "facts_kept rows (update_rows p f rows)"
  unfolding facts_kept_def
proof
  fix r
  assume "r \<in> set rows"
  then have "(if p r then f r else r) \<in> set (update_rows p f rows)" unfolding update_rows_def set_map by blast
  then show "\<exists>r'\<in>set (update_rows p f rows). mf_fact_id r' = mf_fact_id r \<and> mf_value r' = mf_value r \<and>
      fact_key r' = fact_key r \<and> (mf_status r \<noteq> ''active'' \<longrightarrow> mf_status r' = mf_status r)"
    using assms by (intro bexI [where x = "if p r then f r else r"]) auto
qed

lemma active_filter_update:
  assumes "\<And>r. p r \<Longrightarrow> mf_status (f r) \<noteq> ''active''"
  shows "filter (\<lambda>r. mf_status r = ''active'') (update_rows p f rows) =
    filter (\<lambda>r. mf_status r = ''active'' \<and> \<not> p r) rows"
  using assms by (induction rows) (auto simp: update_rows_def)

lemma memory_ok_update:
  assumes "memory_ok rows" "\<And>r. p r \<Longrightarrow> mf_status (f r) \<noteq> ''active''"
    "\<And>r. mf_fact_id (f r) = mf_fact_id r \<and> mf_type (f r) = mf_type r \<and> mf_source_type (f r) = mf_source_type r"
  shows "memory_ok (update_rows p f rows)"
proof -
  have "map mf_fact_id (update_rows p f rows) = map mf_fact_id rows" using assms(3) by (intro map_update_rows_same) simp
  moreover have "distinct (map fact_key (filter (\<lambda>r. mf_status r = ''active'' \<and> \<not> p r) rows))"
    using assms(1) distinct_map_filter [of fact_key "filter (\<lambda>r. mf_status r = ''active'') rows" "\<lambda>r. \<not> p r"]
    by (simp add: memory_ok_def conj_commute)
  moreover have "mf_type r \<in> set allowed_preferences \<and> mf_source_type r \<in> {''user'', ''tool''}"
    if "r \<in> set (update_rows p f rows)" for r
    using that assms(1,3) by (auto simp: update_rows_def memory_ok_def split: if_splits)
  moreover have "filter (\<lambda>r. mf_status r = ''active'') (update_rows p f rows) = filter (\<lambda>r. mf_status r = ''active'' \<and> \<not> p r) rows"
    using assms(2) by (rule active_filter_update)
  ultimately show ?thesis using assms(1) by (simp add: memory_ok_def)
qed

lemma previous_fact_None: "previous_fact m rows = None \<Longrightarrow> r \<in> set rows \<Longrightarrow> \<not> active_fact (fact_key m) r"
proof -
  assume "previous_fact m rows = None" and r: "r \<in> set rows"
  then have "sort_key (\<lambda>x. - mf_observed_at x) (filter (active_fact (fact_key m)) rows) = []"
    by (simp add: previous_fact_def split: list.splits)
  then have "set (filter (active_fact (fact_key m)) rows) = {}" by (metis set_sort set_empty)
  then show ?thesis using r by auto
qed

lemma previous_fact_Some:
  assumes "previous_fact m rows = Some x"
  shows "x \<in> set rows" "active_fact (fact_key m) x"
proof -
  obtain xs where "sort_key (\<lambda>x. - mf_observed_at x) (filter (active_fact (fact_key m)) rows) = x # xs"
    using assms by (auto simp: previous_fact_def split: list.splits)
  then have "x \<in> set (filter (active_fact (fact_key m)) rows)" by (metis list.set_intros(1) set_sort)
  then show "x \<in> set rows" "active_fact (fact_key m) x" by auto
qed

lemma same_active:
  assumes "memory_ok rows" "x \<in> set rows" "y \<in> set rows" "active_fact k x" "active_fact k y"
  shows "x = y"
proof -
  have "distinct (map fact_key (filter (\<lambda>r. mf_status r = ''active'') rows))" using assms(1) by (simp add: memory_ok_def)
  then have "inj_on fact_key (set (filter (\<lambda>r. mf_status r = ''active'') rows))" by (simp add: distinct_map)
  then show ?thesis using assms(2-5) by (auto simp: inj_on_def active_fact_def)
qed

lemma superseded_inactive:
  assumes "memory_ok rows" "r \<in> set (supersede (mf_tenant_id m) (previous_fact m rows) rows)"
  shows "\<not> active_fact (fact_key m) r"
proof (cases "previous_fact m rows")
  case None
  then show ?thesis using assms(2) previous_fact_None by (simp add: supersede_def)
next
  case (Some x)
  note x = previous_fact_Some [OF Some]
  from assms(2) Some obtain y where y: "y \<in> set rows"
    "r = (if mf_fact_id y = mf_fact_id x \<and> mf_tenant_id y = mf_tenant_id m then y\<lparr>mf_status := ''superseded''\<rparr> else y)"
    by (auto simp: supersede_def update_rows_def)
  show ?thesis
  proof
    assume r: "active_fact (fact_key m) r"
    then have changed: "\<not> (mf_fact_id y = mf_fact_id x \<and> mf_tenant_id y = mf_tenant_id m)"
      using y(2) by (cases "mf_fact_id y = mf_fact_id x \<and> mf_tenant_id y = mf_tenant_id m") (simp_all add: active_fact_def)
    then have "active_fact (fact_key m) y" using r y(2) by (metis (no_types))
    then have "y = x" using same_active [OF assms(1) y(1) x(1)] x(2) by simp
    moreover have "mf_tenant_id x = mf_tenant_id m" using x(2) by (simp add: active_fact_def fact_key_def)
    ultimately show False using changed by simp
  qed
qed

lemma memory_ok_supersede: "memory_ok rows \<Longrightarrow> memory_ok (supersede tenant previous rows)"
  by (auto simp: supersede_def intro: memory_ok_update split: option.splits)

lemma facts_kept_supersede:
  assumes "memory_ok rows"
  shows "facts_kept rows (supersede (mf_tenant_id m) (previous_fact m rows) rows)"
proof (cases "previous_fact m rows")
  case (Some x)
  note x = previous_fact_Some [OF Some]
  have "inj_on mf_fact_id (set rows)" using assms by (simp add: memory_ok_def distinct_map)
  then have same: "r = x" if "r \<in> set rows" "mf_fact_id r = mf_fact_id x" for r using that x(1) by (simp add: inj_on_def)
  have "mf_status x = ''active''" using x(2) by (simp add: active_fact_def)
  let ?p = "\<lambda>r. mf_fact_id r = mf_fact_id x \<and> mf_tenant_id r = mf_tenant_id m \<and> r = x"
  have "update_rows (\<lambda>r. mf_fact_id r = mf_fact_id x \<and> mf_tenant_id r = mf_tenant_id m) (\<lambda>r. r\<lparr>mf_status := ''superseded''\<rparr>) rows =
      update_rows ?p (\<lambda>r. r\<lparr>mf_status := ''superseded''\<rparr>) rows"
    unfolding update_rows_def using same by (intro map_cong refl) auto
  moreover have "facts_kept rows (update_rows ?p (\<lambda>r. r\<lparr>mf_status := ''superseded''\<rparr>) rows)"
    using \<open>mf_status x = ''active''\<close> by (intro facts_kept_update) (auto simp: fact_key_def)
  ultimately show ?thesis by (simp add: Some supersede_def)
qed (simp add: supersede_def facts_kept_refl)

lemma memory_step_ok: "memory_step rows rows' \<Longrightarrow> memory_ok rows \<Longrightarrow> memory_ok rows' \<and> facts_kept rows rows'"
proof (induction rule: memory_step.induct)
  case (upsert i m rows r rows')
  let ?s = "supersede (mf_tenant_id m) (previous_fact m rows) rows"
  show ?case
  proof (cases r)
    case (Inl e)
    then have "rows' = rows" using upsert(1) by (auto simp: upsert_preference_def atomic_Inl)
    then show ?thesis using upsert(2) facts_kept_refl by simp
  next
    case (Inr j)
    then obtain f where f: "rows' = ?s @ [f]" "validate_write m = Inr ()" "mf_fact_id f \<notin> set (map mf_fact_id ?s)"
      "fact_key f = fact_key m" "mf_type f = mf_type m" "mf_source_type f = mf_source_type m"
      using upsert(1)
      by (auto simp: upsert_preference_def atomic_def Let_def bind_res_eq_Inr insert_fact_def fact_key_def
        split: sum.splits if_splits)
    have s: "memory_ok ?s" "facts_kept rows ?s" using upsert(2) memory_ok_supersede facts_kept_supersede by blast+
    have "mf_type m \<in> set allowed_preferences \<and> mf_source_type m \<in> {''user'', ''tool''}"
      using f(2) by (auto simp: validate_write_def memory_error_def split: if_splits)
    moreover have "fact_key f \<notin> fact_key ` set (filter (\<lambda>r. mf_status r = ''active'') ?s)"
      using superseded_inactive [OF upsert(2)] by (auto simp: f(4) active_fact_def)
    ultimately have "memory_ok rows'" using s(1) f(3,5,6) by (auto simp: memory_ok_def f(1))
    moreover have "facts_kept rows rows'" using s(2) by (auto simp: facts_kept_def f(1))
    ultimately show ?thesis by simp
  qed
next
  case (delete i tenant actor rows b rows')
  have "rows' = update_rows (deletable i tenant actor) (\<lambda>r. r\<lparr>mf_status := ''deleted''\<rparr>) rows"
    using delete(1) by (simp add: delete_fact_def)
  then show ?case using delete(2)
    by (auto simp: deletable_def fact_key_def intro!: memory_ok_update facts_kept_update)
qed

lemma memory_history: "memory_step\<^sup>*\<^sup>* rows rows' \<Longrightarrow> memory_ok rows \<Longrightarrow> memory_ok rows' \<and> facts_kept rows rows'"
  by (induction rule: rtranclp_induct) (auto intro: facts_kept_refl facts_kept_trans dest: memory_step_ok)

text \<open>Preferences replace each other. In every history of writes and deletions, however they are
  ordered, a customer has at most one active fact of a type, so the prompt never has to choose; every fact is of
  a controlled type and comes from a user or a tool; and a fact that was superseded or deleted never comes back
  and keeps its value.\<close>

theorem preferences_replace:
  assumes "memory_step\<^sup>*\<^sup>* [] middle" "memory_step\<^sup>*\<^sup>* middle rows"
  shows "distinct (map mf_type (active_for_actor now tenant actor rows)) \<and>
    (\<forall>r\<in>set rows. mf_type r \<in> set allowed_preferences \<and> mf_type r \<notin> set forbidden_facts \<and> mf_source_type r \<in> {''user'', ''tool''}) \<and>
    (\<forall>r\<in>set middle. mf_status r \<noteq> ''active'' \<longrightarrow> (\<exists>r'\<in>set rows. mf_fact_id r' = mf_fact_id r \<and> mf_value r' = mf_value r \<and>
       mf_status r' = mf_status r))"
proof -
  have "memory_ok []" by (simp add: memory_ok_def)
  then have ok: "memory_ok rows" "facts_kept middle rows" using assms memory_history by blast+
  let ?active = "filter (\<lambda>r. mf_status r = ''active'') rows"
  let ?seen = "\<lambda>r. mf_tenant_id r = tenant \<and> mf_actor_ref r = actor \<and>
    (case mf_valid_until r of None \<Rightarrow> True | Some u \<Rightarrow> now < u)"
  let ?mine = "\<lambda>r. mf_tenant_id r = tenant \<and> mf_actor_ref r = actor \<and> mf_status r = ''active'' \<and>
    (case mf_valid_until r of None \<Rightarrow> True | Some u \<Rightarrow> now < u)"
  have "filter ?seen ?active = filter ?mine rows" by (induction rows) auto
  moreover have "distinct (map fact_key (filter ?seen ?active))"
    using ok(1) by (intro distinct_map_filter [of _ ?active]) (simp add: memory_ok_def)
  ultimately have "distinct (map fact_key (filter ?mine rows))" by simp
  then have "distinct (map mf_type (filter ?mine rows))" by (auto simp: distinct_map inj_on_def fact_key_def)
  then have "distinct (map mf_type (active_for_actor now tenant actor rows))"
    unfolding active_for_actor_def by (simp add: distinct_map)
  then show ?thesis using ok by (auto simp: memory_ok_def facts_kept_def allowed_preferences_def forbidden_facts_def)
qed

definition demo_fact :: "string \<Rightarrow> int \<Rightarrow> memory_row" where
  "demo_fact v t =
     \<lparr>mf_fact_id = [], mf_tenant_id = ''t'', mf_actor_ref = ''a'', mf_type = ''preferred_color'', mf_value = [(''value'', PStr v)],
      mf_source_type = ''user'', mf_source_ref = ''m'', mf_confidence = 1, mf_observed_at = t, mf_valid_until = None,
      mf_supersedes = None, mf_status = ''active''\<rparr>"

definition demo_preferences :: "memory_row list" where
  "demo_preferences = snd (upsert_preference ''1'' (demo_fact ''red'' 1) [])"

definition demo_replaced :: "memory_row list" where
  "demo_replaced = snd (upsert_preference ''2'' (demo_fact ''blue'' 2) demo_preferences)"

theorem preferences_replace_witness:
  "map mf_status demo_replaced = [''superseded'', ''active''] \<and> distinct (map mf_type (active_for_actor 3 ''t'' ''a'' demo_replaced))"
proof -
  have "memory_step [] demo_preferences" "memory_step demo_preferences demo_replaced"
    unfolding demo_preferences_def demo_replaced_def by (rule memory_step.upsert [OF prod.collapse [symmetric]])+
  moreover have "map mf_status demo_replaced = [''superseded'', ''active'']" by code_simp
  ultimately show ?thesis using preferences_replace [of demo_preferences demo_replaced 3 "''t''" "''a''"] by blast
qed

end
