(* ===== verification/Regex.thy ===== *)
theory Regex
  imports Prelude
begin

text \<open>
  The regular expressions of the program, for the modules that redact and extract text: a pattern is a
  value of \<open>regex\<close>, a text the list of its code points. \<open>ends\<close> is the backtracking search of Python's
  \<open>re\<close>: the end positions of the matches at one position in the order they are tried. \<open>denotes\<close> is the
  meaning of a pattern as a set of spans; the two agree.

  Case is ignored for ASCII letters, \<open>\d\<close> are the ASCII digits, \<open>\s\<close> is Python's white space, and \<open>\w\<close> are
  the ASCII letters, digits and the underscore and the CJK ideographs.
\<close>

section \<open>Patterns\<close>

datatype regex =
    Eps
  | Cls "string \<Rightarrow> bool"
  | Seq regex regex
  | Alt regex regex
  | Rep nat "nat option" regex
  | NotAfter "string \<Rightarrow> bool"
  | NotBefore "string \<Rightarrow> bool"
  | WordBoundary

definition one_char :: "string \<Rightarrow> char \<Rightarrow> bool" where
  "one_char c x \<longleftrightarrow> c = [x]"

definition in_range :: "string \<Rightarrow> char \<Rightarrow> char \<Rightarrow> bool" where
  "in_range c a b \<longleftrightarrow> (case c of [x] \<Rightarrow> a \<le> x \<and> x \<le> b | _ \<Rightarrow> False)"

definition re_digit :: "string \<Rightarrow> bool" where
  "re_digit c \<longleftrightarrow> in_range c CHR ''0'' CHR ''9''"

definition re_letter :: "string \<Rightarrow> bool" where
  "re_letter c \<longleftrightarrow> in_range (lower c) CHR ''a'' CHR ''z''"

text \<open>\<open>[\u4e00-\u9fa5]\<close> and \<open>[\u4e00-\u9fff]\<close>: the order of UTF-8 is that of the code points.\<close>

definition han :: "string \<Rightarrow> bool" where
  "han c \<longleftrightarrow> [CHR 0xE4, CHR 0xB8, CHR 0x80] \<le> c \<and> c \<le> [CHR 0xE9, CHR 0xBE, CHR 0xA5]"

definition re_word :: "string \<Rightarrow> bool" where
  "re_word c \<longleftrightarrow> re_digit c \<or> re_letter c \<or> c = ''_'' \<or>
     ([CHR 0xE4, CHR 0xB8, CHR 0x80] \<le> c \<and> c \<le> [CHR 0xE9, CHR 0xBF, CHR 0xBF])"

definition any_of :: "string list \<Rightarrow> string \<Rightarrow> bool" where
  "any_of cs c \<longleftrightarrow> c \<in> set cs"

abbreviation opt :: "regex \<Rightarrow> regex" where
  "opt r \<equiv> Rep 0 (Some 1) r"

fun seqs :: "regex list \<Rightarrow> regex" where
  "seqs [] = Eps"
| "seqs [r] = r"
| "seqs (r # rs) = Seq r (seqs rs)"

fun alts :: "regex list \<Rightarrow> regex" where
  "alts [] = Cls (\<lambda>_. False)"
| "alts [r] = r"
| "alts (r # rs) = Alt r (alts rs)"

definition lit :: "string \<Rightarrow> regex" where
  "lit s = seqs (map (\<lambda>c. Cls (\<lambda>d. d = c)) (chars s))"

definition lit_ci :: "string \<Rightarrow> regex" where
  "lit_ci s = seqs (map (\<lambda>c. Cls (\<lambda>d. lower d = lower c)) (chars s))"

section \<open>Matching\<close>

fun rep_ends :: "(nat \<Rightarrow> nat list) \<Rightarrow> nat \<Rightarrow> nat \<Rightarrow> nat \<Rightarrow> nat list" where
  "rep_ends f lo 0 i = (if lo = 0 then [i] else [])"
| "rep_ends f lo (Suc n) i = concat (map (rep_ends f (lo - 1) n) (f i)) @ (if lo = 0 then [i] else [])"

fun at_boundary :: "string list \<Rightarrow> nat \<Rightarrow> bool" where
  "at_boundary t i = ((0 < i \<and> i \<le> length t \<and> re_word (t ! (i - 1))) \<noteq> (i < length t \<and> re_word (t ! i)))"

fun ends :: "regex \<Rightarrow> string list \<Rightarrow> nat \<Rightarrow> nat list" where
  "ends Eps t i = [i]"
| "ends (Cls p) t i = (if i < length t \<and> p (t ! i) then [Suc i] else [])"
| "ends (Seq a b) t i = concat (map (ends b t) (ends a t i))"
| "ends (Alt a b) t i = ends a t i @ ends b t i"
| "ends (Rep lo hi a) t i =
     rep_ends (ends a t) lo (case hi of Some h \<Rightarrow> h | None \<Rightarrow> lo + length t) i"
| "ends (NotAfter p) t i = (if 0 < i \<and> i \<le> length t \<and> p (t ! (i - 1)) then [] else [i])"
| "ends (NotBefore p) t i = (if i < length t \<and> p (t ! i) then [] else [i])"
| "ends WordBoundary t i = (if at_boundary t i then [i] else [])"

text \<open>\<open>re.search\<close> from a position: the leftmost match, the first one found there.\<close>

definition match_from :: "regex \<Rightarrow> string list \<Rightarrow> nat \<Rightarrow> (nat \<times> nat) option" where
  "match_from r t i =
     map_option (\<lambda>k. (k, hd (ends r t k))) (find (\<lambda>k. ends r t k \<noteq> []) [i..<Suc (length t)])"

definition re_search :: "regex \<Rightarrow> string \<Rightarrow> bool" where
  "re_search r s \<longleftrightarrow> match_from r (chars s) 0 \<noteq> None"

definition span :: "string list \<Rightarrow> nat \<Rightarrow> nat \<Rightarrow> string list" where
  "span t i j = take (j - i) (drop i t)"

text \<open>\<open>re.sub\<close> for patterns that do not match the empty text; \<open>f i j\<close> is the replacement of the span.\<close>

fun sub_from :: "regex \<Rightarrow> (nat \<Rightarrow> nat \<Rightarrow> string list) \<Rightarrow> string list \<Rightarrow> nat \<Rightarrow> nat \<Rightarrow> string list \<Rightarrow> string list" where
  "sub_from r f t i skip [] = []"
| "sub_from r f t i (Suc skip) (c # cs) = sub_from r f t (Suc i) skip cs"
| "sub_from r f t i 0 (c # cs) =
     (case ends r t i of
        [] \<Rightarrow> c # sub_from r f t (Suc i) 0 cs
      | j # _ \<Rightarrow> if i < j then f i j @ sub_from r f t (Suc i) (j - Suc i) cs else c # sub_from r f t (Suc i) 0 cs)"

definition re_sub :: "regex \<Rightarrow> string \<Rightarrow> string \<Rightarrow> string" where
  "re_sub r new s = concat (sub_from r (\<lambda>i j. chars new) (chars s) 0 0 (chars s))"

fun find_spans :: "regex \<Rightarrow> string list \<Rightarrow> nat \<Rightarrow> nat \<Rightarrow> string list \<Rightarrow> string list list" where
  "find_spans r t i skip [] = []"
| "find_spans r t i (Suc skip) (c # cs) = find_spans r t (Suc i) skip cs"
| "find_spans r t i 0 (c # cs) =
     (case ends r t i of
        [] \<Rightarrow> find_spans r t (Suc i) 0 cs
      | j # _ \<Rightarrow> if i < j then span t i j # find_spans r t (Suc i) (j - Suc i) cs else find_spans r t (Suc i) 0 cs)"

definition re_findall :: "regex \<Rightarrow> string \<Rightarrow> string list" where
  "re_findall r s = map concat (find_spans r (chars s) 0 0 (chars s))"

section \<open>Meaning\<close>

primrec denotes :: "regex \<Rightarrow> string list \<Rightarrow> (nat \<times> nat) set" where
  "denotes Eps t = Id"
| "denotes (Cls p) t = {(i, j). i < length t \<and> p (t ! i) \<and> j = Suc i}"
| "denotes (Seq a b) t = denotes a t O denotes b t"
| "denotes (Alt a b) t = denotes a t \<union> denotes b t"
| "denotes (Rep lo hi a) t = (\<Union>k\<in>{k. lo \<le> k \<and> (case hi of None \<Rightarrow> True | Some h \<Rightarrow> k \<le> h)}. denotes a t ^^ k)"
| "denotes (NotAfter p) t = {(i, j). j = i \<and> \<not> (0 < i \<and> i \<le> length t \<and> p (t ! (i - 1)))}"
| "denotes (NotBefore p) t = {(i, j). j = i \<and> \<not> (i < length t \<and> p (t ! i))}"
| "denotes WordBoundary t = {(i, j). j = i \<and> at_boundary t i}"

text \<open>A pattern that always consumes, as the body of an unbounded repetition has to.\<close>

primrec consumes :: "regex \<Rightarrow> bool" where
  "consumes Eps = False"
| "consumes (Cls p) = True"
| "consumes (Seq a b) = (consumes a \<or> consumes b)"
| "consumes (Alt a b) = (consumes a \<and> consumes b)"
| "consumes (Rep lo hi a) = (0 < lo \<and> consumes a)"
| "consumes (NotAfter p) = False"
| "consumes (NotBefore p) = False"
| "consumes WordBoundary = False"

primrec wf_regex :: "regex \<Rightarrow> bool" where
  "wf_regex Eps = True"
| "wf_regex (Cls p) = True"
| "wf_regex (Seq a b) = (wf_regex a \<and> wf_regex b)"
| "wf_regex (Alt a b) = (wf_regex a \<and> wf_regex b)"
| "wf_regex (Rep lo hi a) = (wf_regex a \<and> (hi = None \<longrightarrow> consumes a))"
| "wf_regex (NotAfter p) = True"
| "wf_regex (NotBefore p) = True"
| "wf_regex WordBoundary = True"

lemma relpow_mono_nat:
  assumes "\<And>i j. (i, j) \<in> R \<Longrightarrow> i \<le> j" "(i, j) \<in> R ^^ k"
  shows "i \<le> (j :: nat)"
  using assms(2) by (induction k arbitrary: j) (auto dest!: assms(1) intro: order.trans)

lemma denotes_le: "(i, j) \<in> denotes r t \<Longrightarrow> i \<le> j"
proof (induction r arbitrary: i j)
  case (Rep lo hi a)
  then show ?case using relpow_mono_nat [of "denotes a t"] by auto
next
  case (Seq a b)
  then obtain k where "(i, k) \<in> denotes a t" "(k, j) \<in> denotes b t" by auto
  then show ?case using Seq.IH order.trans by blast
qed auto

lemma denotes_bound: "(i, j) \<in> denotes r t \<Longrightarrow> i < j \<Longrightarrow> j \<le> length t"
proof (induction r arbitrary: i j)
  case (Seq a b)
  then obtain k where k: "(i, k) \<in> denotes a t" "(k, j) \<in> denotes b t" by auto
  then show ?case using Seq.IH Seq.prems(2) by (cases "k < j") (auto dest: denotes_le)
next
  case (Rep lo hi a)
  then obtain k where "(i, j) \<in> denotes a t ^^ k" by auto
  then show ?case using Rep.prems(2)
  proof (induction k arbitrary: j)
    case (Suc k)
    then obtain m where m: "(i, m) \<in> denotes a t ^^ k" "(m, j) \<in> denotes a t" by auto
    then show ?case using Suc.IH [OF m(1)] Rep.IH [OF m(2)] Suc.prems(2) denotes_le [OF m(2)] by (cases "m < j") auto
  qed simp
qed auto

lemma consumes_less: "consumes r \<Longrightarrow> (i, j) \<in> denotes r t \<Longrightarrow> i < j"
proof (induction r arbitrary: i j)
  case (Seq a b)
  then obtain k where k: "(i, k) \<in> denotes a t" "(k, j) \<in> denotes b t" by auto
  have "i < k \<or> k < j" using Seq k by auto
  then show ?case using denotes_le [OF k(1)] denotes_le [OF k(2)] by linarith
next
  case (Rep lo hi a)
  then obtain k where "lo \<le> k" "0 < lo" and k: "(i, j) \<in> denotes a t ^^ k" by auto
  then have "k \<noteq> 0" by simp
  then obtain n where "k = Suc n" by (cases k) auto
  then obtain m where m: "(i, m) \<in> denotes a t ^^ n" "(m, j) \<in> denotes a t" using k by auto
  have "i \<le> m" using denotes_le m(1) by (rule relpow_mono_nat)
  moreover have "m < j" using Rep m(2) by simp
  ultimately show ?case by linarith
qed auto

lemma rep_ends_iff:
  assumes "\<And>i j. j \<in> set (f i) \<longleftrightarrow> (i, j) \<in> R"
  shows "j \<in> set (rep_ends f lo n i) \<longleftrightarrow> (\<exists>k. lo \<le> k \<and> k \<le> n \<and> (i, j) \<in> R ^^ k)"
proof (induction n arbitrary: lo i)
  case 0
  then show ?case by auto
next
  case (Suc n)
  have "(\<exists>k. lo \<le> k \<and> k \<le> Suc n \<and> (i, j) \<in> R ^^ k) \<longleftrightarrow>
      (lo = 0 \<and> i = j) \<or> (\<exists>k. lo - 1 \<le> k \<and> k \<le> n \<and> (i, j) \<in> R ^^ Suc k)"
  proof
    assume "\<exists>k. lo \<le> k \<and> k \<le> Suc n \<and> (i, j) \<in> R ^^ k"
    then obtain k where k: "lo \<le> k" "k \<le> Suc n" "(i, j) \<in> R ^^ k" by blast
    show "(lo = 0 \<and> i = j) \<or> (\<exists>k. lo - 1 \<le> k \<and> k \<le> n \<and> (i, j) \<in> R ^^ Suc k)"
    proof (cases k)
      case (Suc m)
      then have "lo - 1 \<le> m \<and> m \<le> n \<and> (i, j) \<in> R ^^ Suc m" using k by (simp del: relpow.simps)
      then show ?thesis by blast
    qed (use k in simp)
  next
    assume "(lo = 0 \<and> i = j) \<or> (\<exists>k. lo - 1 \<le> k \<and> k \<le> n \<and> (i, j) \<in> R ^^ Suc k)"
    then show "\<exists>k. lo \<le> k \<and> k \<le> Suc n \<and> (i, j) \<in> R ^^ k"
    proof (elim disjE exE conjE)
      assume "lo = 0" "i = j"
      then show ?thesis by (intro exI [of _ 0]) simp
    next
      fix k assume "lo - 1 \<le> k" "k \<le> n" "(i, j) \<in> R ^^ Suc k"
      then show ?thesis by (intro exI [of _ "Suc k"]) (auto simp del: relpow.simps)
    qed
  qed
  also have "\<dots> \<longleftrightarrow> j \<in> set (rep_ends f lo (Suc n) i)"
  proof -
    have "(i, j) \<in> R ^^ Suc k \<longleftrightarrow> (\<exists>m\<in>set (f i). (m, j) \<in> R ^^ k)" for k
      by (auto simp: assms relpow_commute [symmetric] simp del: relpow.simps simp: relpow.simps(2))
    then show ?thesis by (auto simp: Suc.IH simp del: relpow.simps)
  qed
  finally show ?case by simp
qed

lemma relpow_length:
  assumes "\<And>i j. (i, j) \<in> R \<Longrightarrow> i < j \<and> j \<le> n" "(i, j) \<in> R ^^ k" "k \<noteq> 0"
  shows "i + k \<le> j \<and> j \<le> (n :: nat)"
  using assms(2,3)
proof (induction k arbitrary: j)
  case (Suc k)
  then obtain m where m: "(i, m) \<in> R ^^ k" "(m, j) \<in> R" by auto
  then show ?case using Suc.IH [OF m(1)] assms(1) [OF m(2)] by (cases k) auto
qed simp

text \<open>The search enumerates exactly the spans of the pattern.\<close>

lemma ends_iff: "wf_regex r \<Longrightarrow> j \<in> set (ends r t i) \<longleftrightarrow> (i, j) \<in> denotes r t"
proof (induction r arbitrary: i j)
  case (Rep lo hi a)
  have a: "j \<in> set (ends a t i) \<longleftrightarrow> (i, j) \<in> denotes a t" for i j using Rep by simp
  show ?case
  proof (cases hi)
    case None
    have bound: "i < j \<and> j \<le> length t" if "(i, j) \<in> denotes a t" for i j
      using that Rep.prems None consumes_less denotes_bound by auto
    have "k \<le> lo + length t" if "(i, j) \<in> denotes a t ^^ k" for k
      using relpow_length [OF bound that] by (cases "k = 0") auto
    then show ?thesis using None by (auto simp: rep_ends_iff [OF a])
  next
    case (Some h)
    then show ?thesis by (auto simp: rep_ends_iff [OF a])
  qed
qed auto

end
