(* ===== verification/Trace.thy ===== *)
theory Trace
  imports Regex
begin

text \<open>
  \<open>src/telemetry/trace.py\<close>: what the traces and the stored messages may hold. Values under sensitive keys
  are replaced, texts have phone numbers, secrets, e-mail addresses, card numbers and postal addresses
  cut out and are cut to 512 code points. The digest of a record is a parameter.
\<close>

section \<open>Patterns\<close>

definition phone_pattern :: regex where
  "phone_pattern = seqs [NotAfter re_digit,
     opt (seqs [opt (lit ''+''), lit ''86'', opt (Cls (any_of [''-'', '' '']))]),
     lit ''1'', Rep 10 (Some 10) (Cls re_digit), NotBefore re_digit]"

definition secret_name :: regex where
  "secret_name = alts [seqs [lit_ci ''api'', opt (Cls (any_of [''_'', ''-''])), lit_ci ''key''],
     lit_ci ''authorization'', lit_ci ''token'', lit_ci ''password'', lit_ci ''secret'']"

definition secret_value :: regex where
  "secret_value = seqs [Rep 0 None (Cls is_white), Cls (any_of ['':'', ''='']), Rep 0 None (Cls is_white),
     Rep 1 None (Cls (\<lambda>c. c \<noteq> '','' \<and> \<not> is_white c))]"

definition mail_char :: "string \<Rightarrow> bool" where
  "mail_char c \<longleftrightarrow> re_letter c \<or> re_digit c \<or> any_of [''.'', ''_'', ''%'', ''+'', ''-''] c"

definition host_char :: "string \<Rightarrow> bool" where
  "host_char c \<longleftrightarrow> re_letter c \<or> re_digit c \<or> any_of [''.'', ''-''] c"

definition email_pattern :: regex where
  "email_pattern = seqs [WordBoundary, Rep 1 None (Cls mail_char), lit ''@'', Rep 1 None (Cls host_char), lit ''.'',
     Rep 2 None (Cls re_letter), WordBoundary]"

definition card_pattern :: regex where
  "card_pattern = seqs [NotAfter re_digit,
     Rep 13 (Some 19) (Seq (Cls re_digit) (opt (Cls (any_of ['' '', ''-''])))), NotBefore re_digit]"

definition address_pattern :: regex where
  "address_pattern = seqs [NotAfter han, Rep 2 None (Cls han),
     Cls (any_of [[CHR 0xE7, CHR 0x9C, CHR 0x81], [CHR 0xE5, CHR 0xB8, CHR 0x82], [CHR 0xE5, CHR 0x8C, CHR 0xBA], [CHR 0xE5, CHR 0x8E, CHR 0xBF]]),
     Rep 0 (Some 24) (Cls (\<lambda>c. han c \<or> re_digit c \<or> is_white c)),
     Cls (any_of [[CHR 0xE8, CHR 0xB7, CHR 0xAF], [CHR 0xE8, CHR 0xA1, CHR 0x97], [CHR 0xE5, CHR 0xB7, CHR 0xB7], [CHR 0xE5, CHR 0xBC, CHR 0x84], [CHR 0xE5, CHR 0x8F, CHR 0xB7], [CHR 0xE6, CHR 0xA0, CHR 0x8B]]),
     Rep 0 None (Cls is_white), Rep 0 None (Cls re_digit),
     Rep 0 (Some 12) (Cls (\<lambda>c. han c \<or> re_digit c \<or> is_white c \<or> c = ''-''))]"

lemma patterns_wf: "list_all wf_regex [phone_pattern, Seq secret_name secret_value, email_pattern, card_pattern, address_pattern]"
  by code_simp

section \<open>Sanitizing\<close>

text \<open>\<open>\1=[REDACTED]\<close>: the group is the name for which the rest of the pattern matches.\<close>

definition secret_group_end :: "string list \<Rightarrow> nat \<Rightarrow> nat" where
  "secret_group_end t i =
     (case find (\<lambda>k. ends secret_value t k \<noteq> []) (ends secret_name t i) of Some k \<Rightarrow> k | None \<Rightarrow> i)"

definition sub_secrets :: "string \<Rightarrow> string" where
  "sub_secrets s =
     (let t = chars s in
      concat (sub_from (Seq secret_name secret_value)
        (\<lambda>i j. span t i (secret_group_end t i) @ chars ''=[REDACTED]'') t 0 0 t))"

definition max_text :: nat where
  "max_text = 512"

definition sanitize_text :: "string \<Rightarrow> string" where
  "sanitize_text s =
     slice_to (re_sub address_pattern ''[ADDRESS_REDACTED]''
       (re_sub card_pattern ''[PAYMENT_REDACTED]''
       (re_sub email_pattern ''[EMAIL_REDACTED]''
       (sub_secrets (re_sub phone_pattern ''[PHONE_REDACTED]'' s))))) max_text"

definition forbidden_keys :: "string list" where
  "forbidden_keys = [''api_key'', ''authorization'', ''secret'', ''password'', ''confirmation_token'', ''chain_of_thought'',
     ''reasoning'', ''hidden_reasoning'', ''address'', ''new_address'', ''phone'', ''mobile'', ''email'', ''card_number'',
     ''payment_data'']"

definition forbidden_key :: "string \<Rightarrow> bool" where
  "forbidden_key k \<longleftrightarrow> lower k \<in> set forbidden_keys"

fun sanitize :: "pyval \<Rightarrow> pyval"
  and sanitize_list :: "pyval list \<Rightarrow> pyval list"
  and sanitize_dict :: "pydict \<Rightarrow> pydict" where
  "sanitize (PDict d) = PDict (sanitize_dict d)"
| "sanitize (PList xs) = PList (sanitize_list xs)"
| "sanitize (PStr s) = PStr (sanitize_text s)"
| "sanitize v = v"
| "sanitize_list [] = []"
| "sanitize_list (x # xs) = sanitize x # sanitize_list xs"
| "sanitize_dict [] = []"
| "sanitize_dict ((k, v) # d) =
     (k, if forbidden_key k then PStr ''[REDACTED]'' else sanitize v) # sanitize_dict d"

section \<open>The trace store\<close>

record trace_record =
  tx_sequence :: int
  tx_kind :: string
  tx_payload :: pydict
  tx_hash :: string

definition trace_append :: "(pydict \<Rightarrow> string) \<Rightarrow> string \<Rightarrow> pydict \<Rightarrow> trace_record list \<Rightarrow>
    (trace_record \<times> trace_record list) result" where
  "trace_append digest kind payload records =
     (if kind = [] then Inl (ValueError ''trace kind must not be empty'')
      else let safe = sanitize_dict payload;
             r = \<lparr>tx_sequence = int (length records) + 1, tx_kind = kind, tx_payload = safe, tx_hash = digest safe\<rparr>
           in Inr (r, records @ [r]))"

section \<open>What a trace may hold\<close>

fun clean :: "pyval \<Rightarrow> bool"
  and clean_list :: "pyval list \<Rightarrow> bool"
  and clean_dict :: "pydict \<Rightarrow> bool" where
  "clean (PDict d) = clean_dict d"
| "clean (PList xs) = clean_list xs"
| "clean (PStr s) = (py_len s \<le> max_text)"
| "clean v = True"
| "clean_list [] = True"
| "clean_list (x # xs) = (clean x \<and> clean_list xs)"
| "clean_dict [] = True"
| "clean_dict ((k, v) # d) = ((if forbidden_key k then v = PStr ''[REDACTED]'' else clean v) \<and> clean_dict d)"

lemma sanitize_clean: "clean (sanitize v)" "clean_list (sanitize_list xs)" "clean_dict (sanitize_dict d)"
  by (induction v and xs and d rule: sanitize_sanitize_list_sanitize_dict.induct)
    (auto simp: sanitize_text_def slice_to_len)

lemma sanitize_dict_keys [simp]: "map fst (sanitize_dict d) = map fst d"
  by (induction d) auto


text \<open>
  An e-mail address that follows a Chinese word without a space is not found: the word boundary in front
  of it is missing.
\<close>

lemma email_after_han_kept: "sanitize_text [CHR 0xE9, CHR 0x82, CHR 0xAE, CHR 0xE7, CHR 0xAE, CHR 0xB1, CHR 0x61, CHR 0x40,
      CHR 0x62, CHR 0x2E, CHR 0x63, CHR 0x6E] = [CHR 0xE9, CHR 0x82, CHR 0xAE, CHR 0xE7, CHR 0xAE, CHR 0xB1, CHR 0x61, CHR 0x40,
      CHR 0x62, CHR 0x2E, CHR 0x63, CHR 0x6E]"
  by code_simp

lemma phone_example: "re_sub phone_pattern ''[PHONE_REDACTED]'' ''t 13812345678'' = ''t [PHONE_REDACTED]''"
  by code_simp

lemma secret_example: "sub_secrets ''token: 7'' = ''token=[REDACTED]''"
  by code_simp

end
