(* ===== verification/Tools.thy ===== *)
theory Tools
  imports Policy
begin

text \<open>
  \<open>src/tools\<close>: the registry and its \<open>resolve\<close>, the executor with its guards, its retry loop and its
  schema check, and the catalogs \<open>readonly_specs.py\<close> and \<open>write_specs.py\<close>.

  An adapter, the clocks and the owner lookup are fields of a \<open>tool_env\<close> over a world \<open>'w\<close> that the
  adapter may change. \<open>_invoke_with_timeout\<close> runs the adapter in a daemon thread: what comes back,
  or that nothing came back in time, is the adapter's reply. The state carries next to the world a
  log of the adapter calls that were started; the code has no such log, the theorems speak about it.
  The trace record is not modelled: its failures are swallowed and it does not touch the outcome.
\<close>

section \<open>The registry\<close>

type_synonym tool_registry = "((string \<times> string) \<times> tool_spec) list"

definition make_registry :: "tool_spec list \<Rightarrow> tool_registry result" where
  "make_registry specs =
     (let entries = foldl (\<lambda>d s. dset d (ts_name s, ts_version s) s) [] specs in
      if length entries \<noteq> length specs then Inl (ToolRegistryError ''duplicate tool name and version'')
      else Inr entries)"

definition registry_get :: "tool_registry \<Rightarrow> string \<Rightarrow> string \<Rightarrow> tool_spec result" where
  "registry_get reg name version =
     (case dget reg (name, version) of
        None \<Rightarrow> Inl (ToolRegistryError ''unknown tool version'')
      | Some s \<Rightarrow> Inr s)"

text \<open>The workflow id, an at sign and the version; \<open>None\<close> if one of them is missing.\<close>

definition workflow_label :: "tool_context \<Rightarrow> string option" where
  "workflow_label ctx =
     (case (tc_workflow_id ctx, tc_workflow_version ctx) of
        (Some i, Some v) \<Rightarrow> Some (i @ ''@'' @ v)
      | _ \<Rightarrow> None)"

definition workflow_allowed :: "tool_spec \<Rightarrow> tool_context \<Rightarrow> bool" where
  "workflow_allowed spec ctx \<longleftrightarrow>
     ts_allowed_workflows spec = [] \<or>
     (case workflow_label ctx of None \<Rightarrow> False | Some l \<Rightarrow> l \<in> set (ts_allowed_workflows spec))"

definition step_allowed :: "tool_spec \<Rightarrow> tool_context \<Rightarrow> bool" where
  "step_allowed spec ctx \<longleftrightarrow>
     ts_allowed_steps spec = [] \<or>
     (case tc_current_step ctx of None \<Rightarrow> False | Some s \<Rightarrow> s \<in> set (ts_allowed_steps spec))"

definition scopes_available :: "tool_spec \<Rightarrow> tool_context \<Rightarrow> bool" where
  "scopes_available spec ctx \<longleftrightarrow> list_all (\<lambda>s. s \<in> set (tc_scopes ctx)) (ts_required_scopes spec)"

definition registry_resolve ::
  "tool_registry \<Rightarrow> string \<Rightarrow> string \<Rightarrow> tool_context \<Rightarrow> bool \<Rightarrow> tool_spec result" where
  "registry_resolve reg name version ctx require_model_visible =
     bind_res (registry_get reg name version) (\<lambda>spec.
       if require_model_visible \<and> \<not> ts_model_visible spec
       then Inl (ToolRegistryError ''tool is not model visible'')
       else if \<not> workflow_allowed spec ctx
       then Inl (ToolRegistryError ''tool is not allowed in the current workflow'')
       else if \<not> step_allowed spec ctx
       then Inl (ToolRegistryError ''tool is not allowed in the current step'')
       else if \<not> scopes_available spec ctx then Inl (ToolRegistryError ''tool scopes are unavailable'')
       else Inr spec)"

definition model_visible_names :: "tool_registry \<Rightarrow> string list" where
  "model_visible_names reg = map ts_name (filter ts_model_visible (map snd reg))"

lemma registry_resolve_Inr:
  "registry_resolve reg name version ctx vis = Inr spec \<longleftrightarrow>
     dget reg (name, version) = Some spec \<and> (vis \<longrightarrow> ts_model_visible spec) \<and>
     workflow_allowed spec ctx \<and> step_allowed spec ctx \<and> scopes_available spec ctx"
  by (auto simp: registry_resolve_def registry_get_def bind_res_eq_Inr split: option.splits if_splits)

section \<open>The schema check\<close>

definition system_argument_fields :: "string list" where
  "system_argument_fields =
     [''tenant_id'', ''actor_id'', ''owner_id'', ''scopes'', ''idempotency_key'', ''confirmation_token'',
      ''policy_version'']"

definition sets_system_field :: "pydict \<Rightarrow> bool" where
  "sets_system_field args \<longleftrightarrow> (\<exists>k\<in>set (dkeys args). k \<in> set system_argument_fields)"

text \<open>\<open>isinstance\<close> for the six JSON types; a bool is not an integer or a number here.\<close>

fun value_has_type :: "string \<Rightarrow> pyval \<Rightarrow> bool" where
  "value_has_type t (PStr _) = (t \<notin> {''integer'', ''boolean'', ''number'', ''array'', ''object''})"
| "value_has_type t (PInt _) = (t \<notin> {''string'', ''boolean'', ''array'', ''object''})"
| "value_has_type t (PBool _) = (t \<notin> {''string'', ''integer'', ''number'', ''array'', ''object''})"
| "value_has_type t (PFloat _) = (t \<notin> {''string'', ''integer'', ''boolean'', ''array'', ''object''})"
| "value_has_type t (PList _) = (t \<notin> {''string'', ''integer'', ''boolean'', ''number'', ''object''})"
| "value_has_type t (PDict _) = (t \<notin> {''string'', ''integer'', ''boolean'', ''number'', ''array''})"
| "value_has_type t PNone =
     (t \<notin> {''string'', ''integer'', ''boolean'', ''number'', ''array'', ''object''})"

text \<open>\<open>definition.get("type")\<close> for the property of this name, if its definition is a dict.\<close>

definition expected_type :: "pydict \<Rightarrow> string \<Rightarrow> string option" where
  "expected_type properties name =
     (case dget properties name of
        Some (PDict d) \<Rightarrow> (case dget d ''type'' of Some (PStr t) \<Rightarrow> Some t | _ \<Rightarrow> None)
      | _ \<Rightarrow> None)"

text \<open>\<open>required\<close> and \<open>properties\<close> of a schema, \<open>None\<close> if one has the wrong type.\<close>

definition schema_parts :: "pydict \<Rightarrow> (pyval list \<times> pydict) option" where
  "schema_parts schema =
     (case (dget_or schema ''required'' (PList []), dget_or schema ''properties'' (PDict [])) of
        (PList r, PDict p) \<Rightarrow> Some (r, p)
      | _ \<Rightarrow> None)"

definition present_name :: "pydict \<Rightarrow> pyval \<Rightarrow> bool" where
  "present_name data name = (case name of PStr k \<Rightarrow> dget data k \<noteq> None | _ \<Rightarrow> False)"

definition closed_schema :: "pydict \<Rightarrow> bool" where
  "closed_schema schema \<longleftrightarrow> dget schema ''additionalProperties'' = Some (PBool False)"

definition valid_object :: "pydict option \<Rightarrow> pydict \<Rightarrow> bool" where
  "valid_object data schema =
     (case data of
        None \<Rightarrow> False
      | Some d \<Rightarrow>
        (case schema_parts schema of
           None \<Rightarrow> False
         | Some (required, properties) \<Rightarrow>
             list_all (present_name d) required \<and>
             (closed_schema schema \<longrightarrow> list_all (\<lambda>k. dget properties k \<noteq> None) (dkeys d)) \<and>
             list_all (\<lambda>(k, v). case expected_type properties k of
                 None \<Rightarrow> True | Some t \<Rightarrow> value_has_type t v) d))"

section \<open>The executor\<close>

datatype adapter_reply = AR_RESULT tool_result | AR_NOT_A_RESULT | AR_EXCEPTION | AR_TIMED_OUT

type_synonym tool_call = "string \<times> pydict"

record 'w tool_state =
  tst_world :: 'w
  tst_calls :: "tool_call list"

record 'w tool_env =
  te_adapters :: "(string \<times> (tool_context \<Rightarrow> pydict \<Rightarrow> rat \<Rightarrow> 'w \<Rightarrow> adapter_reply \<times> 'w)) list"
  te_policy :: "policy_engine option"
  te_authorize :: "(string \<Rightarrow> pyval \<Rightarrow> tool_context \<Rightarrow> 'w \<Rightarrow> bool result) option"
  te_now :: "'w \<Rightarrow> int \<times> 'w"
  te_clock :: "'w \<Rightarrow> rat \<times> 'w"
  te_facts_hash :: "pydict \<Rightarrow> string"

record execution_outcome =
  eo_result :: tool_result
  eo_attempts :: nat

definition tool_failure :: "tool_spec \<Rightarrow> tool_error_code \<Rightarrow> bool \<Rightarrow> tool_result" where
  "tool_failure spec code retryable =
     \<lparr>tr_tool_name = ts_name spec, tr_tool_version = ts_version spec, tr_data = None,
      tr_error = Some \<lparr>err_code = code, err_retryable = retryable, err_message = ''tool execution denied''\<rparr>\<rparr>"

definition outcome :: "tool_result \<Rightarrow> nat \<Rightarrow> execution_outcome" where
  "outcome r n = \<lparr>eo_result = r, eo_attempts = n\<rparr>"

definition valid_runtime_binding :: "tool_spec \<Rightarrow> tool_context \<Rightarrow> bool" where
  "valid_runtime_binding spec ctx \<longleftrightarrow> workflow_allowed spec ctx \<and> step_allowed spec ctx"

definition read_now :: "'w tool_env \<Rightarrow> 'w tool_state \<Rightarrow> int \<times> 'w tool_state" where
  "read_now env st = (let (t, w) = te_now env (tst_world st) in (t, st\<lparr>tst_world := w\<rparr>))"

definition read_clock :: "'w tool_env \<Rightarrow> 'w tool_state \<Rightarrow> rat \<times> 'w tool_state" where
  "read_clock env st = (let (t, w) = te_clock env (tst_world st) in (t, st\<lparr>tst_world := w\<rparr>))"

text \<open>\<open>deadline_at is not None and datetime.now(...) >= deadline_at\<close>\<close>

definition past_deadline :: "'w tool_env \<Rightarrow> int option \<Rightarrow> 'w tool_state \<Rightarrow> bool \<times> 'w tool_state" where
  "past_deadline env deadline st =
     (case deadline of
        None \<Rightarrow> (False, st)
      | Some d \<Rightarrow> (let (t, st') = read_now env st in (d \<le> t, st')))"

text \<open>The timeout of one call in seconds, cut to what is left of the deadline (in microseconds).\<close>

definition call_timeout :: "'w tool_env \<Rightarrow> tool_spec \<Rightarrow> int option \<Rightarrow> 'w tool_state \<Rightarrow> rat \<times> 'w tool_state"
where
  "call_timeout env spec deadline st =
     (let base = of_int (ts_timeout_ms spec) / 1000 in
      case deadline of
        None \<Rightarrow> (base, st)
      | Some d \<Rightarrow> (let (t, st') = read_now env st in (min base (max 0 (of_int (d - t) / 1000000)), st')))"

definition invoke_with_timeout ::
  "(tool_context \<Rightarrow> pydict \<Rightarrow> rat \<Rightarrow> 'w \<Rightarrow> adapter_reply \<times> 'w) \<Rightarrow> string \<Rightarrow> tool_context \<Rightarrow> pydict \<Rightarrow>
   rat \<Rightarrow> 'w tool_state \<Rightarrow> adapter_reply \<times> 'w tool_state" where
  "invoke_with_timeout adapter name ctx args seconds st =
     (if seconds \<le> 0 then (AR_TIMED_OUT, st)
      else let (r, w) = adapter ctx args seconds (tst_world st)
        in (r, st\<lparr>tst_world := w, tst_calls := tst_calls st @ [(name, args)]\<rparr>))"

definition unknown_or :: "tool_spec \<Rightarrow> tool_error_code \<Rightarrow> bool \<Rightarrow> tool_result" where
  "unknown_or spec code retryable =
     (if ts_risk spec = TR_READ_ONLY then tool_failure spec code retryable
      else tool_failure spec TE_STATUS_UNKNOWN False)"

text \<open>The result of one call, \<open>None\<close> for a reply that is not a tool result at all.\<close>

definition reply_result :: "tool_spec \<Rightarrow> adapter_reply \<Rightarrow> tool_result option" where
  "reply_result spec reply =
     (case reply of
        AR_TIMED_OUT \<Rightarrow> Some (unknown_or spec TE_UPSTREAM_TIMEOUT True)
      | AR_EXCEPTION \<Rightarrow> Some (unknown_or spec TE_INTERNAL_ERROR False)
      | AR_NOT_A_RESULT \<Rightarrow> None
      | AR_RESULT r \<Rightarrow> Some r)"

text \<open>The checks on a result after the call: the final result, and whether the loop may go on.\<close>

definition judge_result :: "tool_spec \<Rightarrow> tool_result \<Rightarrow> tool_result \<times> bool" where
  "judge_result spec r =
     (if tr_tool_name r \<noteq> ts_name spec \<or> tr_tool_version r \<noteq> ts_version spec
      then (tool_failure spec TE_INTERNAL_ERROR False, False)
      else if (tr_data r = None) = (tr_error r = None) then (tool_failure spec TE_INTERNAL_ERROR False, False)
      else if tr_error r = None \<and> \<not> valid_object (tr_data r) (ts_output_schema spec)
      then (tool_failure spec TE_INTERNAL_ERROR False, False)
      else
        (let r' = (case tr_error r of
              Some e \<Rightarrow> if ts_risk spec \<noteq> TR_READ_ONLY \<and> err_code e = TE_UPSTREAM_TIMEOUT
                then tool_failure spec TE_STATUS_UNKNOWN False else r
            | None \<Rightarrow> r)
         in (r', case tr_error r' of
              None \<Rightarrow> False
            | Some e \<Rightarrow> err_retryable e \<and> err_code e \<noteq> TE_STATUS_UNKNOWN)))"

text \<open>
  The \<open>while attempts < max_attempts\<close> loop; \<open>remaining\<close> is \<open>max_attempts - attempts\<close>. Leaving the loop
  without an attempt reads an unbound variable in Python.
\<close>

fun attempt_loop ::
  "'w tool_env \<Rightarrow> (tool_context \<Rightarrow> pydict \<Rightarrow> rat \<Rightarrow> 'w \<Rightarrow> adapter_reply \<times> 'w) \<Rightarrow> tool_spec \<Rightarrow> tool_context \<Rightarrow>
   pydict \<Rightarrow> int option \<Rightarrow> nat \<Rightarrow> nat \<Rightarrow> tool_result option \<Rightarrow> 'w tool_state \<Rightarrow>
   (execution_outcome \<times> 'w tool_state) result" where
  "attempt_loop env adapter spec ctx args deadline 0 attempts prev st =
     (case prev of None \<Rightarrow> Inl (OtherError ''UnboundLocalError'') | Some r \<Rightarrow> Inr (outcome r attempts, st))"
| "attempt_loop env adapter spec ctx args deadline (Suc remaining) attempts prev st =
     (let (late, st) = past_deadline env deadline st in
      if late then Inr (outcome (tool_failure spec TE_UPSTREAM_TIMEOUT False) attempts, st)
      else
       (let attempts = Suc attempts;
            (started, st) = read_clock env st;
            (seconds, st) = call_timeout env spec deadline st;
            (reply, st) = invoke_with_timeout adapter (ts_name spec) ctx args seconds st
        in
        case reply_result spec reply of
          None \<Rightarrow> Inr (outcome (tool_failure spec TE_INTERNAL_ERROR False) attempts, st)
        | Some r \<Rightarrow>
            (let (ended, st) = read_clock env st;
                 r = (if of_int (ts_timeout_ms spec) < (ended - started) * 1000
                      then unknown_or spec TE_UPSTREAM_TIMEOUT True else r);
                 (r, again) = judge_result spec r
             in
             if again then attempt_loop env adapter spec ctx args deadline remaining attempts (Some r) st
             else Inr (outcome r attempts, st))))"

definition resource_refused ::
  "'w tool_env \<Rightarrow> tool_spec \<Rightarrow> tool_context \<Rightarrow> pydict \<Rightarrow> 'w tool_state \<Rightarrow> bool" where
  "resource_refused env spec ctx args st =
     (case ts_resource_binding spec of
        None \<Rightarrow> False
      | Some b \<Rightarrow>
        (case (dget_or args (rb_argument b) PNone, te_authorize env) of
           (PNone, _) \<Rightarrow> True
         | (_, None) \<Rightarrow> True
         | (v, Some auth) \<Rightarrow> auth (rb_owner_check b) v ctx (tst_world st) \<noteq> Inr True))"

text \<open>The policy guard: \<open>Inr True\<close> is a denial. \<open>except ValueError\<close> lets a \<open>TypeError\<close> through.\<close>

definition policy_refused ::
  "'w tool_env \<Rightarrow> tool_spec \<Rightarrow> tool_context \<Rightarrow> pydict option \<Rightarrow> bool result" where
  "policy_refused env spec ctx facts =
     (case te_policy env of
        None \<Rightarrow> Inr False
      | Some policy \<Rightarrow>
        (case facts of
           None \<Rightarrow> Inr True
         | Some f \<Rightarrow>
             if tc_policy_version ctx \<noteq> Some (pe_version policy) then Inr True
             else (case evaluate_policy (te_facts_hash env) policy (ts_name spec) f of
                 Inl e \<Rightarrow> if is_value_error e then Inr True else Inl e
               | Inr d \<Rightarrow> Inr (pd_effect d \<noteq> PE_ALLOW))))"

definition max_attempts :: "tool_spec \<Rightarrow> nat" where
  "max_attempts spec = (if ts_risk spec = TR_READ_ONLY then nat (rp_max_attempts (ts_retry_policy spec)) else 1)"

definition execute_tool ::
  "'w tool_env \<Rightarrow> tool_spec \<Rightarrow> tool_context \<Rightarrow> pydict \<Rightarrow> pydict option \<Rightarrow> int option \<Rightarrow> 'w tool_state \<Rightarrow>
   (execution_outcome \<times> 'w tool_state) result" where
  "execute_tool env spec ctx args facts deadline st =
     (let refuse = (\<lambda>code st. Inr (outcome (tool_failure spec code False) 0, st)) in
      if \<not> valid_object (Some args) (ts_input_schema spec) then refuse TE_INVALID_ARGUMENT st
      else if sets_system_field args then refuse TE_INVALID_ARGUMENT st
      else if \<not> valid_runtime_binding spec ctx then refuse TE_PERMISSION_DENIED st
      else
       (let (late, st) = past_deadline env deadline st in
        if late then refuse TE_UPSTREAM_TIMEOUT st
        else if \<not> scopes_available spec ctx then refuse TE_PERMISSION_DENIED st
        else if resource_refused env spec ctx args st then refuse TE_RESOURCE_NOT_FOUND st
        else bind_res (policy_refused env spec ctx facts) (\<lambda>refused.
          if refused then refuse TE_POLICY_DENIED st
          else (case dget (te_adapters env) (ts_name spec) of
              None \<Rightarrow> refuse TE_INTERNAL_ERROR st
            | Some adapter \<Rightarrow>
                attempt_loop env adapter spec ctx args deadline (max_attempts spec) 0 None st))))"

section \<open>What an execution can do\<close>

definition well_formed_result :: "tool_spec \<Rightarrow> tool_result \<Rightarrow> bool" where
  "well_formed_result spec r \<longleftrightarrow>
     tr_tool_name r = ts_name spec \<and> tr_tool_version r = ts_version spec \<and>
     (tr_data r = None) \<noteq> (tr_error r = None) \<and>
     (tr_error r = None \<longrightarrow> valid_object (tr_data r) (ts_output_schema spec))"

definition claims_timeout :: "tool_result \<Rightarrow> bool" where
  "claims_timeout r \<longleftrightarrow> (case tr_error r of None \<Rightarrow> False | Some e \<Rightarrow> err_code e = TE_UPSTREAM_TIMEOUT)"

lemma well_formed_failure [simp]: "well_formed_result spec (tool_failure spec code b)"
  by (simp add: well_formed_result_def tool_failure_def)

lemma claims_timeout_failure [simp]: "claims_timeout (tool_failure spec code b) \<longleftrightarrow> code = TE_UPSTREAM_TIMEOUT"
  by (simp add: claims_timeout_def tool_failure_def)

lemma judge_result_ok:
  "judge_result spec r = (r', again) \<Longrightarrow>
     well_formed_result spec r' \<and> (ts_risk spec \<noteq> TR_READ_ONLY \<longrightarrow> \<not> claims_timeout r')"
  by (auto simp: judge_result_def Let_def well_formed_result_def tool_failure_def claims_timeout_def
      split: if_splits option.splits)

lemma read_now_calls: "read_now env st = (t, st') \<Longrightarrow> tst_calls st' = tst_calls st"
  by (auto simp: read_now_def split: prod.splits)

lemma read_clock_calls: "read_clock env st = (t, st') \<Longrightarrow> tst_calls st' = tst_calls st"
  by (auto simp: read_clock_def split: prod.splits)

lemma past_deadline_calls: "past_deadline env dl st = (b, st') \<Longrightarrow> tst_calls st' = tst_calls st"
  by (auto simp: past_deadline_def dest: read_now_calls split: option.splits prod.splits)

lemma call_timeout_calls: "call_timeout env spec dl st = (t, st') \<Longrightarrow> tst_calls st' = tst_calls st"
  by (auto simp: call_timeout_def Let_def dest: read_now_calls split: option.splits prod.splits)

lemma invoke_calls:
  "invoke_with_timeout adapter name ctx args s st = (r, st') \<Longrightarrow>
     \<exists>n\<le>1. tst_calls st' = tst_calls st @ replicate n (name, args)"
  by (auto simp: invoke_with_timeout_def split: if_splits prod.splits
      intro: exI [of _ 0] exI [of _ "Suc 0"])

lemma attempt_loop_effect:
  assumes "attempt_loop env adapter spec ctx args dl remaining attempts prev st = Inr (out, st')"
    "\<And>r. prev = Some r \<Longrightarrow> well_formed_result spec r \<and> (ts_risk spec \<noteq> TR_READ_ONLY \<longrightarrow> \<not> claims_timeout r)"
    "ts_risk spec \<noteq> TR_READ_ONLY \<Longrightarrow> attempts + remaining \<le> 1"
  shows "attempts \<le> eo_attempts out \<and> eo_attempts out \<le> attempts + remaining \<and>
    (\<exists>n \<le> eo_attempts out - attempts. tst_calls st' = tst_calls st @ replicate n (ts_name spec, args)) \<and>
    well_formed_result spec (eo_result out) \<and>
    (ts_risk spec \<noteq> TR_READ_ONLY \<longrightarrow> 0 < eo_attempts out \<longrightarrow> \<not> claims_timeout (eo_result out))"
  using assms
proof (induction remaining arbitrary: attempts prev st)
  case 0
  then show ?case by (auto simp: outcome_def split: option.splits)
next
  case (Suc remaining)
  obtain late st1 where late: "past_deadline env dl st = (late, st1)" by force
  have c1: "tst_calls st1 = tst_calls st" using late by (rule past_deadline_calls)
  show ?case
  proof (cases late)
    case True
    then show ?thesis using Suc.prems late c1 by (auto simp: outcome_def)
  next
    case False
    obtain t0 st2 where s2: "read_clock env st1 = (t0, st2)" by force
    obtain secs st3 where s3: "call_timeout env spec dl st2 = (secs, st3)" by force
    obtain reply st4 where s4: "invoke_with_timeout adapter (ts_name spec) ctx args secs st3 = (reply, st4)" by force
    obtain n where n: "n \<le> 1" "tst_calls st4 = tst_calls st @ replicate n (ts_name spec, args)"
      using invoke_calls [OF s4] c1 read_clock_calls [OF s2] call_timeout_calls [OF s3] by auto
    show ?thesis
    proof (cases "reply_result spec reply")
      case None
      then show ?thesis using Suc.prems(1) late False s2 s3 s4 n by (auto simp: outcome_def)
    next
      case (Some r)
      obtain t1 st5 where s5: "read_clock env st4 = (t1, st5)" by force
      let ?r = "if of_int (ts_timeout_ms spec) < (t1 - t0) * 1000 then unknown_or spec TE_UPSTREAM_TIMEOUT True else r"
      obtain r' again where j: "judge_result spec ?r = (r', again)" by force
      have c5: "tst_calls st5 = tst_calls st @ replicate n (ts_name spec, args)"
        using read_clock_calls [OF s5] n by simp
      show ?thesis
      proof (cases again)
        case stop: False
        then show ?thesis
          using Suc.prems(1) late False s2 s3 s4 s5 Some j c5 n(1) judge_result_ok [OF j]
          by (auto simp: outcome_def)
      next
        case True
        have rec: "attempt_loop env adapter spec ctx args dl remaining (Suc attempts) (Some r') st5 = Inr (out, st')"
          using Suc.prems(1) late False s2 s3 s4 s5 Some j True by simp
        have ih: "Suc attempts \<le> eo_attempts out \<and> eo_attempts out \<le> Suc attempts + remaining \<and>
            (\<exists>n \<le> eo_attempts out - Suc attempts. tst_calls st' = tst_calls st5 @ replicate n (ts_name spec, args)) \<and>
            well_formed_result spec (eo_result out) \<and>
            (ts_risk spec \<noteq> TR_READ_ONLY \<longrightarrow> 0 < eo_attempts out \<longrightarrow> \<not> claims_timeout (eo_result out))"
          using Suc.prems(3) judge_result_ok [OF j] by (intro Suc.IH [OF rec]) auto
        then obtain m where m: "m \<le> eo_attempts out - Suc attempts"
          "tst_calls st' = tst_calls st5 @ replicate m (ts_name spec, args)" by blast
        have "tst_calls st' = tst_calls st @ replicate (n + m) (ts_name spec, args)"
          using m(2) c5 by (simp add: replicate_add)
        moreover have "n + m \<le> eo_attempts out - attempts" using m(1) n(1) ih by linarith
        ultimately show ?thesis using ih by auto
      qed
    qed
  qed
qed

lemma execute_tool_cases:
  assumes "execute_tool env spec ctx args facts dl st = Inr (out, st')"
  obtains (refused) code where "out = outcome (tool_failure spec code False) 0" "tst_calls st' = tst_calls st"
  | (run) adapter st1 where "valid_object (Some args) (ts_input_schema spec)" "\<not> sets_system_field args"
      "valid_runtime_binding spec ctx" "scopes_available spec ctx" "\<not> resource_refused env spec ctx args st1"
      "policy_refused env spec ctx facts = Inr False" "dget (te_adapters env) (ts_name spec) = Some adapter"
      "tst_calls st1 = tst_calls st"
      "attempt_loop env adapter spec ctx args dl (max_attempts spec) 0 None st1 = Inr (out, st')"
proof -
  obtain late st1 where late: "past_deadline env dl st = (late, st1)" by force
  have c1: "tst_calls st1 = tst_calls st" using late by (rule past_deadline_calls)
  note d = assms[unfolded execute_tool_def Let_def late prod.case]
  consider "\<not> valid_object (Some args) (ts_input_schema spec) \<or> sets_system_field args \<or>
      \<not> valid_runtime_binding spec ctx \<or> late \<or> \<not> scopes_available spec ctx \<or>
      resource_refused env spec ctx args st1"
    | "valid_object (Some args) (ts_input_schema spec)" "\<not> sets_system_field args"
      "valid_runtime_binding spec ctx" "\<not> late" "scopes_available spec ctx"
      "\<not> resource_refused env spec ctx args st1" by blast
  then show ?thesis
  proof cases
    case 1
    then have "\<exists>code. out = outcome (tool_failure spec code False) 0 \<and> tst_calls st' = tst_calls st"
      using d c1 by (auto split: if_splits)
    then show ?thesis using refused by blast
  next
    case 2
    then obtain b where b: "policy_refused env spec ctx facts = Inr b" using d by (auto simp: bind_res_eq_Inr)
    show ?thesis
    proof (cases "b \<or> dget (te_adapters env) (ts_name spec) = None")
      case True
      then have "\<exists>code. out = outcome (tool_failure spec code False) 0 \<and> tst_calls st' = tst_calls st"
        using d 2 b c1 by (auto split: if_splits)
      then show ?thesis using refused by blast
    next
      case False
      then obtain adapter where a: "dget (te_adapters env) (ts_name spec) = Some adapter" by auto
      then have "attempt_loop env adapter spec ctx args dl (max_attempts spec) 0 None st1 = Inr (out, st')"
        using d 2 b False by simp
      then show ?thesis using run [OF 2(1-3,5,6) _ a c1] b False by simp
    qed
  qed
qed

lemma execute_tool_effect:
  assumes "execute_tool env spec ctx args facts dl st = Inr (out, st')"
  shows "(\<exists>n \<le> eo_attempts out. tst_calls st' = tst_calls st @ replicate n (ts_name spec, args)) \<and>
    eo_attempts out \<le> max_attempts spec \<and> well_formed_result spec (eo_result out) \<and>
    (ts_risk spec \<noteq> TR_READ_ONLY \<longrightarrow> 0 < eo_attempts out \<longrightarrow> \<not> claims_timeout (eo_result out))"
  using assms
proof (cases rule: execute_tool_cases)
  case (refused code)
  then show ?thesis by (auto simp: outcome_def)
next
  case (run adapter st1)
  then show ?thesis using attempt_loop_effect [OF run(9)] by (simp add: max_attempts_def)
qed

section \<open>The catalogs\<close>

definition obj :: "string \<Rightarrow> pyval" where
  "obj t = PDict [(''type'', PStr t)]"

definition string_arg :: "string \<Rightarrow> string \<times> pyval" where
  "string_arg k = (k, obj ''string'')"

definition closed_object :: "pydict \<Rightarrow> string list \<Rightarrow> pydict" where
  "closed_object properties required =
     [(''type'', PStr ''object''), (''properties'', PDict properties),
      (''required'', PList (map PStr required)), (''additionalProperties'', PBool False)]"

definition readonly_spec ::
  "string \<Rightarrow> pydict \<Rightarrow> string list \<Rightarrow> string list \<Rightarrow> string \<Rightarrow> string option \<Rightarrow> tool_spec" where
  "readonly_spec name properties required output_required scope resource =
     \<lparr>ts_name = name, ts_version = ''1'', ts_input_schema = closed_object properties required,
      ts_output_schema = closed_object (map (\<lambda>k. (k, PDict [])) output_required) output_required,
      ts_risk = TR_READ_ONLY, ts_required_scopes = [scope], ts_timeout_ms = 3000,
      ts_retry_policy = \<lparr>rp_max_attempts = 2, rp_backoff_ms = [100]\<rparr>, ts_model_visible = True,
      ts_allowed_workflows = [], ts_allowed_steps = [],
      ts_resource_binding = map_option (\<lambda>r. \<lparr>rb_argument = r, rb_owner_check = ''order.owner''\<rparr>) resource\<rparr>"

definition readonly_tool_specs :: "tool_spec list" where
  "readonly_tool_specs =
    [readonly_spec ''search_catalog'' [string_arg ''query'', (''filters'', obj ''object''), (''limit'', obj ''integer'')]
       [''query''] [''products''] ''catalog:read'' None,
     readonly_spec ''get_product_detail'' [string_arg ''product_id''] [''product_id''] [''product''] ''catalog:read'' None,
     readonly_spec ''compare_products'' [(''product_ids'', obj ''array''), (''fields'', obj ''array'')]
       [''product_ids''] [''products''] ''catalog:read'' None,
     readonly_spec ''retrieve_knowledge''
       [string_arg ''query'', (''metadata_filter'', obj ''object''), (''top_k'', obj ''integer'')]
       [''query''] [''evidence_ids'', ''evidence''] ''knowledge:read'' None,
     readonly_spec ''list_my_orders'' [string_arg ''status'', string_arg ''time_range'', (''limit'', obj ''integer'')]
       [] [''orders''] ''order:read'' None,
     readonly_spec ''get_order_status'' [string_arg ''order_id''] [''order_id''] [''order''] ''order:read''
       (Some ''order_id''),
     readonly_spec ''get_delivery_tracking'' [string_arg ''order_id''] [''order_id'']
       [''tracking_id'', ''status'', ''eta''] ''delivery:read'' (Some ''order_id''),
     readonly_spec ''get_payment_status'' [string_arg ''order_id''] [''order_id''] [''order_id'', ''status'']
       ''payment:read'' (Some ''order_id''),
     readonly_spec ''get_refund_status'' [string_arg ''order_id'', string_arg ''refund_id''] []
       [''order_id'', ''status''] ''refund:read'' (Some ''order_id'')]"

definition workflow_steps :: "string list" where
  "workflow_steps = [''authenticate'', ''load_resource'', ''check_eligibility'', ''collect_slots'', ''prepare'']"

definition prepare_spec :: "string \<Rightarrow> string list \<Rightarrow> string list \<Rightarrow> string \<Rightarrow> tool_spec" where
  "prepare_spec name properties required workflow =
     \<lparr>ts_name = name, ts_version = ''1'',
      ts_input_schema = closed_object (map string_arg properties) required,
      ts_output_schema = closed_object [(''preview'', obj ''object''), (''missing_slots'', obj ''array'')]
        [''preview'', ''missing_slots''],
      ts_risk = TR_PREPARE, ts_required_scopes = [''order:write''], ts_timeout_ms = 3000,
      ts_retry_policy = \<lparr>rp_max_attempts = 1, rp_backoff_ms = []\<rparr>, ts_model_visible = True,
      ts_allowed_workflows = [workflow @ ''@1''], ts_allowed_steps = workflow_steps,
      ts_resource_binding = Some \<lparr>rb_argument = ''order_id'', rb_owner_check = ''order.owner''\<rparr>\<rparr>"

definition prepare_tool_specs :: "tool_spec list" where
  "prepare_tool_specs =
    [prepare_spec ''prepare_cancel_order'' [''order_id'', ''reason''] [''order_id'', ''reason''] ''cancel_order'',
     prepare_spec ''prepare_update_shipping_address'' [''order_id'', ''new_address''] [''order_id'', ''new_address'']
       ''change_order'',
     prepare_spec ''prepare_refund'' [''order_id'', ''item_id'', ''reason''] [''order_id'', ''item_id'', ''reason''] ''refund'',
     prepare_spec ''prepare_return'' [''order_id'', ''item_id'', ''reason''] [''order_id'', ''item_id'', ''reason''] ''return'',
     prepare_spec ''prepare_exchange'' [''order_id'', ''item_id'', ''replacement_sku'']
       [''order_id'', ''item_id'', ''replacement_sku''] ''exchange'']"

definition low_risk_steps :: "string list" where
  "low_risk_steps = [''authenticate'', ''load_resource'', ''check_eligibility'', ''collect_slots'', ''commit'']"

definition low_risk_tool_specs :: "tool_spec list" where
  "low_risk_tool_specs =
    [(prepare_spec ''create_invoice_request'' [''order_id'', ''invoice_type'', ''title'']
        [''order_id'', ''invoice_type'', ''title''] ''invoice_request'')
       \<lparr>ts_risk := TR_LOW_WRITE, ts_allowed_steps := low_risk_steps\<rparr>,
     (prepare_spec ''report_delivery_issue'' [''order_id'', ''item_id'', ''issue_type'']
        [''order_id'', ''item_id'', ''issue_type''] ''delivery_issue'')
       \<lparr>ts_risk := TR_LOW_WRITE, ts_allowed_steps := low_risk_steps\<rparr>,
     (prepare_spec ''request_handoff'' [''reason'', ''run_id''] [''reason'', ''run_id''] ''human_agent'')
       \<lparr>ts_risk := TR_LOW_WRITE, ts_model_visible := False, ts_resource_binding := None\<rparr>]"

definition all_tool_specs :: "tool_spec list" where
  "all_tool_specs = readonly_tool_specs @ prepare_tool_specs @ low_risk_tool_specs"

text \<open>The tools each route exposes, from \<open>src/orchestration/api_runtime.py\<close>.\<close>

definition route_tools :: "(string \<times> string list) list" where
  "route_tools =
    [(''catalog_query'', [''search_catalog'', ''get_product_detail'', ''compare_products'']),
     (''order_query'', [''list_my_orders'', ''get_order_status'', ''get_delivery_tracking'']),
     (''delivery_query'', [''get_delivery_tracking'']),
     (''payment_query'', [''get_payment_status'']),
     (''refund_query'', [''get_refund_status'']),
     (''shipping_policy'', [''retrieve_knowledge'']),
     (''refund_policy'', [''retrieve_knowledge'']),
     (''return_policy'', [''retrieve_knowledge'']),
     (''payment_policy'', [''retrieve_knowledge'']),
     (''sales_policy'', [''retrieve_knowledge'']),
     (''customer_service'', [''retrieve_knowledge'']),
     (''technical_support'', [''retrieve_knowledge'']),
     (''product_query'', [''retrieve_knowledge'', ''get_product_detail''])]"

definition spec_key :: "tool_spec \<Rightarrow> string \<times> string" where
  "spec_key s = (ts_name s, ts_version s)"

definition exposes_only_reads :: "tool_spec list \<Rightarrow> string \<Rightarrow> bool" where
  "exposes_only_reads specs name =
     (case find (\<lambda>s. ts_name s = name) specs of
        None \<Rightarrow> False | Some s \<Rightarrow> ts_risk s = TR_READ_ONLY \<and> ts_model_visible s)"

lemma spec_keys_distinct: "distinct (map spec_key all_tool_specs)"
  by code_simp

lemma route_tools_read_only: "list_all (\<lambda>(r, ts). list_all (exposes_only_reads all_tool_specs) ts) route_tools"
  by code_simp

section \<open>Properties\<close>


definition demo_env :: "unit tool_env" where
  "demo_env =
     \<lparr>te_adapters = [(''get_order_status'', \<lambda>ctx args s w. (AR_RESULT
          \<lparr>tr_tool_name = ''get_order_status'', tr_tool_version = ''1'',
           tr_data = Some [(''order'', PDict [(''order_id'', PStr ''ORD-1'')])], tr_error = None\<rparr>, w)),
        (''prepare_refund'', \<lambda>ctx args s w. (AR_TIMED_OUT, w))],
      te_policy = None, te_authorize = Some (\<lambda>chk v ctx w. Inr (py_eq v (PStr ''ORD-1''))),
      te_now = (\<lambda>w. (0, w)), te_clock = (\<lambda>w. (0, w)), te_facts_hash = (\<lambda>_. ''h'')\<rparr>"

definition demo_tool_context :: tool_context where
  "demo_tool_context =
     \<lparr>tc_request_id = ''r'', tc_run_id = ''run'', tc_conversation_id = ''c'', tc_tenant_id = ''t'',
      tc_actor_id = ''a'', tc_scopes = [''order:read'', ''order:write''], tc_workflow_id = Some ''refund'',
      tc_workflow_version = Some ''1'', tc_current_step = Some ''prepare'', tc_policy_version = None\<rparr>"

definition demo_run :: "tool_spec \<Rightarrow> pydict \<Rightarrow> (execution_outcome \<times> unit tool_state) result" where
  "demo_run spec args =
     execute_tool demo_env spec demo_tool_context args None (Some 5) \<lparr>tst_world = (), tst_calls = []\<rparr>"

definition demo_refund_args :: pydict where
  "demo_refund_args = [(''order_id'', PStr ''ORD-1''), (''item_id'', PStr ''I''), (''reason'', PStr ''R'')]"

lemma demo_read: "eo_attempts (fst (projr (demo_run (readonly_tool_specs ! 5) [(''order_id'', PStr ''ORD-1'')]))) = 1 \<and>
    \<not> isl (demo_run (readonly_tool_specs ! 5) [(''order_id'', PStr ''ORD-1'')])"
  by code_simp

lemma demo_write: "eo_attempts (fst (projr (demo_run (prepare_tool_specs ! 2) demo_refund_args))) = 1 \<and>
    \<not> isl (demo_run (prepare_tool_specs ! 2) demo_refund_args) \<and>
    ts_risk (prepare_tool_specs ! 2) \<noteq> TR_READ_ONLY"
  by code_simp




lemma shipped_specs_valid: "list_all valid_tool_spec all_tool_specs"
  by (simp add: all_tool_specs_def readonly_tool_specs_def prepare_tool_specs_def low_risk_tool_specs_def
      readonly_spec_def prepare_spec_def valid_tool_spec_def str_field_short)

text \<open>The shipped tool catalog has one entry per name and version, so the registry accepts it, and
  every tool a route exposes is registered, model visible and read-only.\<close>

theorem shipped_catalog_is_read_only:
  "make_registry all_tool_specs = Inr (map (\<lambda>s. (spec_key s, s)) all_tool_specs) \<and>
   list_all (\<lambda>(r, ts). list_all (exposes_only_reads all_tool_specs) ts) route_tools \<and>
   list_all valid_tool_spec all_tool_specs \<and>
   list_all (\<lambda>s. ts_risk s \<noteq> TR_COMMIT) all_tool_specs"
proof -
  have "make_registry all_tool_specs = Inr (map (\<lambda>s. (spec_key s, s)) all_tool_specs)"
    using foldl_dset_distinct [of spec_key "[]" all_tool_specs] spec_keys_distinct
    by (simp add: make_registry_def Let_def spec_key_def)
  moreover have "list_all (\<lambda>s. ts_risk s \<noteq> TR_COMMIT) all_tool_specs"
    by (simp add: all_tool_specs_def readonly_tool_specs_def prepare_tool_specs_def low_risk_tool_specs_def
        readonly_spec_def prepare_spec_def)
  ultimately show ?thesis using route_tools_read_only shipped_specs_valid by simp
qed

end
