(* ===== verification/Validation.thy ===== *)
theory Validation
  imports Tools
begin

text \<open>
  \<open>src/agent/validation.py\<close>: the decision boundary and the validator every model decision passes
  before anything else happens with it. The messages of the errors are kept, because
  \<open>DecisionValidationError.error_code\<close> is computed from them.
\<close>

record decision_boundary =
  db_route :: string
  db_allowed_types :: "decision_type list"
  db_allowed_tools :: "string list"
  db_trusted_evidence_ids :: "string list"
  db_allowed_routes :: "string list"

text \<open>The \<open>error_code\<close> property, on the message.\<close>

definition error_code :: "string \<Rightarrow> string" where
  "error_code msg =
     (if str_in ''evidence'' msg then ''UNTRUSTED_EVIDENCE''
      else if str_in ''route'' msg then ''ROUTE_MISMATCH''
      else if str_in ''argument'' msg then ''INVALID_TOOL_ARGUMENT''
      else if str_in ''tool'' msg then ''TOOL_NOT_ALLOWED''
      else ''DECISION_REJECTED'')"

text \<open>\<open>any(name not in arguments for name in required)\<close>; an unhashable name raises.\<close>

fun missing_required :: "pydict \<Rightarrow> pyval list \<Rightarrow> bool result" where
  "missing_required args [] = Inr False"
| "missing_required args (PStr k # ns) =
     (if dget args k = None then Inr True else missing_required args ns)"
| "missing_required args (PList _ # ns) = Inl TypeError"
| "missing_required args (PDict _ # ns) = Inl TypeError"
| "missing_required args (_ # ns) = Inr True"

definition is_string :: "pyval \<Rightarrow> bool" where
  "is_string v = (case v of PStr _ \<Rightarrow> True | _ \<Rightarrow> False)"

definition is_integer :: "pyval \<Rightarrow> bool" where
  "is_integer v = (case v of PInt _ \<Rightarrow> True | _ \<Rightarrow> False)"

definition wrong_type :: "pydict \<Rightarrow> string \<times> pyval \<Rightarrow> bool" where
  "wrong_type properties kv =
     (case expected_type properties (fst kv) of
        None \<Rightarrow> False
      | Some t \<Rightarrow> (t = ''string'' \<and> \<not> is_string (snd kv)) \<or> (t = ''integer'' \<and> \<not> is_integer (snd kv)))"

definition validate_arguments :: "pydict \<Rightarrow> pydict \<Rightarrow> unit result" where
  "validate_arguments args schema =
     (case schema_parts schema of
        None \<Rightarrow> Inl (DecisionValidationError ''tool schema is invalid'')
      | Some (required, properties) \<Rightarrow>
          bind_res (missing_required args required) (\<lambda>missing.
            if missing then Inl (DecisionValidationError ''tool argument is missing'')
            else if closed_schema schema \<and> \<not> list_all (\<lambda>k. dget properties k \<noteq> None) (dkeys args)
            then Inl (DecisionValidationError ''tool argument is unknown'')
            else if list_ex (wrong_type properties) args
            then Inl (DecisionValidationError ''tool argument type is invalid'')
            else Inr ()))"

definition validate_decision ::
  "decision \<Rightarrow> decision_boundary \<Rightarrow> tool_spec option \<Rightarrow> unit result" where
  "validate_decision d b spec =
     (if de_type d \<notin> set (db_allowed_types b)
      then Inl (DecisionValidationError ''decision type is not allowed'')
      else if de_route d \<noteq> db_route b \<and> de_route d \<notin> set (db_allowed_routes b)
      then Inl (DecisionValidationError ''decision route does not match runtime route'')
      else if \<not> set (de_evidence_ids d) \<subseteq> set (db_trusted_evidence_ids b)
      then Inl (DecisionValidationError ''decision references untrusted evidence'')
      else if sets_system_field (de_args d)
      then Inl (DecisionValidationError ''decision attempted to set a system argument'')
      else if de_type d = DT_CALL_TOOL then
        (case de_tool d of
           None \<Rightarrow> Inl (DecisionValidationError ''decision tool is not allowed'')
         | Some t \<Rightarrow>
             if t \<notin> set (db_allowed_tools b)
             then Inl (DecisionValidationError ''decision tool is not allowed'')
             else (case spec of
                 None \<Rightarrow> Inl (DecisionValidationError ''decision tool specification is unavailable'')
               | Some s \<Rightarrow>
                   if ts_name s \<noteq> t
                   then Inl (DecisionValidationError ''decision tool specification is unavailable'')
                   else validate_arguments (de_args d) (ts_input_schema s)))
      else if de_tool d \<noteq> None \<or> de_args d \<noteq> []
      then Inl (DecisionValidationError ''non-tool decision includes tool data'')
      else Inr ())"

lemma missing_required_present:
  "list_all (present_name args) ns \<Longrightarrow> missing_required args ns = Inr False"
  by (induction args ns rule: missing_required.induct) (auto simp: present_name_def)

lemma missing_required_False:
  "missing_required args ns = Inr False \<Longrightarrow> list_all (present_name args) ns"
  by (induction args ns rule: missing_required.induct) (auto simp: present_name_def split: if_splits)

lemma wrong_type_has_type:
  "\<not> wrong_type properties kv" if "(case expected_type properties (fst kv) of None \<Rightarrow> True | Some t \<Rightarrow> value_has_type t (snd kv))"
  using that by (cases "snd kv") (auto simp: wrong_type_def is_string_def is_integer_def split: option.splits)

lemma valid_object_validates:
  assumes "valid_object (Some args) schema"
  shows "validate_arguments args schema = Inr ()"
proof -
  obtain req props where p: "schema_parts schema = Some (req, props)"
    using assms by (auto simp: valid_object_def split: option.splits)
  have "list_all (present_name args) req"
    "closed_schema schema \<longrightarrow> list_all (\<lambda>k. dget props k \<noteq> None) (dkeys args)"
    "\<forall>kv\<in>set args. \<not> wrong_type props kv"
    using assms p by (auto simp: valid_object_def list_all_iff intro!: wrong_type_has_type)
  then show ?thesis
    by (auto simp: validate_arguments_def p missing_required_present list_ex_iff)
qed

lemma validate_arguments_Inr:
  "validate_arguments args schema = Inr () \<Longrightarrow> \<exists>req props. schema_parts schema = Some (req, props) \<and>
     list_all (present_name args) req \<and>
     (closed_schema schema \<longrightarrow> list_all (\<lambda>k. dget props k \<noteq> None) (dkeys args))"
  by (auto simp: validate_arguments_def bind_res_eq_Inr missing_required_False split: option.splits if_splits)

lemma validate_decision_Inr:
  assumes "validate_decision d b spec = Inr ()"
  shows "de_type d \<in> set (db_allowed_types b) \<and> set (de_evidence_ids d) \<subseteq> set (db_trusted_evidence_ids b) \<and>
    \<not> sets_system_field (de_args d) \<and>
    (de_type d = DT_CALL_TOOL \<longrightarrow> (\<exists>t s. de_tool d = Some t \<and> t \<in> set (db_allowed_tools b) \<and>
       spec = Some s \<and> ts_name s = t \<and> validate_arguments (de_args d) (ts_input_schema s) = Inr ())) \<and>
    (de_type d \<noteq> DT_CALL_TOOL \<longrightarrow> de_tool d = None \<and> de_args d = [])"
  using assms by (auto simp: validate_decision_def split: if_splits option.splits)

lemma validate_decision_errors:
  "validate_decision d b spec = Inl e \<Longrightarrow> (\<exists>m. e = DecisionValidationError m) \<or> e = TypeError"
proof -
  have "missing_required a r = Inl x \<Longrightarrow> x = TypeError" for a r x
    by (induction a r rule: missing_required.induct) (auto split: if_splits)
  then have "validate_arguments a sch = Inl x \<Longrightarrow> (\<exists>m. x = DecisionValidationError m) \<or> x = TypeError" for a sch x
    by (auto simp: validate_arguments_def bind_res_def split: option.splits if_splits sum.splits)
  then show "validate_decision d b spec = Inl e \<Longrightarrow> (\<exists>m. e = DecisionValidationError m) \<or> e = TypeError"
    by (auto simp: validate_decision_def split: option.splits if_splits)
qed

section \<open>Properties\<close>

text \<open>The validator is never stricter on arguments than the executor: a decision for an allowed,
  resolved tool whose arguments the executor's schema check accepts, and that stays inside the
  boundary, is accepted; so what the validator rejects the executor would have refused as well.\<close>

theorem executor_schema_implies_validator:
  assumes "valid_object (Some (de_args d)) (ts_input_schema s)" "\<not> sets_system_field (de_args d)"
    "de_type d = DT_CALL_TOOL" "DT_CALL_TOOL \<in> set (db_allowed_types b)" "de_route d = db_route b"
    "set (de_evidence_ids d) \<subseteq> set (db_trusted_evidence_ids b)"
    "de_tool d = Some (ts_name s)" "ts_name s \<in> set (db_allowed_tools b)"
  shows "validate_decision d b (Some s) = Inr ()"
  using assms valid_object_validates [OF assms(1)] by (simp add: validate_decision_def)

definition demo_decision :: decision where
  "demo_decision =
     \<lparr>de_type = DT_CALL_TOOL, de_intent = ''track_order'', de_route = ''order_query'', de_confidence = 9/10,
      de_missing_slots = [], de_tool = Some ''get_order_status'', de_args = [(''order_id'', PStr ''ORD-1'')],
      de_evidence_ids = [], de_response = None, de_handoff_reason = None\<rparr>"

definition demo_boundary :: decision_boundary where
  "demo_boundary =
     \<lparr>db_route = ''order_query'',
      db_allowed_types = [DT_RESPOND, DT_ASK_USER, DT_CALL_TOOL, DT_HANDOFF, DT_FINISH],
      db_allowed_tools = [''get_order_status'', ''get_delivery_tracking''],
      db_trusted_evidence_ids = [], db_allowed_routes = []\<rparr>"

lemma executor_schema_implies_validator_witness:
  "validate_decision demo_decision demo_boundary (Some (readonly_tool_specs ! 5)) = Inr ()"
proof -
  have "valid_object (Some (de_args demo_decision)) (ts_input_schema (readonly_tool_specs ! 5))"
    "\<not> sets_system_field (de_args demo_decision)"
    "ts_name (readonly_tool_specs ! 5) = ''get_order_status''"
    by code_simp+
  then show ?thesis
    by (intro executor_schema_implies_validator) (simp_all add: demo_decision_def demo_boundary_def)
qed

end
