(* ===== verification/AgentStep.thy ===== *)
theory AgentStep
  imports Validation
begin

text \<open>
  \<open>AgentStepExecutor.execute_step\<close> of \<open>src/agent/loop.py\<close>: one model decision and at most one tool
  execution. The function is split where the code is: the checks before the model, the model request
  with its audit, the tool branch and the terminal branch with its single retry.

  The model gateway, the invocation recorder, the trace store and the cancellation callback are fields
  of an \<open>agent_env\<close> over the world of the tools; each may raise. The stages the code hands to the
  stage observer are returned as a list, in order; the pipeline replays them into its journal. The
  action observer is left out, it cannot influence the step. An exception keeps the state reached.
\<close>

record loop_result =
  lr_status :: step_status
  lr_response :: "string option"
  lr_decision_type :: "decision_type option"
  lr_decision :: "decision option"
  lr_execution :: "execution_outcome option"
  lr_reason :: "string option"
  lr_usage_tokens :: "int option"

text \<open>The part of \<open>ModelDecision\<close> a step reads.\<close>

record model_decision =
  md_decision :: decision
  md_usage_tokens :: "int option"

record 'w agent_env =
  ae_tools :: "'w tool_env"
  ae_registry :: tool_registry
  ae_decide :: "prompt_view \<Rightarrow> 'w \<Rightarrow> model_decision result \<times> 'w"
  ae_record_success :: "(run_context \<Rightarrow> prompt_view \<Rightarrow> model_decision \<Rightarrow> 'w \<Rightarrow> unit result \<times> 'w) option"
  ae_record_failure :: "(run_context \<Rightarrow> prompt_view \<Rightarrow> 'w \<Rightarrow> unit result \<times> 'w) option"
  ae_trace :: "(decision \<Rightarrow> 'w \<Rightarrow> unit result \<times> 'w) option"
  ae_policy_facts :: "pydict option"
  ae_token_charge :: "int result"

type_synonym stage_mark = "string \<times> string"

type_synonym 'w step_out = "(loop_result \<times> stage_mark list) result \<times> 'w tool_state"

definition on_world :: "('w \<Rightarrow> 'a \<times> 'w) \<Rightarrow> 'w tool_state \<Rightarrow> 'a \<times> 'w tool_state" where
  "on_world f st = (let (x, w) = f (tst_world st) in (x, st\<lparr>tst_world := w\<rparr>))"

lemma on_world_calls [simp]: "on_world f st = (x, st') \<Longrightarrow> tst_calls st' = tst_calls st"
  by (auto simp: on_world_def split: prod.splits)

definition fail_result :: "string \<Rightarrow> loop_result" where
  "fail_result reason =
     \<lparr>lr_status = SS_FAIL, lr_response = None, lr_decision_type = None, lr_decision = None,
      lr_execution = None, lr_reason = Some reason, lr_usage_tokens = None\<rparr>"

definition decision_result :: "step_status \<Rightarrow> decision \<Rightarrow> loop_result" where
  "decision_result status d =
     \<lparr>lr_status = status, lr_response = None, lr_decision_type = Some (de_type d), lr_decision = Some d,
      lr_execution = None, lr_reason = None, lr_usage_tokens = None\<rparr>"

definition post_request_marks :: "stage_mark list" where
  "post_request_marks = [(''validate'', ''skipped''), (''execute'', ''skipped''), (''observe'', ''completed'')]"

definition skipped_marks :: "stage_mark list" where
  "skipped_marks = (''request_decision'', ''skipped'') # post_request_marks"

definition rejected_marks :: "stage_mark list" where
  "rejected_marks = [(''validate'', ''failed''), (''execute'', ''skipped''), (''observe'', ''completed'')]"

section \<open>Binding a delivery lookup to the observed order\<close>

definition get_dict :: "pyval option \<Rightarrow> string \<Rightarrow> pyval option" where
  "get_dict v k = (case v of Some (PDict d) \<Rightarrow> dget d k | _ \<Rightarrow> None)"

definition observed_order_id :: "pydict \<Rightarrow> pyval option" where
  "observed_order_id state =
     get_dict (get_dict (get_dict (dget state ''tool_data_by_name'') ''get_order_status'') ''order'') ''order_id''"

definition bind_compound_delivery_order :: "decision \<Rightarrow> run_context \<Rightarrow> decision" where
  "bind_compound_delivery_order d ctx =
     (if de_type d \<noteq> DT_CALL_TOOL \<or> de_tool d \<noteq> Some ''get_delivery_tracking'' then d
      else
       (let arguments = dpop (de_args d) ''tracking_id'';
            arguments = (if dget arguments ''order_id'' = None then
               (case observed_order_id (rc_state ctx) of
                  Some (PStr i) \<Rightarrow> if i \<noteq> [] then dset arguments ''order_id'' (PStr i) else arguments
                | _ \<Rightarrow> arguments) else arguments)
        in if py_eq (PDict arguments) (PDict (de_args d)) then d else d\<lparr>de_args := arguments\<rparr>))"

section \<open>The branches of a step\<close>

definition record_success ::
  "'w agent_env \<Rightarrow> run_context \<Rightarrow> prompt_view \<Rightarrow> model_decision \<Rightarrow> 'w tool_state \<Rightarrow> bool \<times> 'w tool_state" where
  "record_success env ctx prompt m st =
     (case ae_record_success env of
        None \<Rightarrow> (True, st)
      | Some rec \<Rightarrow> (let (r, st) = on_world (rec ctx prompt m) st in (\<not> isl r, st)))"

definition model_failed ::
  "'w agent_env \<Rightarrow> run_context \<Rightarrow> prompt_view \<Rightarrow> 'w tool_state \<Rightarrow> 'w step_out" where
  "model_failed env ctx prompt st =
     (let marks = (''request_decision'', ''failed'') # post_request_marks in
      case ae_record_failure env of
        None \<Rightarrow> (Inr (fail_result ''model_unavailable'', marks), st)
      | Some rec \<Rightarrow>
          (let (r, st) = on_world (rec ctx prompt) st in
           (Inr (fail_result (if isl r then ''model_audit_failed'' else ''model_unavailable''), marks), st)))"

text \<open>The tool branch: resolve, refuse a non-read-only tool, validate, execute.\<close>

definition tool_branch ::
  "'w agent_env \<Rightarrow> decision_boundary \<Rightarrow> tool_context \<Rightarrow> int \<Rightarrow> decision \<Rightarrow> int option \<Rightarrow> 'w tool_state \<Rightarrow>
   'w step_out" where
  "tool_branch env boundary tctx deadline d usage st =
     (let requested = (''request_decision'', ''completed'');
          rejected = (Inr ((decision_result SS_FAIL d)\<lparr>lr_reason := Some ''decision_rejected''\<rparr>,
            requested # rejected_marks), st)
      in
      case registry_resolve (ae_registry env) (case de_tool d of None \<Rightarrow> [] | Some t \<Rightarrow> t) ''1'' tctx True of
        Inl e \<Rightarrow> rejected
      | Inr spec \<Rightarrow>
        if ts_risk spec \<noteq> TR_READ_ONLY then
          (Inr ((decision_result SS_WAIT_HUMAN d)
             \<lparr>lr_reason := Some ''readonly_write_tool_forbidden'', lr_usage_tokens := usage\<rparr>,
             requested # rejected_marks), st)
        else
        (case validate_decision d boundary (Some spec) of
           Inl (DecisionValidationError m) \<Rightarrow> rejected
         | Inl e \<Rightarrow> (Inl e, st)
         | Inr u \<Rightarrow>
           (case execute_tool (ae_tools env) spec tctx (de_args d) (ae_policy_facts env) (Some deadline) st of
              Inl e \<Rightarrow>
                (Inr ((decision_result SS_FAIL d)\<lparr>lr_reason := Some ''tool_execution_failed''\<rparr>,
                  [requested, (''validate'', ''completed''), (''execute'', ''failed''), (''observe'', ''completed'')]), st)
            | Inr (out, st) \<Rightarrow>
                (Inr ((decision_result SS_CONTINUE d)\<lparr>lr_execution := Some out, lr_usage_tokens := usage\<rparr>,
                  [requested, (''validate'', ''completed''), (''execute'', ''completed''), (''observe'', ''completed'')]),
                 st))))"

text \<open>The result of an accepted terminal decision.\<close>

definition terminal_result :: "decision \<Rightarrow> int option \<Rightarrow> loop_result" where
  "terminal_result d usage =
     (let base = (\<lambda>status. (decision_result status d)\<lparr>lr_response := de_response d, lr_usage_tokens := usage\<rparr>) in
      case de_type d of
        DT_ASK_USER \<Rightarrow> base SS_WAIT_USER
      | DT_HANDOFF \<Rightarrow> base SS_WAIT_HUMAN
      | DT_RESPOND \<Rightarrow> base SS_COMPLETE
      | DT_FINISH \<Rightarrow> base SS_COMPLETE
      | DT_CALL_TOOL \<Rightarrow> (decision_result SS_FAIL d)
          \<lparr>lr_reason := Some ''unsupported_decision'', lr_usage_tokens := usage\<rparr>)"

definition accepted_terminal :: "decision \<Rightarrow> int option \<Rightarrow> 'w tool_state \<Rightarrow> 'w step_out" where
  "accepted_terminal d usage st =
     (Inr (terminal_result d usage,
        [(''request_decision'', ''completed''), (''validate'', ''completed''), (''execute'', ''skipped''),
         (''observe'', ''completed'')]), st)"

text \<open>The single semantic retry after untrusted evidence; \<open>d\<close> is the first decision.\<close>

definition retry_terminal ::
  "'w agent_env \<Rightarrow> run_context \<Rightarrow> prompt_view \<Rightarrow> decision_boundary \<Rightarrow> decision \<Rightarrow> 'w tool_state \<Rightarrow> 'w step_out" where
  "retry_terminal env ctx prompt boundary d st =
     (let requested = (''request_decision'', ''completed'');
          rejected = (Inr ((decision_result SS_FAIL d)\<lparr>lr_reason := Some ''decision_rejected''\<rparr>,
            requested # rejected_marks));
          (r, st) = on_world (ae_decide env prompt) st
      in
      case r of
        Inl (ModelGatewayError c) \<Rightarrow> (rejected, st)
      | Inl (DecisionValidationError m) \<Rightarrow> (rejected, st)
      | Inl e \<Rightarrow> (Inl e, st)
      | Inr m \<Rightarrow>
        (let (recorded, st) = record_success env ctx prompt m st in
         if \<not> recorded
         then (Inr (fail_result ''model_audit_failed'', requested # post_request_marks), st)
         else
         (case validate_decision (md_decision m) boundary None of
            Inl (DecisionValidationError x) \<Rightarrow> (rejected, st)
          | Inl e \<Rightarrow> (Inl e, st)
          | Inr u \<Rightarrow> accepted_terminal (md_decision m) (md_usage_tokens m) st)))"

definition terminal_branch ::
  "'w agent_env \<Rightarrow> run_context \<Rightarrow> prompt_view \<Rightarrow> decision_boundary \<Rightarrow> decision \<Rightarrow> int option \<Rightarrow> 'w tool_state \<Rightarrow>
   'w step_out" where
  "terminal_branch env ctx prompt boundary d usage st =
     (case validate_decision d boundary None of
        Inl (DecisionValidationError m) \<Rightarrow>
          if m = ''decision references untrusted evidence'' \<and>
             de_type d \<in> {DT_RESPOND, DT_FINISH, DT_ASK_USER, DT_HANDOFF}
          then retry_terminal env ctx prompt boundary d st
          else (Inr ((decision_result SS_FAIL d)\<lparr>lr_reason := Some ''decision_rejected''\<rparr>,
            (''request_decision'', ''completed'') # rejected_marks), st)
      | Inl e \<Rightarrow> (Inl e, st)
      | Inr u \<Rightarrow> accepted_terminal d usage st)"

text \<open>What follows the audit of the model request: the second cancellation check and the trace.\<close>

definition after_model ::
  "'w agent_env \<Rightarrow> run_context \<Rightarrow> prompt_view \<Rightarrow> decision_boundary \<Rightarrow> tool_context \<Rightarrow> int \<Rightarrow>
   ('w \<Rightarrow> bool result \<times> 'w) \<Rightarrow> model_decision \<Rightarrow> 'w tool_state \<Rightarrow> 'w step_out" where
  "after_model env ctx prompt boundary tctx deadline cancelled m st =
     (let marks = (''request_decision'', ''completed'') # post_request_marks;
          d = bind_compound_delivery_order (md_decision m) ctx;
          (c, st) = on_world cancelled st
      in
      case c of
        Inl e \<Rightarrow> (Inl e, st)
      | Inr True \<Rightarrow> (Inr (fail_result ''cancelled'', marks), st)
      | Inr False \<Rightarrow>
        (let (traced, st) = (case ae_trace env of
                None \<Rightarrow> (Inr (), st) | Some trace \<Rightarrow> on_world (trace d) st) in
         if isl traced then (Inr (fail_result ''trace_persistence_failed'', marks), st)
         else if de_type d = DT_CALL_TOOL
         then tool_branch env boundary tctx deadline d (md_usage_tokens m) st
         else terminal_branch env ctx prompt boundary d (md_usage_tokens m) st))"

definition request_model ::
  "'w agent_env \<Rightarrow> run_context \<Rightarrow> prompt_view \<Rightarrow> decision_boundary \<Rightarrow> tool_context \<Rightarrow> int \<Rightarrow>
   ('w \<Rightarrow> bool result \<times> 'w) \<Rightarrow> 'w tool_state \<Rightarrow> 'w step_out" where
  "request_model env ctx prompt boundary tctx deadline cancelled st =
     (let (r, st) = on_world (ae_decide env prompt) st in
      case r of
        Inl (ModelGatewayError c) \<Rightarrow> model_failed env ctx prompt st
      | Inl e \<Rightarrow> (Inl e, st)
      | Inr m \<Rightarrow>
        (let (recorded, st) = record_success env ctx prompt m st in
         if \<not> recorded
         then (Inr (fail_result ''model_audit_failed'', (''request_decision'', ''completed'') # post_request_marks), st)
         else after_model env ctx prompt boundary tctx deadline cancelled m st))"

definition execute_step ::
  "'w agent_env \<Rightarrow> run_context \<Rightarrow> prompt_view \<Rightarrow> decision_boundary \<Rightarrow> tool_context \<Rightarrow> int \<Rightarrow>
   ('w \<Rightarrow> bool result \<times> 'w) \<Rightarrow> int option \<Rightarrow> 'w tool_state \<Rightarrow> 'w step_out" where
  "execute_step env ctx prompt boundary tctx deadline cancelled budget st =
     (let (c, st) = on_world cancelled st in
      case c of
        Inl e \<Rightarrow> (Inl e, st)
      | Inr True \<Rightarrow> (Inr (fail_result ''cancelled'', skipped_marks), st)
      | Inr False \<Rightarrow>
        if 6 \<le> rc_step_count ctx then (Inr (fail_result ''max_steps_exceeded'', skipped_marks), st)
        else if (case budget of None \<Rightarrow> False | Some b \<Rightarrow> b \<le> 0)
        then (Inr (fail_result ''token_budget_exhausted'', skipped_marks), st)
        else
         (let (t, st) = read_now (ae_tools env) st in
          if deadline \<le> t then (Inr (fail_result ''deadline_exceeded'', skipped_marks), st)
          else request_model env ctx prompt boundary tctx deadline cancelled st))"

section \<open>What a step can do\<close>

definition marks_in_order :: "stage_mark list \<Rightarrow> bool" where
  "marks_in_order ms \<longleftrightarrow>
     map fst ms = [''request_decision'', ''validate'', ''execute'', ''observe''] \<and>
     list_all (\<lambda>m. snd m \<in> {''completed'', ''failed'', ''skipped''}) ms"

text \<open>The execution a step reports: by a read-only tool of the boundary, for a validated decision.\<close>

definition execution_of_decision ::
  "'w agent_env \<Rightarrow> decision_boundary \<Rightarrow> tool_context \<Rightarrow> 'w tool_state \<Rightarrow> loop_result \<Rightarrow> execution_outcome \<Rightarrow>
   'w tool_state \<Rightarrow> bool" where
  "execution_of_decision env boundary tctx st r out st' \<longleftrightarrow>
     (\<exists>d spec n. lr_decision r = Some d \<and> de_type d = DT_CALL_TOOL \<and> lr_status r = SS_CONTINUE \<and>
        registry_resolve (ae_registry env) (ts_name spec) ''1'' tctx True = Inr spec \<and>
        ts_risk spec = TR_READ_ONLY \<and> de_tool d = Some (ts_name spec) \<and>
        ts_name spec \<in> set (db_allowed_tools boundary) \<and> validate_decision d boundary (Some spec) = Inr () \<and>
        n \<le> eo_attempts out \<and> eo_attempts out \<le> nat (rp_max_attempts (ts_retry_policy spec)) \<and>
        well_formed_result spec (eo_result out) \<and>
        tst_calls st' = tst_calls st @ replicate n (ts_name spec, de_args d))"

definition step_ok ::
  "'w agent_env \<Rightarrow> decision_boundary \<Rightarrow> tool_context \<Rightarrow> 'w tool_state \<Rightarrow> 'w step_out \<Rightarrow> bool" where
  "step_ok env boundary tctx st out \<longleftrightarrow>
     (case out of
        (Inl e, st') \<Rightarrow> tst_calls st' = tst_calls st
      | (Inr (r, marks), st') \<Rightarrow>
          marks_in_order marks \<and> lr_reason r \<noteq> Some ''unsupported_decision'' \<and>
          (lr_status r = SS_CONTINUE \<longleftrightarrow> lr_execution r \<noteq> None) \<and>
          (case lr_execution r of
             None \<Rightarrow> tst_calls st' = tst_calls st
           | Some x \<Rightarrow> execution_of_decision env boundary tctx st r x st') \<and>
          (lr_status r \<in> {SS_COMPLETE, SS_WAIT_USER} \<longrightarrow>
             (\<exists>d. lr_decision r = Some d \<and> validate_decision d boundary None = Inr ())))"

named_theorems step_simps \<open>the constants every branch of a step ends with\<close>

lemmas step_result_defs [step_simps] =
  step_ok_def marks_in_order_def fail_result_def decision_result_def post_request_marks_def
  skipped_marks_def rejected_marks_def

lemma execution_of_decision_calls:
  "tst_calls st = tst_calls st0 \<Longrightarrow>
     execution_of_decision env boundary tctx st r x st' = execution_of_decision env boundary tctx st0 r x st'"
  by (simp add: execution_of_decision_def)

lemma step_ok_calls:
  assumes "step_ok env boundary tctx st out" "tst_calls st = tst_calls st0"
  shows "step_ok env boundary tctx st0 out"
  using assms(1) unfolding step_ok_def execution_of_decision_calls [OF assms(2)] assms(2) .

lemma step_ok_Inl [simp]: "step_ok env boundary tctx st (Inl e, st') \<longleftrightarrow> tst_calls st' = tst_calls st"
  by (simp add: step_ok_def)

lemma record_success_calls [simp]:
  "record_success env ctx prompt m st = (b, st') \<Longrightarrow> tst_calls st' = tst_calls st"
  by (auto simp: record_success_def Let_def split: option.splits prod.splits)

lemma model_failed_ok: "step_ok env boundary tctx st (model_failed env ctx prompt st)"
  by (auto simp: model_failed_def Let_def step_simps split: option.splits prod.splits)

lemma accepted_terminal_ok:
  assumes "validate_decision d boundary None = Inr ()"
  shows "step_ok env boundary tctx st (accepted_terminal d usage st)"
proof -
  have "de_type d \<noteq> DT_CALL_TOOL" using validate_decision_Inr [OF assms] by auto
  then show ?thesis
    using assms by (cases "de_type d") (auto simp: accepted_terminal_def terminal_result_def Let_def step_simps)
qed

lemma retry_terminal_ok: "step_ok env boundary tctx st (retry_terminal env ctx prompt boundary d st)"
proof -
  obtain r st1 where r: "on_world (ae_decide env prompt) st = (r, st1)" by force
  then have c1: "tst_calls st1 = tst_calls st" by simp
  show ?thesis
  proof (cases r)
    case (Inl e)
    then show ?thesis
      using c1 by (auto simp: retry_terminal_def r Let_def step_simps split: py_exn.splits)
  next
    case (Inr m)
    obtain b st2 where b: "record_success env ctx prompt m st1 = (b, st2)" by force
    then have c2: "tst_calls st2 = tst_calls st" using c1 by simp
    show ?thesis
    proof (cases "validate_decision (md_decision m) boundary None")
      case (Inl e)
      then show ?thesis
        using c2 by (cases e) (auto simp: retry_terminal_def r Inr b Let_def step_simps)
    next
      case v: (Inr u)
      then have "step_ok env boundary tctx st (accepted_terminal (md_decision m) (md_usage_tokens m) st2)"
        using c2 by (intro step_ok_calls [OF accepted_terminal_ok]) auto
      then show ?thesis
        using c2 v by (auto simp: retry_terminal_def r Inr b Let_def step_simps)
    qed
  qed
qed

lemma terminal_branch_ok: "step_ok env boundary tctx st (terminal_branch env ctx prompt boundary d usage st)"
proof (cases "validate_decision d boundary None")
  case (Inl e)
  have "step_ok env boundary tctx st (Inr ((decision_result SS_FAIL d)\<lparr>lr_reason := Some ''decision_rejected''\<rparr>,
      (''request_decision'', ''completed'') # rejected_marks), st)" by (simp add: step_simps)
  then show ?thesis
    using Inl by (cases e) (simp_all add: terminal_branch_def retry_terminal_ok)
next
  case (Inr u)
  then show ?thesis using accepted_terminal_ok by (simp add: terminal_branch_def)
qed

lemma tool_branch_ok:
  assumes "de_type d = DT_CALL_TOOL"
  shows "step_ok env boundary tctx st (tool_branch env boundary tctx deadline d usage st)"
proof (cases "registry_resolve (ae_registry env) (case de_tool d of None \<Rightarrow> [] | Some t \<Rightarrow> t) ''1'' tctx True")
  case (Inl e)
  then show ?thesis by (simp add: tool_branch_def Let_def step_simps)
next
  case spec: (Inr spec)
  show ?thesis
  proof (cases "ts_risk spec = TR_READ_ONLY")
    case False
    then show ?thesis using spec by (simp add: tool_branch_def Let_def step_simps)
  next
    case ro: True
    show ?thesis
    proof (cases "validate_decision d boundary (Some spec)")
      case (Inl e)
      then show ?thesis using spec ro by (cases e) (simp_all add: tool_branch_def Let_def step_simps)
    next
      case v: (Inr u)
      then have tool: "de_tool d = Some (ts_name spec)" "ts_name spec \<in> set (db_allowed_tools boundary)"
        using validate_decision_Inr [of d boundary "Some spec"] assms by auto
      show ?thesis
      proof (cases "execute_tool (ae_tools env) spec tctx (de_args d) (ae_policy_facts env) (Some deadline) st")
        case (Inl e)
        then show ?thesis using spec ro v by (simp add: tool_branch_def Let_def step_simps)
      next
        case (Inr p)
        obtain out st' where p: "p = (out, st')" by force
        have "\<exists>n \<le> eo_attempts out. tst_calls st' = tst_calls st @ replicate n (ts_name spec, de_args d)"
          "eo_attempts out \<le> nat (rp_max_attempts (ts_retry_policy spec))"
          "well_formed_result spec (eo_result out)"
          using execute_tool_effect [OF Inr [unfolded p]] ro by (auto simp: max_attempts_def)
        then show ?thesis
          using spec ro v tool Inr p assms
          by (auto simp: tool_branch_def Let_def step_simps execution_of_decision_def)
      qed
    qed
  qed
qed

lemma bind_compound_type [simp]: "de_type (bind_compound_delivery_order d ctx) = de_type d"
  by (simp add: bind_compound_delivery_order_def Let_def)

lemma after_model_ok:
  "step_ok env boundary tctx st (after_model env ctx prompt boundary tctx deadline cancelled m st)"
proof -
  let ?d = "bind_compound_delivery_order (md_decision m) ctx"
  obtain c st1 where c: "on_world cancelled st = (c, st1)" by force
  then have c1: "tst_calls st1 = tst_calls st" by simp
  obtain t st2 where t: "(case ae_trace env of None \<Rightarrow> (Inr (), st1) | Some trace \<Rightarrow> on_world (trace ?d) st1) = (t, st2)"
    by force
  then have c2: "tst_calls st2 = tst_calls st" using c1 by (auto split: option.splits)
  have "step_ok env boundary tctx st (tool_branch env boundary tctx deadline ?d (md_usage_tokens m) st2)"
    if "de_type ?d = DT_CALL_TOOL" using step_ok_calls [OF tool_branch_ok [OF that] c2] .
  moreover have "step_ok env boundary tctx st (terminal_branch env ctx prompt boundary ?d (md_usage_tokens m) st2)"
    using step_ok_calls [OF terminal_branch_ok c2] .
  moreover have "step_ok env boundary tctx st (Inr (fail_result r, (''request_decision'', ''completed'') # post_request_marks), s)"
    if "tst_calls s = tst_calls st" "r \<noteq> ''unsupported_decision''" for r s using that by (simp add: step_simps)
  ultimately show ?thesis
    using c1 c2 by (simp add: after_model_def c t Let_def split: sum.split bool.split)
qed

lemma request_model_ok:
  "step_ok env boundary tctx st (request_model env ctx prompt boundary tctx deadline cancelled st)"
proof -
  obtain r st1 where r: "on_world (ae_decide env prompt) st = (r, st1)" by force
  then have c1: "tst_calls st1 = tst_calls st" by simp
  show ?thesis
  proof (cases r)
    case (Inl e)
    have "step_ok env boundary tctx st (model_failed env ctx prompt st1)"
      using step_ok_calls [OF model_failed_ok c1] .
    then show ?thesis using c1 Inl by (cases e) (simp_all add: request_model_def r Let_def)
  next
    case (Inr m)
    obtain b st2 where b: "record_success env ctx prompt m st1 = (b, st2)" by force
    then have c2: "tst_calls st2 = tst_calls st" using c1 by simp
    have "step_ok env boundary tctx st (after_model env ctx prompt boundary tctx deadline cancelled m st2)"
      using step_ok_calls [OF after_model_ok c2] .
    then show ?thesis using c2 by (simp add: request_model_def r Inr b Let_def) (simp add: step_simps)
  qed
qed

lemma execute_step_ok:
  "step_ok env boundary tctx st (execute_step env ctx prompt boundary tctx deadline cancelled budget st)"
proof -
  obtain c st1 where c: "on_world cancelled st = (c, st1)" by force
  then have c1: "tst_calls st1 = tst_calls st" by simp
  obtain t st2 where t: "read_now (ae_tools env) st1 = (t, st2)" by force
  then have c2: "tst_calls st2 = tst_calls st" using c1 read_now_calls by metis
  have "step_ok env boundary tctx st (Inr (fail_result r, skipped_marks), s)"
    if "tst_calls s = tst_calls st" "r \<noteq> ''unsupported_decision''" for r s using that by (simp add: step_simps)
  then show ?thesis
    using c1 c2 step_ok_calls [OF request_model_ok c2]
    by (simp add: execute_step_def c t Let_def split: sum.split bool.split)
qed

section \<open>Properties\<close>

text \<open>A step of the agent calls at most one tool, and only a read-only one. Whatever the model,
  the adapters and the callbacks do, a step that raises has called no tool; a step that returns
  reports its four stages in the fixed order, and either it called nothing, or it continues after
  executing exactly the tool its decision names, which is registered, model visible, read-only and
  allowed by the boundary, with the validated arguments of the decision, at most as often as the
  retry policy of the tool allows. An answer or a question to the user has passed the validator.\<close>

theorem step_calls_one_readonly_tool:
  assumes "execute_step env ctx prompt boundary tctx deadline cancelled budget st = (res, st')"
  shows "case res of
      Inl e \<Rightarrow> tst_calls st' = tst_calls st
    | Inr (r, marks) \<Rightarrow>
        map fst marks = [''request_decision'', ''validate'', ''execute'', ''observe''] \<and>
        (lr_status r = SS_CONTINUE \<longleftrightarrow> lr_execution r \<noteq> None) \<and>
        (lr_execution r = None \<longrightarrow> tst_calls st' = tst_calls st) \<and>
        (\<forall>out. lr_execution r = Some out \<longrightarrow>
           (\<exists>d spec n. lr_decision r = Some d \<and> de_tool d = Some (ts_name spec) \<and>
              registry_resolve (ae_registry env) (ts_name spec) ''1'' tctx True = Inr spec \<and>
              ts_risk spec = TR_READ_ONLY \<and> ts_name spec \<in> set (db_allowed_tools boundary) \<and>
              validate_decision d boundary (Some spec) = Inr () \<and>
              n \<le> nat (rp_max_attempts (ts_retry_policy spec)) \<and>
              tst_calls st' = tst_calls st @ replicate n (ts_name spec, de_args d))) \<and>
        (lr_status r \<in> {SS_COMPLETE, SS_WAIT_USER} \<longrightarrow>
           (\<exists>d. lr_decision r = Some d \<and> set (de_evidence_ids d) \<subseteq> set (db_trusted_evidence_ids boundary)))"
proof -
  have ok: "step_ok env boundary tctx st (res, st')" using execute_step_ok assms by metis
  show ?thesis
  proof (cases res)
    case (Inl e)
    then show ?thesis using ok by simp
  next
    case (Inr p)
    obtain r marks where p: "p = (r, marks)" by force
    note facts = ok [unfolded Inr p step_ok_def prod.case sum.case]
    have exec: "execution_of_decision env boundary tctx st r out st'" if "lr_execution r = Some out" for out
      using facts that by simp
    then have "\<exists>d spec n. lr_decision r = Some d \<and> de_tool d = Some (ts_name spec) \<and>
        registry_resolve (ae_registry env) (ts_name spec) ''1'' tctx True = Inr spec \<and>
        ts_risk spec = TR_READ_ONLY \<and> ts_name spec \<in> set (db_allowed_tools boundary) \<and>
        validate_decision d boundary (Some spec) = Inr () \<and>
        n \<le> nat (rp_max_attempts (ts_retry_policy spec)) \<and>
        tst_calls st' = tst_calls st @ replicate n (ts_name spec, de_args d)"
      if "lr_execution r = Some out" for out
      using that unfolding execution_of_decision_def by (meson order_trans)
    then show ?thesis
      using facts Inr p validate_decision_Inr by (fastforce simp: marks_in_order_def split: option.splits)
  qed
qed

definition demo_prompt :: prompt_view where
  "demo_prompt =
     \<lparr>pv_system_policy_version = ''p'', pv_workflow_id = ''order_query'', pv_workflow_version = ''1'',
      pv_current_step = ''retrieve'', pv_allowed_decisions = [''respond'', ''ask_user'', ''call_tool'', ''handoff'', ''finish''],
      pv_conversation = [], pv_known_slots = [], pv_required_slots = [],
      pv_allowed_tools = [''get_order_status'', ''get_delivery_tracking''], pv_evidence_ids = [], pv_remaining_steps = 6\<rparr>"

definition demo_context :: run_context where
  "demo_context =
     \<lparr>rc_run_id = ''run'', rc_conversation_id = ''c'', rc_tenant_id = ''t'', rc_actor_id = ''a'',
      rc_execution_mode = Some EM_READONLY_LOOP, rc_workflow_id = Some ''order_query'',
      rc_workflow_version = Some ''1'', rc_status = RS_RUNNING_READONLY, rc_state = [], rc_step_count = 0,
      rc_checkpoint_version = 0\<rparr>"

definition demo_read_context :: tool_context where
  "demo_read_context = demo_tool_context\<lparr>tc_workflow_id := None, tc_workflow_version := None, tc_current_step := None\<rparr>"

definition demo_agent :: "unit agent_env" where
  "demo_agent =
     \<lparr>ae_tools = demo_env, ae_registry = map (\<lambda>s. (spec_key s, s)) all_tool_specs,
      ae_decide = (\<lambda>p w. (Inr \<lparr>md_decision = demo_decision, md_usage_tokens = Some 10\<rparr>, w)),
      ae_record_success = None, ae_record_failure = None, ae_trace = None, ae_policy_facts = None,
      ae_token_charge = Inr 100\<rparr>"

definition demo_step :: "unit step_out" where
  "demo_step =
     execute_step demo_agent demo_context demo_prompt demo_boundary demo_read_context 5 (\<lambda>w. (Inr False, w)) None
       \<lparr>tst_world = (), tst_calls = []\<rparr>"

lemma demo_step_continues: "(case fst demo_step of Inl e \<Rightarrow> False | Inr (r, marks) \<Rightarrow> lr_status r = SS_CONTINUE)"
  by code_simp

lemma step_calls_one_readonly_tool_witness:
  "\<exists>r marks (spec :: tool_spec) d. fst demo_step = Inr (r, marks) \<and> lr_status r = SS_CONTINUE \<and> lr_decision r = Some d \<and>
     de_tool d = Some (ts_name spec) \<and> ts_risk spec = TR_READ_ONLY"
proof -
  obtain r marks where f: "fst demo_step = Inr (r, marks)" "lr_status r = SS_CONTINUE"
    using demo_step_continues by (auto split: sum.splits prod.splits)
  then have r: "demo_step = (Inr (r, marks), snd demo_step)" by (metis prod.collapse)
  note c = step_calls_one_readonly_tool [OF r [unfolded demo_step_def], unfolded sum.case prod.case]
  obtain out where "lr_execution r = Some out" using c f(2) by blast
  then show ?thesis using c f by blast
qed



end
