(* ===== verification/Pipeline.thy ===== *)
theory Pipeline
  imports AgentStep
begin

text \<open>
  \<open>src/orchestration/pipeline.py\<close>: the journal that fixes the order of the eight stages, the checks on
  the inputs of a step, the reducer, and \<open>StepPipeline.advance\<close> and \<open>handoff\<close>, which persist each
  step through a checkpoint store. The store is an interface: the locale \<open>checkpoint_store\<close> states
  what the pipeline relies on, the repository of the runs provides it.

  A step that raises loses its marks here; the journal is completed by \<open>skip_remaining\<close> in that case,
  which succeeds from every prefix of the stages.
\<close>

section \<open>The journal\<close>

datatype pipeline_stage =
    PS_BUILD_PROMPT | PS_REQUEST_DECISION | PS_VALIDATE | PS_EXECUTE | PS_OBSERVE | PS_REDUCE
  | PS_CHECKPOINT | PS_TERMINATE

definition pipeline_order :: "pipeline_stage list" where
  "pipeline_order = [PS_BUILD_PROMPT, PS_REQUEST_DECISION, PS_VALIDATE, PS_EXECUTE, PS_OBSERVE, PS_REDUCE,
     PS_CHECKPOINT, PS_TERMINATE]"

fun stage_value :: "pipeline_stage \<Rightarrow> string" where
  "stage_value PS_BUILD_PROMPT = ''build_prompt''"
| "stage_value PS_REQUEST_DECISION = ''request_decision''"
| "stage_value PS_VALIDATE = ''validate''"
| "stage_value PS_EXECUTE = ''execute''"
| "stage_value PS_OBSERVE = ''observe''"
| "stage_value PS_REDUCE = ''reduce''"
| "stage_value PS_CHECKPOINT = ''checkpoint''"
| "stage_value PS_TERMINATE = ''terminate''"

datatype stage_outcome = SO_COMPLETED | SO_FAILED | SO_SKIPPED

fun outcome_value :: "stage_outcome \<Rightarrow> string" where
  "outcome_value SO_COMPLETED = ''completed''"
| "outcome_value SO_FAILED = ''failed''"
| "outcome_value SO_SKIPPED = ''skipped''"

record stage_record =
  sg_sequence :: nat
  sg_stage :: pipeline_stage
  sg_outcome :: stage_outcome

type_synonym journal = "stage_record list"

definition parse_stage :: "string \<Rightarrow> pipeline_stage option" where
  "parse_stage v = find (\<lambda>s. stage_value s = v) pipeline_order"

definition parse_outcome :: "string \<Rightarrow> stage_outcome option" where
  "parse_outcome v = find (\<lambda>s. outcome_value s = v) [SO_COMPLETED, SO_FAILED, SO_SKIPPED]"

definition journal_record :: "journal \<Rightarrow> string \<Rightarrow> string \<Rightarrow> journal result" where
  "journal_record j stage out =
     (case (parse_stage stage, parse_outcome out) of
        (Some s, Some o') \<Rightarrow>
          (let position = length j in
           if length pipeline_order \<le> position \<or> s \<noteq> pipeline_order ! position
           then Inl (PipelineSequenceError ''pipeline stage out of order'')
           else Inr (j @ [\<lparr>sg_sequence = position + 1, sg_stage = s, sg_outcome = o'\<rparr>]))
      | _ \<Rightarrow> Inl (PipelineSequenceError ''unknown pipeline stage record''))"

text \<open>The \<open>while\<close> loop of \<open>skip_remaining\<close>; the fuel is the number of stages still missing.\<close>

fun skip_stages :: "nat \<Rightarrow> journal \<Rightarrow> journal result" where
  "skip_stages 0 j = Inr j"
| "skip_stages (Suc n) j =
     bind_res (journal_record j (stage_value (pipeline_order ! length j)) (outcome_value SO_SKIPPED)) (skip_stages n)"

definition skip_remaining :: "journal \<Rightarrow> journal result" where
  "skip_remaining j = skip_stages (length pipeline_order - length j) j"

definition require_complete :: "journal \<Rightarrow> unit result" where
  "require_complete j =
     (if length j \<noteq> length pipeline_order
      then Inl (PipelineSequenceError ''pipeline did not reach every phase'') else Inr ())"

fun journal_replay :: "journal \<Rightarrow> stage_mark list \<Rightarrow> journal result" where
  "journal_replay j [] = Inr j"
| "journal_replay j ((s, out) # ms) = bind_res (journal_record j s out) (\<lambda>j. journal_replay j ms)"

definition journal_ok :: "journal \<Rightarrow> bool" where
  "journal_ok j \<longleftrightarrow> map sg_stage j = take (length j) pipeline_order \<and> length j \<le> length pipeline_order \<and>
     map sg_sequence j = [1..<length j + 1]"

lemma journal_ok_Nil [simp]: "journal_ok []"
  by (simp add: journal_ok_def)

lemma parse_stage_value [simp]: "parse_stage (stage_value t) = Some t"
  by (cases t) (simp_all add: parse_stage_def pipeline_order_def)

lemma parse_outcome_value [simp]: "parse_outcome (outcome_value t) = Some t"
  by (cases t) (simp_all add: parse_outcome_def)

lemma journal_record_next:
  assumes "journal_ok j" "length j < length pipeline_order"
  shows "\<exists>j'. journal_record j (stage_value (pipeline_order ! length j)) (outcome_value t) = Inr j' \<and>
    journal_ok j' \<and> length j' = Suc (length j)"
proof -
  have "journal_record j (stage_value (pipeline_order ! length j)) (outcome_value t) =
      Inr (j @ [\<lparr>sg_sequence = length j + 1, sg_stage = pipeline_order ! length j, sg_outcome = t\<rparr>])"
    using assms(2) by (simp add: journal_record_def Let_def)
  moreover have "journal_ok (j @ [\<lparr>sg_sequence = length j + 1, sg_stage = pipeline_order ! length j, sg_outcome = t\<rparr>])"
    using assms by (simp add: journal_ok_def take_Suc_conv_app_nth)
  ultimately show ?thesis by simp
qed

lemma skip_stages_total:
  "journal_ok j \<Longrightarrow> n = length pipeline_order - length j \<Longrightarrow>
     \<exists>j'. skip_stages n j = Inr j' \<and> journal_ok j' \<and> length j' = length pipeline_order"
proof (induction n arbitrary: j)
  case 0
  then show ?case by (simp add: journal_ok_def)
next
  case (Suc n)
  have "length j < length pipeline_order" using Suc.prems(2) by linarith
  then obtain j' where "journal_record j (stage_value (pipeline_order ! length j)) (outcome_value SO_SKIPPED) = Inr j'"
    "journal_ok j'" "length j' = Suc (length j)"
    using journal_record_next [OF Suc.prems(1), of SO_SKIPPED] by blast
  moreover have "n = length pipeline_order - length j'" using Suc.prems(2) calculation(3) by linarith
  ultimately show ?case using Suc.IH [of j'] by (simp only: skip_stages.simps bind_res_simps)
qed

lemma skip_remaining_total: "journal_ok j \<Longrightarrow> \<exists>j'. skip_remaining j = Inr j' \<and> length j' = length pipeline_order"
  using skip_stages_total [of j] by (auto simp: skip_remaining_def)

definition named_marks :: "stage_mark list \<Rightarrow> pipeline_stage list \<Rightarrow> bool" where
  "named_marks ms ss \<longleftrightarrow> map fst ms = map stage_value ss \<and> (\<forall>m\<in>set ms. \<exists>t. snd m = outcome_value t)"

lemma journal_replay_ok:
  "journal_ok j \<Longrightarrow> named_marks ms (take (length ms) (drop (length j) pipeline_order)) \<Longrightarrow>
     length j + length ms \<le> length pipeline_order \<Longrightarrow>
     \<exists>j'. journal_replay j ms = Inr j' \<and> journal_ok j' \<and> length j' = length j + length ms"
proof (induction ms arbitrary: j)
  case (Cons m ms)
  obtain s out where m: "m = (s, out)" by force
  have lt: "length j < length pipeline_order" using Cons.prems(3) by simp
  have d: "drop (length j) pipeline_order = pipeline_order ! length j # drop (Suc (length j)) pipeline_order"
    using lt by (simp add: Cons_nth_drop_Suc)
  obtain t where t: "out = outcome_value t" "s = stage_value (pipeline_order ! length j)"
    using Cons.prems(2) m d by (auto simp: named_marks_def)
  obtain j' where j': "journal_record j s out = Inr j'" "journal_ok j'" "length j' = Suc (length j)"
    using journal_record_next [OF Cons.prems(1) lt, of t] t by auto
  have "named_marks ms (take (length ms) (drop (length j') pipeline_order))"
    using Cons.prems(2) d j'(3) by (auto simp: named_marks_def)
  then show ?case using Cons.IH [OF j'(2)] Cons.prems(3) j' m by auto
qed simp

section \<open>The inputs of a step\<close>

type_synonym deadline = "int \<times> bool"

definition tool_identity_matches :: "tool_context \<Rightarrow> run_context \<Rightarrow> bool" where
  "tool_identity_matches t c \<longleftrightarrow>
     tc_run_id t = rc_run_id c \<and> tc_conversation_id t = rc_conversation_id c \<and>
     tc_tenant_id t = rc_tenant_id c \<and> tc_actor_id t = rc_actor_id c"

definition same_set :: "'a list \<Rightarrow> 'a list \<Rightarrow> bool" where
  "same_set xs ys \<longleftrightarrow> list_all (\<lambda>x. x \<in> set ys) xs \<and> list_all (\<lambda>y. y \<in> set xs) ys"

text \<open>A deadline is a time with a flag that says whether it has a time zone.\<close>

definition validate_step_inputs ::
  "run_context \<Rightarrow> prompt_view \<Rightarrow> decision_boundary \<Rightarrow> tool_context \<Rightarrow> deadline \<Rightarrow> unit result" where
  "validate_step_inputs c p b t dl =
     (if rc_status c \<notin> {RS_RUNNING_READONLY, RS_RUNNING_WORKFLOW}
      then Inl (PipelineInputError ''run status cannot be advanced'')
      else if Some (pv_workflow_id p) \<noteq> rc_workflow_id c \<or> Some (pv_workflow_version p) \<noteq> rc_workflow_version c
      then Inl (PipelineInputError ''prompt workflow does not match locked run workflow'')
      else if pv_remaining_steps p > 6 - rc_step_count c
      then Inl (PipelineInputError ''prompt exceeds the runtime step budget'')
      else if \<not> same_set (pv_allowed_decisions p) (map decision_type_value (db_allowed_types b))
      then Inl (PipelineInputError ''prompt decision boundary is inconsistent'')
      else if \<not> same_set (pv_allowed_tools p) (db_allowed_tools b)
      then Inl (PipelineInputError ''prompt tool boundary is inconsistent'')
      else if \<not> tool_identity_matches t c
      then Inl (PipelineInputError ''tool context identity does not match run context'')
      else if tc_workflow_id t \<noteq> None \<and> tc_workflow_id t \<noteq> rc_workflow_id c
      then Inl (PipelineInputError ''tool context workflow does not match run context'')
      else if tc_workflow_version t \<noteq> None \<and> tc_workflow_version t \<noteq> rc_workflow_version c
      then Inl (PipelineInputError ''tool context workflow version does not match run context'')
      else if tc_current_step t \<noteq> None \<and> tc_current_step t \<noteq> Some (pv_current_step p)
      then Inl (PipelineInputError ''tool context step does not match prompt'')
      else if \<not> snd dl then Inl (PipelineInputError ''deadline must be timezone-aware'')
      else Inr ())"

section \<open>The reducer\<close>

fun step_status_value :: "step_status \<Rightarrow> string" where
  "step_status_value SS_CONTINUE = ''continue''"
| "step_status_value SS_WAIT_USER = ''wait_user''"
| "step_status_value SS_WAIT_HUMAN = ''wait_human''"
| "step_status_value SS_COMPLETE = ''complete''"
| "step_status_value SS_FAIL = ''fail''"

definition target_status :: "run_status \<Rightarrow> loop_result \<Rightarrow> run_status" where
  "target_status current r =
     (if lr_reason r = Some ''cancelled'' then RS_CANCELLED
      else if lr_status r = SS_CONTINUE then current
      else if lr_status r = SS_WAIT_USER then RS_WAITING_USER
      else if lr_status r = SS_WAIT_HUMAN then RS_WAITING_HUMAN
      else if lr_status r = SS_COMPLETE then RS_COMPLETED
      else if lr_reason r \<in> {Some ''max_steps_exceeded'', Some ''token_budget_exhausted'', Some ''deadline_exceeded''}
      then RS_WAITING_HUMAN
      else RS_FAILED)"

text \<open>The \<open>evidence_ids\<close> of a tool's data, if they are a list of strings.\<close>

definition evidence_of :: "pydict \<Rightarrow> pyval list option" where
  "evidence_of d =
     (case dget d ''evidence_ids'' of
        Some (PList ids) \<Rightarrow> if list_all is_string ids then Some ids else None
      | _ \<Rightarrow> None)"

definition observation :: "execution_outcome \<Rightarrow> pydict" where
  "observation x =
     (let r = eo_result x in
      [(''tool_name'', PStr (tr_tool_name r)), (''tool_version'', PStr (tr_tool_version r)),
       (''attempts'', PInt (int (eo_attempts x))),
       (''outcome'', PStr (if tr_error r = None then ''succeeded'' else ''failed''))])"

definition reduce_data :: "pydict \<Rightarrow> tool_result \<Rightarrow> pydict \<Rightarrow> pydict" where
  "reduce_data state r d =
     (let state = dset state ''last_tool_data'' (PDict d);
          by_tool = (case dget state ''tool_data_by_name'' of Some (PDict m) \<Rightarrow> m | _ \<Rightarrow> []);
          state = dset state ''tool_data_by_name'' (PDict (dset by_tool (tr_tool_name r) (PDict d)))
      in case evidence_of d of None \<Rightarrow> state | Some ids \<Rightarrow> dset state ''evidence_ids'' (PList ids))"

definition reduce_execution :: "pydict \<Rightarrow> execution_outcome \<Rightarrow> pydict" where
  "reduce_execution state x =
     (let r = eo_result x in
      case tr_error r of
        Some e \<Rightarrow> dset state ''last_observation'' (PDict (observation x @
            [(''error_code'', PStr (tool_error_value (err_code e))), (''retryable'', PBool (err_retryable e))]))
      | None \<Rightarrow>
          dset (case tr_data r of None \<Rightarrow> state | Some d \<Rightarrow> reduce_data state r d)
            ''last_observation'' (PDict (observation x)))"

definition reduce_state :: "pydict \<Rightarrow> loop_result \<Rightarrow> pydict" where
  "reduce_state state r =
     (let state = dpop (dset state ''last_step_status'' (PStr (step_status_value (lr_status r)))) ''last_step_reason'';
          state = (case lr_reason r of None \<Rightarrow> state | Some m \<Rightarrow> dset state ''last_step_reason'' (PStr m))
      in case lr_execution r of None \<Rightarrow> state | Some x \<Rightarrow> reduce_execution state x)"

definition events_for :: "loop_result \<Rightarrow> domain_event list" where
  "events_for r =
     (case lr_execution r of
        Some x \<Rightarrow>
          (let t = eo_result x;
               observed = (case tr_error t of
                   Some e \<Rightarrow> observation x @ [(''error_code'', PStr (tool_error_value (err_code e)))]
                 | None \<Rightarrow> (case tr_data t of
                     None \<Rightarrow> observation x
                   | Some d \<Rightarrow> (case evidence_of d of
                       None \<Rightarrow> observation x | Some ids \<Rightarrow> observation x @ [(''evidence_ids'', PList ids)])))
           in (if 0 < eo_attempts x
               then [event ET_TOOL_CALLED
                 [(''tool_name'', PStr (tr_tool_name t)), (''tool_version'', PStr (tr_tool_version t))]]
               else []) @
              [event ET_TOOL_OBSERVED observed,
               event ET_STEP_COMPLETED [(''tool_called'', PBool (0 < eo_attempts x))]])
      | None \<Rightarrow>
          if lr_status r = SS_WAIT_USER then [event ET_WAITING_FOR_USER []]
          else if lr_status r = SS_FAIL
          then [event ET_FAILED [(''reason'', PStr (case lr_reason r of
                  None \<Rightarrow> ''failed'' | Some m \<Rightarrow> if m = [] then ''failed'' else m))]]
          else [event ET_STEP_COMPLETED
                 [(''status'', PStr (step_status_value (lr_status r))),
                  (''evidence_ids'', PList (case lr_decision r of None \<Rightarrow> [] | Some d \<Rightarrow> map PStr (de_evidence_ids d)))]])"

record reduced_step =
  re_status :: run_status
  re_next_step :: string
  re_state :: pydict
  re_events :: "domain_event list"

definition reduce_step :: "run_context \<Rightarrow> prompt_view \<Rightarrow> loop_result \<Rightarrow> reduced_step" where
  "reduce_step c p r =
     (let target = target_status (rc_status c) r in
      \<lparr>re_status = target,
       re_next_step = (if target \<in> {RS_RUNNING_READONLY, RS_RUNNING_WORKFLOW} then pv_current_step p else ''terminal''),
       re_state = reduce_state (rc_state c) r, re_events = events_for r\<rparr>)"

section \<open>One step, persisted\<close>

text \<open>
  The state of the pipeline: the tools with their world, and the durable store \<open>'s\<close>. A checkpoint
  gets the context, the new status, the next step, the new state and the events.
\<close>

type_synonym 's checkpoint_op =
  "run_context \<Rightarrow> run_status \<Rightarrow> string \<Rightarrow> pydict \<Rightarrow> domain_event list \<Rightarrow> 's \<Rightarrow> int result \<times> 's"

record ('w, 's) pipeline_env =
  pl_agent :: "'w agent_env"
  pl_build :: "run_context \<Rightarrow> 'w \<Rightarrow> prompt_view result \<times> 'w"
  pl_checkpoint :: "'s checkpoint_op"

record ('w, 's) pipeline_state =
  ps_tools :: "'w tool_state"
  ps_store :: 's

record pipeline_result =
  pr_context :: run_context
  pr_loop :: loop_result
  pr_stages :: journal

text \<open>Evidence a checkpointed retrieval introduced becomes trusted for the next step.\<close>

definition extend_boundary :: "run_context \<Rightarrow> decision_boundary \<Rightarrow> decision_boundary" where
  "extend_boundary c b =
     (case dget (rc_state c) ''evidence_ids'' of
        Some (PList ids) \<Rightarrow>
          b\<lparr>db_trusted_evidence_ids := db_trusted_evidence_ids b @ concat (map (\<lambda>v. case v of PStr i \<Rightarrow> [i] | _ \<Rightarrow> []) ids)\<rparr>
      | _ \<Rightarrow> b)"

definition prepare_step ::
  "('w, 's) pipeline_env \<Rightarrow> run_context \<Rightarrow> decision_boundary \<Rightarrow> tool_context \<Rightarrow> deadline \<Rightarrow> 'w tool_state \<Rightarrow>
   prompt_view result \<times> 'w tool_state" where
  "prepare_step env c b t dl st =
     (let (p, st) = on_world (pl_build env c) st in
      (bind_res p (\<lambda>prompt. bind_res (validate_step_inputs c prompt b t dl) (\<lambda>_. Inr prompt)), st))"

text \<open>The context the store and the caller agree on after a checkpoint.\<close>

definition checkpointed_context :: "run_context \<Rightarrow> run_status \<Rightarrow> pydict \<Rightarrow> int \<Rightarrow> run_context" where
  "checkpointed_context c status state version =
     c\<lparr>rc_status := status, rc_state := state, rc_step_count := rc_step_count c + 1,
       rc_checkpoint_version := version\<rparr>"

text \<open>From the reduction on: the legality of the transition, the checkpoint, the last stages.\<close>

definition persist_step ::
  "('w, 's) pipeline_env \<Rightarrow> run_context \<Rightarrow> prompt_view \<Rightarrow> loop_result \<Rightarrow> journal \<Rightarrow> 's \<Rightarrow>
   pipeline_result result \<times> 's" where
  "persist_step env c prompt loop j s =
     (let reduced = reduce_step c prompt loop in
      case require_transition (rc_status c) (re_status reduced) of
        Inl e \<Rightarrow>
          (bind_res (journal_replay j [(''reduce'', ''failed''), (''checkpoint'', ''skipped''), (''terminate'', ''skipped'')])
             (\<lambda>_. Inl e), s)
      | Inr u \<Rightarrow>
        (case journal_record j ''reduce'' ''completed'' of
           Inl e \<Rightarrow> (Inl e, s)
         | Inr j \<Rightarrow>
           (case pl_checkpoint env c (re_status reduced) (re_next_step reduced) (re_state reduced) (re_events reduced) s of
              (Inl e, s) \<Rightarrow>
                (bind_res (journal_replay j [(''checkpoint'', ''failed''), (''terminate'', ''skipped'')]) (\<lambda>_. Inl e), s)
            | (Inr version, s) \<Rightarrow>
                (bind_res (journal_replay j [(''checkpoint'', ''completed''), (''terminate'', ''completed'')]) (\<lambda>j.
                 bind_res (require_complete j) (\<lambda>_.
                 Inr \<lparr>pr_context = checkpointed_context c (re_status reduced) (re_state reduced) version,
                      pr_loop = loop, pr_stages = j\<rparr>)), s))))"

definition advance ::
  "('w, 's) pipeline_env \<Rightarrow> run_context \<Rightarrow> decision_boundary \<Rightarrow> tool_context \<Rightarrow> deadline \<Rightarrow>
   ('w \<Rightarrow> bool result \<times> 'w) \<Rightarrow> int option \<Rightarrow> ('w, 's) pipeline_state \<Rightarrow>
   pipeline_result result \<times> ('w, 's) pipeline_state" where
  "advance env c b t dl cancelled budget ps =
     (let b = extend_boundary c b;
          (prepared, ts) = prepare_step env c b t dl (ps_tools ps)
      in
      case prepared of
        Inl e \<Rightarrow>
          (bind_res (journal_record [] ''build_prompt'' ''failed'') (\<lambda>j. bind_res (skip_remaining j) (\<lambda>_. Inl e)),
           ps\<lparr>ps_tools := ts\<rparr>)
      | Inr prompt \<Rightarrow>
        (case journal_record [] ''build_prompt'' ''completed'' of
           Inl e \<Rightarrow> (Inl e, ps\<lparr>ps_tools := ts\<rparr>)
         | Inr j \<Rightarrow>
           (case execute_step (pl_agent env) c prompt b t (fst dl) cancelled budget ts of
              (Inl e, ts) \<Rightarrow> (bind_res (skip_remaining j) (\<lambda>_. Inl e), ps\<lparr>ps_tools := ts\<rparr>)
            | (Inr (loop, marks), ts) \<Rightarrow>
              (case journal_replay j marks of
                 Inl e \<Rightarrow> (bind_res (skip_remaining j) (\<lambda>_. Inl e), ps\<lparr>ps_tools := ts\<rparr>)
               | Inr j \<Rightarrow>
                 (let (r, s) = persist_step env c prompt loop j (ps_store ps) in
                  (r, \<lparr>ps_tools = ts, ps_store = s\<rparr>))))))"

definition handoff_loop :: "string \<Rightarrow> loop_result" where
  "handoff_loop reason = (fail_result reason)\<lparr>lr_status := SS_WAIT_HUMAN\<rparr>"

definition pipeline_handoff ::
  "('w, 's) pipeline_env \<Rightarrow> run_context \<Rightarrow> string \<Rightarrow> ('w, 's) pipeline_state \<Rightarrow>
   pipeline_result result \<times> ('w, 's) pipeline_state" where
  "pipeline_handoff env c reason ps =
     (case require_transition (rc_status c) RS_WAITING_HUMAN of
        Inl e \<Rightarrow> (Inl e, ps)
      | Inr u \<Rightarrow>
        (let state = dset (rc_state c) ''last_step_reason'' (PStr reason) in
         case pl_checkpoint env c RS_WAITING_HUMAN ''terminal'' state
             [event ET_FAILED [(''reason'', PStr reason)]] (ps_store ps) of
           (Inl e, s) \<Rightarrow> (Inl e, ps\<lparr>ps_store := s\<rparr>)
         | (Inr version, s) \<Rightarrow>
             (Inr \<lparr>pr_context = checkpointed_context c RS_WAITING_HUMAN state version,
                   pr_loop = handoff_loop reason, pr_stages = []\<rparr>, ps\<lparr>ps_store := s\<rparr>)))"

section \<open>What a step persists\<close>

lemma pipeline_order_length [simp]: "length pipeline_order = 8"
  by (simp add: pipeline_order_def)

lemma first_record:
  assumes "out = ''completed'' \<or> out = ''failed''"
  shows "\<exists>j. journal_record [] ''build_prompt'' out = Inr j \<and> journal_ok j \<and> length j = 1"
proof -
  obtain t where t: "out = outcome_value t" using assms by (metis outcome_value.simps(1,2))
  have "stage_value (pipeline_order ! 0) = ''build_prompt''" by (simp add: pipeline_order_def)
  then show ?thesis using journal_record_next [of "[]" t] t by simp
qed

lemma step_marks_named:
  assumes "marks_in_order marks"
  shows "length marks = 4 \<and> named_marks marks [PS_REQUEST_DECISION, PS_VALIDATE, PS_EXECUTE, PS_OBSERVE]"
proof -
  have "length marks = length (map fst marks)" by simp
  also have "\<dots> = 4" using assms by (simp add: marks_in_order_def del: length_map)
  finally have "length marks = 4" .
  moreover have "\<exists>t. snd m = outcome_value t" if "m \<in> set marks" for m
  proof -
    have "snd m \<in> {''completed'', ''failed'', ''skipped''}"
      using assms that unfolding marks_in_order_def list_all_iff by blast
    then show ?thesis by (metis empty_iff insert_iff outcome_value.simps)
  qed
  ultimately show ?thesis using assms by (simp add: named_marks_def marks_in_order_def)
qed

lemma replay_step_marks:
  assumes "marks_in_order marks" "journal_ok j" "length j = 1"
  shows "\<exists>j'. journal_replay j marks = Inr j' \<and> journal_ok j' \<and> length j' = 5"
proof -
  have "take 4 (drop 1 pipeline_order) = [PS_REQUEST_DECISION, PS_VALIDATE, PS_EXECUTE, PS_OBSERVE]"
    by (simp add: pipeline_order_def)
  then show ?thesis
    using journal_replay_ok [OF assms(2), of marks] step_marks_named [OF assms(1)] assms(3) by simp
qed

lemma replay_tail:
  assumes "journal_ok j" "length j = 5"
    "named_marks ms [PS_REDUCE, PS_CHECKPOINT, PS_TERMINATE]"
  shows "\<exists>j'. journal_replay j ms = Inr j' \<and> journal_ok j' \<and> length j' = 8"
proof -
  have "length ms = length (map fst ms)" by simp
  also have "\<dots> = 3" using assms(3) by (simp add: named_marks_def del: length_map)
  finally have l: "length ms = 3" .
  have "take 3 (drop 5 pipeline_order) = [PS_REDUCE, PS_CHECKPOINT, PS_TERMINATE]"
    by (simp add: pipeline_order_def)
  then show ?thesis using journal_replay_ok [OF assms(1), of ms] assms(2,3) l by simp
qed

lemma replay_last_three:
  assumes "journal_ok j" "length j = 5"
  shows "\<exists>j'. journal_replay j [(''reduce'', outcome_value x), (''checkpoint'', outcome_value y),
    (''terminate'', outcome_value z)] = Inr j' \<and> length j' = 8"
proof -
  have "named_marks [(''reduce'', outcome_value x), (''checkpoint'', outcome_value y), (''terminate'', outcome_value z)]
      [PS_REDUCE, PS_CHECKPOINT, PS_TERMINATE]"
    by (auto simp: named_marks_def)
  then show ?thesis using replay_tail [OF assms] by blast
qed

text \<open>The journal never gets in the way: persisting a step fails only as its transition or store does.\<close>

lemma persist_step_cases:
  assumes "journal_ok j" "length j = 5"
  shows "persist_step env c prompt loop j s =
    (let reduced = reduce_step c prompt loop in
     if \<not> legal (rc_status c) (re_status reduced) then (Inl StateTransitionError, s)
     else (case pl_checkpoint env c (re_status reduced) (re_next_step reduced) (re_state reduced) (re_events reduced) s of
         (Inl e, s) \<Rightarrow> (Inl e, s)
       | (Inr version, s) \<Rightarrow>
           (Inr \<lparr>pr_context = checkpointed_context c (re_status reduced) (re_state reduced) version, pr_loop = loop,
                 pr_stages = projr (journal_replay j [(''reduce'', ''completed''), (''checkpoint'', ''completed''),
                   (''terminate'', ''completed'')])\<rparr>, s)))"
proof -
  define r where "r = reduce_step c prompt loop"
  obtain j1 where j1: "journal_replay j [(''reduce'', ''completed''), (''checkpoint'', ''completed''), (''terminate'', ''completed'')] = Inr j1"
    "length j1 = 8"
    using replay_last_three [OF assms, of SO_COMPLETED SO_COMPLETED SO_COMPLETED] unfolding outcome_value.simps by blast
  obtain j2 where j2: "journal_replay j [(''reduce'', ''failed''), (''checkpoint'', ''skipped''), (''terminate'', ''skipped'')] = Inr j2"
    using replay_last_three [OF assms, of SO_FAILED SO_SKIPPED SO_SKIPPED] unfolding outcome_value.simps by blast
  obtain j3 where j3: "journal_replay j [(''reduce'', ''completed''), (''checkpoint'', ''failed''), (''terminate'', ''skipped'')] = Inr j3"
    using replay_last_three [OF assms, of SO_COMPLETED SO_FAILED SO_SKIPPED] unfolding outcome_value.simps by blast
  obtain k where k: "journal_record j ''reduce'' ''completed'' = Inr k" using j1(1) by (auto simp: bind_res_eq_Inr)
  show ?thesis
  proof (cases "legal (rc_status c) (re_status r)")
    case False
    then show ?thesis
      unfolding persist_step_def Let_def r_def [symmetric] by (simp add: j2 del: journal_replay.simps)
  next
    case True
    then have u: "require_transition (rc_status c) (re_status r) = Inr ()" by simp
    have e: "journal_replay j ((''reduce'', ''completed'') # ms) = journal_replay k ms" for ms
      by (simp add: k)
    note a = j1(1) [unfolded e] j3 [unfolded e]
    obtain v s' where v: "pl_checkpoint env c (re_status r) (re_next_step r) (re_state r) (re_events r) s = (v, s')"
      by force
    show ?thesis
      unfolding persist_step_def Let_def r_def [symmetric]
      by (cases v) (simp_all add: require_complete_def True u k a j1 v del: journal_replay.simps)
  qed
qed

text \<open>The specification of a step without its journal.\<close>

definition advance_spec ::
  "('w, 's) pipeline_env \<Rightarrow> run_context \<Rightarrow> decision_boundary \<Rightarrow> tool_context \<Rightarrow> deadline \<Rightarrow>
   ('w \<Rightarrow> bool result \<times> 'w) \<Rightarrow> int option \<Rightarrow> ('w, 's) pipeline_state \<Rightarrow>
   (run_context \<times> loop_result) result \<times> ('w, 's) pipeline_state" where
  "advance_spec env c b t dl cancelled budget ps =
     (case prepare_step env c (extend_boundary c b) t dl (ps_tools ps) of
        (Inl e, ts) \<Rightarrow> (Inl e, ps\<lparr>ps_tools := ts\<rparr>)
      | (Inr prompt, ts) \<Rightarrow>
        (case execute_step (pl_agent env) c prompt (extend_boundary c b) t (fst dl) cancelled budget ts of
           (Inl e, ts) \<Rightarrow> (Inl e, ps\<lparr>ps_tools := ts\<rparr>)
         | (Inr (loop, marks), ts) \<Rightarrow>
           (let reduced = reduce_step c prompt loop in
            if \<not> legal (rc_status c) (re_status reduced) then (Inl StateTransitionError, ps\<lparr>ps_tools := ts\<rparr>)
            else (case pl_checkpoint env c (re_status reduced) (re_next_step reduced) (re_state reduced)
                (re_events reduced) (ps_store ps) of
                (Inl e, s) \<Rightarrow> (Inl e, \<lparr>ps_tools = ts, ps_store = s\<rparr>)
              | (Inr version, s) \<Rightarrow>
                  (Inr (checkpointed_context c (re_status reduced) (re_state reduced) version, loop),
                   \<lparr>ps_tools = ts, ps_store = s\<rparr>)))))"

definition forget_stages :: "pipeline_result result \<Rightarrow> (run_context \<times> loop_result) result" where
  "forget_stages r = map_sum id (\<lambda>x. (pr_context x, pr_loop x)) r"

lemma forget_stages_simps [simp]:
  "forget_stages (Inl e) = Inl e" "forget_stages (Inr x) = Inr (pr_context x, pr_loop x)"
  by (simp_all add: forget_stages_def)

lemma persist_step_stages:
  assumes "journal_ok j" "length j = 5" "persist_step env c prompt loop j s = (Inr x, s')"
  shows "map sg_stage (pr_stages x) = pipeline_order"
proof -
  have "named_marks [(''reduce'', ''completed''), (''checkpoint'', ''completed''), (''terminate'', ''completed'')]
      [PS_REDUCE, PS_CHECKPOINT, PS_TERMINATE]"
    by (auto simp: named_marks_def intro: exI [of _ SO_COMPLETED])
  then obtain j' where j': "journal_replay j [(''reduce'', ''completed''), (''checkpoint'', ''completed''),
      (''terminate'', ''completed'')] = Inr j'" "journal_ok j'" "length j' = 8"
    using replay_tail [OF assms(1,2)] by blast
  have "pr_stages x = j'"
    using assms(3) unfolding persist_step_cases [OF assms(1,2)] Let_def j'(1)
    by (auto split: if_splits prod.splits sum.splits)
  then show ?thesis using j'(2,3) by (simp add: journal_ok_def)
qed

lemma advance_refines:
  "(let (r, ps') = advance env c b t dl cancelled budget ps in
    (forget_stages r, ps') = advance_spec env c b t dl cancelled budget ps \<and>
    (\<forall>x. r = Inr x \<longrightarrow> map sg_stage (pr_stages x) = pipeline_order))"
proof -
  obtain p ts where prep: "prepare_step env c (extend_boundary c b) t dl (ps_tools ps) = (p, ts)" by force
  show ?thesis
  proof (cases p)
    case (Inl e)
    obtain j where "journal_record [] ''build_prompt'' ''failed'' = Inr j" "journal_ok j"
      using first_record by blast
    moreover then obtain j' where "skip_remaining j = Inr j'" using skip_remaining_total by blast
    ultimately show ?thesis by (simp add: advance_def advance_spec_def prep Inl)
  next
    case (Inr prompt)
    obtain j where j: "journal_record [] ''build_prompt'' ''completed'' = Inr j" "journal_ok j" "length j = 1"
      using first_record by blast
    then obtain js where js: "skip_remaining j = Inr js" using skip_remaining_total by blast
    obtain o1 ts1 where ex: "execute_step (pl_agent env) c prompt (extend_boundary c b) t (fst dl) cancelled budget ts = (o1, ts1)"
      by force
    show ?thesis
    proof (cases o1)
      case e: (Inl e)
      then show ?thesis by (simp add: advance_def advance_spec_def prep Inr j js ex)
    next
      case lm: (Inr lm)
      obtain loop marks where lm2: "lm = (loop, marks)" by force
      have "marks_in_order marks"
        using execute_step_ok [of "pl_agent env" "extend_boundary c b" t ts c prompt "fst dl" cancelled budget]
        by (simp add: ex lm lm2 step_ok_def)
      then obtain j5 where j5: "journal_replay j marks = Inr j5" "journal_ok j5" "length j5 = 5"
        using replay_step_marks j(2,3) by blast
      obtain r s where ps: "persist_step env c prompt loop j5 (ps_store ps) = (r, s)" by force
      have adv: "advance env c b t dl cancelled budget ps = (r, \<lparr>ps_tools = ts1, ps_store = s\<rparr>)"
        by (simp add: advance_def prep Inr j ex lm lm2 j5 ps)
      have "(forget_stages r, \<lparr>ps_tools = ts1, ps_store = s\<rparr>) = advance_spec env c b t dl cancelled budget ps"
        using ps unfolding persist_step_cases [OF j5(2,3)] advance_spec_def prep Inr ex lm lm2 Let_def prod.case sum.case
        by (auto split: if_splits prod.splits sum.splits)
      moreover have "\<forall>x. r = Inr x \<longrightarrow> map sg_stage (pr_stages x) = pipeline_order"
        using persist_step_stages [OF j5(2,3), of env c prompt loop "ps_store ps"] ps by auto
      ultimately show ?thesis by (simp add: adv)
    qed
  qed
qed

lemma advance_specD:
  "advance env c b t dl cancelled budget ps = (r, ps') \<Longrightarrow>
     advance_spec env c b t dl cancelled budget ps = (forget_stages r, ps')"
  using advance_refines [of env c b t dl cancelled budget ps] by simp

lemma advance_success:
  assumes "advance env c b t dl cancelled budget ps = (Inr x, ps')"
  obtains prompt ts loop marks version where
    "prepare_step env c (extend_boundary c b) t dl (ps_tools ps) = (Inr prompt, ts)"
    "execute_step (pl_agent env) c prompt (extend_boundary c b) t (fst dl) cancelled budget ts = (Inr (loop, marks), ps_tools ps')"
    "legal (rc_status c) (target_status (rc_status c) loop)"
    "pl_checkpoint env c (target_status (rc_status c) loop) (re_next_step (reduce_step c prompt loop))
       (reduce_state (rc_state c) loop) (events_for loop) (ps_store ps) = (Inr version, ps_store ps')"
    "pr_context x = checkpointed_context c (target_status (rc_status c) loop) (reduce_state (rc_state c) loop) version"
    "pr_loop x = loop"
  using advance_specD [OF assms]
  by (auto simp: advance_spec_def reduce_step_def Let_def split: prod.splits sum.splits if_splits)

lemma execute_step_continues:
  assumes "execute_step env c prompt b t dl cancelled budget st = (Inr (loop, marks), st')" "lr_status loop = SS_CONTINUE"
  shows "rc_step_count c < 6"
proof (rule ccontr)
  assume "\<not> rc_step_count c < 6"
  then show False
    using assms by (auto simp: execute_step_def Let_def fail_result_def split: prod.splits sum.splits bool.splits)
qed

lemma advance_running:
  assumes "advance env c b t dl cancelled budget ps = (Inr x, ps')" "rc_status (pr_context x) = RS_RUNNING_READONLY"
  shows "rc_step_count c < 6 \<and> rc_step_count (pr_context x) = rc_step_count c + 1 \<and>
    lr_status (pr_loop x) = SS_CONTINUE \<and> rc_status c = RS_RUNNING_READONLY"
  using assms(1)
proof (cases rule: advance_success)
  case (1 prompt ts loop marks version)
  have "lr_status loop = SS_CONTINUE \<and> rc_status c = RS_RUNNING_READONLY"
    using 1(5) assms(2) by (auto simp: checkpointed_context_def target_status_def split: if_splits)
  then show ?thesis using 1 execute_step_continues [OF 1(2)] by (simp add: checkpointed_context_def)
qed

section \<open>The checkpoint store as an interface\<close>

text \<open>
  What the pipeline relies on: a failed checkpoint leaves what is stored for the runs as it was; a
  successful one was given the stored version, stores the new status under the next version, and
  touches no other run.
\<close>

locale checkpoint_store =
  fixes checkpoint :: "'s checkpoint_op"
    and stored :: "'s \<Rightarrow> string \<Rightarrow> (run_status \<times> int) option"
  assumes failed_keeps: "checkpoint c status nxt state evs s = (Inl e, s') \<Longrightarrow> stored s' = stored s"
    and success_version:
      "checkpoint c status nxt state evs s = (Inr v, s') \<Longrightarrow>
         (\<exists>old. stored s (rc_run_id c) = Some (old, rc_checkpoint_version c)) \<and> v = rc_checkpoint_version c + 1"
    and success_sets:
      "checkpoint c status nxt state evs s = (Inr v, s') \<Longrightarrow> stored s' = (stored s)(rc_run_id c \<mapsto> (status, v))"
begin

definition in_sync :: "run_context \<Rightarrow> 's \<Rightarrow> bool" where
  "in_sync c s \<longleftrightarrow> stored s (rc_run_id c) = Some (rc_status c, rc_checkpoint_version c)"

lemma checkpoint_in_sync:
  assumes "checkpoint c status nxt state evs s = (Inr v, s')"
  shows "in_sync (checkpointed_context c status state v) s'"
  using success_sets [OF assms] by (simp add: in_sync_def checkpointed_context_def)

lemma checkpoint_stale:
  assumes "stored s (rc_run_id c) = Some (old, n)" "n \<noteq> rc_checkpoint_version c"
  shows "\<exists>e s'. checkpoint c status nxt state evs s = (Inl e, s') \<and> stored s' = stored s"
proof -
  obtain r s' where r: "checkpoint c status nxt state evs s = (r, s')" by force
  show ?thesis
  proof (cases r)
    case (Inl e)
    then show ?thesis using r failed_keeps by blast
  next
    case (Inr v)
    then show ?thesis using success_version [of c status nxt state evs s v s'] r assms by simp
  qed
qed

lemma advance_in_sync:
  assumes "pl_checkpoint env = checkpoint" "advance env c b t dl cancelled budget ps = (Inr x, ps')"
  shows "in_sync (pr_context x) (ps_store ps') \<and> (\<exists>old. stored (ps_store ps) (rc_run_id c) = Some (old, rc_checkpoint_version c))"
  using assms(2)
proof (cases rule: advance_success)
  case (1 prompt ts loop marks version)
  then show ?thesis using checkpoint_in_sync success_version assms(1) by metis
qed

lemma advance_failed_keeps:
  assumes "pl_checkpoint env = checkpoint" "advance env c b t dl cancelled budget ps = (Inl e, ps')"
  shows "stored (ps_store ps') = stored (ps_store ps)"
  using advance_specD [OF assms(2)] failed_keeps assms(1)
  by (auto simp: advance_spec_def Let_def split: prod.splits sum.splits if_splits)

lemma handoff_in_sync:
  assumes "pl_checkpoint env = checkpoint" "pipeline_handoff env c reason ps = (Inr x, ps')"
  shows "in_sync (pr_context x) (ps_store ps')"
  using assms checkpoint_in_sync
  by (auto simp: pipeline_handoff_def Let_def split: prod.splits sum.splits)

end

section \<open>Properties\<close>

text \<open>C21: the pipeline with its journal refines the plain composition of its parts: prepare, one agent
  step, reduction, legality of the transition, checkpoint. The journal adds no failure of its own, it
  changes neither result nor state, and every step that returns has recorded all eight stages in
  their fixed order.\<close>

theorem pipeline_refines_spec:
  "(let (r, ps') = advance env c b t dl cancelled budget ps in
    (forget_stages r, ps') = advance_spec env c b t dl cancelled budget ps \<and>
    (\<forall>x. r = Inr x \<longrightarrow> map sg_stage (pr_stages x) = pipeline_order))"
  by (rule advance_refines)

lemma evidence_of_string_list:
  "evidence_of d = Some ids \<longleftrightarrow> dget d ''evidence_ids'' = Some (PList ids) \<and> list_all is_string ids"
  by (auto simp: evidence_of_def split: option.splits pyval.splits)

lemma reduce_data_evidence:
  "dget (reduce_data s r d) ''evidence_ids'' =
     (case evidence_of d of None \<Rightarrow> dget s ''evidence_ids'' | Some ids \<Rightarrow> Some (PList ids))"
  by (simp add: reduce_data_def Let_def split: option.split)

lemma reduce_execution_evidence:
  "dget (reduce_execution s x) ''evidence_ids'' =
     (case (tr_error (eo_result x), tr_data (eo_result x)) of
        (None, Some d) \<Rightarrow> (case evidence_of d of None \<Rightarrow> dget s ''evidence_ids'' | Some ids \<Rightarrow> Some (PList ids))
      | _ \<Rightarrow> dget s ''evidence_ids'')"
  by (simp add: reduce_execution_def Let_def reduce_data_evidence split: option.split)

lemma reduce_state_evidence:
  assumes "dget (reduce_state state r) ''evidence_ids'' \<noteq> dget state ''evidence_ids''"
  shows "\<exists>x d ids. lr_execution r = Some x \<and> tr_error (eo_result x) = None \<and> tr_data (eo_result x) = Some d \<and>
    evidence_of d = Some ids \<and> dget (reduce_state state r) ''evidence_ids'' = Some (PList ids)"
proof -
  define s where "s = (case lr_reason r of
      None \<Rightarrow> dpop (dset state ''last_step_status'' (PStr (step_status_value (lr_status r)))) ''last_step_reason''
    | Some m \<Rightarrow> dset (dpop (dset state ''last_step_status'' (PStr (step_status_value (lr_status r)))) ''last_step_reason'')
        ''last_step_reason'' (PStr m))"
  have s: "dget s ''evidence_ids'' = dget state ''evidence_ids''" by (simp add: s_def split: option.split)
  have "reduce_state state r = (case lr_execution r of None \<Rightarrow> s | Some x \<Rightarrow> reduce_execution s x)"
    unfolding reduce_state_def Let_def s_def ..
  then show ?thesis
    using assms s by (auto simp: reduce_execution_evidence split: option.split_asm)
qed

text \<open>C22: trusted evidence comes from tools only. If a step changes the evidence ids of the run, then it
  executed a read-only tool the boundary allows whose well-formed, successful result carries exactly
  the new ids, all of them strings; no model decision and no failed tool can write them.\<close>

theorem evidence_only_from_tools:
  assumes "advance env c b t dl cancelled budget ps = (Inr x, ps')"
    "dget (rc_state (pr_context x)) ''evidence_ids'' \<noteq> dget (rc_state c) ''evidence_ids''"
  shows "\<exists>out d ids spec. lr_execution (pr_loop x) = Some out \<and> tr_data (eo_result out) = Some d \<and>
    dget d ''evidence_ids'' = Some (PList ids) \<and> list_all is_string ids \<and>
    dget (rc_state (pr_context x)) ''evidence_ids'' = Some (PList ids) \<and>
    ts_risk spec = TR_READ_ONLY \<and> ts_name spec \<in> set (db_allowed_tools b) \<and>
    registry_resolve (ae_registry (pl_agent env)) (ts_name spec) ''1'' t True = Inr spec \<and>
    well_formed_result spec (eo_result out)"
  using assms(1)
proof (cases rule: advance_success)
  case (1 prompt ts loop marks version)
  have st: "rc_state (pr_context x) = reduce_state (rc_state c) loop" by (simp add: 1 checkpointed_context_def)
  obtain out d ids where o: "lr_execution loop = Some out" "tr_data (eo_result out) = Some d"
    "evidence_of d = Some ids" "dget (reduce_state (rc_state c) loop) ''evidence_ids'' = Some (PList ids)"
    using reduce_state_evidence assms(2) st by metis
  have "step_ok (pl_agent env) (extend_boundary c b) t ts (Inr (loop, marks), ps_tools ps')"
    using execute_step_ok 1(2) by metis
  then obtain spec :: tool_spec where "ts_risk spec = TR_READ_ONLY" "ts_name spec \<in> set (db_allowed_tools (extend_boundary c b))"
    "registry_resolve (ae_registry (pl_agent env)) (ts_name spec) ''1'' t True = Inr spec"
    "well_formed_result spec (eo_result out)"
    using o(1) by (auto simp: step_ok_def execution_of_decision_def)
  moreover have "db_allowed_tools (extend_boundary c b) = db_allowed_tools b"
    by (simp add: extend_boundary_def split: option.splits pyval.splits)
  ultimately show ?thesis using o 1(6) st by (auto simp: evidence_of_string_list)
qed

text \<open>A step whose inputs disagree never gets to the model, a tool or the store: if the tool context
  names another run, conversation, tenant or actor than the run, or the deadline has no time zone, or
  the run is not running, then the step raises, no tool was called and nothing was persisted,
  whatever the gateway would have answered.\<close>

theorem mismatched_inputs_stop_step:
  assumes "\<not> tool_identity_matches t c \<or> \<not> snd dl \<or> rc_status c \<notin> {RS_RUNNING_READONLY, RS_RUNNING_WORKFLOW}"
  shows "\<exists>e ps'. \<forall>gateway.
    advance (env\<lparr>pl_agent := (pl_agent env)\<lparr>ae_decide := gateway\<rparr>\<rparr>) c b t dl cancelled budget ps = (Inl e, ps') \<and>
    ps_store ps' = ps_store ps \<and> tst_calls (ps_tools ps') = tst_calls (ps_tools ps)"
proof -
  obtain p ts where bt: "on_world (pl_build env c) (ps_tools ps) = (p, ts)" by force
  have calls: "tst_calls ts = tst_calls (ps_tools ps)" using bt by simp
  have bad: "\<exists>e. validate_step_inputs c prompt b' t dl = Inl e" for prompt b'
    using assms by (auto simp: validate_step_inputs_def)
  obtain e where e: "prepare_step env c (extend_boundary c b) t dl (ps_tools ps) = (Inl e, ts)"
  proof (cases p)
    case (Inl e)
    then show ?thesis using that by (simp add: prepare_step_def bt)
  next
    case (Inr prompt)
    obtain e where "validate_step_inputs c prompt (extend_boundary c b) t dl = Inl e" using bad by blast
    then show ?thesis using that Inr by (simp add: prepare_step_def bt)
  qed
  have "prepare_step (env\<lparr>pl_agent := a\<rparr>) c (extend_boundary c b) t dl (ps_tools ps) = (Inl e, ts)" for a
    using e by (simp add: prepare_step_def)
  then have spec: "advance_spec (env\<lparr>pl_agent := a\<rparr>) c b t dl cancelled budget ps = (Inl e, ps\<lparr>ps_tools := ts\<rparr>)" for a
    by (simp add: advance_spec_def)
  have "advance (env\<lparr>pl_agent := a\<rparr>) c b t dl cancelled budget ps = (Inl e, ps\<lparr>ps_tools := ts\<rparr>)" for a
  proof -
    obtain r ps' where r: "advance (env\<lparr>pl_agent := a\<rparr>) c b t dl cancelled budget ps = (r, ps')" by force
    then show ?thesis using advance_specD [OF r] spec [of a] by (cases r) auto
  qed
  then show ?thesis using calls by auto
qed

section \<open>A concrete step\<close>

definition knowledge_decision :: decision where
  "knowledge_decision = demo_decision\<lparr>de_route := ''refund_policy'', de_tool := Some ''retrieve_knowledge'',
     de_args := [(''query'', PStr ''refund'')]\<rparr>"

definition knowledge_boundary :: decision_boundary where
  "knowledge_boundary = demo_boundary\<lparr>db_route := ''refund_policy'', db_allowed_tools := [''retrieve_knowledge'']\<rparr>"

definition knowledge_env :: "unit agent_env" where
  "knowledge_env = demo_agent
     \<lparr>ae_tools := demo_env\<lparr>te_adapters := [(''retrieve_knowledge'', \<lambda>ctx args s w. (AR_RESULT
          \<lparr>tr_tool_name = ''retrieve_knowledge'', tr_tool_version = ''1'',
           tr_data = Some [(''evidence_ids'', PList [PStr ''KB-1'']), (''evidence'', PList [])], tr_error = None\<rparr>, w))]\<rparr>,
      ae_decide := (\<lambda>p w. (Inr \<lparr>md_decision = knowledge_decision, md_usage_tokens = Some 10\<rparr>, w))\<rparr>"

definition knowledge_pipeline :: "(unit, nat) pipeline_env" where
  "knowledge_pipeline =
     \<lparr>pl_agent = knowledge_env,
      pl_build = (\<lambda>c w. (Inr (demo_prompt\<lparr>pv_allowed_tools := [''retrieve_knowledge''], pv_remaining_steps := 6 - rc_step_count c\<rparr>), w)),
      pl_checkpoint = (\<lambda>c status nxt state evs s. (Inr (rc_checkpoint_version c + 1), s + 1))\<rparr>"

definition knowledge_context :: tool_context where
  "knowledge_context = demo_read_context\<lparr>tc_scopes := [''knowledge:read'']\<rparr>"

definition knowledge_start :: "(unit, nat) pipeline_state" where
  "knowledge_start = \<lparr>ps_tools = \<lparr>tst_world = (), tst_calls = []\<rparr>, ps_store = 0\<rparr>"

definition demo_advance :: "pipeline_result result \<times> (unit, nat) pipeline_state" where
  "demo_advance = advance knowledge_pipeline demo_context knowledge_boundary knowledge_context (5, True)
     (\<lambda>w. (Inr False, w)) None knowledge_start"

lemma demo_advance_evidence:
  "(case fst demo_advance of Inl e \<Rightarrow> False
    | Inr x \<Rightarrow> dget (rc_state (pr_context x)) ''evidence_ids'' = Some (PList [PStr ''KB-1'']))"
  by code_simp

lemma demo_advance_runs:
  obtains x ps' where "demo_advance = (Inr x, ps')"
    "dget (rc_state (pr_context x)) ''evidence_ids'' = Some (PList [PStr ''KB-1''])"
proof -
  obtain r ps' where r: "demo_advance = (r, ps')" by (metis surj_pair)
  have "(case r of Inl e \<Rightarrow> False
    | Inr x \<Rightarrow> dget (rc_state (pr_context x)) ''evidence_ids'' = Some (PList [PStr ''KB-1'']))"
    using demo_advance_evidence unfolding r fst_conv .
  then show ?thesis using r that by (cases r) auto
qed

lemma pipeline_refines_spec_witness:
  "\<exists>x ps'. demo_advance = (Inr x, ps') \<and> map sg_stage (pr_stages x) = pipeline_order"
proof -
  obtain x ps' where "demo_advance = (Inr x, ps')" using demo_advance_runs by metis
  then show ?thesis
    using pipeline_refines_spec [of knowledge_pipeline demo_context knowledge_boundary knowledge_context "(5, True)"
        "\<lambda>w. (Inr False, w)" None knowledge_start]
    unfolding demo_advance_def by simp
qed

lemma evidence_only_from_tools_witness:
  "\<exists>x ps' spec. demo_advance = (Inr x, ps') \<and> ts_risk (spec :: tool_spec) = TR_READ_ONLY \<and>
     ts_name spec \<in> set (db_allowed_tools knowledge_boundary)"
proof -
  obtain x ps' where x: "demo_advance = (Inr x, ps')"
    "dget (rc_state (pr_context x)) ''evidence_ids'' = Some (PList [PStr ''KB-1''])"
    using demo_advance_runs by metis
  have "dget (rc_state (pr_context x)) ''evidence_ids'' \<noteq> dget (rc_state demo_context) ''evidence_ids''"
    using x(2) by (simp add: demo_context_def)
  then show ?thesis
    using evidence_only_from_tools [OF x(1) [unfolded demo_advance_def]] x(1) by blast
qed

lemma mismatched_inputs_stop_step_witness:
  "\<exists>e. fst (advance knowledge_pipeline (demo_context\<lparr>rc_actor_id := ''someone else''\<rparr>) knowledge_boundary knowledge_context
     (5, True) (\<lambda>w. (Inr False, w)) None knowledge_start) = Inl e"
proof -
  have "\<not> tool_identity_matches knowledge_context (demo_context\<lparr>rc_actor_id := ''someone else''\<rparr>)"
    by (simp add: tool_identity_matches_def knowledge_context_def demo_read_context_def demo_tool_context_def demo_context_def)
  then obtain e ps' where "\<forall>gateway. advance (knowledge_pipeline\<lparr>pl_agent := (pl_agent knowledge_pipeline)\<lparr>ae_decide := gateway\<rparr>\<rparr>)
      (demo_context\<lparr>rc_actor_id := ''someone else''\<rparr>) knowledge_boundary knowledge_context
      (5, True) (\<lambda>w. (Inr False, w)) None knowledge_start = (Inl e, ps')"
    using mismatched_inputs_stop_step [of knowledge_context "demo_context\<lparr>rc_actor_id := ''someone else''\<rparr>" "(5, True)"
        knowledge_pipeline knowledge_boundary "\<lambda>w. (Inr False, w)" None knowledge_start] by blast
  from this [rule_format, of "ae_decide (pl_agent knowledge_pipeline)"]
  have "advance knowledge_pipeline (demo_context\<lparr>rc_actor_id := ''someone else''\<rparr>) knowledge_boundary knowledge_context
      (5, True) (\<lambda>w. (Inr False, w)) None knowledge_start = (Inl e, ps')" by simp
  then show ?thesis by simp
qed

end
