(* ===== verification/AgentLoop.thy ===== *)
theory AgentLoop
  imports Pipeline
begin

text \<open>
  \<open>AgentLoop.run\<close> of \<open>src/agent/loop.py\<close>: the bounded outer loop of the read-only agent. It advances
  the run until the status is no longer \<open>running_readonly\<close>, charges the token budget, and hands off
  when a step repeats the structured action of the step before. The loop is a \<open>function\<close> whose
  termination rests on \<open>advance_running\<close>: a step that leaves the run running had fewer than six steps
  behind it and commits one more.
\<close>

type_synonym action_signature = "decision_type \<times> string option \<times> pydict"

text \<open>\<open>_decision_signature\<close>: the type, the tool and the sorted arguments of a continuing decision.\<close>

definition decision_signature :: "loop_result \<Rightarrow> action_signature option" where
  "decision_signature r =
     (case lr_decision r of
        None \<Rightarrow> None
      | Some d \<Rightarrow>
          if lr_status r \<noteq> SS_CONTINUE then None
          else Some (de_type d, de_tool d, sort_key fst (de_args d)))"

text \<open>Equality of two signatures, by Python's equality of the values.\<close>

definition same_signature :: "action_signature option \<Rightarrow> action_signature option \<Rightarrow> bool" where
  "same_signature a b \<longleftrightarrow>
     (case (a, b) of
        (Some (t, n, xs), Some (t', n', ys)) \<Rightarrow>
          t = t' \<and> n = n' \<and> list_all2 (\<lambda>(k, v) (k', v'). k = k' \<and> py_eq v v') xs ys
      | (None, None) \<Rightarrow> True
      | _ \<Rightarrow> False)"

record agent_run_result =
  ar_context :: run_context
  ar_exit_reason :: string
  ar_steps :: "loop_result list"

definition run_result :: "run_context \<Rightarrow> loop_result list \<Rightarrow> agent_run_result" where
  "run_result c steps =
     \<lparr>ar_context = c, ar_exit_reason = status_value (rc_status c), ar_steps = steps\<rparr>"

text \<open>The budget after a step: the reported usage, or the safe charge of the gateway, which may raise.\<close>

definition charge_budget :: "('w, 's) pipeline_env \<Rightarrow> int option \<Rightarrow> loop_result \<Rightarrow> int option result" where
  "charge_budget env budget r =
     (case budget of
        None \<Rightarrow> Inr None
      | Some b \<Rightarrow>
          bind_res (case lr_usage_tokens r of
              Some u \<Rightarrow> Inr u | None \<Rightarrow> ae_token_charge (pl_agent env))
            (\<lambda>usage. Inr (Some (max 0 (b - usage)))))"

text \<open>The constant part of a run: the boundary, the tool context of a run context, the deadline and the
  cancellation callback.\<close>

record 'w run_inputs =
  ri_boundary :: decision_boundary
  ri_tool_context :: "run_context \<Rightarrow> tool_context"
  ri_deadline :: deadline
  ri_cancelled :: "'w \<Rightarrow> bool result \<times> 'w"

definition run_advance ::
  "('w, 's) pipeline_env \<Rightarrow> 'w run_inputs \<Rightarrow> run_context \<Rightarrow> int option \<Rightarrow> ('w, 's) pipeline_state \<Rightarrow>
   pipeline_result result \<times> ('w, 's) pipeline_state" where
  "run_advance env i c budget ps =
     advance env c (ri_boundary i) (ri_tool_context i c) (ri_deadline i) (ri_cancelled i) budget ps"

lemma run_advance_running:
  "run_advance env i c budget ps = (Inr x, ps') \<Longrightarrow> rc_status (pr_context x) = RS_RUNNING_READONLY \<Longrightarrow>
     rc_step_count c < 6 \<and> rc_step_count (pr_context x) = rc_step_count c + 1 \<and> rc_status c = RS_RUNNING_READONLY"
  unfolding run_advance_def by (drule (1) advance_running) simp

definition stop_no_progress ::
  "('w, 's) pipeline_env \<Rightarrow> run_context \<Rightarrow> loop_result list \<Rightarrow> ('w, 's) pipeline_state \<Rightarrow>
   agent_run_result result \<times> ('w, 's) pipeline_state" where
  "stop_no_progress env c steps ps =
     (case pipeline_handoff env c ''readonly_loop_no_progress'' ps of
        (Inl e, ps) \<Rightarrow> (Inl e, ps)
      | (Inr h, ps) \<Rightarrow> (Inr (run_result (pr_context h) (steps @ [pr_loop h])), ps))"

function run_loop ::
  "('w, 's) pipeline_env \<Rightarrow> 'w run_inputs \<Rightarrow> run_context \<Rightarrow> loop_result list \<Rightarrow> int option \<Rightarrow>
   action_signature option \<Rightarrow> ('w, 's) pipeline_state \<Rightarrow> agent_run_result result \<times> ('w, 's) pipeline_state"
where
  "run_loop env i c steps budget previous ps =
     (if rc_status c \<noteq> RS_RUNNING_READONLY then (Inr (run_result c steps), ps)
      else (case run_advance env i c budget ps of
          (Inl e, ps) \<Rightarrow> (Inl e, ps)
        | (Inr x, ps) \<Rightarrow>
            (case charge_budget env budget (pr_loop x) of
               Inl e \<Rightarrow> (Inl e, ps)
             | Inr budget \<Rightarrow>
                 if rc_status (pr_context x) \<noteq> RS_RUNNING_READONLY
                 then (Inr (run_result (pr_context x) (steps @ [pr_loop x])), ps)
                 else if decision_signature (pr_loop x) \<noteq> None \<and> same_signature (decision_signature (pr_loop x)) previous
                 then stop_no_progress env (pr_context x) (steps @ [pr_loop x]) ps
                 else run_loop env i (pr_context x) (steps @ [pr_loop x]) budget (decision_signature (pr_loop x)) ps)))"
  by pat_completeness auto
termination
  by (relation "measure (\<lambda>(env, i, c, steps, budget, previous, ps). nat (6 - rc_step_count c))")
    (auto dest!: run_advance_running [OF sym])

declare run_loop.simps [simp del]

definition agent_run ::
  "('w, 's) pipeline_env \<Rightarrow> 'w run_inputs \<Rightarrow> run_context \<Rightarrow> int option \<Rightarrow> ('w, 's) pipeline_state \<Rightarrow>
   agent_run_result result \<times> ('w, 's) pipeline_state" where
  "agent_run env i c budget ps = run_loop env i c [] budget None ps"

section \<open>What a run does\<close>

text \<open>
  The induction every property of a run uses: a property of the states between two steps that every
  successful step and the handoff carry on holds at the end.
\<close>

lemma handoff_status:
  "pipeline_handoff env c reason ps = (Inr h, ps') \<Longrightarrow> rc_status (pr_context h) = RS_WAITING_HUMAN"
  by (auto simp: pipeline_handoff_def Let_def checkpointed_context_def split: prod.splits sum.splits)

lemma run_loop_induct:
  assumes run: "run_loop env i c steps budget previous ps = (Inr res, ps')"
    and start: "P c steps ps"
    and step: "\<And>c steps budget ps x ps'. P c steps ps \<Longrightarrow> rc_status c = RS_RUNNING_READONLY \<Longrightarrow>
        run_advance env i c budget ps = (Inr x, ps') \<Longrightarrow> P (pr_context x) (steps @ [pr_loop x]) ps'"
    and handoff: "\<And>c steps ps h ps'. P c steps ps \<Longrightarrow> rc_status c = RS_RUNNING_READONLY \<Longrightarrow> steps \<noteq> [] \<Longrightarrow>
        pipeline_handoff env c ''readonly_loop_no_progress'' ps = (Inr h, ps') \<Longrightarrow>
        P (pr_context h) (steps @ [pr_loop h]) ps'"
  shows "P (ar_context res) (ar_steps res) ps' \<and> rc_status (ar_context res) \<noteq> RS_RUNNING_READONLY \<and>
    ar_exit_reason res = status_value (rc_status (ar_context res))"
  using run start
proof (induction "nat (6 - rc_step_count c)" arbitrary: c steps budget previous ps rule: less_induct)
  case less
  show ?case
  proof (cases "rc_status c = RS_RUNNING_READONLY")
    case False
    then show ?thesis using less.prems by (auto simp: run_loop.simps [of env i c] run_result_def)
  next
    case running: True
    obtain r ps1 where r: "run_advance env i c budget ps = (r, ps1)" by (metis surj_pair)
    then obtain x where x: "r = Inr x"
      using less.prems(1) running by (cases r) (simp_all add: run_loop.simps [of env i c])
    have px: "P (pr_context x) (steps @ [pr_loop x]) ps1"
      using step [OF less.prems(2) running] r x by simp
    obtain b where b: "charge_budget env budget (pr_loop x) = Inr b"
      using less.prems(1) running r x
      by (cases "charge_budget env budget (pr_loop x)") (simp_all add: run_loop.simps [of env i c])
    note unfolded = less.prems(1) [unfolded run_loop.simps [of env i c], simplified running r x b prod.case sum.case]
    show ?thesis
    proof (cases "rc_status (pr_context x) = RS_RUNNING_READONLY")
      case False
      then show ?thesis using unfolded px by (auto simp: run_result_def)
    next
      case again: True
      show ?thesis
      proof (cases "decision_signature (pr_loop x) \<noteq> None \<and> same_signature (decision_signature (pr_loop x)) previous")
        case True
        then have "stop_no_progress env (pr_context x) (steps @ [pr_loop x]) ps1 = (Inr res, ps')"
          using unfolded again by simp
        then obtain h where h: "pipeline_handoff env (pr_context x) ''readonly_loop_no_progress'' ps1 = (Inr h, ps')"
          "res = run_result (pr_context h) ((steps @ [pr_loop x]) @ [pr_loop h])"
          by (auto simp: stop_no_progress_def split: prod.splits sum.splits)
        have "P (pr_context h) ((steps @ [pr_loop x]) @ [pr_loop h]) ps'"
          by (rule handoff [OF px again _ h(1)]) simp
        moreover have "rc_status (pr_context h) = RS_WAITING_HUMAN" using h(1) by (rule handoff_status)
        ultimately show ?thesis by (simp add: h(2) run_result_def)
      next
        case False
        then have rec: "run_loop env i (pr_context x) (steps @ [pr_loop x]) b (decision_signature (pr_loop x)) ps1 = (Inr res, ps')"
          using unfolded again by (simp split: if_splits)
        have "nat (6 - rc_step_count (pr_context x)) < nat (6 - rc_step_count c)"
          using run_advance_running [of env i c budget ps x ps1] r x again by simp
        then show ?thesis using less.hyps rec px by blast
      qed
    qed
  qed
qed

text \<open>The tool calls of one step and of a run: read-only tools of the boundary, at most two per step.\<close>

definition readonly_call :: "('w, 's) pipeline_env \<Rightarrow> decision_boundary \<Rightarrow> tool_call \<Rightarrow> bool" where
  "readonly_call env b call \<longleftrightarrow>
     fst call \<in> set (db_allowed_tools b) \<and>
     (\<exists>spec. dget (ae_registry (pl_agent env)) (fst call, ''1'') = Some spec \<and> ts_risk spec = TR_READ_ONLY)"

definition registry_valid :: "tool_registry \<Rightarrow> bool" where
  "registry_valid reg \<longleftrightarrow> list_all (\<lambda>(k, spec). valid_tool_spec spec) reg"

lemma extend_boundary_tools [simp]: "db_allowed_tools (extend_boundary c b) = db_allowed_tools b"
  by (simp add: extend_boundary_def split: option.splits pyval.splits)

lemma prepare_step_calls: "prepare_step env c b t dl st = (r, st') \<Longrightarrow> tst_calls st' = tst_calls st"
  by (auto simp: prepare_step_def split: prod.splits)

lemma advance_calls:
  assumes "advance env c b t dl cancelled budget ps = (Inr x, ps')" "registry_valid (ae_registry (pl_agent env))"
  shows "\<exists>new. tst_calls (ps_tools ps') = tst_calls (ps_tools ps) @ new \<and> length new \<le> 2 \<and>
    list_all (readonly_call env b) new"
  using assms(1)
proof (cases rule: advance_success)
  case (1 prompt ts loop marks version)
  have c0: "tst_calls ts = tst_calls (ps_tools ps)" using 1(1) by (rule prepare_step_calls)
  have ok: "step_ok (pl_agent env) (extend_boundary c b) t ts (Inr (loop, marks), ps_tools ps')"
    using execute_step_ok 1(2) by metis
  show ?thesis
  proof (cases "lr_execution loop")
    case None
    then show ?thesis using ok c0 by (simp add: step_ok_def)
  next
    case (Some out)
    then have "execution_of_decision (pl_agent env) (extend_boundary c b) t ts loop out (ps_tools ps')"
      using ok by (simp add: step_ok_def)
    then obtain d :: decision and spec n where e: "registry_resolve (ae_registry (pl_agent env)) (ts_name spec) ''1'' t True = Inr spec"
      "ts_risk spec = TR_READ_ONLY" "ts_name spec \<in> set (db_allowed_tools b)" "n \<le> eo_attempts out"
      "eo_attempts out \<le> nat (rp_max_attempts (ts_retry_policy spec))"
      "tst_calls (ps_tools ps') = tst_calls ts @ replicate n (ts_name spec, de_args d)"
      unfolding execution_of_decision_def extend_boundary_tools by blast
    have g: "dget (ae_registry (pl_agent env)) (ts_name spec, ''1'') = Some spec"
      using e(1) by (simp add: registry_resolve_Inr)
    then have "valid_tool_spec spec"
      using assms(2) by (auto simp: registry_valid_def list_all_iff dest: map_of_SomeD)
    then have "rp_max_attempts (ts_retry_policy spec) \<le> 2" by (simp add: valid_tool_spec_def)
    then have "n \<le> 2" using e(4,5) by linarith
    then show ?thesis using e g c0 by (auto simp: readonly_call_def list_all_iff)
  qed
qed

lemma advance_count:
  "advance env c b t dl cancelled budget ps = (Inr x, ps') \<Longrightarrow> rc_step_count (pr_context x) = rc_step_count c + 1"
  by (erule advance_success) (simp add: checkpointed_context_def)

lemma advance_legal:
  "advance env c b t dl cancelled budget ps = (Inr x, ps') \<Longrightarrow> legal (rc_status c) (rc_status (pr_context x))"
  by (erule advance_success) (simp add: checkpointed_context_def)

lemma handoff_facts:
  assumes "pipeline_handoff env c reason ps = (Inr h, ps')"
  shows "rc_step_count (pr_context h) = rc_step_count c + 1" "ps_tools ps' = ps_tools ps"
    "legal (rc_status c) (rc_status (pr_context h))"
  using assms by (auto simp: pipeline_handoff_def Let_def checkpointed_context_def split: prod.splits sum.splits)

definition run_invariant ::
  "('w, 's) pipeline_env \<Rightarrow> 'w run_inputs \<Rightarrow> run_context \<Rightarrow> tool_call list \<Rightarrow> run_context \<Rightarrow> loop_result list \<Rightarrow>
   ('w, 's) pipeline_state \<Rightarrow> bool" where
  "run_invariant env i c0 calls0 c steps ps \<longleftrightarrow>
     rc_step_count c = rc_step_count c0 + int (length steps) \<and>
     rc_step_count c \<le> max (rc_step_count c0) 6 + 1 \<and>
     (rc_status c = RS_RUNNING_READONLY \<longrightarrow> rc_step_count c \<le> max (rc_step_count c0) 6) \<and>
     (\<exists>new. tst_calls (ps_tools ps) = calls0 @ new \<and> length new \<le> 2 * length steps \<and>
        list_all (readonly_call env (ri_boundary i)) new) \<and>
     (\<exists>history. path legal (rc_status c0) history \<and> length history = length steps \<and>
        last (rc_status c0 # history) = rc_status c)"

lemma path_snoc: "path r s (ts @ [t]) \<longleftrightarrow> path r s ts \<and> r (last (s # ts)) t"
  by (simp add: path_append)

lemma run_invariant_step:
  assumes "run_invariant env i c0 calls0 c steps ps" "rc_status c = RS_RUNNING_READONLY"
    "run_advance env i c budget ps = (Inr x, ps')" "registry_valid (ae_registry (pl_agent env))"
  shows "run_invariant env i c0 calls0 (pr_context x) (steps @ [pr_loop x]) ps'"
proof -
  note adv = assms(3) [unfolded run_advance_def]
  obtain new where new: "tst_calls (ps_tools ps) = calls0 @ new" "length new \<le> 2 * length steps"
    "list_all (readonly_call env (ri_boundary i)) new"
    using assms(1) by (auto simp: run_invariant_def)
  obtain more where more: "tst_calls (ps_tools ps') = tst_calls (ps_tools ps) @ more" "length more \<le> 2"
    "list_all (readonly_call env (ri_boundary i)) more"
    using advance_calls [OF adv assms(4)] by blast
  have calls: "\<exists>new. tst_calls (ps_tools ps') = calls0 @ new \<and> length new \<le> 2 * length (steps @ [pr_loop x]) \<and>
      list_all (readonly_call env (ri_boundary i)) new"
    using new more by (intro exI [of _ "new @ more"]) simp
  obtain history where h: "path legal (rc_status c0) history" "length history = length steps"
    "last (rc_status c0 # history) = rc_status c"
    using assms(1) by (auto simp: run_invariant_def)
  have hist: "\<exists>history. path legal (rc_status c0) history \<and> length history = length (steps @ [pr_loop x]) \<and>
      last (rc_status c0 # history) = rc_status (pr_context x)"
    using h advance_legal [OF adv]
    by (intro exI [of _ "history @ [rc_status (pr_context x)]"]) (simp add: path_snoc)
  show ?thesis
    using assms(1,2) advance_count [OF adv] run_advance_running [OF assms(3)] calls hist
    unfolding run_invariant_def by auto
qed

lemma run_invariant_handoff:
  assumes "run_invariant env i c0 calls0 c steps ps" "rc_status c = RS_RUNNING_READONLY"
    "pipeline_handoff env c reason ps = (Inr h, ps')"
  shows "run_invariant env i c0 calls0 (pr_context h) (steps @ [pr_loop h]) ps'"
proof -
  obtain new where new: "tst_calls (ps_tools ps') = calls0 @ new" "length new \<le> 2 * length (steps @ [pr_loop h])"
    "list_all (readonly_call env (ri_boundary i)) new"
    using assms(1) handoff_facts(2) [OF assms(3)] by (auto simp: run_invariant_def)
  obtain history where h: "path legal (rc_status c0) history" "length history = length steps"
    "last (rc_status c0 # history) = rc_status c"
    using assms(1) by (auto simp: run_invariant_def)
  have hist: "\<exists>history. path legal (rc_status c0) history \<and> length history = length (steps @ [pr_loop h]) \<and>
      last (rc_status c0 # history) = rc_status (pr_context h)"
    using h handoff_facts(3) [OF assms(3)]
    by (intro exI [of _ "history @ [rc_status (pr_context h)]"]) (simp add: path_snoc)
  show ?thesis
    using assms(1,2) handoff_facts(1) [OF assms(3)] handoff_status [OF assms(3)] new hist
    unfolding run_invariant_def by auto
qed

lemma agent_run_invariant:
  assumes "agent_run env i c budget ps = (Inr res, ps')" "registry_valid (ae_registry (pl_agent env))"
  shows "run_invariant env i c (tst_calls (ps_tools ps)) (ar_context res) (ar_steps res) ps' \<and>
    rc_status (ar_context res) \<noteq> RS_RUNNING_READONLY \<and>
    ar_exit_reason res = status_value (rc_status (ar_context res))"
proof (rule run_loop_induct [OF assms(1) [unfolded agent_run_def]])
  show "run_invariant env i c (tst_calls (ps_tools ps)) c [] ps" by (simp add: run_invariant_def)
qed (use assms(2) run_invariant_step run_invariant_handoff in blast)+

section \<open>The store follows the run\<close>

context checkpoint_store
begin

lemma run_in_sync:
  assumes "pl_checkpoint env = checkpoint" "agent_run env i c budget ps = (Inr res, ps')" "in_sync c (ps_store ps)"
  shows "in_sync (ar_context res) (ps_store ps')"
proof -
  have "in_sync (ar_context res) (ps_store ps') \<and> rc_status (ar_context res) \<noteq> RS_RUNNING_READONLY \<and>
      ar_exit_reason res = status_value (rc_status (ar_context res))"
    by (rule run_loop_induct [OF assms(2) [unfolded agent_run_def], where P = "\<lambda>c steps ps. in_sync c (ps_store ps)"])
      (use assms(3) advance_in_sync [OF assms(1)] handoff_in_sync [OF assms(1)] in \<open>auto simp: run_advance_def\<close>)
  then show ?thesis by simp
qed

end

section \<open>Properties\<close>

text \<open>C23: a run of the read-only agent is bounded and only reads. \<open>run\<close> terminates for every gateway,
  tool and store; if it returns, it has left \<open>running_readonly\<close> and says so, it has taken at most as
  many steps as were left of the six plus the one that notices they are used up, the step count has
  grown by exactly the steps it reports, the statuses it went through form a legal history, and the
  tools it called are read-only tools of the boundary, at most two calls for a step.\<close>

theorem agent_run_bounded:
  assumes "agent_run env i c budget ps = (Inr res, ps')" "registry_valid (ae_registry (pl_agent env))"
  shows "rc_status (ar_context res) \<noteq> RS_RUNNING_READONLY \<and>
    ar_exit_reason res = status_value (rc_status (ar_context res)) \<and>
    rc_step_count (ar_context res) = rc_step_count c + int (length (ar_steps res)) \<and>
    length (ar_steps res) \<le> nat (6 - rc_step_count c) + 1 \<and>
    (\<exists>history. path legal (rc_status c) history \<and> length history = length (ar_steps res) \<and>
       last (rc_status c # history) = rc_status (ar_context res)) \<and>
    (\<exists>new. tst_calls (ps_tools ps') = tst_calls (ps_tools ps) @ new \<and> length new \<le> 2 * length (ar_steps res) \<and>
       (\<forall>call\<in>set new. fst call \<in> set (db_allowed_tools (ri_boundary i)) \<and>
          (\<exists>spec. dget (ae_registry (pl_agent env)) (fst call, ''1'') = Some spec \<and> ts_risk spec = TR_READ_ONLY)))"
proof -
  note inv = agent_run_invariant [OF assms]
  then have "int (length (ar_steps res)) \<le> max (rc_step_count c) 6 + 1 - rc_step_count c"
    by (simp add: run_invariant_def)
  then have "length (ar_steps res) \<le> nat (6 - rc_step_count c) + 1" by linarith
  then show ?thesis
    using inv by (auto simp: run_invariant_def list_all_iff readonly_call_def)
qed

definition demo_inputs :: "unit run_inputs" where
  "demo_inputs =
     \<lparr>ri_boundary = knowledge_boundary, ri_tool_context = (\<lambda>c. knowledge_context), ri_deadline = (5, True),
      ri_cancelled = (\<lambda>w. (Inr False, w))\<rparr>"

definition demo_agent_run :: "agent_run_result result \<times> (unit, nat) pipeline_state" where
  "demo_agent_run = agent_run knowledge_pipeline demo_inputs demo_context None knowledge_start"

lemma demo_agent_run_ends:
  "(case fst demo_agent_run of Inl e \<Rightarrow> False | Inr res \<Rightarrow> length (ar_steps res) = 3)"
  by code_simp

lemma demo_registry_valid: "registry_valid (ae_registry (pl_agent knowledge_pipeline))"
  using shipped_specs_valid
  by (auto simp: registry_valid_def knowledge_pipeline_def knowledge_env_def demo_agent_def list_all_iff)

lemma agent_run_bounded_witness:
  "\<exists>res ps'. demo_agent_run = (Inr res, ps') \<and> length (ar_steps res) = 3 \<and>
     rc_step_count (ar_context res) = 3 \<and> rc_status (ar_context res) \<noteq> RS_RUNNING_READONLY"
proof -
  obtain r ps' where r: "demo_agent_run = (r, ps')" by (metis surj_pair)
  have "(case r of Inl e \<Rightarrow> False | Inr res \<Rightarrow> length (ar_steps res) = 3)"
    using demo_agent_run_ends unfolding r fst_conv .
  then obtain res where res: "r = Inr res" "length (ar_steps res) = 3" by (cases r) auto
  have "rc_step_count demo_context = 0" by (simp add: demo_context_def)
  then show ?thesis
    using agent_run_bounded [OF r [unfolded demo_agent_run_def res(1)] demo_registry_valid] r res
    by (intro exI [of _ res] exI [of _ ps']) simp
qed

end
