(* ===== verification/RunEvents.thy ===== *)
theory RunEvents
  imports Database
begin

text \<open>
  The persisted form of domain events: the values of \<open>EventType\<close> (\<open>src/protocols.py\<close>) and the replay
  boundary of \<open>src/repositories/runs.py\<close>, which decodes a stored event and refuses it unless its
  payload is small, redacted and hashes to the stored hash. The hash of a payload and the JSON parser
  for a payload stored as a string are parameters. The pattern for phone numbers is written out as a
  matcher; its \<open>\d\<close> is an ASCII digit here.
\<close>

section \<open>Event types\<close>

fun event_type_value :: "event_type \<Rightarrow> string" where
  "event_type_value ET_RUN_CREATED = ''run_created''"
| "event_type_value ET_MODEL_REQUEST_STARTED = ''model_request_started''"
| "event_type_value ET_MODEL_REQUEST_SUCCEEDED = ''model_request_succeeded''"
| "event_type_value ET_MODEL_REQUEST_FAILED = ''model_request_failed''"
| "event_type_value ET_STEP_COMPLETED = ''step_completed''"
| "event_type_value ET_TOOL_CALLED = ''tool_called''"
| "event_type_value ET_TOOL_OBSERVED = ''tool_observed''"
| "event_type_value ET_TOOL_REQUEST_STARTED = ''tool_request_started''"
| "event_type_value ET_TOOL_REQUEST_SUCCEEDED = ''tool_request_succeeded''"
| "event_type_value ET_TOOL_REQUEST_FAILED = ''tool_request_failed''"
| "event_type_value ET_ASSISTANT_RESPONSE = ''assistant_response''"
| "event_type_value ET_DECISION_VALIDATION_FAILED = ''decision_validation_failed''"
| "event_type_value ET_RECOVERY_ATTEMPT_STARTED = ''recovery_attempt_started''"
| "event_type_value ET_RECOVERY_ATTEMPT_SUCCEEDED = ''recovery_attempt_succeeded''"
| "event_type_value ET_RECOVERY_ATTEMPT_FAILED = ''recovery_attempt_failed''"
| "event_type_value ET_TERMINAL_RESPONSE_PUBLISHED = ''terminal_response_published''"
| "event_type_value ET_TERMINAL_RESPONSE_PUBLISH_FAILED = ''terminal_response_publish_failed''"
| "event_type_value ET_WAITING_FOR_USER = ''waiting_for_user''"
| "event_type_value ET_FAILED = ''failed''"
| "event_type_value ET_MUTATION_PREPARED = ''mutation_prepared''"
| "event_type_value ET_USER_CONFIRMED = ''user_confirmed''"
| "event_type_value ET_COMMIT_STARTED = ''commit_started''"
| "event_type_value ET_COMMIT_OBSERVED = ''commit_observed''"
| "event_type_value ET_STATE_VERIFIED = ''state_verified''"
| "event_type_value ET_MUTATION_UNCERTAIN = ''mutation_uncertain''"
| "event_type_value ET_HANDOFF_CREATED = ''handoff_created''"
| "event_type_value ET_HANDOFF_RESOLVED = ''handoff_resolved''"
| "event_type_value ET_SAFETY_ROUTED = ''safety_routed''"
| "event_type_value ET_ROUTING_SHADOW_COMPARED = ''routing_shadow_compared''"
| "event_type_value ET_SKILL_MATCHED = ''skill_matched''"
| "event_type_value ET_RELEASE_ASSIGNED = ''release_assigned''"

definition event_types :: "event_type list" where
  "event_types =
     [ET_RUN_CREATED, ET_MODEL_REQUEST_STARTED, ET_MODEL_REQUEST_SUCCEEDED, ET_MODEL_REQUEST_FAILED,
      ET_STEP_COMPLETED, ET_TOOL_CALLED, ET_TOOL_OBSERVED, ET_TOOL_REQUEST_STARTED,
      ET_TOOL_REQUEST_SUCCEEDED, ET_TOOL_REQUEST_FAILED, ET_ASSISTANT_RESPONSE,
      ET_DECISION_VALIDATION_FAILED, ET_RECOVERY_ATTEMPT_STARTED, ET_RECOVERY_ATTEMPT_SUCCEEDED,
      ET_RECOVERY_ATTEMPT_FAILED, ET_TERMINAL_RESPONSE_PUBLISHED, ET_TERMINAL_RESPONSE_PUBLISH_FAILED,
      ET_WAITING_FOR_USER, ET_FAILED, ET_MUTATION_PREPARED, ET_USER_CONFIRMED, ET_COMMIT_STARTED,
      ET_COMMIT_OBSERVED, ET_STATE_VERIFIED, ET_MUTATION_UNCERTAIN, ET_HANDOFF_CREATED,
      ET_HANDOFF_RESOLVED, ET_SAFETY_ROUTED, ET_ROUTING_SHADOW_COMPARED, ET_SKILL_MATCHED,
      ET_RELEASE_ASSIGNED]"

definition parse_event_type :: "string \<Rightarrow> event_type option" where
  "parse_event_type v = find (\<lambda>t. event_type_value t = v) event_types"

lemma set_event_types [simp]: "t \<in> set event_types"
  by (cases t) (simp_all add: event_types_def)

lemma distinct_event_values: "distinct (map event_type_value event_types)"
  by code_simp

lemma event_type_value_inject [simp]: "event_type_value s = event_type_value t \<longleftrightarrow> s = t"
  using distinct_event_values set_event_types by (metis distinct_map inj_onD)

lemma parse_event_type_value [simp]: "parse_event_type (event_type_value t) = Some t"
proof -
  have "find (\<lambda>s. event_type_value s = event_type_value t) event_types \<noteq> None"
    using set_event_types [of t] by (auto simp: find_None_iff)
  then obtain s where "find (\<lambda>s. event_type_value s = event_type_value t) event_types = Some s" by blast
  moreover then have "event_type_value s = event_type_value t" by (auto simp: find_Some_iff)
  ultimately show ?thesis by (simp add: parse_event_type_def)
qed

lemma parse_event_type_iff: "parse_event_type v = Some t \<longleftrightarrow> v = event_type_value t"
proof
  assume "parse_event_type v = Some t"
  then show "v = event_type_value t" unfolding parse_event_type_def find_Some_iff by blast
qed simp

lemma event_type_value_bounds: "event_type_value t \<noteq> [] \<and> py_len (event_type_value t) \<le> 64"
proof -
  have "list_all (\<lambda>t. event_type_value t \<noteq> [] \<and> py_len (event_type_value t) \<le> 64) event_types"
    by code_simp
  then show ?thesis by (simp add: list_all_iff)
qed

section \<open>Phone numbers\<close>

definition is_digit :: "char \<Rightarrow> bool" where
  "is_digit c \<longleftrightarrow> CHR ''0'' \<le> c \<and> c \<le> CHR ''9''"

text \<open>\<open>1\d{10}(?!\d)\<close> at the head of a string.\<close>

definition mobile_at :: "string \<Rightarrow> bool" where
  "mobile_at s \<longleftrightarrow>
     11 \<le> length s \<and> hd s = CHR ''1'' \<and> list_all is_digit (take 10 (tl s)) \<and>
     (case drop 11 s of [] \<Rightarrow> True | c # _ \<Rightarrow> \<not> is_digit c)"

text \<open>\<open>(?:\+?86[- ]?)?\<close>: what may remain after the optional prefix.\<close>

definition after_prefix :: "string \<Rightarrow> string list" where
  "after_prefix s =
     (let rest = (case s of [] \<Rightarrow> [] | c # cs \<Rightarrow> if c = CHR ''+'' then [cs, s] else [s]);
          after = concat (map (\<lambda>r. if starts_with ''86'' r then [drop 2 r] else []) rest)
      in s # after @ concat (map (\<lambda>r. case r of [] \<Rightarrow> [] | c # cs \<Rightarrow>
           if c = CHR ''-'' \<or> c = CHR '' '' then [cs] else []) after))"

definition phone_at :: "string \<Rightarrow> bool" where
  "phone_at s \<longleftrightarrow> list_ex mobile_at (after_prefix s)"

text \<open>\<open>search\<close>: some position that no digit precedes.\<close>

fun phone_search :: "bool \<Rightarrow> string \<Rightarrow> bool" where
  "phone_search digit_before [] = False"
| "phone_search digit_before (c # cs) =
     ((\<not> digit_before \<and> phone_at (c # cs)) \<or> phone_search (is_digit c) cs)"

definition has_phone :: "string \<Rightarrow> bool" where
  "has_phone s = phone_search False s"

section \<open>Payloads that may be shown\<close>

definition forbidden_payload_keys :: "string list" where
  "forbidden_payload_keys = [''api_key'', ''authorization'', ''secret'', ''password'', ''confirmation_token'',
     ''chain_of_thought'', ''reasoning'', ''hidden_reasoning'']"

definition max_payload_depth :: int where
  "max_payload_depth = 32"

definition max_payload_nodes :: int where
  "max_payload_nodes = 10000"

definition unredacted :: "string \<Rightarrow> pyval \<Rightarrow> bool" where
  "unredacted k v \<longleftrightarrow> lower k \<in> set forbidden_payload_keys \<and> v \<noteq> PStr ''[REDACTED]''"

text \<open>The counter \<open>node_count\<close> of the closure is threaded through.\<close>

function (sequential) visit :: "pyval \<Rightarrow> int \<Rightarrow> int \<Rightarrow> int result"
  and visit_list :: "pyval list \<Rightarrow> int \<Rightarrow> int \<Rightarrow> int result"
  and visit_items :: "(string \<times> pyval) list \<Rightarrow> int \<Rightarrow> int \<Rightarrow> int result"
where
  "visit v depth n =
     (if max_payload_nodes < n + 1 then Inl (EventReplayError ''persisted event payload is too large'')
      else if max_payload_depth < depth
      then Inl (EventReplayError ''persisted event payload is too deeply nested'')
      else case v of
        PDict d \<Rightarrow> visit_items d (depth + 1) (n + 1)
      | PList xs \<Rightarrow> visit_list xs (depth + 1) (n + 1)
      | PStr s \<Rightarrow>
          if has_phone s then Inl (EventReplayError ''persisted event payload contains unredacted PII'')
          else Inr (n + 1)
      | _ \<Rightarrow> Inr (n + 1))"
| "visit_list [] depth n = Inr n"
| "visit_list (x # xs) depth n = bind_res (visit x depth n) (visit_list xs depth)"
| "visit_items [] depth n = Inr n"
| "visit_items ((k, v) # d) depth n =
     (if unredacted k v then Inl (EventReplayError ''persisted event payload is not redacted'')
      else bind_res (visit v depth n) (visit_items d depth))"
  by pat_completeness auto
termination
  by (relation "measure (\<lambda>x. case x of
        Inl (v, _, _) \<Rightarrow> size v
      | Inr (Inl (xs, _, _)) \<Rightarrow> size_list size xs
      | Inr (Inr (d, _, _)) \<Rightarrow> size_list (size_prod (\<lambda>_. 0) size) d)") auto

declare visit.simps [simp del]

definition assert_safe_payload :: "pydict \<Rightarrow> unit result" where
  "assert_safe_payload payload = bind_res (visit (PDict payload) 0 0) (\<lambda>n. Inr ())"

text \<open>What it means to be safe, without the traversal.\<close>

lemma item_size [termination_simp]:
  "kv \<in> set d \<Longrightarrow> size (snd kv) < Suc (size_list (size_prod (\<lambda>x. 0) size) d)"
  by (induction d) auto

lemma element_size [termination_simp]: "x \<in> set xs \<Longrightarrow> size x < Suc (size_list size xs)"
  by (induction xs) auto

fun nodes :: "pyval \<Rightarrow> nat" where
  "nodes (PList xs) = 1 + sum_list (map nodes xs)"
| "nodes (PDict d) = 1 + sum_list (map (\<lambda>kv. nodes (snd kv)) d)"
| "nodes v = 1"

fun shown_at :: "int \<Rightarrow> pyval \<Rightarrow> bool" where
  "shown_at depth (PList xs) = (depth \<le> max_payload_depth \<and> list_all (shown_at (depth + 1)) xs)"
| "shown_at depth (PDict d) =
     (depth \<le> max_payload_depth \<and>
      list_all (\<lambda>kv. \<not> unredacted (fst kv) (snd kv) \<and> shown_at (depth + 1) (snd kv)) d)"
| "shown_at depth (PStr s) = (depth \<le> max_payload_depth \<and> \<not> has_phone s)"
| "shown_at depth v = (depth \<le> max_payload_depth)"

lemma visit_shown:
  "visit v depth n = Inr m \<longleftrightarrow> m = n + int (nodes v) \<and> m \<le> max_payload_nodes \<and> shown_at depth v"
  "xs \<noteq> [] \<or> n \<le> max_payload_nodes \<Longrightarrow> visit_list xs depth n = Inr m \<longleftrightarrow>
     m = n + int (sum_list (map nodes xs)) \<and> m \<le> max_payload_nodes \<and> list_all (shown_at depth) xs"
  "d \<noteq> [] \<or> n \<le> max_payload_nodes \<Longrightarrow> visit_items d depth n = Inr m \<longleftrightarrow>
     m = n + int (sum_list (map (\<lambda>kv. nodes (snd kv)) d)) \<and> m \<le> max_payload_nodes \<and>
     list_all (\<lambda>kv. \<not> unredacted (fst kv) (snd kv) \<and> shown_at depth (snd kv)) d"
proof (induction v depth n and xs depth n and d depth n arbitrary: m and m and m
    rule: visit_visit_list_visit_items.induct)
  case (1 v depth n)
  show ?case
  proof (cases "max_payload_nodes < n + 1 \<or> max_payload_depth < depth")
    case True
    moreover have "1 \<le> nodes v" by (cases v) auto
    ultimately show ?thesis by (cases v) (auto simp: visit.simps)
  next
    case False
    then show ?thesis using 1 by (cases v) (auto simp: visit.simps)
  qed
next
  case (3 x xs depth n)
  then show ?case by (auto simp: bind_res_eq_Inr)
next
  case (5 k v d depth n)
  then show ?case by (auto simp: bind_res_eq_Inr)
qed auto

lemma assert_safe_payload_iff:
  "assert_safe_payload d = Inr u \<longleftrightarrow> int (nodes (PDict d)) \<le> max_payload_nodes \<and> shown_at 0 (PDict d)"
  by (auto simp: assert_safe_payload_def bind_res_eq_Inr visit_shown simp del: nodes.simps shown_at.simps)

section \<open>Decoding a stored event\<close>

record event_codec =
  ec_digest :: "pydict \<Rightarrow> string"
  ec_loads :: "string \<Rightarrow> pyval option"

record replayed_event =
  vx_event_id :: string
  vx_run_id :: string
  vx_sequence :: int
  vx_step_id :: string
  vx_correlation_id :: string
  vx_causation_id :: "string option"
  vx_occurred_at :: int
  vx_hash :: string
  vx_event :: domain_event

definition require_string :: "string \<Rightarrow> nat \<Rightarrow> string result" where
  "require_string s maximum =
     (if s = [] \<or> maximum < py_len s then Inl (EventReplayError ''persisted value is invalid'') else Inr s)"

definition require_int :: "int \<Rightarrow> int \<Rightarrow> int result" where
  "require_int i minimum = (if i < minimum then Inl (EventReplayError ''persisted value is invalid'') else Inr i)"

definition decode_payload :: "event_codec \<Rightarrow> pyval \<Rightarrow> pydict result" where
  "decode_payload ec raw =
     bind_res
       (case raw of
          PStr s \<Rightarrow> (case ec_loads ec s of
              None \<Rightarrow> Inl (EventReplayError ''persisted event payload is not valid JSON'') | Some v \<Rightarrow> Inr v)
        | v \<Rightarrow> Inr v)
       (\<lambda>v. case v of PDict d \<Rightarrow> Inr d | _ \<Rightarrow> Inl (EventReplayError ''persisted event payload is not an object''))"

definition is_hex :: "char \<Rightarrow> bool" where
  "is_hex c \<longleftrightarrow> is_digit c \<or> (CHR ''a'' \<le> c \<and> c \<le> CHR ''f'')"

definition hash_format :: "string \<Rightarrow> bool" where
  "hash_format s \<longleftrightarrow> take 7 s = ''sha256:'' \<and> length s = 71 \<and> list_all is_hex (drop 7 s)"

text \<open>The driver delivers columns of their declared types, which the type checks on UUIDs and times repeat.\<close>

definition from_persisted_row :: "event_codec \<Rightarrow> event_row \<Rightarrow> replayed_event result" where
  "from_persisted_row ec row =
     bind_res (require_int (ew_seq row) 1) (\<lambda>sequence.
     bind_res (require_string (ew_schema row) 16) (\<lambda>version.
     bind_res (require (version = ''1.0'') (EventReplayError ''unsupported persisted event version'')) (\<lambda>_.
     bind_res (require_string (ew_step row) 64) (\<lambda>step.
     bind_res (decode_payload ec (ew_payload row)) (\<lambda>payload.
     bind_res (assert_safe_payload payload) (\<lambda>_.
     bind_res (require_string (ew_hash row) 80) (\<lambda>h.
     bind_res (require (hash_format h) (EventReplayError ''persisted event hash has an unsupported format'')) (\<lambda>_.
     bind_res (require (h = ec_digest ec payload) (EventReplayError ''persisted event payload hash mismatch'')) (\<lambda>_.
     (case bind_res (require_string (ew_type row) 64) (\<lambda>t. case parse_event_type t of
           None \<Rightarrow> Inl (ValueError ''EventType'') | Some e \<Rightarrow> Inr e) of
        Inl e \<Rightarrow> Inl (EventReplayError ''persisted event violates the domain event contract'')
      | Inr t \<Rightarrow>
          Inr \<lparr>vx_event_id = ew_event_id row, vx_run_id = ew_run_id row, vx_sequence = sequence,
               vx_step_id = step, vx_correlation_id = ew_correlation row, vx_causation_id = ew_causation row,
               vx_occurred_at = ew_created_at row, vx_hash = h, vx_event = event t payload\<rparr>))))))))))"

fun check_sequence :: "int \<Rightarrow> string \<Rightarrow> replayed_event list \<Rightarrow> unit result" where
  "check_sequence expected run_id [] = Inr ()"
| "check_sequence expected run_id (e # es) =
     (if vx_sequence e \<noteq> expected then Inl (EventReplayError ''persisted event sequence contains a gap'')
      else if vx_run_id e \<noteq> run_id then Inl (EventReplayError ''persisted event belongs to an unexpected run'')
      else check_sequence (expected + 1) run_id es)"

definition visible_run :: "string \<Rightarrow> string \<Rightarrow> string option \<Rightarrow> run_row \<Rightarrow> bool" where
  "visible_run run_id tenant actor r \<longleftrightarrow>
     rr_run_id r = run_id \<and> rr_tenant_id r = tenant \<and> (actor = None \<or> actor = Some (rr_actor_ref r))"

definition event_page ::
  "string \<Rightarrow> string \<Rightarrow> int \<Rightarrow> int \<Rightarrow> string option \<Rightarrow> runtime_db \<Rightarrow> event_row list" where
  "event_page run_id tenant after limit actor db =
     (if list_ex (visible_run run_id tenant actor) (db_runs db)
      then take (nat limit) (sort_key ew_seq
        (filter (\<lambda>e. ew_run_id e = run_id \<and> after < ew_seq e) (db_events db)))
      else [])"

definition replay_events ::
  "event_codec \<Rightarrow> string \<Rightarrow> string \<Rightarrow> int \<Rightarrow> int \<Rightarrow> string option \<Rightarrow> runtime_db \<Rightarrow>
   replayed_event list result" where
  "replay_events ec run_id tenant after limit actor db =
     (if tenant = [] \<or> 64 < py_len tenant
      then Inl (ValueError ''tenant_id must contain between 1 and 64 characters'')
      else if after < 0 then Inl (ValueError ''after_sequence must not be negative'')
      else if \<not> (1 \<le> limit \<and> limit \<le> 500) then Inl (ValueError ''limit must be between 1 and 500'')
      else bind_res (map_res (from_persisted_row ec) (event_page run_id tenant after limit actor db)) (\<lambda>events.
           bind_res (check_sequence (after + 1) run_id events) (\<lambda>_. Inr events)))"

lemma check_sequence_Inr:
  "check_sequence expected run_id es = Inr u \<longleftrightarrow>
     (\<forall>i<length es. vx_sequence (es ! i) = expected + int i \<and> vx_run_id (es ! i) = run_id)"
  by (induction es arbitrary: expected) (auto simp: less_Suc_eq_0_disj nth_Cons' add.commute add.left_commute)

lemma from_persisted_rowD:
  assumes "from_persisted_row ec row = Inr x"
  shows "vx_sequence x = ew_seq row \<and> vx_run_id x = ew_run_id row \<and> vx_hash x = ew_hash row \<and>
    hash_format (vx_hash x) \<and> vx_hash x = ec_digest ec (ev_payload (vx_event x)) \<and>
    assert_safe_payload (ev_payload (vx_event x)) = Inr () \<and> ew_type row = event_type_value (ev_type (vx_event x))"
  using assms
  by (auto simp: from_persisted_row_def bind_res_eq_Inr require_string_def require_int_def parse_event_type_iff
      split: sum.splits option.splits if_splits)

definition stored_form :: "event_codec \<Rightarrow> domain_event \<Rightarrow> event_row \<Rightarrow> bool" where
  "stored_form ec e row \<longleftrightarrow>
     ew_type row = event_type_value (ev_type e) \<and> ew_payload row = PDict (ev_payload e) \<and>
     ew_hash row = ec_digest ec (ev_payload e) \<and> ew_schema row = ''1.0''"

definition presentable :: "event_codec \<Rightarrow> domain_event \<Rightarrow> bool" where
  "presentable ec e \<longleftrightarrow> assert_safe_payload (ev_payload e) = Inr () \<and> hash_format (ec_digest ec (ev_payload e))"

lemma hash_format_len: "hash_format h \<Longrightarrow> h \<noteq> [] \<and> py_len h \<le> 80"
  using py_len_le [of h] by (auto simp: hash_format_def)

lemma from_persisted_rowI:
  assumes "stored_form ec e row" "presentable ec e" "1 \<le> ew_seq row" "ew_step row \<noteq> []" "py_len (ew_step row) \<le> 64"
  shows "from_persisted_row ec row = Inr \<lparr>vx_event_id = ew_event_id row, vx_run_id = ew_run_id row,
    vx_sequence = ew_seq row, vx_step_id = ew_step row, vx_correlation_id = ew_correlation row,
    vx_causation_id = ew_causation row, vx_occurred_at = ew_created_at row, vx_hash = ew_hash row, vx_event = e\<rparr>"
proof -
  have h: "ew_hash row \<noteq> []" "py_len (ew_hash row) \<le> 80" "hash_format (ew_hash row)"
    using assms(1,2) hash_format_len by (auto simp: stored_form_def presentable_def)
  have "py_len ''1.0'' = 3" by (simp add: py_len_def)
  moreover have "require True x = Inr ()" for x by simp
  ultimately show ?thesis
    using assms h event_type_value_bounds [of "ev_type e"]
    by (simp add: from_persisted_row_def require_int_def require_string_def stored_form_def presentable_def
        decode_payload_def require_def)
qed

section \<open>Properties\<close>

lemma replay_events_Inr:
  assumes "replay_events ec run_id tenant after limit actor db = Inr events"
  shows "map_res (from_persisted_row ec) (event_page run_id tenant after limit actor db) = Inr events"
    "check_sequence (after + 1) run_id events = Inr ()" "1 \<le> limit" "limit \<le> 500"
  using assms by (auto simp: replay_events_def bind_res_eq_Inr split: if_splits)

lemma map_res_in: "map_res f xs = Inr ys \<Longrightarrow> y \<in> set ys \<Longrightarrow> \<exists>x\<in>set xs. f x = Inr y"
  by (induction xs arbitrary: ys) (auto simp: bind_res_eq_Inr)

lemma event_page_length: "1 \<le> limit \<Longrightarrow> int (length (event_page run_id tenant after limit actor db)) \<le> limit"
proof -
  assume "1 \<le> limit"
  moreover have "length (event_page run_id tenant after limit actor db) \<le> nat limit"
    by (simp add: event_page_def)
  ultimately show ?thesis by linarith
qed

text \<open>C24: a replay only returns what may be shown. The events of a page are numbered without a gap from
  the first one after the given sequence, belong to the run, which belongs to the tenant and, where an
  actor is named, to the actor; their payloads are small and redacted and carry the hash they were
  stored with; and a page has at most \<open>limit\<close> events.\<close>

theorem replay_is_contiguous_and_safe:
  assumes "replay_events ec run_id tenant after limit actor db = Inr events"
  shows "(\<forall>i<length events. vx_sequence (events ! i) = after + 1 + int i \<and> vx_run_id (events ! i) = run_id) \<and>
    int (length events) \<le> limit \<and> limit \<le> 500 \<and>
    (\<forall>x\<in>set events. shown_at 0 (PDict (ev_payload (vx_event x))) \<and>
       int (nodes (PDict (ev_payload (vx_event x)))) \<le> max_payload_nodes \<and>
       vx_hash x = ec_digest ec (ev_payload (vx_event x))) \<and>
    (events \<noteq> [] \<longrightarrow> (\<exists>r\<in>set (db_runs db). visible_run run_id tenant actor r))"
proof -
  note r = replay_events_Inr [OF assms]
  have seq: "\<forall>i<length events. vx_sequence (events ! i) = after + 1 + int i \<and> vx_run_id (events ! i) = run_id"
    using r(2) by (simp add: check_sequence_Inr)
  have len: "int (length events) \<le> limit"
    using event_page_length [OF r(3), of run_id tenant after actor db] map_res_length [OF r(1)] by simp
  have safe: "\<forall>x\<in>set events. shown_at 0 (PDict (ev_payload (vx_event x))) \<and>
       int (nodes (PDict (ev_payload (vx_event x)))) \<le> max_payload_nodes \<and>
       vx_hash x = ec_digest ec (ev_payload (vx_event x))"
    using map_res_in [OF r(1)] from_persisted_rowD assert_safe_payload_iff by blast
  have "\<exists>r\<in>set (db_runs db). visible_run run_id tenant actor r" if "events \<noteq> []"
  proof (rule ccontr)
    assume "\<not> ?thesis"
    then have "event_page run_id tenant after limit actor db = []" by (auto simp: event_page_def list_ex_iff)
    then show False using r(1) that by simp
  qed
  then show ?thesis using seq len r(4) safe by blast
qed

definition demo_run_row :: run_row where
  "demo_run_row =
     \<lparr>rr_run_id = ''run-1'', rr_conversation_id = ''c-1'', rr_parent_run_id = None, rr_tenant_id = ''t'',
      rr_actor_ref = ''a'', rr_status = RS_RUNNING_READONLY, rr_mode = Some EM_READONLY_LOOP,
      rr_workflow_id = Some ''knowledge_answer'', rr_workflow_version = Some ''1'',
      rr_pins = \<lparr>pin_policy_version = ''p1'', pin_model_config_hash = ''m1'', pin_prompt_version = ''v1'',
        pin_max_steps = 6, pin_deadline_at = 1000\<rparr>,
      rr_step = ''start'', rr_step_count = 0, rr_reason = None, rr_checkpoint_seq = 0,
      rr_times = \<lparr>rt_accepted_at = Some 0, rt_dispatch_started_at = None, rt_terminal_at = None,
        rt_response_published_at = None, rt_created_at = 0, rt_updated_at = 0\<rparr>, rr_version = 0\<rparr>"

definition demo_codec :: event_codec where
  "demo_codec = \<lparr>ec_digest = (\<lambda>d. ''sha256:'' @ replicate 64 CHR ''0''), ec_loads = (\<lambda>s. None)\<rparr>"

definition demo_event_row :: "int \<Rightarrow> event_row" where
  "demo_event_row n =
     \<lparr>ew_event_id = replicate (nat n) CHR ''e'', ew_run_id = ''run-1'', ew_seq = n,
      ew_type = event_type_value ET_STEP_COMPLETED, ew_schema = ''1.0'', ew_step = ''agent'',
      ew_payload = PDict [(''password'', PStr ''[REDACTED]''), (''note'', PList [PStr ''order 13800138'', PInt 3])],
      ew_hash = ec_digest demo_codec [], ew_causation = None, ew_correlation = ''k'', ew_created_at = n\<rparr>"

definition demo_event_db :: runtime_db where
  "demo_event_db = empty_db\<lparr>db_runs := [demo_run_row], db_events := [demo_event_row 1, demo_event_row 3, demo_event_row 2]\<rparr>"

definition demo_replay :: "replayed_event list result" where
  "demo_replay = replay_events demo_codec ''run-1'' ''t'' 1 50 (Some ''a'') demo_event_db"

lemma demo_replay_ok:
  "(case demo_replay of Inl e \<Rightarrow> False | Inr events \<Rightarrow> map vx_sequence events = [2, 3])"
  by code_simp

lemma replay_is_contiguous_and_safe_witness:
  "\<exists>events. demo_replay = Inr events \<and> length events = 2 \<and> vx_sequence (events ! 1) = 3 \<and>
     shown_at 0 (PDict (ev_payload (vx_event (hd events))))"
proof -
  obtain r where r: "demo_replay = r" by simp
  obtain events where e: "demo_replay = Inr events" "map vx_sequence events = [2, 3]"
    using demo_replay_ok unfolding r by (cases r) auto
  then have l: "length events = 2" by (metis length_map length_Cons list.size(3) numeral_2_eq_2)
  then have "hd events \<in> set events" by (cases events) auto
  then show ?thesis
    using replay_is_contiguous_and_safe [OF e(1) [unfolded demo_replay_def]] e(1) l by auto
qed

text \<open>A phone number, an unredacted key or a gap is refused.\<close>

lemma demo_refusals:
  "has_phone ''call +86 13800138000.''" "has_phone ''13800138000''" "\<not> has_phone ''913800138000''"
  "\<not> has_phone ''138001380001''" "isl (assert_safe_payload [(''API_KEY'', PStr ''k'')])"
  "isl (replay_events demo_codec ''run-1'' ''t'' 0 50 None (demo_event_db\<lparr>db_events := [demo_event_row 2]\<rparr>))"
  by code_simp+

end
