(* ===== verification/RunStore.thy ===== *)
theory RunStore
  imports AgentLoop RunEvents
begin

text \<open>
  \<open>src/repositories/runs.py\<close> and \<open>src/orchestration/persistence.py\<close>: the repository of the runs, whose
  \<open>commit_step\<close> writes events, mutation outcome, outbox, checkpoint and run in one transaction under
  an optimistic lock, and the checkpoint store the orchestration uses on top of it. The store provides
  the interface \<open>checkpoint_store\<close> of the step pipeline.

  The stored state of a checkpoint is the run context itself: writing it as JSON and reading it back
  is the identity on JSON values. UUIDs, the database clock and the hashes are parameters; a counter in
  the store numbers the draws of UUIDs and the transactions.
\<close>

section \<open>Snapshots and marks\<close>

record run_snapshot =
  sn_run_id :: string
  sn_tenant_id :: string
  sn_status :: run_status
  sn_current_step :: string
  sn_row_version :: int
  sn_last_checkpoint_seq :: int
  sn_conversation_id :: string
  sn_step_count :: int
  sn_terminal_reason :: "string option"
  sn_terminal_at :: "int option"
  sn_response_published_at :: "int option"

definition snapshot :: "run_row \<Rightarrow> run_snapshot" where
  "snapshot r =
     \<lparr>sn_run_id = rr_run_id r, sn_tenant_id = rr_tenant_id r, sn_status = rr_status r,
      sn_current_step = rr_step r, sn_row_version = rr_version r, sn_last_checkpoint_seq = rr_checkpoint_seq r,
      sn_conversation_id = rr_conversation_id r, sn_step_count = rr_step_count r,
      sn_terminal_reason = rr_reason r, sn_terminal_at = rt_terminal_at (rr_times r),
      sn_response_published_at = rt_response_published_at (rr_times r)\<rparr>"

definition load_run :: "string \<Rightarrow> string \<Rightarrow> string option \<Rightarrow> runtime_db \<Rightarrow> run_snapshot option" where
  "load_run run_id tenant actor db =
     map_option snapshot (select_one (visible_run run_id tenant actor) (db_runs db))"

definition owned_run :: "string \<Rightarrow> string \<Rightarrow> run_row \<Rightarrow> bool" where
  "owned_run run_id tenant r \<longleftrightarrow> rr_run_id r = run_id \<and> rr_tenant_id r = tenant"

text \<open>\<open>COALESCE(column, now())\<close>\<close>

definition coalesce_now :: "int \<Rightarrow> int option \<Rightarrow> int option" where
  "coalesce_now now t = Some (case t of None \<Rightarrow> now | Some s \<Rightarrow> s)"

definition touch_times :: "int \<Rightarrow> (run_times \<Rightarrow> run_times) \<Rightarrow> run_row \<Rightarrow> run_row" where
  "touch_times now f r = r\<lparr>rr_times := (f (rr_times r))\<lparr>rt_updated_at := now\<rparr>\<rparr>"

definition mark_dispatch_started :: "int \<Rightarrow> string \<Rightarrow> string \<Rightarrow> runtime_db \<Rightarrow> nat result \<times> runtime_db" where
  "mark_dispatch_started now run_id tenant db =
     transaction db (update_runs (owned_run run_id tenant)
       (touch_times now (\<lambda>t. t\<lparr>rt_dispatch_started_at := coalesce_now now (rt_dispatch_started_at t)\<rparr>)) db)"

definition mark_response_published :: "int \<Rightarrow> string \<Rightarrow> string \<Rightarrow> runtime_db \<Rightarrow> nat result \<times> runtime_db" where
  "mark_response_published now run_id tenant db =
     transaction db (update_runs (owned_run run_id tenant)
       (touch_times now (\<lambda>t. t\<lparr>rt_response_published_at := coalesce_now now (rt_response_published_at t)\<rparr>)) db)"

definition set_terminal_reason ::
  "int \<Rightarrow> string \<Rightarrow> string \<Rightarrow> string option \<Rightarrow> runtime_db \<Rightarrow> nat result \<times> runtime_db" where
  "set_terminal_reason now run_id tenant reason db =
     transaction db (update_runs (owned_run run_id tenant)
       (\<lambda>r. (touch_times now (\<lambda>t. t\<lparr>rt_terminal_at := coalesce_now now (rt_terminal_at t)\<rparr>) r)
          \<lparr>rr_reason := reason, rr_version := rr_version r + 1\<rparr>) db)"

definition has_terminal_response :: "runtime_db \<Rightarrow> run_row \<Rightarrow> bool" where
  "has_terminal_response db r \<longleftrightarrow>
     list_ex (\<lambda>m. ms_run_id m = Some (rr_run_id r) \<and> ms_role m = ''assistant'' \<and> ms_terminal m) (db_messages db)"

definition terminal_runs_without_response :: "string \<Rightarrow> int \<Rightarrow> runtime_db \<Rightarrow> run_snapshot list result" where
  "terminal_runs_without_response tenant limit db =
     (if \<not> (1 \<le> limit \<and> limit \<le> 500) then Inl (ValueError ''limit must be between 1 and 500'')
      else Inr (map snapshot (take (nat limit) (sort_key (\<lambda>r. rt_updated_at (rr_times r))
        (filter (\<lambda>r. rr_tenant_id r = tenant \<and> run_terminal (rr_status r) \<and> \<not> has_terminal_response db r)
          (db_runs db))))))"

definition actor_for_run :: "string \<Rightarrow> string \<Rightarrow> runtime_db \<Rightarrow> string option" where
  "actor_for_run run_id tenant db = map_option rr_actor_ref (load_run_row run_id tenant db)"

section \<open>Appending an event\<close>

definition append_event ::
  "event_codec \<Rightarrow> int \<Rightarrow> string \<Rightarrow> string \<Rightarrow> string \<Rightarrow> event_type \<Rightarrow> string \<Rightarrow> pydict \<Rightarrow> runtime_db \<Rightarrow>
   int result \<times> runtime_db" where
  "append_event ec now event_id run_id tenant t step payload db =
     transaction db
       (case load_run_row run_id tenant db of
          None \<Rightarrow> Inl (ValueError ''run_not_found'')
        | Some r \<Rightarrow>
            (let sequence = last_event_seq run_id db + 1 in
             bind_res (insert_event
               \<lparr>ew_event_id = event_id, ew_run_id = run_id, ew_seq = sequence, ew_type = event_type_value t,
                ew_schema = ''1.0'', ew_step = slice_to step 64, ew_payload = PDict payload,
                ew_hash = ec_digest ec payload, ew_causation = None, ew_correlation = run_id,
                ew_created_at = now\<rparr> db)
             (\<lambda>(u, db). Inr (sequence, db))))"

section \<open>Committing a step\<close>

record new_event =
  ne_event_id :: string
  ne_type :: event_type
  ne_step_id :: string
  ne_payload :: pydict
  ne_hash :: string
  ne_correlation :: string

record outbox_message =
  om_event_id :: string
  om_topic :: string
  om_payload :: pydict
  om_outbox_id :: string

record step_commit =
  sc_run_id :: string
  sc_tenant_id :: string
  sc_expected_version :: int
  sc_status :: run_status
  sc_step :: string
  sc_checkpoint :: run_context
  sc_hash :: string
  sc_events :: "new_event list"
  sc_completion :: "mutation_completion option"
  sc_outbox :: "outbox_message list"

definition check_commit :: "step_commit \<Rightarrow> unit result" where
  "check_commit c =
     (if sc_events c = [] then Inl (ValueError ''a checkpoint commit must include at least one domain event'')
      else if \<not> list_all (\<lambda>m. om_event_id m \<in> set (map ne_event_id (sc_events c))) (sc_outbox c)
      then Inl (ValueError ''an outbox message must reference an event in the same checkpoint'')
      else case sc_completion c of
        None \<Rightarrow> Inr ()
      | Some m \<Rightarrow>
          if mc_status m \<in> {MX_SUCCEEDED, MX_FAILED, MX_UNKNOWN} then Inr ()
          else Inl (ValueError ''mutation completion must be a terminal observation''))"

definition commit_target :: "step_commit \<Rightarrow> run_row \<Rightarrow> bool" where
  "commit_target c r \<longleftrightarrow>
     rr_run_id r = sc_run_id c \<and> rr_tenant_id r = sc_tenant_id c \<and> rr_version r = sc_expected_version c"

definition open_intent :: "string \<Rightarrow> mutation_completion \<Rightarrow> idempotency_row \<Rightarrow> bool" where
  "open_intent tenant m r \<longleftrightarrow>
     im_record_id r = mc_record_id m \<and> im_tenant_id r = tenant \<and> im_fingerprint r = mc_fingerprint m \<and>
     im_status r = ''in_progress''"

definition completed_row :: "mutation_completion \<Rightarrow> idempotency_row \<Rightarrow> idempotency_row" where
  "completed_row m r =
     r\<lparr>im_status := execution_status_value (mc_status m), im_reference := mc_reference m,
       im_response := Some (mc_response m), im_version := im_version r + 1\<rparr>"

definition complete_mutation :: "string \<Rightarrow> mutation_completion option \<Rightarrow> runtime_db \<Rightarrow> runtime_db result" where
  "complete_mutation tenant completion db =
     (case completion of
        None \<Rightarrow> Inr db
      | Some m \<Rightarrow>
          bind_res (update_idempotency (open_intent tenant m) (completed_row m) db) (\<lambda>(n, db).
            if n \<noteq> 1 then Inl MutationCompletionConflictError else Inr db))"

definition event_row_of :: "string \<Rightarrow> int \<Rightarrow> int \<Rightarrow> new_event \<Rightarrow> event_row" where
  "event_row_of run_id now sequence e =
     \<lparr>ew_event_id = ne_event_id e, ew_run_id = run_id, ew_seq = sequence, ew_type = event_type_value (ne_type e),
      ew_schema = ''1.0'', ew_step = ne_step_id e, ew_payload = PDict (ne_payload e), ew_hash = ne_hash e,
      ew_causation = None, ew_correlation = ne_correlation e, ew_created_at = now\<rparr>"

fun insert_events :: "string \<Rightarrow> int \<Rightarrow> int \<Rightarrow> new_event list \<Rightarrow> runtime_db \<Rightarrow> runtime_db result" where
  "insert_events run_id now sequence [] db = Inr db"
| "insert_events run_id now sequence (e # es) db =
     bind_res (insert_event (event_row_of run_id now sequence e) db) (\<lambda>(u, db).
       insert_events run_id now (sequence + 1) es db)"

definition outbox_row_of :: "string \<Rightarrow> int \<Rightarrow> outbox_message \<Rightarrow> outbox_row" where
  "outbox_row_of run_id now m =
     \<lparr>ox_outbox_id = om_outbox_id m, ox_run_id = run_id, ox_event_id = om_event_id m, ox_topic = om_topic m,
      ox_payload = om_payload m, ox_status = ''pending'', ox_attempts = 0, ox_available_at = now,
      ox_locked_at = None, ox_published_at = None, ox_last_error = None,
      ox_dead_lettered_at = None\<rparr>"

fun insert_outboxes :: "string \<Rightarrow> int \<Rightarrow> outbox_message list \<Rightarrow> runtime_db \<Rightarrow> runtime_db result" where
  "insert_outboxes run_id now [] db = Inr db"
| "insert_outboxes run_id now (m # ms) db =
     bind_res (insert_outbox (outbox_row_of run_id now m) db) (\<lambda>(u, db). insert_outboxes run_id now ms db)"

definition advanced_run :: "step_commit \<Rightarrow> int \<Rightarrow> int \<Rightarrow> run_row \<Rightarrow> run_row" where
  "advanced_run c now sequence r =
     (touch_times now (\<lambda>t. if run_terminal (sc_status c)
          then t\<lparr>rt_terminal_at := coalesce_now now (rt_terminal_at t)\<rparr> else t) r)
       \<lparr>rr_status := sc_status c, rr_step := sc_step c, rr_step_count := rr_step_count r + 1,
        rr_checkpoint_seq := sequence, rr_version := rr_version r + 1\<rparr>"

definition checkpoint_row_of :: "step_commit \<Rightarrow> int \<Rightarrow> int \<Rightarrow> checkpoint_row" where
  "checkpoint_row_of c sequence first =
     \<lparr>cp_run_id = sc_run_id c, cp_seq = sequence, cp_step = sc_step c, cp_state = sc_checkpoint c,
      cp_hash = sc_hash c, cp_from = first, cp_to = first + int (length (sc_events c)) - 1\<rparr>"

text \<open>The body of the transaction.\<close>

definition commit_body :: "int \<Rightarrow> step_commit \<Rightarrow> runtime_db \<Rightarrow> (unit \<times> runtime_db) result" where
  "commit_body now c db =
     (case select_one (commit_target c) (db_runs db) of
        None \<Rightarrow> Inl VersionConflictError
      | Some current \<Rightarrow>
          bind_res (complete_mutation (sc_tenant_id c) (sc_completion c) db) (\<lambda>db.
          (let sequence = rr_checkpoint_seq current + 1; first = last_event_seq (sc_run_id c) db + 1 in
           bind_res (insert_events (sc_run_id c) now first (sc_events c) db) (\<lambda>db.
           bind_res (insert_outboxes (sc_run_id c) now (sc_outbox c) db) (\<lambda>db.
           bind_res (insert_checkpoint (checkpoint_row_of c sequence first) db) (\<lambda>(u, db).
           bind_res (update_runs (commit_target c) (advanced_run c now sequence) db) (\<lambda>(n, db).
             if n \<noteq> 1 then Inl VersionConflictError else Inr ((), db))))))))"

definition commit_step :: "int \<Rightarrow> step_commit \<Rightarrow> runtime_db \<Rightarrow> run_snapshot result \<times> runtime_db" where
  "commit_step now c db =
     (case check_commit c of
        Inl e \<Rightarrow> (Inl e, db)
      | Inr u \<Rightarrow>
        (case transaction db (commit_body now c db) of
           (Inl e, db) \<Rightarrow> (Inl e, db)
         | (Inr u, db) \<Rightarrow>
             (case load_run (sc_run_id c) (sc_tenant_id c) None db of
                None \<Rightarrow> (Inl VersionConflictError, db)
              | Some s \<Rightarrow> (Inr s, db))))"

definition load_latest_checkpoint :: "string \<Rightarrow> string \<Rightarrow> runtime_db \<Rightarrow> run_context option" where
  "load_latest_checkpoint run_id tenant db =
     (if list_ex (owned_run run_id tenant) (db_runs db)
      then (case rev (sort_key cp_seq (filter (\<lambda>c. cp_run_id c = run_id) (db_checkpoints db))) of
              [] \<Rightarrow> None | c # _ \<Rightarrow> Some (cp_state c))
      else None)"

section \<open>The checkpoint store\<close>

record repository_env =
  rv_uuid :: "nat \<Rightarrow> string"
  rv_clock :: "nat \<Rightarrow> int"
  rv_codec :: event_codec
  rv_state_digest :: "run_context \<Rightarrow> string"

record repository_state =
  rs_db :: runtime_db
  rs_tick :: nat

fun new_events :: "repository_env \<Rightarrow> string \<Rightarrow> nat \<Rightarrow> domain_event list \<Rightarrow> new_event list" where
  "new_events env step n [] = []"
| "new_events env step n (e # es) =
     \<lparr>ne_event_id = rv_uuid env n, ne_type = ev_type e, ne_step_id = step, ne_payload = ev_payload e,
      ne_hash = ec_digest (rv_codec env) (ev_payload e), ne_correlation = rv_uuid env (n + 1)\<rparr>
     # new_events env step (n + 2) es"

definition observed_message :: "repository_env \<Rightarrow> nat \<Rightarrow> new_event \<Rightarrow> mutation_completion \<Rightarrow> outbox_message" where
  "observed_message env n e m =
     \<lparr>om_event_id = ne_event_id e, om_topic = ''mutation.observed'',
      om_payload = [(''status'', PStr (execution_status_value (mc_status m)))], om_outbox_id = rv_uuid env n\<rparr>"

text \<open>The commit that \<open>_commit\<close> submits, and the number of UUIDs it draws.\<close>

definition checkpoint_commit ::
  "repository_env \<Rightarrow> mutation_completion option \<Rightarrow> run_context \<Rightarrow> run_status \<Rightarrow> string \<Rightarrow> pydict \<Rightarrow>
   domain_event list \<Rightarrow> nat \<Rightarrow> step_commit" where
  "checkpoint_commit env completion c status nxt state events n =
     (let next_context = checkpointed_context c status state (rc_checkpoint_version c + 1);
          persisted = new_events env nxt n events
      in \<lparr>sc_run_id = rc_run_id c, sc_tenant_id = rc_tenant_id c, sc_expected_version = rc_checkpoint_version c,
          sc_status = status, sc_step = nxt, sc_checkpoint = next_context,
          sc_hash = rv_state_digest env next_context, sc_events = persisted, sc_completion = completion,
          sc_outbox = (case completion of None \<Rightarrow> []
            | Some m \<Rightarrow> [observed_message env (n + 2 * length events) (hd persisted) m])\<rparr>)"

definition commit_checkpoint ::
  "repository_env \<Rightarrow> mutation_completion option \<Rightarrow> repository_state checkpoint_op" where
  "commit_checkpoint env completion c status nxt state events s =
     (let n = rs_tick s; m = n + 2 * length events + 2 in
      if completion \<noteq> None \<and> events = []
      then (Inl (ValueError ''a mutation checkpoint requires an event''), s\<lparr>rs_tick := m\<rparr>)
      else
        (case commit_step (rv_clock env m) (checkpoint_commit env completion c status nxt state events n) (rs_db s) of
           (Inl e, db) \<Rightarrow> (Inl e, \<lparr>rs_db = db, rs_tick = m\<rparr>)
         | (Inr result, db) \<Rightarrow> (Inr (sn_row_version result), \<lparr>rs_db = db, rs_tick = m\<rparr>)))"

definition checkpoint_run :: "repository_env \<Rightarrow> repository_state checkpoint_op" where
  "checkpoint_run env = commit_checkpoint env None"

definition checkpoint_mutation :: "repository_env \<Rightarrow> mutation_completion \<Rightarrow> repository_state checkpoint_op" where
  "checkpoint_mutation env completion = commit_checkpoint env (Some completion)"

definition resume_run :: "string \<Rightarrow> string \<Rightarrow> repository_state \<Rightarrow> run_context option result" where
  "resume_run run_id tenant s =
     (case load_latest_checkpoint run_id tenant (rs_db s) of
        None \<Rightarrow> Inr None
      | Some c \<Rightarrow> if valid_run_context c then Inr (Some c) else Inl ValidationError)"

section \<open>The effect of a commit\<close>

fun event_rows :: "string \<Rightarrow> int \<Rightarrow> int \<Rightarrow> new_event list \<Rightarrow> event_row list" where
  "event_rows run_id now n [] = []"
| "event_rows run_id now n (e # es) = event_row_of run_id now n e # event_rows run_id now (n + 1) es"

definition completed_rows :: "string \<Rightarrow> mutation_completion option \<Rightarrow> idempotency_row list \<Rightarrow> idempotency_row list" where
  "completed_rows tenant completion rows =
     (case completion of None \<Rightarrow> rows | Some m \<Rightarrow> update_rows (open_intent tenant m) (completed_row m) rows)"

definition commit_effect :: "int \<Rightarrow> step_commit \<Rightarrow> run_row \<Rightarrow> runtime_db \<Rightarrow> runtime_db" where
  "commit_effect now c current db =
     (let sequence = rr_checkpoint_seq current + 1; first = last_event_seq (sc_run_id c) db + 1 in
      db\<lparr>db_runs := update_rows (commit_target c) (advanced_run c now sequence) (db_runs db),
         db_events := db_events db @ event_rows (sc_run_id c) now first (sc_events c),
         db_checkpoints := db_checkpoints db @ [checkpoint_row_of c sequence first],
         db_outbox := db_outbox db @ map (outbox_row_of (sc_run_id c) now) (sc_outbox c),
         db_idempotency := completed_rows (sc_tenant_id c) (sc_completion c) (db_idempotency db)\<rparr>)"

lemma insert_events_Inr:
  "insert_events run_id now n es db = Inr db' \<Longrightarrow> db' = db\<lparr>db_events := db_events db @ event_rows run_id now n es\<rparr>"
proof (induction es arbitrary: db n)
  case (Cons e es)
  then obtain u db1 where d: "insert_event (event_row_of run_id now n e) db = Inr (u, db1)"
    "insert_events run_id now (n + 1) es db1 = Inr db'"
    by (auto simp: bind_res_eq_Inr)
  show ?case using Cons.IH [OF d(2)] insert_event_Inr [OF d(1)] by simp
qed simp

lemma insert_outboxes_Inr:
  "insert_outboxes run_id now ms db = Inr db' \<Longrightarrow>
     db' = db\<lparr>db_outbox := db_outbox db @ map (outbox_row_of run_id now) ms\<rparr>"
proof (induction ms arbitrary: db)
  case (Cons m ms)
  then obtain u db1 where d: "insert_outbox (outbox_row_of run_id now m) db = Inr (u, db1)"
    "insert_outboxes run_id now ms db1 = Inr db'"
    by (auto simp: bind_res_eq_Inr)
  show ?case using Cons.IH [OF d(2)] insert_outbox_Inr [OF d(1)] by simp
qed simp

lemma complete_mutation_Inr:
  assumes "complete_mutation tenant completion db = Inr db'"
  shows "db' = db\<lparr>db_idempotency := completed_rows tenant completion (db_idempotency db)\<rparr> \<and>
    (\<forall>m. completion = Some m \<longrightarrow> row_count (open_intent tenant m) (db_idempotency db) = 1)"
proof (cases completion)
  case None
  then show ?thesis using assms by (simp add: complete_mutation_def completed_rows_def)
next
  case (Some m)
  then show ?thesis
    using assms
    by (auto simp: complete_mutation_def completed_rows_def bind_res_eq_Inr update_idempotency_Inr split: if_splits)
qed

lemma commit_body_Inr:
  assumes "commit_body now c db = Inr (u, db')"
  obtains current where "select_one (commit_target c) (db_runs db) = Some current"
    "db' = commit_effect now c current db" "row_count (commit_target c) (db_runs db) = 1"
    "runs_ok (db_runs db')"
    "\<And>m. sc_completion c = Some m \<Longrightarrow> row_count (open_intent (sc_tenant_id c) m) (db_idempotency db) = 1"
    "list_all run_widths (db_runs db) \<Longrightarrow> list_all run_widths (db_runs db')"
proof -
  obtain current where r: "select_one (commit_target c) (db_runs db) = Some current"
    using assms by (auto simp: commit_body_def split: option.splits)
  obtain db1 where d1: "complete_mutation (sc_tenant_id c) (sc_completion c) db = Inr db1"
    using assms r by (auto simp: commit_body_def bind_res_eq_Inr)
  note e1 = complete_mutation_Inr [OF d1]
  define first where "first = last_event_seq (sc_run_id c) db1 + 1"
  define sequence where "sequence = rr_checkpoint_seq current + 1"
  obtain db2 where d2: "insert_events (sc_run_id c) now first (sc_events c) db1 = Inr db2"
    using assms r d1 by (auto simp: commit_body_def bind_res_eq_Inr Let_def first_def)
  obtain db3 where d3: "insert_outboxes (sc_run_id c) now (sc_outbox c) db2 = Inr db3"
    using assms r d1 d2 by (auto simp: commit_body_def bind_res_eq_Inr Let_def first_def)
  obtain u4 db4 where d4: "insert_checkpoint (checkpoint_row_of c sequence first) db3 = Inr (u4, db4)"
    using assms r d1 d2 d3 by (auto simp: commit_body_def bind_res_eq_Inr Let_def first_def sequence_def)
  have d5: "update_runs (commit_target c) (advanced_run c now sequence) db4 = Inr (1, db')"
    using assms r d1 d2 d3 d4
    by (auto simp: commit_body_def bind_res_eq_Inr Let_def first_def sequence_def split: if_splits)
  note e2 = insert_events_Inr [OF d2] and e3 = insert_outboxes_Inr [OF d3] and e4 = insert_checkpoint_Inr [OF d4]
    and e5 = d5 [unfolded update_runs_Inr]
  have runs: "db_runs db4 = db_runs db" using e1 e2 e3 e4 by simp
  have "last_event_seq (sc_run_id c) db1 = last_event_seq (sc_run_id c) db" using e1 by (simp add: last_event_seq_def)
  then have "db' = commit_effect now c current db"
    using e1 e2 e3 e4 e5 by (simp add: commit_effect_def Let_def first_def sequence_def)
  moreover have "row_count (commit_target c) (db_runs db) = 1" "runs_ok (db_runs db')" using e5 runs by simp_all
  moreover have "list_all run_widths (db_runs db')" if "list_all run_widths (db_runs db)"
    using that e5 runs by (auto simp: list_all_iff update_rows_def)
  ultimately show ?thesis using that [OF r] e1 by blast
qed

lemma advanced_run_simps [simp]:
  "rr_run_id (advanced_run c now n r) = rr_run_id r" "rr_tenant_id (advanced_run c now n r) = rr_tenant_id r"
  "rr_status (advanced_run c now n r) = sc_status c" "rr_version (advanced_run c now n r) = rr_version r + 1"
  "rr_step_count (advanced_run c now n r) = rr_step_count r + 1" "rr_checkpoint_seq (advanced_run c now n r) = n"
  "rr_actor_ref (advanced_run c now n r) = rr_actor_ref r" "rr_mode (advanced_run c now n r) = rr_mode r"
  by (simp_all add: advanced_run_def touch_times_def)

lemma commit_targetD:
  "commit_target c r \<Longrightarrow> rr_run_id r = sc_run_id c \<and> rr_tenant_id r = sc_tenant_id c \<and> rr_version r = sc_expected_version c"
  by (simp add: commit_target_def)

lemma effect_runs: "db_runs (commit_effect now c current db) =
    update_rows (commit_target c) (advanced_run c now (rr_checkpoint_seq current + 1)) (db_runs db)"
  by (simp add: commit_effect_def Let_def)

lemma effect_run_ids [simp]: "map rr_run_id (db_runs (commit_effect now c current db)) = map rr_run_id (db_runs db)"
  by (simp add: effect_runs map_update_rows_same)

lemma selected_after:
  assumes "distinct (map rr_run_id (db_runs db))" "select_one (commit_target c) (db_runs db) = Some current"
    "\<And>r n. q (advanced_run c now n r) = q r" "q current" "\<And>r. q r \<Longrightarrow> rr_run_id r = sc_run_id c"
  shows "select_one q (db_runs (commit_effect now c current db)) =
    Some (advanced_run c now (rr_checkpoint_seq current + 1) current)"
proof -
  have cur: "current \<in> set (db_runs db)" "commit_target c current" using select_one_Some [OF assms(2)] by auto
  have "select_one q (db_runs db) = Some current"
    using assms(1) cur(1) assms(4) by (rule select_one_distinct) (use assms(5) cur(2) commit_targetD in auto)
  then show ?thesis
    using cur(2) unfolding effect_runs by (simp add: select_one_update assms(3))
qed

lemma commit_step_cases:
  assumes "commit_step now c db = (res, db')"
  shows "(\<exists>e. res = Inl e \<and> db' = db) \<or>
    (\<exists>current. select_one (commit_target c) (db_runs db) = Some current \<and> check_commit c = Inr () \<and>
       distinct (map rr_run_id (db_runs db)) \<and> runs_ok (db_runs db') \<and> db' = commit_effect now c current db \<and>
       res = Inr (snapshot (advanced_run c now (rr_checkpoint_seq current + 1) current)) \<and>
       (sc_completion c = None \<or> row_count (open_intent (sc_tenant_id c) (the (sc_completion c))) (db_idempotency db) = 1))"
proof (cases "check_commit c")
  case (Inl e)
  then show ?thesis using assms by (auto simp: commit_step_def)
next
  case ok: (Inr u)
  show ?thesis
  proof (cases "commit_body now c db")
    case (Inl e)
    then show ?thesis using assms ok by (auto simp: commit_step_def)
  next
    case (Inr x)
    then obtain v d where b: "commit_body now c db = Inr (v, d)" by (cases x) simp
    then obtain current where e: "select_one (commit_target c) (db_runs db) = Some current"
      "d = commit_effect now c current db" "runs_ok (db_runs d)"
      "\<And>m. sc_completion c = Some m \<Longrightarrow> row_count (open_intent (sc_tenant_id c) m) (db_idempotency db) = 1"
      by (rule commit_body_Inr) blast
    have dis: "distinct (map rr_run_id (db_runs db))" using runs_okD [OF e(3)] e(2) by simp
    have "visible_run (sc_run_id c) (sc_tenant_id c) None current"
      using select_one_Some [OF e(1)] by (simp add: visible_run_def commit_target_def)
    then have "load_run (sc_run_id c) (sc_tenant_id c) None d =
        Some (snapshot (advanced_run c now (rr_checkpoint_seq current + 1) current))"
      using selected_after [OF dis e(1), of "visible_run (sc_run_id c) (sc_tenant_id c) None" now] e(2)
      by (simp add: load_run_def visible_run_def)
    then have "res = Inr (snapshot (advanced_run c now (rr_checkpoint_seq current + 1) current))" "db' = d"
      using assms ok b by (simp_all add: commit_step_def)
    moreover have "sc_completion c = None \<or>
        row_count (open_intent (sc_tenant_id c) (the (sc_completion c))) (db_idempotency db) = 1"
      using e(4) by (cases "sc_completion c") auto
    ultimately show ?thesis using e(1-3) dis ok by auto
  qed
qed

lemma commit_step_Inl: "commit_step now c db = (Inl e, db') \<Longrightarrow> db' = db"
  using commit_step_cases by blast

lemma commit_step_Inr:
  assumes "commit_step now c db = (Inr s, db')"
  obtains current where "select_one (commit_target c) (db_runs db) = Some current" "check_commit c = Inr ()"
    "distinct (map rr_run_id (db_runs db))" "runs_ok (db_runs db')" "db' = commit_effect now c current db"
    "s = snapshot (advanced_run c now (rr_checkpoint_seq current + 1) current)"
  using commit_step_cases [OF assms] that by auto

lemma commit_step_widths:
  assumes "commit_step now c db = (res, db')" "list_all run_widths (db_runs db)"
  shows "list_all run_widths (db_runs db')"
proof (cases "\<exists>u d. check_commit c = Inr () \<and> commit_body now c db = Inr (u, d)")
  case True
  then obtain u d where b: "check_commit c = Inr ()" "commit_body now c db = Inr (u, d)" by blast
  have "list_all run_widths (db_runs d)" by (rule commit_body_Inr [OF b(2)]) (simp add: assms(2))
  moreover have "db' = d" using assms(1) b by (auto simp: commit_step_def split: option.splits)
  ultimately show ?thesis by simp
next
  case False
  then have "db' = db" using assms(1)
    by (cases "check_commit c"; cases "commit_body now c db") (auto simp: commit_step_def)
  then show ?thesis using assms(2) by simp
qed

section \<open>The store keeps the contract of the pipeline\<close>

definition stored_run :: "repository_state \<Rightarrow> string \<Rightarrow> (run_status \<times> int) option" where
  "stored_run s run_id =
     map_option (\<lambda>r. (rr_status r, rr_version r)) (select_one (\<lambda>r. rr_run_id r = run_id) (db_runs (rs_db s)))"

lemma commit_checkpoint_Inr:
  assumes "commit_checkpoint env completion c status nxt state evs s = (Inr v, s')"
  obtains now n x where "commit_step now (checkpoint_commit env completion c status nxt state evs n) (rs_db s) = (Inr x, rs_db s')"
    "v = sn_row_version x"
  using assms that by (auto simp: commit_checkpoint_def Let_def split: if_splits prod.splits sum.splits)

lemma commit_checkpoint_Inl:
  "commit_checkpoint env completion c status nxt state evs s = (Inl e, s') \<Longrightarrow> rs_db s' = rs_db s"
  by (auto simp: commit_checkpoint_def Let_def split: if_splits prod.splits sum.splits dest!: commit_step_Inl)

lemma checkpoint_commit_simps [simp]:
  "sc_run_id (checkpoint_commit env m c status nxt state evs n) = rc_run_id c"
  "sc_tenant_id (checkpoint_commit env m c status nxt state evs n) = rc_tenant_id c"
  "sc_expected_version (checkpoint_commit env m c status nxt state evs n) = rc_checkpoint_version c"
  "sc_status (checkpoint_commit env m c status nxt state evs n) = status"
  "sc_completion (checkpoint_commit env m c status nxt state evs n) = m"
  "sc_checkpoint (checkpoint_commit env m c status nxt state evs n) =
     checkpointed_context c status state (rc_checkpoint_version c + 1)"
  by (simp_all add: checkpoint_commit_def Let_def)

lemma commit_checkpoint_stored:
  assumes "commit_checkpoint env completion c status nxt state evs s = (Inr v, s')"
  shows "(\<exists>old. stored_run s (rc_run_id c) = Some (old, rc_checkpoint_version c)) \<and> v = rc_checkpoint_version c + 1 \<and>
    stored_run s' = (stored_run s)(rc_run_id c \<mapsto> (status, v))"
proof -
  obtain now n x where x: "commit_step now (checkpoint_commit env completion c status nxt state evs n) (rs_db s) = (Inr x, rs_db s')"
    "v = sn_row_version x"
    using assms by (rule commit_checkpoint_Inr)
  let ?c = "checkpoint_commit env completion c status nxt state evs n"
  obtain current where e: "select_one (commit_target ?c) (db_runs (rs_db s)) = Some current"
    "distinct (map rr_run_id (db_runs (rs_db s)))" "rs_db s' = commit_effect now ?c current (rs_db s)"
    "x = snapshot (advanced_run ?c now (rr_checkpoint_seq current + 1) current)"
    using x(1) by (rule commit_step_Inr) blast
  have cur: "current \<in> set (db_runs (rs_db s))" "rr_run_id current = rc_run_id c"
    "rr_version current = rc_checkpoint_version c"
    using select_one_Some [OF e(1)] by (auto simp: commit_target_def)
  have v: "v = rc_checkpoint_version c + 1" using x(2) e(4) cur by (simp add: snapshot_def)
  have "select_one (\<lambda>r. rr_run_id r = rc_run_id c) (db_runs (rs_db s)) = Some current"
    using e(2) cur(1) by (rule select_one_distinct) (use cur in auto)
  then have before: "stored_run s (rc_run_id c) = Some (rr_status current, rc_checkpoint_version c)"
    using cur by (simp add: stored_run_def)
  have "stored_run s' run_id = ((stored_run s)(rc_run_id c \<mapsto> (status, v))) run_id" for run_id
  proof (cases "run_id = rc_run_id c")
    case True
    have "select_one (\<lambda>r. rr_run_id r = run_id) (db_runs (rs_db s')) =
        Some (advanced_run ?c now (rr_checkpoint_seq current + 1) current)"
      unfolding e(3) by (rule selected_after [OF e(2) e(1)]) (use cur True in simp_all)
    then show ?thesis using True v cur by (simp add: stored_run_def)
  next
    case False
    have "\<not> commit_target ?c r" if "rr_run_id r = run_id" for r using that False by (simp add: commit_target_def)
    then have "select_one (\<lambda>r. rr_run_id r = run_id) (db_runs (rs_db s')) =
        select_one (\<lambda>r. rr_run_id r = run_id) (db_runs (rs_db s))"
      unfolding e(3) effect_runs
      by (subst select_one_update)
        (use select_one_Some [of "\<lambda>r. rr_run_id r = run_id"] in
          \<open>auto simp: map_option_case split: option.splits\<close>)
    then show ?thesis using False by (simp add: stored_run_def)
  qed
  then show ?thesis using before v by blast
qed

interpretation run_store: checkpoint_store "checkpoint_run env" stored_run for env
proof
  fix c :: run_context and status nxt state evs s e v s'
  show "checkpoint_run env c status nxt state evs s = (Inl e, s') \<Longrightarrow> stored_run s' = stored_run s"
    unfolding checkpoint_run_def by (drule commit_checkpoint_Inl) (simp add: stored_run_def fun_eq_iff)
  show "checkpoint_run env c status nxt state evs s = (Inr v, s') \<Longrightarrow>
      (\<exists>old. stored_run s (rc_run_id c) = Some (old, rc_checkpoint_version c)) \<and> v = rc_checkpoint_version c + 1"
    unfolding checkpoint_run_def by (drule commit_checkpoint_stored) simp
  show "checkpoint_run env c status nxt state evs s = (Inr v, s') \<Longrightarrow>
      stored_run s' = (stored_run s)(rc_run_id c \<mapsto> (status, v))"
    unfolding checkpoint_run_def by (drule commit_checkpoint_stored) simp
qed

section \<open>The logs of a run\<close>

definition event_log :: "runtime_db \<Rightarrow> string \<Rightarrow> int list" where
  "event_log db run_id = map ew_seq (filter (\<lambda>e. ew_run_id e = run_id) (db_events db))"

definition checkpoint_log :: "runtime_db \<Rightarrow> string \<Rightarrow> int list" where
  "checkpoint_log db run_id = map cp_seq (filter (\<lambda>c. cp_run_id c = run_id) (db_checkpoints db))"

text \<open>Numbered \<open>1, 2, ...\<close> in the order of insertion.\<close>

definition numbered :: "int list \<Rightarrow> bool" where
  "numbered xs \<longleftrightarrow> xs = [1..int (length xs)]"

definition logs_ok :: "runtime_db \<Rightarrow> bool" where
  "logs_ok db \<longleftrightarrow>
     distinct (map rr_run_id (db_runs db)) \<and>
     list_all (\<lambda>e. numbered (event_log db (ew_run_id e))) (db_events db) \<and>
     list_all (\<lambda>e. ew_run_id e \<in> set (map rr_run_id (db_runs db))) (db_events db) \<and>
     list_all (\<lambda>c. cp_run_id c \<in> set (map rr_run_id (db_runs db))) (db_checkpoints db) \<and>
     list_all (\<lambda>r. 0 \<le> rr_checkpoint_seq r \<and> checkpoint_log db (rr_run_id r) = [1..rr_checkpoint_seq r]) (db_runs db)"

lemma numbered_Nil [simp]: "numbered []"
  by (simp add: numbered_def)

lemma upto_append: "0 \<le> n \<Longrightarrow> 0 \<le> k \<Longrightarrow> [1..n] @ [n + 1..n + k] = [1..n + (k :: int)]"
  by (cases "n = 0") (simp_all add: upto_split2 [of 1 n "n + k"])

lemma numbered_append:
  assumes "numbered xs"
  shows "numbered (xs @ [int (length xs) + 1..int (length xs) + int k])"
proof -
  have "[1..int (length xs)] @ [int (length xs) + 1..int (length xs) + int k] = [1..int (length xs) + int k]"
    by (rule upto_append) simp_all
  then have "xs @ [int (length xs) + 1..int (length xs) + int k] = [1..int (length xs) + int k]"
    using assms unfolding numbered_def by metis
  then show ?thesis by (simp add: numbered_def)
qed

lemma foldl_max_upto: "0 \<le> n \<Longrightarrow> foldl max 0 [1..n] = (n :: int)"
proof (induction n rule: int_ge_induct)
  case (step i)
  then show ?case using upto_rec2 [of 1 "i + 1"] by simp
qed simp

lemma last_event_seq_log: "last_event_seq run_id db = foldl max 0 (event_log db run_id)"
  by (simp add: last_event_seq_def event_log_def)

lemma last_event_seq_numbered:
  "numbered (event_log db run_id) \<Longrightarrow> last_event_seq run_id db = int (length (event_log db run_id))"
  unfolding last_event_seq_log by (metis foldl_max_upto numbered_def of_nat_0_le_iff)

lemma logs_ok_events: "logs_ok db \<Longrightarrow> numbered (event_log db run_id)"
proof (cases "filter (\<lambda>e. ew_run_id e = run_id) (db_events db)")
  case Nil
  then show ?thesis by (simp add: event_log_def)
next
  case (Cons e es)
  then have "e \<in> set (db_events db)" "ew_run_id e = run_id" by (auto simp: filter_eq_Cons_iff)
  moreover assume "logs_ok db"
  ultimately show ?thesis by (auto simp: logs_ok_def list_all_iff)
qed

lemma map_seq_event_rows: "map ew_seq (event_rows run_id now n es) = [n..n + int (length es) - 1]"
proof (induction es arbitrary: n)
  case (Cons e es)
  have "[n..n + int (length (e # es)) - 1] = n # [n + 1..n + 1 + int (length es) - 1]"
    using upto_rec1 [of n "n + int (length (e # es)) - 1"] by (simp add: algebra_simps)
  then show ?case using Cons.IH [of "n + 1"] by (simp add: event_row_of_def)
qed simp

lemma event_rows_run: "e \<in> set (event_rows run_id now n es) \<Longrightarrow> ew_run_id e = run_id"
  by (induction es arbitrary: n) (auto simp: event_row_of_def)

lemma effect_event_log:
  "event_log (commit_effect now c current db) run_id =
     (if run_id = sc_run_id c
      then event_log db run_id @ [last_event_seq run_id db + 1..last_event_seq run_id db + int (length (sc_events c))]
      else event_log db run_id)"
proof -
  let ?rows = "event_rows (sc_run_id c) now (last_event_seq (sc_run_id c) db + 1) (sc_events c)"
  have "filter (\<lambda>e. ew_run_id e = run_id) ?rows = (if run_id = sc_run_id c then ?rows else [])"
    by (auto simp: filter_id_conv filter_empty_conv dest: event_rows_run)
  then show ?thesis by (simp add: event_log_def commit_effect_def Let_def map_seq_event_rows)
qed

lemma effect_numbered: "logs_ok db \<Longrightarrow> numbered (event_log (commit_effect now c current db) run_id)"
  using numbered_append [OF logs_ok_events [of db run_id], of "length (sc_events c)"]
  by (auto simp: effect_event_log last_event_seq_numbered logs_ok_events)

lemma effect_checkpoint_log:
  "checkpoint_log (commit_effect now c current db) run_id =
     checkpoint_log db run_id @ (if run_id = sc_run_id c then [rr_checkpoint_seq current + 1] else [])"
  by (simp add: checkpoint_log_def commit_effect_def Let_def checkpoint_row_of_def)

lemma same_run: "distinct (map rr_run_id rows) \<Longrightarrow> r \<in> set rows \<Longrightarrow> r' \<in> set rows \<Longrightarrow> rr_run_id r = rr_run_id r' \<Longrightarrow> r = r'"
  by (auto simp: distinct_map inj_on_def)

lemma set_map_run_ids: "map rr_run_id (db_runs db') = map rr_run_id (db_runs db) \<Longrightarrow>
    rr_run_id ` set (db_runs db') = rr_run_id ` set (db_runs db)"
  by (metis set_map)

lemma logs_ok_effect:
  assumes ok: "logs_ok db" and cur: "select_one (commit_target c) (db_runs db) = Some current"
  shows "logs_ok (commit_effect now c current db)"
proof -
  let ?d = "commit_effect now c current db"
  have c: "current \<in> set (db_runs db)" "rr_run_id current = sc_run_id c" "commit_target c current"
    using select_one_Some [OF cur] by (auto simp: commit_target_def)
  have dis: "distinct (map rr_run_id (db_runs db))" using ok by (simp add: logs_ok_def)
  have ids: "rr_run_id ` set (db_runs ?d) = rr_run_id ` set (db_runs db)" by (rule set_map_run_ids) simp
  have run: "sc_run_id c \<in> rr_run_id ` set (db_runs db)" using c by force
  have ev: "list_all (\<lambda>e. ew_run_id e \<in> set (map rr_run_id (db_runs ?d))) (db_events ?d)"
    using ok run ids
    by (auto simp: logs_ok_def list_all_iff commit_effect_def Let_def dest: event_rows_run)
  have cp: "list_all (\<lambda>k. cp_run_id k \<in> set (map rr_run_id (db_runs ?d))) (db_checkpoints ?d)"
    using ok run ids by (simp add: logs_ok_def list_all_iff commit_effect_def Let_def checkpoint_row_of_def)
  have "0 \<le> rr_checkpoint_seq r' \<and> checkpoint_log ?d (rr_run_id r') = [1..rr_checkpoint_seq r']"
    if mem: "r' \<in> set (db_runs ?d)" for r'
  proof -
    obtain r where r: "r \<in> set (db_runs db)"
      "r' = (if commit_target c r then advanced_run c now (rr_checkpoint_seq current + 1) r else r)"
      using mem unfolding effect_runs update_rows_def set_map image_iff by blast
    have old: "0 \<le> rr_checkpoint_seq r" "checkpoint_log db (rr_run_id r) = [1..rr_checkpoint_seq r]"
      using ok r(1) by (auto simp: logs_ok_def list_all_iff)
    show ?thesis
    proof (cases "rr_run_id r = sc_run_id c")
      case True
      then have "r = current" using same_run [OF dis r(1) c(1)] c(2) by simp
      then show ?thesis
        using r(2) old c upto_append [of "rr_checkpoint_seq current" 1] by (simp add: effect_checkpoint_log)
    next
      case False
      then show ?thesis using r(2) old by (simp add: effect_checkpoint_log commit_target_def)
    qed
  qed
  then show ?thesis
    using effect_numbered [OF ok] ev cp dis unfolding logs_ok_def effect_run_ids list_all_iff by blast
qed

lemma logs_ok_commit: "logs_ok db \<Longrightarrow> commit_step now c db = (res, db') \<Longrightarrow> logs_ok db'"
  using commit_step_cases [of now c db res db'] logs_ok_effect by blast

lemma logs_ok_checkpoint:
  assumes "logs_ok (rs_db s)" "commit_checkpoint env completion c status nxt state evs s = (res, s')"
  shows "logs_ok (rs_db s')"
  using assms
  by (auto simp: commit_checkpoint_def Let_def split: if_splits prod.splits sum.splits dest: logs_ok_commit)

lemma logs_ok_append:
  assumes ok: "logs_ok db" and app: "append_event ec now event_id run_id tenant t step payload db = (res, db')"
  shows "logs_ok db'"
proof (cases res)
  case (Inl e)
  then show ?thesis using ok app by (auto simp: append_event_def transaction_Inl)
next
  case (Inr n)
  let ?e = "\<lparr>ew_event_id = event_id, ew_run_id = run_id, ew_seq = last_event_seq run_id db + 1,
    ew_type = event_type_value t, ew_schema = ''1.0'', ew_step = slice_to step 64, ew_payload = PDict payload,
    ew_hash = ec_digest ec payload, ew_causation = None, ew_correlation = run_id, ew_created_at = now\<rparr>"
  obtain u where i: "insert_event ?e db = Inr (u, db')"
    using app Inr by (auto simp: append_event_def transaction_Inr Let_def bind_res_eq_Inr split: option.splits)
  then have d: "db' = db\<lparr>db_events := db_events db @ [?e]\<rparr>" "run_id \<in> rr_run_id ` set (db_runs db)"
    using insert_event_Inr [OF i] by auto
  have log: "event_log db' x = event_log db x @ (if x = run_id then [last_event_seq run_id db + 1] else [])" for x
    by (simp add: event_log_def d(1))
  have "numbered (event_log db' x)" for x
    using numbered_append [OF logs_ok_events [OF ok, of x], of 1] logs_ok_events [OF ok, of x]
    by (auto simp: log last_event_seq_numbered)
  then show ?thesis using ok d(2) by (simp add: logs_ok_def list_all_iff d(1) checkpoint_log_def)
qed

lemma logs_ok_update_runs:
  assumes ok: "logs_ok db" and u: "transaction db (update_runs p f db) = (res, db')"
    and f: "\<And>r. rr_run_id (f r) = rr_run_id r" "\<And>r. rr_checkpoint_seq (f r) = rr_checkpoint_seq r"
  shows "logs_ok db'"
proof (cases res)
  case (Inl e)
  then show ?thesis using ok u by (simp add: transaction_Inl)
next
  case (Inr n)
  then have d: "db' = db\<lparr>db_runs := update_rows p f (db_runs db)\<rparr>"
    using u by (simp add: transaction_Inr update_runs_Inr)
  have ids: "map rr_run_id (db_runs db') = map rr_run_id (db_runs db)"
    by (simp add: d map_update_rows_same f(1))
  have "event_log db' x = event_log db x" "checkpoint_log db' x = checkpoint_log db x" for x
    by (simp_all add: d event_log_def checkpoint_log_def)
  moreover have "list_all (\<lambda>r. 0 \<le> rr_checkpoint_seq r \<and> checkpoint_log db (rr_run_id r) = [1..rr_checkpoint_seq r]) (db_runs db')"
    using ok by (auto simp: logs_ok_def list_all_iff d update_rows_def f)
  ultimately show ?thesis
    using ok unfolding logs_ok_def ids by (simp add: d)
qed

lemma touch_times_simps [simp]:
  "rr_run_id (touch_times now f r) = rr_run_id r" "rr_checkpoint_seq (touch_times now f r) = rr_checkpoint_seq r"
  "rr_status (touch_times now f r) = rr_status r" "rr_version (touch_times now f r) = rr_version r"
  "rr_tenant_id (touch_times now f r) = rr_tenant_id r"
  by (simp_all add: touch_times_def)

lemma logs_ok_marks:
  "logs_ok db \<Longrightarrow> mark_dispatch_started now run_id tenant db = (n, db') \<Longrightarrow> logs_ok db'"
  "logs_ok db \<Longrightarrow> mark_response_published now run_id tenant db = (n, db') \<Longrightarrow> logs_ok db'"
  "logs_ok db \<Longrightarrow> set_terminal_reason now run_id tenant reason db = (n, db') \<Longrightarrow> logs_ok db'"
  unfolding mark_dispatch_started_def mark_response_published_def set_terminal_reason_def
  by - (erule (1) logs_ok_update_runs; simp)+

section \<open>The newest checkpoint\<close>

lemma latest_of_numbered:
  assumes "map cp_seq rows = [1..n]" "rows \<noteq> []"
  shows "rev (sort_key cp_seq rows) = rev rows"
proof -
  have "sorted (map cp_seq rows)" unfolding assms(1) by simp
  then show ?thesis by (simp add: sort_key_id_if_sorted)
qed

lemma latest_checkpoint_effect:
  assumes ok: "logs_ok db" and cur: "select_one (commit_target c) (db_runs db) = Some current"
  shows "load_latest_checkpoint (sc_run_id c) (sc_tenant_id c) (commit_effect now c current db) = Some (sc_checkpoint c)"
proof -
  let ?d = "commit_effect now c current db"
  have c: "current \<in> set (db_runs db)" "rr_run_id current = sc_run_id c" "rr_tenant_id current = sc_tenant_id c"
    "commit_target c current"
    using select_one_Some [OF cur] by (auto simp: commit_target_def)
  let ?a = "advanced_run c now (rr_checkpoint_seq current + 1) current"
  have a: "?a \<in> set (db_runs ?d)" using c by (auto simp: effect_runs update_rows_def intro!: image_eqI [of _ _ current])
  have "\<exists>r\<in>set (db_runs ?d). owned_run (sc_run_id c) (sc_tenant_id c) r"
    by (rule bexI [OF _ a]) (simp add: owned_run_def c)
  then have owned: "list_ex (owned_run (sc_run_id c) (sc_tenant_id c)) (db_runs ?d)" by (simp add: list_ex_iff)
  let ?rows = "filter (\<lambda>k. cp_run_id k = sc_run_id c) (db_checkpoints ?d)"
  have m: "map cp_seq ?rows = [1..rr_checkpoint_seq ?a]"
    using logs_ok_effect [OF ok cur, of now] a c by (auto simp: logs_ok_def list_all_iff checkpoint_log_def)
  have rows: "?rows = filter (\<lambda>k. cp_run_id k = sc_run_id c) (db_checkpoints db) @
      [checkpoint_row_of c (rr_checkpoint_seq current + 1) (last_event_seq (sc_run_id c) db + 1)]"
    by (simp add: commit_effect_def Let_def checkpoint_row_of_def)
  have "rev (sort_key cp_seq ?rows) = rev ?rows"
    by (rule latest_of_numbered [OF m]) (simp add: rows)
  then show ?thesis
    using owned unfolding load_latest_checkpoint_def by (simp add: rows checkpoint_row_of_def)
qed

lemma latest_checkpoint_stored:
  assumes "commit_checkpoint env completion c status nxt state evs s = (Inr v, s')" "logs_ok (rs_db s)"
  shows "load_latest_checkpoint (rc_run_id c) (rc_tenant_id c) (rs_db s') = Some (checkpointed_context c status state v)"
proof -
  obtain now n x where x: "commit_step now (checkpoint_commit env completion c status nxt state evs n) (rs_db s) = (Inr x, rs_db s')"
    using assms(1) by (rule commit_checkpoint_Inr) blast
  let ?c = "checkpoint_commit env completion c status nxt state evs n"
  obtain current where e: "select_one (commit_target ?c) (db_runs (rs_db s)) = Some current"
    "rs_db s' = commit_effect now ?c current (rs_db s)"
    using x by (rule commit_step_Inr) blast
  have "v = rc_checkpoint_version c + 1" using commit_checkpoint_stored [OF assms(1)] by simp
  then show ?thesis using latest_checkpoint_effect [OF assms(2) e(1), of now] e(2) by simp
qed

lemma resume_valid_iff:
  "resume_run run_id tenant s = Inr (Some c) \<longleftrightarrow>
     load_latest_checkpoint run_id tenant (rs_db s) = Some c \<and> valid_run_context c"
  by (auto simp: resume_run_def split: option.splits)

section \<open>Replaying what was committed\<close>

lemma length_new_events [simp]: "length (new_events env step k es) = length es"
  by (induction es arbitrary: k) simp_all

lemma replay_rows:
  assumes "1 \<le> n" "step \<noteq> []" "py_len step \<le> 64" "list_all (presentable (rv_codec env)) es"
  shows "\<exists>xs. map_res (from_persisted_row (rv_codec env)) (event_rows run_id now n (new_events env step k es)) = Inr xs \<and>
    map vx_event xs = es \<and> map vx_sequence xs = [n..n + int (length es) - 1] \<and> (\<forall>x\<in>set xs. vx_run_id x = run_id)"
  using assms(1,4)
proof (induction es arbitrary: n k)
  case Nil
  then show ?case by simp
next
  case (Cons e es)
  let ?row = "event_row_of run_id now n (hd (new_events env step k (e # es)))"
  have row: "from_persisted_row (rv_codec env) ?row = Inr \<lparr>vx_event_id = ew_event_id ?row, vx_run_id = ew_run_id ?row,
      vx_sequence = ew_seq ?row, vx_step_id = ew_step ?row, vx_correlation_id = ew_correlation ?row,
      vx_causation_id = ew_causation ?row, vx_occurred_at = ew_created_at ?row, vx_hash = ew_hash ?row, vx_event = e\<rparr>"
    by (rule from_persisted_rowI) (use Cons.prems assms(2,3) in \<open>simp_all add: stored_form_def event_row_of_def\<close>)
  obtain xs where xs: "map_res (from_persisted_row (rv_codec env)) (event_rows run_id now (n + 1) (new_events env step (k + 2) es)) = Inr xs"
    "map vx_event xs = es" "map vx_sequence xs = [n + 1..n + 1 + int (length es) - 1]" "\<forall>x\<in>set xs. vx_run_id x = run_id"
    using Cons.IH [of "n + 1" "k + 2"] Cons.prems by auto
  have "[n..n + int (length (e # es)) - 1] = n # [n + 1..n + 1 + int (length es) - 1]"
    using upto_rec1 [of n "n + int (length (e # es)) - 1"] by (simp add: algebra_simps)
  then show ?case using row xs by (simp add: event_row_of_def)
qed

lemma new_event_page:
  assumes ok: "logs_ok db" and cur: "select_one (commit_target c) (db_runs db) = Some current"
    and n: "int (length (sc_events c)) \<le> limit"
  shows "event_page (sc_run_id c) (sc_tenant_id c) (last_event_seq (sc_run_id c) db) limit None (commit_effect now c current db) =
    event_rows (sc_run_id c) now (last_event_seq (sc_run_id c) db + 1) (sc_events c)"
proof -
  let ?d = "commit_effect now c current db"
  let ?last = "last_event_seq (sc_run_id c) db"
  let ?rows = "event_rows (sc_run_id c) now (?last + 1) (sc_events c)"
  have seqs: "map ew_seq ?rows = [?last + 1..?last + 1 + int (length (sc_events c)) - 1]"
    by (rule map_seq_event_rows)
  have "length ?rows = length (sc_events c)" using arg_cong [OF seqs, of length] by simp
  then have len: "length ?rows \<le> nat limit" using n by linarith
  have "ew_seq e \<le> ?last" if "e \<in> set (db_events db)" "ew_run_id e = sc_run_id c" for e
  proof -
    have "ew_seq e \<in> set (event_log db (sc_run_id c))" using that by (simp add: event_log_def)
    then have "ew_seq e \<in> set [1..int (length (event_log db (sc_run_id c)))]"
      using logs_ok_events [OF ok, of "sc_run_id c"] unfolding numbered_def by simp
    then show ?thesis using last_event_seq_numbered [OF logs_ok_events [OF ok]] by simp
  qed
  then have old: "filter (\<lambda>e. ew_run_id e = sc_run_id c \<and> ?last < ew_seq e) (db_events db) = []"
    by (force simp: filter_empty_conv)
  have "?last < ew_seq e" if "e \<in> set ?rows" for e
  proof -
    have "ew_seq e \<in> set (map ew_seq ?rows)" using that by simp
    then show ?thesis unfolding seqs by simp
  qed
  then have new: "filter (\<lambda>e. ew_run_id e = sc_run_id c \<and> ?last < ew_seq e) ?rows = ?rows"
    by (auto simp: filter_id_conv dest: event_rows_run)
  have c: "current \<in> set (db_runs db)" "commit_target c current" using select_one_Some [OF cur] by auto
  let ?a = "advanced_run c now (rr_checkpoint_seq current + 1) current"
  have "?a \<in> set (db_runs ?d)" using c by (auto simp: effect_runs update_rows_def intro!: image_eqI [of _ _ current])
  moreover have "visible_run (sc_run_id c) (sc_tenant_id c) None ?a"
    using commit_targetD [OF c(2)] by (simp add: visible_run_def)
  ultimately have vis: "list_ex (visible_run (sc_run_id c) (sc_tenant_id c) None) (db_runs ?d)"
    unfolding list_ex_iff by blast
  have "filter (\<lambda>e. ew_run_id e = sc_run_id c \<and> ?last < ew_seq e) (db_events ?d) = ?rows"
    using old new by (simp add: commit_effect_def Let_def)
  moreover have "sort_key ew_seq ?rows = ?rows" using seqs by (intro sort_key_id_if_sorted) simp
  ultimately show ?thesis using vis len unfolding event_page_def by simp
qed

section \<open>A run and its checkpoints\<close>

lemma advance_checkpoint:
  assumes "advance env c b t dl cancelled budget ps = (Inr x, ps')"
  obtains status nxt state evs v where "pl_checkpoint env c status nxt state evs (ps_store ps) = (Inr v, ps_store ps')"
    "pr_context x = checkpointed_context c status state v"
  using assms by (rule advance_success) (use that in blast)

lemma handoff_checkpoint:
  assumes "pipeline_handoff env c reason ps = (Inr x, ps')"
  obtains status nxt state evs v where "pl_checkpoint env c status nxt state evs (ps_store ps) = (Inr v, ps_store ps')"
    "pr_context x = checkpointed_context c status state v"
  using assms that by (auto simp: pipeline_handoff_def Let_def split: prod.splits sum.splits)

text \<open>Between two steps: the logs are in order and the newest checkpoint is the context of the run.\<close>

definition run_checkpointed ::
  "run_context \<Rightarrow> run_context \<Rightarrow> loop_result list \<Rightarrow> ('w, repository_state) pipeline_state \<Rightarrow> bool" where
  "run_checkpointed c0 c steps ps \<longleftrightarrow>
     logs_ok (rs_db (ps_store ps)) \<and> rc_run_id c = rc_run_id c0 \<and> rc_tenant_id c = rc_tenant_id c0 \<and>
     (steps = [] \<or>
      (load_latest_checkpoint (rc_run_id c) (rc_tenant_id c) (rs_db (ps_store ps)) = Some c \<and>
       stored_run (ps_store ps) (rc_run_id c) = Some (rc_status c, rc_checkpoint_version c)))"

lemma checkpointed_context_ids [simp]:
  "rc_run_id (checkpointed_context c status state v) = rc_run_id c"
  "rc_tenant_id (checkpointed_context c status state v) = rc_tenant_id c"
  "rc_step_count (checkpointed_context c status state v) = rc_step_count c + 1"
  "rc_status (checkpointed_context c status state v) = status"
  "rc_checkpoint_version (checkpointed_context c status state v) = v"
  by (simp_all add: checkpointed_context_def)

lemma run_checkpointed_next:
  assumes "run_checkpointed c0 c steps ps" "checkpoint_run renv c status nxt state evs (ps_store ps) = (Inr v, ps_store ps')"
  shows "run_checkpointed c0 (checkpointed_context c status state v) (steps @ [loop]) ps'"
proof -
  note k = assms(2) [unfolded checkpoint_run_def]
  have ok: "logs_ok (rs_db (ps_store ps))" using assms(1) by (simp add: run_checkpointed_def)
  show ?thesis
    using assms(1) logs_ok_checkpoint [OF ok k] latest_checkpoint_stored [OF k ok] commit_checkpoint_stored [OF k]
    by (simp add: run_checkpointed_def)
qed

lemma agent_run_checkpointed:
  assumes "agent_run env i c budget ps = (Inr res, ps')" "pl_checkpoint env = checkpoint_run renv"
    "logs_ok (rs_db (ps_store ps))"
  shows "run_checkpointed c (ar_context res) (ar_steps res) ps'"
proof -
  have "run_checkpointed c (ar_context res) (ar_steps res) ps' \<and> rc_status (ar_context res) \<noteq> RS_RUNNING_READONLY \<and>
      ar_exit_reason res = status_value (rc_status (ar_context res))"
  proof (rule run_loop_induct [OF assms(1) [unfolded agent_run_def]])
    show "run_checkpointed c c [] ps" using assms(3) by (simp add: run_checkpointed_def)
  next
    fix d steps b ps1 x ps2
    assume p: "run_checkpointed c d steps ps1" and a: "run_advance env i d b ps1 = (Inr x, ps2)"
    obtain status nxt state evs v where "pl_checkpoint env d status nxt state evs (ps_store ps1) = (Inr v, ps_store ps2)"
      "pr_context x = checkpointed_context d status state v"
      using a unfolding run_advance_def by (rule advance_checkpoint)
    then show "run_checkpointed c (pr_context x) (steps @ [pr_loop x]) ps2"
      using run_checkpointed_next [OF p] assms(2) by metis
  next
    fix d steps ps1 h ps2
    assume p: "run_checkpointed c d steps ps1" and a: "pipeline_handoff env d ''readonly_loop_no_progress'' ps1 = (Inr h, ps2)"
    obtain status nxt state evs v where "pl_checkpoint env d status nxt state evs (ps_store ps1) = (Inr v, ps_store ps2)"
      "pr_context h = checkpointed_context d status state v"
      using a by (rule handoff_checkpoint)
    then show "run_checkpointed c (pr_context h) (steps @ [pr_loop h]) ps2"
      using run_checkpointed_next [OF p] assms(2) by metis
  qed
  then show ?thesis by simp
qed

section \<open>Properties\<close>

text \<open>C25: a checkpoint commit is atomic under an optimistic lock. For every commit and every database, it
  either fails and changes nothing, or the run with the expected version of this tenant existed; then
  the run is advanced by one version and one checkpoint, the events are appended under the next numbers,
  the outbox messages and the checkpoint are written with them, a mutation outcome is recorded on the one
  claimed intent it names, and the snapshot returned is the advanced run.\<close>

theorem commit_step_is_atomic:
  "case commit_step now c db of
     (Inl e, db') \<Rightarrow> db' = db
   | (Inr s, db') \<Rightarrow>
       (\<exists>current\<in>set (db_runs db).
          rr_run_id current = sc_run_id c \<and> rr_tenant_id current = sc_tenant_id c \<and>
          rr_version current = sc_expected_version c \<and>
          db' = commit_effect now c current db \<and> runs_ok (db_runs db') \<and>
          (sc_completion c = None \<or>
           row_count (open_intent (sc_tenant_id c) (the (sc_completion c))) (db_idempotency db) = 1) \<and>
          sn_status s = sc_status c \<and> sn_row_version s = sc_expected_version c + 1 \<and>
          sn_last_checkpoint_seq s = rr_checkpoint_seq current + 1)"
proof -
  obtain r db' where r: "commit_step now c db = (r, db')" by force
  show ?thesis
  proof (cases r)
    case (Inl e)
    then show ?thesis using r commit_step_Inl by auto
  next
    case (Inr s)
    then obtain current where c: "select_one (commit_target c) (db_runs db) = Some current"
      "db' = commit_effect now c current db" "runs_ok (db_runs db')"
      "s = snapshot (advanced_run c now (rr_checkpoint_seq current + 1) current)"
      "sc_completion c = None \<or> row_count (open_intent (sc_tenant_id c) (the (sc_completion c))) (db_idempotency db) = 1"
      using commit_step_cases [OF r] by auto
    have m: "current \<in> set (db_runs db)" "commit_target c current" using select_one_Some [OF c(1)] by auto
    show ?thesis
      unfolding r Inr prod.case sum.case
      by (rule bexI [OF _ m(1)]) (use c m commit_targetD [OF m(2)] in \<open>simp add: snapshot_def\<close>)
  qed
qed

text \<open>No update is lost. Once a checkpoint has been committed for a version of a run, every other
  checkpoint prepared for the same version fails with a version conflict and leaves the database as it
  is, whoever submits it and whenever.\<close>

theorem second_commit_conflicts:
  assumes "checkpoint_run env c status nxt state evs s = (Inr v, s')"
    "rc_run_id c2 = rc_run_id c" "rc_checkpoint_version c2 = rc_checkpoint_version c" "evs2 \<noteq> []"
  shows "\<exists>s''. checkpoint_run env2 c2 status2 nxt2 state2 evs2 s' = (Inl VersionConflictError, s'') \<and> rs_db s'' = rs_db s'"
proof -
  have "stored_run s' (rc_run_id c2) = Some (status, rc_checkpoint_version c2 + 1)"
    using run_store.success_sets [OF assms(1)] run_store.success_version [OF assms(1)] assms(2,3) by simp
  then obtain r where r: "select_one (\<lambda>r. rr_run_id r = rc_run_id c2) (db_runs (rs_db s')) = Some r"
    "rr_version r = rc_checkpoint_version c2 + 1"
    by (auto simp: stored_run_def)
  have "distinct (map rr_run_id (db_runs (rs_db s')))"
  proof -
    obtain now n x where "commit_step now (checkpoint_commit env None c status nxt state evs n) (rs_db s) = (Inr x, rs_db s')"
      using assms(1) unfolding checkpoint_run_def by (rule commit_checkpoint_Inr) blast
    then show ?thesis using runs_okD by (rule commit_step_Inr) simp
  qed
  then have none: "select_one (commit_target k) (db_runs (rs_db s')) = None"
    if "sc_run_id k = rc_run_id c2" "sc_expected_version k = rc_checkpoint_version c2" for k
    using that r select_one_Some [OF r(1)] unfolding select_one_None commit_target_def
    by (metis add_cancel_right_right one_neq_zero same_run)
  have "commit_step now (checkpoint_commit env2 None c2 status2 nxt2 state2 evs2 n) (rs_db s') = (Inl VersionConflictError, rs_db s')"
    for now n
  proof -
    let ?k = "checkpoint_commit env2 None c2 status2 nxt2 state2 evs2 n"
    have "check_commit ?k = Inr ()"
      using assms(4) by (cases evs2) (simp_all add: check_commit_def checkpoint_commit_def Let_def)
    moreover have "commit_body now ?k (rs_db s') = Inl VersionConflictError" using none [of ?k] by (simp add: commit_body_def)
    ultimately show ?thesis by (simp add: commit_step_def)
  qed
  then show ?thesis by (simp add: checkpoint_run_def commit_checkpoint_def Let_def)
qed

text \<open>C26: what is committed is what is read back. After a checkpoint the newest stored state is the
  context the caller continues with, so resuming returns exactly that context when it is a valid one.
  The count of steps is part of it: a context that has used more than six steps is stored, but refused
  by every attempt to resume it.\<close>

theorem checkpoint_resume_roundtrip:
  assumes "checkpoint_run env c status nxt state evs s = (Inr v, s')" "logs_ok (rs_db s)"
  shows "resume_run (rc_run_id c) (rc_tenant_id c) s' =
      (if valid_run_context (checkpointed_context c status state v)
       then Inr (Some (checkpointed_context c status state v)) else Inl ValidationError) \<and>
    (6 \<le> rc_step_count c \<longrightarrow> resume_run (rc_run_id c) (rc_tenant_id c) s' = Inl ValidationError)"
proof -
  have "load_latest_checkpoint (rc_run_id c) (rc_tenant_id c) (rs_db s') = Some (checkpointed_context c status state v)"
    using assms unfolding checkpoint_run_def by (rule latest_checkpoint_stored)
  moreover have "\<not> valid_run_context (checkpointed_context c status state v)" if "6 \<le> rc_step_count c"
    using that by (simp add: valid_run_context_def)
  ultimately show ?thesis by (simp add: resume_run_def)
qed

text \<open>Committed events replay as they were. If every event of a checkpoint is presentable, reading
  the page after the events that were there before returns the very same events in their order.\<close>

theorem committed_events_replay:
  assumes "checkpoint_run env c status nxt state evs s = (Inr v, s')" "logs_ok (rs_db s)"
    "list_all (presentable (rv_codec env)) evs" "str_field 64 (rc_tenant_id c)" "str_field 64 nxt"
    "int (length evs) \<le> limit" "1 \<le> limit" "limit \<le> 500"
  shows "\<exists>xs. replay_events (rv_codec env) (rc_run_id c) (rc_tenant_id c) (last_event_seq (rc_run_id c) (rs_db s))
      limit None (rs_db s') = Inr xs \<and> map vx_event xs = evs"
proof -
  let ?last = "last_event_seq (rc_run_id c) (rs_db s)"
  obtain now n x where x: "commit_step now (checkpoint_commit env None c status nxt state evs n) (rs_db s) = (Inr x, rs_db s')"
    using assms(1) unfolding checkpoint_run_def by (rule commit_checkpoint_Inr) blast
  let ?c = "checkpoint_commit env None c status nxt state evs n"
  obtain current where e: "select_one (commit_target ?c) (db_runs (rs_db s)) = Some current"
    "rs_db s' = commit_effect now ?c current (rs_db s)"
    using x by (rule commit_step_Inr) blast
  have evs: "sc_events ?c = new_events env nxt n evs" by (simp add: checkpoint_commit_def Let_def)
  have last0: "0 \<le> ?last" using last_event_seq_numbered [OF logs_ok_events [OF assms(2)]] by simp
  have fields: "nxt \<noteq> []" "py_len nxt \<le> 64" "rc_tenant_id c \<noteq> []" "py_len (rc_tenant_id c) \<le> 64"
    using assms(4,5) by (auto simp: str_field_def py_len_def)
  obtain xs where xs: "map_res (from_persisted_row (rv_codec env)) (event_rows (rc_run_id c) now (?last + 1) (new_events env nxt n evs)) = Inr xs"
    "map vx_event xs = evs" "map vx_sequence xs = [?last + 1..?last + 1 + int (length evs) - 1]" "\<forall>x\<in>set xs. vx_run_id x = rc_run_id c"
    using replay_rows [OF _ fields(1,2) assms(3), of "?last + 1" "rc_run_id c" now n] last0 by auto
  have page: "event_page (rc_run_id c) (rc_tenant_id c) ?last limit None (rs_db s') =
      event_rows (rc_run_id c) now (?last + 1) (new_events env nxt n evs)"
    using new_event_page [OF assms(2) e(1), of limit now] assms(6) unfolding e(2) evs by simp
  have len: "length xs = length evs" using xs(2) by (metis length_map)
  have "vx_sequence (xs ! i) = ?last + 1 + int i" if "i < length xs" for i
    using arg_cong [OF xs(3), of "\<lambda>l. l ! i"] that len by simp
  then have "check_sequence (?last + 1) (rc_run_id c) xs = Inr ()" using xs(4) by (simp add: check_sequence_Inr)
  then show ?thesis
    using xs(1,2) page fields assms(7,8) last0 by (intro exI [of _ xs]) (simp add: replay_events_def)
qed

text \<open>C27: recording the reason of a pause strands the run. \<open>set_terminal_reason\<close> advances the version of
  the run row but writes no checkpoint, so the context a caller loads from the newest checkpoint, in
  step with the row before, is refused by every checkpoint afterwards: a run that waits for a person
  when its reason is recorded can no longer be resolved.\<close>

theorem recorded_reason_strands_run:
  assumes "stored_run s (rc_run_id c) = Some (status, rc_checkpoint_version c)"
    "load_run_row (rc_run_id c) tenant (rs_db s) \<noteq> None"
    "set_terminal_reason now (rc_run_id c) tenant reason (rs_db s) = (Inr n, db')"
  shows "\<exists>e s'. checkpoint_run env c status2 nxt state evs (s\<lparr>rs_db := db'\<rparr>) = (Inl e, s') \<and> rs_db s' = db'"
proof -
  let ?f = "\<lambda>r. (touch_times now (\<lambda>t. t\<lparr>rt_terminal_at := coalesce_now now (rt_terminal_at t)\<rparr>) r)
      \<lparr>rr_reason := reason, rr_version := rr_version r + 1\<rparr>"
  let ?p = "owned_run (rc_run_id c) tenant"
  have d: "db' = (rs_db s)\<lparr>db_runs := update_rows ?p ?f (db_runs (rs_db s))\<rparr>" "runs_ok (db_runs db')"
    using assms(3) by (auto simp: set_terminal_reason_def transaction_Inr update_runs_Inr)
  have ids: "map rr_run_id (db_runs db') = map rr_run_id (db_runs (rs_db s))"
    by (simp add: d(1) map_update_rows_same)
  then have dis: "distinct (map rr_run_id (db_runs (rs_db s)))" using runs_okD [OF d(2)] by simp
  obtain r where r: "r \<in> set (db_runs (rs_db s))" "?p r"
    using assms(2) load_run_rowD unfolding owned_run_def by blast
  have sel: "select_one (\<lambda>r. rr_run_id r = rc_run_id c) (db_runs (rs_db s)) = Some r"
    using dis r(1) by (rule select_one_distinct) (use r(2) in \<open>auto simp: owned_run_def\<close>)
  then have v: "rr_version r = rc_checkpoint_version c" using assms(1) by (simp add: stored_run_def)
  have "select_one (\<lambda>r. rr_run_id r = rc_run_id c) (db_runs db') = Some (?f r)"
    using sel r(2) by (simp add: d(1) select_one_update)
  then have "stored_run (s\<lparr>rs_db := db'\<rparr>) (rc_run_id c) = Some (rr_status r, rc_checkpoint_version c + 1)"
    by (simp add: stored_run_def v)
  then obtain e s' where e: "checkpoint_run env c status2 nxt state evs (s\<lparr>rs_db := db'\<rparr>) = (Inl e, s')"
    using run_store.checkpoint_stale [of "s\<lparr>rs_db := db'\<rparr>" c] by fastforce
  then show ?thesis using commit_checkpoint_Inl unfolding checkpoint_run_def by fastforce
qed

text \<open>C28: the store follows the run. When a run of the read-only agent on this store returns after at
  least one step, the newest checkpoint is its final context and the row of the run has its status and
  version; resuming gives exactly that context, unless the run was stopped by its step limit: then
  every resumption fails.\<close>

theorem run_leaves_its_checkpoint:
  assumes "agent_run env i c budget ps = (Inr res, ps')" "pl_checkpoint env = checkpoint_run renv"
    "logs_ok (rs_db (ps_store ps))" "ar_steps res \<noteq> []"
  shows "load_latest_checkpoint (rc_run_id c) (rc_tenant_id c) (rs_db (ps_store ps')) = Some (ar_context res) \<and>
    stored_run (ps_store ps') (rc_run_id c) = Some (rc_status (ar_context res), rc_checkpoint_version (ar_context res)) \<and>
    (6 < rc_step_count (ar_context res) \<longrightarrow> resume_run (rc_run_id c) (rc_tenant_id c) (ps_store ps') = Inl ValidationError)"
proof -
  have k: "load_latest_checkpoint (rc_run_id c) (rc_tenant_id c) (rs_db (ps_store ps')) = Some (ar_context res)"
    "stored_run (ps_store ps') (rc_run_id c) = Some (rc_status (ar_context res), rc_checkpoint_version (ar_context res))"
    using agent_run_checkpointed [OF assms(1-3)] assms(4) by (auto simp: run_checkpointed_def)
  then show ?thesis by (simp add: resume_run_def valid_run_context_def)
qed

section \<open>Witnesses\<close>

definition demo_repository :: repository_env where
  "demo_repository =
     \<lparr>rv_uuid = (\<lambda>n. replicate n CHR ''u''), rv_clock = int, rv_codec = demo_codec,
      rv_state_digest = (\<lambda>c. ''sha256:'')\<rparr>"

definition demo_store :: repository_state where
  "demo_store =
     \<lparr>rs_db = empty_db\<lparr>db_runs := [demo_run_row\<lparr>rr_run_id := ''run'', rr_conversation_id := ''c''\<rparr>]\<rparr>, rs_tick = 0\<rparr>"

definition demo_events :: "domain_event list" where
  "demo_events = [event ET_TOOL_CALLED [(''tool_name'', PStr ''get_order_status'')], event ET_STEP_COMPLETED []]"

definition demo_checkpoint :: "int result \<times> repository_state" where
  "demo_checkpoint = checkpoint_run demo_repository demo_context RS_RUNNING_READONLY ''agent'' [] demo_events demo_store"

lemma demo_logs_ok: "logs_ok (rs_db demo_store)"
  by code_simp

lemma demo_checkpoint_value: "fst demo_checkpoint = Inr 1"
  by code_simp

lemma demo_checkpoint_Inr:
  "checkpoint_run demo_repository demo_context RS_RUNNING_READONLY ''agent'' [] demo_events demo_store = (Inr 1, snd demo_checkpoint)"
  unfolding demo_checkpoint_def [symmetric] by (metis demo_checkpoint_value prod.collapse)

lemma second_commit_conflicts_witness:
  "\<exists>s. checkpoint_run demo_repository demo_context RS_WAITING_USER ''other'' [] [event ET_WAITING_FOR_USER []]
     (snd demo_checkpoint) = (Inl VersionConflictError, s)"
  using second_commit_conflicts [OF demo_checkpoint_Inr, of demo_context "[event ET_WAITING_FOR_USER []]"] by blast

lemma checkpoint_resume_roundtrip_witness:
  "resume_run ''run'' ''t'' (snd demo_checkpoint) =
     Inr (Some (demo_context\<lparr>rc_step_count := 1, rc_checkpoint_version := 1\<rparr>))"
proof -
  have "checkpointed_context demo_context RS_RUNNING_READONLY [] 1 =
      demo_context\<lparr>rc_step_count := 1, rc_checkpoint_version := 1\<rparr>" by code_simp
  moreover have "valid_run_context (demo_context\<lparr>rc_step_count := 1, rc_checkpoint_version := 1\<rparr>)" by code_simp
  moreover have "rc_run_id demo_context = ''run'' \<and> rc_tenant_id demo_context = ''t''" by code_simp
  ultimately show ?thesis
    using checkpoint_resume_roundtrip [OF demo_checkpoint_Inr demo_logs_ok] by simp
qed

lemma committed_events_replay_witness:
  "\<exists>xs. replay_events demo_codec (rc_run_id demo_context) (rc_tenant_id demo_context)
     (last_event_seq (rc_run_id demo_context) (rs_db demo_store)) 10 None (rs_db (snd demo_checkpoint)) = Inr xs \<and>
     map vx_event xs = demo_events"
proof -
  have "rv_codec demo_repository = demo_codec" by (simp add: demo_repository_def)
  moreover have "list_all (presentable demo_codec) demo_events" "str_field 64 (rc_tenant_id demo_context)"
    "str_field 64 ''agent''" "length demo_events = 2"
    by code_simp+
  ultimately show ?thesis
    using committed_events_replay [OF demo_checkpoint_Inr demo_logs_ok, of 10] by simp
qed

definition demo_reason :: "nat result \<times> runtime_db" where
  "demo_reason = set_terminal_reason 7 ''run'' ''t'' (Some ''NO_PROGRESS'') (rs_db demo_store)"

lemma recorded_reason_strands_run_witness:
  "fst (checkpoint_run demo_repository demo_context RS_COMPLETED ''terminal'' [] demo_events demo_store) = Inr 1 \<and>
   (\<exists>e s'. checkpoint_run demo_repository demo_context RS_COMPLETED ''terminal'' [] demo_events
     (demo_store\<lparr>rs_db := snd demo_reason\<rparr>) = (Inl e, s'))"
proof -
  have "fst demo_reason = Inr 1" by code_simp
  then have r: "set_terminal_reason 7 (rc_run_id demo_context) ''t'' (Some ''NO_PROGRESS'') (rs_db demo_store) = (Inr 1, snd demo_reason)"
    unfolding demo_reason_def by (metis demo_context_def prod.collapse run_context.select_convs(1))
  have "stored_run demo_store (rc_run_id demo_context) = Some (RS_RUNNING_READONLY, rc_checkpoint_version demo_context)"
    "load_run_row (rc_run_id demo_context) ''t'' (rs_db demo_store) \<noteq> None"
    "fst (checkpoint_run demo_repository demo_context RS_COMPLETED ''terminal'' [] demo_events demo_store) = Inr 1"
    by code_simp+
  then show ?thesis using recorded_reason_strands_run [OF _ _ r] by blast
qed

definition stored_pipeline :: "(unit, repository_state) pipeline_env" where
  "stored_pipeline =
     \<lparr>pl_agent = knowledge_env, pl_build = pl_build knowledge_pipeline,
      pl_checkpoint = checkpoint_run demo_repository\<rparr>"

definition stored_start :: "(unit, repository_state) pipeline_state" where
  "stored_start = \<lparr>ps_tools = ps_tools knowledge_start, ps_store = demo_store\<rparr>"

definition stored_agent_run :: "agent_run_result result \<times> (unit, repository_state) pipeline_state" where
  "stored_agent_run = agent_run stored_pipeline (demo_inputs\<lparr>ri_cancelled := (\<lambda>w. (Inr True, w))\<rparr>)
     demo_context None stored_start"

lemma stored_agent_run_ends:
  "(case fst stored_agent_run of Inl e \<Rightarrow> False | Inr res \<Rightarrow> length (ar_steps res) = 1)"
  by code_simp

lemma run_leaves_its_checkpoint_witness:
  "\<exists>res ps'. stored_agent_run = (Inr res, ps') \<and>
     load_latest_checkpoint (rc_run_id demo_context) (rc_tenant_id demo_context) (rs_db (ps_store ps')) = Some (ar_context res)"
proof -
  obtain r ps' where r: "stored_agent_run = (r, ps')" by (metis surj_pair)
  have "(case r of Inl e \<Rightarrow> False | Inr res \<Rightarrow> length (ar_steps res) = 1)"
    using stored_agent_run_ends unfolding r fst_conv .
  then obtain res where "r = Inr res" "length (ar_steps res) = 1" by (cases r) auto
  then have res: "r = Inr res" "ar_steps res \<noteq> []" by auto
  have "pl_checkpoint stored_pipeline = checkpoint_run demo_repository" by (simp add: stored_pipeline_def)
  moreover have "logs_ok (rs_db (ps_store stored_start))" using demo_logs_ok by (simp add: stored_start_def)
  ultimately show ?thesis
    using run_leaves_its_checkpoint [OF r [unfolded stored_agent_run_def res(1)]] r res by blast
qed

end
