(* ===== verification/Routing.thy ===== *)
theory Routing
  imports RunStateMachine
begin

text \<open>
  The intent router: \<open>confidence.py\<close> (calibration curves), \<open>response_policy.py\<close>, \<open>router.py\<close>
  (rules, decision, the fail-closed \<open>decide\<close>) and \<open>route_catalog.py\<close> (the versioned rule table and
  the slot hints) of \<open>src/orchestration\<close>.
\<close>

section \<open>Confidence calibration\<close>

record calibrated_confidence =
  cal_overall :: rat
  cal_domain :: rat
  cal_risk :: rat

datatype dimension = DIM_DOMAIN | DIM_RISK

definition curve_points :: "dimension \<Rightarrow> (rat \<times> rat) list" where
  "curve_points dm =
     (if dm = DIM_DOMAIN
      then [(0, 0), (50/100, 40/100), (70/100, 60/100), (80/100, 72/100), (90/100, 84/100),
            (95/100, 91/100), (1, 97/100)]
      else [(0, 0), (50/100, 35/100), (70/100, 58/100), (80/100, 70/100), (90/100, 84/100),
            (95/100, 92/100), (1, 98/100)])"

text \<open>
  The loop over \<open>zip(points, points[1:], strict=True)\<close>. The second list is shorter, so the strict
  \<open>zip\<close> raises once its pairs are used up: the \<open>return\<close> after the loop is never reached.
\<close>

fun curve_walk :: "(rat \<times> rat) list \<Rightarrow> rat \<Rightarrow> rat result" where
  "curve_walk ((lx, ly) # (rx, ry) # ps) v =
     (if v \<le> rx then Inr (round_to 6 (ly + (v - lx) / (rx - lx) * (ry - ly)))
      else curve_walk ((rx, ry) # ps) v)"
| "curve_walk _ v = Inl (ValueError ''zip'')"

definition conservative_curve :: "rat \<Rightarrow> dimension \<Rightarrow> rat result" where
  "conservative_curve raw dm = curve_walk (curve_points dm) (min 1 (max 0 raw))"

definition calibrate_classification :: "intent_classification \<Rightarrow> calibrated_confidence result" where
  "calibrate_classification c =
     bind_res (if ic_domain c = RD_UNKNOWN then Inr 0
               else conservative_curve
                 (case ic_domain_confidence c of None \<Rightarrow> ic_confidence c | Some x \<Rightarrow> x) DIM_DOMAIN)
       (\<lambda>rdm. bind_res (if ic_request_risk_level c = RL_UNKNOWN then Inr 0
               else conservative_curve
                 (case ic_risk_confidence c of None \<Rightarrow> ic_confidence c | Some x \<Rightarrow> x) DIM_RISK)
       (\<lambda>risk. Inr \<lparr>cal_overall = ic_confidence c, cal_domain = rdm, cal_risk = risk\<rparr>))"

fun rising :: "(rat \<times> rat) list \<Rightarrow> bool" where
  "rising ((lx, ly) # (rx, ry) # ps) = (lx < rx \<and> ly \<le> ry \<and> rising ((rx, ry) # ps))"
| "rising _ = True"

lemma segment_mono:
  fixes v w :: rat
  assumes "lx < rx" "ly \<le> ry" "v \<le> w"
  shows "ly + (v - lx) / (rx - lx) * (ry - ly) \<le> ly + (w - lx) / (rx - lx) * (ry - ly)"
  using assms by (intro add_left_mono mult_right_mono divide_right_mono) auto

lemma segment_right:
  fixes lx rx :: rat
  assumes "lx < rx"
  shows "ly + (rx - lx) / (rx - lx) * (ry - ly) = ry"
  using assms by simp

lemma curve_walk_lower:
  "rising ps \<Longrightarrow> ps \<noteq> [] \<Longrightarrow> fst (hd ps) \<le> v \<Longrightarrow> curve_walk ps v = Inr y \<Longrightarrow>
     round_to 6 (snd (hd ps)) \<le> y"
proof (induction ps v rule: curve_walk.induct)
  case (1 lx ly rx ry ps v)
  show ?case
  proof (cases "v \<le> rx")
    case True
    have "ly \<le> ly + (v - lx) / (rx - lx) * (ry - ly)" using 1 by auto
    then show ?thesis using 1 True by (auto intro: round_to_mono)
  next
    case False
    then have "round_to 6 ry \<le> y" using 1 by auto
    moreover have "round_to 6 ly \<le> round_to 6 ry" using 1 by (auto intro: round_to_mono)
    ultimately show ?thesis by simp
  qed
qed auto

lemma curve_walk_mono:
  "rising ps \<Longrightarrow> v \<le> w \<Longrightarrow> curve_walk ps w = Inr z \<Longrightarrow> \<exists>y. curve_walk ps v = Inr y \<and> y \<le> z"
proof (induction ps w arbitrary: v rule: curve_walk.induct)
  case (1 lx ly rx ry ps w)
  show ?case
  proof (cases "w \<le> rx")
    case True
    then show ?thesis
      using 1 round_to_mono [OF segment_mono [of lx rx ly ry v w], of 6] by (auto simp del: times_divide_eq_left)
  next
    case w: False
    show ?thesis
    proof (cases "v \<le> rx")
      case True
      have "ly + (v - lx) / (rx - lx) * (ry - ly) \<le> ry"
        using segment_mono [of lx rx ly ry v rx] 1 True segment_right [of lx rx ly ry] by auto
      moreover have "round_to 6 ry \<le> z"
        using curve_walk_lower [of "(rx, ry) # ps" w z] 1 w by auto
      ultimately show ?thesis using True round_to_mono [of _ ry 6] by (auto intro: order_trans)
    next
      case False
      then show ?thesis using 1 w by auto
    qed
  qed
qed auto

lemma curve_points_rising [simp]: "rising (curve_points dm)"
  by (simp add: curve_points_def)

lemma curve_at_one: "curve_walk (curve_points dm) 1 = Inr (if dm = DIM_DOMAIN then 97/100 else 98/100)"
  by (simp add: curve_points_def round_to_def round_even_def)

lemma conservative_curve_mono:
  assumes "conservative_curve w dm = Inr z" "v \<le> w"
  shows "\<exists>y. conservative_curve v dm = Inr y \<and> y \<le> z"
  using assms curve_walk_mono [of "curve_points dm" "min 1 (max 0 v)" "min 1 (max 0 w)"]
  by (auto simp: conservative_curve_def)

lemma conservative_curve_total:
  "\<exists>y. conservative_curve v dm = Inr y \<and> 0 \<le> y \<and> y \<le> (if dm = DIM_DOMAIN then 97/100 else 98/100)"
proof -
  let ?v = "min 1 (max 0 v)"
  obtain y where y: "curve_walk (curve_points dm) ?v = Inr y"
    "y \<le> (if dm = DIM_DOMAIN then 97/100 else 98/100)"
    using curve_walk_mono [of "curve_points dm" ?v 1] curve_at_one [of dm] by auto
  have "round_to 6 (snd (hd (curve_points dm))) \<le> y"
    by (rule curve_walk_lower [OF curve_points_rising _ _ y(1)]) (simp_all add: curve_points_def)
  then have "0 \<le> y"
    using round_even_of_int [of 0] by (simp add: curve_points_def round_to_def split: if_splits)
  then show ?thesis using y by (auto simp: conservative_curve_def)
qed

lemma calibrate_total:
  "\<exists>k. calibrate_classification c = Inr k \<and> 0 \<le> cal_domain k \<and> cal_domain k \<le> 97/100 \<and>
     0 \<le> cal_risk k \<and> cal_risk k \<le> 98/100 \<and>
     (ic_domain c = RD_UNKNOWN \<longrightarrow> cal_domain k = 0) \<and>
     (ic_request_risk_level c = RL_UNKNOWN \<longrightarrow> cal_risk k = 0)"
proof -
  let ?d = "case ic_domain_confidence c of None \<Rightarrow> ic_confidence c | Some x \<Rightarrow> x"
  let ?r = "case ic_risk_confidence c of None \<Rightarrow> ic_confidence c | Some x \<Rightarrow> x"
  show ?thesis
    using conservative_curve_total [of ?d DIM_DOMAIN] conservative_curve_total [of ?r DIM_RISK]
    by (auto simp: calibrate_classification_def)
qed

section \<open>Response policy\<close>

definition policy_is_conversational :: "response_policy \<Rightarrow> bool" where
  "policy_is_conversational p \<longleftrightarrow> p \<in> {RP_CONVERSATIONAL_RESPONSE, RP_GRACEFUL_UNSUPPORTED}"

definition conversational_route_allowed ::
  "response_policy \<Rightarrow> request_domain \<Rightarrow> request_risk_level \<Rightarrow> bool" where
  "conversational_route_allowed policy rdm risk =
     (if \<not> policy_is_conversational policy then True
      else risk = RL_LOW \<and> rdm \<in> {RD_SOCIAL, RD_CAPABILITY, RD_UNSUPPORTED})"

section \<open>The router\<close>

datatype route_outcome = RO_EXECUTE | RO_ASK_USER | RO_HANDOFF

record route_decision =
  rd_outcome :: route_outcome
  rd_execution_mode :: "execution_mode option"
  rd_workflow_id :: "string option"
  rd_workflow_version :: "string option"
  rd_intent :: "string option"
  rd_reason_code :: string
  rd_response_policy :: response_policy
  rd_request_domain :: request_domain
  rd_request_risk_level :: request_risk_level

definition has_target :: "route_decision \<Rightarrow> bool" where
  "has_target d \<longleftrightarrow>
     rd_execution_mode d \<noteq> None \<and> rd_workflow_id d \<noteq> None \<and> rd_workflow_version d \<noteq> None \<and>
     rd_intent d \<noteq> None"

text \<open>The field constraints and \<open>require_complete_execute_target\<close>.\<close>

definition route_decision_fields :: "route_decision \<Rightarrow> bool" where
  "route_decision_fields d \<longleftrightarrow>
     opt_field (str_field 128) (rd_workflow_id d) \<and> opt_field (str_field 64) (rd_workflow_version d) \<and>
     opt_field (str_field 128) (rd_intent d) \<and> str_field 128 (rd_reason_code d)"

definition make_route_decision :: "route_decision \<Rightarrow> route_decision result" where
  "make_route_decision d =
     (let execute = (rd_outcome d = RO_EXECUTE) in
      if \<not> route_decision_fields d then Inl ValidationError
      else if execute \<noteq> has_target d then Inl ValidationError
      else if \<not> execute \<and> has_target d then Inl ValidationError
      else Inr d)"

record intent_route_rule =
  ir_intent :: string
  ir_execution_mode :: execution_mode
  ir_workflow_id :: string
  ir_workflow_version :: string
  ir_min_confidence :: rat
  ir_force_handoff :: bool
  ir_response_policy :: response_policy
  ir_domain :: "request_domain option"
  ir_min_domain_confidence :: "rat option"
  ir_min_risk_confidence :: "rat option"

text \<open>\<open>IntentRouter.__init__\<close>: the dict by intent has as many entries as the rules, or it raises.\<close>

definition make_router :: "intent_route_rule list \<Rightarrow> (string \<times> intent_route_rule) list result" where
  "make_router rules =
     (let d = foldl (\<lambda>d r. dset d (ir_intent r) r) [] rules in
      if length d \<noteq> length rules then Inl (ValueError ''duplicate intent route rule'') else Inr d)"

definition bare_decision :: "route_outcome \<Rightarrow> string \<Rightarrow> route_decision" where
  "bare_decision out code =
     \<lparr>rd_outcome = out, rd_execution_mode = None, rd_workflow_id = None, rd_workflow_version = None,
      rd_intent = None, rd_reason_code = code, rd_response_policy = RP_EXECUTE,
      rd_request_domain = RD_UNKNOWN, rd_request_risk_level = RL_UNKNOWN\<rparr>"

definition route_handoff :: "string \<Rightarrow> route_decision result" where
  "route_handoff code = make_route_decision (bare_decision RO_HANDOFF code)"

definition route_ask_user :: "string \<Rightarrow> route_decision result" where
  "route_ask_user code = make_route_decision (bare_decision RO_ASK_USER code)"

text \<open>The block for a rule whose policy is not \<open>EXECUTE\<close>: a decision that ends the routing, or none.\<close>

definition conversational_gate ::
  "intent_route_rule \<Rightarrow> intent_classification \<Rightarrow> route_decision option result" where
  "conversational_gate rule c =
     bind_res (calibrate_classification c) (\<lambda>k.
       if (case ir_min_domain_confidence rule of None \<Rightarrow> False | Some m \<Rightarrow> cal_domain k < m)
       then bind_res (route_ask_user ''LOW_DOMAIN_CONFIDENCE'') (Inr \<circ> Some)
       else if (case ir_min_risk_confidence rule of None \<Rightarrow> False | Some m \<Rightarrow> cal_risk k < m)
       then bind_res (route_handoff ''LOW_RISK_CONFIDENCE'') (Inr \<circ> Some)
       else if \<not> conversational_route_allowed (ir_response_policy rule) (ic_domain c) (ic_request_risk_level c)
       then bind_res (route_handoff ''NON_LOW_RISK_CONVERSATIONAL_REQUEST'') (Inr \<circ> Some)
       else if (case ir_domain rule of None \<Rightarrow> False | Some d \<Rightarrow> ic_domain c \<noteq> d)
       then bind_res (route_handoff ''DOMAIN_ROUTE_CONFLICT'') (Inr \<circ> Some)
       else Inr None)"

text \<open>The escalation of the execution mode by the two risk dimensions: \<open>Inl\<close> is a handoff code.\<close>

definition escalate_mode ::
  "execution_mode \<Rightarrow> risk_hint \<Rightarrow> tool_risk option \<Rightarrow> string + execution_mode" where
  "escalate_mode mode hint tool_risk =
     (if hint = RH_WRITE \<and> mode = EM_READONLY_LOOP then Inl ''CLASSIFICATION_RISK_CONFLICT''
      else let mode' = (if hint = RH_WRITE then EM_WORKFLOW else mode) in
        if tool_risk \<noteq> None \<and> tool_risk \<noteq> Some TR_READ_ONLY then
          (if mode' = EM_READONLY_LOOP then Inl ''TOOL_RISK_CONFLICT'' else Inr EM_WORKFLOW)
        else Inr mode')"

definition execute_decision ::
  "intent_route_rule \<Rightarrow> intent_classification \<Rightarrow> execution_mode \<Rightarrow> route_decision" where
  "execute_decision rule c mode =
     \<lparr>rd_outcome = RO_EXECUTE, rd_execution_mode = Some mode,
      rd_workflow_id = Some (ir_workflow_id rule), rd_workflow_version = Some (ir_workflow_version rule),
      rd_intent = Some (ir_intent rule), rd_reason_code = ''ROUTE_RULE_MATCHED'',
      rd_response_policy = ir_response_policy rule, rd_request_domain = ic_domain c,
      rd_request_risk_level = ic_request_risk_level c\<rparr>"

definition decide ::
  "(string \<times> intent_route_rule) list \<Rightarrow> intent_classification \<Rightarrow> tool_risk option \<Rightarrow> route_decision result"
where
  "decide rules c tool_risk =
     (case dget rules (ic_intent c) of
        None \<Rightarrow> route_handoff ''UNKNOWN_INTENT''
      | Some rule \<Rightarrow>
          if ir_force_handoff rule then route_handoff ''INTENT_REQUIRES_HUMAN''
          else if ic_confidence c < ir_min_confidence rule
          then route_ask_user ''LOW_CLASSIFICATION_CONFIDENCE''
          else bind_res
            (if ir_response_policy rule \<noteq> RP_EXECUTE then conversational_gate rule c else Inr None)
            (\<lambda>stop. case stop of
                Some d \<Rightarrow> Inr d
              | None \<Rightarrow>
                  (case escalate_mode (ir_execution_mode rule) (ic_risk_hint c) tool_risk of
                     Inl code \<Rightarrow> route_handoff code
                   | Inr mode \<Rightarrow> make_route_decision (execute_decision rule c mode))))"

lemma make_route_decision_Inr:
  "make_route_decision d = Inr e \<longleftrightarrow>
     e = d \<and> route_decision_fields d \<and> (rd_outcome d = RO_EXECUTE \<longleftrightarrow> has_target d)"
  by (auto simp: make_route_decision_def Let_def)

lemma bare_decision_ok:
  "out \<noteq> RO_EXECUTE \<Longrightarrow> str_field 128 code \<Longrightarrow>
     make_route_decision (bare_decision out code) = Inr (bare_decision out code)"
  by (simp add: make_route_decision_Inr bare_decision_def route_decision_fields_def has_target_def)

lemma bare_decision_outcome [simp]: "rd_outcome (bare_decision out code) = out"
  by (simp add: bare_decision_def)

lemma execute_decision_ok:
  assumes "str_field 128 (ir_workflow_id rule)" "str_field 64 (ir_workflow_version rule)"
    "str_field 128 (ir_intent rule)"
  shows "make_route_decision (execute_decision rule c mode) = Inr (execute_decision rule c mode)"
  using assms
  by (simp add: make_route_decision_Inr execute_decision_def route_decision_fields_def has_target_def str_field_short)

lemma conversational_gate_stops:
  "conversational_gate rule c = Inr (Some d) \<Longrightarrow> rd_outcome d \<noteq> RO_EXECUTE"
  by (auto simp: conversational_gate_def bind_res_eq_Inr route_ask_user_def route_handoff_def
      make_route_decision_Inr split: if_splits)

lemma escalate_mode_readonly:
  "escalate_mode mode hint tool_risk = Inr EM_READONLY_LOOP \<Longrightarrow>
     mode = EM_READONLY_LOOP \<and> hint \<noteq> RH_WRITE \<and> (tool_risk = None \<or> tool_risk = Some TR_READ_ONLY)"
  by (auto simp: escalate_mode_def Let_def split: if_splits)

lemma decide_execute_cases:
  assumes "decide rules c tr = Inr d" "rd_outcome d = RO_EXECUTE"
  obtains rule mode where "dget rules (ic_intent c) = Some rule" "\<not> ir_force_handoff rule"
    "ir_min_confidence rule \<le> ic_confidence c"
    "ir_response_policy rule \<noteq> RP_EXECUTE \<longrightarrow> conversational_gate rule c = Inr None"
    "escalate_mode (ir_execution_mode rule) (ic_risk_hint c) tr = Inr mode"
    "d = execute_decision rule c mode"
proof -
  note bare = route_handoff_def route_ask_user_def make_route_decision_Inr
  obtain rule where r: "dget rules (ic_intent c) = Some rule"
    using assms by (auto simp: decide_def bare split: option.splits)
  have nf: "\<not> ir_force_handoff rule" "ir_min_confidence rule \<le> ic_confidence c"
    using assms r by (auto simp: decide_def bare split: if_splits)
  obtain stop where s:
    "(if ir_response_policy rule \<noteq> RP_EXECUTE then conversational_gate rule c else Inr None) = Inr stop"
    "(case stop of Some e \<Rightarrow> Inr e | None \<Rightarrow>
        (case escalate_mode (ir_execution_mode rule) (ic_risk_hint c) tr of
           Inl code \<Rightarrow> route_handoff code
         | Inr mode \<Rightarrow> make_route_decision (execute_decision rule c mode))) = Inr d"
    using assms(1) r nf by (auto simp: decide_def bind_res_eq_Inr simp del: if_split split: if_split_asm)
  have "stop = None"
    using s assms(2) conversational_gate_stops [of rule c] by (cases stop) (auto split: if_splits)
  then obtain mode where "escalate_mode (ir_execution_mode rule) (ic_risk_hint c) tr = Inr mode"
    "d = execute_decision rule c mode"
    using s(2) assms(2) by (auto simp: bare split: sum.splits)
  then show ?thesis using that r nf s(1) \<open>stop = None\<close> by (auto split: if_splits)
qed

lemma bare_decision_policy [simp]: "rd_response_policy (bare_decision out code) = RP_EXECUTE"
  by (simp add: bare_decision_def)

lemma decide_conversational_rule:
  assumes "decide rules c tr = Inr d" "dget rules (ic_intent c) = Some rule"
    "policy_is_conversational (rd_response_policy d)"
  shows "ir_response_policy rule \<noteq> RP_EXECUTE"
proof
  assume "ir_response_policy rule = RP_EXECUTE"
  then have "rd_response_policy d = RP_EXECUTE"
    using assms(1,2)
    by (auto simp: decide_def route_handoff_def route_ask_user_def make_route_decision_Inr
        execute_decision_def split: if_splits sum.splits)
  then show False using assms(3) by (simp add: policy_is_conversational_def)
qed

lemma conversational_gate_passes:
  assumes "conversational_gate rule c = Inr None" "policy_is_conversational (ir_response_policy rule)"
  shows "ic_request_risk_level c = RL_LOW \<and> ic_domain c \<in> {RD_SOCIAL, RD_CAPABILITY, RD_UNSUPPORTED} \<and>
    (\<forall>rdm. ir_domain rule = Some rdm \<longrightarrow> ic_domain c = rdm) \<and>
    (\<exists>k. calibrate_classification c = Inr k \<and>
       (\<forall>m. ir_min_domain_confidence rule = Some m \<longrightarrow> m \<le> cal_domain k) \<and>
       (\<forall>m. ir_min_risk_confidence rule = Some m \<longrightarrow> m \<le> cal_risk k))"
  using assms
  by (auto simp: conversational_gate_def bind_res_eq_Inr conversational_route_allowed_def
      split: if_splits option.splits)

section \<open>The route catalog\<close>

definition route_rule :: "string \<Rightarrow> execution_mode \<Rightarrow> string \<Rightarrow> intent_route_rule" where
  "route_rule intent mode route =
     \<lparr>ir_intent = intent, ir_execution_mode = mode, ir_workflow_id = route, ir_workflow_version = ''1'',
      ir_min_confidence = 8/10, ir_force_handoff = False, ir_response_policy = RP_EXECUTE,
      ir_domain = None, ir_min_domain_confidence = None, ir_min_risk_confidence = None\<rparr>"

definition catalog_entries :: "(string \<times> execution_mode \<times> string) list" where
  "catalog_entries =
    [(''add_product'', EM_WORKFLOW, ''cart_management''),
     (''remove_product'', EM_WORKFLOW, ''cart_management''),
     (''cancel_order'', EM_WORKFLOW, ''cancel_order''),
     (''change_order'', EM_WORKFLOW, ''change_order''),
     (''request_invoice'', EM_WORKFLOW, ''invoice_request''),
     (''track_order'', EM_READONLY_LOOP, ''order_query''),
     (''order_history'', EM_READONLY_LOOP, ''order_query''),
     (''track_delivery'', EM_READONLY_LOOP, ''delivery_query''),
     (''delivery_time'', EM_READONLY_LOOP, ''delivery_query''),
     (''delivery_issue'', EM_WORKFLOW, ''delivery_issue''),
     (''missing_item'', EM_WORKFLOW, ''delivery_issue''),
     (''damaged_delivery'', EM_WORKFLOW, ''delivery_issue''),
     (''wrong_item'', EM_WORKFLOW, ''delivery_issue''),
     (''shipping_costs'', EM_READONLY_LOOP, ''shipping_policy''),
     (''request_refund'', EM_WORKFLOW, ''refund''),
     (''refund_status'', EM_READONLY_LOOP, ''refund_query''),
     (''refund_policy'', EM_READONLY_LOOP, ''refund_policy''),
     (''return_policy'', EM_READONLY_LOOP, ''return_policy''),
     (''return_product'', EM_WORKFLOW, ''return''),
     (''exchange_product'', EM_WORKFLOW, ''exchange''),
     (''availability'', EM_READONLY_LOOP, ''catalog_query''),
     (''product_information'', EM_READONLY_LOOP, ''catalog_query''),
     (''product_issue'', EM_READONLY_LOOP, ''product_query''),
     (''pay'', EM_WORKFLOW, ''checkout''),
     (''payment_issue'', EM_READONLY_LOOP, ''payment_query''),
     (''payment_methods'', EM_READONLY_LOOP, ''payment_policy''),
     (''customer_service'', EM_READONLY_LOOP, ''customer_service''),
     (''technical_issue'', EM_READONLY_LOOP, ''technical_support''),
     (''sales_period'', EM_READONLY_LOOP, ''sales_policy'')]"

definition default_intent_route_rules :: "intent_route_rule list" where
  "default_intent_route_rules =
     map (\<lambda>(intent, mode, route). route_rule intent mode route) catalog_entries @
     [(route_rule ''human_agent'' EM_READONLY_LOOP ''human_agent'') \<lparr>ir_force_handoff := True\<rparr>]"

definition conversational_rule :: "string \<Rightarrow> response_policy \<Rightarrow> request_domain \<Rightarrow> intent_route_rule" where
  "conversational_rule intent policy rdm =
     (route_rule intent EM_READONLY_LOOP ''conversational_response'')
       \<lparr>ir_response_policy := policy, ir_domain := Some rdm,
        ir_min_domain_confidence := Some (8/10), ir_min_risk_confidence := Some (8/10)\<rparr>"

definition conversational_rules :: "intent_route_rule list" where
  "conversational_rules =
    [conversational_rule ''greeting'' RP_CONVERSATIONAL_RESPONSE RD_SOCIAL,
     conversational_rule ''thanks'' RP_CONVERSATIONAL_RESPONSE RD_SOCIAL,
     conversational_rule ''social_chat'' RP_CONVERSATIONAL_RESPONSE RD_SOCIAL,
     conversational_rule ''capability_query'' RP_CONVERSATIONAL_RESPONSE RD_CAPABILITY,
     conversational_rule ''unsupported_low_risk'' RP_GRACEFUL_UNSUPPORTED RD_UNSUPPORTED]"

definition intent_route_rules :: "bool \<Rightarrow> bool \<Rightarrow> intent_route_rule list" where
  "intent_route_rules routing_v2 conversational_fallback =
     (if \<not> routing_v2 \<or> \<not> conversational_fallback then default_intent_route_rules
      else default_intent_route_rules @ conversational_rules)"

definition required_slots :: "(string \<times> string list) list" where
  "required_slots =
    [(''track_order'', [''order_id'']),
     (''track_delivery'', [''order_id'']),
     (''delivery_time'', [''order_id'']),
     (''request_refund'', [''order_id'', ''item_id'', ''reason'']),
     (''return_product'', [''order_id'', ''item_id'', ''reason'']),
     (''exchange_product'', [''order_id'', ''item_id'', ''replacement_sku'']),
     (''cancel_order'', [''order_id'', ''reason'']),
     (''change_order'', [''order_id'']),
     (''payment_issue'', [''order_id'']),
     (''refund_status'', [''order_id'']),
     (''request_invoice'', [''order_id'', ''type'', ''title''])]"

definition catalog :: "bool \<Rightarrow> bool \<Rightarrow> (string \<times> intent_route_rule) list" where
  "catalog v2 conv = map (\<lambda>r. (ir_intent r, r)) (intent_route_rules v2 conv)"

lemma make_router_distinct:
  "distinct (map ir_intent rules) \<Longrightarrow> make_router rules = Inr (map (\<lambda>r. (ir_intent r, r)) rules)"
  using foldl_dset_distinct [of ir_intent "[]" rules] by (simp add: make_router_def Let_def)

lemma all_intents_distinct:
  "distinct (map ir_intent (default_intent_route_rules @ conversational_rules))"
  by code_simp

lemma catalog_intents_distinct: "distinct (map ir_intent (intent_route_rules v2 conv))"
  using all_intents_distinct by (auto simp: intent_route_rules_def)

lemma make_router_catalog: "make_router (intent_route_rules v2 conv) = Inr (catalog v2 conv)"
  by (simp add: make_router_distinct catalog_intents_distinct catalog_def)

definition rule_fields :: "intent_route_rule \<Rightarrow> bool" where
  "rule_fields r \<longleftrightarrow>
     str_field 128 (ir_intent r) \<and> str_field 128 (ir_workflow_id r) \<and> str_field 64 (ir_workflow_version r)"

lemma all_rule_fields: "list_all rule_fields (default_intent_route_rules @ conversational_rules)"
  by (simp add: default_intent_route_rules_def catalog_entries_def conversational_rules_def
      conversational_rule_def route_rule_def rule_fields_def str_field_short)

lemma catalog_rule_fields: "list_all rule_fields (intent_route_rules v2 conv)"
  using all_rule_fields by (auto simp: intent_route_rules_def)

lemma catalog_lookup:
  "dget (catalog v2 conv) i = Some r \<Longrightarrow>
     r \<in> set (intent_route_rules v2 conv) \<and> ir_intent r = i"
  by (auto simp: catalog_def dest!: map_of_SomeD)

lemma catalog_conversational:
  "r \<in> set (intent_route_rules v2 conv) \<Longrightarrow> ir_response_policy r \<noteq> RP_EXECUTE \<Longrightarrow>
     v2 \<and> conv \<and> policy_is_conversational (ir_response_policy r) \<and> ir_execution_mode r = EM_READONLY_LOOP"
  by (auto simp: intent_route_rules_def default_intent_route_rules_def conversational_rules_def
      conversational_rule_def route_rule_def policy_is_conversational_def split: if_splits)

lemma bare_codes:
  "route_handoff ''UNKNOWN_INTENT'' = Inr (bare_decision RO_HANDOFF ''UNKNOWN_INTENT'')"
  "route_handoff ''INTENT_REQUIRES_HUMAN'' = Inr (bare_decision RO_HANDOFF ''INTENT_REQUIRES_HUMAN'')"
  "route_ask_user ''LOW_CLASSIFICATION_CONFIDENCE'' =
     Inr (bare_decision RO_ASK_USER ''LOW_CLASSIFICATION_CONFIDENCE'')"
  "route_ask_user ''LOW_DOMAIN_CONFIDENCE'' = Inr (bare_decision RO_ASK_USER ''LOW_DOMAIN_CONFIDENCE'')"
  "route_handoff ''LOW_RISK_CONFIDENCE'' = Inr (bare_decision RO_HANDOFF ''LOW_RISK_CONFIDENCE'')"
  "route_handoff ''NON_LOW_RISK_CONVERSATIONAL_REQUEST'' =
     Inr (bare_decision RO_HANDOFF ''NON_LOW_RISK_CONVERSATIONAL_REQUEST'')"
  "route_handoff ''DOMAIN_ROUTE_CONFLICT'' = Inr (bare_decision RO_HANDOFF ''DOMAIN_ROUTE_CONFLICT'')"
  "route_handoff ''CLASSIFICATION_RISK_CONFLICT'' =
     Inr (bare_decision RO_HANDOFF ''CLASSIFICATION_RISK_CONFLICT'')"
  "route_handoff ''TOOL_RISK_CONFLICT'' = Inr (bare_decision RO_HANDOFF ''TOOL_RISK_CONFLICT'')"
  by (simp_all add: route_handoff_def route_ask_user_def bare_decision_ok str_field_short)

lemma conversational_gate_total: "\<exists>x. conversational_gate rule c = Inr x"
proof -
  obtain k where "calibrate_classification c = Inr k" using calibrate_total by blast
  then show ?thesis by (auto simp: conversational_gate_def bare_codes)
qed

lemma escalate_mode_handoff:
  "escalate_mode mode hint tr = Inl code \<Longrightarrow> \<exists>d. route_handoff code = Inr d"
  by (auto simp: escalate_mode_def Let_def bare_codes split: if_splits)

section \<open>Properties\<close>

text \<open>The calibration curves are total (the strict zip never raises), monotone and bounded away
  from certainty: no provider score, however high, is calibrated above 0.97 (domain) or 0.98 (risk).\<close>

theorem calibration_monotone_bounded:
  assumes "v \<le> w"
  shows "\<exists>y z. conservative_curve v dm = Inr y \<and> conservative_curve w dm = Inr z \<and>
    0 \<le> y \<and> y \<le> z \<and> z \<le> (if dm = DIM_DOMAIN then 97/100 else 98/100)"
proof -
  obtain z where z: "conservative_curve w dm = Inr z"
    "z \<le> (if dm = DIM_DOMAIN then 97/100 else 98/100)"
    using conservative_curve_total by blast
  then obtain y where "conservative_curve v dm = Inr y" "y \<le> z"
    using conservative_curve_mono [OF z(1) assms] by blast
  moreover have "0 \<le> y" using conservative_curve_total [of v dm] calculation by auto
  ultimately show ?thesis using z by blast
qed

lemma calibration_monotone_bounded_witness:
  "\<exists>y z. conservative_curve (75/100) DIM_RISK = Inr y \<and> conservative_curve 2 DIM_RISK = Inr z \<and>
    0 \<le> y \<and> y \<le> z \<and> z \<le> 98/100"
  using calibration_monotone_bounded [of "75/100" 2 DIM_RISK] by simp


definition thanks_candidate :: intent_classification where
  "thanks_candidate =
     \<lparr>ic_intent = ''thanks'', ic_risk_hint = RH_READ_ONLY, ic_route_hint = ''social'', ic_confidence = 95/100,
      ic_domain_confidence = None, ic_risk_confidence = None, ic_required_slots = [],
      ic_domain = RD_SOCIAL, ic_request_risk_level = RL_LOW, ic_alternatives = []\<rparr>"


text \<open>With the shipped catalog, under every setting of the feature flags, routing a candidate is
  total: the rule table is accepted, every candidate gets a decision, and the only conversational
  answers come when both flags are set.\<close>

theorem catalog_routing_total:
  "make_router (intent_route_rules v2 conv) = Inr (catalog v2 conv) \<and>
   (\<exists>d. decide (catalog v2 conv) c tr = Inr d \<and>
      (policy_is_conversational (rd_response_policy d) \<longrightarrow> v2 \<and> conv))"
proof (rule conjI [OF make_router_catalog])
  show "\<exists>d. decide (catalog v2 conv) c tr = Inr d \<and>
      (policy_is_conversational (rd_response_policy d) \<longrightarrow> v2 \<and> conv)"
  proof (cases "dget (catalog v2 conv) (ic_intent c)")
    case None
    then show ?thesis
      by (simp add: decide_def bare_codes) (simp add: bare_decision_def policy_is_conversational_def)
  next
    case (Some rule)
    have rule: "rule \<in> set (intent_route_rules v2 conv)" using catalog_lookup [OF Some] by simp
    have ex: "make_route_decision (execute_decision rule c mode) = Inr (execute_decision rule c mode)" for mode
      using catalog_rule_fields [of v2 conv] rule by (intro execute_decision_ok) (auto simp: list_all_iff rule_fields_def)
    obtain x where x: "conversational_gate rule c = Inr x" using conversational_gate_total by blast
    have total: "\<exists>d. decide (catalog v2 conv) c tr = Inr d"
      using x ex escalate_mode_handoff [of "ir_execution_mode rule" "ic_risk_hint c" tr]
      by (auto simp: decide_def Some bare_codes split: option.splits sum.splits)
    then obtain d where d: "decide (catalog v2 conv) c tr = Inr d" ..
    have "policy_is_conversational (rd_response_policy d) \<longrightarrow> v2 \<and> conv"
      using catalog_conversational [OF rule] d decide_conversational_rule [OF d Some] by blast
    then show ?thesis using d by blast
  qed
qed

lemma catalog_routing_total_witness:
  "\<exists>d. decide (catalog True True) thanks_candidate None = Inr d \<and> policy_is_conversational (rd_response_policy d)"
proof -
  have "\<not> isl (decide (catalog True True) thanks_candidate None) \<and>
      policy_is_conversational (rd_response_policy (projr (decide (catalog True True) thanks_candidate None)))"
    by code_simp
  moreover obtain d where "decide (catalog True True) thanks_candidate None = Inr d"
    using catalog_routing_total [of True True thanks_candidate None] by blast
  ultimately show ?thesis by simp
qed

end
