(* ===== verification/RunLifecycle.thy ===== *)
theory RunLifecycle
  imports RunStore Routing
begin

text \<open>
  \<open>src/orchestration/run_creation.py\<close> and \<open>src/repositories/run_lifecycle.py\<close>: the configuration frozen
  when a run is created, the repository that creates runs and looks up their definition, and the one
  that stores the executor the router has chosen. Time is the argument \<open>now\<close>; the explicit casts of
  the insert cut a string to the width of its column.
\<close>

section \<open>Creating a run\<close>

record run_creation_spec =
  cs_mode :: "execution_mode option"
  cs_policy_version :: string
  cs_model_config_hash :: string
  cs_prompt_version :: string
  cs_current_step :: string
  cs_max_steps :: int
  cs_deadline_at :: int
  cs_parent_run_id :: "string option"

definition valid_creation_spec :: "run_creation_spec \<Rightarrow> bool" where
  "valid_creation_spec s \<longleftrightarrow>
     str_field 64 (cs_policy_version s) \<and> str_field 80 (cs_model_config_hash s) \<and>
     str_field 64 (cs_prompt_version s) \<and> str_field 64 (cs_current_step s) \<and>
     1 \<le> cs_max_steps s \<and> cs_max_steps s \<le> 6"

definition new_run_row :: "int \<Rightarrow> run_context \<Rightarrow> run_creation_spec \<Rightarrow> string \<Rightarrow> run_row" where
  "new_run_row now c s conversation_id =
     \<lparr>rr_run_id = rc_run_id c, rr_conversation_id = conversation_id, rr_parent_run_id = cs_parent_run_id s,
      rr_tenant_id = slice_to (rc_tenant_id c) 64, rr_actor_ref = slice_to (rc_actor_id c) 128,
      rr_status = rc_status c, rr_mode = cs_mode s,
      rr_workflow_id = map_option (\<lambda>w. slice_to w 64) (rc_workflow_id c),
      rr_workflow_version = map_option (\<lambda>v. slice_to v 32) (rc_workflow_version c),
      rr_pins = \<lparr>pin_policy_version = slice_to (cs_policy_version s) 64,
        pin_model_config_hash = slice_to (cs_model_config_hash s) 80,
        pin_prompt_version = slice_to (cs_prompt_version s) 64,
        pin_max_steps = cs_max_steps s, pin_deadline_at = cs_deadline_at s\<rparr>,
      rr_step = slice_to (cs_current_step s) 64, rr_step_count = 0, rr_reason = None, rr_checkpoint_seq = 0,
      rr_times = \<lparr>rt_accepted_at = Some now, rt_dispatch_started_at = None, rt_terminal_at = None,
        rt_response_published_at = None, rt_created_at = now, rt_updated_at = now\<rparr>, rr_version = 0\<rparr>"

definition owned_conversation :: "run_context \<Rightarrow> conversation_row \<Rightarrow> bool" where
  "owned_conversation c v \<longleftrightarrow>
     cv_id v = rc_conversation_id c \<and> cv_tenant_id v = slice_to (rc_tenant_id c) 64 \<and>
     cv_actor_id v = slice_to (rc_actor_id c) 128"

definition insert_created_run :: "int \<Rightarrow> run_context \<Rightarrow> run_creation_spec \<Rightarrow> runtime_db \<Rightarrow> (unit \<times> runtime_db) result" where
  "insert_created_run now c s db =
     (case select_one (owned_conversation c) (db_conversations db) of
        None \<Rightarrow> Inl (ValueError ''conversation is unavailable for this tenant and actor'')
      | Some v \<Rightarrow> insert_run (new_run_row now c s (cv_id v)) db)"

definition active_run_of :: "string \<Rightarrow> string \<Rightarrow> string \<Rightarrow> run_row \<Rightarrow> bool" where
  "active_run_of conversation_id tenant actor r \<longleftrightarrow>
     rr_conversation_id r = conversation_id \<and> rr_tenant_id r = tenant \<and> rr_actor_ref r = actor \<and>
     \<not> run_terminal (rr_status r)"

text \<open>The newest one; two runs of the same age come in the order the rows are in.\<close>

definition active_for_conversation :: "string \<Rightarrow> string \<Rightarrow> string \<Rightarrow> runtime_db \<Rightarrow> run_snapshot option" where
  "active_for_conversation conversation_id tenant actor db =
     (case sort_key (\<lambda>r. - rt_created_at (rr_times r))
        (filter (active_run_of conversation_id tenant actor) (db_runs db)) of
        [] \<Rightarrow> None | r # _ \<Rightarrow> Some ((snapshot r)\<lparr>sn_terminal_at := None, sn_response_published_at := None\<rparr>))"

definition check_new_run :: "int \<Rightarrow> run_context \<Rightarrow> run_creation_spec \<Rightarrow> unit result" where
  "check_new_run now c s =
     (if rc_status c \<noteq> RS_CREATED then Inl (ValueError ''a persisted run must start in created status'')
      else if rc_step_count c \<noteq> 0 \<or> rc_checkpoint_version c \<noteq> 0
      then Inl (ValueError ''a persisted run must start without completed steps'')
      else if cs_deadline_at s \<le> now then Inl (ValueError ''run deadline must be in the future'')
      else Inr ())"

definition create_run :: "int \<Rightarrow> run_context \<Rightarrow> run_creation_spec \<Rightarrow> runtime_db \<Rightarrow> unit result \<times> runtime_db" where
  "create_run now c s db =
     (case check_new_run now c s of
        Inl e \<Rightarrow> (Inl e, db)
      | Inr u \<Rightarrow>
        (case transaction db (insert_created_run now c s db) of
           (Inl e, db) \<Rightarrow>
             if e = IntegrityError \<and> active_for_conversation (rc_conversation_id c) (rc_tenant_id c) (rc_actor_id c) db \<noteq> None
             then (Inl ActiveRunConflictError, db) else (Inl e, db)
         | (Inr u, db) \<Rightarrow> (Inr (), db)))"

definition cancel_unstarted_run :: "int \<Rightarrow> string \<Rightarrow> string \<Rightarrow> string \<Rightarrow> runtime_db \<Rightarrow> nat result \<times> runtime_db" where
  "cancel_unstarted_run now run_id tenant reason db =
     transaction db (update_runs (\<lambda>r. owned_run run_id tenant r \<and> rr_status r = RS_CREATED)
       (\<lambda>r. (touch_times now (\<lambda>t. t\<lparr>rt_terminal_at := coalesce_now now (rt_terminal_at t)\<rparr>) r)
          \<lparr>rr_status := RS_CANCELLED, rr_step := ''terminal'', rr_reason := Some reason\<rparr>) db)"

record run_definition =
  df_run_id :: string
  df_tenant_id :: string
  df_workflow_id :: "string option"
  df_workflow_version :: "string option"
  df_policy_version :: string
  df_model_config_hash :: string
  df_prompt_version :: string
  df_mode :: "execution_mode option"
  df_current_step :: string
  df_max_steps :: int
  df_deadline_at :: int

definition run_definition_of :: "run_row \<Rightarrow> run_definition" where
  "run_definition_of r =
     \<lparr>df_run_id = rr_run_id r, df_tenant_id = rr_tenant_id r, df_workflow_id = rr_workflow_id r,
      df_workflow_version = rr_workflow_version r, df_policy_version = pin_policy_version (rr_pins r),
      df_model_config_hash = pin_model_config_hash (rr_pins r), df_prompt_version = pin_prompt_version (rr_pins r),
      df_mode = rr_mode r, df_current_step = rr_step r, df_max_steps = pin_max_steps (rr_pins r),
      df_deadline_at = pin_deadline_at (rr_pins r)\<rparr>"

definition load_definition :: "string \<Rightarrow> string \<Rightarrow> runtime_db \<Rightarrow> run_definition option" where
  "load_definition run_id tenant db = map_option run_definition_of (load_run_row run_id tenant db)"

section \<open>Choosing the executor\<close>

type_synonym executor = "execution_mode \<times> string \<times> string"

definition row_executor :: "run_row \<Rightarrow> executor option" where
  "row_executor r =
     (case (rr_mode r, rr_workflow_id r, rr_workflow_version r) of
        (Some m, Some w, Some v) \<Rightarrow> Some (m, w, v) | _ \<Rightarrow> None)"

definition decision_executor :: "route_decision \<Rightarrow> executor option" where
  "decision_executor d =
     (case (rd_execution_mode d, rd_workflow_id d, rd_workflow_version d) of
        (Some m, Some w, Some v) \<Rightarrow> Some (m, w, v) | _ \<Rightarrow> None)"

definition mode_status :: "execution_mode \<Rightarrow> run_status" where
  "mode_status m = (if m = EM_READONLY_LOOP then RS_RUNNING_READONLY else RS_RUNNING_WORKFLOW)"

definition selects_executor :: "string \<Rightarrow> string \<Rightarrow> run_row \<Rightarrow> bool" where
  "selects_executor run_id tenant r \<longleftrightarrow>
     owned_run run_id tenant r \<and> rr_status r \<in> {RS_CREATED, RS_ROUTING} \<and> rr_mode r = None"

text \<open>The statement of each outcome; the assertions on an executing decision are its errors.\<close>

definition route_update :: "int \<Rightarrow> route_decision \<Rightarrow> (run_row \<Rightarrow> run_row) result" where
  "route_update now d =
     (case rd_outcome d of
        RO_HANDOFF \<Rightarrow> Inr (\<lambda>r. (touch_times now id r)
          \<lparr>rr_status := RS_WAITING_HUMAN, rr_step := ''terminal'', rr_reason := Some (rd_reason_code d)\<rparr>)
      | RO_ASK_USER \<Rightarrow> Inr (\<lambda>r. (touch_times now id r)
          \<lparr>rr_status := RS_WAITING_USER, rr_step := ''clarify'', rr_reason := Some (rd_reason_code d)\<rparr>)
      | RO_EXECUTE \<Rightarrow>
          (case decision_executor d of
             None \<Rightarrow> Inl (OtherError ''AssertionError'')
           | Some (m, w, v) \<Rightarrow> Inr (\<lambda>r. (touch_times now id r)
               \<lparr>rr_mode := Some m, rr_workflow_id := Some w, rr_workflow_version := Some v,
                rr_status := mode_status m\<rparr>)))"

definition select_route :: "int \<Rightarrow> run_context \<Rightarrow> route_decision \<Rightarrow> runtime_db \<Rightarrow> unit result \<times> runtime_db" where
  "select_route now c d db =
     (if rc_status c \<notin> {RS_CREATED, RS_ROUTING}
      then (Inl (ValueError ''only a pre-route run can select an executor''), db)
      else (case route_update now d of
        Inl e \<Rightarrow> (Inl e, db)
      | Inr f \<Rightarrow>
        (case transaction db (update_runs (selects_executor (rc_run_id c) (rc_tenant_id c)) f db) of
           (Inl e, db) \<Rightarrow> (Inl e, db)
         | (Inr n, db) \<Rightarrow>
             (if n \<noteq> 1
              then (Inl (ValueError ''route selection was stale, unavailable, or already selected''), db)
              else (Inr (), db)))))"

section \<open>What a route selection does\<close>

text \<open>The executor a run is stored with, the observation the orchestration relies on.\<close>

definition stored_executor :: "runtime_db \<Rightarrow> string \<Rightarrow> executor option" where
  "stored_executor db run_id = Option.bind (select_one (\<lambda>r. rr_run_id r = run_id) (db_runs db)) row_executor"

definition chosen_executor :: "route_decision \<Rightarrow> executor option" where
  "chosen_executor d = (if rd_outcome d = RO_EXECUTE then decision_executor d else None)"

lemma route_update_Inr:
  assumes "route_update now d = Inr f"
  shows "rr_run_id (f r) = rr_run_id r" "rr_conversation_id (f r) = rr_conversation_id r"
    "row_executor (f r) = (case chosen_executor d of None \<Rightarrow> row_executor r | Some x \<Rightarrow> Some x)"
    "rd_outcome d = RO_EXECUTE \<Longrightarrow> chosen_executor d \<noteq> None"
    "rr_status (f r) = (case rd_outcome d of RO_HANDOFF \<Rightarrow> RS_WAITING_HUMAN | RO_ASK_USER \<Rightarrow> RS_WAITING_USER
       | RO_EXECUTE \<Rightarrow> mode_status (fst (the (chosen_executor d))))"
  using assms
  by (auto simp: route_update_def chosen_executor_def row_executor_def touch_times_def split: route_outcome.splits option.splits)

lemma row_executor_modeless: "rr_mode r = None \<Longrightarrow> row_executor r = None"
  by (simp add: row_executor_def)

lemma zero_rows_kept: "update_runs p f db = Inr (0, db') \<Longrightarrow> db' = db"
  by (clarsimp simp: update_runs_Inr update_rows_none)

lemma update_runs_ids:
  "update_runs p f db = Inr (n, db') \<Longrightarrow> (\<And>r. rr_run_id (f r) = rr_run_id r) \<Longrightarrow>
     distinct (map rr_run_id (db_runs db))"
  using runs_okD [of "update_rows p f (db_runs db)"] by (auto simp: update_runs_Inr map_update_rows_same)

lemma selects_one:
  assumes "update_runs (selects_executor run_id tenant) f db = Inr (n, db')" "\<And>r. rr_run_id (f r) = rr_run_id r"
  shows "n = 0 \<or> n = 1"
  using row_count_one [OF update_runs_ids [OF assms], of "selects_executor run_id tenant"] assms(1)
  by (auto simp: update_runs_Inr selects_executor_def owned_run_def)

lemma select_route_Inl:
  assumes "select_route now c d db = (Inl e, db')"
  shows "db' = db"
proof (cases "route_update now d")
  case (Inl e')
  then show ?thesis using assms by (simp add: select_route_def split: if_splits)
next
  case (Inr f)
  show ?thesis
  proof (cases "update_runs (selects_executor (rc_run_id c) (rc_tenant_id c)) f db")
    case Inl
    then show ?thesis using assms Inr by (simp add: select_route_def split: if_splits)
  next
    case (Inr x)
    then obtain n d' where u: "update_runs (selects_executor (rc_run_id c) (rc_tenant_id c)) f db = Inr (n, d')"
      by (cases x) simp
    have "n = 0 \<or> n = 1" using u route_update_Inr(1) [OF \<open>route_update now d = Inr f\<close>] by (rule selects_one)
    then show ?thesis
      using assms \<open>route_update now d = Inr f\<close> u zero_rows_kept by (auto simp: select_route_def split: if_splits)
  qed
qed

lemma select_route_Inr:
  assumes "select_route now c d db = (Inr u, db')"
  obtains f r where "route_update now d = Inr f" "r \<in> set (db_runs db)" "selects_executor (rc_run_id c) (rc_tenant_id c) r"
    "update_runs (selects_executor (rc_run_id c) (rc_tenant_id c)) f db = Inr (1, db')"
    "rc_status c \<in> {RS_CREATED, RS_ROUTING}"
proof -
  have pre: "rc_status c \<in> {RS_CREATED, RS_ROUTING}" using assms by (simp add: select_route_def split: if_splits)
  then obtain f where f: "route_update now d = Inr f"
    using assms by (cases "route_update now d") (auto simp: select_route_def split: if_splits)
  then obtain n d' where upd: "update_runs (selects_executor (rc_run_id c) (rc_tenant_id c)) f db = Inr (n, d')"
    using assms pre by (cases "update_runs (selects_executor (rc_run_id c) (rc_tenant_id c)) f db")
      (auto simp: select_route_def)
  then have "n = 1" "d' = db'" using assms pre f by (auto simp: select_route_def split: if_splits)
  then have "\<not> (\<forall>r\<in>set (db_runs db). \<not> selects_executor (rc_run_id c) (rc_tenant_id c) r)"
    using upd by (auto simp: update_runs_Inr simp flip: row_count_0)
  then show ?thesis using that f upd pre \<open>n = 1\<close> \<open>d' = db'\<close> by blast
qed


lemma select_route_executor:
  assumes "select_route now c d db = (Inr u, db')"
  shows "stored_executor db (rc_run_id c) = None" (is ?before)
    and "stored_executor db' = (case chosen_executor d of None \<Rightarrow> stored_executor db
      | Some x \<Rightarrow> (stored_executor db)(rc_run_id c \<mapsto> x))" (is ?after)
proof -
  let ?p = "selects_executor (rc_run_id c) (rc_tenant_id c)"
  obtain f r where f: "route_update now d = Inr f" and r: "r \<in> set (db_runs db)" "?p r"
    and u: "update_runs ?p f db = Inr (1, db')"
    using assms by (rule select_route_Inr)
  note upd = route_update_Inr [OF f]
  have ids: "distinct (map rr_run_id (db_runs db))" using u upd(1) by (rule update_runs_ids)
  have r_id: "rr_run_id r = rc_run_id c" "rr_mode r = None"
    using r(2) by (simp_all add: selects_executor_def owned_run_def)
  have own: "select_one (\<lambda>r. rr_run_id r = rc_run_id c) (db_runs db) = Some r"
    using ids r(1) by (rule select_one_distinct) (use r_id in auto)
  then show ?before using r_id row_executor_modeless by (simp add: stored_executor_def)
  have after: "select_one (\<lambda>r. rr_run_id r = k) (db_runs db') =
      map_option (\<lambda>r. if ?p r then f r else r) (select_one (\<lambda>r. rr_run_id r = k) (db_runs db))" for k
    using u upd(1) by (simp add: update_runs_Inr select_one_update)
  have "stored_executor db' k = (case chosen_executor d of None \<Rightarrow> stored_executor db
      | Some x \<Rightarrow> (stored_executor db)(rc_run_id c \<mapsto> x)) k" for k
  proof (cases "k = rc_run_id c")
    case True
    then have "stored_executor db' k = row_executor (f r)"
      using after [of k] own r(2) by (simp add: stored_executor_def)
    then show ?thesis using upd(3) [of r] True own by (simp add: stored_executor_def split: option.splits)
  next
    case False
    have "stored_executor db' k = stored_executor db k"
    proof (cases "select_one (\<lambda>r. rr_run_id r = k) (db_runs db)")
      case (Some x)
      then have "\<not> ?p x"
        using False select_one_Some by (fastforce simp: selects_executor_def owned_run_def)
      then show ?thesis using Some after [of k] by (simp add: stored_executor_def)
    qed (use after [of k] in \<open>simp add: stored_executor_def\<close>)
    then show ?thesis using False by (simp split: option.splits)
  qed
  then show ?after by blast
qed


text \<open>
  The contract of the route store, as the orchestration uses it: a refused selection changes nothing, a
  selection that returns was the first one of its run and leaves the executor of the decision.
\<close>

type_synonym 's route_op = "run_context \<Rightarrow> route_decision \<Rightarrow> 's \<Rightarrow> unit result \<times> 's"

locale route_store =
  fixes select :: "'s route_op"
    and selected :: "'s \<Rightarrow> string \<Rightarrow> executor option"
  assumes refused_keeps: "select c d s = (Inl e, s') \<Longrightarrow> s' = s"
    and first_selection: "select c d s = (Inr u, s') \<Longrightarrow> selected s (rc_run_id c) = None"
    and selection_sets: "select c d s = (Inr u, s') \<Longrightarrow>
      selected s' = (case chosen_executor d of None \<Rightarrow> selected s | Some x \<Rightarrow> (selected s)(rc_run_id c \<mapsto> x))"
begin

lemma selected_refuses:
  assumes "selected s (rc_run_id c) = Some x"
  shows "\<exists>e. select c d s = (Inl e, s)"
proof -
  obtain r s' where r: "select c d s = (r, s')" by force
  then show ?thesis using assms first_selection refused_keeps by (cases r) fastforce+
qed

lemma selection_executes:
  assumes "select c d s = (Inr u, s')" "chosen_executor d = Some x"
  shows "selected s' (rc_run_id c) = Some x"
  using selection_sets [OF assms(1)] assms(2) by simp

lemma selection_elsewhere:
  assumes "select c d s = (r, s')" "k \<noteq> rc_run_id c"
  shows "selected s' k = selected s k"
  using assms refused_keeps selection_sets by (cases r) (fastforce split: option.splits)+

end

interpretation run_routes: route_store "select_route now" stored_executor for now
  using select_route_Inl select_route_executor by unfold_locales blast+

section \<open>Histories of the table of runs\<close>

inductive run_transaction :: "runtime_db \<Rightarrow> runtime_db \<Rightarrow> bool" where
  create: "create_run now c s db = (r, db') \<Longrightarrow> run_transaction db db'"
| cancel: "cancel_unstarted_run now run_id tenant reason db = (n, db') \<Longrightarrow> run_transaction db db'"
| route: "select_route now c d db = (r, db') \<Longrightarrow> run_transaction db db'"
| commit: "commit_step now sc db = (res, db') \<Longrightarrow> run_transaction db db'"
| reason: "set_terminal_reason now run_id tenant why db = (n, db') \<Longrightarrow> run_transaction db db'"
| dispatch: "mark_dispatch_started now run_id tenant db = (n, db') \<Longrightarrow> run_transaction db db'"
| published: "mark_response_published now run_id tenant db = (n, db') \<Longrightarrow> run_transaction db db'"
| elsewhere: "db_runs db' = db_runs db \<Longrightarrow> run_transaction db db'"

text \<open>A row of the table after some transactions: same run, same pins, same executor once it has one.\<close>

definition follows :: "run_row \<Rightarrow> run_row \<Rightarrow> bool" where
  "follows r r' \<longleftrightarrow> rr_run_id r' = rr_run_id r \<and> rr_tenant_id r' = rr_tenant_id r \<and>
     rr_actor_ref r' = rr_actor_ref r \<and> rr_conversation_id r' = rr_conversation_id r \<and>
     rr_pins r' = rr_pins r \<and> (row_executor r \<noteq> None \<longrightarrow> row_executor r' = row_executor r)"

definition rows_follow :: "runtime_db \<Rightarrow> runtime_db \<Rightarrow> bool" where
  "rows_follow db db' \<longleftrightarrow> (\<exists>f new. db_runs db' = map f (db_runs db) @ new \<and> (\<forall>r\<in>set (db_runs db). follows r (f r)))"

lemma follows_refl [simp]: "follows r r"
  by (simp add: follows_def)

lemma follows_trans: "follows r s \<Longrightarrow> follows s t \<Longrightarrow> follows r t"
  by (auto simp: follows_def)

lemma rows_follow_same: "db_runs db' = db_runs db \<Longrightarrow> rows_follow db db'"
  unfolding rows_follow_def by (intro exI [of _ "\<lambda>r. r"] exI [of _ "[]"]) simp

lemma rows_follow_trans:
  assumes "rows_follow a b" "rows_follow b c"
  shows "rows_follow a c"
proof -
  obtain f x g y where "db_runs b = map f (db_runs a) @ x" "\<forall>r\<in>set (db_runs a). follows r (f r)"
    "db_runs c = map g (db_runs b) @ y" "\<forall>r\<in>set (db_runs b). follows r (g r)"
    using assms unfolding rows_follow_def by blast
  then show ?thesis unfolding rows_follow_def
    by (intro exI [of _ "g \<circ> f"] exI [of _ "map g x @ y"]) (auto intro: follows_trans)
qed

lemma kept_executor: "executor_selection_kept r r' \<Longrightarrow> row_executor r \<noteq> None \<Longrightarrow> row_executor r' = row_executor r"
  by (auto simp: executor_selection_kept_def row_executor_def split: option.splits)

lemma rows_follow_update:
  assumes "update_runs p f db = Inr (n, db')"
    "\<And>r. rr_run_id (f r) = rr_run_id r \<and> rr_tenant_id (f r) = rr_tenant_id r \<and> rr_actor_ref (f r) = rr_actor_ref r \<and>
      rr_conversation_id (f r) = rr_conversation_id r \<and> rr_pins (f r) = rr_pins r"
  shows "rows_follow db db'"
proof -
  have u: "db_runs db' = map (\<lambda>r. if p r then f r else r) (db_runs db) @ []"
    "\<And>r. r \<in> set (db_runs db) \<Longrightarrow> p r \<Longrightarrow> executor_selection_kept r (f r)"
    using assms(1) by (auto simp: update_runs_Inr update_rows_def list_all_iff)
  then have "\<forall>r\<in>set (db_runs db). follows r (if p r then f r else r)"
    using assms(2) kept_executor by (fastforce simp: follows_def)
  then show ?thesis using u(1) unfolding rows_follow_def by blast
qed

lemma rows_follow_transaction:
  assumes "transaction db (update_runs p f db) = (x, db')"
    "\<And>r. rr_run_id (f r) = rr_run_id r \<and> rr_tenant_id (f r) = rr_tenant_id r \<and> rr_actor_ref (f r) = rr_actor_ref r \<and>
      rr_conversation_id (f r) = rr_conversation_id r \<and> rr_pins (f r) = rr_pins r"
  shows "rows_follow db db'"
proof (cases "update_runs p f db")
  case (Inl e)
  then show ?thesis using assms(1) by (simp add: rows_follow_same)
next
  case (Inr y)
  then show ?thesis using assms(1) rows_follow_update [OF _ assms(2)] by (cases y) auto
qed


lemma create_run_cases:
  assumes "create_run now c s db = (r, db')"
  shows "(\<exists>e. r = Inl e \<and> db' = db) \<or>
    (\<exists>v. r = Inr () \<and> check_new_run now c s = Inr () \<and> v \<in> set (db_conversations db) \<and> owned_conversation c v \<and>
       insert_run (new_run_row now c s (cv_id v)) db = Inr ((), db'))"
proof (cases "insert_created_run now c s db")
  case (Inl e)
  then show ?thesis using assms unfolding create_run_def
    by (cases "check_new_run now c s"; cases r) (simp_all split: if_splits)
next
  case (Inr x)
  then obtain d where d: "insert_created_run now c s db = Inr ((), d)" by (cases x) simp
  then obtain v where "v \<in> set (db_conversations db) \<and> owned_conversation c v"
    "insert_run (new_run_row now c s (cv_id v)) db = Inr ((), d)"
    unfolding insert_created_run_def by (auto split: option.splits dest!: select_one_Some)
  then show ?thesis using assms d unfolding create_run_def
    by (cases "check_new_run now c s"; cases r) (auto split: if_splits)
qed

lemma rows_follow_insert: "db_runs db' = db_runs db @ new \<Longrightarrow> rows_follow db db'"
  unfolding rows_follow_def by (intro exI [of _ "\<lambda>r. r"] exI [of _ new]) simp

lemma rows_follow_create: "create_run now c s db = (r, db') \<Longrightarrow> rows_follow db db'"
  by (drule create_run_cases) (auto simp: insert_run_Inr rows_follow_same intro: rows_follow_insert)

lemma route_update_pins:
  "route_update now d = Inr f \<Longrightarrow> rr_tenant_id (f r) = rr_tenant_id r \<and> rr_actor_ref (f r) = rr_actor_ref r \<and>
     rr_pins (f r) = rr_pins r"
  by (auto simp: route_update_def touch_times_def split: route_outcome.splits option.splits)

lemma rows_follow_select:
  assumes "select_route now c d db = (r, db')"
  shows "rows_follow db db'"
proof (cases r)
  case (Inl e)
  then show ?thesis using assms select_route_Inl rows_follow_same by blast
next
  case (Inr u)
  then obtain f where "route_update now d = Inr f"
    "update_runs (selects_executor (rc_run_id c) (rc_tenant_id c)) f db = Inr (1, db')"
    using assms select_route_Inr by metis
  then show ?thesis using rows_follow_update route_update_Inr(1,2) route_update_pins by meson
qed

lemma advanced_run_follows: "follows r (advanced_run c now n r)"
  by (simp add: follows_def row_executor_def advanced_run_def touch_times_def)

lemma rows_follow_commit:
  assumes "commit_step now c db = (res, db')"
  shows "rows_follow db db'"
proof -
  consider "db' = db" | current where "db' = commit_effect now c current db"
    using commit_step_cases [OF assms] by blast
  then show ?thesis
  proof cases
    case 1
    then show ?thesis by (simp add: rows_follow_same)
  next
    case e: 2
    let ?f = "\<lambda>r. if commit_target c r then advanced_run c now (rr_checkpoint_seq current + 1) r else r"
    have "db_runs db' = map ?f (db_runs db) @ []" by (simp add: e effect_runs update_rows_def)
    moreover have "\<forall>r\<in>set (db_runs db). follows r (?f r)" by (simp add: advanced_run_follows)
    ultimately show ?thesis unfolding rows_follow_def by blast
  qed
qed

lemma rows_follow_step: "run_transaction db db' \<Longrightarrow> rows_follow db db'"
proof (induction rule: run_transaction.induct)
  case (cancel now run_id tenant reason db n db')
  then show ?case unfolding cancel_unstarted_run_def by (rule rows_follow_transaction) (simp add: touch_times_def)
next
  case (reason now run_id tenant why db n db')
  then show ?case unfolding set_terminal_reason_def by (rule rows_follow_transaction) (simp add: touch_times_def)
next
  case (dispatch now run_id tenant db n db')
  then show ?case unfolding mark_dispatch_started_def by (rule rows_follow_transaction) (simp add: touch_times_def)
next
  case (published now run_id tenant db n db')
  then show ?case unfolding mark_response_published_def by (rule rows_follow_transaction) (simp add: touch_times_def)
qed (auto intro: rows_follow_create rows_follow_select rows_follow_commit rows_follow_same)

lemma rows_follow_history: "run_transaction\<^sup>*\<^sup>* db db' \<Longrightarrow> rows_follow db db'"
  by (induction rule: rtranclp_induct) (auto intro: rows_follow_same rows_follow_step rows_follow_trans)

lemma select_one_append: "select_one p (xs @ ys) = (case select_one p xs of None \<Rightarrow> select_one p ys | Some x \<Rightarrow> Some x)"
  by (induction xs) auto

lemma select_one_map:
  "(\<And>r. r \<in> set rows \<Longrightarrow> q (f r) = q r) \<Longrightarrow> select_one q (map f rows) = map_option f (select_one q rows)"
  by (induction rows) auto

lemma followed_row:
  assumes "rows_follow db db'" "select_one q (db_runs db) = Some r"
    "\<And>r r'. follows r r' \<Longrightarrow> q r' = q r"
  obtains r' where "select_one q (db_runs db') = Some r'" "follows r r'"
proof -
  obtain f new where f: "db_runs db' = map f (db_runs db) @ new" "\<forall>r\<in>set (db_runs db). follows r (f r)"
    using assms(1) unfolding rows_follow_def by blast
  have "select_one q (map f (db_runs db)) = map_option f (select_one q (db_runs db))"
    by (rule select_one_map) (use f(2) assms(3) in blast)
  then show thesis using that f assms(2) select_one_Some [OF assms(2)] by (simp add: select_one_append)
qed

lemma stored_executor_history:
  assumes "run_transaction\<^sup>*\<^sup>* db db'" "stored_executor db run_id = Some x"
  shows "stored_executor db' run_id = Some x"
proof -
  obtain r where r: "select_one (\<lambda>r. rr_run_id r = run_id) (db_runs db) = Some r" "row_executor r = Some x"
    using assms(2) by (auto simp: stored_executor_def bind_eq_Some_conv)
  obtain r' where r': "select_one (\<lambda>r. rr_run_id r = run_id) (db_runs db') = Some r'" "follows r r'"
    by (rule followed_row [OF rows_follow_history [OF assms(1)] r(1)]) (auto simp: follows_def)
  then show ?thesis using r by (simp add: stored_executor_def follows_def)
qed

lemma load_definition_history:
  assumes "run_transaction\<^sup>*\<^sup>* db db'" "load_run_row run_id tenant db = Some r"
  obtains df where "load_definition run_id tenant db' = Some df" "df_policy_version df = pin_policy_version (rr_pins r)"
    "df_model_config_hash df = pin_model_config_hash (rr_pins r)" "df_prompt_version df = pin_prompt_version (rr_pins r)"
    "df_max_steps df = pin_max_steps (rr_pins r)" "df_deadline_at df = pin_deadline_at (rr_pins r)"
proof -
  obtain r' where r': "load_run_row run_id tenant db' = Some r'" "follows r r'"
    by (rule followed_row [OF rows_follow_history [OF assms(1)] assms(2) [unfolded load_run_row_def], folded load_run_row_def])
      (auto simp: follows_def)
  then show thesis
    by (intro that [of "run_definition_of r'"]) (auto simp: load_definition_def run_definition_of_def follows_def)
qed

section \<open>One active run per conversation\<close>

lemma new_run_widths [simp]: "run_widths (new_run_row now c s v)"
  by (simp add: run_widths_def new_run_row_def slice_to_len opt_field_def split: option.splits)

lemma active_pair:
  assumes "one_active_run (rows @ [n])" "\<not> run_terminal (rr_status n)" "r \<in> set rows" "\<not> run_terminal (rr_status r)"
  shows "rr_conversation_id r \<noteq> rr_conversation_id n"
  using assms by (auto simp: one_active_run_def image_iff)

lemma sort_key_Nil: "sort_key k xs = [] \<longleftrightarrow> xs = []"
  by (metis length_0_conv length_sort)

lemma active_for_conversation_None:
  "active_for_conversation conversation_id tenant actor db = None \<longleftrightarrow>
     filter (active_run_of conversation_id tenant actor) (db_runs db) = []"
  unfolding active_for_conversation_def by (auto simp: sort_key_Nil split: list.splits)

section \<open>Properties\<close>

text \<open>The executor of a run is selected exactly once. After a selection that returned, and whatever
  creations, cancellations, selections, commits and marks follow, the run has the execution mode and the
  workflow of that decision, and every further selection for it is refused and changes nothing.\<close>

theorem executor_selected_once:
  assumes "select_route now c d db = (Inr (), db1)" "rd_outcome d = RO_EXECUTE" "run_transaction\<^sup>*\<^sup>* db1 db2"
    "rc_run_id c' = rc_run_id c"
  shows "stored_executor db (rc_run_id c) = None \<and> decision_executor d \<noteq> None \<and>
    stored_executor db2 (rc_run_id c) = decision_executor d \<and> (\<exists>e. select_route now' c' d' db2 = (Inl e, db2))"
proof -
  obtain f where "route_update now d = Inr f" using assms(1) select_route_Inr by metis
  then have "chosen_executor d \<noteq> None" using route_update_Inr(4) assms(2) by blast
  then obtain x where x: "chosen_executor d = Some x" "decision_executor d = Some x"
    using assms(2) by (auto simp: chosen_executor_def)
  have "stored_executor db2 (rc_run_id c) = Some x"
    using stored_executor_history [OF assms(3)] run_routes.selection_executes [OF assms(1) x(1)] by blast
  moreover have "stored_executor db (rc_run_id c) = None" using assms(1) by (rule select_route_executor)
  ultimately show ?thesis using x run_routes.selected_refuses [of db2 c' x now' d'] assms(4) by simp
qed


text \<open>C35: a conversation has at most one active run. While it has one, creating another for the same
  customer is refused as a conflict and stores nothing; a creation that returns leaves the new run as the
  only active one, with the configuration of its specification, which no later transaction changes.\<close>

theorem one_active_run_per_conversation:
  assumes "slice_to (rc_tenant_id c) 64 = rc_tenant_id c" "slice_to (rc_actor_id c) 128 = rc_actor_id c"
    "check_new_run now c s = Inr ()" "select_one (owned_conversation c) (db_conversations db) \<noteq> None"
  shows "(filter (active_run_of (rc_conversation_id c) (rc_tenant_id c) (rc_actor_id c)) (db_runs db) \<noteq> [] \<longrightarrow>
      create_run now c s db = (Inl ActiveRunConflictError, db)) \<and>
    (\<forall>db1. create_run now c s db = (Inr (), db1) \<longrightarrow>
      map rr_run_id (filter (active_run_of (rc_conversation_id c) (rc_tenant_id c) (rc_actor_id c)) (db_runs db1)) = [rc_run_id c] \<and>
      (\<forall>db2. run_transaction\<^sup>*\<^sup>* db1 db2 \<longrightarrow> (\<exists>df. load_definition (rc_run_id c) (rc_tenant_id c) db2 = Some df \<and>
         df_policy_version df = slice_to (cs_policy_version s) 64 \<and>
         df_model_config_hash df = slice_to (cs_model_config_hash s) 80 \<and>
         df_prompt_version df = slice_to (cs_prompt_version s) 64 \<and>
         df_max_steps df = cs_max_steps s \<and> df_deadline_at df = cs_deadline_at s)))"
proof -
  let ?active = "active_run_of (rc_conversation_id c) (rc_tenant_id c) (rc_actor_id c)"
  obtain v where v: "select_one (owned_conversation c) (db_conversations db) = Some v" using assms(4) by auto
  then have cv: "cv_id v = rc_conversation_id c" using select_one_Some by (fastforce simp: owned_conversation_def)
  let ?n = "new_run_row now c s (cv_id v)"
  have status: "rc_status c = RS_CREATED" using assms(3) by (simp add: check_new_run_def split: if_splits)
  then have n: "?active ?n" "rr_run_id ?n = rc_run_id c" "rr_tenant_id ?n = rc_tenant_id c"
    "rr_conversation_id ?n = rc_conversation_id c" "\<not> run_terminal (rr_status ?n)"
    by (simp_all add: active_run_of_def new_run_row_def cv assms(1,2) run_terminal_def)
  have none: "filter ?active (db_runs db) = []" if "runs_ok (db_runs db @ [?n])"
    using active_pair [of "db_runs db" ?n] that n(4,5)
    by (auto simp: runs_ok_def filter_empty_conv active_run_of_def)
  have ins: "insert_created_run now c s db = insert_run ?n db" using v by (simp add: insert_created_run_def)
  have conflict: "create_run now c s db = (Inl ActiveRunConflictError, db)" if "filter ?active (db_runs db) \<noteq> []"
    using none that assms(3) by (auto simp: create_run_def ins insert_run_def active_for_conversation_None)
  have created: "map rr_run_id (filter ?active (db_runs db1)) = [rc_run_id c] \<and>
      load_run_row (rc_run_id c) (rc_tenant_id c) db1 = Some ?n" if "create_run now c s db = (Inr (), db1)" for db1
  proof -
    have "insert_run ?n db = Inr ((), db1)"
      using that assms(3) by (cases "insert_run ?n db") (auto simp: create_run_def ins split: if_splits)
    then have i: "runs_ok (db_runs db @ [?n])" "db_runs db1 = db_runs db @ [?n]" by (auto simp: insert_run_Inr)
    then show ?thesis using none n load_run_rowI [of db1 ?n] by simp
  qed
  have "\<exists>df. load_definition (rc_run_id c) (rc_tenant_id c) db2 = Some df \<and>
      df_policy_version df = slice_to (cs_policy_version s) 64 \<and> df_model_config_hash df = slice_to (cs_model_config_hash s) 80 \<and>
      df_prompt_version df = slice_to (cs_prompt_version s) 64 \<and> df_max_steps df = cs_max_steps s \<and>
      df_deadline_at df = cs_deadline_at s"
    if "create_run now c s db = (Inr (), db1)" "run_transaction\<^sup>*\<^sup>* db1 db2" for db1 db2
    by (rule load_definition_history [OF that(2) created [OF that(1), THEN conjunct2]]) (auto simp: new_run_row_def)
  then show ?thesis using conflict created by blast
qed

section \<open>Witnesses\<close>

definition demo_new_context :: run_context where
  "demo_new_context = demo_context\<lparr>rc_status := RS_CREATED, rc_execution_mode := None, rc_workflow_id := None,
     rc_workflow_version := None\<rparr>"

definition demo_spec :: run_creation_spec where
  "demo_spec = \<lparr>cs_mode = None, cs_policy_version = ''p1'', cs_model_config_hash = ''m1'', cs_prompt_version = ''v1'',
     cs_current_step = ''route'', cs_max_steps = 6, cs_deadline_at = 1000, cs_parent_run_id = None\<rparr>"

definition demo_conversation :: conversation_row where
  "demo_conversation = \<lparr>cv_id = ''c'', cv_tenant_id = ''t'', cv_actor_id = ''a'', cv_client_request_id = ''q'',
     cv_status = ''active'', cv_created_at = 0, cv_updated_at = 0\<rparr>"

definition demo_conversation_db :: runtime_db where
  "demo_conversation_db = empty_db\<lparr>db_conversations := [demo_conversation]\<rparr>"

definition demo_created :: "unit result \<times> runtime_db" where
  "demo_created = create_run 5 demo_new_context demo_spec demo_conversation_db"

definition demo_route :: route_decision where
  "demo_route = (bare_decision RO_EXECUTE ''ROUTE_RULE_MATCHED'')\<lparr>rd_execution_mode := Some EM_WORKFLOW,
     rd_workflow_id := Some ''refund'', rd_workflow_version := Some ''1'', rd_intent := Some ''refund''\<rparr>"

definition demo_routed :: "unit result \<times> runtime_db" where
  "demo_routed = select_route 6 demo_new_context demo_route (snd demo_created)"

lemma demo_created_facts: "fst demo_created = Inr ()" "fst demo_routed = Inr ()"
  by code_simp+


lemma executor_selected_once_witness:
  "\<exists>db2. run_transaction\<^sup>*\<^sup>* (snd demo_routed) db2 \<and> db2 \<noteq> snd demo_routed \<and>
     stored_executor db2 ''run'' = Some (EM_WORKFLOW, ''refund'', ''1'') \<and>
     (\<exists>e. select_route 9 demo_new_context (bare_decision RO_HANDOFF ''UNKNOWN_INTENT'') db2 = (Inl e, db2))"
proof -
  let ?db2 = "snd (mark_dispatch_started 7 ''run'' ''t'' (snd demo_routed))"
  have "select_route 6 demo_new_context demo_route (snd demo_created) = (Inr (), snd demo_routed)"
    using demo_created_facts(2) unfolding demo_routed_def by (metis prod.collapse)
  moreover have "rd_outcome demo_route = RO_EXECUTE" "rc_run_id demo_new_context = ''run''"
    "decision_executor demo_route = Some (EM_WORKFLOW, ''refund'', ''1'')"
    by code_simp+
  moreover have h: "run_transaction\<^sup>*\<^sup>* (snd demo_routed) ?db2"
    by (rule r_into_rtranclp, rule run_transaction.dispatch, rule prod.collapse [symmetric])
  moreover have "map (\<lambda>r. rt_dispatch_started_at (rr_times r)) (db_runs ?db2) \<noteq>
      map (\<lambda>r. rt_dispatch_started_at (rr_times r)) (db_runs (snd demo_routed))"
    by code_simp
  ultimately show ?thesis
    using executor_selected_once [of 6 demo_new_context demo_route _ _ ?db2 demo_new_context 9]
    by (intro exI [of _ ?db2]) auto
qed

lemma one_active_run_per_conversation_witness:
  "create_run 5 (demo_new_context\<lparr>rc_run_id := ''run-2''\<rparr>) demo_spec (snd demo_created) =
     (Inl ActiveRunConflictError, snd demo_created)"
proof -
  let ?c = "demo_new_context\<lparr>rc_run_id := ''run-2''\<rparr>"
  have "slice_to (rc_tenant_id ?c) 64 = rc_tenant_id ?c" "slice_to (rc_actor_id ?c) 128 = rc_actor_id ?c"
    "check_new_run 5 ?c demo_spec = Inr ()" by code_simp+
  moreover have "select_one (owned_conversation ?c) (db_conversations (snd demo_created)) \<noteq> None"
    "filter (active_run_of (rc_conversation_id ?c) (rc_tenant_id ?c) (rc_actor_id ?c)) (db_runs (snd demo_created)) \<noteq> []"
    by code_simp+
  ultimately show ?thesis using one_active_run_per_conversation by blast
qed

end
