(* ===== verification/Feedback.thy ===== *)
theory Feedback
  imports Trace RunLifecycle
begin

text \<open>
  \<open>src/repositories/feedback.py\<close>: what a customer says of a run. A correction is kept only with consent,
  redacted and for a limited time; a repeated submission gets the feedback of the first. The hash, the clock and
  the UUID are arguments, times are microseconds.
\<close>

record feedback_row =
  fb_feedback_id :: string
  fb_tenant_id :: string
  fb_actor_hash :: string
  fb_run_id :: string
  fb_rating :: string
  fb_reasons :: "string list"
  fb_correction :: "string option"
  fb_correction_hash :: "string option"
  fb_consent :: bool
  fb_key :: string
  fb_created_at :: int
  fb_expires_at :: "int option"

record feedback_request =
  fq_tenant_id :: string
  fq_actor_id :: string
  fq_run_id :: string
  fq_rating :: string
  fq_reasons :: "string list"
  fq_correction :: "string option"
  fq_consent :: bool
  fq_key :: string
  fq_ttl_days :: int

record feedback_db =
  fk_feedback :: "feedback_row list"
  fk_runtime :: runtime_db

definition check_feedback :: "feedback_request \<Rightarrow> unit result" where
  "check_feedback q =
     (if fq_rating q \<notin> {''up'', ''down''} then Inl (ValueError ''rating must be up or down'')
      else if \<not> (1 \<le> py_len (fq_key q) \<and> py_len (fq_key q) \<le> 128) \<or> \<not> (0 < fq_ttl_days q \<and> fq_ttl_days q \<le> 30)
      then Inl (ValueError ''invalid feedback contract'')
      else if length (fq_reasons q) > 8 \<or> list_ex (\<lambda>s. py_len s > 64) (fq_reasons q)
      then Inl (ValueError ''invalid feedback reason codes'') else Inr ())"

definition safe_correction :: "feedback_request \<Rightarrow> string option" where
  "safe_correction q =
     (case fq_correction q of
        None \<Rightarrow> None | Some s \<Rightarrow> if fq_consent q \<and> s \<noteq> [] then Some (slice_to (sanitize_text s) 2000) else None)"

definition given_correction :: "feedback_request \<Rightarrow> string option" where
  "given_correction q = (if safe_correction q = Some [] then None else safe_correction q)"

definition feedback_of :: "(string \<Rightarrow> string) \<Rightarrow> int \<Rightarrow> string \<Rightarrow> feedback_request \<Rightarrow> feedback_row" where
  "feedback_of sha now i q =
     \<lparr>fb_feedback_id = i, fb_tenant_id = fq_tenant_id q, fb_actor_hash = ''sha256:'' @ sha (fq_actor_id q),
      fb_run_id = fq_run_id q, fb_rating = fq_rating q, fb_reasons = fq_reasons q, fb_correction = safe_correction q,
      fb_correction_hash = map_option (\<lambda>s. ''sha256:'' @ sha s) (given_correction q), fb_consent = fq_consent q,
      fb_key = fq_key q, fb_created_at = now,
      fb_expires_at = map_option (\<lambda>s. now + fq_ttl_days q * (24 * 60 * 60 * 1000000)) (given_correction q)\<rparr>"

definition same_feedback :: "feedback_row \<Rightarrow> feedback_row \<Rightarrow> bool" where
  "same_feedback f x \<longleftrightarrow> fb_tenant_id x = fb_tenant_id f \<and> fb_actor_hash x = fb_actor_hash f \<and> fb_key x = fb_key f"

definition insert_feedback :: "feedback_row \<Rightarrow> feedback_db \<Rightarrow> (feedback_row \<times> feedback_db) result" where
  "insert_feedback f db =
     (if \<not> (py_len (fb_tenant_id f) \<le> 64 \<and> py_len (fb_actor_hash f) \<le> 80 \<and>
         opt_field (\<lambda>s. py_len s \<le> 80) (fb_correction_hash f)) then Inl (OtherError ''DataError'')
      else case select_one (same_feedback f) (fk_feedback db) of
          Some x \<Rightarrow> Inr (x, db)
        | None \<Rightarrow>
            if fb_feedback_id f \<in> set (map fb_feedback_id (fk_feedback db)) \<or>
              fb_run_id f \<notin> set (map rr_run_id (db_runs (fk_runtime db)))
            then Inl IntegrityError
            else Inr (f, db\<lparr>fk_feedback := fk_feedback db @ [f]\<rparr>))"

definition submit_feedback ::
  "(string \<Rightarrow> string) \<Rightarrow> int \<Rightarrow> string \<Rightarrow> feedback_request \<Rightarrow> feedback_db \<Rightarrow> feedback_row result \<times> feedback_db" where
  "submit_feedback sha now i q db =
     atomic db (bind_res (check_feedback q) (\<lambda>_. insert_feedback (feedback_of sha now i q) db))"

inductive feedback_step :: "feedback_db \<Rightarrow> feedback_db \<Rightarrow> bool" where
  submitted: "submit_feedback sha now i q db = (r, db') \<Longrightarrow> feedback_step db db'"
| elsewhere: "feedback_step db (db\<lparr>fk_runtime := d\<rparr>)"

text \<open>What is stored of a correction: with consent, redacted and with an end.\<close>

definition lawful :: "feedback_row \<Rightarrow> bool" where
  "lawful f \<longleftrightarrow>
     (case fb_correction f of
        None \<Rightarrow> fb_expires_at f = None \<and> fb_correction_hash f = None
      | Some s \<Rightarrow> fb_consent f \<and> (\<exists>t. s = slice_to (sanitize_text t) 2000) \<and>
          (s \<noteq> [] \<longrightarrow> (\<exists>e. fb_expires_at f = Some e \<and> fb_created_at f < e \<and> e \<le> fb_created_at f + 30 * (24 * 60 * 60 * 1000000))))"

lemma check_feedback_Inr: "check_feedback q = Inr () \<Longrightarrow> 0 < fq_ttl_days q \<and> fq_ttl_days q \<le> 30"
  by (auto simp: check_feedback_def split: if_splits)

lemma feedback_of_lawful: "check_feedback q = Inr () \<Longrightarrow> lawful (feedback_of sha now i q)"
  by (drule check_feedback_Inr, auto simp: lawful_def feedback_of_def safe_correction_def given_correction_def split: option.splits)
    metis

lemma insert_feedback_Inr:
  "insert_feedback f db = Inr (x, db') \<Longrightarrow>
     (if select_one (same_feedback f) (fk_feedback db) = None then x = f \<and> db' = db\<lparr>fk_feedback := fk_feedback db @ [x]\<rparr>
      else select_one (same_feedback f) (fk_feedback db) = Some x \<and> db' = db)"
  unfolding insert_feedback_def by (auto split: if_splits option.splits)

lemma submit_feedback_Inr:
  assumes "submit_feedback sha now i q db = (Inr f, db')"
  shows "check_feedback q = Inr () \<and>
    (if select_one (same_feedback (feedback_of sha now i q)) (fk_feedback db) = None
     then f = feedback_of sha now i q \<and> db' = db\<lparr>fk_feedback := fk_feedback db @ [f]\<rparr>
     else select_one (same_feedback (feedback_of sha now i q)) (fk_feedback db) = Some f \<and> db' = db)"
proof -
  have "check_feedback q = Inr () \<and> insert_feedback (feedback_of sha now i q) db = Inr (f, db')"
    using assms unfolding submit_feedback_def by (simp add: atomic_Inr bind_res_eq_Inr)
  then show ?thesis using insert_feedback_Inr by blast
qed

lemma submit_feedback_cases:
  assumes "submit_feedback sha now i q db = (r, db')"
  shows "db' = db \<or> (\<exists>f. lawful f \<and> db' = db\<lparr>fk_feedback := fk_feedback db @ [f]\<rparr>)"
proof (cases r)
  case (Inl e)
  then show ?thesis using assms unfolding submit_feedback_def by (simp add: atomic_Inl)
next
  case (Inr f)
  have s: "check_feedback q = Inr ()"
    "if select_one (same_feedback (feedback_of sha now i q)) (fk_feedback db) = None
     then f = feedback_of sha now i q \<and> db' = db\<lparr>fk_feedback := fk_feedback db @ [f]\<rparr>
     else select_one (same_feedback (feedback_of sha now i q)) (fk_feedback db) = Some f \<and> db' = db"
    using submit_feedback_Inr [OF assms [unfolded Inr]] by blast+
  show ?thesis
    using s(2) feedback_of_lawful [OF s(1), of sha now i]
    by (cases "select_one (same_feedback (feedback_of sha now i q)) (fk_feedback db) = None") auto
qed

lemma feedback_step_grows:
  "feedback_step db db' \<Longrightarrow> \<exists>new. fk_feedback db' = fk_feedback db @ new \<and> (\<forall>f\<in>set new. lawful f)"
  by (induction rule: feedback_step.induct) (auto dest!: submit_feedback_cases)

lemma feedback_history_grows:
  "feedback_step\<^sup>*\<^sup>* db db' \<Longrightarrow> \<exists>new. fk_feedback db' = fk_feedback db @ new \<and> (\<forall>f\<in>set new. lawful f)"
proof (induction rule: rtranclp_induct)
  case (step y z)
  then obtain a b where "fk_feedback y = fk_feedback db @ a" "\<forall>f\<in>set a. lawful f" "fk_feedback z = fk_feedback y @ b"
    "\<forall>f\<in>set b. lawful f" using feedback_step_grows by blast
  then show ?case by (intro exI [of _ "a @ b"]) auto
qed simp

text \<open>Feedback is given once, and a correction only with consent. After a submission has stored its
  feedback, every later submission of the same customer with the same key, whatever it says, returns that feedback
  and stores nothing; and in every history each stored correction was consented to, is redacted and expires
  within thirty days.\<close>

theorem feedback_given_once:
  assumes "submit_feedback sha now i q db0 = (Inr f, db1)" "feedback_step\<^sup>*\<^sup>* db1 db"
    "fq_tenant_id q' = fq_tenant_id q" "fq_actor_id q' = fq_actor_id q" "fq_key q' = fq_key q"
    "submit_feedback sha now' i' q' db = (Inr f', db')"
  shows "f' = f \<and> db' = db \<and> ((\<forall>x\<in>set (fk_feedback db0). lawful x) \<longrightarrow> (\<forall>x\<in>set (fk_feedback db). lawful x))"
proof -
  let ?same = "same_feedback (feedback_of sha now i q)"
  have kept: "\<exists>new. fk_feedback db1 = fk_feedback db0 @ new \<and> (\<forall>x\<in>set new. lawful x)"
    using feedback_step_grows [OF feedback_step.submitted [OF assms(1)]] .
  have first: "select_one ?same (fk_feedback db1) = Some f"
    using conjunct2 [OF submit_feedback_Inr [OF assms(1)]]
    by (cases "select_one ?same (fk_feedback db0)") (auto simp: select_one_append same_feedback_def)
  obtain new where new: "fk_feedback db = fk_feedback db1 @ new" "\<forall>x\<in>set new. lawful x"
    using feedback_history_grows [OF assms(2)] by blast
  have same: "same_feedback (feedback_of sha now' i' q') = ?same"
    using assms(3-5) by (auto simp: same_feedback_def feedback_of_def fun_eq_iff)
  have "select_one ?same (fk_feedback db) = Some f" using first by (simp add: new(1) select_one_append)
  then have "f' = f \<and> db' = db" using conjunct2 [OF submit_feedback_Inr [OF assms(6)]] by (simp add: same)
  then show ?thesis using kept new by auto
qed

definition demo_feedback :: "string \<Rightarrow> feedback_request" where
  "demo_feedback rating =
     \<lparr>fq_tenant_id = ''t'', fq_actor_id = ''a'', fq_run_id = ''r'', fq_rating = rating, fq_reasons = [],
      fq_correction = None, fq_consent = True, fq_key = ''k'', fq_ttl_days = 7\<rparr>"

definition demo_feedback_db :: feedback_db where
  "demo_feedback_db =
     \<lparr>fk_feedback = [], fk_runtime = empty_db\<lparr>db_runs := [demo_run_row\<lparr>rr_run_id := ''r''\<rparr>]\<rparr>\<rparr>"

definition demo_given :: "feedback_row result \<times> feedback_db" where
  "demo_given = submit_feedback (\<lambda>s. s) 5 ''f1'' (demo_feedback ''up'') demo_feedback_db"

definition demo_repeated :: "feedback_row result \<times> feedback_db" where
  "demo_repeated = submit_feedback (\<lambda>s. s) 6 ''f2'' (demo_feedback ''down'') (snd demo_given)"

definition demo_stored :: feedback_row where
  "demo_stored = feedback_of (\<lambda>s. s) 5 ''f1'' (demo_feedback ''up'')"

lemma demo_given_stored: "fst demo_given = Inr demo_stored"
  by code_simp

theorem feedback_given_once_witness:
  "fst demo_repeated = Inr demo_stored \<and> snd demo_repeated = snd demo_given"
proof -
  have first: "submit_feedback (\<lambda>s. s) 5 ''f1'' (demo_feedback ''up'') demo_feedback_db = (Inr demo_stored, snd demo_given)"
    using demo_given_stored unfolding demo_given_def [symmetric] by (metis prod.collapse)
  have "isl (fst demo_repeated) = False" by code_simp
  then obtain f' where f': "fst demo_repeated = Inr f'" by (cases "fst demo_repeated") auto
  then have second: "submit_feedback (\<lambda>s. s) 6 ''f2'' (demo_feedback ''down'') (snd demo_given) = (Inr f', snd demo_repeated)"
    unfolding demo_repeated_def [symmetric] by (metis prod.collapse)
  show ?thesis
    using feedback_given_once [OF first rtranclp.rtrancl_refl _ _ _ second] f' by (simp add: demo_feedback_def)
qed

end
