(* ===== verification/Engine.thy ===== *)
theory Engine
  imports RunLifecycle "HOL-Library.Product_Lexorder"
begin

text \<open>
  \<open>src/orchestration/engine.py\<close> with \<open>workflows.py\<close>, \<open>workflow_executor.py\<close>, \<open>runtime_bootstrap.py\<close> and
  \<open>src/agent/intent_classifier.py\<close>: the registry of published workflows, the creation, routing, resumption
  and cancellation of a run, and the executor of write nodes. The stores are the interfaces of the code
  (\<open>checkpoint_store\<close>, \<open>route_store\<close>), the classifier's gateway, its recorder and its clock are functions of a
  world. A gateway that answers with a bare classification is timed by the classifier.
\<close>

section \<open>Published workflows\<close>

record workflow_definition =
  wd_workflow_id :: string
  wd_version :: string
  wd_steps :: "string list"

type_synonym workflow_registry = "((string \<times> string) \<times> workflow_definition) list"

definition workflow_key :: "workflow_definition \<Rightarrow> string \<times> string" where
  "workflow_key w = (wd_workflow_id w, wd_version w)"

definition make_workflow_registry :: "workflow_definition list \<Rightarrow> workflow_registry result" where
  "make_workflow_registry ws =
     (let d = foldl (\<lambda>d w. dset d (workflow_key w) w) [] ws in
      if length d \<noteq> length ws then Inl (WorkflowRegistryError ''duplicate workflow definition'') else Inr d)"

definition get_workflow :: "workflow_registry \<Rightarrow> string \<Rightarrow> string \<Rightarrow> workflow_definition result" where
  "get_workflow reg w v =
     (case dget reg (w, v) of
        None \<Rightarrow> Inl (WorkflowRegistryError ''workflow version is unavailable'') | Some x \<Rightarrow> Inr x)"

text \<open>\<open>build_runtime_registrations\<close>: the workflows of the default rules and two more, sorted.\<close>

definition write_workflow_ids :: "string list" where
  "write_workflow_ids = [''cancel_order'', ''change_order'', ''refund'', ''return'', ''exchange'', ''invoice_request'',
     ''delivery_issue'']"

definition write_steps :: "string list" where
  "write_steps = [''authenticate'', ''load_resource'', ''check_eligibility'', ''collect_slots'', ''prepare'',
     ''confirm_mutation'', ''commit_mutation'', ''verify_mutation'']"

definition shipped_workflow :: "string \<times> string \<Rightarrow> workflow_definition" where
  "shipped_workflow k =
     \<lparr>wd_workflow_id = fst k, wd_version = snd k,
      wd_steps = (if fst k \<in> set write_workflow_ids then write_steps else [''retrieve''])\<rparr>"

definition shipped_keys :: "(string \<times> string) list" where
  "shipped_keys = sort (remdups (map (\<lambda>r. (ir_workflow_id r, ir_workflow_version r)) default_intent_route_rules @
     [(''knowledge_query'', ''1''), (''conversational_response'', ''1'')]))"

definition shipped_workflows :: "workflow_definition list" where
  "shipped_workflows = map shipped_workflow shipped_keys"

section \<open>The classifier\<close>

record routing_prompt_view =
  rpv_conversation :: "message list"
  rpv_allowed_intents :: "string list"
  rpv_known_slots :: "string list"

definition valid_routing_prompt :: "routing_prompt_view \<Rightarrow> bool" where
  "valid_routing_prompt v \<longleftrightarrow> list_all valid_message (rpv_conversation v) \<and> rpv_allowed_intents v \<noteq> []"

datatype classifier_answer =
    BareClassification intent_classification
  | TimedClassification intent_classification int "token_usage option"

record classification_record =
  cr_context :: run_context
  cr_prompt :: routing_prompt_view
  cr_result :: intent_classification
  cr_provider :: string
  cr_model :: string
  cr_config_hash :: string
  cr_latency_ms :: int
  cr_usage :: "token_usage option"

record 'w classifier =
  ci_gateway :: "routing_prompt_view \<Rightarrow> 'w \<Rightarrow> classifier_answer result \<times> 'w"
  ci_provider :: "string option"
  ci_model :: "string option"
  ci_classifier_hash :: "string option"
  ci_config_hash :: "string option"
  ci_clock :: "'w \<Rightarrow> rat \<times> 'w"
  ci_recorder :: "(classification_record \<Rightarrow> 'w \<Rightarrow> unit result \<times> 'w) option"

definition or_unknown :: "string option \<Rightarrow> string" where
  "or_unknown x = (case x of None \<Rightarrow> ''unknown'' | Some s \<Rightarrow> s)"

definition record_of :: "'w classifier \<Rightarrow> run_context \<Rightarrow> routing_prompt_view \<Rightarrow> intent_classification \<Rightarrow> int \<Rightarrow>
    token_usage option \<Rightarrow> classification_record" where
  "record_of ci c prompt result latency usage =
     \<lparr>cr_context = c, cr_prompt = prompt, cr_result = result, cr_provider = or_unknown (ci_provider ci),
      cr_model = or_unknown (ci_model ci),
      cr_config_hash = (case ci_classifier_hash ci of Some h \<Rightarrow> h | None \<Rightarrow> or_unknown (ci_config_hash ci)),
      cr_latency_ms = latency, cr_usage = usage\<rparr>"

definition elapsed_ms :: "rat \<Rightarrow> rat \<Rightarrow> int" where
  "elapsed_ms started ended = max 0 (round_even ((ended - started) * 1000))"

definition read_answer :: "'w classifier \<Rightarrow> rat \<Rightarrow> classifier_answer \<Rightarrow> 'w \<Rightarrow>
    (intent_classification \<times> int \<times> token_usage option) \<times> 'w" where
  "read_answer ci started a w =
     (case a of
        TimedClassification r latency usage \<Rightarrow> ((r, latency, usage), w)
      | BareClassification r \<Rightarrow> (case ci_clock ci w of (ended, w) \<Rightarrow> ((r, elapsed_ms started ended, None), w)))"

definition classify :: "'w classifier \<Rightarrow> run_context \<Rightarrow> routing_prompt_view \<Rightarrow> 'w \<Rightarrow>
    intent_classification result \<times> 'w" where
  "classify ci c prompt w =
     (case ci_clock ci w of
        (started, w) \<Rightarrow>
          (case ci_gateway ci prompt w of
             (Inl e, w) \<Rightarrow> (Inl e, w)
           | (Inr a, w) \<Rightarrow>
               (case read_answer ci started a w of
                  ((result, latency, usage), w) \<Rightarrow>
                    (case ci_recorder ci of
                       None \<Rightarrow> (Inr result, w)
                     | Some f \<Rightarrow>
                         (case f (record_of ci c prompt result latency usage) w of
                            (Inl e, w) \<Rightarrow> (Inl e, w) | (Inr u, w) \<Rightarrow> (Inr result, w))))))"

text \<open>\<open>DeterministicFakeIntentClassifier\<close>: the world is its queue and the prompts it has seen.\<close>

definition fake_classify :: "routing_prompt_view \<Rightarrow> intent_classification list \<times> routing_prompt_view list \<Rightarrow>
    classifier_answer result \<times> intent_classification list \<times> routing_prompt_view list" where
  "fake_classify prompt w =
     (case w of
        ([], seen) \<Rightarrow> (Inl (ModelGatewayError ''fake intent classifier has no remaining result''), [], seen @ [prompt])
      | (c # cs, seen) \<Rightarrow> (Inr (BareClassification c), cs, seen @ [prompt]))"

section \<open>The engine\<close>

type_synonym 's creation_op = "run_context \<Rightarrow> run_creation_spec \<Rightarrow> 's \<Rightarrow> unit result \<times> 's"

record 's engine =
  en_config_hash :: "string option"
  en_workflows :: workflow_registry
  en_checkpoint :: "'s checkpoint_op"
  en_resume :: "(string \<Rightarrow> string \<Rightarrow> 's \<Rightarrow> run_context option result) option"
  en_creation :: "'s creation_op option"

definition model_config_hash :: "'s engine \<Rightarrow> string result" where
  "model_config_hash en =
     (case en_config_hash en of
        None \<Rightarrow> Inl (RuntimeError ''model gateway does not expose a configuration fingerprint'')
      | Some h \<Rightarrow> if h = [] then Inl (RuntimeError ''model gateway does not expose a configuration fingerprint'') else Inr h)"

definition workflow_for :: "'s engine \<Rightarrow> run_context \<Rightarrow> workflow_definition result" where
  "workflow_for en c =
     (case (rc_workflow_id c, rc_workflow_version c) of
        (Some w, Some v) \<Rightarrow> get_workflow (en_workflows en) w v
      | _ \<Rightarrow> Inl (ValueError ''run has no selected workflow''))"

text \<open>What \<open>create\<close> checks before it stores anything: the context to store, or the error.\<close>

definition bind_creation :: "'s engine \<Rightarrow> int \<Rightarrow> run_context \<Rightarrow> run_creation_spec \<Rightarrow> run_context result" where
  "bind_creation en now c s =
     bind_res (model_config_hash en) (\<lambda>h.
     bind_res (require (cs_model_config_hash s = h) (ValueError ''run model configuration does not match the active gateway'')) (\<lambda>_.
     bind_res (require (now < cs_deadline_at s) (ValueError ''run deadline must be in the future'')) (\<lambda>_.
       case cs_mode s of
         None \<Rightarrow>
           bind_res (require (rc_execution_mode c = None \<and> rc_workflow_id c = None \<and> rc_workflow_version c = None)
             (ValueError ''pre-route run cannot contain an executor or workflow'')) (\<lambda>_. Inr c)
       | Some m \<Rightarrow>
           bind_res (require (rc_execution_mode c \<in> {None, Some m})
             (ValueError ''run execution mode does not match the creation spec'')) (\<lambda>_.
           bind_res (workflow_for en c) (\<lambda>w.
           bind_res (require (cs_current_step s \<in> set (wd_steps w))
             (ValueError ''initial step is not in the locked workflow'')) (\<lambda>_.
             Inr (c\<lparr>rc_execution_mode := Some m\<rparr>)))))))"

definition engine_create :: "'s engine \<Rightarrow> int \<Rightarrow> run_context \<Rightarrow> run_creation_spec option \<Rightarrow> 's \<Rightarrow>
    run_context result \<times> 's" where
  "engine_create en now c spec s =
     (if rc_status c \<noteq> RS_CREATED then (Inl (ValueError ''a new run must start in created status''), s)
      else if rc_step_count c \<noteq> 0 \<or> rc_checkpoint_version c \<noteq> 0
      then (Inl (ValueError ''a new run must not contain completed steps''), s)
      else (case (en_creation en, spec) of
        (None, None) \<Rightarrow> (Inr c, s)
      | (None, Some _) \<Rightarrow> (Inl (RuntimeError ''run creation store is unavailable''), s)
      | (Some _, None) \<Rightarrow> (Inl (ValueError ''run creation spec is required for durable creation''), s)
      | (Some create, Some sp) \<Rightarrow>
          (case bind_creation en now c sp of
             Inl e \<Rightarrow> (Inl e, s)
           | Inr bound \<Rightarrow>
               (case create bound sp s of (Inl e, s) \<Rightarrow> (Inl e, s) | (Inr u, s) \<Rightarrow> (Inr bound, s)))))"

definition execute_readonly ::
  "'s engine \<Rightarrow> ('w, 's) pipeline_env \<Rightarrow> 'w run_inputs \<Rightarrow> run_context \<Rightarrow> int option \<Rightarrow> ('w, 's) pipeline_state \<Rightarrow>
   agent_run_result result \<times> ('w, 's) pipeline_state" where
  "execute_readonly en env i c budget ps =
     (case workflow_for en c of
        Inl e \<Rightarrow> (Inl e, ps)
      | Inr w \<Rightarrow>
          if rc_status c \<noteq> RS_RUNNING_READONLY
          then (Inl (ValueError ''readonly executor requires a readonly running run''), ps)
          else agent_run env i c budget ps)"

fun response_policy_value :: "response_policy \<Rightarrow> string" where
  "response_policy_value RP_EXECUTE = ''execute''"
| "response_policy_value RP_ASK_USER = ''ask_user''"
| "response_policy_value RP_CONVERSATIONAL_RESPONSE = ''conversational_response''"
| "response_policy_value RP_GRACEFUL_UNSUPPORTED = ''graceful_unsupported''"
| "response_policy_value RP_SAFETY_DEESCALATION = ''safety_deescalation''"
| "response_policy_value RP_HUMAN_HANDOFF = ''human_handoff''"

fun domain_value :: "request_domain \<Rightarrow> string" where
  "domain_value RD_COMMERCE = ''commerce''"
| "domain_value RD_SOCIAL = ''social''"
| "domain_value RD_CAPABILITY = ''capability''"
| "domain_value RD_UNSUPPORTED = ''unsupported''"
| "domain_value RD_UNKNOWN = ''unknown''"

fun risk_level_value :: "request_risk_level \<Rightarrow> string" where
  "risk_level_value RL_LOW = ''low''"
| "risk_level_value RL_MEDIUM = ''medium''"
| "risk_level_value RL_HIGH = ''high''"
| "risk_level_value RL_UNKNOWN = ''unknown''"

definition routed_state :: "route_decision \<Rightarrow> pydict \<Rightarrow> pydict" where
  "routed_state d state =
     dset (dset (dset (dset state ''route_reason'' (PStr (rd_reason_code d)))
       ''response_policy'' (PStr (response_policy_value (rd_response_policy d))))
       ''request_domain'' (PStr (domain_value (rd_request_domain d))))
       ''request_risk_level'' (PStr (risk_level_value (rd_request_risk_level d)))"

definition routed_context :: "run_context \<Rightarrow> route_decision \<Rightarrow> run_context" where
  "routed_context c d =
     (let c = c\<lparr>rc_state := routed_state d (rc_state c)\<rparr> in
      case rd_outcome d of
        RO_HANDOFF \<Rightarrow> c\<lparr>rc_status := RS_WAITING_HUMAN\<rparr>
      | RO_ASK_USER \<Rightarrow> c\<lparr>rc_status := RS_WAITING_USER\<rparr>
      | RO_EXECUTE \<Rightarrow> c\<lparr>rc_execution_mode := rd_execution_mode d, rc_workflow_id := rd_workflow_id d,
          rc_workflow_version := rd_workflow_version d,
          rc_status := (if rd_execution_mode d = Some EM_READONLY_LOOP then RS_RUNNING_READONLY else RS_RUNNING_WORKFLOW)\<rparr>)"

definition check_target :: "'s engine \<Rightarrow> route_decision \<Rightarrow> unit result" where
  "check_target en d =
     (if rd_outcome d \<noteq> RO_EXECUTE then Inr ()
      else (case decision_executor d of
        None \<Rightarrow> Inl (OtherError ''AssertionError'')
      | Some (m, w, v) \<Rightarrow> bind_res (get_workflow (en_workflows en) w v) (\<lambda>_. Inr ())))"

definition engine_select_route ::
  "'s engine \<Rightarrow> 'r route_op \<Rightarrow> run_context \<Rightarrow> route_decision \<Rightarrow> 'r \<Rightarrow> run_context result \<times> 'r" where
  "engine_select_route en routes c d s =
     (if rc_status c \<notin> {RS_CREATED, RS_ROUTING}
      then (Inl (ValueError ''only a pre-route run can select an executor''), s)
      else (case check_target en d of
        Inl e \<Rightarrow> (Inl e, s)
      | Inr u \<Rightarrow>
          (case routes c d s of (Inl e, s) \<Rightarrow> (Inl e, s) | (Inr u, s) \<Rightarrow> (Inr (routed_context c d), s))))"

definition classify_and_route ::
  "'s engine \<Rightarrow> 'w classifier \<Rightarrow> (string \<times> intent_route_rule) list \<Rightarrow> 'r route_op \<Rightarrow> run_context \<Rightarrow>
   routing_prompt_view \<Rightarrow> tool_risk option \<Rightarrow> 'w \<Rightarrow> 'r \<Rightarrow> run_context result \<times> 'w \<times> 'r" where
  "classify_and_route en ci router routes c prompt target_risk w s =
     (case classify ci c prompt w of
        (Inl e, w) \<Rightarrow> (Inl e, w, s)
      | (Inr candidate, w) \<Rightarrow>
          (case decide router candidate target_risk of
             Inl e \<Rightarrow> (Inl e, w, s)
           | Inr d \<Rightarrow> (case engine_select_route en routes c d s of (r, s) \<Rightarrow> (r, w, s))))"

definition engine_resume :: "'s engine \<Rightarrow> string \<Rightarrow> string \<Rightarrow> 's \<Rightarrow> run_context result" where
  "engine_resume en run_id tenant s =
     (case en_resume en of
        None \<Rightarrow> Inl (RuntimeError ''checkpoint store does not support recovery'')
      | Some f \<Rightarrow>
          bind_res (f run_id tenant s) (\<lambda>x. case x of
             None \<Rightarrow> Inl (ValueError ''run checkpoint is unavailable'')
           | Some c \<Rightarrow> bind_res (workflow_for en c) (\<lambda>_. Inr c)))"

definition engine_cancel :: "'s engine \<Rightarrow> run_context \<Rightarrow> 's \<Rightarrow> run_context result \<times> 's" where
  "engine_cancel en c s =
     (case require_transition (rc_status c) RS_CANCELLED of
        Inl e \<Rightarrow> (Inl e, s)
      | Inr u \<Rightarrow>
          (let state = dset (rc_state c) ''last_step_reason'' (PStr ''cancelled'') in
           case en_checkpoint en c RS_CANCELLED ''terminal'' state [event ET_FAILED [(''reason'', PStr ''cancelled'')]] s of
             (Inl e, s) \<Rightarrow> (Inl e, s)
           | (Inr v, s) \<Rightarrow> (Inr (checkpointed_context c RS_CANCELLED state v), s)))"

section \<open>The executor of write nodes\<close>

record node_result =
  nr_status :: run_status
  nr_next_step :: string
  nr_state_patch :: pydict
  nr_events :: "domain_event list"

type_synonym 's workflow_node = "run_context \<Rightarrow> 's \<Rightarrow> node_result result \<times> 's"

definition workflow_advance ::
  "(string \<times> 's workflow_node) list \<Rightarrow> 's checkpoint_op \<Rightarrow> run_context \<Rightarrow> string \<Rightarrow> 's \<Rightarrow>
   (run_context \<times> string) result \<times> 's" where
  "workflow_advance handlers checkpoint c node s =
     (if rc_status c \<notin> {RS_RUNNING_WORKFLOW, RS_WAITING_CONFIRMATION, RS_COMMITTING, RS_VERIFYING}
      then (Inl (ValueError ''workflow executor cannot advance this run state''), s)
      else (case dget handlers node of
        None \<Rightarrow> (Inl (ValueError ''workflow node is unavailable''), s)
      | Some handler \<Rightarrow>
        (case handler c s of
           (Inl e, s) \<Rightarrow> (Inl e, s)
         | (Inr r, s) \<Rightarrow>
           (case require_transition (rc_status c) (nr_status r) of
              Inl e \<Rightarrow> (Inl e, s)
            | Inr u \<Rightarrow>
                (let state = foldl (\<lambda>d (k, v). dset d k v) (rc_state c) (nr_state_patch r) in
                 case checkpoint c (nr_status r) (nr_next_step r) state (nr_events r) s of
                   (Inl e, s) \<Rightarrow> (Inl e, s)
                 | (Inr v, s) \<Rightarrow> (Inr (checkpointed_context c (nr_status r) state v, node), s))))))"


section \<open>The engine over its stores\<close>

context route_store
begin

lemma engine_route_selected:
  assumes "engine_select_route en select c d s = (Inr c', s')"
  shows "rc_run_id c' = rc_run_id c \<and> selected s (rc_run_id c) = None \<and>
    (\<forall>x. chosen_executor d = Some x \<longrightarrow> selected s' (rc_run_id c') = Some x)"
proof -
  obtain u where u: "select c d s = (Inr u, s')" "c' = routed_context c d"
    using assms by (auto simp: engine_select_route_def split: if_splits sum.splits prod.splits)
  have "rc_run_id c' = rc_run_id c" by (simp add: u(2) routed_context_def Let_def split: route_outcome.split)
  then show ?thesis using first_selection [OF u(1)] selection_executes [OF u(1)] by simp
qed

lemma engine_route_refused:
  "engine_select_route en select c d s = (Inl e, s') \<Longrightarrow> s' = s"
  by (auto simp: engine_select_route_def dest: refused_keeps split: if_splits sum.splits prod.splits)

end

context checkpoint_store
begin

lemma cancel_in_sync:
  assumes "en_checkpoint en = checkpoint" "engine_cancel en c s = (Inr c', s')"
  shows "in_sync c' s' \<and> rc_status c' = RS_CANCELLED \<and> legal (rc_status c) RS_CANCELLED"
  using assms checkpoint_in_sync
  by (auto simp: engine_cancel_def Let_def checkpointed_context_def split: sum.splits prod.splits)

lemma workflow_advance_in_sync:
  assumes "workflow_advance handlers checkpoint c node s = (Inr (c', n), s')"
  shows "in_sync c' s' \<and> n = node \<and> legal (rc_status c) (rc_status c') \<and> rc_step_count c' = rc_step_count c + 1"
  using assms checkpoint_in_sync
  by (auto simp: workflow_advance_def Let_def checkpointed_context_def split: if_splits option.splits sum.splits prod.splits)

end

text \<open>Over the repositories: a route selected by the engine is the stored one, a cancelled run is stored so.\<close>

lemmas stored_route = run_routes.engine_route_selected
lemmas stored_cancel = run_store.cancel_in_sync

section \<open>The shipped registry\<close>

lemma shipped_keys_distinct: "distinct shipped_keys"
  unfolding shipped_keys_def by simp

lemma shipped_registry:
  "make_workflow_registry shipped_workflows = Inr (map (\<lambda>w. (workflow_key w, w)) shipped_workflows)"
proof -
  have "map workflow_key shipped_workflows = shipped_keys"
    by (simp add: shipped_workflows_def workflow_key_def shipped_workflow_def comp_def)
  then have "distinct (map workflow_key shipped_workflows)" using shipped_keys_distinct by simp
  then show ?thesis
    using foldl_dset_distinct [of workflow_key "[]" shipped_workflows] by (simp add: make_workflow_registry_def Let_def)
qed

lemma shipped_lookup:
  assumes "k \<in> set shipped_keys"
  shows "get_workflow (map (\<lambda>w. (workflow_key w, w)) shipped_workflows) (fst k) (snd k) = Inr (shipped_workflow k)"
proof -
  have "map_of (map (\<lambda>w. (workflow_key w, w)) shipped_workflows) k = Some (shipped_workflow k)"
    using shipped_keys_distinct assms
    by (intro map_of_is_SomeI)
      (auto simp: shipped_workflows_def workflow_key_def shipped_workflow_def comp_def image_iff)
  then show ?thesis by (simp add: get_workflow_def)
qed

text \<open>Every rule of the catalog leads to a published workflow whose names fit the columns of a run.\<close>

definition rule_published :: "intent_route_rule \<Rightarrow> bool" where
  "rule_published r \<longleftrightarrow>
     (ir_workflow_id r, ir_workflow_version r) \<in> set shipped_keys \<and>
     py_len (ir_workflow_id r) \<le> 64 \<and> py_len (ir_workflow_version r) \<le> 32"

lemma all_rules_published: "list_all rule_published (default_intent_route_rules @ conversational_rules)"
proof -
  have "list_all (\<lambda>r. py_len (ir_workflow_id r) \<le> 64 \<and> py_len (ir_workflow_version r) \<le> 32)
      (default_intent_route_rules @ conversational_rules)"
    by code_simp
  moreover have "list_all (\<lambda>r. ir_workflow_id r = ''conversational_response'' \<and> ir_workflow_version r = ''1'') conversational_rules"
    by code_simp
  ultimately show ?thesis by (auto simp: list_all_iff rule_published_def shipped_keys_def)
qed

lemma catalog_published: "dget (catalog v2 conv) i = Some r \<Longrightarrow> rule_published r"
  using all_rules_published by (auto dest!: catalog_lookup simp: intent_route_rules_def list_all_iff split: if_splits)

section \<open>Routing succeeds\<close>

lemma decide_fields: "decide rules c tr = Inr d \<Longrightarrow> route_decision_fields d"
proof -
  assume d: "decide rules c tr = Inr d"
  note bare = route_handoff_def route_ask_user_def make_route_decision_Inr
  show ?thesis
  proof (cases "dget rules (ic_intent c)")
    case None
    then show ?thesis using d by (simp add: decide_def bare)
  next
    case (Some rule)
    show ?thesis
    proof (cases "ir_force_handoff rule \<or> ic_confidence c < ir_min_confidence rule")
      case True
      then show ?thesis using d Some by (auto simp: decide_def bare split: if_splits)
    next
      case False
      then obtain stop where g:
        "(if ir_response_policy rule \<noteq> RP_EXECUTE then conversational_gate rule c else Inr None) = Inr stop"
        "(case stop of Some e \<Rightarrow> Inr e | None \<Rightarrow>
          (case escalate_mode (ir_execution_mode rule) (ic_risk_hint c) tr of
             Inl code \<Rightarrow> route_handoff code
           | Inr mode \<Rightarrow> make_route_decision (execute_decision rule c mode))) = Inr d"
        using d Some by (auto simp: decide_def bind_res_eq_Inr simp del: if_split split: if_split_asm)
      show ?thesis
      proof (cases stop)
        case None
        then show ?thesis using g(2) by (auto simp: bare split: sum.splits)
      next
        case (Some e)
        then have "conversational_gate rule c = Inr (Some d)" using g by (auto split: if_splits)
        then show ?thesis by (auto simp: conversational_gate_def bind_res_eq_Inr bare split: if_splits)
      qed
    qed
  qed
qed

lemma catalog_decision:
  assumes "decide (catalog v2 conv) c tr = Inr d" "rd_outcome d = RO_EXECUTE"
  obtains m w v where "decision_executor d = Some (m, w, v)" "rd_execution_mode d = Some m" "rd_workflow_id d = Some w"
    "rd_workflow_version d = Some v" "(w, v) \<in> set shipped_keys" "py_len w \<le> 64" "py_len v \<le> 32"
proof -
  obtain rule mode where r: "dget (catalog v2 conv) (ic_intent c) = Some rule" "d = execute_decision rule c mode"
    using assms by (rule decide_execute_cases)
  show ?thesis
    by (rule that [of mode "ir_workflow_id rule" "ir_workflow_version rule"])
      (use catalog_published [OF r(1)] in \<open>simp_all add: r(2) execute_decision_def decision_executor_def rule_published_def\<close>)
qed

lemma one_active_update:
  assumes "\<And>r. p r \<Longrightarrow> rr_conversation_id (f r) = rr_conversation_id r \<and> run_terminal (rr_status (f r)) = run_terminal (rr_status r)"
  shows "one_active_run (update_rows p f rows) = one_active_run rows"
proof -
  have "map rr_conversation_id (filter (\<lambda>r. \<not> run_terminal (rr_status r)) (update_rows p f rows)) =
      map rr_conversation_id (filter (\<lambda>r. \<not> run_terminal (rr_status r)) rows)"
    using assms by (induction rows) auto
  then show ?thesis by (simp add: one_active_run_def)
qed

lemma runs_ok_update:
  assumes "runs_ok rows" "\<And>r. p r \<Longrightarrow> rr_run_id (f r) = rr_run_id r"
    "\<And>r. p r \<Longrightarrow> rr_conversation_id (f r) = rr_conversation_id r \<and> run_terminal (rr_status (f r)) = run_terminal (rr_status r)"
    "\<And>r. r \<in> set rows \<Longrightarrow> p r \<Longrightarrow> run_checks (f r)"
  shows "runs_ok (update_rows p f rows)"
proof -
  have "list_all run_checks (update_rows p f rows)"
    using assms(1,4) by (auto simp: runs_ok_def update_rows_def list_all_iff)
  moreover have "map rr_run_id (update_rows p f rows) = map rr_run_id rows"
    using assms(2) by (rule map_update_rows_same)
  ultimately show ?thesis using assms(1) one_active_update [of p f rows] assms(3) by (simp add: runs_ok_def)
qed


text \<open>The statement of a decision of the catalog keeps every constraint of the table.\<close>

definition routable :: "route_decision \<Rightarrow> bool" where
  "routable d \<longleftrightarrow> py_len (rd_reason_code d) \<le> 128 \<and>
     (rd_outcome d = RO_EXECUTE \<longrightarrow> (\<exists>m w v. decision_executor d = Some (m, w, v) \<and> py_len w \<le> 64 \<and> py_len v \<le> 32))"

lemma catalog_routable: "decide (catalog v2 conv) c tr = Inr d \<Longrightarrow> routable d"
  using decide_fields [of "catalog v2 conv" c tr d] catalog_decision [of v2 conv c tr d]
  unfolding routable_def route_decision_fields_def str_field_def by metis

lemma routable_update:
  assumes "routable d"
  obtains f where "route_update now d = Inr f"
    "\<And>r. rr_run_id (f r) = rr_run_id r" "\<And>r. rr_conversation_id (f r) = rr_conversation_id r"
    "\<And>r. \<not> run_terminal (rr_status (f r))"
    "\<And>r. run_checks r \<Longrightarrow> rr_mode r = None \<Longrightarrow> run_checks (f r)"
    "\<And>r. run_widths r \<Longrightarrow> run_widths (f r)"
    "\<And>r. rr_mode r = None \<Longrightarrow> run_checks r \<Longrightarrow> rr_status r \<in> {RS_CREATED, RS_ROUTING} \<Longrightarrow> executor_selection_kept r (f r)"
proof (cases "rd_outcome d")
  case RO_EXECUTE
  then obtain m w v where e: "decision_executor d = Some (m, w, v)" "py_len w \<le> 64" "py_len v \<le> 32"
    using assms by (auto simp: routable_def)
  then have "route_update now d = Inr (\<lambda>r. (touch_times now id r)
      \<lparr>rr_mode := Some m, rr_workflow_id := Some w, rr_workflow_version := Some v, rr_status := mode_status m\<rparr>)"
    using RO_EXECUTE by (simp add: route_update_def)
  then show ?thesis
    by (rule that) (use e in \<open>cases m; auto simp: touch_times_def run_checks_def executor_shape_def mode_matches_status_def
      run_widths_def run_terminal_def mode_status_def executor_selection_kept_def\<close>)+
next
  case RO_ASK_USER
  then have u: "route_update now d = Inr (\<lambda>r. (touch_times now id r)
      \<lparr>rr_status := RS_WAITING_USER, rr_step := ''clarify'', rr_reason := Some (rd_reason_code d)\<rparr>)"
    by (simp add: route_update_def)
  have "py_len (rd_reason_code d) \<le> 128" "py_len ''clarify'' \<le> 64"
    using assms by (simp add: routable_def) code_simp
  note w = this
  show ?thesis
    by (rule that [OF u]) (use w in \<open>auto simp: touch_times_def run_checks_def executor_shape_def mode_matches_status_def
      run_widths_def run_terminal_def executor_selection_kept_def\<close>)
next
  case RO_HANDOFF
  then have u: "route_update now d = Inr (\<lambda>r. (touch_times now id r)
      \<lparr>rr_status := RS_WAITING_HUMAN, rr_step := ''terminal'', rr_reason := Some (rd_reason_code d)\<rparr>)"
    by (simp add: route_update_def)
  have "py_len (rd_reason_code d) \<le> 128" "py_len ''terminal'' \<le> 64"
    using assms by (simp add: routable_def) code_simp
  note w = this
  show ?thesis
    by (rule that [OF u]) (use w in \<open>auto simp: touch_times_def run_checks_def executor_shape_def mode_matches_status_def
      run_widths_def run_terminal_def executor_selection_kept_def\<close>)
qed

lemma select_route_succeeds:
  assumes "routable d" "runs_ok (db_runs db)" "r \<in> set (db_runs db)" "selects_executor (rc_run_id c) (rc_tenant_id c) r"
    "list_all run_widths (db_runs db)" "rc_status c \<in> {RS_CREATED, RS_ROUTING}"
  obtains f db' where "select_route now c d db = (Inr (), db')" "route_update now d = Inr f"
    "load_run_row (rc_run_id c) (rc_tenant_id c) db' = Some (f r)"
proof -
  let ?p = "selects_executor (rc_run_id c) (rc_tenant_id c)"
  obtain f where f: "route_update now d = Inr f" "\<And>r. rr_run_id (f r) = rr_run_id r"
    "\<And>r. rr_conversation_id (f r) = rr_conversation_id r" "\<And>r. \<not> run_terminal (rr_status (f r))"
    "\<And>r. run_checks r \<Longrightarrow> rr_mode r = None \<Longrightarrow> run_checks (f r)" "\<And>r. run_widths r \<Longrightarrow> run_widths (f r)"
    "\<And>r. rr_mode r = None \<Longrightarrow> run_checks r \<Longrightarrow> rr_status r \<in> {RS_CREATED, RS_ROUTING} \<Longrightarrow> executor_selection_kept r (f r)"
    using assms(1) by (rule routable_update) blast
  have checks: "\<And>r. r \<in> set (db_runs db) \<Longrightarrow> run_checks r" "\<And>r. r \<in> set (db_runs db) \<Longrightarrow> run_widths r"
    using assms(2,5) by (auto simp: runs_ok_def list_all_iff)
  have p: "?p r \<Longrightarrow> rr_mode r = None \<and> rr_status r \<in> {RS_CREATED, RS_ROUTING}" for r by (simp add: selects_executor_def)
  have live: "?p r \<Longrightarrow> \<not> run_terminal (rr_status r)" for r using p [of r] by (auto simp: run_terminal_def)
  have rows: "runs_ok (update_rows ?p f (db_runs db))"
    by (rule runs_ok_update [OF assms(2)]) (use f(2-5) live p checks in auto)
  have u: "update_runs ?p f db = Inr (row_count ?p (db_runs db), db\<lparr>db_runs := update_rows ?p f (db_runs db)\<rparr>)"
    unfolding update_runs_Inr using rows f(6,7) checks p by (auto simp: list_all_iff)
  have "row_count ?p (db_runs db) = 0 \<or> row_count ?p (db_runs db) = 1" using u f(2) by (rule selects_one)
  then have one: "row_count ?p (db_runs db) = 1" using assms(3,4) row_count_0 [of ?p "db_runs db"] by auto
  let ?db' = "db\<lparr>db_runs := update_rows ?p f (db_runs db)\<rparr>"
  have "select_route now c d db = (Inr (), ?db')" using assms(6) f(1) u one by (simp add: select_route_def)
  moreover have "f r \<in> set (db_runs ?db')" using assms(3,4) by (auto simp: update_rows_def image_iff intro!: bexI [of _ r])
  then have "load_run_row (rr_run_id (f r)) (rr_tenant_id (f r)) ?db' = Some (f r)" using rows by (intro load_run_rowI) simp_all
  then have "load_run_row (rc_run_id c) (rc_tenant_id c) ?db' = Some (f r)"
    using assms(4) f(2) route_update_pins [OF f(1)] by (simp add: selects_executor_def owned_run_def)
  ultimately show thesis using that f(1) by blast
qed

section \<open>Property\<close>

text \<open>A classified request is always routed. For every candidate the classifier returns, with the
  shipped catalog and registry under every flag setting, a stored run that has no executor yet gets a
  route: the call returns, the run leaves its pre-route status for a running or waiting one, and the
  returned context agrees with the stored row in status, mode and workflow. A run of the read-only
  executor was classified neither as a write nor with a writing target tool.\<close>

theorem classified_run_is_routed:
  assumes "classify ci c prompt w = (Inr candidate, w')" "rc_status c \<in> {RS_CREATED, RS_ROUTING}"
    "make_workflow_registry shipped_workflows = Inr (en_workflows en)"
    "runs_ok (db_runs db)" "list_all run_widths (db_runs db)"
    "load_run_row (rc_run_id c) (rc_tenant_id c) db = Some r" "rr_mode r = None" "rr_status r \<in> {RS_CREATED, RS_ROUTING}"
  shows "\<exists>c' db' r'. classify_and_route en ci (catalog v2 conv) (select_route now) c prompt tr w db = (Inr c', w', db') \<and>
    load_run_row (rc_run_id c) (rc_tenant_id c) db' = Some r' \<and> rr_status r' = rc_status c' \<and>
    rc_status c' \<in> {RS_RUNNING_READONLY, RS_RUNNING_WORKFLOW, RS_WAITING_USER, RS_WAITING_HUMAN} \<and>
    (rc_status c' \<in> {RS_RUNNING_READONLY, RS_RUNNING_WORKFLOW} \<longrightarrow>
       rr_mode r' = rc_execution_mode c' \<and> rr_workflow_id r' = rc_workflow_id c' \<and>
       rr_workflow_version r' = rc_workflow_version c' \<and> (\<exists>wd. workflow_for en c' = Inr wd)) \<and>
    (rc_status c' = RS_RUNNING_READONLY \<longrightarrow> ic_risk_hint candidate \<noteq> RH_WRITE \<and> tr \<in> {None, Some TR_READ_ONLY})"
proof -
  obtain d where d: "decide (catalog v2 conv) candidate tr = Inr d" using catalog_routing_total by blast
  have reg: "en_workflows en = map (\<lambda>w. (workflow_key w, w)) shipped_workflows"
    using assms(3) shipped_registry by simp
  have r: "r \<in> set (db_runs db)" "selects_executor (rc_run_id c) (rc_tenant_id c) r"
    using load_run_rowD [OF assms(6)] assms(7,8) by (simp_all add: selects_executor_def owned_run_def)
  obtain f db' where f: "select_route now c d db = (Inr (), db')" "route_update now d = Inr f"
    "load_run_row (rc_run_id c) (rc_tenant_id c) db' = Some (f r)"
    using catalog_routable [OF d] assms(4) r assms(5,2) by (rule select_route_succeeds)
  have target: "check_target en d = Inr ()"
  proof (cases "rd_outcome d = RO_EXECUTE")
    case True
    then obtain m w v where "decision_executor d = Some (m, w, v)" "(w, v) \<in> set shipped_keys"
      using catalog_decision [OF d] by metis
    then show ?thesis using shipped_lookup [of "(w, v)"] by (simp add: check_target_def reg)
  qed (simp add: check_target_def)
  let ?c = "routed_context c d"
  have run: "classify_and_route en ci (catalog v2 conv) (select_route now) c prompt tr w db = (Inr ?c, w', db')"
    using assms(1,2) d target f(1) by (simp add: classify_and_route_def engine_select_route_def)
  have readonly: "ic_risk_hint candidate \<noteq> RH_WRITE \<and> tr \<in> {None, Some TR_READ_ONLY}"
    if ro: "rd_outcome d = RO_EXECUTE" "rd_execution_mode d = Some EM_READONLY_LOOP"
  proof -
    obtain rule mode where "escalate_mode (ir_execution_mode rule) (ic_risk_hint candidate) tr = Inr mode"
      "d = execute_decision rule candidate mode"
      using d ro(1) by (rule decide_execute_cases)
    then show ?thesis using ro(2) escalate_mode_readonly by (auto simp: execute_decision_def)
  qed
  show ?thesis
  proof (cases "rd_outcome d = RO_EXECUTE")
    case True
    then obtain m w v where e: "decision_executor d = Some (m, w, v)" "rd_execution_mode d = Some m" "rd_workflow_id d = Some w"
      "rd_workflow_version d = Some v" "(w, v) \<in> set shipped_keys"
      using catalog_decision [OF d] by metis
    have "get_workflow (en_workflows en) w v = Inr (shipped_workflow (w, v))"
      using shipped_lookup [OF e(5)] by (simp add: reg)
    then have "rc_status ?c = mode_status m" "rc_execution_mode ?c = Some m" "rc_workflow_id ?c = Some w"
      "rc_workflow_version ?c = Some v" "\<exists>wd. workflow_for en ?c = Inr wd"
      using True e by (auto simp: routed_context_def mode_status_def workflow_for_def)
    moreover have "rr_status (f r) = mode_status m" "rr_mode (f r) = Some m" "rr_workflow_id (f r) = Some w"
      "rr_workflow_version (f r) = Some v"
      using f(2) True e(1) by (auto simp: route_update_def)
    moreover have "m = EM_READONLY_LOOP \<longrightarrow> ic_risk_hint candidate \<noteq> RH_WRITE \<and> tr \<in> {None, Some TR_READ_ONLY}"
      using readonly True e(2) by blast
    ultimately show ?thesis using run f(3) by (cases m) (auto simp: mode_status_def)
  next
    case False
    then have "rr_status (f r) = rc_status ?c \<and> rc_status ?c \<in> {RS_WAITING_USER, RS_WAITING_HUMAN}"
      using f(2) by (cases "rd_outcome d") (auto simp: route_update_def routed_context_def)
    then show ?thesis using run f(3) by auto
  qed
qed


section \<open>Witness\<close>

definition demo_classifier :: "unit classifier" where
  "demo_classifier =
     \<lparr>ci_gateway = (\<lambda>prompt w. (Inr (BareClassification thanks_candidate), w)), ci_provider = None, ci_model = None,
      ci_classifier_hash = None, ci_config_hash = Some ''m1'', ci_clock = (\<lambda>w. (0, w)), ci_recorder = None\<rparr>"

definition demo_engine :: "repository_state engine" where
  "demo_engine =
     \<lparr>en_config_hash = Some ''m1'', en_workflows = map (\<lambda>w. (workflow_key w, w)) shipped_workflows,
      en_checkpoint = checkpoint_run demo_repository, en_resume = Some resume_run, en_creation = None\<rparr>"

definition demo_prompt :: routing_prompt_view where
  "demo_prompt = \<lparr>rpv_conversation = [], rpv_allowed_intents = [''thanks''], rpv_known_slots = []\<rparr>"

lemma demo_candidate: "decide (catalog True True) thanks_candidate None =
    Inr (execute_decision (conversational_rule ''thanks'' RP_CONVERSATIONAL_RESPONSE RD_SOCIAL) thanks_candidate EM_READONLY_LOOP)"
  by code_simp

lemma classified_run_is_routed_witness:
  "\<exists>c' db'. classify_and_route demo_engine demo_classifier (catalog True True) (select_route 6) demo_new_context demo_prompt
     None () (snd demo_created) = (Inr c', (), db') \<and> rc_status c' = RS_RUNNING_READONLY \<and>
     (\<exists>r'. load_run_row ''run'' ''t'' db' = Some r' \<and> rr_status r' = RS_RUNNING_READONLY)"
proof -
  let ?r = "hd (db_runs (snd demo_created))"
  have c: "classify demo_classifier demo_new_context demo_prompt () = (Inr thanks_candidate, ())"
    by (simp add: classify_def demo_classifier_def read_answer_def)
  have reg: "make_workflow_registry shipped_workflows = Inr (en_workflows demo_engine)"
    by (simp add: demo_engine_def shipped_registry)
  have db: "runs_ok (db_runs (snd demo_created))" "list_all run_widths (db_runs (snd demo_created))"
    "load_run_row (rc_run_id demo_new_context) (rc_tenant_id demo_new_context) (snd demo_created) = Some ?r"
    "rr_mode ?r = None" "rr_status ?r \<in> {RS_CREATED, RS_ROUTING}" "rc_status demo_new_context \<in> {RS_CREATED, RS_ROUTING}"
    "rc_run_id demo_new_context = ''run''" "rc_tenant_id demo_new_context = ''t''"
    by code_simp+
  obtain c' db' r' where r: "classify_and_route demo_engine demo_classifier (catalog True True) (select_route 6)
      demo_new_context demo_prompt None () (snd demo_created) = (Inr c', (), db')"
    "load_run_row ''run'' ''t'' db' = Some r'" "rr_status r' = rc_status c'"
    using classified_run_is_routed [OF c db(6) reg db(1-5), of True True 6 None] db(7,8) by auto
  have "c' = routed_context demo_new_context
      (execute_decision (conversational_rule ''thanks'' RP_CONVERSATIONAL_RESPONSE RD_SOCIAL) thanks_candidate EM_READONLY_LOOP)"
    using r(1) c demo_candidate by (auto simp: classify_and_route_def engine_select_route_def split: if_splits sum.splits prod.splits)
  then have "rc_status c' = RS_RUNNING_READONLY" by (simp add: routed_context_def execute_decision_def)
  then show ?thesis using r by auto
qed

end
