(* ===== verification/MutationBoundary.thy ===== *)
theory MutationBoundary
  imports MutationSafety
begin

text \<open>
  \<open>src/orchestration/mutation_execution.py\<close>: the boundary around an externally visible mutation. A
  durable intent is claimed before the adapter is called, the outcome is handed to a checkpoint, and
  an intent that was claimed without an outcome is reported as unknown and never executed again.

  The store of the intents is an interface, the locale \<open>intent_store\<close>; the repository of the mutations
  provides it. The adapter and the checkpoint are arguments of every call, as in the code. The adapter
  works on a world of its own, its calls are recorded with the idempotency key they carry.
  \<open>after_adapter\<close>, the seam for injected faults, is the result of that call: \<open>Inr ()\<close> when unset.
\<close>

section \<open>Values\<close>

record execution_result =
  xr_status :: execution_status
  xr_reference :: "string option"
  xr_response :: pydict
  xr_reused :: bool

definition unknown_outcome :: "bool \<Rightarrow> execution_result" where
  "unknown_outcome reused = \<lparr>xr_status = MX_UNKNOWN, xr_reference = None, xr_response = [], xr_reused = reused\<rparr>"

definition replay_outcome :: "stored_execution \<Rightarrow> execution_result option" where
  "replay_outcome x =
     (case sx_status x of
        MX_RESERVED \<Rightarrow> None
      | MX_IN_PROGRESS \<Rightarrow> Some (unknown_outcome True)
      | s \<Rightarrow> Some \<lparr>xr_status = s, xr_reference = sx_reference x,
               xr_response = (case sx_response x of None \<Rightarrow> [] | Some d \<Rightarrow> d), xr_reused = True\<rparr>)"

fun completion_status :: "adapter_status \<Rightarrow> execution_status" where
  "completion_status MA_SUCCEEDED = MX_SUCCEEDED"
| "completion_status MA_REJECTED = MX_FAILED"
| "completion_status MA_UNKNOWN = MX_UNKNOWN"

definition completion_of :: "mutation_intent \<Rightarrow> adapter_result \<Rightarrow> mutation_completion" where
  "completion_of i r =
     \<lparr>mc_record_id = mi_record_id i, mc_fingerprint = mi_fingerprint i, mc_status = completion_status (ar_status r),
      mc_reference = ar_reference r, mc_response = ar_response r\<rparr>"

lemma replay_outcome_None [simp]: "replay_outcome x = None \<longleftrightarrow> sx_status x = MX_RESERVED"
  by (cases "sx_status x") (simp_all add: replay_outcome_def)

lemma replay_outcome_reused: "replay_outcome x = Some o' \<Longrightarrow> xr_reused o'"
  by (cases "sx_status x") (auto simp: replay_outcome_def unknown_outcome_def)

section \<open>The boundary\<close>

type_synonym 'w adapter = "string \<Rightarrow> 'w \<Rightarrow> adapter_result result \<times> 'w"
type_synonym 's mutation_checkpoint = "mutation_completion \<Rightarrow> 's \<Rightarrow> unit result \<times> 's"
type_synonym 's intent_load = "mutation_intent \<Rightarrow> 's \<Rightarrow> stored_execution option result"
type_synonym 's intent_claim = "mutation_intent \<Rightarrow> 's \<Rightarrow> execution_claim result \<times> 's"

record ('w, 's) boundary_state =
  bs_world :: 'w
  bs_calls :: "string list"
  bs_store :: 's

definition require_intent :: "'s intent_load \<Rightarrow> mutation_intent \<Rightarrow> 's \<Rightarrow> stored_execution result" where
  "require_intent load i s =
     bind_res (load i s) (\<lambda>x. case x of
       None \<Rightarrow> Inl (MutationExecutionError ''durable mutation intent is unavailable'') | Some y \<Rightarrow> Inr y)"

text \<open>\<open>except Exception\<close>: an adapter that raises has an unknown outcome.\<close>

definition call_adapter ::
  "'w adapter \<Rightarrow> string \<Rightarrow> ('w, 's) boundary_state \<Rightarrow> adapter_result \<times> ('w, 's) boundary_state" where
  "call_adapter adapter key st =
     (let (r, w) = adapter key (bs_world st) in
      (case r of Inl e \<Rightarrow> \<lparr>ar_status = MA_UNKNOWN, ar_reference = None, ar_response = []\<rparr> | Inr x \<Rightarrow> x,
       st\<lparr>bs_world := w, bs_calls := bs_calls st @ [key]\<rparr>))"

definition complete_execution ::
  "'s mutation_checkpoint \<Rightarrow> mutation_completion \<Rightarrow> bool \<Rightarrow> ('w, 's) boundary_state \<Rightarrow>
   execution_result result \<times> ('w, 's) boundary_state" where
  "complete_execution checkpoint m reused st =
     (let (r, s) = checkpoint m (bs_store st) in
      (bind_res r (\<lambda>u. Inr \<lparr>xr_status = mc_status m, xr_reference = mc_reference m, xr_response = mc_response m,
         xr_reused = reused\<rparr>), st\<lparr>bs_store := s\<rparr>))"

definition execute_claimed ::
  "mutation_intent \<Rightarrow> 'w adapter \<Rightarrow> 's mutation_checkpoint \<Rightarrow> unit result \<Rightarrow> ('w, 's) boundary_state \<Rightarrow>
   execution_result result \<times> ('w, 's) boundary_state" where
  "execute_claimed i adapter checkpoint after_adapter st =
     (let (r, st) = call_adapter adapter (mi_record_id i) st in
      case after_adapter of
        Inl e \<Rightarrow> (Inl e, st)
      | Inr u \<Rightarrow> complete_execution checkpoint (completion_of i r) False st)"

definition execute_mutation ::
  "'s intent_load \<Rightarrow> 's intent_claim \<Rightarrow> mutation_intent \<Rightarrow> 'w adapter \<Rightarrow> 's mutation_checkpoint \<Rightarrow> unit result \<Rightarrow>
   ('w, 's) boundary_state \<Rightarrow> execution_result result \<times> ('w, 's) boundary_state" where
  "execute_mutation load claim i adapter checkpoint after_adapter st =
     (case require_intent load i (bs_store st) of
        Inl e \<Rightarrow> (Inl e, st)
      | Inr current \<Rightarrow>
        (case replay_outcome current of
           Some out \<Rightarrow> (Inr out, st)
         | None \<Rightarrow>
           (case claim i (bs_store st) of
              (Inl e, s) \<Rightarrow> (Inl e, st\<lparr>bs_store := s\<rparr>)
            | (Inr c, s) \<Rightarrow>
              (let st = st\<lparr>bs_store := s\<rparr> in
               if \<not> cl_acquired c
               then (Inr (case replay_outcome (cl_execution c) of Some out \<Rightarrow> out | None \<Rightarrow> unknown_outcome True), st)
               else if sx_status (cl_execution c) \<noteq> MX_IN_PROGRESS
               then (Inl (MutationExecutionError ''claimed mutation did not enter in_progress''), st)
               else execute_claimed i adapter checkpoint after_adapter st))))"

definition unknown_completion :: "mutation_intent \<Rightarrow> mutation_completion" where
  "unknown_completion i =
     \<lparr>mc_record_id = mi_record_id i, mc_fingerprint = mi_fingerprint i, mc_status = MX_UNKNOWN,
      mc_reference = None, mc_response = []\<rparr>"

definition recover_mutation ::
  "'s intent_load \<Rightarrow> mutation_intent \<Rightarrow> 's mutation_checkpoint \<Rightarrow> ('w, 's) boundary_state \<Rightarrow>
   execution_result result \<times> ('w, 's) boundary_state" where
  "recover_mutation load i checkpoint st =
     (case require_intent load i (bs_store st) of
        Inl e \<Rightarrow> (Inl e, st)
      | Inr current \<Rightarrow>
          if sx_status current = MX_RESERVED then (Inr (unknown_outcome True), st)
          else if sx_status current \<noteq> MX_IN_PROGRESS
          then (case replay_outcome current of
                  None \<Rightarrow> (Inl (MutationExecutionError ''invalid durable mutation state''), st)
                | Some out \<Rightarrow> (Inr out, st))
          else complete_execution checkpoint (unknown_completion i) True st)"

section \<open>What an execution does to its store\<close>

lemma execute_cases:
  assumes "execute_mutation load claim i adapter checkpoint (Inr ()) st = (Inr out, st')"
  shows "(xr_reused out \<and> bs_calls st' = bs_calls st \<and> bs_world st' = bs_world st \<and>
      (bs_store st' = bs_store st \<or> (\<exists>c. claim i (bs_store st) = (Inr c, bs_store st')))) \<or>
    (\<not> xr_reused out \<and> (\<exists>c s m. claim i (bs_store st) = (Inr c, s) \<and> cl_acquired c \<and>
      bs_calls st' = bs_calls st @ [mi_record_id i] \<and> mc_record_id m = mi_record_id i \<and>
      checkpoint m s = (Inr (), bs_store st') \<and> mc_status m = xr_status out))"
proof -
  obtain current where cur: "require_intent load i (bs_store st) = Inr current"
    using assms by (auto simp: execute_mutation_def split: sum.splits)
  show ?thesis
  proof (cases "replay_outcome current")
    case (Some o')
    then show ?thesis using assms cur replay_outcome_reused [OF Some] by (simp add: execute_mutation_def)
  next
    case new: None
    obtain q s where q: "claim i (bs_store st) = (q, s)" by force
    obtain c where c: "q = Inr c" using assms cur new q by (cases q) (auto simp: execute_mutation_def)
    show ?thesis
    proof (cases "cl_acquired c")
      case False
      then have "out = (case replay_outcome (cl_execution c) of Some o' \<Rightarrow> o' | None \<Rightarrow> unknown_outcome True)"
        "st' = st\<lparr>bs_store := s\<rparr>"
        using assms cur new q c by (simp_all add: execute_mutation_def)
      then show ?thesis
        using q c replay_outcome_reused by (auto simp: unknown_outcome_def split: option.splits)
    next
      case True
      then have ex: "execute_claimed i adapter checkpoint (Inr ()) (st\<lparr>bs_store := s\<rparr>) = (Inr out, st')"
        using assms cur new q c by (auto simp: execute_mutation_def Let_def split: if_splits)
      obtain a st1 where a: "call_adapter adapter (mi_record_id i) (st\<lparr>bs_store := s\<rparr>) = (a, st1)" by force
      then have st1: "bs_store st1 = s" "bs_calls st1 = bs_calls st @ [mi_record_id i]"
        by (auto simp: call_adapter_def split: prod.splits)
      obtain r s2 where r: "checkpoint (completion_of i a) s = (r, s2)" by force
      have "r = Inr ()" "st' = st1\<lparr>bs_store := s2\<rparr>" "\<not> xr_reused out" "xr_status out = mc_status (completion_of i a)"
        using ex a st1 r by (cases r; auto simp: execute_claimed_def complete_execution_def)+
      then show ?thesis
        using q c True st1 r
        by (intro disjI2 conjI exI [of _ c] exI [of _ s] exI [of _ "completion_of i a"]) (simp_all add: completion_of_def)
    qed
  qed
qed

text \<open>A store with a component the boundary does not see behaves like the store without it.\<close>

definition project_store :: "('s \<Rightarrow> 't) \<Rightarrow> ('w, 's) boundary_state \<Rightarrow> ('w, 't) boundary_state" where
  "project_store f st = \<lparr>bs_world = bs_world st, bs_calls = bs_calls st, bs_store = f (bs_store st)\<rparr>"

lemma project_store_simps [simp]:
  "bs_world (project_store f st) = bs_world st" "bs_calls (project_store f st) = bs_calls st"
  "bs_store (project_store f st) = f (bs_store st)" "project_store f (st\<lparr>bs_store := s\<rparr>) = (project_store f st)\<lparr>bs_store := f s\<rparr>"
  by (simp_all add: project_store_def)

lemma call_adapter_project:
  "call_adapter adapter key st = (a, st') \<Longrightarrow> call_adapter adapter key (project_store f st) = (a, project_store f st')"
  by (auto simp: call_adapter_def project_store_def split: prod.splits)

lemma execute_project:
  assumes load: "\<And>x. load' i x = load i (f x)" and claim: "\<And>x. map_prod id f (claim' i x) = claim i (f x)"
    and checkpoint: "\<And>m x. map_prod id f (checkpoint' m x) = checkpoint m (f x)"
    and ex: "execute_mutation load' claim' i adapter checkpoint' after st = (r, st')"
  shows "execute_mutation load claim i adapter checkpoint after (project_store f st) = (r, project_store f st')"
proof -
  have req: "require_intent load' i x = require_intent load i (f x)" for x by (simp add: require_intent_def load)
  have cl: "claim i (f x) = (q, f s)" if "claim' i x = (q, s)" for x q s using claim [of x] that by simp
  have claimed: "execute_claimed i adapter checkpoint after (project_store f q) = (r, project_store f st')"
    if "execute_claimed i adapter checkpoint' after q = (r, st')" for q
  proof -
    obtain a st1 where a: "call_adapter adapter (mi_record_id i) q = (a, st1)" by force
    obtain k s2 where k: "checkpoint' (completion_of i a) (bs_store st1) = (k, s2)" by force
    have "checkpoint (completion_of i a) (f (bs_store st1)) = (k, f s2)" using checkpoint k by (metis map_prod_simp id_apply)
    then show ?thesis
      using that a call_adapter_project [OF a, of f] k
      by (auto simp: execute_claimed_def complete_execution_def split: sum.splits)
  qed
  show ?thesis
  proof (cases "require_intent load' i (bs_store st)")
    case (Inl e)
    then show ?thesis using ex req by (simp add: execute_mutation_def)
  next
    case cur: (Inr current)
    show ?thesis
    proof (cases "replay_outcome current")
      case (Some out)
      then show ?thesis using ex cur req by (simp add: execute_mutation_def)
    next
      case None
      obtain q s where q: "claim' i (bs_store st) = (q, s)" by force
      note run = ex [unfolded execute_mutation_def cur q None, simplified]
      have "require_intent load i (f (bs_store st)) = Inr current" using cur req by simp
      then show ?thesis
        using run cl [OF q] None claimed [of "st\<lparr>bs_store := s\<rparr>"]
        by (cases q) (auto simp add: execute_mutation_def Let_def simp del: replay_outcome_None split: if_split_asm)
    qed
  qed
qed

section \<open>The interface of the store\<close>

text \<open>
  An intent is found with its own identity and status; it is claimed only from \<open>reserved\<close> and is
  \<open>in_progress\<close> afterwards; a refused or failed claim changes no status, and a refused one shows a
  status other than \<open>reserved\<close>.
\<close>

locale intent_store =
  fixes load :: "'s intent_load"
    and claim :: "'s intent_claim"
    and invar :: "'s \<Rightarrow> bool"
    and status_of :: "'s \<Rightarrow> string \<Rightarrow> execution_status option"
  assumes load_status:
      "invar s \<Longrightarrow> load i s = Inr (Some x) \<Longrightarrow> status_of s (mi_record_id i) = Some (sx_status x) \<and> sx_intent x = i"
    and claim_invar: "invar s \<Longrightarrow> claim i s = (r, s') \<Longrightarrow> invar s'"
    and claim_failed: "invar s \<Longrightarrow> claim i s = (Inl e, s') \<Longrightarrow> status_of s' = status_of s"
    and claim_acquired:
      "invar s \<Longrightarrow> claim i s = (Inr c, s') \<Longrightarrow> cl_acquired c \<Longrightarrow>
         status_of s (mi_record_id i) = Some MX_RESERVED \<and> sx_status (cl_execution c) = MX_IN_PROGRESS \<and>
         status_of s' = (status_of s)(mi_record_id i \<mapsto> MX_IN_PROGRESS)"
    and claim_refused:
      "invar s \<Longrightarrow> claim i s = (Inr c, s') \<Longrightarrow> \<not> cl_acquired c \<Longrightarrow>
         status_of s' = status_of s \<and> sx_status (cl_execution c) \<noteq> MX_RESERVED \<and>
         status_of s (mi_record_id i) = Some (sx_status (cl_execution c))"
begin

text \<open>An intent whose adapter may have been called.\<close>

definition started :: "'s \<Rightarrow> string \<Rightarrow> bool" where
  "started s k \<longleftrightarrow> status_of s k \<noteq> None \<and> status_of s k \<noteq> Some MX_RESERVED"

text \<open>What a checkpoint has to keep: a started intent stays started.\<close>

definition keeps_started :: "'s \<Rightarrow> 's \<Rightarrow> bool" where
  "keeps_started s s' \<longleftrightarrow> (invar s \<longrightarrow> invar s') \<and> (\<forall>k. started s k \<longrightarrow> started s' k)"

definition safe_checkpoint :: "'s mutation_checkpoint \<Rightarrow> bool" where
  "safe_checkpoint checkpoint \<longleftrightarrow> (\<forall>m s. invar s \<longrightarrow> keeps_started s (snd (checkpoint m s)))"

lemma keeps_startedD: "keeps_started s s' \<Longrightarrow> invar s \<Longrightarrow> invar s'"
  by (simp add: keeps_started_def)

lemma complete_keeps:
  assumes "safe_checkpoint checkpoint" "invar (bs_store st)" "complete_execution checkpoint m reused st = (r, st')"
  shows "keeps_started (bs_store st) (bs_store st') \<and> bs_calls st' = bs_calls st"
proof -
  obtain q s where q: "checkpoint m (bs_store st) = (q, s)" by force
  have "keeps_started (bs_store st) s" using assms(1,2) q unfolding safe_checkpoint_def by (metis snd_conv)
  then show ?thesis using assms(3) q by (auto simp: complete_execution_def)
qed

lemma call_adapter_state:
  "call_adapter adapter key st = (r, st') \<Longrightarrow> bs_store st' = bs_store st \<and> bs_calls st' = bs_calls st @ [key]"
  by (auto simp: call_adapter_def split: prod.splits)

lemma execute_claimed_state:
  assumes "safe_checkpoint checkpoint" "invar (bs_store st)" "execute_claimed i adapter checkpoint after st = (r, st')"
  shows "keeps_started (bs_store st) (bs_store st') \<and> bs_calls st' = bs_calls st @ [mi_record_id i]"
proof -
  obtain q st1 where q: "call_adapter adapter (mi_record_id i) st = (q, st1)" by force
  note c = call_adapter_state [OF q]
  show ?thesis
  proof (cases after)
    case (Inl e)
    then show ?thesis using assms(3) q c by (auto simp: execute_claimed_def keeps_started_def)
  next
    case (Inr u)
    then have "complete_execution checkpoint (completion_of i q) False st1 = (r, st')"
      using assms(3) q by (simp add: execute_claimed_def)
    then show ?thesis using complete_keeps [OF assms(1)] assms(2) c by metis
  qed
qed

lemma execute_keeps:
  assumes ck: "safe_checkpoint checkpoint" and inv: "invar (bs_store st)"
    and ex: "execute_mutation load claim i adapter checkpoint after st = (r, st')"
  shows "keeps_started (bs_store st) (bs_store st') \<and>
    (bs_calls st' = bs_calls st \<or>
     (bs_calls st' = bs_calls st @ [mi_record_id i] \<and> status_of (bs_store st) (mi_record_id i) = Some MX_RESERVED \<and>
      started (bs_store st') (mi_record_id i)))"
proof -
  have same: "st' = st \<Longrightarrow> ?thesis" by (simp add: keeps_started_def)
  show ?thesis
  proof (cases "require_intent load i (bs_store st)")
    case (Inl e)
    then show ?thesis using ex same by (simp add: execute_mutation_def)
  next
    case cur: (Inr current)
    show ?thesis
    proof (cases "replay_outcome current")
      case (Some out)
      then show ?thesis using ex cur same by (simp add: execute_mutation_def)
    next
      case new: None
      obtain q s where q: "claim i (bs_store st) = (q, s)" by force
      have inv': "invar s" using claim_invar [OF inv q] .
      show ?thesis
      proof (cases q)
        case (Inl e)
        then have "status_of s = status_of (bs_store st)" using claim_failed inv q by blast
        moreover have "st' = st\<lparr>bs_store := s\<rparr>" using ex cur new q Inl by (simp add: execute_mutation_def)
        ultimately show ?thesis using inv' by (simp add: keeps_started_def started_def)
      next
        case cl: (Inr c)
        show ?thesis
        proof (cases "cl_acquired c")
          case False
          then have "status_of s = status_of (bs_store st)" using claim_refused inv q cl by blast
          moreover have "st' = st\<lparr>bs_store := s\<rparr>" using ex cur new q cl False by (simp add: execute_mutation_def)
          ultimately show ?thesis using inv' by (simp add: keeps_started_def started_def)
        next
          case True
          note a = claim_acquired [OF inv q [unfolded cl] True]
          have ex': "execute_claimed i adapter checkpoint after (st\<lparr>bs_store := s\<rparr>) = (r, st')"
            using ex cur new q cl True a by (simp add: execute_mutation_def)
          have k: "keeps_started s (bs_store st') \<and> bs_calls st' = bs_calls st @ [mi_record_id i]"
            using execute_claimed_state [OF ck _ ex'] inv' by simp
          have "keeps_started (bs_store st) s" using a inv' by (auto simp: keeps_started_def started_def)
          moreover have "started s (mi_record_id i)" using a by (simp add: started_def)
          ultimately show ?thesis using k a by (auto simp: keeps_started_def)
        qed
      qed
    qed
  qed
qed

lemma recover_keeps:
  assumes "safe_checkpoint checkpoint" "invar (bs_store st)" "recover_mutation load i checkpoint st = (r, st')"
  shows "keeps_started (bs_store st) (bs_store st') \<and> bs_calls st' = bs_calls st"
proof -
  have "st' = st \<or> complete_execution checkpoint (unknown_completion i) True st = (r, st')"
    using assms(3) by (auto simp: recover_mutation_def split: sum.splits option.splits if_splits)
  then show ?thesis using complete_keeps [OF assms(1,2)] by (auto simp: keeps_started_def)
qed

text \<open>A started intent is answered from the store: no call, no claim, an outcome marked as reused.\<close>

text \<open>A reused outcome is the stored one; an intent in progress counts as unknown.\<close>

definition reported_status :: "'s \<Rightarrow> string \<Rightarrow> execution_status option" where
  "reported_status s k = (if status_of s k = Some MX_IN_PROGRESS then Some MX_UNKNOWN else status_of s k)"

lemma replay_status:
  "replay_outcome x = Some out \<Longrightarrow> xr_status out = (if sx_status x = MX_IN_PROGRESS then MX_UNKNOWN else sx_status x)"
  by (cases "sx_status x") (auto simp: replay_outcome_def unknown_outcome_def)

lemma execute_reused:
  assumes inv: "invar (bs_store st)" and ex: "execute_mutation load claim i adapter checkpoint (Inr ()) st = (Inr out, st')"
    and reused: "xr_reused out"
  shows "reported_status (bs_store st') (mi_record_id i) = Some (xr_status out) \<and> xr_status out \<noteq> MX_RESERVED"
proof -
  obtain current where cur: "require_intent load i (bs_store st) = Inr current"
    using ex by (auto simp: execute_mutation_def split: sum.splits)
  then have l: "load i (bs_store st) = Inr (Some current)"
    by (auto simp: require_intent_def bind_res_eq_Inr split: option.splits)
  show ?thesis
  proof (cases "replay_outcome current")
    case (Some o')
    then have "out = o'" "st' = st" using ex cur by (simp_all add: execute_mutation_def)
    moreover have "sx_status current \<noteq> MX_RESERVED" using Some replay_outcome_None [of current] by auto
    ultimately show ?thesis
      using load_status [OF inv l] replay_status [OF Some] by (auto simp: reported_status_def)
  next
    case new: None
    obtain q s where q: "claim i (bs_store st) = (q, s)" by force
    obtain c where c: "q = Inr c" using ex cur new q by (cases q) (auto simp: execute_mutation_def)
    show ?thesis
    proof (cases "cl_acquired c")
      case False
      note r = claim_refused [OF inv q [unfolded c] False]
      have "replay_outcome (cl_execution c) = Some out" "bs_store st' = s"
        using ex cur new q c False r by (auto simp: execute_mutation_def split: option.splits)
      then show ?thesis using replay_status r by (auto simp: reported_status_def)
    next
      case True
      have "execute_claimed i adapter checkpoint (Inr ()) (st\<lparr>bs_store := s\<rparr>) = (Inr out, st')"
        using ex cur new q c True by (auto simp: execute_mutation_def Let_def split: if_splits)
      then have "\<not> xr_reused out"
        by (auto simp: execute_claimed_def complete_execution_def bind_res_eq_Inr split: prod.splits)
      then show ?thesis using reused by simp
    qed
  qed
qed

lemma execute_started:
  assumes "invar (bs_store st)" "started (bs_store st) (mi_record_id i)"
    "execute_mutation load claim i adapter checkpoint after st = (Inr out, st')"
  shows "st' = st \<and> xr_reused out \<and>
    Some (xr_status out) =
      (if status_of (bs_store st) (mi_record_id i) = Some MX_IN_PROGRESS then Some MX_UNKNOWN
       else status_of (bs_store st) (mi_record_id i))"
proof -
  obtain x where x: "load i (bs_store st) = Inr (Some x)" "require_intent load i (bs_store st) = Inr x"
    using assms(3)
    by (auto simp: execute_mutation_def require_intent_def bind_res_eq_Inr split: sum.splits option.splits)
  have s: "status_of (bs_store st) (mi_record_id i) = Some (sx_status x)" using load_status [OF assms(1) x(1)] by simp
  then have "sx_status x \<noteq> MX_RESERVED" using assms(2) by (simp add: started_def)
  then obtain o' where o: "replay_outcome x = Some o'" by (cases "replay_outcome x") auto
  then have "st' = st \<and> out = o'" using assms(3) x(2) by (simp add: execute_mutation_def)
  moreover have "xr_status o' = (if sx_status x = MX_IN_PROGRESS then MX_UNKNOWN else sx_status x)"
    using o by (cases "sx_status x") (auto simp: replay_outcome_def unknown_outcome_def)
  ultimately show ?thesis using s replay_outcome_reused [OF o] by simp
qed

end

end
