(* ===== verification/MutationStore.thy ===== *)
theory MutationStore
  imports RunStore MutationBoundary
begin

text \<open>
  \<open>src/repositories/mutations.py\<close>: confirmation tokens and idempotency records in the database.
  \<open>ConfirmationRepository\<close> issues, rotates, rejects, expires and consumes tokens; consuming one and
  reserving the idempotency record is a single transaction. \<open>MutationExecutionRepository\<close> reserves,
  loads and claims the durable intents. Every statement is a conditional update of the state the
  database holds, so concurrent callers are sequences of transactions. The database clock, the new
  UUIDs and the hash of a record id are arguments.
\<close>

section \<open>Confirmation tokens\<close>

record token_input =
  ti_hash :: string
  ti_run_id :: string
  ti_tenant_id :: string
  ti_actor_ref :: string
  ti_mutation_type :: string
  ti_resource_ref :: string
  ti_preview_hash :: string
  ti_arguments_hash :: string
  ti_policy_version :: string
  ti_workflow_version :: string
  ti_expires_at :: int

record reservation =
  rz_record_id :: string
  rz_status :: string
  rz_reused :: bool

definition token_row_of :: "int \<Rightarrow> string \<Rightarrow> token_input \<Rightarrow> token_row" where
  "token_row_of now token_id t =
     \<lparr>tk_token_id = token_id, tk_hash = ti_hash t, tk_run_id = ti_run_id t, tk_tenant_id = ti_tenant_id t,
      tk_actor_ref = ti_actor_ref t, tk_mutation_type = ti_mutation_type t, tk_resource_ref = ti_resource_ref t,
      tk_preview_hash = ti_preview_hash t, tk_arguments_hash = ti_arguments_hash t,
      tk_policy_version = ti_policy_version t, tk_workflow_version = ti_workflow_version t,
      tk_status = ''waiting'', tk_expires_at = ti_expires_at t, tk_created_at = now, tk_version = 0\<rparr>"

definition issue_token :: "int \<Rightarrow> string \<Rightarrow> token_input \<Rightarrow> runtime_db \<Rightarrow> string result \<times> runtime_db" where
  "issue_token now token_id t db =
     transaction db (bind_res (insert_token (token_row_of now token_id t) db) (\<lambda>(u, db). Inr (token_id, db)))"

definition token_for_run :: "string \<Rightarrow> string \<Rightarrow> string \<Rightarrow> string option \<Rightarrow> token_row \<Rightarrow> bool" where
  "token_for_run run_id tenant actor h t \<longleftrightarrow>
     tk_run_id t = run_id \<and> tk_tenant_id t = tenant \<and> tk_actor_ref t = actor \<and>
     (case h of None \<Rightarrow> True | Some x \<Rightarrow> tk_hash t = x)"

text \<open>\<open>ORDER BY created_at DESC LIMIT 1\<close>; of equally old rows the one inserted last.\<close>

definition load_for_run ::
  "string \<Rightarrow> string \<Rightarrow> string \<Rightarrow> string option \<Rightarrow> runtime_db \<Rightarrow> token_row option" where
  "load_for_run run_id tenant actor h db =
     (case rev (sort_key tk_created_at (filter (token_for_run run_id tenant actor h) (db_tokens db))) of
        [] \<Rightarrow> None | t # _ \<Rightarrow> Some t)"

definition set_token_status :: "string \<Rightarrow> token_row \<Rightarrow> token_row" where
  "set_token_status status t = t\<lparr>tk_status := status, tk_version := tk_version t + 1\<rparr>"

definition waiting_preview :: "string \<Rightarrow> string \<Rightarrow> string \<Rightarrow> string \<Rightarrow> token_row \<Rightarrow> bool" where
  "waiting_preview run_id tenant actor preview t \<longleftrightarrow>
     tk_run_id t = run_id \<and> tk_tenant_id t = tenant \<and> tk_actor_ref t = actor \<and>
     tk_preview_hash t = preview \<and> tk_status t = ''waiting''"

definition invalidate_waiting ::
  "string \<Rightarrow> string \<Rightarrow> string \<Rightarrow> string \<Rightarrow> runtime_db \<Rightarrow> unit result \<times> runtime_db" where
  "invalidate_waiting run_id tenant actor preview db =
     transaction db (bind_res
       (update_tokens (waiting_preview run_id tenant actor preview) (set_token_status ''invalidated'') db)
       (\<lambda>(n, db). Inr ((), db)))"

definition rotate_waiting ::
  "int \<Rightarrow> string \<Rightarrow> string \<Rightarrow> string \<Rightarrow> string \<Rightarrow> string \<Rightarrow> token_input \<Rightarrow> runtime_db \<Rightarrow>
   string result \<times> runtime_db" where
  "rotate_waiting now token_id run_id tenant actor preview t db =
     transaction db (bind_res
       (update_tokens (\<lambda>r. waiting_preview run_id tenant actor preview r \<and> now < tk_expires_at r)
         (set_token_status ''invalidated'') db)
       (\<lambda>(n, db).
         if n \<noteq> 1 then Inl ConfirmationUnavailableError
         else bind_res (insert_token (token_row_of now token_id t) db) (\<lambda>(u, db). Inr (token_id, db))))"

definition usable_token :: "int \<Rightarrow> string \<Rightarrow> string \<Rightarrow> string \<Rightarrow> int \<Rightarrow> token_row \<Rightarrow> bool" where
  "usable_token now h tenant actor version t \<longleftrightarrow>
     tk_hash t = h \<and> tk_tenant_id t = tenant \<and> tk_actor_ref t = actor \<and> tk_status t = ''waiting'' \<and>
     now < tk_expires_at t \<and> tk_version t = version"

definition reject_token ::
  "int \<Rightarrow> string \<Rightarrow> string \<Rightarrow> string \<Rightarrow> int \<Rightarrow> runtime_db \<Rightarrow> unit result \<times> runtime_db" where
  "reject_token now h tenant actor version db =
     (case transaction db (update_tokens (usable_token now h tenant actor version) (set_token_status ''rejected'') db) of
        (Inl e, db) \<Rightarrow> (Inl e, db)
      | (Inr n, db) \<Rightarrow> (if n \<noteq> 1 then Inl ConfirmationUnavailableError else Inr (), db))"

definition expired_waiting :: "int \<Rightarrow> token_row \<Rightarrow> bool" where
  "expired_waiting now t \<longleftrightarrow> tk_status t = ''waiting'' \<and> tk_expires_at t \<le> now"

definition expire_waiting :: "int \<Rightarrow> int \<Rightarrow> runtime_db \<Rightarrow> nat result \<times> runtime_db" where
  "expire_waiting now limit db =
     (if \<not> (1 \<le> limit \<and> limit \<le> 5000) then (Inl (ValueError ''invalid expiration batch size''), db)
      else
        (let ids = map tk_token_id (take (nat limit) (sort_key tk_expires_at (filter (expired_waiting now) (db_tokens db))))
         in transaction db (update_tokens (\<lambda>t. tk_token_id t \<in> set ids) (set_token_status ''expired'') db)))"

section \<open>Consuming a token and reserving a record\<close>

record confirmation =
  cf_token_hash :: string
  cf_tenant_id :: string
  cf_actor_ref :: string
  cf_token_version :: int
  cf_operation :: string
  cf_key_hash :: string
  cf_fingerprint :: string
  cf_expires_at :: "int option"

definition keyed :: "string \<Rightarrow> string \<Rightarrow> string \<Rightarrow> idempotency_row \<Rightarrow> bool" where
  "keyed tenant operation key r \<longleftrightarrow> im_tenant_id r = tenant \<and> im_operation r = operation \<and> im_key_hash r = key"

definition load_idempotency :: "string \<Rightarrow> string \<Rightarrow> string \<Rightarrow> runtime_db \<Rightarrow> idempotency_row option" where
  "load_idempotency tenant operation key db = select_one (keyed tenant operation key) (db_idempotency db)"

definition match_existing :: "idempotency_row \<Rightarrow> string \<Rightarrow> reservation result" where
  "match_existing r fingerprint =
     (if im_fingerprint r \<noteq> fingerprint then Inl IdempotencyConflictError
      else Inr \<lparr>rz_record_id = im_record_id r, rz_status = im_status r, rz_reused = True\<rparr>)"

definition reserved_row ::
  "string \<Rightarrow> string \<Rightarrow> string \<Rightarrow> string \<Rightarrow> string \<Rightarrow> int option \<Rightarrow> idempotency_row" where
  "reserved_row record_id tenant operation key fingerprint expires =
     \<lparr>im_record_id = record_id, im_tenant_id = tenant, im_operation = operation, im_key_hash = key,
      im_fingerprint = fingerprint, im_status = ''reserved'', im_reference = None, im_response = None,
      im_expires_at = expires, im_version = 0\<rparr>"

definition consume_and_insert ::
  "int \<Rightarrow> string \<Rightarrow> confirmation \<Rightarrow> runtime_db \<Rightarrow> reservation result \<times> runtime_db" where
  "consume_and_insert now record_id c db =
     transaction db (bind_res
       (update_tokens (usable_token now (cf_token_hash c) (cf_tenant_id c) (cf_actor_ref c) (cf_token_version c))
         (set_token_status ''consumed'') db)
       (\<lambda>(n, db).
         if n = 0 then Inl ConfirmationUnavailableError
         else bind_res (insert_idempotency
             (reserved_row record_id (cf_tenant_id c) (cf_operation c) (cf_key_hash c) (cf_fingerprint c)
               (cf_expires_at c)) db)
           (\<lambda>(u, db). Inr (\<lparr>rz_record_id = record_id, rz_status = ''reserved'', rz_reused = False\<rparr>, db))))"

definition consume_and_reserve ::
  "int \<Rightarrow> string \<Rightarrow> confirmation \<Rightarrow> runtime_db \<Rightarrow> reservation result \<times> runtime_db" where
  "consume_and_reserve now record_id c db =
     (case load_idempotency (cf_tenant_id c) (cf_operation c) (cf_key_hash c) db of
        Some r \<Rightarrow> (match_existing r (cf_fingerprint c), db)
      | None \<Rightarrow>
          (case consume_and_insert now record_id c db of
             (Inl e, db) \<Rightarrow>
               (if e = IntegrityError
                then (case load_idempotency (cf_tenant_id c) (cf_operation c) (cf_key_hash c) db of
                        None \<Rightarrow> (Inl e, db) | Some r \<Rightarrow> (match_existing r (cf_fingerprint c), db))
                else (Inl e, db))
           | (Inr x, db) \<Rightarrow> (Inr x, db)))"

section \<open>Execution intents\<close>

definition stored_of :: "idempotency_row \<Rightarrow> stored_execution result" where
  "stored_of r =
     (case parse_execution_status (im_status r) of
        None \<Rightarrow> Inl (ValueError ''persisted mutation execution status is invalid'')
      | Some s \<Rightarrow>
          Inr \<lparr>sx_intent = \<lparr>mi_record_id = im_record_id r, mi_tenant_id = im_tenant_id r,
                 mi_operation = im_operation r, mi_fingerprint = im_fingerprint r\<rparr>,
               sx_status = s, sx_reference = im_reference r, sx_response = im_response r\<rparr>)"

definition require_same_intent :: "mutation_intent \<Rightarrow> mutation_intent \<Rightarrow> unit result" where
  "require_same_intent expected actual = (if expected \<noteq> actual then Inl IdempotencyConflictError else Inr ())"

definition intent_row :: "mutation_intent \<Rightarrow> idempotency_row \<Rightarrow> bool" where
  "intent_row i r \<longleftrightarrow> im_record_id r = mi_record_id i \<and> im_tenant_id r = mi_tenant_id i"

definition load_intent :: "mutation_intent \<Rightarrow> runtime_db \<Rightarrow> stored_execution option result" where
  "load_intent i db =
     (case select_one (intent_row i) (db_idempotency db) of
        None \<Rightarrow> Inr None
      | Some r \<Rightarrow>
          bind_res (stored_of r) (\<lambda>x.
          bind_res (require_same_intent i (sx_intent x)) (\<lambda>_. Inr (Some x))))"

text \<open>\<open>INSERT ... ON CONFLICT DO NOTHING\<close>\<close>

definition reserve_intent ::
  "(string \<Rightarrow> string) \<Rightarrow> mutation_intent \<Rightarrow> int option \<Rightarrow> runtime_db \<Rightarrow> stored_execution result \<times> runtime_db" where
  "reserve_intent key_hash i expires db =
     (let r = reserved_row (mi_record_id i) (mi_tenant_id i) (mi_operation i) (key_hash (mi_record_id i))
                (mi_fingerprint i) expires
      in case (if \<not> idempotency_widths r then (Inl (OtherError ''DataError''), db)
               else if idempotency_clash r db then (Inr (), db)
               else transaction db (insert_idempotency r db)) of
        (Inl e, db) \<Rightarrow> (Inl e, db)
      | (Inr u, db) \<Rightarrow>
          (bind_res (load_intent i db) (\<lambda>x. case x of
             None \<Rightarrow> Inl MutationExecutionUnavailableError | Some y \<Rightarrow> Inr y), db))"

definition claimable :: "mutation_intent \<Rightarrow> idempotency_row \<Rightarrow> bool" where
  "claimable i r \<longleftrightarrow> im_record_id r = mi_record_id i \<and> im_tenant_id r = mi_tenant_id i \<and>
     im_operation r = mi_operation i \<and> im_fingerprint r = mi_fingerprint i \<and> im_status r = ''reserved''"

definition claimed_row :: "idempotency_row \<Rightarrow> idempotency_row" where
  "claimed_row r = r\<lparr>im_status := ''in_progress'', im_version := im_version r + 1\<rparr>"

definition claim_intent :: "mutation_intent \<Rightarrow> runtime_db \<Rightarrow> execution_claim result \<times> runtime_db" where
  "claim_intent i db =
     (case select_one (claimable i) (db_idempotency db) of
        Some r \<Rightarrow>
          (case transaction db (update_idempotency (claimable i) claimed_row db) of
             (Inl e, db) \<Rightarrow> (Inl e, db)
           | (Inr n, db) \<Rightarrow>
               (bind_res (stored_of (claimed_row r)) (\<lambda>x. Inr \<lparr>cl_execution = x, cl_acquired = True\<rparr>), db))
      | None \<Rightarrow>
          (bind_res (load_intent i db) (\<lambda>x. case x of
             None \<Rightarrow> Inl MutationExecutionUnavailableError
           | Some y \<Rightarrow> Inr \<lparr>cl_execution = y, cl_acquired = False\<rparr>), db))"

section \<open>Keys stay unique\<close>

lemma set_token_status_simps [simp]:
  "tk_token_id (set_token_status s t) = tk_token_id t" "tk_hash (set_token_status s t) = tk_hash t"
  "tk_status (set_token_status s t) = s" "tk_version (set_token_status s t) = tk_version t + 1"
  "tk_tenant_id (set_token_status s t) = tk_tenant_id t" "tk_actor_ref (set_token_status s t) = tk_actor_ref t"
  "tk_expires_at (set_token_status s t) = tk_expires_at t" "tk_preview_hash (set_token_status s t) = tk_preview_hash t"
  by (simp_all add: set_token_status_def)

definition spent_token :: "string \<Rightarrow> runtime_db \<Rightarrow> bool" where
  "spent_token h db \<longleftrightarrow> list_ex (\<lambda>t. tk_hash t = h \<and> tk_status t \<noteq> ''waiting'') (db_tokens db)"

text \<open>What every statement of this repository keeps: the keys are unique and a used token stays used.\<close>

definition keeps_tokens :: "runtime_db \<Rightarrow> runtime_db \<Rightarrow> bool" where
  "keeps_tokens db db' \<longleftrightarrow>
     (mutation_tables_ok db \<longrightarrow> mutation_tables_ok db') \<and> (\<forall>h. spent_token h db \<longrightarrow> spent_token h db')"

named_theorems keeps \<open>statements that keep the tokens\<close>

lemma keeps_refl [simp, keeps]: "keeps_tokens db db"
  by (simp add: keeps_tokens_def)

lemma keeps_trans [trans]: "keeps_tokens a b \<Longrightarrow> keeps_tokens b c \<Longrightarrow> keeps_tokens a c"
  by (simp add: keeps_tokens_def)

lemma spent_update: "s \<noteq> ''waiting'' \<Longrightarrow> list_ex (\<lambda>t. tk_hash t = h \<and> tk_status t \<noteq> ''waiting'') rows \<Longrightarrow>
    list_ex (\<lambda>t. tk_hash t = h \<and> tk_status t \<noteq> ''waiting'') (update_rows p (set_token_status s) rows)"
  by (induction rows) auto

lemma keeps_update_tokens [keeps]:
  "s \<noteq> ''waiting'' \<Longrightarrow> keeps_tokens db (db\<lparr>db_tokens := update_rows p (set_token_status s) (db_tokens db)\<rparr>)"
  by (simp add: keeps_tokens_def mutation_tables_ok_def spent_token_def spent_update map_update_rows_same)

lemma keeps_insert_token [keeps]: "insert_token t db = Inr (u, db') \<Longrightarrow> keeps_tokens db db'"
  by (drule insert_token_Inr) (auto simp: keeps_tokens_def mutation_tables_ok_def spent_token_def)

lemma keeps_insert_idempotency [keeps]: "insert_idempotency r db = Inr (u, db') \<Longrightarrow> keeps_tokens db db'"
  by (auto simp: insert_idempotency_Inr idempotency_clash_def keeps_tokens_def mutation_tables_ok_def spent_token_def)

lemma keeps_update_idempotency [keeps]:
  assumes "\<And>r. im_record_id (f r) = im_record_id r" "\<And>r. idempotency_key (f r) = idempotency_key r"
  shows "keeps_tokens db (db\<lparr>db_idempotency := update_rows p f (db_idempotency db)\<rparr>)"
  by (simp add: keeps_tokens_def mutation_tables_ok_def spent_token_def map_update_rows_same assms)

lemma keeps_issue [keeps]: "issue_token now token_id t db = (r, db') \<Longrightarrow> keeps_tokens db db'"
  by (cases r) (auto simp: issue_token_def transaction_Inr transaction_Inl bind_res_eq_Inr intro: keeps)

lemma keeps_invalidate [keeps]: "invalidate_waiting run_id tenant actor preview db = (r, db') \<Longrightarrow> keeps_tokens db db'"
  by (cases r) (auto simp: invalidate_waiting_def transaction_Inr transaction_Inl bind_res_eq_Inr intro: keeps)

lemma keeps_rotate [keeps]:
  assumes "rotate_waiting now token_id run_id tenant actor preview t db = (r, db')"
  shows "keeps_tokens db db'"
proof (cases r)
  case (Inl e)
  then show ?thesis using assms by (simp add: rotate_waiting_def transaction_Inl)
next
  case (Inr x)
  let ?d = "db\<lparr>db_tokens := update_rows (\<lambda>r. waiting_preview run_id tenant actor preview r \<and> now < tk_expires_at r)
      (set_token_status ''invalidated'') (db_tokens db)\<rparr>"
  obtain u where "insert_token (token_row_of now token_id t) ?d = Inr (u, db')"
    using assms Inr by (auto simp: rotate_waiting_def transaction_Inr bind_res_eq_Inr split: if_splits)
  then have "keeps_tokens ?d db'" by (rule keeps)
  moreover have "keeps_tokens db ?d" by (rule keeps) simp
  ultimately show ?thesis using keeps_trans by blast
qed

lemma keeps_reject [keeps]: "reject_token now h tenant actor version db = (r, db') \<Longrightarrow> keeps_tokens db db'"
  by (auto simp: reject_token_def transaction_Inr transaction_Inl intro: keeps split: prod.splits sum.splits if_splits)

lemma keeps_expire [keeps]: "expire_waiting now limit db = (r, db') \<Longrightarrow> keeps_tokens db db'"
  by (cases r) (auto simp: expire_waiting_def Let_def transaction_Inr transaction_Inl intro: keeps split: if_splits)

lemma consume_and_insert_Inr:
  assumes "consume_and_insert now record_id c db = (Inr x, db')"
  defines "p \<equiv> usable_token now (cf_token_hash c) (cf_tenant_id c) (cf_actor_ref c) (cf_token_version c)"
    and "row \<equiv> reserved_row record_id (cf_tenant_id c) (cf_operation c) (cf_key_hash c) (cf_fingerprint c) (cf_expires_at c)"
  shows "0 < row_count p (db_tokens db) \<and>
    insert_idempotency row (db\<lparr>db_tokens := update_rows p (set_token_status ''consumed'') (db_tokens db)\<rparr>) = Inr ((), db') \<and>
    x = \<lparr>rz_record_id = record_id, rz_status = ''reserved'', rz_reused = False\<rparr>"
  using assms(1) unfolding p_def row_def
  by (auto simp: consume_and_insert_def transaction_Inr bind_res_eq_Inr split: if_splits)

lemma keeps_consume_and_insert [keeps]:
  assumes "consume_and_insert now record_id c db = (r, db')"
  shows "keeps_tokens db db'"
proof (cases r)
  case (Inl e)
  then show ?thesis using assms by (simp add: consume_and_insert_def transaction_Inl)
next
  case (Inr x)
  note i = consume_and_insert_Inr [OF assms [unfolded Inr]]
  show ?thesis
    by (rule keeps_trans [OF keeps_update_tokens [of "''consumed''"] keeps_insert_idempotency [OF i [THEN conjunct2, THEN conjunct1]]])
      simp
qed

lemma keeps_consume_and_reserve [keeps]: "consume_and_reserve now record_id c db = (r, db') \<Longrightarrow> keeps_tokens db db'"
  by (auto simp: consume_and_reserve_def intro: keeps split: option.splits prod.splits sum.splits if_splits)

lemma keeps_reserve_intent [keeps]: "reserve_intent key_hash i expires db = (r, db') \<Longrightarrow> keeps_tokens db db'"
  by (auto simp: reserve_intent_def Let_def transaction_Inr transaction_Inl intro: keeps
      split: option.splits prod.splits sum.splits if_splits)

lemma keeps_claim [keeps]: "claim_intent i db = (r, db') \<Longrightarrow> keeps_tokens db db'"
  by (auto simp: claim_intent_def transaction_Inr transaction_Inl update_idempotency_Inr claimed_row_def idempotency_key_def
      intro!: keeps_update_idempotency split: option.splits prod.splits sum.splits if_splits)

lemma keeps_commit [keeps]:
  assumes "commit_step now c db = (r, db')"
  shows "keeps_tokens db db'"
proof (cases r)
  case (Inl e)
  then show ?thesis using commit_step_Inl [of now c db e db'] assms by simp
next
  case (Inr s)
  then obtain current where e: "db' = commit_effect now c current db" using assms commit_step_Inr by metis
  have keys: "map im_record_id (completed_rows t m rows) = map im_record_id rows"
    "map idempotency_key (completed_rows t m rows) = map idempotency_key rows" for t m rows
    by (auto simp: completed_rows_def completed_row_def idempotency_key_def map_update_rows_same split: option.splits)
  show ?thesis
    by (simp add: e commit_effect_def Let_def keeps_tokens_def mutation_tables_ok_def spent_token_def keys)
qed

section \<open>The repository as the store of the boundary\<close>

text \<open>The repository keeps its promises on databases with unique keys.\<close>

definition load_state :: "repository_state intent_load" where
  "load_state i s = load_intent i (rs_db s)"

definition claim_state :: "repository_state intent_claim" where
  "claim_state i s = (let (r, db) = claim_intent i (rs_db s) in (r, s\<lparr>rs_db := db\<rparr>))"

definition intents_ok :: "repository_state \<Rightarrow> bool" where
  "intents_ok s \<longleftrightarrow> mutation_tables_ok (rs_db s)"

definition status_in :: "idempotency_row list \<Rightarrow> string \<Rightarrow> execution_status option" where
  "status_in rows k =
     (case select_one (\<lambda>r. im_record_id r = k) rows of None \<Rightarrow> None | Some r \<Rightarrow> parse_execution_status (im_status r))"

definition stored_status :: "repository_state \<Rightarrow> string \<Rightarrow> execution_status option" where
  "stored_status s k = status_in (db_idempotency (rs_db s)) k"

lemma unique_record:
  assumes "mutation_tables_ok db" "r \<in> set (db_idempotency db)"
  shows "select_one (\<lambda>x. im_record_id x = im_record_id r) (db_idempotency db) = Some r"
  by (rule select_one_distinct [of im_record_id]) (use assms in \<open>simp_all add: mutation_tables_ok_def\<close>)

lemma stored_of_Inr:
  "stored_of r = Inr x \<longleftrightarrow> parse_execution_status (im_status r) = Some (sx_status x) \<and>
     sx_intent x = \<lparr>mi_record_id = im_record_id r, mi_tenant_id = im_tenant_id r, mi_operation = im_operation r,
       mi_fingerprint = im_fingerprint r\<rparr> \<and> sx_reference x = im_reference r \<and> sx_response x = im_response r"
  by (cases x) (auto simp: stored_of_def split: option.splits)

lemma load_intent_Some:
  assumes "load_intent i db = Inr (Some x)"
  obtains r where "r \<in> set (db_idempotency db)" "intent_row i r" "stored_of r = Inr x" "sx_intent x = i"
  using assms select_one_Some
  by (fastforce simp: load_intent_def bind_res_eq_Inr require_same_intent_def split: option.splits if_splits)

lemma load_intent_status:
  assumes "mutation_tables_ok db" "load_intent i db = Inr (Some x)"
  shows "status_in (db_idempotency db) (mi_record_id i) = Some (sx_status x) \<and> sx_intent x = i"
proof -
  obtain r where r: "r \<in> set (db_idempotency db)" "intent_row i r" "stored_of r = Inr x" "sx_intent x = i"
    using assms(2) by (rule load_intent_Some)
  then show ?thesis
    using unique_record [OF assms(1) r(1)] by (simp add: status_in_def intent_row_def stored_of_Inr)
qed

text \<open>The statuses after an update of one record.\<close>

lemma status_in_update:
  assumes "\<And>r. im_record_id (f r) = im_record_id r"
  shows "status_in (update_rows p f rows) k =
    (case select_one (\<lambda>r. im_record_id r = k) rows of None \<Rightarrow> None
     | Some r \<Rightarrow> parse_execution_status (im_status (if p r then f r else r)))"
  by (simp add: status_in_def select_one_update assms split: option.splits)

lemma status_in_claimed:
  assumes "mutation_tables_ok db" "r \<in> set (db_idempotency db)" "claimable i r"
  shows "status_in (update_rows (claimable i) claimed_row (db_idempotency db)) =
    (status_in (db_idempotency db))(mi_record_id i \<mapsto> MX_IN_PROGRESS)"
proof (rule ext)
  fix k
  show "status_in (update_rows (claimable i) claimed_row (db_idempotency db)) k =
      ((status_in (db_idempotency db))(mi_record_id i \<mapsto> MX_IN_PROGRESS)) k"
  proof (cases "k = mi_record_id i")
    case True
    then have "select_one (\<lambda>x. im_record_id x = k) (db_idempotency db) = Some r"
      using unique_record [OF assms(1,2)] assms(3) by (simp add: claimable_def)
    then show ?thesis
      using True assms(3) parse_execution_status_value [of MX_IN_PROGRESS]
      by (subst status_in_update) (simp_all add: claimed_row_def)
  next
    case False
    have "\<not> claimable i x" if "select_one (\<lambda>x. im_record_id x = k) (db_idempotency db) = Some x" for x
      using select_one_Some [OF that] False by (simp add: claimable_def)
    then show ?thesis
      using False by (subst status_in_update) (auto simp: claimed_row_def status_in_def split: option.splits)
  qed
qed

lemma claim_state_acquired:
  assumes ok: "intents_ok s" and c: "claim_state i s = (Inr c, s')" "cl_acquired c"
  shows "stored_status s (mi_record_id i) = Some MX_RESERVED \<and> sx_status (cl_execution c) = MX_IN_PROGRESS \<and>
    stored_status s' = (stored_status s)(mi_record_id i \<mapsto> MX_IN_PROGRESS)"
proof -
  obtain db where db: "claim_intent i (rs_db s) = (Inr c, db)" "rs_db s' = db"
    using c(1) by (auto simp: claim_state_def split: prod.splits)
  obtain r where r: "select_one (claimable i) (db_idempotency (rs_db s)) = Some r"
    using db(1) c(2) by (auto simp: claim_intent_def bind_res_eq_Inr split: option.splits)
  note m = select_one_Some [OF r]
  have d: "db = (rs_db s)\<lparr>db_idempotency := update_rows (claimable i) claimed_row (db_idempotency (rs_db s))\<rparr>"
    "stored_of (claimed_row r) = Inr (cl_execution c)"
    using db(1) r by (auto simp: claim_intent_def bind_res_eq_Inr transaction_Inr update_idempotency_Inr split: prod.splits sum.splits)
  have "stored_status s (mi_record_id i) = Some MX_RESERVED"
    using unique_record [of "rs_db s" r] ok m parse_execution_status_value [of MX_RESERVED]
    by (simp add: stored_status_def status_in_def intents_ok_def claimable_def)
  moreover have "sx_status (cl_execution c) = MX_IN_PROGRESS"
    using d(2) parse_execution_status_value [of MX_IN_PROGRESS] by (simp add: stored_of_Inr claimed_row_def)
  moreover have "stored_status s' = (stored_status s)(mi_record_id i \<mapsto> MX_IN_PROGRESS)"
    using status_in_claimed [of "rs_db s" r i] ok m by (simp add: stored_status_def fun_eq_iff intents_ok_def db(2) d(1))
  ultimately show ?thesis by simp
qed

lemma claim_state_refused:
  assumes ok: "intents_ok s" and c: "claim_state i s = (Inr c, s')" "\<not> cl_acquired c"
  shows "stored_status s' = stored_status s \<and> sx_status (cl_execution c) \<noteq> MX_RESERVED \<and>
    stored_status s (mi_record_id i) = Some (sx_status (cl_execution c))"
proof -
  obtain db where db: "claim_intent i (rs_db s) = (Inr c, db)" "s' = s\<lparr>rs_db := db\<rparr>"
    using c(1) by (auto simp: claim_state_def split: prod.splits)
  have n: "select_one (claimable i) (db_idempotency (rs_db s)) = None"
    using db(1) c(2) by (auto simp: claim_intent_def bind_res_eq_Inr split: option.splits prod.splits sum.splits)
  then have l: "load_intent i (rs_db s) = Inr (Some (cl_execution c))" "db = rs_db s"
    using db(1) by (auto simp: claim_intent_def bind_res_eq_Inr split: option.splits)
  obtain r where r: "r \<in> set (db_idempotency (rs_db s))" "intent_row i r" "stored_of r = Inr (cl_execution c)"
    "sx_intent (cl_execution c) = i"
    using l(1) by (rule load_intent_Some)
  have "sx_status (cl_execution c) \<noteq> MX_RESERVED"
  proof
    assume "sx_status (cl_execution c) = MX_RESERVED"
    then have "im_status r = ''reserved''" using r(3) parse_execution_status_Some by (fastforce simp: stored_of_Inr)
    moreover have "i = \<lparr>mi_record_id = im_record_id r, mi_tenant_id = im_tenant_id r, mi_operation = im_operation r,
       mi_fingerprint = im_fingerprint r\<rparr>" using r(3,4) by (simp add: stored_of_Inr)
    ultimately have "claimable i r" by (simp add: claimable_def)
    then show False using n r(1) by (simp add: select_one_None)
  qed
  then show ?thesis
    using load_intent_status [OF _ l(1)] ok l(2) by (simp add: stored_status_def intents_ok_def db(2))
qed

lemma claim_state_Inl:
  "claim_state i s = (Inl e, s') \<Longrightarrow> stored_status s' = stored_status s"
proof -
  assume "claim_state i s = (Inl e, s')"
  then obtain db where db: "claim_intent i (rs_db s) = (Inl e, db)" "s' = s\<lparr>rs_db := db\<rparr>"
    by (auto simp: claim_state_def split: prod.splits)
  have "stored_of (claimed_row r) \<noteq> Inl x" for r x
    using parse_execution_status_value [of MX_IN_PROGRESS] by (simp add: stored_of_def claimed_row_def)
  then have "db = rs_db s"
    using db(1)
    by (auto simp: claim_intent_def transaction_Inl bind_res_def split: option.splits prod.splits sum.splits)
  then show ?thesis by (simp add: db(2))
qed

interpretation mutation_intents: intent_store load_state claim_state intents_ok stored_status
proof
  fix s s' :: repository_state and i x r e c
  show "intents_ok s \<Longrightarrow> load_state i s = Inr (Some x) \<Longrightarrow>
      stored_status s (mi_record_id i) = Some (sx_status x) \<and> sx_intent x = i"
    by (simp add: intents_ok_def load_state_def stored_status_def load_intent_status)
  show "intents_ok s \<Longrightarrow> claim_state i s = (r, s') \<Longrightarrow> intents_ok s'"
    by (auto simp: intents_ok_def claim_state_def keeps_tokens_def dest!: keeps_claim split: prod.splits)
  show "claim_state i s = (Inl e, s') \<Longrightarrow> stored_status s' = stored_status s" by (rule claim_state_Inl)
  show "intents_ok s \<Longrightarrow> claim_state i s = (Inr c, s') \<Longrightarrow> cl_acquired c \<Longrightarrow>
      stored_status s (mi_record_id i) = Some MX_RESERVED \<and> sx_status (cl_execution c) = MX_IN_PROGRESS \<and>
      stored_status s' = (stored_status s)(mi_record_id i \<mapsto> MX_IN_PROGRESS)"
    by (rule claim_state_acquired)
  show "intents_ok s \<Longrightarrow> claim_state i s = (Inr c, s') \<Longrightarrow> \<not> cl_acquired c \<Longrightarrow>
      stored_status s' = stored_status s \<and> sx_status (cl_execution c) \<noteq> MX_RESERVED \<and>
      stored_status s (mi_record_id i) = Some (sx_status (cl_execution c))"
    by (rule claim_state_refused)
qed

section \<open>Histories of transactions\<close>

definition fresh_reservation :: "reservation result \<Rightarrow> bool" where
  "fresh_reservation r \<longleftrightarrow> (case r of Inl e \<Rightarrow> False | Inr x \<Rightarrow> \<not> rz_reused x)"

text \<open>One transaction, labelled with the token it consumed for a fresh reservation, if it did.\<close>

inductive confirm_step :: "runtime_db \<Rightarrow> string option \<Rightarrow> runtime_db \<Rightarrow> bool" where
  issue: "issue_token now token_id t db = (r, db') \<Longrightarrow> confirm_step db None db'"
| invalidate: "invalidate_waiting run_id tenant actor preview db = (r, db') \<Longrightarrow> confirm_step db None db'"
| rotate: "rotate_waiting now token_id run_id tenant actor preview t db = (r, db') \<Longrightarrow> confirm_step db None db'"
| reject: "reject_token now h tenant actor version db = (r, db') \<Longrightarrow> confirm_step db None db'"
| expire: "expire_waiting now limit db = (r, db') \<Longrightarrow> confirm_step db None db'"
| confirm: "consume_and_reserve now record_id c db = (r, db') \<Longrightarrow>
    confirm_step db (if fresh_reservation r then Some (cf_token_hash c) else None) db'"
| reserve: "reserve_intent key_hash i expires db = (r, db') \<Longrightarrow> confirm_step db None db'"
| claim: "claim_intent i db = (r, db') \<Longrightarrow> confirm_step db None db'"
| commit: "commit_step now c db = (r, db') \<Longrightarrow> confirm_step db None db'"

inductive confirm_history :: "runtime_db \<Rightarrow> string option list \<Rightarrow> runtime_db \<Rightarrow> bool" where
  start: "confirm_history db [] db"
| cons: "confirm_step db l d \<Longrightarrow> confirm_history d ls db' \<Longrightarrow> confirm_history db (l # ls) db'"

inductive_cases confirm_stepE: "confirm_step db l db'"
inductive_simps confirm_history_simps [simp]:
  "confirm_history db [] db'"
  "confirm_history db (l # ls) db'"

lemma confirm_step_keeps: "confirm_step db l db' \<Longrightarrow> keeps_tokens db db'"
  by (erule confirm_stepE) (simp_all add: keeps)

lemma match_existing_reused: "match_existing r f = Inr x \<Longrightarrow> rz_reused x"
  by (auto simp: match_existing_def split: if_splits)

lemma fresh_consumes:
  assumes "consume_and_reserve now record_id c db = (r, db')" "fresh_reservation r"
  obtains x where "consume_and_insert now record_id c db = (Inr x, db')" "r = Inr x"
  using assms that
  by (auto simp: consume_and_reserve_def fresh_reservation_def dest: match_existing_reused
      split: option.splits prod.splits sum.splits if_splits)

lemma fresh_needs_waiting:
  assumes "consume_and_reserve now record_id c db = (r, db')" "fresh_reservation r" "mutation_tables_ok db"
  shows "\<not> spent_token (cf_token_hash c) db \<and> spent_token (cf_token_hash c) db'"
proof -
  let ?p = "usable_token now (cf_token_hash c) (cf_tenant_id c) (cf_actor_ref c) (cf_token_version c)"
  obtain x where "consume_and_insert now record_id c db = (Inr x, db')" using assms(1,2) by (rule fresh_consumes)
  note i = consume_and_insert_Inr [OF this]
  obtain t where t: "t \<in> set (db_tokens db)" "?p t" using i by (auto simp: row_count_def filter_empty_conv)
  have "t' = t" if "t' \<in> set (db_tokens db)" "tk_hash t' = cf_token_hash c" for t'
    using assms(3) that t by (auto simp: mutation_tables_ok_def distinct_map inj_on_def usable_token_def)
  then have "\<not> spent_token (cf_token_hash c) db" using t by (auto simp: spent_token_def list_ex_iff usable_token_def)
  moreover have "set_token_status ''consumed'' t \<in> set (update_rows ?p (set_token_status ''consumed'') (db_tokens db))"
    using t by (auto simp: update_rows_def intro!: image_eqI [of _ _ t])
  then have "spent_token (cf_token_hash c)
      (db\<lparr>db_tokens := update_rows ?p (set_token_status ''consumed'') (db_tokens db)\<rparr>)"
    using t(2) unfolding spent_token_def list_ex_iff
    by (intro bexI [of _ "set_token_status ''consumed'' t"]) (simp_all add: usable_token_def)
  then have "spent_token (cf_token_hash c) db'"
    using keeps_insert_idempotency [OF i [THEN conjunct2, THEN conjunct1]] by (simp add: keeps_tokens_def)
  ultimately show ?thesis by simp
qed

lemma spent_history:
  "confirm_history db ls db' \<Longrightarrow> mutation_tables_ok db \<Longrightarrow> spent_token h db \<Longrightarrow> Some h \<notin> set ls"
proof (induction rule: confirm_history.induct)
  case (cons db l d ls db')
  have "mutation_tables_ok d \<and> spent_token h d"
    using confirm_step_keeps [OF cons.hyps(1)] cons.prems by (simp add: keeps_tokens_def)
  moreover have "l \<noteq> Some h"
  proof
    assume "l = Some h"
    then obtain now record_id c r where "consume_and_reserve now record_id c db = (r, d)" "fresh_reservation r"
      "cf_token_hash c = h"
      using cons.hyps(1) by (auto elim!: confirm_stepE split: if_splits)
    then show False using fresh_needs_waiting cons.prems by blast
  qed
  ultimately show ?case using cons.IH by simp
qed simp

section \<open>The guards as the specification\<close>

definition guard_token_of :: "token_row \<Rightarrow> guard_token" where
  "guard_token_of t =
     \<lparr>gt_hash = tk_hash t, gt_tenant = tk_tenant_id t, gt_actor = tk_actor_ref t, gt_preview = tk_preview_hash t,
      gt_expires = tk_expires_at t, gt_version = tk_version t, gt_status = tk_status t\<rparr>"

definition guard_record_of :: "idempotency_row \<Rightarrow> guard_record" where
  "guard_record_of r =
     \<lparr>gr_tenant = im_tenant_id r, gr_operation = im_operation r, gr_key = im_key_hash r,
      gr_fingerprint = im_fingerprint r, gr_status = im_status r\<rparr>"

definition guards_of :: "runtime_db \<Rightarrow> guards" where
  "guards_of db =
     \<lparr>mg_tokens = map (\<lambda>t. (tk_hash t, guard_token_of t)) (db_tokens db),
      mg_idempotency = map (\<lambda>r. (idempotency_key r, guard_record_of r)) (db_idempotency db)\<rparr>"

text \<open>Equal as tables: the same row under every key.\<close>

definition same_guards :: "guards \<Rightarrow> guards \<Rightarrow> bool" where
  "same_guards g g' \<longleftrightarrow> dget (mg_tokens g) = dget (mg_tokens g') \<and> dget (mg_idempotency g) = dget (mg_idempotency g')"

lemma map_of_keyed: "map_of (map (\<lambda>r. (k r, f r)) rows) x = map_option f (select_one (\<lambda>r. k r = x) rows)"
  by (induction rows) auto

lemma guards_token:
  "dget (mg_tokens (guards_of db)) h = map_option guard_token_of (select_one (\<lambda>t. tk_hash t = h) (db_tokens db))"
  by (simp add: guards_of_def map_of_keyed)

lemma guards_record:
  "dget (mg_idempotency (guards_of db)) k =
     map_option guard_record_of (select_one (\<lambda>r. idempotency_key r = k) (db_idempotency db))"
  by (simp add: guards_of_def map_of_keyed)

lemma guard_token_consumed: "guard_token_of (set_token_status ''consumed'' t) = consumed_token (guard_token_of t)"
  by (simp add: guard_token_of_def set_token_status_def consumed_token_def)

lemma unique_token:
  assumes "mutation_tables_ok db" "t \<in> set (db_tokens db)"
  shows "select_one (\<lambda>r. tk_hash r = tk_hash t) (db_tokens db) = Some t"
  by (rule select_one_distinct [of tk_hash]) (use assms in \<open>simp_all add: mutation_tables_ok_def\<close>)

lemma consume_of_usable:
  "select_one (\<lambda>t. tk_hash t = h) (db_tokens db) = Some t \<Longrightarrow> usable_token now h tenant actor version t \<Longrightarrow>
     consume_token now h tenant actor version (guards_of db) =
       (Inr (consumed_token (guard_token_of t)),
        (guards_of db)\<lparr>mg_tokens := dset (mg_tokens (guards_of db)) h (consumed_token (guard_token_of t))\<rparr>)"
  by (simp add: consume_token_def guards_token usable_token_def guard_token_of_def)

lemma usable_of_consume:
  assumes "consume_token now h tenant actor version (guards_of db) = (Inr tok, g)"
  obtains t where "t \<in> set (db_tokens db)" "usable_token now h tenant actor version t"
proof -
  obtain u where u: "dget (mg_tokens (guards_of db)) h = Some u" "gt_tenant u = tenant" "gt_actor u = actor"
    "gt_status u = ''waiting''" "now < gt_expires u" "gt_version u = version"
    using assms by (auto simp: consume_token_Inr)
  then obtain t where t: "select_one (\<lambda>t. tk_hash t = h) (db_tokens db) = Some t" "u = guard_token_of t"
    by (auto simp: guards_token)
  show ?thesis
    by (rule that [of t]) (use select_one_Some [OF t(1)] u t(2) in \<open>simp_all add: usable_token_def guard_token_of_def\<close>)
qed

lemma usable_count: "0 < row_count p rows \<longleftrightarrow> (\<exists>t\<in>set rows. p t)"
  using row_count_0 [of p rows] by auto

lemma guards_consumed:
  assumes "mutation_tables_ok db" "t \<in> set (db_tokens db)" "usable_token now h tenant actor version t"
  shows "select_one (\<lambda>r. tk_hash r = x)
      (update_rows (usable_token now h tenant actor version) (set_token_status ''consumed'') (db_tokens db)) =
    (if x = h then Some (set_token_status ''consumed'' t) else select_one (\<lambda>r. tk_hash r = x) (db_tokens db))"
proof (cases "x = h")
  case True
  then have "select_one (\<lambda>r. tk_hash r = x) (db_tokens db) = Some t"
    using unique_token [OF assms(1,2)] assms(3) by (simp add: usable_token_def)
  then show ?thesis using True assms(3) by (simp add: select_one_update)
next
  case False
  have "\<not> usable_token now h tenant actor version r" if "select_one (\<lambda>r. tk_hash r = x) (db_tokens db) = Some r" for r
    using select_one_Some [OF that] False by (simp add: usable_token_def)
  then show ?thesis
    using False by (cases "select_one (\<lambda>r. tk_hash r = x) (db_tokens db)") (simp_all add: select_one_update)
qed

lemma select_one_snoc:
  "select_one p (rows @ [r]) = (case select_one p rows of None \<Rightarrow> if p r then Some r else None | Some y \<Rightarrow> Some y)"
  by (induction rows) auto

lemma guards_inserted:
  assumes "\<not> idempotency_clash r db"
  shows "select_one (\<lambda>x. idempotency_key x = k) (db_idempotency db @ [r]) =
    (if k = idempotency_key r then Some r else select_one (\<lambda>x. idempotency_key x = k) (db_idempotency db))"
proof (cases "select_one (\<lambda>x. idempotency_key x = k) (db_idempotency db)")
  case None
  then show ?thesis by (simp add: select_one_snoc)
next
  case (Some y)
  then have "k \<noteq> idempotency_key r"
    using select_one_Some [OF Some] assms by (auto simp: idempotency_clash_def image_iff)
  then show ?thesis using Some by (simp add: select_one_snoc)
qed

section \<open>Properties\<close>

text \<open>C29: the database keeps the contract of the in-process guards. When a confirmation commits, the
  guards would have consumed the same token and reserved the same new record, and the tables show the
  guards' state afterwards; when it fails nothing changes, and it reports the token as unavailable
  exactly when the guards refuse it.\<close>

theorem confirmation_refines_guards:
  assumes "mutation_tables_ok db" "consume_and_insert now record_id c db = (r, db')"
  shows "case r of
      Inl e \<Rightarrow> db' = db \<and>
        (e = ConfirmationUnavailableError \<longleftrightarrow>
           isl (fst (consume_token now (cf_token_hash c) (cf_tenant_id c) (cf_actor_ref c) (cf_token_version c) (guards_of db))))
    | Inr x \<Rightarrow>
        (\<exists>tok g1 new g2.
           consume_token now (cf_token_hash c) (cf_tenant_id c) (cf_actor_ref c) (cf_token_version c) (guards_of db) = (Inr tok, g1) \<and>
           dget (mg_idempotency g1) (guard_key new) = None \<and> gr_fingerprint new = cf_fingerprint c \<and>
           reserve_idempotency new g1 = (Inr new, g2) \<and> same_guards g2 (guards_of db'))"
proof (cases r)
  case (Inl e)
  let ?p = "usable_token now (cf_token_hash c) (cf_tenant_id c) (cf_actor_ref c) (cf_token_version c)"
  let ?consume = "consume_token now (cf_token_hash c) (cf_tenant_id c) (cf_actor_ref c) (cf_token_version c) (guards_of db)"
  have "insert_idempotency x d \<noteq> Inl ConfirmationUnavailableError" for x d by (simp add: insert_idempotency_def)
  then have e: "db' = db" "e = ConfirmationUnavailableError \<longleftrightarrow> row_count ?p (db_tokens db) = 0"
    using assms(2) Inl
    by (auto simp: consume_and_insert_def transaction_Inl bind_res_def update_tokens_def split: if_splits sum.splits)
  have "row_count ?p (db_tokens db) = 0 \<longleftrightarrow> isl (fst ?consume)"
  proof
    assume z: "row_count ?p (db_tokens db) = 0"
    obtain q g where q: "?consume = (q, g)" by force
    have "\<not> (\<exists>tok. q = Inr tok)" using usable_of_consume q z row_count_0 by metis
    then show "isl (fst ?consume)" using q by (cases q) auto
  next
    assume l: "isl (fst ?consume)"
    show "row_count ?p (db_tokens db) = 0"
    proof (rule ccontr)
      assume "row_count ?p (db_tokens db) \<noteq> 0"
      then obtain t where t: "t \<in> set (db_tokens db)" "?p t" by (auto simp: row_count_0)
      then have "select_one (\<lambda>r. tk_hash r = cf_token_hash c) (db_tokens db) = Some t"
        using unique_token [OF assms(1) t(1)] by (simp add: usable_token_def)
      then show False using consume_of_usable [OF _ t(2)] l by simp
    qed
  qed
  then show ?thesis using Inl e by simp
next
  case (Inr x)
  let ?p = "usable_token now (cf_token_hash c) (cf_tenant_id c) (cf_actor_ref c) (cf_token_version c)"
  let ?d = "db\<lparr>db_tokens := update_rows ?p (set_token_status ''consumed'') (db_tokens db)\<rparr>"
  let ?row = "reserved_row record_id (cf_tenant_id c) (cf_operation c) (cf_key_hash c) (cf_fingerprint c) (cf_expires_at c)"
  note i = consume_and_insert_Inr [OF assms(2) [unfolded Inr]]
  obtain t where t: "t \<in> set (db_tokens db)" "?p t" using i by (auto simp: usable_count)
  have sel: "select_one (\<lambda>r. tk_hash r = cf_token_hash c) (db_tokens db) = Some t"
    using unique_token [OF assms(1) t(1)] t(2) by (simp add: usable_token_def)
  let ?g1 = "(guards_of db)\<lparr>mg_tokens := dset (mg_tokens (guards_of db)) (cf_token_hash c) (consumed_token (guard_token_of t))\<rparr>"
  let ?new = "guard_record_of ?row"
  let ?g2 = "?g1\<lparr>mg_idempotency := dset (mg_idempotency ?g1) (guard_key ?new) ?new\<rparr>"
  have ins: "db' = ?d\<lparr>db_idempotency := db_idempotency db @ [?row]\<rparr>" "\<not> idempotency_clash ?row db"
    using i by (auto simp: insert_idempotency_Inr idempotency_clash_def)
  have key: "guard_key ?new = idempotency_key ?row"
    by (simp add: guard_key_def guard_record_of_def idempotency_key_def)
  have free: "dget (mg_idempotency ?g1) (guard_key ?new) = None"
    using ins(2) unfolding key by (auto simp: guards_record select_one_None idempotency_clash_def image_iff)
  have "dget (mg_tokens ?g2) h = dget (mg_tokens (guards_of db')) h" for h
    using guards_consumed [OF assms(1) t, of h] by (simp add: ins(1) guards_token guard_token_consumed)
  moreover have "dget (mg_idempotency ?g2) k = dget (mg_idempotency (guards_of db')) k" for k
    using guards_inserted [OF ins(2), of k] by (simp add: ins(1) guards_record key)
  ultimately have "same_guards ?g2 (guards_of db')" by (simp add: same_guards_def fun_eq_iff)
  moreover have "reserve_idempotency ?new ?g1 = (Inr ?new, ?g2)" using free by (simp add: reserve_idempotency_def)
  moreover have "gr_fingerprint ?new = cf_fingerprint c" by (simp add: guard_record_of_def reserved_row_def)
  ultimately show ?thesis
    unfolding Inr sum.case using consume_of_usable [OF sel t(2)] free by blast
qed

text \<open>A confirmation token pays for one mutation. In every history of transactions of all callers,
  at most one fresh reservation is made with a token, whatever is issued, rotated, rejected, expired,
  claimed or committed in between.\<close>

theorem token_reserves_once:
  assumes "confirm_history db ls db'" "mutation_tables_ok db"
  shows "length (filter (\<lambda>l. l = Some h) ls) \<le> 1"
  using assms
proof (induction rule: confirm_history.induct)
  case (cons db l d ls db')
  have ok: "mutation_tables_ok d" using confirm_step_keeps [OF cons.hyps(1)] cons.prems by (simp add: keeps_tokens_def)
  show ?case
  proof (cases "l = Some h")
    case True
    then obtain now record_id c r where "consume_and_reserve now record_id c db = (r, d)" "fresh_reservation r"
      "cf_token_hash c = h"
      using cons.hyps(1) by (auto elim!: confirm_stepE split: if_splits)
    then have "spent_token h d" using fresh_needs_waiting cons.prems by blast
    then have "filter (\<lambda>l. l = Some h) ls = []"
      using spent_history [OF cons.hyps(2) ok] by (auto simp: filter_empty_conv)
    then show ?thesis using True by simp
  next
    case False
    then show ?thesis using cons.IH [OF ok] by simp
  qed
qed simp

section \<open>Witnesses\<close>

definition demo_token :: token_input where
  "demo_token =
     \<lparr>ti_hash = ''h'', ti_run_id = ''run'', ti_tenant_id = ''t'', ti_actor_ref = ''a'', ti_mutation_type = ''request_refund'',
      ti_resource_ref = ''ORD-1'', ti_preview_hash = ''p'', ti_arguments_hash = ''f'', ti_policy_version = ''v'',
      ti_workflow_version = ''w'', ti_expires_at = 600\<rparr>"

definition demo_confirmation :: "string \<Rightarrow> confirmation" where
  "demo_confirmation key =
     \<lparr>cf_token_hash = ''h'', cf_tenant_id = ''t'', cf_actor_ref = ''a'', cf_token_version = 0,
      cf_operation = ''commit_refund'', cf_key_hash = key, cf_fingerprint = ''f'', cf_expires_at = None\<rparr>"

definition demo_issued :: runtime_db where
  "demo_issued = snd (issue_token 5 ''tok'' demo_token (rs_db demo_store))"

definition demo_confirmed :: "reservation result \<times> runtime_db" where
  "demo_confirmed = consume_and_reserve 10 ''m'' (demo_confirmation ''k'') demo_issued"

lemma demo_mutation_facts:
  "mutation_tables_ok (rs_db demo_store)" "mutation_tables_ok demo_issued" "fresh_reservation (fst demo_confirmed)"
  "isl (fst (consume_and_reserve 11 ''m2'' (demo_confirmation ''k2'') (snd demo_confirmed)))"
  "\<not> isl (fst (consume_and_insert 10 ''m'' (demo_confirmation ''k'') demo_issued))"
  by code_simp+

lemma confirmation_refines_guards_witness:
  "\<exists>tok g. consume_token 10 ''h'' ''t'' ''a'' 0 (guards_of demo_issued) = (Inr tok, g)"
proof -
  obtain r db' where r: "consume_and_insert 10 ''m'' (demo_confirmation ''k'') demo_issued = (r, db')" by force
  then obtain x where "r = Inr x" using demo_mutation_facts(5) by (cases r) auto
  then show ?thesis
    using confirmation_refines_guards [OF demo_mutation_facts(2) r] by (auto simp: demo_confirmation_def)
qed

lemma token_reserves_once_witness:
  "\<exists>db'. confirm_history (rs_db demo_store) [None, Some ''h'', None] db' \<and>
     length (filter (\<lambda>l. l = Some ''h'') [None, Some ''h'', None]) \<le> 1"
proof -
  have a: "confirm_step (rs_db demo_store) None demo_issued"
    using confirm_step.issue [of 5 "''tok''" demo_token "rs_db demo_store"] unfolding demo_issued_def by (metis prod.collapse)
  have "confirm_step demo_issued (if fresh_reservation (fst demo_confirmed) then Some (cf_token_hash (demo_confirmation ''k'')) else None)
      (snd demo_confirmed)"
    using confirm_step.confirm [of 10 "''m''" "demo_confirmation ''k''" demo_issued] unfolding demo_confirmed_def by (metis prod.collapse)
  then have b: "confirm_step demo_issued (Some ''h'') (snd demo_confirmed)"
    using demo_mutation_facts(3) by (simp add: demo_confirmation_def)
  obtain r db' where r: "consume_and_reserve 11 ''m2'' (demo_confirmation ''k2'') (snd demo_confirmed) = (r, db')" by force
  then have "\<not> fresh_reservation r" using demo_mutation_facts(4) by (cases r) (auto simp: fresh_reservation_def)
  then have c: "confirm_step (snd demo_confirmed) None db'" using confirm_step.confirm [OF r] by simp
  have h: "confirm_history (rs_db demo_store) [None, Some ''h'', None] db'" using a b c by auto
  then show ?thesis using token_reserves_once [OF h demo_mutation_facts(1), of "''h''"] by blast
qed

end
