(* ===== verification/MutationHistory.thy ===== *)
theory MutationHistory
  imports MutationStore
begin

text \<open>
  The mutation boundary on the repository, in every interleaving: histories of executions, recoveries
  and the transactions of all other callers. The checkpoint of an execution is the closure the
  workflows pass: it computes what to persist from the completion and commits it with the outcome of
  the mutation in one transaction.
\<close>

section \<open>The checkpoint of an outcome\<close>

type_synonym outcome_plan =
  "mutation_completion \<Rightarrow> run_context \<times> run_status \<times> string \<times> pydict \<times> domain_event list"

definition commit_outcome :: "repository_env \<Rightarrow> outcome_plan \<Rightarrow> repository_state mutation_checkpoint" where
  "commit_outcome env plan m s =
     (let (c, status, nxt, state, evs) = plan m; (r, s) = checkpoint_mutation env m c status nxt state evs s
      in (bind_res r (\<lambda>v. Inr ()), s))"

section \<open>Started intents stay started\<close>

definition started_in :: "idempotency_row list \<Rightarrow> string \<Rightarrow> bool" where
  "started_in rows k \<longleftrightarrow> status_in rows k \<noteq> None \<and> status_in rows k \<noteq> Some MX_RESERVED"

definition keeps_intents :: "runtime_db \<Rightarrow> runtime_db \<Rightarrow> bool" where
  "keeps_intents db db' \<longleftrightarrow> (\<forall>k. started_in (db_idempotency db) k \<longrightarrow> started_in (db_idempotency db') k)"

named_theorems intents \<open>statements that keep started intents started\<close>

lemma intents_same [intents]: "db_idempotency db' = db_idempotency db \<Longrightarrow> keeps_intents db db'"
  by (simp add: keeps_intents_def)

lemma intents_insert [intents]: "insert_idempotency r db = Inr (u, db') \<Longrightarrow> keeps_intents db db'"
  by (auto simp: insert_idempotency_Inr keeps_intents_def started_in_def status_in_def select_one_snoc split: option.splits)

definition starts :: "(idempotency_row \<Rightarrow> idempotency_row) \<Rightarrow> bool" where
  "starts f \<longleftrightarrow> (\<forall>r. im_record_id (f r) = im_record_id r \<and>
     parse_execution_status (im_status (f r)) \<notin> {None, Some MX_RESERVED})"

lemma intents_update [intents]:
  assumes "starts f" "db_idempotency db' = update_rows p f (db_idempotency db)"
  shows "keeps_intents db db'"
proof -
  have id: "im_record_id (f r) = im_record_id r" for r using assms(1) by (simp add: starts_def)
  show ?thesis
    using assms unfolding keeps_intents_def started_in_def assms(2) status_in_update [of f p, OF id]
    by (auto simp: status_in_def starts_def split: option.splits)
qed

lemma starts_claimed [simp]: "starts claimed_row"
  using parse_execution_status_value [of MX_IN_PROGRESS] by (simp add: starts_def claimed_row_def)

lemma starts_completed: "mc_status m \<noteq> MX_RESERVED \<Longrightarrow> starts (completed_row m)"
  by (simp add: starts_def completed_row_def)

lemma check_commit_completion:
  "check_commit c = Inr u \<Longrightarrow> sc_completion c = Some m \<Longrightarrow> mc_status m \<noteq> MX_RESERVED"
  by (auto simp: check_commit_def split: if_splits)

lemma intents_effect:
  assumes "check_commit c = Inr u"
  shows "keeps_intents db (commit_effect now c current db)"
proof (cases "sc_completion c")
  case None
  then show ?thesis by (intro intents_same) (simp add: commit_effect_def Let_def completed_rows_def)
next
  case (Some m)
  then have "starts (completed_row m)" using check_commit_completion [OF assms] starts_completed by blast
  then show ?thesis by (rule intents_update) (simp add: commit_effect_def Let_def completed_rows_def Some)
qed

lemma intents_commit [intents]: "commit_step now c db = (r, db') \<Longrightarrow> keeps_intents db db'"
  using commit_step_cases [of now c db r db'] intents_effect intents_same by blast

lemma intents_consume_and_insert:
  assumes "consume_and_insert now record_id c db = (r, db')"
  shows "keeps_intents db db'"
proof (cases r)
  case (Inl e)
  then show ?thesis using assms by (auto simp: consume_and_insert_def transaction_Inl intro: intents_same)
next
  case (Inr x)
  show ?thesis
    using intents_insert [OF consume_and_insert_Inr [OF assms [unfolded Inr], THEN conjunct2, THEN conjunct1]]
    by (simp add: keeps_intents_def)
qed

lemma intents_step: "confirm_step db l db' \<Longrightarrow> keeps_intents db db'"
proof (erule confirm_stepE)
  fix now record_id c r
  assume "consume_and_reserve now record_id c db = (r, db')"
  then show "keeps_intents db db'"
    by (auto simp: consume_and_reserve_def intro: intents_same intents_consume_and_insert
        split: option.splits prod.splits sum.splits if_splits)
next
  fix key_hash i expires r
  assume "reserve_intent key_hash i expires db = (r, db')"
  then show "keeps_intents db db'"
    by (auto simp: reserve_intent_def Let_def transaction_Inr transaction_Inl intro: intents
        split: option.splits prod.splits sum.splits if_splits)
next
  fix i r
  assume "claim_intent i db = (r, db')"
  then show "keeps_intents db db'"
    by (auto simp: claim_intent_def transaction_Inr transaction_Inl update_idempotency_Inr
        intro: intents_same intents_update [OF starts_claimed] split: option.splits prod.splits sum.splits)
next
  fix now c r
  assume "commit_step now c db = (r, db')"
  then show "keeps_intents db db'" by (rule intents_commit)
qed (auto simp: issue_token_def invalidate_waiting_def rotate_waiting_def reject_token_def expire_waiting_def Let_def
      transaction_def bind_res_eq_Inr bind_res_def insert_token_def
      intro!: intents_same split: sum.splits prod.splits if_splits)

lemma started_rows: "mutation_intents.started s k \<longleftrightarrow> started_in (db_idempotency (rs_db s)) k"
  by (simp add: mutation_intents.started_def stored_status_def started_in_def)

lemma keeps_started_iff:
  "mutation_intents.keeps_started s s' \<longleftrightarrow> (intents_ok s \<longrightarrow> intents_ok s') \<and> keeps_intents (rs_db s) (rs_db s')"
  by (simp add: mutation_intents.keeps_started_def keeps_intents_def started_rows)

lemma commit_checkpoint_db:
  assumes "commit_checkpoint env completion c status nxt state evs s = (r, s')"
  obtains "rs_db s' = rs_db s" | now k q where "commit_step now k (rs_db s) = (q, rs_db s')"
  using assms that by (auto simp: commit_checkpoint_def Let_def split: if_splits prod.splits sum.splits)

lemma commit_outcome_safe: "mutation_intents.safe_checkpoint (commit_outcome env plan)"
  unfolding mutation_intents.safe_checkpoint_def
proof (intro allI impI)
  fix m s
  assume ok: "intents_ok s"
  obtain c status nxt state evs where p: "plan m = (c, status, nxt, state, evs)" by (metis surj_pair)
  obtain r s' where k: "checkpoint_mutation env m c status nxt state evs s = (r, s')" by force
  have d: "snd (commit_outcome env plan m s) = s'" using p k by (simp add: commit_outcome_def)
  have "keeps_tokens (rs_db s) (rs_db s') \<and> keeps_intents (rs_db s) (rs_db s')"
    using k unfolding checkpoint_mutation_def
    by (rule commit_checkpoint_db) (auto intro: intents_same keeps_commit intents_commit)
  then show "mutation_intents.keeps_started s (snd (commit_outcome env plan m s))"
    by (simp add: d keeps_started_iff intents_ok_def keeps_tokens_def)
qed

section \<open>Histories\<close>

inductive mutation_step ::
  "repository_env \<Rightarrow> ('w, repository_state) boundary_state \<Rightarrow> ('w, repository_state) boundary_state \<Rightarrow> bool"
  for env where
  execute: "execute_mutation load_state claim_state i adapter (commit_outcome env plan) after st = (r, st') \<Longrightarrow>
    mutation_step env st st'"
| recover: "recover_mutation load_state i (commit_outcome env plan) st = (r, st') \<Longrightarrow> mutation_step env st st'"
| transact: "confirm_step (rs_db (bs_store st)) l db' \<Longrightarrow>
    mutation_step env st (st\<lparr>bs_store := (bs_store st)\<lparr>rs_db := db'\<rparr>\<rparr>)"
| elsewhere: "db_idempotency (rs_db s') = db_idempotency (rs_db (bs_store st)) \<Longrightarrow>
    db_tokens (rs_db s') = db_tokens (rs_db (bs_store st)) \<Longrightarrow> mutation_step env st (st\<lparr>bs_world := w', bs_store := s'\<rparr>)"

text \<open>Every call ever made belongs to a started intent, and no intent was called twice.\<close>

definition calls_ok :: "('w, repository_state) boundary_state \<Rightarrow> bool" where
  "calls_ok st \<longleftrightarrow> intents_ok (bs_store st) \<and> distinct (bs_calls st) \<and>
     list_all (started_in (db_idempotency (rs_db (bs_store st)))) (bs_calls st)"

lemma calls_ok_step:
  assumes "mutation_step env st st'" "calls_ok st"
  shows "calls_ok st'"
  using assms
proof (cases rule: mutation_step.cases)
  case (execute i adapter plan after r)
  have inv: "intents_ok (bs_store st)" using assms(2) by (simp add: calls_ok_def)
  note k = mutation_intents.execute_keeps [OF commit_outcome_safe inv execute, unfolded keeps_started_iff started_rows]
  have "mi_record_id i \<notin> set (bs_calls st)" if "stored_status (bs_store st) (mi_record_id i) = Some MX_RESERVED"
    using assms(2) that by (auto simp: calls_ok_def list_all_iff started_in_def stored_status_def)
  then show ?thesis using k assms(2) by (auto simp: calls_ok_def list_all_iff keeps_intents_def)
next
  case (recover i plan r)
  have inv: "intents_ok (bs_store st)" using assms(2) by (simp add: calls_ok_def)
  note k = mutation_intents.recover_keeps [OF commit_outcome_safe inv recover, unfolded keeps_started_iff]
  then show ?thesis using assms(2) by (auto simp: calls_ok_def list_all_iff keeps_intents_def)
next
  case (transact l db')
  have "keeps_tokens (rs_db (bs_store st)) db' \<and> keeps_intents (rs_db (bs_store st)) db'"
    using transact(2) confirm_step_keeps intents_step by blast
  then show ?thesis
    using assms(2) transact(1) by (auto simp: calls_ok_def list_all_iff keeps_intents_def keeps_tokens_def intents_ok_def)
next
  case (elsewhere s' w')
  then show ?thesis
    using assms(2) by (auto simp: calls_ok_def list_all_iff started_in_def intents_ok_def mutation_tables_ok_def)
qed

lemma calls_ok_history: "(mutation_step env)\<^sup>*\<^sup>* st st' \<Longrightarrow> calls_ok st \<Longrightarrow> calls_ok st'"
  by (induction rule: rtranclp_induct) (auto intro: calls_ok_step)

section \<open>Properties\<close>

text \<open>The external system is called at most once per mutation. Whatever workers execute and recover
  mutations, whatever confirmations, claims and checkpoints are committed in between, whatever else
  changes in the world and in the tables that hold no tokens and intents, and whichever executions raise or are cut off after the call: the idempotency keys of the calls are pairwise
  different, and each of them belongs to an intent that is no longer \<open>reserved\<close>.\<close>

theorem adapter_called_at_most_once:
  assumes "(mutation_step env)\<^sup>*\<^sup>* st st'" "intents_ok (bs_store st)" "bs_calls st = []"
  shows "distinct (bs_calls st') \<and>
    (\<forall>k\<in>set (bs_calls st'). stored_status (bs_store st') k \<notin> {None, Some MX_RESERVED})"
proof -
  have "calls_ok st" using assms(2,3) by (simp add: calls_ok_def)
  then have "calls_ok st'" by (rule calls_ok_history [OF assms(1)])
  then show ?thesis by (auto simp: calls_ok_def list_all_iff started_in_def stored_status_def)
qed

lemma stored_completed:
  assumes ok: "intents_ok s" and out: "commit_outcome env plan m s = (Inr u, s')"
  shows "stored_status s' (mc_record_id m) = Some (mc_status m) \<and> intents_ok s'"
proof -
  obtain c status nxt state evs where p: "plan m = (c, status, nxt, state, evs)" by (metis surj_pair)
  obtain v where k: "commit_checkpoint env (Some m) c status nxt state evs s = (Inr v, s')"
    using out p by (auto simp: commit_outcome_def checkpoint_mutation_def bind_res_eq_Inr split: prod.splits)
  obtain now n x where x: "commit_step now (checkpoint_commit env (Some m) c status nxt state evs n) (rs_db s) = (Inr x, rs_db s')"
    using k by (rule commit_checkpoint_Inr) blast
  let ?c = "checkpoint_commit env (Some m) c status nxt state evs n"
  obtain current where e: "rs_db s' = commit_effect now ?c current (rs_db s)"
    "row_count (open_intent (sc_tenant_id ?c) m) (db_idempotency (rs_db s)) = 1"
    using commit_step_cases [OF x] by auto
  then obtain r where r: "r \<in> set (db_idempotency (rs_db s))" "open_intent (sc_tenant_id ?c) m r"
    using usable_count [of "open_intent (sc_tenant_id ?c) m" "db_idempotency (rs_db s)"] by auto
  have rows: "db_idempotency (rs_db s') = update_rows (open_intent (sc_tenant_id ?c) m) (completed_row m) (db_idempotency (rs_db s))"
    by (simp add: e(1) commit_effect_def Let_def completed_rows_def)
  have "select_one (\<lambda>x. im_record_id x = mc_record_id m) (db_idempotency (rs_db s)) = Some r"
    using unique_record [of "rs_db s" r] ok r by (simp add: intents_ok_def open_intent_def)
  then have "stored_status s' (mc_record_id m) = Some (mc_status m)"
    unfolding stored_status_def rows using r(2) by (subst status_in_update) (simp_all add: completed_row_def)
  moreover have "intents_ok s'" using keeps_commit [OF x] ok by (simp add: intents_ok_def keeps_tokens_def)
  ultimately show ?thesis by simp
qed

text \<open>C30: an orphaned mutation gets an outcome. If a worker was lost after it had claimed an intent,
  recovery, as soon as its checkpoint commits, returns the outcome unknown, records it for the intent
  and calls nobody; every later execution of the intent answers unknown from the record, again without
  a call.\<close>

theorem orphaned_mutation_is_resolved:
  assumes "intents_ok (bs_store st)" "load_state i (bs_store st) = Inr (Some x)" "sx_status x = MX_IN_PROGRESS"
    "commit_outcome env plan (unknown_completion i) (bs_store st) = (Inr u, s')"
  shows "recover_mutation load_state i (commit_outcome env plan) st = (Inr (unknown_outcome True), st\<lparr>bs_store := s'\<rparr>) \<and>
    stored_status s' (mi_record_id i) = Some MX_UNKNOWN \<and>
    (\<forall>adapter plan' after out st''.
       execute_mutation load_state claim_state i adapter (commit_outcome env plan') after (st\<lparr>bs_store := s'\<rparr>) = (Inr out, st'') \<longrightarrow>
       st'' = st\<lparr>bs_store := s'\<rparr> \<and> xr_reused out \<and> xr_status out = MX_UNKNOWN)"
proof -
  have "require_intent load_state i (bs_store st) = Inr x" using assms(2) by (simp add: require_intent_def)
  then have rec: "recover_mutation load_state i (commit_outcome env plan) st = (Inr (unknown_outcome True), st\<lparr>bs_store := s'\<rparr>)"
    using assms(3,4)
    by (simp add: recover_mutation_def complete_execution_def unknown_completion_def unknown_outcome_def)
  have st: "stored_status s' (mi_record_id i) = Some MX_UNKNOWN" "intents_ok s'"
    using stored_completed [OF assms(1,4)] by (simp_all add: unknown_completion_def)
  then have "mutation_intents.started s' (mi_record_id i)" by (simp add: mutation_intents.started_def)
  then show ?thesis
    using rec st mutation_intents.execute_started [of "st\<lparr>bs_store := s'\<rparr>" i] by auto
qed

section \<open>Witnesses\<close>

definition demo_intent :: mutation_intent where
  "demo_intent = \<lparr>mi_record_id = ''m'', mi_tenant_id = ''t'', mi_operation = ''commit_refund'', mi_fingerprint = ''f''\<rparr>"

definition demo_intent_store :: "string \<Rightarrow> repository_state" where
  "demo_intent_store status =
     demo_store\<lparr>rs_db := (rs_db demo_store)
       \<lparr>db_idempotency := [(reserved_row ''m'' ''t'' ''commit_refund'' ''k'' ''f'' None)\<lparr>im_status := status\<rparr>]\<rparr>\<rparr>"

definition demo_plan :: outcome_plan where
  "demo_plan m = (demo_context, RS_WAITING_HUMAN, ''terminal'', [], [event ET_COMMIT_OBSERVED []])"

definition demo_adapter :: "unit adapter" where
  "demo_adapter key w = (Inr \<lparr>ar_status = MA_SUCCEEDED, ar_reference = Some ''R-1'', ar_response = []\<rparr>, w)"

definition demo_boundary_start :: "string \<Rightarrow> (unit, repository_state) boundary_state" where
  "demo_boundary_start status = \<lparr>bs_world = (), bs_calls = [], bs_store = demo_intent_store status\<rparr>"

definition demo_execute ::
  "(unit, repository_state) boundary_state \<Rightarrow> execution_result result \<times> (unit, repository_state) boundary_state" where
  "demo_execute = execute_mutation load_state claim_state demo_intent demo_adapter (commit_outcome demo_repository demo_plan) (Inr ())"

lemma demo_execute_twice:
  "(case fst (demo_execute (demo_boundary_start ''reserved'')) of Inl e \<Rightarrow> False | Inr out \<Rightarrow> xr_status out = MX_SUCCEEDED)"
  "bs_calls (snd (demo_execute (snd (demo_execute (demo_boundary_start ''reserved''))))) = [''m'']"
  "intents_ok (bs_store (demo_boundary_start ''reserved''))" "bs_calls (demo_boundary_start ''reserved'') = []"
  by code_simp+

lemma adapter_called_at_most_once_witness:
  "distinct (bs_calls (snd (demo_execute (snd (demo_execute (demo_boundary_start ''reserved'')))))) \<and>
   bs_calls (snd (demo_execute (snd (demo_execute (demo_boundary_start ''reserved''))))) = [''m'']"
proof -
  have step: "mutation_step demo_repository st (snd (demo_execute st))" for st
    unfolding demo_execute_def by (rule mutation_step.execute [OF prod.collapse [symmetric]])
  have "(mutation_step demo_repository)\<^sup>*\<^sup>* (demo_boundary_start ''reserved'')
      (snd (demo_execute (snd (demo_execute (demo_boundary_start ''reserved'')))))"
    by (rule converse_rtranclp_into_rtranclp [OF step r_into_rtranclp [of "mutation_step demo_repository", OF step]])
  then show ?thesis using adapter_called_at_most_once demo_execute_twice(2-4) by blast
qed

lemma demo_orphan:
  "(case load_state demo_intent (demo_intent_store ''in_progress'') of
      Inr (Some x) \<Rightarrow> sx_status x = MX_IN_PROGRESS | _ \<Rightarrow> False)"
  "fst (commit_outcome demo_repository demo_plan (unknown_completion demo_intent) (demo_intent_store ''in_progress'')) = Inr ()"
  "intents_ok (demo_intent_store ''in_progress'')"
  by code_simp+

lemma orphaned_mutation_is_resolved_witness:
  "\<exists>st'. recover_mutation load_state demo_intent (commit_outcome demo_repository demo_plan) (demo_boundary_start ''in_progress'') =
      (Inr (unknown_outcome True), st') \<and> stored_status (bs_store st') ''m'' = Some MX_UNKNOWN"
proof -
  let ?st = "demo_boundary_start ''in_progress''"
  have s: "bs_store ?st = demo_intent_store ''in_progress''" by (simp add: demo_boundary_start_def)
  obtain x where x: "load_state demo_intent (bs_store ?st) = Inr (Some x)" "sx_status x = MX_IN_PROGRESS"
    using demo_orphan(1) unfolding s by (auto split: sum.splits option.splits)
  obtain s' where s': "commit_outcome demo_repository demo_plan (unknown_completion demo_intent) (bs_store ?st) = (Inr (), s')"
    using demo_orphan(2) unfolding s by (metis prod.collapse)
  have "mi_record_id demo_intent = ''m''" by (simp add: demo_intent_def)
  then show ?thesis
    using orphaned_mutation_is_resolved [OF _ x s'] demo_orphan(3) s by auto
qed

end
