(* ===== verification/MutationPlanner.thy ===== *)
theory MutationPlanner
  imports Prelude
begin

text \<open>
  \<open>src/workflows/mutations.py\<close>: the planner in front of the confirmation of a mutation. It extracts
  arguments from the text of the user, normalizes them, checks ownership and eligibility of the order
  and returns the preview the confirmation token is bound to.

  The two regular expressions are written out as matchers, \<open>search\<close> and \<open>findall\<close> run a matcher over
  a text; \<open>IGNORECASE\<close> is that of ASCII. \<open>str\<close> of a value that is not a string is the parameter
  \<open>repr\<close>. The Chinese messages of the errors are left out, their codes and missing slots are kept.
\<close>

section \<open>Patterns\<close>

definition ascii_letter :: "char \<Rightarrow> bool" where
  "ascii_letter c = (let n = of_char (upper_char c) :: nat in 65 \<le> n \<and> n \<le> 90)"

definition ascii_digit :: "char \<Rightarrow> bool" where
  "ascii_digit c = (let n = of_char c :: nat in 48 \<le> n \<and> n \<le> 57)"

definition alnum :: "char \<Rightarrow> bool" where
  "alnum c \<longleftrightarrow> ascii_letter c \<or> ascii_digit c"

definition order_char :: "char \<Rightarrow> bool" where
  "order_char c \<longleftrightarrow> alnum c \<or> c = CHR ''-''"

definition sku_char :: "char \<Rightarrow> bool" where
  "sku_char c \<longleftrightarrow> alnum c \<or> c = CHR ''/'' \<or> c = CHR ''-''"

text \<open>The lookahead \<open>(?![A-Z0-9])\<close> and the lookbehind \<open>(?<![A-Z0-9])\<close>.\<close>

definition not_before_alnum :: "string \<Rightarrow> bool" where
  "not_before_alnum s = (case s of [] \<Rightarrow> True | c # _ \<Rightarrow> \<not> alnum c)"

definition not_after_alnum :: "char option \<Rightarrow> bool" where
  "not_after_alnum prev = (case prev of None \<Rightarrow> True | Some c \<Rightarrow> \<not> alnum c)"

text \<open>A greedy repetition in front of the lookahead gives characters back until the lookahead holds.\<close>

fun back_off :: "nat \<Rightarrow> nat \<Rightarrow> string \<Rightarrow> nat option" where
  "back_off lo 0 s = (if lo = 0 \<and> not_before_alnum s then Some 0 else None)"
| "back_off lo (Suc n) s =
     (if Suc n < lo then None
      else if not_before_alnum (drop (Suc n) s) then Some (Suc n) else back_off lo n s)"

definition repeated :: "(char \<Rightarrow> bool) \<Rightarrow> nat \<Rightarrow> nat \<Rightarrow> string \<Rightarrow> nat option" where
  "repeated p lo hi s = back_off lo (min hi (length (takeWhile p s))) s"

definition order_length :: "string \<Rightarrow> nat option" where
  "order_length s =
     (if upper (take 4 s) = ''ORD-'' then map_option (\<lambda>n. 4 + n) (repeated order_char 3 40 (drop 4 s)) else None)"

text \<open>The letters \<open>[A-Z]{2,8}\<close> are followed by a digit, so they are all the letters in front of it.\<close>

definition sku_length :: "string \<Rightarrow> nat option" where
  "sku_length s =
     (let k = length (takeWhile ascii_letter s) in
      if 2 \<le> k \<and> k \<le> 8 \<and> (case drop k s of [] \<Rightarrow> False | c # _ \<Rightarrow> ascii_digit c)
      then map_option (\<lambda>n. k + 1 + n) (repeated sku_char 2 24 (drop (k + 1) s)) else None)"

fun search :: "(string \<Rightarrow> nat option) \<Rightarrow> char option \<Rightarrow> string \<Rightarrow> string option" where
  "search m prev [] = None"
| "search m prev (c # cs) =
     (case (if not_after_alnum prev then m (c # cs) else None) of
        Some n \<Rightarrow> Some (take n (c # cs)) | None \<Rightarrow> search m (Some c) cs)"

fun findall :: "(string \<Rightarrow> nat option) \<Rightarrow> char option \<Rightarrow> nat \<Rightarrow> string \<Rightarrow> string list" where
  "findall m prev skip [] = []"
| "findall m prev skip (c # cs) =
     (case skip of
        Suc k \<Rightarrow> findall m (Some c) k cs
      | 0 \<Rightarrow>
          (case (if not_after_alnum prev then m (c # cs) else None) of
             Some n \<Rightarrow> take n (c # cs) # findall m (Some c) (n - 1) cs
           | None \<Rightarrow> findall m (Some c) 0 cs))"

definition find_order :: "string \<Rightarrow> string option" where
  "find_order s = search order_length None s"

definition find_skus :: "string \<Rightarrow> string list" where
  "find_skus s = findall sku_length None 0 s"

section \<open>Tables\<close>

definition mutation_workflow_versions :: "(string \<times> string) list" where
  "mutation_workflow_versions =
     [(''cancel_order'', ''cancel-order-v1''), (''change_order'', ''update-shipping-address-v1''),
      (''request_refund'', ''refund-v1''), (''return_product'', ''return-v1''), (''exchange_product'', ''exchange-v1'')]"

definition mutation_required_slots :: "(string \<times> string list) list" where
  "mutation_required_slots =
     [(''cancel_order'', [''order_id'', ''reason'']), (''change_order'', [''order_id'', ''new_address'']),
      (''request_refund'', [''order_id'', ''item_id'', ''reason'']),
      (''return_product'', [''order_id'', ''item_id'', ''reason'']),
      (''exchange_product'', [''order_id'', ''item_id'', ''replacement_sku''])]"

definition reason_normalization :: "(string \<times> string) list" where
  "reason_normalization =
     [([CHR 0xE4, CHR 0xB8, CHR 0x8D, CHR 0xE6, CHR 0x83, CHR 0xB3, CHR 0xE8, CHR 0xA6,
      CHR 0x81], ''changed_mind''),
      ([CHR 0xE4, CHR 0xB8, CHR 0x8D, CHR 0xE9, CHR 0x9C, CHR 0x80, CHR 0xE8, CHR 0xA6,
      CHR 0x81], ''changed_mind''),
      ([CHR 0xE8, CHR 0xB4, CHR 0xA8, CHR 0xE9, CHR 0x87, CHR 0x8F], ''quality_issue''),
      ([CHR 0xE5, CHR 0x9D, CHR 0x8F], ''quality_issue''),
      ([CHR 0xE6, CHR 0x8D, CHR 0x9F, CHR 0xE5, CHR 0x9D, CHR 0x8F], ''quality_issue''),
      ([CHR 0xE9, CHR 0x94, CHR 0x99, CHR 0xE5, CHR 0x8F, CHR 0x91], ''wrong_item''),
      ([CHR 0xE4, CHR 0xB8, CHR 0x8D, CHR 0xE5, CHR 0x90, CHR 0x88, CHR 0xE9, CHR 0x80,
      CHR 0x82], ''not_suitable''),
      ([CHR 0xE5, CHR 0x85, CHR 0xB6, CHR 0xE4, CHR 0xBB, CHR 0x96], ''other'')]"

definition reason_hints :: "string list" where
  "reason_hints = map fst reason_normalization @
     [[CHR 0xE5, CHR 0x8E, CHR 0x9F, CHR 0xE5, CHR 0x9B, CHR 0xA0],
      [CHR 0xE5, CHR 0x9B, CHR 0xA0, CHR 0xE4, CHR 0xB8, CHR 0xBA],
      [CHR 0xE7, CHR 0x94, CHR 0xB1, CHR 0xE4, CHR 0xBA, CHR 0x8E]]"

record demo_order =
  do_order_id :: string
  do_owner_id :: string
  do_status :: string
  do_item_id :: string
  do_item_title :: string
  do_amount :: int
  do_quantity :: int
  do_currency :: string

record mutation_preview =
  mp_mutation_type :: string
  mp_workflow_version :: string
  mp_resource_ref :: string
  mp_operation :: string
  mp_summary :: string
  mp_impact :: pydict
  mp_amount :: pydict
  mp_channel :: string
  mp_estimated_time :: string
  mp_policy_version :: string
  mp_normalized_args :: pydict

definition as_public :: "mutation_preview \<Rightarrow> pydict" where
  "as_public p =
     [(''mutation_type'', PStr (mp_mutation_type p)), (''workflow_version'', PStr (mp_workflow_version p)),
      (''resource_ref'', PStr (mp_resource_ref p)), (''operation'', PStr (mp_operation p)),
      (''summary'', PStr (mp_summary p)), (''impact'', PDict (mp_impact p)), (''amount'', PDict (mp_amount p)),
      (''channel'', PStr (mp_channel p)), (''estimated_time'', PStr (mp_estimated_time p)),
      (''policy_version'', PStr (mp_policy_version p))]"

definition cny_order :: "string \<Rightarrow> string \<Rightarrow> string \<Rightarrow> string \<Rightarrow> string \<Rightarrow> int \<Rightarrow> demo_order" where
  "cny_order order_id owner status item title amount =
     \<lparr>do_order_id = order_id, do_owner_id = owner, do_status = status, do_item_id = item, do_item_title = title,
      do_amount = amount, do_quantity = 1, do_currency = ''CNY''\<rparr>"

definition default_demo_orders :: "demo_order list" where
  "default_demo_orders =
     [cny_order ''ORD-DEMO-001'' ''demo-user-001'' ''shipped'' ''TAH6206''
        [CHR 0xE6, CHR 0x97, CHR 0xA0, CHR 0xE7, CHR 0xBA, CHR 0xBF, CHR 0xE8, CHR 0x93,
      CHR 0x9D, CHR 0xE7, CHR 0x89, CHR 0x99, CHR 0xE8, CHR 0x80, CHR 0xB3,
      CHR 0xE6, CHR 0x9C, CHR 0xBA] 299,
      cny_order ''ORD-DEMO-002'' ''demo-user-001'' ''delivered'' ''BHD308/10''
        [CHR 0x54, CHR 0x68, CHR 0x65, CHR 0x72, CHR 0x6D, CHR 0x6F, CHR 0x50, CHR 0x72,
      CHR 0x6F, CHR 0x74, CHR 0x65, CHR 0x63, CHR 0x74, CHR 0x20, CHR 0xE5,
      CHR 0x90, CHR 0xB9, CHR 0xE9, CHR 0xA3, CHR 0x8E, CHR 0xE6, CHR 0x9C,
      CHR 0xBA] 199,
      cny_order ''ORD-DEMO-CANCEL-001'' ''demo-user-001'' ''processing'' ''TAH6206''
        [CHR 0xE6, CHR 0x97, CHR 0xA0, CHR 0xE7, CHR 0xBA, CHR 0xBF, CHR 0xE8, CHR 0x93,
      CHR 0x9D, CHR 0xE7, CHR 0x89, CHR 0x99, CHR 0xE8, CHR 0x80, CHR 0xB3,
      CHR 0xE6, CHR 0x9C, CHR 0xBA] 299,
      cny_order ''ORD-DEMO-003'' ''demo-user-002'' ''processing'' ''HD928X''
        [CHR 0xE6, CHR 0x99, CHR 0xBA, CHR 0xE8, CHR 0x83, CHR 0xBD, CHR 0xE7, CHR 0xA9,
      CHR 0xBA, CHR 0xE6, CHR 0xB0, CHR 0x94, CHR 0xE7, CHR 0x82, CHR 0xB8,
      CHR 0xE9, CHR 0x94, CHR 0x85] 899]"

section \<open>Arguments\<close>

text \<open>\<open>str(v)\<close>\<close>

definition text_of :: "(pyval \<Rightarrow> string) \<Rightarrow> pyval \<Rightarrow> string" where
  "text_of repr v = (case v of PStr s \<Rightarrow> s | _ \<Rightarrow> repr v)"

text \<open>\<open>" ".join(value.split())\<close>\<close>

fun split_words :: "string list \<Rightarrow> string list \<Rightarrow> string list" where
  "split_words word [] = (if word = [] then [] else [concat word])"
| "split_words word (c # cs) =
     (if is_white c then (if word = [] then split_words [] cs else concat word # split_words [] cs)
      else split_words (word @ [c]) cs)"

fun join_words :: "string list \<Rightarrow> string" where
  "join_words [] = []"
| "join_words [w] = w"
| "join_words (w # ws) = w @ '' '' @ join_words ws"

definition planning_error :: "string \<Rightarrow> py_exn" where
  "planning_error code = MutationPlanningError code []"

definition normalize_address :: "string \<Rightarrow> string result" where
  "normalize_address value =
     (let v = join_words (split_words [] (chars value)) in
      if \<not> (6 \<le> py_len v \<and> py_len v \<le> 200) then Inl (planning_error ''INVALID_ARGUMENT'') else Inr v)"

definition mask_address :: "string \<Rightarrow> string" where
  "mask_address value =
     (if py_len value \<le> 6 then ''***''
      else slice_to value 4 @ ''***'' @ concat (drop (length (chars value) - 3) (chars value)))"

definition given :: "pydict \<Rightarrow> string \<Rightarrow> pyval option" where
  "given args k = (case dget args k of None \<Rightarrow> None | Some v \<Rightarrow> if truthy v then Some v else None)"

definition put_upper :: "(pyval \<Rightarrow> string) \<Rightarrow> pydict \<Rightarrow> string \<Rightarrow> pydict \<Rightarrow> pydict" where
  "put_upper repr args k d = (case given args k of None \<Rightarrow> d | Some v \<Rightarrow> dset d k (PStr (upper (text_of repr v))))"

definition reason_code :: "string \<Rightarrow> string" where
  "reason_code raw =
     (case find (\<lambda>(label, code). str_in label raw) reason_normalization of Some (label, code) \<Rightarrow> code | None \<Rightarrow> ''other'')"

definition put_reason :: "(pyval \<Rightarrow> string) \<Rightarrow> pydict \<Rightarrow> pydict \<Rightarrow> pydict" where
  "put_reason repr args d =
     (case given args ''reason'' of
        None \<Rightarrow> d | Some v \<Rightarrow> dset d ''reason_code'' (PStr (reason_code (strip (text_of repr v)))))"

definition normalize_arguments :: "(pyval \<Rightarrow> string) \<Rightarrow> string \<Rightarrow> pydict \<Rightarrow> pydict result" where
  "normalize_arguments repr mutation_type args =
     (let d = put_upper repr args ''replacement_sku'' (put_upper repr args ''item_id'' (put_upper repr args ''order_id'' []))
      in bind_res
        (case given args ''new_address'' of
           None \<Rightarrow> Inr d
         | Some v \<Rightarrow> bind_res (normalize_address (text_of repr v)) (\<lambda>a. Inr (dset d ''new_address'' (PStr a))))
        (\<lambda>d. Inr (put_reason repr args d)))"

text \<open>\<open>text.find(p)\<close>, counted in bytes: \<open>None\<close> for -1. Both markers are six bytes long.\<close>

fun byte_find :: "string \<Rightarrow> string \<Rightarrow> nat option" where
  "byte_find p [] = (if p = [] then Some 0 else None)"
| "byte_find p (c # cs) = (if starts_with p (c # cs) then Some 0 else map_option Suc (byte_find p cs))"

definition address_marker :: "string \<Rightarrow> nat option" where
  "address_marker s =
     (case (byte_find [CHR 0xE5, CHR 0x9C, CHR 0xB0, CHR 0xE5, CHR 0x9D, CHR 0x80] s,
            byte_find [CHR 0xE6, CHR 0x94, CHR 0xB9, CHR 0xE4, CHR 0xB8, CHR 0xBA] s) of
        (Some i, Some j) \<Rightarrow> Some (max i j) | (Some i, None) \<Rightarrow> Some i | (None, j) \<Rightarrow> j)"

definition address_padding :: "string list" where
  "address_padding =
     ['' '', [CHR 0xEF, CHR 0xBC, CHR 0x9A], '':'', [CHR 0xEF, CHR 0xBC, CHR 0x8C], '','', [CHR 0xE3, CHR 0x80, CHR 0x82]]"

definition strip_of :: "string list \<Rightarrow> string \<Rightarrow> string" where
  "strip_of cs s =
     concat (rev (dropWhile (\<lambda>c. c \<in> set cs) (rev (dropWhile (\<lambda>c. c \<in> set cs) (chars s)))))"

definition extract_arguments :: "string \<Rightarrow> string \<Rightarrow> pydict" where
  "extract_arguments mutation_type s =
     (let d = (case find_order s of None \<Rightarrow> [] | Some w \<Rightarrow> [(''order_id'', PStr w)]);
          skus = find_skus s;
          d = (if mutation_type = ''exchange_product'' \<and> skus \<noteq> []
               then dset d ''replacement_sku'' (PStr (last skus)) else d);
          d = (if mutation_type \<in> {''request_refund'', ''return_product'', ''exchange_product''}
               then dset d ''item_id'' (PStr (case skus of [] \<Rightarrow> [] | w # _ \<Rightarrow> w)) else d);
          d = (if mutation_type \<in> {''cancel_order'', ''request_refund'', ''return_product''} \<and> any_marker reason_hints s
               then dset d ''reason'' (PStr s) else d)
      in
      if mutation_type = ''change_order''
      then (case address_marker s of
          None \<Rightarrow> d
        | Some i \<Rightarrow>
            (let candidate = strip_of address_padding (drop (i + 6) s) in
             if candidate \<noteq> [] then dset d ''new_address'' (PStr candidate) else d))
      else d)"

section \<open>The planner\<close>

definition planner_orders :: "demo_order list \<Rightarrow> (string \<times> demo_order) list" where
  "planner_orders orders = foldl (\<lambda>d x. dset d (do_order_id x) x) [] orders"

definition check_eligibility :: "string \<Rightarrow> demo_order \<Rightarrow> unit result" where
  "check_eligibility mutation_type x =
     (if mutation_type = ''cancel_order'' \<and> do_status x \<notin> {''processing'', ''paid''}
      then Inl (planning_error ''POLICY_DENIED'')
      else if mutation_type = ''change_order'' \<and> do_status x \<notin> {''processing'', ''paid''}
      then Inl (planning_error ''POLICY_DENIED'')
      else Inr ())"

definition missing_slots :: "string \<Rightarrow> pydict \<Rightarrow> string list" where
  "missing_slots mutation_type normalized =
     filter (\<lambda>slot. case dget normalized (if slot = ''reason'' then ''reason_code'' else slot) of
         None \<Rightarrow> True | Some v \<Rightarrow> \<not> truthy v)
       (case dget mutation_required_slots mutation_type of None \<Rightarrow> [] | Some slots \<Rightarrow> slots)"

definition valid_quantity :: "pyval \<Rightarrow> bool" where
  "valid_quantity v = (case v of PInt i \<Rightarrow> i = 1 | _ \<Rightarrow> False)"

definition money :: "int \<Rightarrow> demo_order \<Rightarrow> pydict" where
  "money n x = [(''value'', PInt n), (''currency'', PStr (do_currency x))]"

text \<open>Impact, amount, channel, estimated time and summary of each kind of mutation.\<close>

definition preview_parts ::
  "string \<Rightarrow> demo_order \<Rightarrow> string \<Rightarrow> string \<Rightarrow> string \<Rightarrow> string \<Rightarrow> pydict \<times> pydict \<times> string \<times> string \<times> string" where
  "preview_parts mutation_type x item_id reason address replacement =
     (let original = [CHR 0xE5, CHR 0x8E, CHR 0x9F, CHR 0xE6, CHR 0x94, CHR 0xAF, CHR 0xE4, CHR 0xBB,
      CHR 0x98, CHR 0xE6, CHR 0xB8, CHR 0xA0, CHR 0xE9, CHR 0x81, CHR 0x93];
          delivery = [CHR 0xE5, CHR 0x8E, CHR 0x9F, CHR 0xE9, CHR 0x85, CHR 0x8D, CHR 0xE9, CHR 0x80,
      CHR 0x81, CHR 0xE6, CHR 0xB8, CHR 0xA0, CHR 0xE9, CHR 0x81, CHR 0x93];
          order = [CHR 0xE8, CHR 0xAE, CHR 0xA2, CHR 0xE5, CHR 0x8D, CHR 0x95, CHR 0x20] @ do_order_id x;
          requested = (\<lambda>k rest. (k, PStr ''requested'') # (''item_id'', PStr item_id) # rest @ [(''quantity'', PInt 1)])
      in
      if mutation_type = ''change_order'' then
        ([(''address'', PStr (mask_address address)), (''address_version'', PStr ''v1''), (''quantity'', PInt 1)],
         money 0 x, delivery, [CHR 0xE9, CHR 0xA2, CHR 0x84, CHR 0xE8, CHR 0xAE, CHR 0xA1, CHR 0x20, CHR 0x31,
      CHR 0x20, CHR 0xE4, CHR 0xB8, CHR 0xAA, CHR 0xE5, CHR 0xB7, CHR 0xA5,
      CHR 0xE4, CHR 0xBD, CHR 0x9C, CHR 0xE6, CHR 0x97, CHR 0xA5, CHR 0xE5,
      CHR 0x86, CHR 0x85, CHR 0xE7, CHR 0x94, CHR 0x9F, CHR 0xE6, CHR 0x95,
      CHR 0x88],
         [CHR 0xE4, CHR 0xBF, CHR 0xAE, CHR 0xE6, CHR 0x94, CHR 0xB9] @ order @ [CHR 0x20, CHR 0xE7, CHR 0x9A, CHR 0x84, CHR 0xE6, CHR 0x94, CHR 0xB6, CHR 0xE8,
      CHR 0xB4, CHR 0xA7, CHR 0xE5, CHR 0x9C, CHR 0xB0, CHR 0xE5, CHR 0x9D,
      CHR 0x80])
      else if mutation_type = ''cancel_order'' then
        ([(''order_status'', PStr ''cancelled''), (''item_id'', PStr (do_item_id x)), (''quantity'', PInt 1)],
         money (do_amount x) x, original, [CHR 0xE9, CHR 0xA2, CHR 0x84, CHR 0xE8, CHR 0xAE, CHR 0xA1, CHR 0x20, CHR 0x31,
      CHR 0x2D, CHR 0x33, CHR 0x20, CHR 0xE4, CHR 0xB8, CHR 0xAA, CHR 0xE5,
      CHR 0xB7, CHR 0xA5, CHR 0xE4, CHR 0xBD, CHR 0x9C, CHR 0xE6, CHR 0x97,
      CHR 0xA5, CHR 0xE5, CHR 0x88, CHR 0xB0, CHR 0xE8, CHR 0xB4, CHR 0xA6],
         [CHR 0xE5, CHR 0x8F, CHR 0x96, CHR 0xE6, CHR 0xB6, CHR 0x88] @ order)
      else if mutation_type = ''request_refund'' then
        (requested ''refund_status'' [(''reason_code'', PStr reason)],
         money (do_amount x) x, original, [CHR 0xE9, CHR 0xA2, CHR 0x84, CHR 0xE8, CHR 0xAE, CHR 0xA1, CHR 0x20, CHR 0x33,
      CHR 0x2D, CHR 0x37, CHR 0x20, CHR 0xE4, CHR 0xB8, CHR 0xAA, CHR 0xE5,
      CHR 0xB7, CHR 0xA5, CHR 0xE4, CHR 0xBD, CHR 0x9C, CHR 0xE6, CHR 0x97,
      CHR 0xA5, CHR 0xE5, CHR 0x88, CHR 0xB0, CHR 0xE8, CHR 0xB4, CHR 0xA6],
         [CHR 0xE7, CHR 0x94, CHR 0xB3, CHR 0xE8, CHR 0xAF, CHR 0xB7] @ order @ [CHR 0x20, CHR 0xE7, CHR 0x9A, CHR 0x84, CHR 0xE9, CHR 0x80, CHR 0x80, CHR 0xE6,
      CHR 0xAC, CHR 0xBE])
      else if mutation_type = ''return_product'' then
        (requested ''return_status'' [(''reason_code'', PStr reason)],
         money (do_amount x) x, original, [CHR 0xE6, CHR 0x94, CHR 0xB6, CHR 0xE5, CHR 0x88, CHR 0xB0, CHR 0xE9, CHR 0x80,
      CHR 0x80, CHR 0xE5, CHR 0x9B, CHR 0x9E, CHR 0xE5, CHR 0x95, CHR 0x86,
      CHR 0xE5, CHR 0x93, CHR 0x81, CHR 0xE5, CHR 0x90, CHR 0x8E, CHR 0x20,
      CHR 0x33, CHR 0x2D, CHR 0x37, CHR 0x20, CHR 0xE4, CHR 0xB8, CHR 0xAA,
      CHR 0xE5, CHR 0xB7, CHR 0xA5, CHR 0xE4, CHR 0xBD, CHR 0x9C, CHR 0xE6,
      CHR 0x97, CHR 0xA5],
         [CHR 0xE7, CHR 0x94, CHR 0xB3, CHR 0xE8, CHR 0xAF, CHR 0xB7, CHR 0xE9, CHR 0x80,
      CHR 0x80, CHR 0xE5, CHR 0x9B, CHR 0x9E] @ order @ [CHR 0x20, CHR 0xE7, CHR 0x9A, CHR 0x84, CHR 0xE5, CHR 0x95, CHR 0x86, CHR 0xE5,
      CHR 0x93, CHR 0x81])
      else
        (requested ''exchange_status'' [(''replacement_sku'', PStr replacement)],
         money 0 x, delivery, [CHR 0xE9, CHR 0xA2, CHR 0x84, CHR 0xE8, CHR 0xAE, CHR 0xA1, CHR 0x20, CHR 0x33,
      CHR 0x2D, CHR 0x35, CHR 0x20, CHR 0xE4, CHR 0xB8, CHR 0xAA, CHR 0xE5,
      CHR 0xB7, CHR 0xA5, CHR 0xE4, CHR 0xBD, CHR 0x9C, CHR 0xE6, CHR 0x97,
      CHR 0xA5],
         [CHR 0xE7, CHR 0x94, CHR 0xB3, CHR 0xE8, CHR 0xAF, CHR 0xB7, CHR 0xE5, CHR 0xB0,
      CHR 0x86] @ order @ [CHR 0x20, CHR 0xE7, CHR 0x9A, CHR 0x84, CHR 0xE5, CHR 0x95, CHR 0x86, CHR 0xE5,
      CHR 0x93, CHR 0x81, CHR 0xE6, CHR 0x8D, CHR 0xA2, CHR 0xE4, CHR 0xB8,
      CHR 0xBA, CHR 0x20] @ replacement))"

definition commit_operations :: "(string \<times> string) list" where
  "commit_operations =
     [(''cancel_order'', ''commit_cancel_order''), (''change_order'', ''commit_update_shipping_address''),
      (''request_refund'', ''commit_refund''), (''return_product'', ''commit_return''),
      (''exchange_product'', ''commit_exchange'')]"

definition required_text :: "(pyval \<Rightarrow> string) \<Rightarrow> string \<Rightarrow> pydict \<Rightarrow> string result" where
  "required_text repr k d = (case dget d k of None \<Rightarrow> Inl KeyError | Some v \<Rightarrow> Inr (text_of repr v))"

definition build_preview ::
  "string \<Rightarrow> string \<Rightarrow> string \<Rightarrow> pydict \<Rightarrow> demo_order \<Rightarrow> string \<Rightarrow> string \<Rightarrow> string \<Rightarrow> string \<Rightarrow> mutation_preview result" where
  "build_preview mutation_type version policy_version normalized x item_id reason address replacement =
     (let (impact, amount, channel, eta, summary) = preview_parts mutation_type x item_id reason address replacement in
      case dget commit_operations mutation_type of
        None \<Rightarrow> Inl KeyError
      | Some operation \<Rightarrow>
          Inr \<lparr>mp_mutation_type = mutation_type, mp_workflow_version = version,
            mp_resource_ref = do_order_id x, mp_operation = operation, mp_summary = summary, mp_impact = impact,
            mp_amount = amount, mp_channel = channel, mp_estimated_time = eta,
            mp_policy_version = policy_version, mp_normalized_args = normalized\<rparr>)"

text \<open>The part of \<open>prepare\<close> after the order is found.\<close>

definition plan_order ::
  "(pyval \<Rightarrow> string) \<Rightarrow> string \<Rightarrow> string \<Rightarrow> string \<Rightarrow> pydict \<Rightarrow> demo_order \<Rightarrow> mutation_preview result" where
  "plan_order repr mutation_type version policy_version normalized x =
     bind_res (require (valid_quantity (dget_or normalized ''quantity'' (PInt 1))) (planning_error ''INVALID_QUANTITY'')) (\<lambda>u.
     (let normalized = dset normalized ''quantity'' (PInt 1) in
      bind_res (check_eligibility mutation_type x) (\<lambda>u.
      (let reason = text_of repr (dget_or normalized ''reason_code'' (PStr ''other''));
           item_id = text_of repr (dget_or normalized ''item_id'' (PStr (do_item_id x)))
       in
       bind_res (require (item_id = do_item_id x) (planning_error ''ITEM_NOT_FOUND'')) (\<lambda>u.
       bind_res (if mutation_type = ''change_order'' then required_text repr ''new_address'' normalized else Inr []) (\<lambda>address.
       bind_res (if mutation_type \<notin> {''change_order'', ''cancel_order'', ''request_refund'', ''return_product''}
                 then required_text repr ''replacement_sku'' normalized else Inr []) (\<lambda>replacement.
       build_preview mutation_type version policy_version normalized x item_id reason address replacement)))))))"

definition prepare_plan ::
  "(pyval \<Rightarrow> string) \<Rightarrow> demo_order list \<Rightarrow> string \<Rightarrow> string \<Rightarrow> pydict \<Rightarrow> string \<Rightarrow> mutation_preview result" where
  "prepare_plan repr orders mutation_type actor args policy_version =
     (case dget mutation_workflow_versions mutation_type of
        None \<Rightarrow> Inl (planning_error ''UNKNOWN_MUTATION'')
      | Some version \<Rightarrow>
          bind_res (normalize_arguments repr mutation_type args) (\<lambda>normalized.
          (let missing = missing_slots mutation_type normalized in
           if missing \<noteq> [] then Inl (MutationPlanningError ''MISSING_SLOTS'' missing)
           else
            bind_res (required_text repr ''order_id'' normalized) (\<lambda>order_id.
            case dget (planner_orders orders) order_id of
              None \<Rightarrow> Inl (planning_error ''RESOURCE_NOT_FOUND'')
            | Some x \<Rightarrow>
                if do_owner_id x \<noteq> actor then Inl (planning_error ''RESOURCE_NOT_FOUND'')
                else plan_order repr mutation_type version policy_version normalized x))))"

section \<open>What the patterns find\<close>

definition order_word :: "string \<Rightarrow> bool" where
  "order_word w \<longleftrightarrow> upper (take 4 w) = ''ORD-'' \<and> list_all order_char (drop 4 w) \<and> 7 \<le> length w \<and> length w \<le> 44"

definition sku_word :: "string \<Rightarrow> bool" where
  "sku_word w \<longleftrightarrow> (\<exists>k. 2 \<le> k \<and> k \<le> 8 \<and> list_all ascii_letter (take k w) \<and> k + 3 \<le> length w \<and> length w \<le> k + 25 \<and>
     ascii_digit (w ! k) \<and> list_all sku_char (drop (k + 1) w))"

definition fits :: "(string \<Rightarrow> bool) \<Rightarrow> string \<Rightarrow> nat \<Rightarrow> bool" where
  "fits word s n \<longleftrightarrow> n \<le> length s \<and> word (take n s) \<and> not_before_alnum (drop n s)"

definition occurs :: "(string \<Rightarrow> bool) \<Rightarrow> char option \<Rightarrow> string \<Rightarrow> nat \<Rightarrow> nat \<Rightarrow> bool" where
  "occurs word prev s i n \<longleftrightarrow> i \<le> length s \<and> fits word (drop i s) n \<and>
     not_after_alnum (if i = 0 then prev else Some (s ! (i - 1)))"

definition leftmost_longest :: "(string \<Rightarrow> bool) \<Rightarrow> char option \<Rightarrow> string \<Rightarrow> string \<Rightarrow> bool" where
  "leftmost_longest word prev s w \<longleftrightarrow> (\<exists>i n. occurs word prev s i n \<and> w = take n (drop i s) \<and>
     (\<forall>j k. occurs word prev s j k \<longrightarrow> i < j \<or> i = j \<and> k \<le> n))"

lemma occurs_Suc [simp]: "occurs word prev (c # cs) (Suc i) n \<longleftrightarrow> occurs word (Some c) cs i n"
  by (cases i) (auto simp: occurs_def)

lemma occurs_0: "occurs word prev s 0 n \<longleftrightarrow> not_after_alnum prev \<and> fits word s n"
  by (auto simp: occurs_def)

lemma leftmost_here:
  assumes "occurs word prev s 0 n" "\<And>k. occurs word prev s 0 k \<Longrightarrow> k \<le> n"
  shows "leftmost_longest word prev s w \<longleftrightarrow> w = take n s"
proof
  assume "leftmost_longest word prev s w"
  then obtain i k where i: "occurs word prev s i k" "w = take k (drop i s)"
    "\<And>j l. occurs word prev s j l \<Longrightarrow> i < j \<or> i = j \<and> l \<le> k"
    unfolding leftmost_longest_def by blast
  have "i = 0" "n \<le> k" using i(3) [OF assms(1)] by auto
  then show "w = take n s" using assms(2) i(1,2) by (metis drop0 le_antisym)
next
  assume "w = take n s"
  then show "leftmost_longest word prev s w"
    unfolding leftmost_longest_def using assms by (intro exI [of _ 0] exI [of _ n]) auto
qed

lemma leftmost_later:
  assumes "\<And>k. \<not> occurs word prev (c # cs) 0 k"
  shows "leftmost_longest word prev (c # cs) w \<longleftrightarrow> leftmost_longest word (Some c) cs w"
proof
  assume "leftmost_longest word prev (c # cs) w"
  then obtain i n where i: "occurs word prev (c # cs) i n" "w = take n (drop i (c # cs))"
    "\<And>j k. occurs word prev (c # cs) j k \<Longrightarrow> i < j \<or> i = j \<and> k \<le> n"
    unfolding leftmost_longest_def by blast
  obtain i' where i': "i = Suc i'" using assms i(1) by (cases i) auto
  have "i' < j \<or> i' = j \<and> k \<le> n" if "occurs word (Some c) cs j k" for j k
    using i(3) [of "Suc j" k] that i' by simp
  then show "leftmost_longest word (Some c) cs w"
    unfolding leftmost_longest_def using i(1,2) i' by auto
next
  assume "leftmost_longest word (Some c) cs w"
  then obtain i n where i: "occurs word (Some c) cs i n" "w = take n (drop i cs)"
    "\<And>j k. occurs word (Some c) cs j k \<Longrightarrow> i < j \<or> i = j \<and> k \<le> n"
    unfolding leftmost_longest_def by blast
  have "Suc i < j \<or> Suc i = j \<and> k \<le> n" if "occurs word prev (c # cs) j k" for j k
    using that assms i(3) by (cases j) auto
  then show "leftmost_longest word prev (c # cs) w"
    unfolding leftmost_longest_def using i(1,2) by (intro exI [of _ "Suc i"] exI [of _ n]) auto
qed

text \<open>A matcher gives the longest word that fits at the front, or \<open>None\<close> if none does.\<close>

locale pattern_matcher =
  fixes m :: "string \<Rightarrow> nat option" and word :: "string \<Rightarrow> bool"
  assumes word_nonempty: "\<not> word []"
    and match_longest: "m s = Some n \<Longrightarrow> fits word s n \<and> (\<forall>k. fits word s k \<longrightarrow> k \<le> n)"
    and match_none: "m s = None \<Longrightarrow> \<not> fits word s k"
begin

lemma no_empty_occurrence: "\<not> leftmost_longest word prev [] w"
  using word_nonempty by (auto simp: leftmost_longest_def occurs_def fits_def)

lemma search_iff: "search m prev s = Some w \<longleftrightarrow> leftmost_longest word prev s w"
proof (induction s arbitrary: prev)
  case Nil
  then show ?case using no_empty_occurrence by simp
next
  case (Cons c cs)
  show ?case
  proof (cases "if not_after_alnum prev then m (c # cs) else None")
    case None
    then have "\<not> occurs word prev (c # cs) 0 k" for k
      using match_none by (auto simp: occurs_0 split: if_splits)
    then show ?thesis using Cons.IH None leftmost_later by auto
  next
    case (Some n)
    then have n: "not_after_alnum prev" "m (c # cs) = Some n" by (simp_all split: if_splits)
    have o: "occurs word prev (c # cs) 0 k \<longleftrightarrow> fits word (c # cs) k" for k using n(1) by (simp add: occurs_0)
    have "leftmost_longest word prev (c # cs) w \<longleftrightarrow> w = take n (c # cs)"
      by (rule leftmost_here) (use o match_longest [OF n(2)] in auto)
    then show ?thesis using Some by auto
  qed
qed

lemma search_None: "search m prev s = None \<Longrightarrow> \<not> occurs word prev s i n"
proof (induction s arbitrary: prev i)
  case Nil
  then show ?case using word_nonempty by (auto simp: occurs_def fits_def)
next
  case (Cons c cs)
  have "search m (Some c) cs = None" and none: "(if not_after_alnum prev then m (c # cs) else None) = None"
    using Cons.prems by (simp_all split: option.splits if_splits)
  then show ?case
    using Cons.IH match_none by (cases i) (auto simp: occurs_0 split: if_splits)
qed

lemma findall_words: "w \<in> set (findall m prev skip s) \<Longrightarrow> word w"
proof (induction s arbitrary: prev skip)
  case (Cons c cs)
  show ?case
  proof (cases skip)
    case (Suc k)
    then show ?thesis using Cons by simp
  next
    case 0
    show ?thesis
    proof (cases "if not_after_alnum prev then m (c # cs) else None")
      case None
      then show ?thesis using Cons 0 by simp
    next
      case (Some n)
      then have "word (take n (c # cs))" using match_longest by (auto simp: fits_def split: if_splits)
      then show ?thesis using Cons 0 Some by auto
    qed
  qed
qed simp

end

section \<open>The matchers are the patterns\<close>

lemma back_off_Some:
  "back_off lo n s = Some k \<longleftrightarrow>
     lo \<le> k \<and> k \<le> n \<and> not_before_alnum (drop k s) \<and> (\<forall>j. k < j \<and> j \<le> n \<longrightarrow> \<not> not_before_alnum (drop j s))"
proof (induction n)
  case (Suc n)
  show ?case
  proof (cases "Suc n < lo \<or> not_before_alnum (drop (Suc n) s)")
    case True
    then show ?thesis by (auto simp: le_Suc_eq)
  next
    case False
    then show ?thesis using Suc.IH by (auto simp: le_Suc_eq)
  qed
qed auto

lemma back_off_None: "back_off lo n s = None \<longleftrightarrow> (\<forall>k. lo \<le> k \<and> k \<le> n \<longrightarrow> \<not> not_before_alnum (drop k s))"
proof (induction n)
  case (Suc n)
  show ?case
  proof (cases "Suc n < lo \<or> not_before_alnum (drop (Suc n) s)")
    case True
    then show ?thesis by (cases "Suc n < lo") (auto simp: le_Suc_eq intro!: exI [of _ "Suc n"])
  next
    case False
    then show ?thesis using Suc.IH by (auto simp: le_Suc_eq)
  qed
qed auto

lemma le_takeWhile: "n \<le> length (takeWhile p s) \<longleftrightarrow> n \<le> length s \<and> list_all p (take n s)"
proof (induction s arbitrary: n)
  case (Cons c cs)
  then show ?case by (cases n) auto
qed simp

lemma repeated_Some:
  "repeated p lo hi s = Some n \<Longrightarrow>
     lo \<le> n \<and> n \<le> hi \<and> n \<le> length s \<and> list_all p (take n s) \<and> not_before_alnum (drop n s) \<and>
     (\<forall>k. lo \<le> k \<and> k \<le> hi \<and> k \<le> length s \<and> list_all p (take k s) \<and> not_before_alnum (drop k s) \<longrightarrow> k \<le> n)"
  unfolding repeated_def back_off_Some using le_takeWhile [of _ p s] by (auto simp: not_le [symmetric])

lemma repeated_None:
  "repeated p lo hi s = None \<Longrightarrow>
     \<not> (lo \<le> k \<and> k \<le> hi \<and> k \<le> length s \<and> list_all p (take k s) \<and> not_before_alnum (drop k s))"
  unfolding repeated_def back_off_None using le_takeWhile [of k p s] by auto

lemma order_fits: "fits order_word s n \<longleftrightarrow> upper (take 4 s) = ''ORD-'' \<and> 7 \<le> n \<and> n \<le> 44 \<and> n \<le> length s \<and>
    list_all order_char (take (n - 4) (drop 4 s)) \<and> not_before_alnum (drop (n - 4) (drop 4 s))"
  by (auto simp: fits_def order_word_def drop_take min_def)

interpretation order_pattern: pattern_matcher order_length order_word
proof
  show "\<not> order_word []" by (simp add: order_word_def)
next
  fix s n
  assume "order_length s = Some n"
  then obtain m where m: "upper (take 4 s) = ''ORD-''" "repeated order_char 3 40 (drop 4 s) = Some m" "n = 4 + m"
    by (auto simp: order_length_def split: if_splits)
  have r: "3 \<le> m \<and> m \<le> 40 \<and> m \<le> length (drop 4 s) \<and> list_all order_char (take m (drop 4 s)) \<and>
      not_before_alnum (drop m (drop 4 s))"
    "3 \<le> k \<and> k \<le> 40 \<and> k \<le> length (drop 4 s) \<and> list_all order_char (take k (drop 4 s)) \<and>
      not_before_alnum (drop k (drop 4 s)) \<Longrightarrow> k \<le> m" for k
    using repeated_Some [OF m(2)] by blast+
  show "fits order_word s n \<and> (\<forall>k. fits order_word s k \<longrightarrow> k \<le> n)"
    unfolding order_fits
  proof (intro conjI allI impI)
    fix k
    assume "upper (take 4 s) = ''ORD-'' \<and> 7 \<le> k \<and> k \<le> 44 \<and> k \<le> length s \<and>
      list_all order_char (take (k - 4) (drop 4 s)) \<and> not_before_alnum (drop (k - 4) (drop 4 s))"
    then have "k - 4 \<le> m" using r by (intro r(2)) auto
    then show "k \<le> n" using m(3) by linarith
  qed (use r(1) m(1,3) in auto)
next
  fix s k
  assume "order_length s = None"
  then have "upper (take 4 s) \<noteq> ''ORD-'' \<or> repeated order_char 3 40 (drop 4 s) = None"
    by (auto simp: order_length_def split: if_splits)
  then show "\<not> fits order_word s k"
    unfolding order_fits using repeated_None [of order_char 3 40 "drop 4 s" "k - 4"] by auto
qed

lemma digit_not_letter: "ascii_digit c \<Longrightarrow> \<not> ascii_letter c"
  by (auto simp: ascii_digit_def ascii_letter_def upper_char_def Let_def)

lemma letters_before_digit:
  assumes "list_all ascii_letter (take k s)" "k < length s" "ascii_digit (s ! k)"
  shows "k = length (takeWhile ascii_letter s)"
proof (rule antisym)
  show "k \<le> length (takeWhile ascii_letter s)" using assms(1,2) by (simp add: le_takeWhile)
next
  show "length (takeWhile ascii_letter s) \<le> k"
  proof (rule ccontr)
    assume "\<not> length (takeWhile ascii_letter s) \<le> k"
    then have k: "k < length (takeWhile ascii_letter s)" by simp
    then have "ascii_letter (takeWhile ascii_letter s ! k)" using nth_mem set_takeWhileD by fastforce
    then have "ascii_letter (s ! k)" using k by (simp add: takeWhile_nth)
    then show False using assms(3) digit_not_letter by blast
  qed
qed

definition sku_prefix :: "nat \<Rightarrow> string \<Rightarrow> bool" where
  "sku_prefix k s \<longleftrightarrow> k = length (takeWhile ascii_letter s) \<and> 2 \<le> k \<and> k \<le> 8 \<and> k < length s \<and> ascii_digit (s ! k)"

lemma sku_fits: "fits sku_word s n \<longleftrightarrow> (\<exists>k. sku_prefix k s \<and> k + 3 \<le> n \<and> n \<le> k + 25 \<and> n \<le> length s \<and>
    list_all sku_char (take (n - (k + 1)) (drop (k + 1) s)) \<and> not_before_alnum (drop (n - (k + 1)) (drop (k + 1) s)))"
  (is "?l \<longleftrightarrow> (\<exists>k. ?r k)")
proof
  assume ?l
  then obtain k where k: "n \<le> length s" "not_before_alnum (drop n s)" "2 \<le> k" "k \<le> 8"
    "list_all ascii_letter (take k (take n s))" "k + 3 \<le> n" "n \<le> k + 25" "ascii_digit (take n s ! k)"
    "list_all sku_char (drop (k + 1) (take n s))"
    by (auto simp: fits_def sku_word_def)
  then have "sku_prefix k s" using letters_before_digit [of k s] by (simp add: sku_prefix_def min_def)
  then have "?r k" using k by (simp add: drop_take)
  then show "\<exists>k. ?r k" ..
next
  assume "\<exists>k. ?r k"
  then obtain k where k: "?r k" ..
  then have "list_all ascii_letter (take k s)" using le_takeWhile [of k ascii_letter s] by (simp add: sku_prefix_def)
  then have "sku_word (take n s)"
    unfolding sku_word_def using k by (intro exI [of _ k]) (auto simp: sku_prefix_def drop_take min_def)
  moreover have "n - (k + 1) + (k + 1) = n" using k by linarith
  then have "drop (n - (k + 1)) (drop (k + 1) s) = drop n s" by (simp only: drop_drop)
  then have "not_before_alnum (drop n s)" using k by metis
  ultimately show ?l using k by (simp add: fits_def)
qed

lemma sku_length_Some:
  "sku_length s = Some n \<longleftrightarrow> (\<exists>k m. sku_prefix k s \<and> repeated sku_char 2 24 (drop (k + 1) s) = Some m \<and> n = k + 1 + m)"
proof -
  have d: "(case drop k s of [] \<Rightarrow> False | c # _ \<Rightarrow> ascii_digit c) \<longleftrightarrow> k < length s \<and> ascii_digit (s ! k)" for k
    by (cases "k < length s") (auto simp: Cons_nth_drop_Suc [symmetric])
  show ?thesis unfolding sku_length_def Let_def d sku_prefix_def by auto
qed

interpretation sku_pattern: pattern_matcher sku_length sku_word
proof
  show "\<not> sku_word []" by (simp add: sku_word_def)
next
  fix s n
  assume "sku_length s = Some n"
  then obtain k m where m: "sku_prefix k s" "repeated sku_char 2 24 (drop (k + 1) s) = Some m" "n = k + 1 + m"
    by (auto simp: sku_length_Some)
  note r = repeated_Some [OF m(2)]
  have unique: "sku_prefix j s \<Longrightarrow> j = k" for j using m(1) by (simp add: sku_prefix_def)
  have len: "k < length s" using m(1) by (simp add: sku_prefix_def)
  have max: "i \<le> n" if fits: "fits sku_word s i" for i
  proof -
    obtain j where j: "sku_prefix j s" "j + 3 \<le> i" "i \<le> j + 25" "i \<le> length s"
      "list_all sku_char (take (i - (j + 1)) (drop (j + 1) s))" "not_before_alnum (drop (i - (j + 1)) (drop (j + 1) s))"
      using fits unfolding sku_fits by blast
    have "j = k" using unique j(1) .
    moreover have "2 \<le> i - (k + 1) \<and> i - (k + 1) \<le> 24 \<and> i - (k + 1) \<le> length (drop (k + 1) s)"
      using j(2-4) len \<open>j = k\<close> unfolding length_drop by linarith
    ultimately have "i - (k + 1) \<le> m" using r j(5,6) by blast
    then show "i \<le> n" using m(3) by linarith
  qed
  have "fits sku_word s n"
    unfolding sku_fits using m(1,3) r len by (intro exI [of _ k]) auto
  then show "fits sku_word s n \<and> (\<forall>i. fits sku_word s i \<longrightarrow> i \<le> n)" using max by blast
next
  fix s i
  assume none: "sku_length s = None"
  show "\<not> fits sku_word s i"
  proof
    assume "fits sku_word s i"
    then obtain j where j: "sku_prefix j s" "j + 3 \<le> i" "i \<le> j + 25" "i \<le> length s"
      "list_all sku_char (take (i - (j + 1)) (drop (j + 1) s))" "not_before_alnum (drop (i - (j + 1)) (drop (j + 1) s))"
      unfolding sku_fits by blast
    have "repeated sku_char 2 24 (drop (j + 1) s) = None"
      using none j(1) sku_length_Some [of s] by (metis not_None_eq)
    then show False using repeated_None [of sku_char 2 24 "drop (j + 1) s" "i - (j + 1)"] j by auto
  qed
qed

lemma find_skus_words: "w \<in> set (find_skus s) \<Longrightarrow> sku_word w"
  unfolding find_skus_def by (rule sku_pattern.findall_words)

section \<open>What the planner promises\<close>

lemma planner_orders_distinct:
  "distinct (map do_order_id orders) \<Longrightarrow> planner_orders orders = map (\<lambda>x. (do_order_id x, x)) orders"
  using foldl_dset_distinct [of do_order_id "[]" orders] by (simp add: planner_orders_def)

lemma planner_orders_SomeD: "dget (planner_orders orders) k = Some x \<Longrightarrow> x \<in> set orders \<and> do_order_id x = k"
proof -
  have "dget (foldl (\<lambda>d x. dset d (do_order_id x) x) d orders) k = Some x \<Longrightarrow>
      (x \<in> set orders \<and> do_order_id x = k) \<or> dget d k = Some x" for d
    by (induction orders arbitrary: d) (fastforce split: if_splits)+
  then show "dget (planner_orders orders) k = Some x \<Longrightarrow> x \<in> set orders \<and> do_order_id x = k"
    unfolding planner_orders_def by fastforce
qed

lemma map_of_filtered:
  "distinct (map f xs) \<Longrightarrow> map_of (map (\<lambda>x. (f x, x)) (filter p xs)) k =
     (case map_of (map (\<lambda>x. (f x, x)) xs) k of None \<Rightarrow> None | Some x \<Rightarrow> if p x then Some x else None)"
proof (induction xs)
  case (Cons a xs)
  have "map_of (map (\<lambda>x. (f x, x)) (filter p xs)) (f a) = None"
    using Cons.prems by (auto simp: map_of_eq_None_iff image_iff)
  then show ?case using Cons by (auto split: option.splits)
qed simp

lemma own_orders:
  "distinct (map do_order_id orders) \<Longrightarrow>
     dget (planner_orders (filter p orders)) k =
       (case dget (planner_orders orders) k of None \<Rightarrow> None | Some x \<Rightarrow> if p x then Some x else None)"
  by (simp add: planner_orders_distinct distinct_map_filter map_of_filtered)

lemma preview_amount: "fst (snd (preview_parts t x item_id reason address replacement)) =
    money (if t \<in> {''cancel_order'', ''request_refund'', ''return_product''} then do_amount x else 0) x"
  by (simp add: preview_parts_def Let_def)

lemma build_preview_Inr:
  assumes "build_preview mutation_type version policy normalized x item_id reason address replacement = Inr p"
  shows "mp_mutation_type p = mutation_type \<and> mp_resource_ref p = do_order_id x \<and> mp_workflow_version p = version \<and>
    mp_policy_version p = policy \<and> mp_normalized_args p = normalized \<and>
    dget commit_operations mutation_type = Some (mp_operation p) \<and>
    mp_amount p = money (if mutation_type \<in> {''cancel_order'', ''request_refund'', ''return_product''} then do_amount x else 0) x"
  unfolding preview_amount [of mutation_type x item_id reason address replacement, symmetric]
  using assms by (auto simp: build_preview_def split: prod.splits option.splits)

lemma plan_order_Inr:
  assumes "plan_order repr mutation_type version policy normalized x = Inr p"
  shows "check_eligibility mutation_type x = Inr () \<and> mp_mutation_type p = mutation_type \<and>
    mp_resource_ref p = do_order_id x \<and> mp_workflow_version p = version \<and> mp_policy_version p = policy \<and>
    mp_normalized_args p = dset normalized ''quantity'' (PInt 1) \<and>
    text_of repr (dget_or normalized ''item_id'' (PStr (do_item_id x))) = do_item_id x \<and>
    dget commit_operations mutation_type = Some (mp_operation p) \<and>
    mp_amount p = money (if mutation_type \<in> {''cancel_order'', ''request_refund'', ''return_product''} then do_amount x else 0) x"
proof -
  let ?n = "dset normalized ''quantity'' (PInt 1)"
  obtain u address replacement where
    "check_eligibility mutation_type x = Inr u" "text_of repr (dget_or ?n ''item_id'' (PStr (do_item_id x))) = do_item_id x"
    "build_preview mutation_type version policy ?n x (text_of repr (dget_or ?n ''item_id'' (PStr (do_item_id x))))
       (text_of repr (dget_or ?n ''reason_code'' (PStr ''other''))) address replacement = Inr p"
    using assms unfolding plan_order_def Let_def bind_res_eq_Inr require_eq_Inr by blast
  moreover have "dget_or ?n ''item_id'' (PStr (do_item_id x)) = dget_or normalized ''item_id'' (PStr (do_item_id x))"
    by (simp add: dget_or_def)
  ultimately show ?thesis using build_preview_Inr [of mutation_type version policy ?n x] by auto
qed

lemma prepare_plan_Inr:
  assumes "prepare_plan repr orders mutation_type actor args policy = Inr p"
  obtains version normalized x where "dget mutation_workflow_versions mutation_type = Some version"
    "normalize_arguments repr mutation_type args = Inr normalized" "missing_slots mutation_type normalized = []"
    "x \<in> set orders" "do_owner_id x = actor" "required_text repr ''order_id'' normalized = Inr (do_order_id x)"
    "plan_order repr mutation_type version policy normalized x = Inr p"
  using assms
  by (auto simp: prepare_plan_def bind_res_eq_Inr Let_def dest!: planner_orders_SomeD split: option.splits if_splits)

lemma normalized_without_quantity:
  "normalize_arguments repr mutation_type args = Inr d \<Longrightarrow> dget d ''quantity'' = None"
  by (auto simp: normalize_arguments_def Let_def put_upper_def put_reason_def bind_res_eq_Inr split: option.splits)

text \<open>A quantity in the arguments is never looked at.\<close>

lemma quantity_is_ignored:
  "prepare_plan repr orders mutation_type actor (dset args ''quantity'' v) policy =
   prepare_plan repr orders mutation_type actor args policy"
proof -
  have "given (dset args ''quantity'' v) k = given args k" if "k \<noteq> ''quantity''" for k using that by (simp add: given_def)
  then have "normalize_arguments repr mutation_type (dset args ''quantity'' v) = normalize_arguments repr mutation_type args"
    by (simp add: normalize_arguments_def put_upper_def put_reason_def)
  then show ?thesis by (simp only: prepare_plan_def)
qed

lemma mask_of_seven: "mask_address ''1 Way A'' = ''1 Wa***y A''"
  by code_simp

section \<open>Properties\<close>


text \<open>C32: the orders of other customers are invisible. What the planner answers to a customer, preview
  or error, is the same as if the catalog held only the orders of that customer.\<close>

theorem foreign_orders_are_invisible:
  assumes "distinct (map do_order_id orders)"
  shows "prepare_plan repr orders mutation_type actor args policy =
    prepare_plan repr (filter (\<lambda>x. do_owner_id x = actor) orders) mutation_type actor args policy"
proof -
  have order: "(case dget (planner_orders orders) k of
        None \<Rightarrow> e | Some x \<Rightarrow> if do_owner_id x \<noteq> actor then e else f x) =
      (case dget (planner_orders (filter (\<lambda>x. do_owner_id x = actor) orders)) k of
        None \<Rightarrow> e | Some x \<Rightarrow> if do_owner_id x \<noteq> actor then e else f x)" for k e and f :: "demo_order \<Rightarrow> mutation_preview result"
    unfolding own_orders [OF assms] by (simp split: option.splits)
  show ?thesis unfolding prepare_plan_def order [symmetric] ..
qed

text \<open>C33: a preview is backed by the order it names. The order belongs to the customer, its status
  permits a cancellation or a change of address where one is previewed, the item is the item of the
  order, and the amount is the price of the order for a cancellation, refund or return, and zero for a
  change of address or an exchange; no required slot is missing, and the quantity is one.\<close>

theorem preview_is_backed_by_order:
  assumes "prepare_plan repr orders mutation_type actor args policy = Inr p"
  shows "\<exists>x\<in>set orders. do_owner_id x = actor \<and> mp_resource_ref p = do_order_id x \<and>
    mp_amount p = money (if mutation_type \<in> {''cancel_order'', ''request_refund'', ''return_product''} then do_amount x else 0) x \<and>
    (mutation_type \<in> {''cancel_order'', ''change_order''} \<longrightarrow> do_status x \<in> {''processing'', ''paid''}) \<and>
    text_of repr (dget_or (mp_normalized_args p) ''item_id'' (PStr (do_item_id x))) = do_item_id x \<and>
    dget (mp_normalized_args p) ''quantity'' = Some (PInt 1) \<and> missing_slots mutation_type (mp_normalized_args p) = []"
proof -
  obtain version d x where d: "missing_slots mutation_type d = []" "x \<in> set orders" "do_owner_id x = actor"
    "plan_order repr mutation_type version policy d x = Inr p"
    using assms by (rule prepare_plan_Inr)
  note p = plan_order_Inr [OF d(4)]
  have "missing_slots mutation_type (dset d ''quantity'' (PInt 1)) = []"
    using d(1) by (auto simp: missing_slots_def filter_empty_conv mutation_required_slots_def split: if_splits)
  moreover have "mutation_type \<in> {''cancel_order'', ''change_order''} \<longrightarrow> do_status x \<in> {''processing'', ''paid''}"
    using p by (auto simp: check_eligibility_def split: if_splits)
  ultimately show ?thesis
    using p d(2,3) by (intro bexI [of _ x] conjI) (simp_all add: dget_or_def)
qed

section \<open>Witnesses\<close>

definition demo_refund_request :: pydict where
  "demo_refund_request = extract_arguments ''request_refund'' ''ORD-DEMO-002 BHD308/10 ''"

definition demo_planner_args :: pydict where
  "demo_planner_args = dset demo_refund_request ''reason'' (PStr ''broken'')"

definition demo_plan_for :: "string \<Rightarrow> mutation_preview result" where
  "demo_plan_for actor = prepare_plan (\<lambda>_. []) default_demo_orders ''request_refund'' actor demo_planner_args ''phase4-policy-v1''"

lemma demo_refund_extracted:
  "demo_refund_request = [(''order_id'', PStr ''ORD-DEMO-002''), (''item_id'', PStr ''BHD308/10'')]"
  by code_simp

lemma demo_plans:
  "case demo_plan_for ''demo-user-001'' of Inl e \<Rightarrow> False | Inr p \<Rightarrow> mp_resource_ref p = ''ORD-DEMO-002''"
  "demo_plan_for ''demo-user-002'' = Inl (planning_error ''RESOURCE_NOT_FOUND'')"
  "distinct (map do_order_id default_demo_orders)"
  by code_simp+

lemma foreign_orders_are_invisible_witness:
  "prepare_plan (\<lambda>_. []) (filter (\<lambda>x. do_owner_id x = ''demo-user-002'') default_demo_orders) ''request_refund''
     ''demo-user-002'' demo_planner_args ''phase4-policy-v1'' = Inl (planning_error ''RESOURCE_NOT_FOUND'')"
  using foreign_orders_are_invisible [OF demo_plans(3)] demo_plans(2) unfolding demo_plan_for_def by metis

lemma preview_is_backed_by_order_witness:
  "\<exists>p. demo_plan_for ''demo-user-001'' = Inr p \<and> (\<exists>x\<in>set default_demo_orders. mp_resource_ref p = do_order_id x)"
proof -
  obtain p where p: "demo_plan_for ''demo-user-001'' = Inr p" using demo_plans(1) by (auto split: sum.splits)
  then show ?thesis using preview_is_backed_by_order [OF p [unfolded demo_plan_for_def]] by blast
qed

end
