(* ===== verification/Handoffs.thy ===== *)
theory Handoffs
  imports Database
begin

text \<open>
  \<open>src/repositories/handoffs.py\<close> and \<open>src/repositories/audit.py\<close>: the tickets a person works on when the
  runtime must not decide alone, and the append-only audit log. A ticket is created open and resolved
  once; the audit projections let only listed keys of a payload through.
\<close>

section \<open>Tickets\<close>

record handoff_ticket =
  ht_ticket_id :: string
  ht_run_id :: string
  ht_tenant_id :: string
  ht_actor_ref :: string
  ht_reason_code :: string
  ht_status :: string
  ht_operation :: "string option"
  ht_details :: pydict
  ht_created_at :: int
  ht_resolved_at :: "int option"
  ht_resolution :: "string option"

record handoff_request =
  hr_run_id :: string
  hr_tenant_id :: string
  hr_actor_ref :: string
  hr_reason_code :: string
  hr_operation :: "string option"
  hr_details :: pydict

definition ticket_of :: "ticket_row \<Rightarrow> handoff_ticket result" where
  "ticket_of r =
     (case hd_details r of
        PDict d \<Rightarrow>
          Inr \<lparr>ht_ticket_id = hd_ticket_id r, ht_run_id = hd_run_id r, ht_tenant_id = hd_tenant_id r,
            ht_actor_ref = hd_actor_ref r, ht_reason_code = hd_reason_code r, ht_status = hd_status r,
            ht_operation = hd_operation r, ht_details = d, ht_created_at = hd_created_at r,
            ht_resolved_at = hd_resolved_at r, ht_resolution = hd_resolution r\<rparr>
      | _ \<Rightarrow> Inl (ValueError ''handoff details are not an object''))"

definition ticket_widths :: "ticket_row \<Rightarrow> bool" where
  "ticket_widths r \<longleftrightarrow> py_len (hd_tenant_id r) \<le> 64 \<and> py_len (hd_actor_ref r) \<le> 128 \<and>
     py_len (hd_reason_code r) \<le> 64 \<and> py_len (hd_status r) \<le> 24 \<and>
     opt_field (\<lambda>s. py_len s \<le> 80) (hd_operation r) \<and> opt_field (\<lambda>s. py_len s \<le> 500) (hd_resolution r)"

definition insert_ticket :: "ticket_row \<Rightarrow> runtime_db \<Rightarrow> (unit \<times> runtime_db) result" where
  "insert_ticket r db =
     (if \<not> ticket_widths r then Inl (OtherError ''DataError'')
      else if hd_ticket_id r \<in> set (map hd_ticket_id (db_tickets db)) \<or> hd_run_id r \<notin> set (map rr_run_id (db_runs db))
      then Inl IntegrityError
      else Inr ((), db\<lparr>db_tickets := db_tickets db @ [r]\<rparr>))"

definition open_ticket_row :: "int \<Rightarrow> string \<Rightarrow> handoff_request \<Rightarrow> ticket_row" where
  "open_ticket_row now ticket_id q =
     \<lparr>hd_ticket_id = ticket_id, hd_run_id = hr_run_id q, hd_tenant_id = hr_tenant_id q, hd_actor_ref = hr_actor_ref q,
      hd_reason_code = hr_reason_code q, hd_status = ''open'', hd_operation = hr_operation q,
      hd_details = PDict (hr_details q), hd_created_at = now, hd_resolved_at = None, hd_resolution = None\<rparr>"

definition create_ticket :: "int \<Rightarrow> string \<Rightarrow> handoff_request \<Rightarrow> runtime_db \<Rightarrow> string result \<times> runtime_db" where
  "create_ticket now ticket_id q db =
     transaction db (bind_res (insert_ticket (open_ticket_row now ticket_id q) db) (\<lambda>(u, db). Inr (ticket_id, db)))"

definition get_for_actor :: "string \<Rightarrow> string \<Rightarrow> string \<Rightarrow> runtime_db \<Rightarrow> handoff_ticket option result" where
  "get_for_actor ticket_id tenant actor db =
     (case select_one (\<lambda>r. hd_ticket_id r = ticket_id \<and> hd_tenant_id r = tenant \<and> hd_actor_ref r = actor) (db_tickets db) of
        None \<Rightarrow> Inr None
      | Some r \<Rightarrow> bind_res (ticket_of r) (\<lambda>t. Inr (Some t)))"

definition open_for_run :: "string \<Rightarrow> string \<Rightarrow> string \<Rightarrow> ticket_row \<Rightarrow> bool" where
  "open_for_run run_id tenant actor r \<longleftrightarrow>
     hd_run_id r = run_id \<and> hd_tenant_id r = tenant \<and> hd_actor_ref r = actor \<and> hd_status r = ''open''"

text \<open>\<open>ORDER BY created_at DESC LIMIT 1\<close>; of equally old rows the one inserted last.\<close>

definition newest_open :: "string \<Rightarrow> string \<Rightarrow> string \<Rightarrow> runtime_db \<Rightarrow> ticket_row option" where
  "newest_open run_id tenant actor db =
     (case rev (sort_key hd_created_at (filter (open_for_run run_id tenant actor) (db_tickets db))) of
        [] \<Rightarrow> None | r # _ \<Rightarrow> Some r)"

definition get_open_for_run :: "string \<Rightarrow> string \<Rightarrow> string \<Rightarrow> runtime_db \<Rightarrow> handoff_ticket option result" where
  "get_open_for_run run_id tenant actor db =
     (case newest_open run_id tenant actor db of
        None \<Rightarrow> Inr None
      | Some r \<Rightarrow> bind_res (ticket_of r) (\<lambda>t. Inr (Some t)))"

definition owned_by :: "string \<Rightarrow> string \<Rightarrow> string \<Rightarrow> run_row \<Rightarrow> bool" where
  "owned_by run_id tenant actor r \<longleftrightarrow> rr_run_id r = run_id \<and> rr_tenant_id r = tenant \<and> rr_actor_ref r = actor"

definition get_or_create_open_for_run ::
  "int \<Rightarrow> string \<Rightarrow> handoff_request \<Rightarrow> runtime_db \<Rightarrow> handoff_ticket option result \<times> runtime_db" where
  "get_or_create_open_for_run now ticket_id q db =
     (if \<not> list_ex (owned_by (hr_run_id q) (hr_tenant_id q) (hr_actor_ref q)) (db_runs db) then (Inr None, db)
      else
        (case transaction db
            (if newest_open (hr_run_id q) (hr_tenant_id q) (hr_actor_ref q) db = None
             then insert_ticket (open_ticket_row now ticket_id q) db else Inr ((), db)) of
           (Inl e, db) \<Rightarrow> (Inl e, db)
         | (Inr u, db) \<Rightarrow> (get_open_for_run (hr_run_id q) (hr_tenant_id q) (hr_actor_ref q) db, db)))"

definition resolvable :: "string \<Rightarrow> string \<Rightarrow> string \<Rightarrow> ticket_row \<Rightarrow> bool" where
  "resolvable ticket_id tenant expected r \<longleftrightarrow>
     hd_ticket_id r = ticket_id \<and> hd_tenant_id r = tenant \<and> hd_status r = expected"

definition resolved_row :: "int \<Rightarrow> string \<Rightarrow> ticket_row \<Rightarrow> ticket_row" where
  "resolved_row now resolution r =
     r\<lparr>hd_status := ''resolved'', hd_resolution := Some resolution, hd_resolved_at := Some now\<rparr>"

text \<open>The row is returned by the statement, the check of its details comes after the commit.\<close>

definition resolve_ticket ::
  "int \<Rightarrow> string \<Rightarrow> string \<Rightarrow> string \<Rightarrow> string \<Rightarrow> runtime_db \<Rightarrow> handoff_ticket option result \<times> runtime_db" where
  "resolve_ticket now ticket_id tenant resolution expected db =
     (case select_one (resolvable ticket_id tenant expected) (db_tickets db) of
        None \<Rightarrow> (Inr None, db)
      | Some r \<Rightarrow>
          if \<not> ticket_widths (resolved_row now resolution r) then (Inl (OtherError ''DataError''), db)
          else (bind_res (ticket_of (resolved_row now resolution r)) (\<lambda>t. Inr (Some t)),
                db\<lparr>db_tickets := update_rows (resolvable ticket_id tenant expected) (resolved_row now resolution)
                  (db_tickets db)\<rparr>))"

section \<open>The audit log\<close>

definition insert_audit :: "audit_row \<Rightarrow> runtime_db \<Rightarrow> (unit \<times> runtime_db) result" where
  "insert_audit r db =
     (if \<not> (opt_field (\<lambda>s. py_len s \<le> 64) (au_tenant_id r) \<and> opt_field (\<lambda>s. py_len s \<le> 128) (au_actor_ref r) \<and>
            py_len (au_event_type r) \<le> 64 \<and> py_len (au_hash r) \<le> 80) then Inl (OtherError ''DataError'')
      else if au_id r \<in> set (map au_id (db_audit db)) then Inl IntegrityError
      else Inr ((), db\<lparr>db_audit := db_audit db @ [r]\<rparr>))"

definition append_audit ::
  "int \<Rightarrow> string \<Rightarrow> string option \<Rightarrow> string option \<Rightarrow> string \<Rightarrow> pydict \<Rightarrow> string \<Rightarrow> runtime_db \<Rightarrow>
   string result \<times> runtime_db" where
  "append_audit now event_id tenant actor event_type payload payload_hash db =
     transaction db (bind_res
       (insert_audit \<lparr>au_id = event_id, au_tenant_id = tenant, au_actor_ref = actor, au_event_type = event_type,
          au_payload = payload, au_hash = payload_hash, au_created_at = now\<rparr> db) (\<lambda>(u, db). Inr (event_id, db)))"

record audit_event =
  ae_event_id :: string
  ae_tenant_id :: "string option"
  ae_actor_ref :: "string option"
  ae_event_type :: string
  ae_payload :: pydict

definition newest_audit :: "(audit_row \<Rightarrow> bool) \<Rightarrow> int \<Rightarrow> runtime_db \<Rightarrow> audit_row list" where
  "newest_audit p limit db = take (nat limit) (rev (sort_key au_created_at (filter p (db_audit db))))"

definition audit_for_tenant :: "string \<Rightarrow> int \<Rightarrow> runtime_db \<Rightarrow> audit_event list result" where
  "audit_for_tenant tenant limit db =
     (if \<not> (1 \<le> limit \<and> limit \<le> 500) then Inl (ValueError ''invalid audit limit'')
      else Inr (map (\<lambda>r. \<lparr>ae_event_id = au_id r, ae_tenant_id = au_tenant_id r, ae_actor_ref = au_actor_ref r,
          ae_event_type = au_event_type r, ae_payload = au_payload r\<rparr>)
        (newest_audit (\<lambda>r. au_tenant_id r = Some tenant) limit db)))"

definition restrict_keys :: "string list \<Rightarrow> pydict \<Rightarrow> pydict" where
  "restrict_keys allowed d = filter (\<lambda>(k, v). k \<in> set allowed) d"

definition recent_safety_p0 :: "(int \<Rightarrow> string) \<Rightarrow> string \<Rightarrow> int \<Rightarrow> runtime_db \<Rightarrow> pydict list result" where
  "recent_safety_p0 iso_time tenant limit db =
     (if \<not> (1 \<le> limit \<and> limit \<le> 200) then Inl (ValueError ''invalid safety audit limit'')
      else Inr (map (\<lambda>r.
          [(''audit_event_id'', PStr (au_id r)), (''event_type'', PStr (au_event_type r)),
           (''created_at'', PStr (iso_time (au_created_at r))),
           (''payload'', PDict (restrict_keys [''run_id'', ''category'', ''reason_code'', ''detector_version'', ''disposition'']
              (au_payload r)))])
        (newest_audit (\<lambda>r. au_tenant_id r = Some tenant \<and> au_event_type r = ''safety_p0_detected'') limit db)))"

text \<open>The keys of a Python set have no fixed order; the projection is given in one of them.\<close>

definition approval_keys :: "string list" where
  "approval_keys = [''eval_run_id'', ''decision'', ''status'', ''reason_hash'', ''idempotency_key'']"

definition latest_evaluation_approval ::
  "(int \<Rightarrow> string) \<Rightarrow> (pyval \<Rightarrow> string) \<Rightarrow> string \<Rightarrow> string \<Rightarrow> runtime_db \<Rightarrow> pydict option" where
  "latest_evaluation_approval iso_time json_text tenant eval_run_id db =
     (case newest_audit (\<lambda>r. au_tenant_id r = Some tenant \<and> au_event_type r = ''evaluation_human_approval'' \<and>
          (case dget (au_payload r) ''eval_run_id'' of None \<Rightarrow> False
           | Some v \<Rightarrow> v \<noteq> PNone \<and> json_text v = eval_run_id)) 1 db of
        [] \<Rightarrow> None
      | r # _ \<Rightarrow>
          Some (foldl (\<lambda>d k. case dget (au_payload r) k of None \<Rightarrow> d | Some v \<Rightarrow> dset d k v)
            [(''approval_id'', PStr (au_id r)),
             (''approver_ref'', case au_actor_ref r of None \<Rightarrow> PNone | Some a \<Rightarrow> PStr a),
             (''decided_at'', PStr (iso_time (au_created_at r)))] approval_keys))"

section \<open>What the tickets promise\<close>

lemma create_ticket_frame:
  "create_ticket now t q db = (r, db') \<Longrightarrow> db_tokens db' = db_tokens db \<and> db_idempotency db' = db_idempotency db \<and>
     db_runs db' = db_runs db \<and> db_events db' = db_events db \<and> db_checkpoints db' = db_checkpoints db"
  by (auto simp: create_ticket_def insert_ticket_def transaction_def bind_res_def split: sum.splits prod.splits if_splits)

lemma append_audit_frame:
  "append_audit now i tenant actor t p h db = (r, db') \<Longrightarrow> db_tokens db' = db_tokens db \<and>
     db_idempotency db' = db_idempotency db \<and> db_runs db' = db_runs db \<and> db_events db' = db_events db \<and>
     db_checkpoints db' = db_checkpoints db"
  by (auto simp: append_audit_def insert_audit_def transaction_def bind_res_def split: sum.splits prod.splits if_splits)

end
