(* ===== verification/MutationWorkflow.thy ===== *)
theory MutationWorkflow
  imports MutationHistory MutationPlanner Handoffs
begin

text \<open>
  \<open>src/orchestration/mutation_workflow.py\<close>: the confirmed mutations. \<open>prepare_mutation\<close> previews a
  mutation and issues its token, \<open>reject_mutation\<close>, \<open>refresh_mutation_token\<close> and \<open>confirm_mutation\<close> use
  it. A confirmation consumes the token, checkpoints \<open>committing\<close>, executes behind the mutation boundary
  with the outcome checkpointed, and completes the run only when the external system verifies it.

  The external system is the interface \<open>mutation_system\<close>, provided by the process-local
  \<open>DemoMutationSystem\<close> of the module. Two closures of the code share variables with
  \<open>confirm_mutation\<close>; they are the note \<open>commit_note\<close> the checkpoint leaves beside the store. Hashes, the
  token generator, \<open>isoformat\<close> and \<open>dict\<close> of a value that is not an object are parameters.
\<close>

section \<open>The external system\<close>

record 'w mutation_system =
  sy_commit :: "string \<Rightarrow> string \<Rightarrow> string \<Rightarrow> pydict \<Rightarrow> 'w adapter"
  sy_verify :: "string \<Rightarrow> string \<Rightarrow> string \<Rightarrow> 'w \<Rightarrow> bool"
  sy_readback :: "(string \<Rightarrow> string \<Rightarrow> 'w \<Rightarrow> pydict option) option"

record demo_entry =
  dn_reference :: string
  dn_response :: pydict

type_synonym demo_world = "((string \<times> string) \<times> demo_entry) list"

definition remove_prefix :: "string \<Rightarrow> string \<Rightarrow> string" where
  "remove_prefix p s = (if starts_with p s then drop (length p) s else s)"

definition demo_reference :: "string \<Rightarrow> string \<Rightarrow> string" where
  "demo_reference operation resource = ''DEMO-'' @ upper (remove_prefix ''commit_'' operation) @ ''-'' @ resource"

definition demo_response :: "string \<Rightarrow> string \<Rightarrow> pydict" where
  "demo_response operation resource =
     [(''operation'', PStr operation), (''resource_ref'', PStr resource), (''status'', PStr ''accepted''),
      (''actor_scope'', PStr ''verified_owner'')]"

definition demo_commit :: "string \<Rightarrow> string \<Rightarrow> string \<Rightarrow> pydict \<Rightarrow> demo_world adapter" where
  "demo_commit operation actor resource args key w =
     (case dget w (actor, key) of
        Some x \<Rightarrow> (Inr \<lparr>ar_status = MA_SUCCEEDED, ar_reference = Some (dn_reference x), ar_response = dn_response x\<rparr>, w)
      | None \<Rightarrow>
          (let reference = demo_reference operation resource; response = demo_response operation resource in
           (Inr \<lparr>ar_status = MA_SUCCEEDED, ar_reference = Some reference, ar_response = response\<rparr>,
            dset w (actor, key) \<lparr>dn_reference = reference, dn_response = response\<rparr>)))"

definition demo_verify :: "string \<Rightarrow> string \<Rightarrow> string \<Rightarrow> demo_world \<Rightarrow> bool" where
  "demo_verify actor key reference w =
     (case dget w (actor, key) of None \<Rightarrow> False | Some x \<Rightarrow> dn_reference x = reference)"

definition demo_readback :: "string \<Rightarrow> string \<Rightarrow> demo_world \<Rightarrow> pydict option" where
  "demo_readback actor key w =
     map_option (\<lambda>x. [(''business_reference'', PStr (dn_reference x)), (''response'', PDict (dn_response x))])
       (dget w (actor, key))"

definition demo_mutation_system :: "demo_world mutation_system" where
  "demo_mutation_system =
     \<lparr>sy_commit = demo_commit, sy_verify = demo_verify, sy_readback = Some demo_readback\<rparr>"

section \<open>Environment\<close>

record workflow_env =
  we_store :: repository_env
  we_token :: "nat \<Rightarrow> string"
  we_preview_hash :: "pydict \<Rightarrow> string"
  we_arguments_hash :: "pydict \<Rightarrow> string"
  we_hash_secret :: "string \<Rightarrow> string"
  we_isoformat :: "int \<Rightarrow> string"
  we_repr :: "pyval \<Rightarrow> string"
  we_dict :: "pyval \<Rightarrow> pydict result"
  we_token_ttl :: int
  we_handoffs :: bool
  we_audit :: bool

definition draw_uuid :: "workflow_env \<Rightarrow> repository_state \<Rightarrow> string" where
  "draw_uuid env s = rv_uuid (we_store env) (rs_tick s)"

definition read_time :: "workflow_env \<Rightarrow> repository_state \<Rightarrow> int" where
  "read_time env s = rv_clock (we_store env) (rs_tick s)"

definition tick :: "repository_state \<Rightarrow> repository_state" where
  "tick s = s\<lparr>rs_tick := rs_tick s + 1\<rparr>"

text \<open>A transaction with a fresh UUID and the clock of the database.\<close>

definition transact ::
  "workflow_env \<Rightarrow> (int \<Rightarrow> string \<Rightarrow> runtime_db \<Rightarrow> 'a result \<times> runtime_db) \<Rightarrow> repository_state \<Rightarrow> 'a result \<times> repository_state" where
  "transact env f s =
     (let (r, db) = f (read_time env s) (draw_uuid env s) (rs_db s) in (r, tick (s\<lparr>rs_db := db\<rparr>)))"

definition state_text :: "workflow_env \<Rightarrow> pydict \<Rightarrow> string \<Rightarrow> string" where
  "state_text env state k = text_of (we_repr env) (dget_or state k (PStr []))"

definition opt_str :: "string option \<Rightarrow> pyval" where
  "opt_str x = (case x of None \<Rightarrow> PNone | Some s \<Rightarrow> PStr s)"

definition dict_update :: "pydict \<Rightarrow> pydict \<Rightarrow> pydict" where
  "dict_update d e = foldl (\<lambda>d (k, v). dset d k v) d e"

section \<open>Preparing and rejecting\<close>

definition token_input_of ::
  "workflow_env \<Rightarrow> run_context \<Rightarrow> string \<Rightarrow> mutation_preview \<Rightarrow> int \<Rightarrow> token_input" where
  "token_input_of env c token p expires =
     \<lparr>ti_hash = we_hash_secret env token, ti_run_id = rc_run_id c, ti_tenant_id = rc_tenant_id c,
      ti_actor_ref = rc_actor_id c, ti_mutation_type = mp_mutation_type p, ti_resource_ref = mp_resource_ref p,
      ti_preview_hash = we_preview_hash env (as_public p), ti_arguments_hash = we_arguments_hash env (mp_normalized_args p),
      ti_policy_version = mp_policy_version p, ti_workflow_version = mp_workflow_version p, ti_expires_at = expires\<rparr>"

definition prepared_state :: "workflow_env \<Rightarrow> pydict \<Rightarrow> mutation_preview \<Rightarrow> int \<Rightarrow> pydict" where
  "prepared_state env state p expires = dict_update state
     [(''mutation_type'', PStr (mp_mutation_type p)), (''mutation_args'', PDict (mp_normalized_args p)),
      (''mutation_preview'', PDict (as_public p)),
      (''mutation_preview_hash'', PStr (we_preview_hash env (as_public p))),
      (''mutation_arguments_hash'', PStr (we_arguments_hash env (mp_normalized_args p))),
      (''mutation_resource_ref'', PStr (mp_resource_ref p)), (''mutation_operation'', PStr (mp_operation p)),
      (''mutation_expires_at'', PStr (we_isoformat env expires)), (''confirmation_token_required'', PBool True)]"

definition prepared_event :: "workflow_env \<Rightarrow> string \<Rightarrow> string \<Rightarrow> string \<Rightarrow> int \<Rightarrow> domain_event" where
  "prepared_event env mutation_type resource preview_hash expires =
     event ET_MUTATION_PREPARED
       [(''mutation_type'', PStr mutation_type), (''resource_ref'', PStr resource),
        (''preview_hash'', PStr preview_hash), (''expires_at'', PStr (we_isoformat env expires))]"

definition plan_error :: "py_exn \<Rightarrow> py_exn" where
  "plan_error e = (case e of MutationPlanningError code missing \<Rightarrow> MutationWorkflowError code missing | _ \<Rightarrow> e)"

definition prepare_mutation ::
  "workflow_env \<Rightarrow> run_context \<Rightarrow> string \<Rightarrow> pydict \<Rightarrow> repository_state \<Rightarrow>
   (run_context \<times> mutation_preview \<times> string) result \<times> repository_state" where
  "prepare_mutation env c mutation_type args s =
     (case prepare_plan (we_repr env) default_demo_orders mutation_type (rc_actor_id c) args ''phase4-policy-v1'' of
        Inl e \<Rightarrow> (Inl (plan_error e), s)
      | Inr p \<Rightarrow>
        (let expires = read_time env s + we_token_ttl env; token = we_token env (rs_tick s); s = tick s in
         case transact env (\<lambda>now i. issue_token now i (token_input_of env c token p expires)) s of
           (Inl e, s) \<Rightarrow> (Inl e, s)
         | (Inr i, s) \<Rightarrow>
           (let state = prepared_state env (rc_state c) p expires in
            case checkpoint_run (we_store env) c RS_WAITING_CONFIRMATION ''confirm_mutation'' state
                [prepared_event env mutation_type (mp_resource_ref p) (we_preview_hash env (as_public p)) expires] s of
              (Inl e, s) \<Rightarrow> (Inl e, s)
            | (Inr v, s) \<Rightarrow> (Inr (checkpointed_context c RS_WAITING_CONFIRMATION state v, p, token), s))))"

definition workflow_error :: "string \<Rightarrow> py_exn" where
  "workflow_error code = MutationWorkflowError code []"

text \<open>\<open>load_for_run\<close> of a token of this run that still waits.\<close>

definition waiting_token :: "run_context \<Rightarrow> string \<Rightarrow> repository_state \<Rightarrow> token_row result" where
  "waiting_token c h s =
     (case load_for_run (rc_run_id c) (rc_tenant_id c) (rc_actor_id c) (Some h) (rs_db s) of
        None \<Rightarrow> Inl (workflow_error ''CONFIRMATION_UNAVAILABLE'')
      | Some t \<Rightarrow> if tk_status t \<noteq> ''waiting'' then Inl (workflow_error ''CONFIRMATION_UNAVAILABLE'') else Inr t)"

definition reject_mutation ::
  "workflow_env \<Rightarrow> run_context \<Rightarrow> string \<Rightarrow> repository_state \<Rightarrow> run_context result \<times> repository_state" where
  "reject_mutation env c h s =
     (case waiting_token c h s of
        Inl e \<Rightarrow> (Inl e, s)
      | Inr t \<Rightarrow>
        (case transact env (\<lambda>now i. reject_token now h (rc_tenant_id c) (rc_actor_id c) (tk_version t)) s of
           (Inl e, s) \<Rightarrow> (Inl e, s)
         | (Inr u, s) \<Rightarrow>
           (let state = dset (rc_state c) ''mutation_outcome'' (PStr ''rejected_by_user'') in
            case checkpoint_run (we_store env) c RS_CANCELLED ''terminal'' state
                [event ET_FAILED [(''reason'', PStr ''user_rejected'')]] s of
              (Inl e, s) \<Rightarrow> (Inl e, s)
            | (Inr v, s) \<Rightarrow> (Inr (checkpointed_context c RS_CANCELLED state v), s))))"

section \<open>Refreshing\<close>

definition is_text :: "pyval option \<Rightarrow> string option" where
  "is_text v = (case v of Some (PStr s) \<Rightarrow> Some s | _ \<Rightarrow> None)"

definition refreshed_input ::
  "workflow_env \<Rightarrow> run_context \<Rightarrow> string \<Rightarrow> token_row \<Rightarrow> string \<Rightarrow> string \<Rightarrow> string \<Rightarrow> string \<Rightarrow> int \<Rightarrow> token_input" where
  "refreshed_input env c token t mutation_type resource preview_hash args_hash expires =
     \<lparr>ti_hash = we_hash_secret env token, ti_run_id = rc_run_id c, ti_tenant_id = rc_tenant_id c,
      ti_actor_ref = rc_actor_id c, ti_mutation_type = mutation_type, ti_resource_ref = resource,
      ti_preview_hash = preview_hash, ti_arguments_hash = args_hash, ti_policy_version = tk_policy_version t,
      ti_workflow_version = tk_workflow_version t, ti_expires_at = expires\<rparr>"

definition refresh_mutation_token ::
  "workflow_env \<Rightarrow> run_context \<Rightarrow> repository_state \<Rightarrow> (string \<times> string \<times> pydict) result \<times> repository_state" where
  "refresh_mutation_token env c s =
     (if rc_status c \<noteq> RS_WAITING_CONFIRMATION then (Inl (workflow_error ''RUN_NOT_WAITING_CONFIRMATION''), s)
      else
       (let text = (\<lambda>k. is_text (dget (rc_state c) k)) in
        case (load_for_run (rc_run_id c) (rc_tenant_id c) (rc_actor_id c) None (rs_db s), dget (rc_state c) ''mutation_preview'',
              text ''mutation_preview_hash'', text ''mutation_arguments_hash'', text ''mutation_type'',
              text ''mutation_resource_ref'', text ''mutation_operation'') of
          (Some t, Some (PDict preview), Some p_hash, Some a_hash, Some mutation_type, Some resource, Some operation) \<Rightarrow>
            if tk_status t \<noteq> ''waiting'' then (Inl (workflow_error ''TOKEN_REFRESH_REQUIRED''), s)
            else if tk_preview_hash t \<noteq> p_hash \<or> tk_arguments_hash t \<noteq> a_hash
            then (Inl (workflow_error ''PREVIEW_CHANGED''), s)
            else
             (let expires = read_time env s + we_token_ttl env; token = we_token env (rs_tick s); s = tick s in
              case transact env (\<lambda>now i. rotate_waiting now i (rc_run_id c) (rc_tenant_id c) (rc_actor_id c) p_hash
                    (refreshed_input env c token t mutation_type resource p_hash a_hash expires)) s of
                (Inl e, s) \<Rightarrow> (Inl e, s)
              | (Inr i, s) \<Rightarrow>
                (case checkpoint_run (we_store env) c RS_WAITING_CONFIRMATION ''confirm_mutation''
                      (dset (rc_state c) ''mutation_expires_at'' (PStr (we_isoformat env expires)))
                      [prepared_event env mutation_type resource p_hash expires] s of
                   (Inl e, s) \<Rightarrow> (Inl e, s)
                 | (Inr v, s) \<Rightarrow> (Inr (token, we_isoformat env expires, preview), s)))
        | _ \<Rightarrow> (Inl (workflow_error ''TOKEN_REFRESH_REQUIRED''), s)))"

section \<open>Handing off\<close>

text \<open>A ticket, when there is a repository for it, and then its audit event, when there is one for that.\<close>

definition file_ticket ::
  "workflow_env \<Rightarrow> handoff_request \<Rightarrow> string \<Rightarrow> (string option \<Rightarrow> pydict) \<Rightarrow> string \<Rightarrow> repository_state \<Rightarrow>
   string option result \<times> repository_state" where
  "file_ticket env q event_type payload payload_hash s =
     (let (ticket, s) =
        (if we_handoffs env
         then (let (r, s) = transact env (\<lambda>now i. create_ticket now i q) s in (bind_res r (\<lambda>i. Inr (Some i)), s))
         else (Inr None, s))
      in case ticket of
        Inl e \<Rightarrow> (Inl e, s)
      | Inr t \<Rightarrow>
          if \<not> we_audit env then (Inr t, s)
          else
           (let (r, s) = transact env (\<lambda>now i. append_audit now i (Some (hr_tenant_id q)) (Some (hr_actor_ref q)) event_type
                  (payload t) payload_hash) s
            in (bind_res r (\<lambda>i. Inr t), s)))"

definition create_handoff ::
  "workflow_env \<Rightarrow> run_context \<Rightarrow> string \<Rightarrow> string \<Rightarrow> pydict \<Rightarrow> repository_state \<Rightarrow> string option result \<times> repository_state" where
  "create_handoff env c operation reason details =
     file_ticket env
       \<lparr>hr_run_id = rc_run_id c, hr_tenant_id = rc_tenant_id c, hr_actor_ref = rc_actor_id c,
        hr_reason_code = reason, hr_operation = Some operation, hr_details = details\<rparr>
       ''mutation_handoff_created''
       (\<lambda>t. [(''run_id'', PStr (rc_run_id c)), (''reason_code'', PStr reason), (''operation'', PStr operation)] @
          (case t of None \<Rightarrow> [] | Some i \<Rightarrow> [(''ticket_id'', PStr i)]))
       (we_hash_secret env (rc_run_id c @ '':'' @ reason @ '':'' @ operation))"

definition ticket_entry :: "string option \<Rightarrow> pydict" where
  "ticket_entry t = (case t of None \<Rightarrow> [] | Some i \<Rightarrow> [(''handoff_ticket_id'', PStr i)])"

definition ticket_events :: "string option \<Rightarrow> domain_event list" where
  "ticket_events t = (case t of None \<Rightarrow> [] | Some i \<Rightarrow> [event ET_HANDOFF_CREATED [(''handoff_ticket_id'', PStr i)]])"

section \<open>Confirming\<close>

record commit_note =
  cn_version :: int
  cn_state :: pydict

definition completed_state :: "run_context \<Rightarrow> mutation_completion \<Rightarrow> pydict" where
  "completed_state committing m =
     (let d = dset (rc_state committing) ''mutation_commit_status'' (PStr (execution_status_value (mc_status m))) in
      case mc_reference m of None \<Rightarrow> d | Some r \<Rightarrow> if r = [] then d else dset d ''business_reference'' (PStr r))"

definition completion_plan :: "run_context \<Rightarrow> outcome_plan" where
  "completion_plan committing m =
     (let status = (if mc_status m \<in> {MX_SUCCEEDED, MX_UNKNOWN} then RS_VERIFYING else RS_FAILED) in
      (committing, status, if status = RS_VERIFYING then ''verify_mutation'' else ''terminal'', completed_state committing m,
       [event ET_COMMIT_OBSERVED
          [(''status'', PStr (execution_status_value (mc_status m))), (''business_reference'', opt_str (mc_reference m))]]))"

definition noted_checkpoint ::
  "repository_env \<Rightarrow> outcome_plan \<Rightarrow> (repository_state \<times> commit_note option) mutation_checkpoint" where
  "noted_checkpoint env plan m x =
     (let (c, status, nxt, state, evs) = plan m; (r, s) = checkpoint_mutation env m c status nxt state evs (fst x) in
      case r of
        Inl e \<Rightarrow> (Inl e, (s, snd x))
      | Inr v \<Rightarrow> (Inr (), (s, Some \<lparr>cn_version = v, cn_state = state\<rparr>)))"

definition noted_load :: "(repository_state \<times> commit_note option) intent_load" where
  "noted_load i x = load_state i (fst x)"

definition noted_claim :: "(repository_state \<times> commit_note option) intent_claim" where
  "noted_claim i x = (let (r, s) = claim_state i (fst x) in (r, (s, snd x)))"

text \<open>\<open>DurableMutationBoundary.execute\<close> with such a checkpoint, and the note it left.\<close>

definition execute_noted ::
  "repository_env \<Rightarrow> mutation_intent \<Rightarrow> 'w adapter \<Rightarrow> outcome_plan \<Rightarrow> ('w, repository_state) boundary_state \<Rightarrow>
   execution_result result \<times> commit_note option \<times> ('w, repository_state) boundary_state" where
  "execute_noted renv i adapter plan st =
     (let (r, q) = execute_mutation noted_load noted_claim i adapter (noted_checkpoint renv plan) (Inr ())
            \<lparr>bs_world = bs_world st, bs_calls = bs_calls st, bs_store = (bs_store st, None)\<rparr>
      in (r, snd (bs_store q), \<lparr>bs_world = bs_world q, bs_calls = bs_calls q, bs_store = fst (bs_store q)\<rparr>))"

definition reserve_confirmed ::
  "workflow_env \<Rightarrow> run_context \<Rightarrow> string \<Rightarrow> string \<Rightarrow> repository_state \<Rightarrow> reservation result \<times> repository_state" where
  "reserve_confirmed env c token key s =
     (let h = we_hash_secret env token in
      case waiting_token c h s of
        Inl e \<Rightarrow> (Inl e, s)
      | Inr t \<Rightarrow>
          if Some (PStr (tk_preview_hash t)) \<noteq> dget (rc_state c) ''mutation_preview_hash''
          then (Inl (workflow_error ''PREVIEW_CHANGED''), s)
          else
           (let (r, s) = transact env (\<lambda>now i. consume_and_reserve now i
                  \<lparr>cf_token_hash = h, cf_tenant_id = rc_tenant_id c, cf_actor_ref = rc_actor_id c,
                   cf_token_version = tk_version t, cf_operation = state_text env (rc_state c) ''mutation_operation'',
                   cf_key_hash = we_hash_secret env key,
                   cf_fingerprint = state_text env (rc_state c) ''mutation_arguments_hash'', cf_expires_at = None\<rparr>) s
            in (case r of
                  Inl e \<Rightarrow> (if e \<in> {ConfirmationUnavailableError, IdempotencyConflictError}
                     then Inl (workflow_error ''CONFIRMATION_CONFLICT'') else Inl e)
                | Inr z \<Rightarrow> Inr z, s)))"

definition begin_commit ::
  "workflow_env \<Rightarrow> run_context \<Rightarrow> string \<Rightarrow> reservation \<Rightarrow> repository_state \<Rightarrow> run_context result \<times> repository_state" where
  "begin_commit env c key z s =
     (let state = dict_update (rc_state c)
            [(''mutation_idempotency_record_id'', PStr (rz_record_id z)),
             (''mutation_idempotency_key_hash'', PStr (we_hash_secret env key)), (''mutation_commit_status'', PStr ''started'')];
          (r, s) = checkpoint_run (we_store env) c RS_COMMITTING ''commit_mutation'' state
            [event ET_USER_CONFIRMED [(''operation'', PStr (state_text env (rc_state c) ''mutation_operation''))]] s
      in (bind_res r (\<lambda>v. Inr (checkpointed_context c RS_COMMITTING state v)), s))"

definition confirmed_intent :: "workflow_env \<Rightarrow> run_context \<Rightarrow> reservation \<Rightarrow> mutation_intent" where
  "confirmed_intent env c z =
     \<lparr>mi_record_id = rz_record_id z, mi_tenant_id = rc_tenant_id c,
      mi_operation = state_text env (rc_state c) ''mutation_operation'',
      mi_fingerprint = state_text env (rc_state c) ''mutation_arguments_hash''\<rparr>"

definition confirmed_adapter :: "workflow_env \<Rightarrow> 'w mutation_system \<Rightarrow> run_context \<Rightarrow> pydict \<Rightarrow> 'w adapter" where
  "confirmed_adapter env sys c state key w =
     (case (case dget_or state ''mutation_args'' (PDict []) of PDict d \<Rightarrow> Inr d | v \<Rightarrow> we_dict env v) of
        Inl e \<Rightarrow> (Inl e, w)
      | Inr args \<Rightarrow>
          sy_commit sys (state_text env (rc_state c) ''mutation_operation'') (rc_actor_id c)
            (state_text env state ''mutation_resource_ref'') args key w)"

definition execute_confirmed ::
  "workflow_env \<Rightarrow> 'w mutation_system \<Rightarrow> run_context \<Rightarrow> run_context \<Rightarrow> reservation \<Rightarrow> ('w, repository_state) boundary_state \<Rightarrow>
   execution_result result \<times> commit_note option \<times> ('w, repository_state) boundary_state" where
  "execute_confirmed env sys c committing z =
     execute_noted (we_store env) (confirmed_intent env c z) (confirmed_adapter env sys c (rc_state committing))
       (completion_plan committing)"

definition read_back :: "'w mutation_system \<Rightarrow> run_context \<Rightarrow> string \<Rightarrow> execution_result \<Rightarrow> 'w \<Rightarrow> pydict option" where
  "read_back sys c key out w =
     (if xr_status out = MX_UNKNOWN
      then (case sy_readback sys of None \<Rightarrow> None | Some f \<Rightarrow> f (rc_actor_id c) key w) else None)"

definition unsettled_details :: "execution_result \<Rightarrow> pydict option \<Rightarrow> pydict" where
  "unsettled_details out found =
     [(''business_reference'', opt_str (xr_reference out)), (''readback_attempted'', PBool (xr_status out = MX_UNKNOWN)),
      (''readback_found'', PBool (found \<noteq> None))] @
     (case found of None \<Rightarrow> [] | Some d \<Rightarrow> [(''readback_business_reference'', dget_or d ''business_reference'' PNone)])"

definition unsettled_state :: "run_context \<Rightarrow> execution_result \<Rightarrow> pydict option \<Rightarrow> string option \<Rightarrow> pydict" where
  "unsettled_state committing out found ticket = dict_update (rc_state committing)
     ([(''mutation_outcome'', PStr (execution_status_value (xr_status out)))] @
      (if xr_status out = MX_UNKNOWN
       then [(''mutation_readback_attempted'', PBool True), (''mutation_readback_found'', PBool (found \<noteq> None))] @
         (case found of None \<Rightarrow> [] | Some d \<Rightarrow> [(''mutation_readback_reference'', dget_or d ''business_reference'' PNone)])
       else []) @ ticket_entry ticket)"

definition finish_unsettled ::
  "workflow_env \<Rightarrow> 'w mutation_system \<Rightarrow> run_context \<Rightarrow> run_context \<Rightarrow> reservation \<Rightarrow> execution_result \<Rightarrow> commit_note option \<Rightarrow>
   'w \<Rightarrow> repository_state \<Rightarrow> run_context result \<times> repository_state" where
  "finish_unsettled env sys c committing z out note w s =
     (let unknown = (xr_status out = MX_UNKNOWN);
          status = (if unknown then RS_WAITING_HUMAN else RS_FAILED);
          found = read_back sys c (rz_record_id z) out w;
          (r, s) = (if unknown
            then create_handoff env c (state_text env (rc_state c) ''mutation_operation'') ''MUTATION_STATUS_UNKNOWN''
              (unsettled_details out found) s
            else (Inr None, s))
      in case r of
        Inl e \<Rightarrow> (Inl e, s)
      | Inr ticket \<Rightarrow>
        (case note of
           None \<Rightarrow> (Inl KeyError, s)
         | Some n \<Rightarrow>
           (let state = unsettled_state committing out found ticket;
                (r, s) = checkpoint_run (we_store env)
                  (committing\<lparr>rc_status := RS_VERIFYING, rc_checkpoint_version := cn_version n\<rparr>) status ''terminal'' state
                  (event (if unknown then ET_MUTATION_UNCERTAIN else ET_FAILED)
                     ((''reason'', PStr (if unknown then ''mutation_status_unknown'' else ''mutation_failed'')) # ticket_entry ticket)
                   # ticket_events ticket) s
            in (bind_res r (\<lambda>v. Inr (committing\<lparr>rc_status := status, rc_state := state,
                  rc_step_count := rc_step_count committing + 2, rc_checkpoint_version := v\<rparr>)), s))))"

definition verifying_context :: "run_context \<Rightarrow> commit_note \<Rightarrow> run_context" where
  "verifying_context committing n =
     checkpointed_context committing RS_VERIFYING
       (dset (if cn_state n = [] then rc_state committing else cn_state n) ''mutation_outcome'' (PStr ''succeeded''))
       (cn_version n)"

definition finish_succeeded ::
  "workflow_env \<Rightarrow> 'w mutation_system \<Rightarrow> run_context \<Rightarrow> run_context \<Rightarrow> reservation \<Rightarrow> commit_note option \<Rightarrow>
   'w \<Rightarrow> repository_state \<Rightarrow> run_context result \<times> repository_state" where
  "finish_succeeded env sys c committing z note w s =
     (case note of
        None \<Rightarrow> (Inl KeyError, s)
      | Some n \<Rightarrow>
        (let verifying = verifying_context committing n;
             operation = state_text env (rc_state c) ''mutation_operation'';
             reference = state_text env (rc_state verifying) ''business_reference''
         in
         if \<not> sy_verify sys (rc_actor_id c) (rz_record_id z) reference w then
          (let (r, s) = create_handoff env c operation ''VERIFY_MISMATCH'' [(''business_reference'', PStr reference)] s in
           case r of
             Inl e \<Rightarrow> (Inl e, s)
           | Inr ticket \<Rightarrow>
             (let state = dict_update (rc_state verifying)
                    ((''mutation_outcome'', PStr ''verification_mismatch'') # ticket_entry ticket);
                  (r, s) = checkpoint_run (we_store env) verifying RS_WAITING_HUMAN ''terminal'' state
                    (event ET_MUTATION_UNCERTAIN ((''reason'', PStr ''verify_mismatch'') # ticket_entry ticket)
                     # ticket_events ticket) s
              in (bind_res r (\<lambda>v. Inr (checkpointed_context verifying RS_WAITING_HUMAN state v)), s)))
         else
          (let state = dset (rc_state verifying) ''verified_state''
                 (PDict [(''operation'', PStr operation), (''status'', PStr ''applied'')]);
               (r, s) = checkpoint_run (we_store env) verifying RS_COMPLETED ''terminal'' state
                 [event ET_STATE_VERIFIED [(''status'', PStr ''applied'')]] s
           in (bind_res r (\<lambda>v. Inr (checkpointed_context verifying RS_COMPLETED state v)), s))))"

definition finish_confirmed ::
  "workflow_env \<Rightarrow> 'w mutation_system \<Rightarrow> run_context \<Rightarrow> run_context \<Rightarrow> reservation \<Rightarrow> execution_result \<Rightarrow> commit_note option \<Rightarrow>
   'w \<Rightarrow> repository_state \<Rightarrow> run_context result \<times> repository_state" where
  "finish_confirmed env sys c committing z out note w s =
     (if xr_status out \<noteq> MX_SUCCEEDED then finish_unsettled env sys c committing z out note w s
      else finish_succeeded env sys c committing z note w s)"

definition on_store ::
  "('s \<Rightarrow> 'a result \<times> 's) \<Rightarrow> ('w, 's) boundary_state \<Rightarrow> 'a result \<times> ('w, 's) boundary_state" where
  "on_store f st = (let (r, s) = f (bs_store st) in (r, st\<lparr>bs_store := s\<rparr>))"

definition confirm_mutation ::
  "workflow_env \<Rightarrow> 'w mutation_system \<Rightarrow> run_context \<Rightarrow> string \<Rightarrow> string \<Rightarrow> ('w, repository_state) boundary_state \<Rightarrow>
   run_context result \<times> ('w, repository_state) boundary_state" where
  "confirm_mutation env sys c token key st =
     (case on_store (reserve_confirmed env c token key) st of
        (Inl e, st) \<Rightarrow> (Inl e, st)
      | (Inr z, st) \<Rightarrow>
          if rz_reused z then (Inr c, st)
          else
           (case on_store (begin_commit env c key z) st of
              (Inl e, st) \<Rightarrow> (Inl e, st)
            | (Inr committing, st) \<Rightarrow>
              (case execute_confirmed env sys c committing z st of
                 (Inl e, note, st) \<Rightarrow> (Inl e, st)
               | (Inr out, note, st) \<Rightarrow>
                   on_store (finish_confirmed env sys c committing z out note (bs_world st)) st)))"

definition mutation_route_to_type :: "(string \<times> string) list" where
  "mutation_route_to_type =
     [(''cancel_order'', ''cancel_order''), (''change_order'', ''change_order''), (''refund'', ''request_refund''),
      (''return'', ''return_product''), (''exchange'', ''exchange_product'')]"

definition mutation_type_for_route :: "string \<Rightarrow> string option" where
  "mutation_type_for_route route = dget mutation_route_to_type route"

section \<open>Every operation is a history\<close>

inductive store_step :: "repository_state \<Rightarrow> repository_state \<Rightarrow> bool" where
  elsewhere: "db_idempotency (rs_db s') = db_idempotency (rs_db s) \<Longrightarrow> db_tokens (rs_db s') = db_tokens (rs_db s) \<Longrightarrow>
    store_step s s'"
| transact: "confirm_step (rs_db s) l (rs_db s') \<Longrightarrow> store_step s s'"

abbreviation store_history :: "repository_state \<Rightarrow> repository_state \<Rightarrow> bool" where
  "store_history \<equiv> store_step\<^sup>*\<^sup>*"

lemma store_step_mutation_steps:
  assumes "store_step (bs_store st) s'"
  shows "(mutation_step env)\<^sup>*\<^sup>* st (st\<lparr>bs_store := s'\<rparr>)"
  using assms
proof (cases rule: store_step.cases)
  case elsewhere
  have "mutation_step env st (st\<lparr>bs_world := bs_world st, bs_store := s'\<rparr>)"
    using elsewhere by (rule mutation_step.elsewhere)
  then show ?thesis by simp
next
  case (transact l)
  let ?m = "st\<lparr>bs_store := (bs_store st)\<lparr>rs_db := rs_db s'\<rparr>\<rparr>"
  have "mutation_step env st ?m" using transact by (rule mutation_step.transact)
  moreover have "mutation_step env ?m (?m\<lparr>bs_world := bs_world st, bs_store := s'\<rparr>)"
    by (rule mutation_step.elsewhere) simp_all
  ultimately show ?thesis by simp
qed

lemma store_history_mutation_steps:
  "store_history s s' \<Longrightarrow> bs_store st = s \<Longrightarrow> (mutation_step env)\<^sup>*\<^sup>* st (st\<lparr>bs_store := s'\<rparr>)"
proof (induction rule: rtranclp_induct)
  case base
  then show ?case by (cases st) simp
next
  case (step y z)
  have "(mutation_step env)\<^sup>*\<^sup>* (st\<lparr>bs_store := y\<rparr>) (st\<lparr>bs_store := z\<rparr>)"
    using store_step_mutation_steps [of "st\<lparr>bs_store := y\<rparr>" z env] step.hyps(2) by simp
  then show ?case using step by (meson rtranclp_trans)
qed

named_theorems histories \<open>operations of the workflow are histories of the store\<close>

lemma transact_history:
  assumes "transact env f s = (r, s')" "\<And>now i q db. f now i (rs_db s) = (q, db) \<Longrightarrow> \<exists>l. confirm_step (rs_db s) l db"
  shows "store_history s s'"
proof -
  obtain q db where q: "f (read_time env s) (draw_uuid env s) (rs_db s) = (q, db)" by force
  then obtain l where "confirm_step (rs_db s) l db" using assms(2) by blast
  then have "store_step s s'" using assms(1) q by (auto simp: transact_def tick_def intro: store_step.transact)
  then show ?thesis by simp
qed

text \<open>Tickets and audit events leave the tables of the mutations and of the runs alone.\<close>

definition same_mutations :: "runtime_db \<Rightarrow> runtime_db \<Rightarrow> bool" where
  "same_mutations db db' \<longleftrightarrow> db_idempotency db' = db_idempotency db \<and> db_tokens db' = db_tokens db \<and> db_runs db' = db_runs db"

lemma transact_same:
  assumes "transact env f s = (r, s')" "\<And>now i q db. f now i (rs_db s) = (q, db) \<Longrightarrow> same_mutations (rs_db s) db"
  shows "same_mutations (rs_db s) (rs_db s')"
proof -
  obtain q db where q: "f (read_time env s) (draw_uuid env s) (rs_db s) = (q, db)" by force
  show ?thesis using assms(1) q assms(2) [OF q] by (auto simp: transact_def tick_def)
qed

lemma tick_history: "store_history s (tick s)"
  by (rule r_into_rtranclp, rule store_step.elsewhere) (simp_all add: tick_def)

lemma checkpoint_history [histories]:
  assumes "checkpoint_run renv c status nxt state evs s = (r, s')"
  shows "store_history s s'"
  using assms unfolding checkpoint_run_def
proof (rule commit_checkpoint_db)
  assume "rs_db s' = rs_db s"
  then show "store_history s s'" by (intro r_into_rtranclp store_step.elsewhere) simp_all
next
  fix now k q
  assume "commit_step now k (rs_db s) = (q, rs_db s')"
  then show "store_history s s'" using confirm_step.commit store_step.transact by blast
qed

lemma file_ticket_same:
  assumes "file_ticket env q event_type payload h s = (r, s')"
  shows "same_mutations (rs_db s) (rs_db s')"
proof -
  obtain t s1 where t: "(if we_handoffs env
      then (let (r, s) = transact env (\<lambda>now i. create_ticket now i q) s in (bind_res r (\<lambda>i. Inr (Some i)), s))
      else (Inr None, s)) = (t, s1)" by force
  have h1: "same_mutations (rs_db s) (rs_db s1)"
  proof (cases "we_handoffs env")
    case True
    obtain x s2 where x: "transact env (\<lambda>now i. create_ticket now i q) s = (x, s2)" by force
    have "same_mutations (rs_db s) (rs_db s2)"
      using x by (rule transact_same) (auto simp: same_mutations_def dest: create_ticket_frame)
    then show ?thesis using t x True by simp
  qed (use t in \<open>simp add: same_mutations_def\<close>)
  show ?thesis
  proof (cases t)
    case (Inl e)
    then show ?thesis using assms t h1 by (simp add: file_ticket_def)
  next
    case (Inr y)
    obtain x s2 where x: "transact env (\<lambda>now i. append_audit now i (Some (hr_tenant_id q)) (Some (hr_actor_ref q)) event_type
        (payload y) h) s1 = (x, s2)" by force
    have "same_mutations (rs_db s1) (rs_db s2)"
      using x by (rule transact_same) (auto simp: same_mutations_def dest: append_audit_frame)
    moreover have "s' = (if we_audit env then s2 else s1)" using assms t Inr x by (auto simp: file_ticket_def)
    ultimately show ?thesis using h1 by (auto simp: same_mutations_def)
  qed
qed

lemma file_ticket_history [histories]:
  "file_ticket env q event_type payload h s = (r, s') \<Longrightarrow> store_history s s'"
  by (drule file_ticket_same) (auto simp: same_mutations_def intro: store_step.elsewhere)

lemma handoff_history [histories]:
  "create_handoff env c operation reason details s = (r, s') \<Longrightarrow> store_history s s'"
  unfolding create_handoff_def by (rule histories)

lemma reserve_history [histories]:
  assumes "reserve_confirmed env c token key s = (r, s')"
  shows "store_history s s'"
proof (cases "waiting_token c (we_hash_secret env token) s")
  case (Inl e)
  then show ?thesis using assms by (simp add: reserve_confirmed_def)
next
  case (Inr t)
  define f where "f = (\<lambda>now i. consume_and_reserve now i
      \<lparr>cf_token_hash = we_hash_secret env token, cf_tenant_id = rc_tenant_id c, cf_actor_ref = rc_actor_id c,
       cf_token_version = tk_version t, cf_operation = state_text env (rc_state c) ''mutation_operation'',
       cf_key_hash = we_hash_secret env key,
       cf_fingerprint = state_text env (rc_state c) ''mutation_arguments_hash'', cf_expires_at = None\<rparr>)"
  obtain q s1 where q: "transact env f s = (q, s1)" by force
  have "store_history s s1"
    using q by (rule transact_history) (auto simp: f_def intro: confirm_step.confirm)
  then show ?thesis
    using assms Inr q by (auto simp: reserve_confirmed_def f_def Let_def split: if_splits)
qed

lemma begin_history [histories]:
  assumes "begin_commit env c key z s = (r, s')"
  shows "store_history s s'"
  using assms checkpoint_history unfolding begin_commit_def Let_def by (auto split: prod.splits)

lemma unsettled_history [histories]:
  assumes "finish_unsettled env sys c committing z out note w s = (r, s')"
  shows "store_history s s'"
proof -
  let ?unknown = "xr_status out = MX_UNKNOWN"
  obtain q s1 where q: "(if ?unknown
      then create_handoff env c (state_text env (rc_state c) ''mutation_operation'') ''MUTATION_STATUS_UNKNOWN''
        (unsettled_details out (read_back sys c (rz_record_id z) out w)) s
      else (Inr None, s)) = (q, s1)" by force
  have h: "store_history s s1" using q handoff_history by (cases ?unknown) auto
  show ?thesis
  proof (cases q)
    case (Inl e)
    then show ?thesis using assms h unfolding finish_unsettled_def Let_def q by simp
  next
    case (Inr ticket)
    show ?thesis
    proof (cases "note")
      case None
      then show ?thesis using assms h Inr unfolding finish_unsettled_def Let_def q by simp
    next
      case (Some n)
      obtain k s2 where k: "checkpoint_run (we_store env) (committing\<lparr>rc_status := RS_VERIFYING, rc_checkpoint_version := cn_version n\<rparr>)
          (if ?unknown then RS_WAITING_HUMAN else RS_FAILED) ''terminal''
          (unsettled_state committing out (read_back sys c (rz_record_id z) out w) ticket)
          (event (if ?unknown then ET_MUTATION_UNCERTAIN else ET_FAILED)
            ((''reason'', PStr (if ?unknown then ''mutation_status_unknown'' else ''mutation_failed'')) # ticket_entry ticket)
           # ticket_events ticket) s1 = (k, s2)" by force
      have "s' = s2" using assms Inr Some k unfolding finish_unsettled_def Let_def q by simp
      then show ?thesis using h checkpoint_history [OF k] by simp
    qed
  qed
qed

lemma succeeded_history [histories]:
  assumes "finish_succeeded env sys c committing z note w s = (r, s')"
  shows "store_history s s'"
proof (cases "note")
  case None
  then show ?thesis using assms by (simp add: finish_succeeded_def)
next
  case (Some n)
  let ?ver = "verifying_context committing n"
  let ?ref = "state_text env (rc_state ?ver) ''business_reference''"
  let ?op = "state_text env (rc_state c) ''mutation_operation''"
  show ?thesis
  proof (cases "sy_verify sys (rc_actor_id c) (rz_record_id z) ?ref w")
    case True
    then show ?thesis
      using assms Some checkpoint_history unfolding finish_succeeded_def Let_def by (auto split: prod.splits)
  next
    case False
    obtain q s1 where q: "create_handoff env c ?op ''VERIFY_MISMATCH'' [(''business_reference'', PStr ?ref)] s = (q, s1)" by force
    show ?thesis
      using assms Some False q handoff_history [OF q] checkpoint_history
      unfolding finish_succeeded_def Let_def by (auto split: prod.splits sum.splits intro: rtranclp_trans)
  qed
qed

lemma finish_history [histories]:
  "finish_confirmed env sys c committing z out note w s = (r, s') \<Longrightarrow> store_history s s'"
  by (auto simp: finish_confirmed_def intro: histories split: if_splits)

lemma noted_checkpoint_project:
  "map_prod id fst (noted_checkpoint renv plan m x) = commit_outcome renv plan m (fst x)"
  by (auto simp: noted_checkpoint_def commit_outcome_def Let_def split: prod.splits sum.splits)

lemma execute_noted_projects:
  assumes "execute_noted renv i adapter plan st = (r, n, st')"
  shows "execute_mutation load_state claim_state i adapter (commit_outcome renv plan) (Inr ()) st = (r, st')"
proof -
  let ?st = "\<lparr>bs_world = bs_world st, bs_calls = bs_calls st, bs_store = (bs_store st, None)\<rparr> ::
    ('a, repository_state \<times> commit_note option) boundary_state"
  obtain q where q: "execute_mutation noted_load noted_claim i adapter (noted_checkpoint renv plan) (Inr ()) ?st = (r, q)"
    "st' = project_store fst q"
    using assms by (auto simp: execute_noted_def project_store_def split: prod.splits)
  have st: "project_store fst ?st = st" by (simp add: project_store_def)
  have "map_prod id fst (noted_claim i x) = claim_state i (fst x)" for i x
    by (simp add: noted_claim_def split: prod.splits)
  then show ?thesis
    using execute_project [where load = load_state and claim = claim_state and f = fst, OF _ _ noted_checkpoint_project q(1)] q(2)
    unfolding st by (simp add: noted_load_def)
qed

lemma on_store_history:
  assumes "on_store f st = (r, st')" "\<And>q s'. f (bs_store st) = (q, s') \<Longrightarrow> store_history (bs_store st) s'"
  shows "(mutation_step env)\<^sup>*\<^sup>* st st'"
proof -
  obtain q s' where q: "f (bs_store st) = (q, s')" by force
  then have "st' = st\<lparr>bs_store := s'\<rparr>" using assms(1) by (simp add: on_store_def)
  then show ?thesis using store_history_mutation_steps [OF assms(2) [OF q], of st] by simp
qed

section \<open>What a confirmation needs\<close>

lemma load_for_runD:
  assumes "load_for_run run_id tenant actor h db = Some t"
  shows "t \<in> set (db_tokens db) \<and> token_for_run run_id tenant actor h t"
proof -
  obtain ts where "rev (sort_key tk_created_at (filter (token_for_run run_id tenant actor h) (db_tokens db))) = t # ts"
    using assms unfolding load_for_run_def by (auto split: list.splits simp del: rev_eq_Cons_iff)
  then have "t \<in> set (rev (sort_key tk_created_at (filter (token_for_run run_id tenant actor h) (db_tokens db))))"
    by (metis list.set_intros(1))
  then show ?thesis by simp
qed

definition confirmable :: "workflow_env \<Rightarrow> run_context \<Rightarrow> string \<Rightarrow> token_row \<Rightarrow> bool" where
  "confirmable env c token t \<longleftrightarrow> tk_hash t = we_hash_secret env token \<and> tk_run_id t = rc_run_id c \<and>
     tk_tenant_id t = rc_tenant_id c \<and> tk_actor_ref t = rc_actor_id c \<and> tk_status t = ''waiting'' \<and>
     dget (rc_state c) ''mutation_preview_hash'' = Some (PStr (tk_preview_hash t))"

lemma reserve_confirmed_Inr:
  assumes "reserve_confirmed env c token key s = (Inr z, s')"
  shows "\<exists>t\<in>set (db_tokens (rs_db s)). confirmable env c token t"
proof -
  obtain t where t: "waiting_token c (we_hash_secret env token) s = Inr t"
    "Some (PStr (tk_preview_hash t)) = dget (rc_state c) ''mutation_preview_hash''"
    using assms by (auto simp: reserve_confirmed_def Let_def split: sum.splits if_splits)
  then have "load_for_run (rc_run_id c) (rc_tenant_id c) (rc_actor_id c) (Some (we_hash_secret env token)) (rs_db s) = Some t"
    "tk_status t = ''waiting''"
    by (auto simp: waiting_token_def split: option.splits if_splits)
  then show ?thesis
    using load_for_runD t(2) by (intro bexI [of _ t]) (auto simp: confirmable_def token_for_run_def dest!: load_for_runD)
qed

lemma reserve_confirmed_spends:
  assumes "reserve_confirmed env c token key s = (Inr z, s')" "\<not> rz_reused z" "intents_ok s"
  shows "spent_token (we_hash_secret env token) (rs_db s')"
proof -
  obtain t where t: "waiting_token c (we_hash_secret env token) s = Inr t"
    using assms(1) by (auto simp: reserve_confirmed_def Let_def split: sum.splits)
  let ?c = "\<lparr>cf_token_hash = we_hash_secret env token, cf_tenant_id = rc_tenant_id c, cf_actor_ref = rc_actor_id c,
     cf_token_version = tk_version t, cf_operation = state_text env (rc_state c) ''mutation_operation'',
     cf_key_hash = we_hash_secret env key,
     cf_fingerprint = state_text env (rc_state c) ''mutation_arguments_hash'', cf_expires_at = None\<rparr>"
  obtain r db where r: "consume_and_reserve (read_time env s) (draw_uuid env s) ?c (rs_db s) = (r, db)" by force
  then have "r = Inr z" "rs_db s' = db"
    using assms(1) t by (auto simp: reserve_confirmed_def transact_def tick_def Let_def split: sum.splits if_splits)
  then show ?thesis
    using fresh_needs_waiting [OF r] assms(2,3) by (simp add: fresh_reservation_def intents_ok_def)
qed

lemma store_step_keeps: "store_step s s' \<Longrightarrow> keeps_tokens (rs_db s) (rs_db s')"
proof (erule store_step.cases)
  fix l a b
  assume "s = a" "s' = b" "confirm_step (rs_db a) l (rs_db b)"
  then show ?thesis using confirm_step_keeps by blast
qed (simp add: keeps_tokens_def mutation_tables_ok_def spent_token_def)

lemma store_history_keeps: "store_history s s' \<Longrightarrow> keeps_tokens (rs_db s) (rs_db s')"
  by (induction rule: rtranclp_induct) (auto dest: store_step_keeps intro: keeps_trans)

lemma store_history_ok: "store_history s s' \<Longrightarrow> intents_ok s \<Longrightarrow> intents_ok s'"
  by (induction rule: rtranclp_induct) (auto simp: intents_ok_def keeps_tokens_def dest!: store_step_keeps)

lemma checkpoint_run_idempotency:
  assumes "checkpoint_run renv c status nxt state evs s = (Inr v, s')"
  shows "db_idempotency (rs_db s') = db_idempotency (rs_db s)"
proof -
  obtain now n x where x: "commit_step now (checkpoint_commit renv None c status nxt state evs n) (rs_db s) = (Inr x, rs_db s')"
    using assms unfolding checkpoint_run_def by (rule commit_checkpoint_Inr) blast
  have "sc_completion (checkpoint_commit renv None c status nxt state evs n) = None"
    by (simp add: checkpoint_commit_def Let_def)
  then show ?thesis
    using commit_step_cases [OF x] by (auto simp: commit_effect_def Let_def completed_rows_def)
qed

lemma noted_claim_result: "noted_claim i x = (Inr c, y) \<Longrightarrow> claim_state i (fst x) = (Inr c, fst y) \<and> snd y = snd x"
  by (auto simp: noted_claim_def split: prod.splits)

lemma commit_outcome_keeps:
  assumes "commit_outcome renv plan m s = (r, s')"
  shows "keeps_tokens (rs_db s) (rs_db s')"
proof -
  obtain c status nxt state evs where p: "plan m = (c, status, nxt, state, evs)" by (metis surj_pair)
  obtain q s1 where k: "checkpoint_mutation renv m c status nxt state evs s = (q, s1)" by force
  have "s' = s1" using assms p k by (simp add: commit_outcome_def)
  then show ?thesis
    using k unfolding checkpoint_mutation_def by (auto elim!: commit_checkpoint_db intro: keeps_commit)
qed

lemma claim_state_keeps: "claim_state i s = (r, s') \<Longrightarrow> keeps_tokens (rs_db s) (rs_db s')"
  by (auto simp: claim_state_def dest!: keeps_claim split: prod.splits)

lemma execute_noted_cases:
  assumes ex: "execute_noted renv i adapter plan st = (Inr out, n, st')" and ok: "intents_ok (bs_store st)"
  shows "(n = None \<and> xr_reused out \<and> bs_calls st' = bs_calls st) \<or>
    (\<exists>m x s v. n = Some x \<and> \<not> xr_reused out \<and> bs_calls st' = bs_calls st @ [mi_record_id i] \<and>
      stored_status (bs_store st') (mi_record_id i) = Some (xr_status out) \<and> mc_status m = xr_status out \<and>
      (case plan m of (c, status, nxt, state, evs) \<Rightarrow>
         checkpoint_mutation renv m c status nxt state evs s = (Inr v, bs_store st') \<and> x = \<lparr>cn_version = v, cn_state = state\<rparr>) \<and>
      keeps_tokens (rs_db (bs_store st)) (rs_db (bs_store st')))"
proof -
  let ?st = "\<lparr>bs_world = bs_world st, bs_calls = bs_calls st, bs_store = (bs_store st, None)\<rparr> ::
    ('a, repository_state \<times> commit_note option) boundary_state"
  obtain q where q: "execute_mutation noted_load noted_claim i adapter (noted_checkpoint renv plan) (Inr ()) ?st = (Inr out, q)"
    "snd (bs_store q) = n" "st' = project_store fst q"
    using ex by (auto simp: execute_noted_def project_store_def split: prod.splits)
  show ?thesis
  proof (cases "xr_reused out")
    case True
    then have "bs_calls q = bs_calls st" "bs_store q = bs_store ?st \<or> (\<exists>c. noted_claim i (bs_store ?st) = (Inr c, bs_store q))"
      using execute_cases [OF q(1)] by auto
    then show ?thesis using True q(2,3) by (auto dest: noted_claim_result)
  next
    case False
    then obtain c s m where m: "noted_claim i (bs_store ?st) = (Inr c, s)" "bs_calls q = bs_calls st @ [mi_record_id i]"
      "mc_record_id m = mi_record_id i" "noted_checkpoint renv plan m s = (Inr (), bs_store q)" "mc_status m = xr_status out"
      using execute_cases [OF q(1)] by auto
    have ok': "intents_ok (fst s)" using mutation_intents.claim_invar [OF ok] noted_claim_result [OF m(1)] by auto
    have out: "commit_outcome renv plan m (fst s) = (Inr (), fst (bs_store q))"
      using noted_checkpoint_project [of renv plan m s] m(4) by simp
    obtain c' status nxt state evs where p: "plan m = (c', status, nxt, state, evs)" by (metis surj_pair)
    obtain v where v: "checkpoint_mutation renv m c' status nxt state evs (fst s) = (Inr v, fst (bs_store q))"
      "snd (bs_store q) = Some \<lparr>cn_version = v, cn_state = state\<rparr>"
      using m(4) p by (auto simp: noted_checkpoint_def split: prod.splits sum.splits) (metis fst_conv snd_conv)
    have "stored_status (fst (bs_store q)) (mi_record_id i) = Some (xr_status out)"
      using stored_completed [OF ok' out] m(3,5) by simp
    moreover have "keeps_tokens (rs_db (bs_store st)) (rs_db (fst (bs_store q)))"
      using keeps_trans [OF claim_state_keeps commit_outcome_keeps [OF out]] noted_claim_result [OF m(1)] by auto
    ultimately show ?thesis
      using False q(2,3) m(2,5) v p
      by (intro disjI2 exI [of _ m] exI [of _ "\<lparr>cn_version = v, cn_state = state\<rparr>"] exI [of _ "fst s"] exI [of _ v]) auto
  qed
qed

lemma execute_confirmed_note:
  assumes "execute_confirmed env sys c committing z st = (Inr out, Some n, st')" "intents_ok (bs_store st)"
  shows "bs_calls st' = bs_calls st @ [rz_record_id z] \<and> stored_status (bs_store st') (rz_record_id z) = Some (xr_status out) \<and>
    keeps_tokens (rs_db (bs_store st)) (rs_db (bs_store st'))"
  using execute_noted_cases [OF assms(1) [unfolded execute_confirmed_def] assms(2)] by (auto simp: confirmed_intent_def)

lemma finish_succeeded_completed:
  assumes "finish_succeeded env sys c committing z note w s = (Inr c', s')" "rc_status c' = RS_COMPLETED"
  shows "note \<noteq> None \<and> db_idempotency (rs_db s') = db_idempotency (rs_db s) \<and>
    sy_verify sys (rc_actor_id c) (rz_record_id z) (state_text env (rc_state c') ''business_reference'') w"
proof (cases "note")
  case None
  then show ?thesis using assms by (simp add: finish_succeeded_def)
next
  case (Some n)
  let ?ver = "verifying_context committing n"
  let ?ref = "state_text env (rc_state ?ver) ''business_reference''"
  let ?state = "dset (rc_state ?ver) ''verified_state''
    (PDict [(''operation'', PStr (state_text env (rc_state c) ''mutation_operation'')), (''status'', PStr ''applied'')])"
  show ?thesis
  proof (cases "sy_verify sys (rc_actor_id c) (rz_record_id z) ?ref w")
    case False
    then have "rc_status c' = RS_WAITING_HUMAN"
      using assms(1) Some unfolding finish_succeeded_def Let_def
      by (auto simp: bind_res_eq_Inr checkpointed_context_def split: prod.splits sum.splits)
    then show ?thesis using assms(2) by simp
  next
    case True
    obtain r s1 where k: "checkpoint_run (we_store env) ?ver RS_COMPLETED ''terminal'' ?state
        [event ET_STATE_VERIFIED [(''status'', PStr ''applied'')]] s = (r, s1)" by force
    then obtain v where v: "r = Inr v" "c' = checkpointed_context ?ver RS_COMPLETED ?state v" "s' = s1"
      using assms(1) Some True unfolding finish_succeeded_def Let_def by (auto simp: bind_res_eq_Inr)
    have "state_text env (rc_state c') ''business_reference'' = ?ref"
      by (simp add: v(2) checkpointed_context_def state_text_def dget_or_def)
    then show ?thesis using True Some checkpoint_run_idempotency k v by auto
  qed
qed

lemma finish_confirmed_completed:
  assumes "finish_confirmed env sys c committing z out note w s = (Inr c', s')" "rc_status c' = RS_COMPLETED"
  shows "xr_status out = MX_SUCCEEDED \<and> finish_succeeded env sys c committing z note w s = (Inr c', s')"
proof (cases "xr_status out = MX_SUCCEEDED")
  case False
  then have "rc_status c' \<in> {RS_WAITING_HUMAN, RS_FAILED}"
    using assms(1) unfolding finish_confirmed_def finish_unsettled_def Let_def
    by (auto simp: bind_res_eq_Inr split: prod.splits sum.splits option.splits if_splits)
  then show ?thesis using assms(2) by auto
qed (use assms(1) in \<open>simp add: finish_confirmed_def\<close>)

section \<open>A confirmation is a history\<close>

text \<open>The confirmation workflow adds no way to the external system: whatever its arguments, outcome and errors,
  it is a history of claimed executions, repository transactions and steps that touch neither tokens
  nor intents.\<close>

lemma confirm_steps:
  assumes "confirm_mutation env sys c token key st = (r, st')"
  shows "(mutation_step (we_store env))\<^sup>*\<^sup>* st st'"
proof -
  obtain q1 st1 where q1: "on_store (reserve_confirmed env c token key) st = (q1, st1)" by force
  have h1: "(mutation_step (we_store env))\<^sup>*\<^sup>* st st1" using q1 by (rule on_store_history) (rule histories)
  show ?thesis
  proof (cases "\<exists>z. q1 = Inr z \<and> \<not> rz_reused z")
    case False
    then show ?thesis using assms q1 h1 by (cases q1) (auto simp: confirm_mutation_def)
  next
    case True
    then obtain z where z: "q1 = Inr z" "\<not> rz_reused z" by blast
    obtain q2 st2 where q2: "on_store (begin_commit env c key z) st1 = (q2, st2)" by force
    have h2: "(mutation_step (we_store env))\<^sup>*\<^sup>* st1 st2" using q2 by (rule on_store_history) (rule histories)
    show ?thesis
    proof (cases q2)
      case (Inl e)
      then show ?thesis using assms q1 z q2 h1 h2 by (auto simp: confirm_mutation_def)
    next
      case (Inr committing)
      obtain q3 "note" st3 where q3: "execute_confirmed env sys c committing z st2 = (q3, note, st3)" by (metis prod_cases3)
      have h3: "mutation_step (we_store env) st2 st3"
        using execute_noted_projects [OF q3 [unfolded execute_confirmed_def]] by (rule mutation_step.execute)
      show ?thesis
      proof (cases q3)
        case (Inl e)
        then show ?thesis using assms q1 z q2 Inr q3 h1 h2 h3 by (auto simp: confirm_mutation_def)
      next
        case (Inr out)
        have q4: "on_store (finish_confirmed env sys c committing z out note (bs_world st3)) st3 = (r, st')"
          using assms q1 z q2 \<open>q2 = Inr committing\<close> q3 Inr by (simp add: confirm_mutation_def)
        have "(mutation_step (we_store env))\<^sup>*\<^sup>* st3 st'" using q4 by (rule on_store_history) (rule histories)
        then show ?thesis using h1 h2 h3 by (meson rtranclp.rtrancl_into_rtrancl rtranclp_trans)
      qed
    qed
  qed
qed

section \<open>Property\<close>

text \<open>C34: a mutation is completed only if it was confirmed, called and verified. If \<open>confirm_mutation\<close>
  completes a run, a token of this run, customer and preview was waiting for it and is spent now, the
  external system was called exactly once, with the key of the new intent, the outcome stored for that
  intent is success, and the external system verifies the business reference the run reports.\<close>

theorem completed_means_verified:
  assumes run: "confirm_mutation env sys c token key st = (Inr c', st')"
    and done_now: "rc_status c' = RS_COMPLETED" "rc_status c \<noteq> RS_COMPLETED" and ok: "intents_ok (bs_store st)"
  shows "(\<exists>t\<in>set (db_tokens (rs_db (bs_store st))). confirmable env c token t) \<and>
    spent_token (we_hash_secret env token) (rs_db (bs_store st')) \<and>
    (\<exists>k. bs_calls st' = bs_calls st @ [k] \<and> stored_status (bs_store st') k = Some MX_SUCCEEDED \<and>
       sy_verify sys (rc_actor_id c) k (state_text env (rc_state c') ''business_reference'') (bs_world st'))"
proof -
  obtain q1 s1 where q1: "reserve_confirmed env c token key (bs_store st) = (q1, s1)" by force
  obtain z where z: "q1 = Inr z" "\<not> rz_reused z"
    using run done_now q1 by (cases q1) (auto simp: confirm_mutation_def on_store_def split: if_splits)
  let ?st1 = "st\<lparr>bs_store := s1\<rparr>"
  obtain q2 s2 where q2: "begin_commit env c key z s1 = (q2, s2)" by force
  obtain committing where c: "q2 = Inr committing"
    using run q1 z q2 by (cases q2) (auto simp: confirm_mutation_def on_store_def)
  let ?st2 = "?st1\<lparr>bs_store := s2\<rparr>"
  obtain q3 "note" st3 where q3: "execute_confirmed env sys c committing z ?st2 = (q3, note, st3)" by (metis prod_cases3)
  obtain out where out: "q3 = Inr out"
    using run q1 z q2 c q3 by (cases q3) (auto simp: confirm_mutation_def on_store_def)
  obtain s4 where s4: "finish_confirmed env sys c committing z out note (bs_world st3) (bs_store st3) = (Inr c', s4)"
    "st' = st3\<lparr>bs_store := s4\<rparr>"
    using run q1 z q2 c q3 out by (auto simp: confirm_mutation_def on_store_def split: prod.splits)
  note f = finish_confirmed_completed [OF s4(1) done_now(1)]
  note g = finish_succeeded_completed [OF f [THEN conjunct2] done_now(1)]
  obtain n where n: "note = Some n" using g by auto
  have "store_history (bs_store st) s1" using reserve_history q1 by blast
  then have ok1: "intents_ok s1" using store_history_ok ok by blast
  have h2: "store_history s1 s2" using begin_history q2 by blast
  then have ok2: "intents_ok (bs_store ?st2)" using store_history_ok ok1 by simp
  note e = execute_confirmed_note [OF q3 [unfolded out n] ok2]
  have "spent_token (we_hash_secret env token) (rs_db s1)"
    using reserve_confirmed_spends [OF q1 [unfolded z(1)] z(2) ok] .
  moreover have "keeps_tokens (rs_db s1) (rs_db (bs_store st3))"
    using keeps_trans [OF store_history_keeps [OF h2]] e by auto
  moreover have "keeps_tokens (rs_db (bs_store st3)) (rs_db s4)"
    using store_history_keeps [OF finish_history [OF s4(1)]] .
  ultimately have "spent_token (we_hash_secret env token) (rs_db (bs_store st'))"
    using s4(2) by (simp add: keeps_tokens_def)
  moreover have "stored_status (bs_store st') (rz_record_id z) = Some MX_SUCCEEDED"
    using e f g s4(2) by (simp add: stored_status_def)
  moreover have "bs_calls st' = bs_calls st @ [rz_record_id z]" using e s4(2) by simp
  ultimately show ?thesis
    using reserve_confirmed_Inr q1 z(1) g s4(2) by auto
qed

section \<open>Witnesses\<close>

definition demo_workflow :: workflow_env where
  "demo_workflow =
     \<lparr>we_store = demo_repository, we_token = (\<lambda>n. ''k''), we_preview_hash = (\<lambda>d. ''p''), we_arguments_hash = (\<lambda>d. ''f''),
      we_hash_secret = id, we_isoformat = (\<lambda>t. ''T''), we_repr = (\<lambda>v. []), we_dict = (\<lambda>v. Inl TypeError),
      we_token_ttl = 100, we_handoffs = True, we_audit = True\<rparr>"

definition demo_confirmed_run :: run_context where
  "demo_confirmed_run = demo_context
     \<lparr>rc_execution_mode := Some EM_WORKFLOW, rc_status := RS_WAITING_CONFIRMATION,
      rc_state := [(''mutation_preview_hash'', PStr ''p''), (''mutation_operation'', PStr ''commit_refund''),
        (''mutation_arguments_hash'', PStr ''f''), (''mutation_resource_ref'', PStr ''O-1'')]\<rparr>"

definition demo_waiting_token :: token_row where
  "demo_waiting_token =
     \<lparr>tk_token_id = ''i'', tk_hash = ''k'', tk_run_id = ''run'', tk_tenant_id = ''t'', tk_actor_ref = ''a'',
      tk_mutation_type = ''request_refund'', tk_resource_ref = ''O-1'', tk_preview_hash = ''p'',
      tk_arguments_hash = ''f'', tk_policy_version = ''1'', tk_workflow_version = ''1'', tk_status = ''waiting'',
      tk_expires_at = 100, tk_created_at = 0, tk_version = 0\<rparr>"

definition demo_confirm_start :: "(demo_world, repository_state) boundary_state" where
  "demo_confirm_start =
     \<lparr>bs_world = [], bs_calls = [],
      bs_store = \<lparr>rs_db = empty_db\<lparr>db_tokens := [demo_waiting_token],
        db_runs := [demo_run_row\<lparr>rr_run_id := ''run'', rr_conversation_id := ''c'', rr_mode := Some EM_WORKFLOW,
          rr_status := RS_WAITING_CONFIRMATION\<rparr>]\<rparr>, rs_tick = 0\<rparr>\<rparr>"

definition demo_confirm :: "run_context result \<times> (demo_world, repository_state) boundary_state" where
  "demo_confirm = confirm_mutation demo_workflow demo_mutation_system demo_confirmed_run ''k'' ''i'' demo_confirm_start"

lemma demo_confirm_facts:
  "(case fst demo_confirm of Inl e \<Rightarrow> False | Inr c \<Rightarrow> rc_status c = RS_COMPLETED)"
  "intents_ok (bs_store demo_confirm_start)" "rc_status demo_confirmed_run \<noteq> RS_COMPLETED"
  "bs_calls demo_confirm_start = []"
  by code_simp+

lemma completed_means_verified_witness:
  "\<exists>k. bs_calls (snd demo_confirm) = [k] \<and> stored_status (bs_store (snd demo_confirm)) k = Some MX_SUCCEEDED"
proof -
  obtain c where c: "fst demo_confirm = Inr c" "rc_status c = RS_COMPLETED"
    using demo_confirm_facts(1) by (auto split: sum.splits)
  then have "confirm_mutation demo_workflow demo_mutation_system demo_confirmed_run ''k'' ''i'' demo_confirm_start =
      (Inr c, snd demo_confirm)"
    unfolding demo_confirm_def by (metis prod.collapse)
  from completed_means_verified [OF this c(2) demo_confirm_facts(3,2)] show ?thesis
    using demo_confirm_facts(4) by auto
qed

end
