(* ===== verification/LowRisk.thy ===== *)
theory LowRisk
  imports MutationWorkflow
begin

text \<open>
  \<open>src/orchestration/low_risk_workflow.py\<close>: invoice requests and delivery claims, mutations that need no
  confirmation. The identifier of the durable intent is computed from the run and the operation, so a
  run repeats an operation only on its own record. The outcome decides the status of the run: completed,
  failed, or handed to a person when it is unknown.

  \<open>uuid5\<close>, the hash of the arguments and of a record identifier are parameters.
\<close>

section \<open>The external system\<close>

type_synonym 'w low_risk_commit = "string \<Rightarrow> string \<Rightarrow> string \<Rightarrow> pydict \<Rightarrow> 'w adapter"

record low_risk_request =
  lq_reference :: string
  lq_actor_id :: string
  lq_arguments :: pydict

definition demo_low_risk_commit :: "(string \<times> low_risk_request) list low_risk_commit" where
  "demo_low_risk_commit operation actor resource args key w =
     (case dget w key of
        Some x \<Rightarrow>
          (Inr \<lparr>ar_status = MA_SUCCEEDED, ar_reference = Some (lq_reference x),
             ar_response = [(''status'', PStr ''accepted'')]\<rparr>, w)
      | None \<Rightarrow>
          (let reference = ''DEMO-'' @ upper operation @ ''-'' @ resource in
           (Inr \<lparr>ar_status = MA_SUCCEEDED, ar_reference = Some reference, ar_response = [(''status'', PStr ''accepted'')]\<rparr>,
            dset w key \<lparr>lq_reference = reference, lq_actor_id = actor, lq_arguments = args\<rparr>)))"

section \<open>Arguments\<close>

text \<open>\<open>PREFIX-[A-Z0-9-]+\<close>, ignoring case; \<open>search\<close> is the first of \<open>findall\<close>.\<close>

definition prefixed_length :: "string \<Rightarrow> string \<Rightarrow> nat option" where
  "prefixed_length p s =
     (let rest = takeWhile order_char (drop (length p) s) in
      if upper (take (length p) s) = p \<and> rest \<noteq> [] then Some (length p + length rest) else None)"

fun find_plain :: "(string \<Rightarrow> nat option) \<Rightarrow> nat \<Rightarrow> string \<Rightarrow> string list" where
  "find_plain m skip [] = []"
| "find_plain m (Suc k) (c # cs) = find_plain m k cs"
| "find_plain m 0 (c # cs) =
     (case m (c # cs) of Some n \<Rightarrow> take n (c # cs) # find_plain m (n - 1) cs | None \<Rightarrow> find_plain m 0 cs)"

definition extract_low_risk_arguments :: "string \<Rightarrow> string \<Rightarrow> string option \<Rightarrow> pydict" where
  "extract_low_risk_arguments route s intent =
     (let args = (case find_plain (prefixed_length ''ORD-'') 0 s of
            [] \<Rightarrow> [] | w # _ \<Rightarrow> [(''order_id'', PStr (upper w))])
      in
      if route = ''invoice_request''
      then dict_update args [(''invoice_type'', PStr ''electronic''), (''title'', PStr [CHR 0xE4, CHR 0xB8, CHR 0xAA, CHR 0xE4, CHR 0xBA, CHR 0xBA])]
      else if route = ''delivery_issue'' then
       (let args = (case find_plain (prefixed_length ''SKU-'') 0 s of
            [] \<Rightarrow> args | w # _ \<Rightarrow> dset args ''item_id'' (PStr (upper w)))
        in dset args ''issue_type''
          (PStr (case intent of None \<Rightarrow> ''delivery_issue'' | Some t \<Rightarrow> if t = [] then ''delivery_issue'' else t)))
      else args)"

section \<open>The workflow\<close>

record low_risk_env =
  le_workflow :: workflow_env
  le_hash :: "pydict \<Rightarrow> string"
  le_uuid5 :: "string \<Rightarrow> string"
  le_key_hash :: "string \<Rightarrow> string"

record low_risk_result =
  lw_context :: run_context
  lw_reference :: "string option"

definition low_risk_routes :: "string list" where
  "low_risk_routes = [''invoice_request'', ''delivery_issue'']"

definition low_risk_error :: "string \<Rightarrow> string list \<Rightarrow> py_exn" where
  "low_risk_error code missing = LowRiskWorkflowError code missing"

definition low_risk_missing :: "string \<Rightarrow> pydict \<Rightarrow> string list" where
  "low_risk_missing route args =
     filter (\<lambda>slot. given args slot = None)
       (if route = ''invoice_request'' then [''order_id''] else [''order_id'', ''item_id''])"

definition low_risk_operation :: "string \<Rightarrow> string" where
  "low_risk_operation route = (if route = ''invoice_request'' then ''create_invoice_request'' else ''report_delivery_issue'')"

definition low_risk_intent :: "low_risk_env \<Rightarrow> run_context \<Rightarrow> string \<Rightarrow> pydict \<Rightarrow> mutation_intent" where
  "low_risk_intent env c operation args =
     \<lparr>mi_record_id = le_uuid5 env (''commerce-agent:'' @ rc_run_id c @ '':'' @ operation), mi_tenant_id = rc_tenant_id c,
      mi_operation = operation, mi_fingerprint = le_hash env args\<rparr>"

definition low_risk_state :: "run_context \<Rightarrow> string \<Rightarrow> pydict \<Rightarrow> pydict" where
  "low_risk_state c operation args =
     dict_update (rc_state c) [(''low_risk_operation'', PStr operation), (''low_risk_args'', PDict args)]"

definition low_risk_target :: "execution_status \<Rightarrow> run_status" where
  "low_risk_target status =
     (if status = MX_SUCCEEDED then RS_COMPLETED else if status = MX_UNKNOWN then RS_WAITING_HUMAN else RS_FAILED)"

definition low_risk_plan :: "run_context \<Rightarrow> string \<Rightarrow> pydict \<Rightarrow> outcome_plan" where
  "low_risk_plan c operation state m =
     (let d = dset state ''low_risk_status'' (PStr (execution_status_value (mc_status m)));
          after = (case mc_reference m of None \<Rightarrow> d | Some r \<Rightarrow> if r = [] then d else dset d ''business_reference'' (PStr r))
      in (c, low_risk_target (mc_status m), ''terminal'', after,
          [event ET_COMMIT_OBSERVED [(''operation'', PStr operation), (''status'', PStr (execution_status_value (mc_status m)))]]))"

definition low_risk_handoff ::
  "low_risk_env \<Rightarrow> run_context \<Rightarrow> string \<Rightarrow> repository_state \<Rightarrow> string option result \<times> repository_state" where
  "low_risk_handoff env c operation =
     (let payload = [(''run_id'', PStr (rc_run_id c)), (''operation'', PStr operation),
            (''reason'', PStr ''LOW_RISK_STATUS_UNKNOWN'')]
      in file_ticket (le_workflow env)
        \<lparr>hr_run_id = rc_run_id c, hr_tenant_id = rc_tenant_id c, hr_actor_ref = rc_actor_id c,
         hr_reason_code = ''LOW_RISK_STATUS_UNKNOWN'', hr_operation = Some operation, hr_details = []\<rparr>
        ''low_risk_handoff_created'' (\<lambda>t. payload) (le_hash env payload))"

text \<open>The result after the execution: \<open>state\<close> is what was persisted, or would have been.\<close>

definition finish_low_risk ::
  "low_risk_env \<Rightarrow> run_context \<Rightarrow> string \<Rightarrow> pydict \<Rightarrow> execution_result \<Rightarrow> commit_note option \<Rightarrow> repository_state \<Rightarrow>
   low_risk_result result \<times> repository_state" where
  "finish_low_risk env c operation state out n s =
     (let persisted = (case n of None \<Rightarrow> state | Some x \<Rightarrow> if cn_state x = [] then state else cn_state x);
          version = (case n of None \<Rightarrow> rc_checkpoint_version c | Some x \<Rightarrow> cn_version x)
      in
      if xr_status out = MX_UNKNOWN then
       (let (r, s) = low_risk_handoff env c operation s in
        case r of
          Inl e \<Rightarrow> (Inl e, s)
        | Inr ticket \<Rightarrow>
          (let final = dict_update persisted
                 ((''low_risk_status'', PStr (execution_status_value (xr_status out))) # ticket_entry ticket);
               (r, s) = checkpoint_run (we_store (le_workflow env))
                 (c\<lparr>rc_status := RS_VERIFYING, rc_checkpoint_version := version\<rparr>) RS_WAITING_HUMAN ''terminal'' final
                 (event ET_MUTATION_UNCERTAIN [(''operation'', PStr operation)] # ticket_events ticket) s
           in (bind_res r (\<lambda>v. Inr \<lparr>lw_context = c\<lparr>rc_status := RS_WAITING_HUMAN, rc_state := final,
                 rc_step_count := rc_step_count c + 2, rc_checkpoint_version := v\<rparr>, lw_reference = None\<rparr>), s)))
      else if xr_status out = MX_FAILED then
        (Inr \<lparr>lw_context = checkpointed_context c RS_FAILED persisted version, lw_reference = None\<rparr>, s)
      else
        (Inr \<lparr>lw_context = checkpointed_context c RS_COMPLETED persisted version, lw_reference = xr_reference out\<rparr>, s))"

definition reserve_low_risk ::
  "low_risk_env \<Rightarrow> mutation_intent \<Rightarrow> repository_state \<Rightarrow> stored_execution result \<times> repository_state" where
  "reserve_low_risk env i s = (let (r, db) = reserve_intent (le_key_hash env) i None (rs_db s) in (r, s\<lparr>rs_db := db\<rparr>))"

definition execute_low_risk ::
  "low_risk_env \<Rightarrow> 'w low_risk_commit \<Rightarrow> run_context \<Rightarrow> string \<Rightarrow> pydict \<Rightarrow> ('w, repository_state) boundary_state \<Rightarrow>
   low_risk_result result \<times> ('w, repository_state) boundary_state" where
  "execute_low_risk env commit c route args st =
     (if route \<notin> set low_risk_routes then (Inl (low_risk_error ''UNKNOWN_LOW_RISK_ROUTE'' []), st)
      else if low_risk_missing route args \<noteq> []
      then (Inl (low_risk_error ''MISSING_SLOTS'' (low_risk_missing route args)), st)
      else
       (let operation = low_risk_operation route;
            resource = text_of (we_repr (le_workflow env)) (dget_or args ''order_id'' PNone);
            i = low_risk_intent env c operation args
        in
        case on_store (reserve_low_risk env i) st of
          (Inl e, st) \<Rightarrow> (Inl e, st)
        | (Inr x, st) \<Rightarrow>
          (let state = low_risk_state c operation args in
           case execute_noted (we_store (le_workflow env)) i (commit operation (rc_actor_id c) resource args)
               (low_risk_plan c operation state) st of
             (Inl e, n, st) \<Rightarrow> (Inl e, st)
           | (Inr out, n, st) \<Rightarrow> on_store (finish_low_risk env c operation state out n) st)))"

section \<open>Histories\<close>

lemma finish_low_risk_cases:
  assumes "finish_low_risk env c operation state out n s = (r, s')"
  shows "store_history s s' \<and> (\<forall>x. r = Inr x \<longrightarrow> db_idempotency (rs_db s') = db_idempotency (rs_db s) \<and>
    rc_status (lw_context x) = (if xr_status out = MX_UNKNOWN then RS_WAITING_HUMAN
      else if xr_status out = MX_FAILED then RS_FAILED else RS_COMPLETED))"
proof (cases "xr_status out = MX_UNKNOWN")
  case False
  then show ?thesis using assms by (auto simp: finish_low_risk_def Let_def checkpointed_context_def split: if_splits)
next
  case True
  obtain q s1 where q: "low_risk_handoff env c operation s = (q, s1)" by force
  have h1: "store_history s s1" "db_idempotency (rs_db s1) = db_idempotency (rs_db s)"
    using q file_ticket_history file_ticket_same unfolding low_risk_handoff_def Let_def same_mutations_def by blast+
  show ?thesis
  proof (cases q)
    case (Inl e)
    then show ?thesis using assms True q h1 by (auto simp: finish_low_risk_def)
  next
    case (Inr ticket)
    obtain c' state' evs k s2 where k: "checkpoint_run (we_store (le_workflow env)) c' RS_WAITING_HUMAN ''terminal'' state' evs s1 = (k, s2)"
      "s' = s2" "\<And>x. r = Inr x \<Longrightarrow> (\<exists>v. k = Inr v) \<and> rc_status (lw_context x) = RS_WAITING_HUMAN"
    proof -
      let ?c = "c\<lparr>rc_status := RS_VERIFYING, rc_checkpoint_version :=
        (case n of None \<Rightarrow> rc_checkpoint_version c | Some x \<Rightarrow> cn_version x)\<rparr>"
      let ?f = "dict_update (case n of None \<Rightarrow> state | Some x \<Rightarrow> if cn_state x = [] then state else cn_state x)
        ((''low_risk_status'', PStr (execution_status_value (xr_status out))) # ticket_entry ticket)"
      let ?e = "event ET_MUTATION_UNCERTAIN [(''operation'', PStr operation)] # ticket_events ticket"
      obtain k s2 where k: "checkpoint_run (we_store (le_workflow env)) ?c RS_WAITING_HUMAN ''terminal'' ?f ?e s1 = (k, s2)" by force
      have b: "s' = s2 \<and> r = bind_res k (\<lambda>v. Inr \<lparr>lw_context = c\<lparr>rc_status := RS_WAITING_HUMAN, rc_state := ?f,
                 rc_step_count := rc_step_count c + 2, rc_checkpoint_version := v\<rparr>, lw_reference = None\<rparr>)"
        using assms True q Inr k by (simp add: finish_low_risk_def Let_def)
      show ?thesis
      proof (rule that [OF k])
        show "s' = s2" using b by simp
        show "\<And>x. r = Inr x \<Longrightarrow> (\<exists>v. k = Inr v) \<and> rc_status (lw_context x) = RS_WAITING_HUMAN"
          using b by (auto simp: bind_res_eq_Inr)
      qed
    qed
    have "store_history s s2" using h1(1) checkpoint_history [OF k(1)] by simp
    moreover have "db_idempotency (rs_db s2) = db_idempotency (rs_db s)" if "r = Inr x" for x
      using k(3) [OF that] k(1) checkpoint_run_idempotency h1(2) by auto
    ultimately show ?thesis using k(2,3) True by auto
  qed
qed

lemma finish_low_risk_history [histories]:
  "finish_low_risk env c operation state out n s = (r, s') \<Longrightarrow> store_history s s'"
  using finish_low_risk_cases by blast

lemma reserve_low_risk_history [histories]: "reserve_low_risk env i s = (r, s') \<Longrightarrow> store_history s s'"
  by (rule r_into_rtranclp, rule store_step.transact [of _ None])
    (auto simp: reserve_low_risk_def intro: confirm_step.reserve split: prod.splits)

text \<open>The three parts of an execution that is not refused.\<close>

lemma execute_low_risk_parts:
  assumes "execute_low_risk env commit c route args st = (r, st')"
  shows "(\<exists>e. r = Inl e \<and> st' = st) \<or>
    (\<exists>q st1. on_store (reserve_low_risk env (low_risk_intent env c (low_risk_operation route) args)) st = (q, st1) \<and>
      ((\<exists>e. q = Inl e \<and> r = Inl e \<and> st' = st1) \<or>
       (\<exists>x n st2 adapter plan. execute_noted (we_store (le_workflow env)) (low_risk_intent env c (low_risk_operation route) args)
            adapter (low_risk_plan c (low_risk_operation route) plan) st1 = (x, n, st2) \<and>
          ((\<exists>e. x = Inl e \<and> r = Inl e \<and> st' = st2) \<or>
           (\<exists>out. x = Inr out \<and> on_store (finish_low_risk env c (low_risk_operation route) plan out n) st2 = (r, st'))))))"
proof (cases "route \<notin> set low_risk_routes \<or> low_risk_missing route args \<noteq> []")
  case True
  then have "\<exists>e. r = Inl e \<and> st' = st" using assms by (auto simp: execute_low_risk_def split: if_splits)
  then show ?thesis by blast
next
  case False
  let ?op = "low_risk_operation route"
  let ?i = "low_risk_intent env c ?op args"
  let ?a = "commit ?op (rc_actor_id c) (text_of (we_repr (le_workflow env)) (dget_or args ''order_id'' PNone)) args"
  obtain q st1 where q: "on_store (reserve_low_risk env ?i) st = (q, st1)" by force
  show ?thesis
  proof (cases q)
    case (Inl e)
    then have "r = Inl e \<and> st' = st1" using assms False q by (simp add: execute_low_risk_def Let_def)
    then show ?thesis using q Inl by blast
  next
    case (Inr y)
    obtain x n st2 where x: "execute_noted (we_store (le_workflow env)) ?i ?a (low_risk_plan c ?op (low_risk_state c ?op args)) st1 = (x, n, st2)"
      by (metis prod_cases3)
    show ?thesis
    proof (cases x)
      case (Inl e)
      then have "r = Inl e \<and> st' = st2" using assms False q Inr x by (simp add: execute_low_risk_def Let_def)
      then show ?thesis using q x Inl by blast
    next
      case out: (Inr out)
      then have "on_store (finish_low_risk env c ?op (low_risk_state c ?op args) out n) st2 = (r, st')"
        using assms False q Inr x by (simp add: execute_low_risk_def Let_def)
      then show ?thesis using q x out by blast
    qed
  qed
qed

lemma low_risk_history:
  assumes "execute_low_risk env commit c route args st = (r, st')"
  shows "(mutation_step (we_store (le_workflow env)))\<^sup>*\<^sup>* st st'"
  using execute_low_risk_parts [OF assms]
proof (elim disjE exE conjE)
  fix q st1 x n st2 adapter plan out
  assume a: "on_store (reserve_low_risk env (low_risk_intent env c (low_risk_operation route) args)) st = (q, st1)"
    "execute_noted (we_store (le_workflow env)) (low_risk_intent env c (low_risk_operation route) args)
       adapter (low_risk_plan c (low_risk_operation route) plan) st1 = (x, n, st2)"
    "on_store (finish_low_risk env c (low_risk_operation route) plan out n) st2 = (r, st')"
  have "(mutation_step (we_store (le_workflow env)))\<^sup>*\<^sup>* st st1" using a(1) by (rule on_store_history) (rule histories)
  moreover have "mutation_step (we_store (le_workflow env)) st1 st2"
    using execute_noted_projects [OF a(2)] by (rule mutation_step.execute)
  moreover have "(mutation_step (we_store (le_workflow env)))\<^sup>*\<^sup>* st2 st'" using a(3) by (rule on_store_history) (rule histories)
  ultimately show ?thesis by (meson rtranclp.rtrancl_into_rtrancl rtranclp_trans)
next
  fix q st1 x n st2 adapter plan e
  assume a: "on_store (reserve_low_risk env (low_risk_intent env c (low_risk_operation route) args)) st = (q, st1)"
    "execute_noted (we_store (le_workflow env)) (low_risk_intent env c (low_risk_operation route) args)
       adapter (low_risk_plan c (low_risk_operation route) plan) st1 = (x, n, st2)" "st' = st2"
  have "(mutation_step (we_store (le_workflow env)))\<^sup>*\<^sup>* st st1" using a(1) by (rule on_store_history) (rule histories)
  moreover have "mutation_step (we_store (le_workflow env)) st1 st2"
    using execute_noted_projects [OF a(2)] by (rule mutation_step.execute)
  ultimately show ?thesis using a(3) by simp
next
  fix q st1 e
  assume "on_store (reserve_low_risk env (low_risk_intent env c (low_risk_operation route) args)) st = (q, st1)" "st' = st1"
  then show ?thesis by (auto intro: on_store_history histories)
qed simp

section \<open>The outcome and the run\<close>

lemma execute_noted_settled:
  assumes "execute_noted renv i adapter plan st = (Inr out, n, st')" "intents_ok (bs_store st)"
  shows "stored_status (bs_store st') (mi_record_id i) \<in>
    (if xr_status out = MX_UNKNOWN then {Some MX_UNKNOWN, Some MX_IN_PROGRESS} else {Some (xr_status out)}) \<and>
    xr_status out \<in> {MX_SUCCEEDED, MX_FAILED, MX_UNKNOWN}"
proof (cases "xr_reused out")
  case True
  note r = mutation_intents.execute_reused [OF assms(2) execute_noted_projects [OF assms(1)] True]
  then show ?thesis
    by (cases "xr_status out") (auto simp: mutation_intents.reported_status_def split: if_splits)
next
  case False
  then obtain m s v and y :: commit_note where m: "stored_status (bs_store st') (mi_record_id i) = Some (xr_status out)" "mc_status m = xr_status out"
    "case plan m of (c, status, nxt, state, evs) \<Rightarrow>
       checkpoint_mutation renv m c status nxt state evs s = (Inr v, bs_store st') \<and> y = \<lparr>cn_version = v, cn_state = state\<rparr>"
    using execute_noted_cases [OF assms] by (elim disjE exE conjE) (simp, rule that)
  obtain c status nxt state evs where "plan m = (c, status, nxt, state, evs)" by (metis surj_pair)
  then have "checkpoint_mutation renv m c status nxt state evs s = (Inr v, bs_store st')" using m(3) by simp
  then obtain now k x where x: "commit_step now (checkpoint_commit renv (Some m) c status nxt state evs k) (rs_db s) = (Inr x, rs_db (bs_store st'))"
    unfolding checkpoint_mutation_def by (rule commit_checkpoint_Inr) blast
  have "check_commit (checkpoint_commit renv (Some m) c status nxt state evs k) = Inr ()"
    using commit_step_cases [OF x] by auto
  then have "mc_status m \<in> {MX_SUCCEEDED, MX_FAILED, MX_UNKNOWN}"
    by (auto simp: check_commit_def checkpoint_commit_def Let_def split: if_splits)
  then show ?thesis using m(1,2) by auto
qed

section \<open>Properties\<close>

text \<open>The status a low-risk operation reports is the status of its durable intent, on the first
  execution and on every repetition: completed exactly if the stored outcome is success, failed
  exactly if it is failure, and waiting for a person exactly if it is unknown or the record of a
  worker that was lost.\<close>

theorem low_risk_status_agrees:
  assumes "execute_low_risk env commit c route args st = (Inr x, st')" "intents_ok (bs_store st)"
  shows "case stored_status (bs_store st') (mi_record_id (low_risk_intent env c (low_risk_operation route) args)) of
      None \<Rightarrow> False
    | Some status \<Rightarrow> rc_status (lw_context x) =
        (if status = MX_SUCCEEDED then RS_COMPLETED else if status = MX_FAILED then RS_FAILED else RS_WAITING_HUMAN)"
proof -
  let ?i = "low_risk_intent env c (low_risk_operation route) args"
  obtain q st1 out n st2 adapter plan where p: "on_store (reserve_low_risk env ?i) st = (q, st1)"
    "execute_noted (we_store (le_workflow env)) ?i adapter (low_risk_plan c (low_risk_operation route) plan) st1 = (Inr out, n, st2)"
    "on_store (finish_low_risk env c (low_risk_operation route) plan out n) st2 = (Inr x, st')"
    using execute_low_risk_parts [OF assms(1)] by blast
  obtain s1 where s1: "reserve_low_risk env ?i (bs_store st) = (q, s1)" "st1 = st\<lparr>bs_store := s1\<rparr>"
    using p(1) by (auto simp: on_store_def split: prod.splits)
  have ok: "intents_ok (bs_store st1)"
    using store_history_ok [OF reserve_low_risk_history [OF s1(1)] assms(2)] s1(2) by simp
  note e = execute_noted_settled [OF p(2) ok]
  obtain s3 where s3: "finish_low_risk env c (low_risk_operation route) plan out n (bs_store st2) = (Inr x, s3)"
    "st' = st2\<lparr>bs_store := s3\<rparr>"
    using p(3) by (auto simp: on_store_def split: prod.splits)
  note f = finish_low_risk_cases [OF s3(1)]
  have "stored_status (bs_store st') (mi_record_id ?i) = stored_status (bs_store st2) (mi_record_id ?i)"
    using f s3(2) by (simp add: stored_status_def)
  then show ?thesis using e f by (auto split: if_splits)
qed

section \<open>Witness\<close>

definition demo_low_risk :: low_risk_env where
  "demo_low_risk = \<lparr>le_workflow = demo_workflow, le_hash = (\<lambda>d. ''h''), le_uuid5 = (\<lambda>s. ''r''), le_key_hash = id\<rparr>"

definition demo_invoice_args :: pydict where
  "demo_invoice_args = [(''order_id'', PStr ''O-1'')]"

definition demo_invoice_start :: "((string \<times> low_risk_request) list, repository_state) boundary_state" where
  "demo_invoice_start = \<lparr>bs_world = [], bs_calls = [], bs_store = bs_store demo_confirm_start\<rparr>"

definition demo_invoice ::
  "low_risk_result result \<times> ((string \<times> low_risk_request) list, repository_state) boundary_state" where
  "demo_invoice = execute_low_risk demo_low_risk demo_low_risk_commit demo_confirmed_run ''invoice_request'' demo_invoice_args
     demo_invoice_start"

lemma demo_invoice_facts:
  "(case fst demo_invoice of Inl e \<Rightarrow> False | Inr x \<Rightarrow> rc_status (lw_context x) = RS_COMPLETED)"
  "intents_ok (bs_store demo_invoice_start)"
  "mi_record_id (low_risk_intent demo_low_risk demo_confirmed_run (low_risk_operation ''invoice_request'') demo_invoice_args) = ''r''"
  by code_simp+

lemma low_risk_status_agrees_witness:
  "stored_status (bs_store (snd demo_invoice)) ''r'' = Some MX_SUCCEEDED"
proof -
  obtain x where x: "fst demo_invoice = Inr x" "rc_status (lw_context x) = RS_COMPLETED"
    using demo_invoice_facts(1) by (auto split: sum.splits)
  then have "execute_low_risk demo_low_risk demo_low_risk_commit demo_confirmed_run ''invoice_request'' demo_invoice_args
      demo_invoice_start = (Inr x, snd demo_invoice)"
    unfolding demo_invoice_def by (metis prod.collapse)
  from low_risk_status_agrees [OF this demo_invoice_facts(2)] show ?thesis
    unfolding demo_invoice_facts(3) using x(2) by (auto split: option.splits if_splits)
qed

end
