(* ===== verification/Messages.thy ===== *)
theory Messages
  imports RunLifecycle Trace
begin

text \<open>
  \<open>src/repositories/conversations.py\<close> and \<open>src/repositories/messages.py\<close>: the conversations of an actor and
  their messages. A client message id makes the message of a user idempotent, a run gets one terminal
  response. The stored text is the sanitized one, the stored hash that of the text as it was sent; the
  hash function, the UUID and the time are arguments.
\<close>

section \<open>Conversations\<close>

definition insert_conversation :: "conversation_row \<Rightarrow> runtime_db \<Rightarrow> (unit \<times> runtime_db) result" where
  "insert_conversation v db =
     (if \<not> (py_len (cv_tenant_id v) \<le> 64 \<and> py_len (cv_actor_id v) \<le> 128 \<and> py_len (cv_client_request_id v) \<le> 128)
      then Inl (OtherError ''DataError'')
      else if cv_id v \<in> set (map cv_id (db_conversations db)) \<or>
        (cv_tenant_id v, cv_actor_id v, cv_client_request_id v) \<in>
          set (map (\<lambda>x. (cv_tenant_id x, cv_actor_id x, cv_client_request_id x)) (db_conversations db))
      then Inl IntegrityError
      else Inr ((), db\<lparr>db_conversations := db_conversations db @ [v]\<rparr>))"

definition request_of :: "string \<Rightarrow> string \<Rightarrow> string \<Rightarrow> conversation_row \<Rightarrow> bool" where
  "request_of tenant actor request v \<longleftrightarrow>
     cv_tenant_id v = tenant \<and> cv_actor_id v = actor \<and> cv_client_request_id v = request"

definition create_or_get_conversation ::
  "int \<Rightarrow> string \<Rightarrow> string \<Rightarrow> string \<Rightarrow> string \<Rightarrow> runtime_db \<Rightarrow> conversation_row result \<times> runtime_db" where
  "create_or_get_conversation now identifier tenant actor request db =
     (case transaction db (insert_conversation
        \<lparr>cv_id = identifier, cv_tenant_id = tenant, cv_actor_id = actor, cv_client_request_id = request,
         cv_status = ''active'', cv_created_at = now, cv_updated_at = now\<rparr> db) of
        (r, db) \<Rightarrow>
          if r = Inr () \<or> r = Inl IntegrityError
          then (case select_one (request_of tenant actor request) (db_conversations db) of
                  None \<Rightarrow> (Inl (OtherError ''NoResultFound''), db) | Some v \<Rightarrow> (Inr v, db))
          else (Inl (projl r), db))"

definition conversations_of :: "string \<Rightarrow> string \<Rightarrow> runtime_db \<Rightarrow> conversation_row list" where
  "conversations_of tenant actor db =
     sort_key (\<lambda>v. - cv_updated_at v)
       (filter (\<lambda>v. cv_tenant_id v = tenant \<and> cv_actor_id v = actor) (db_conversations db))"

definition visible_conversation :: "string \<Rightarrow> string \<Rightarrow> string \<Rightarrow> conversation_row \<Rightarrow> bool" where
  "visible_conversation conversation_id tenant actor v \<longleftrightarrow>
     cv_id v = conversation_id \<and> cv_tenant_id v = tenant \<and> cv_actor_id v = actor"

definition conversation_exists :: "string \<Rightarrow> string \<Rightarrow> string \<Rightarrow> runtime_db \<Rightarrow> bool" where
  "conversation_exists conversation_id tenant actor db =
     list_ex (visible_conversation conversation_id tenant actor) (db_conversations db)"

definition touch_conversation :: "int \<Rightarrow> string \<Rightarrow> runtime_db \<Rightarrow> runtime_db" where
  "touch_conversation now conversation_id db =
     db\<lparr>db_conversations := update_rows (\<lambda>v. cv_id v = conversation_id) (\<lambda>v. v\<lparr>cv_updated_at := now\<rparr>)
       (db_conversations db)\<rparr>"

section \<open>The table of messages\<close>

record message_record =
  mr_message_id :: string
  mr_conversation_id :: string
  mr_run_id :: "string option"
  mr_client_id :: "string option"
  mr_role :: string
  mr_content :: string
  mr_hash :: string
  mr_sequence :: int
  mr_created_at :: int
  mr_created :: bool

definition record_of_row :: "bool \<Rightarrow> message_row \<Rightarrow> message_record" where
  "record_of_row created m =
     \<lparr>mr_message_id = ms_message_id m, mr_conversation_id = ms_conversation_id m, mr_run_id = ms_run_id m,
      mr_client_id = ms_client_id m, mr_role = ms_role m, mr_content = ms_content m, mr_hash = ms_hash m,
      mr_sequence = ms_sequence m, mr_created_at = ms_created_at m, mr_created = created\<rparr>"

text \<open>\<open>uq_messages_client_id\<close> and \<open>uq_messages_one_terminal_response\<close>: the keys of a row, if it has them.\<close>

definition client_key :: "message_row \<Rightarrow> (string \<times> string) option" where
  "client_key m = map_option (\<lambda>k. (ms_conversation_id m, k)) (ms_client_id m)"

definition terminal_key :: "message_row \<Rightarrow> string option" where
  "terminal_key m = (if ms_terminal m then ms_run_id m else None)"

definition distinct_keys :: "('r \<Rightarrow> 'k option) \<Rightarrow> 'r list \<Rightarrow> bool" where
  "distinct_keys key rows \<longleftrightarrow> distinct (map key (filter (\<lambda>r. key r \<noteq> None) rows))"

definition messages_ok :: "message_row list \<Rightarrow> bool" where
  "messages_ok rows \<longleftrightarrow>
     distinct (map ms_message_id rows) \<and> distinct (map (\<lambda>m. (ms_conversation_id m, ms_sequence m)) rows) \<and>
     distinct_keys client_key rows \<and> distinct_keys terminal_key rows"

definition insert_message :: "message_row \<Rightarrow> runtime_db \<Rightarrow> (unit \<times> runtime_db) result" where
  "insert_message m db =
     (if \<not> (py_len (ms_role m) \<le> 16 \<and> py_len (ms_hash m) \<le> 80 \<and> opt_field (\<lambda>k. py_len k \<le> 128) (ms_client_id m))
      then Inl (OtherError ''DataError'')
      else if ms_conversation_id m \<notin> set (map cv_id (db_conversations db)) \<or> \<not> messages_ok (db_messages db @ [m])
      then Inl IntegrityError
      else Inr ((), db\<lparr>db_messages := db_messages db @ [m]\<rparr>))"

text \<open>\<open>COALESCE(MAX(sequence_no), 0) + 1\<close> over the messages of a conversation.\<close>

definition next_sequence :: "string \<Rightarrow> runtime_db \<Rightarrow> int" where
  "next_sequence conversation_id db =
     foldl max 0 (map ms_sequence (filter (\<lambda>m. ms_conversation_id m = conversation_id) (db_messages db))) + 1"

section \<open>Appending\<close>

record message_env =
  me_now :: int
  me_message_id :: string
  me_sha :: "string \<Rightarrow> string"

record message_target =
  mt_conversation_id :: string
  mt_tenant_id :: string
  mt_actor_id :: string

definition target_visible :: "message_target \<Rightarrow> runtime_db \<Rightarrow> bool" where
  "target_visible t db = conversation_exists (mt_conversation_id t) (mt_tenant_id t) (mt_actor_id t) db"

definition check_content :: "string \<Rightarrow> unit result" where
  "check_content content =
     require (nonblank content \<and> py_len content \<le> 8000) (ValueError ''message content is invalid'')"

definition new_message ::
  "message_env \<Rightarrow> message_target \<Rightarrow> string \<Rightarrow> string \<Rightarrow> string option \<Rightarrow> string option \<Rightarrow> bool \<Rightarrow> runtime_db \<Rightarrow>
   (message_record \<times> runtime_db) result" where
  "new_message env t role content run_id client_id final db =
     (let m = \<lparr>ms_message_id = me_message_id env, ms_conversation_id = mt_conversation_id t, ms_run_id = run_id,
            ms_client_id = client_id, ms_role = role, ms_content = sanitize_text content,
            ms_hash = me_sha env content, ms_sequence = next_sequence (mt_conversation_id t) db,
            ms_terminal = final, ms_created_at = me_now env\<rparr>
      in bind_res (insert_message m db) (\<lambda>(u, db).
           Inr (record_of_row True m, touch_conversation (me_now env) (mt_conversation_id t) db)))"

definition unavailable :: py_exn where
  "unavailable = ValueError ''conversation is unavailable for this tenant and actor''"

definition has_client_id :: "message_target \<Rightarrow> string \<Rightarrow> message_row \<Rightarrow> bool" where
  "has_client_id t client_id m \<longleftrightarrow> ms_conversation_id m = mt_conversation_id t \<and> ms_client_id m = Some client_id"

definition find_user_by_client_message_id ::
  "message_target \<Rightarrow> string \<Rightarrow> runtime_db \<Rightarrow> message_record option" where
  "find_user_by_client_message_id t client_id db =
     (if target_visible t db
      then map_option (record_of_row False) (select_one (has_client_id t client_id) (db_messages db)) else None)"

definition append_user ::
  "message_env \<Rightarrow> message_target \<Rightarrow> string \<Rightarrow> string \<Rightarrow> string option \<Rightarrow> runtime_db \<Rightarrow>
   message_record result \<times> runtime_db" where
  "append_user env t content client_id run_id db = transaction db
     (bind_res (check_content content) (\<lambda>_.
      bind_res (require (client_id \<noteq> [] \<and> py_len client_id \<le> 128) (ValueError ''client_message_id is invalid'')) (\<lambda>_.
      case find_user_by_client_message_id t client_id db of
        Some r \<Rightarrow>
          bind_res (require (mr_hash r = me_sha env content) MessageConflictError) (\<lambda>_. Inr (r, db))
      | None \<Rightarrow>
          bind_res (require (target_visible t db) unavailable) (\<lambda>_.
            new_message env t ''user'' content run_id (Some client_id) False db))))"

definition append_assistant ::
  "message_env \<Rightarrow> message_target \<Rightarrow> string \<Rightarrow> string option \<Rightarrow> runtime_db \<Rightarrow> message_record result \<times> runtime_db" where
  "append_assistant env t content run_id db = transaction db
     (bind_res (check_content content) (\<lambda>_.
      bind_res (require (target_visible t db) unavailable) (\<lambda>_.
        new_message env t ''assistant'' content run_id None False db)))"

definition terminal_of :: "message_target \<Rightarrow> string \<Rightarrow> message_row \<Rightarrow> bool" where
  "terminal_of t run_id m \<longleftrightarrow> ms_conversation_id m = mt_conversation_id t \<and> ms_run_id m = Some run_id \<and>
     ms_role m = ''assistant'' \<and> ms_terminal m"

definition append_assistant_once ::
  "message_env \<Rightarrow> message_target \<Rightarrow> string \<Rightarrow> string \<Rightarrow> runtime_db \<Rightarrow> message_record result \<times> runtime_db" where
  "append_assistant_once env t run_id content db = transaction db
     (bind_res (check_content content) (\<lambda>_.
      bind_res (require (target_visible t db) unavailable) (\<lambda>_.
      case sort_key ms_sequence (filter (terminal_of t run_id) (db_messages db)) of
        m # _ \<Rightarrow> Inr (record_of_row False m, db)
      | [] \<Rightarrow> new_message env t ''assistant'' content (Some run_id) None True db)))"

section \<open>Reading\<close>

definition latest_user_for_run :: "message_target \<Rightarrow> string \<Rightarrow> runtime_db \<Rightarrow> message_record option" where
  "latest_user_for_run t run_id db =
     (if target_visible t db
      then (case sort_key (\<lambda>m. - ms_sequence m)
              (filter (\<lambda>m. ms_run_id m = Some run_id \<and> ms_conversation_id m = mt_conversation_id t \<and> ms_role m = ''user'')
                (db_messages db)) of
              [] \<Rightarrow> None | m # _ \<Rightarrow> Some (record_of_row False m))
      else None)"

definition list_messages :: "message_target \<Rightarrow> int \<Rightarrow> int \<Rightarrow> runtime_db \<Rightarrow> message_record list result" where
  "list_messages t after_sequence limit db =
     (if \<not> 0 \<le> after_sequence \<or> \<not> (1 \<le> limit \<and> limit \<le> 500) then Inl (ValueError ''message cursor or limit is invalid'')
      else Inr (if target_visible t db
        then map (record_of_row False) (take (nat limit) (sort_key ms_sequence
               (filter (\<lambda>m. ms_conversation_id m = mt_conversation_id t \<and> after_sequence < ms_sequence m) (db_messages db))))
        else []))"

section \<open>What an append does\<close>

lemma insert_message_Inr:
  "insert_message m db = Inr (u, db') \<longleftrightarrow>
     py_len (ms_role m) \<le> 16 \<and> py_len (ms_hash m) \<le> 80 \<and> opt_field (\<lambda>k. py_len k \<le> 128) (ms_client_id m) \<and>
     ms_conversation_id m \<in> set (map cv_id (db_conversations db)) \<and> messages_ok (db_messages db @ [m]) \<and>
     db' = db\<lparr>db_messages := db_messages db @ [m]\<rparr>"
  by (auto simp: insert_message_def)

lemma new_message_Inr:
  assumes "new_message env t role content run_id client_id final db = Inr (r, db')"
  obtains m where "db_messages db' = db_messages db @ [m]" "messages_ok (db_messages db')" "r = record_of_row True m"
    "ms_conversation_id m = mt_conversation_id t" "ms_run_id m = run_id" "ms_client_id m = client_id" "ms_role m = role"
    "ms_terminal m = final" "ms_content m = sanitize_text content" "ms_hash m = me_sha env content"
    "ms_sequence m = next_sequence (mt_conversation_id t) db"
    "map (\<lambda>v. v\<lparr>cv_updated_at := 0\<rparr>) (db_conversations db') = map (\<lambda>v. v\<lparr>cv_updated_at := 0\<rparr>) (db_conversations db)"
  using assms
  by (auto simp: new_message_def Let_def bind_res_eq_Inr insert_message_Inr touch_conversation_def intro!: that map_update_rows_same)

text \<open>Every append either leaves the table alone or adds one message to the end.\<close>

definition appended :: "runtime_db \<Rightarrow> runtime_db \<Rightarrow> bool" where
  "appended db db' \<longleftrightarrow> db_messages db' = db_messages db \<or>
     (\<exists>m. db_messages db' = db_messages db @ [m] \<and> messages_ok (db_messages db') \<and>
        ms_sequence m = next_sequence (ms_conversation_id m) db \<and>
        (\<exists>content. ms_content m = sanitize_text content))"

lemma appended_new: "new_message env t role content run_id client_id final db = Inr (r, db') \<Longrightarrow> appended db db'"
  by (erule new_message_Inr) (auto simp: appended_def)

lemma appended_transaction:
  assumes "transaction db r = (x, db')" "\<And>y d. r = Inr (y, d) \<Longrightarrow> appended db d"
  shows "appended db db'"
proof (cases r)
  case (Inl e)
  then show ?thesis using assms(1) by (simp add: appended_def)
next
  case (Inr y)
  then show ?thesis using assms by (cases y) auto
qed

lemma append_user_appended: "append_user env t content client_id run_id db = (x, db') \<Longrightarrow> appended db db'"
  unfolding append_user_def
  by (erule appended_transaction)
    (auto simp: bind_res_eq_Inr appended_new split: option.splits, auto simp: appended_def)

lemma append_assistant_appended: "append_assistant env t content run_id db = (x, db') \<Longrightarrow> appended db db'"
  unfolding append_assistant_def by (erule appended_transaction) (auto simp: bind_res_eq_Inr appended_new)

lemma append_once_appended: "append_assistant_once env t run_id content db = (x, db') \<Longrightarrow> appended db db'"
  unfolding append_assistant_once_def
  by (erule appended_transaction)
    (auto simp: bind_res_eq_Inr appended_new split: list.splits, auto simp: appended_def)


section \<open>Histories\<close>

inductive message_transaction :: "runtime_db \<Rightarrow> runtime_db \<Rightarrow> bool" where
  user: "append_user env t content client_id run_id db = (x, db') \<Longrightarrow> message_transaction db db'"
| assistant: "append_assistant env t content run_id db = (x, db') \<Longrightarrow> message_transaction db db'"
| once: "append_assistant_once env t run_id content db = (x, db') \<Longrightarrow> message_transaction db db'"
| elsewhere: "db_messages db' = db_messages db \<Longrightarrow> message_transaction db db'"

lemma appended_same: "db_messages db' = db_messages db \<Longrightarrow> appended db db'"
  by (simp add: appended_def)

lemma message_transaction_appended: "message_transaction db db' \<Longrightarrow> appended db db'"
  by (induction rule: message_transaction.induct)
    (blast intro: append_user_appended append_assistant_appended append_once_appended appended_same)+

lemma create_or_get_elsewhere:
  assumes "create_or_get_conversation now identifier tenant actor request db = (r, db')"
  shows "message_transaction db db'"
proof (rule message_transaction.elsewhere)
  show "db_messages db' = db_messages db"
    using assms
    by (auto simp: create_or_get_conversation_def insert_conversation_def split: if_splits option.splits)
qed

lemma messages_history:
  assumes "message_transaction\<^sup>*\<^sup>* db db'" "messages_ok (db_messages db)"
  shows "messages_ok (db_messages db') \<and> (\<exists>new. db_messages db' = db_messages db @ new)"
  using assms(1)
proof (induction rule: rtranclp_induct)
  case (step y z)
  then show ?case using message_transaction_appended [OF step.hyps(2)] by (auto simp: appended_def)
qed (use assms(2) in simp)

lemma distinct_keysD:
  assumes "distinct_keys key rows" "a \<in> set rows" "b \<in> set rows" "key a = Some k" "key b = Some k"
  shows "a = b"
  using assms unfolding distinct_keys_def distinct_map inj_on_def by auto

lemma one_terminal_row:
  assumes "messages_ok rows" "a \<in> set rows" "b \<in> set rows" "ms_terminal a" "ms_terminal b"
    "ms_run_id a = Some run_id" "ms_run_id b = Some run_id"
  shows "a = b"
  using distinct_keysD [of terminal_key rows a b run_id] assms by (simp add: messages_ok_def terminal_key_def)

lemma messages_ok_distinct: "messages_ok rows \<Longrightarrow> distinct rows"
  by (auto simp: messages_ok_def distinct_map)

lemma filter_single:
  assumes "distinct xs" "a \<in> set xs" "P a" "\<And>b. b \<in> set xs \<Longrightarrow> P b \<Longrightarrow> b = a"
  shows "filter P xs = [a]"
proof -
  have "set (filter P xs) = {a}" unfolding set_filter using assms(2-4) by blast
  moreover have "length (filter P xs) = card (set (filter P xs))"
    using distinct_card [of "filter P xs"] assms(1) by simp
  ultimately have "length (filter P xs) = 1" by simp
  then obtain x where x: "filter P xs = [x]" by (auto simp: length_Suc_conv)
  then show ?thesis using \<open>set (filter P xs) = {a}\<close> by simp
qed

lemma terminal_rows:
  assumes "messages_ok rows" "m \<in> set rows" "terminal_of t run_id m"
  shows "filter (terminal_of t run_id) rows = [m]"
proof (rule filter_single [where P = "terminal_of t run_id", OF messages_ok_distinct [OF assms(1)] assms(2,3)])
  fix b assume "b \<in> set rows" "terminal_of t run_id b"
  then show "b = m" using one_terminal_row [OF assms(1), of b m run_id] assms(2,3) by (simp add: terminal_of_def)
qed

text \<open>A returned terminal response is a row of the table.\<close>

lemma append_once_Inr:
  assumes "append_assistant_once env t run_id content db = (Inr r, db')"
  obtains m where "m \<in> set (db_messages db')" "terminal_of t run_id m" "r = record_of_row (mr_created r) m"
proof (cases "sort_key ms_sequence (filter (terminal_of t run_id) (db_messages db))")
  case Nil
  then have "new_message env t ''assistant'' content (Some run_id) None True db = Inr (r, db')"
    using assms by (auto simp: append_assistant_once_def transaction_Inr bind_res_eq_Inr)
  then show ?thesis
    by (rule new_message_Inr) (auto intro!: that simp: terminal_of_def record_of_row_def)
next
  case (Cons m ms)
  then have "db' = db" "r = record_of_row False m"
    using assms by (auto simp: append_assistant_once_def transaction_Inr bind_res_eq_Inr)
  moreover have "m \<in> set (filter (terminal_of t run_id) (db_messages db))"
    using Cons by (metis list.set_intros(1) set_sort)
  ultimately show ?thesis by (intro that [of m]) (auto simp: record_of_row_def)
qed

lemma append_once_existing:
  assumes "messages_ok (db_messages db)" "m \<in> set (db_messages db)" "terminal_of t run_id m"
    "append_assistant_once env t run_id content db = (x, db')"
  shows "db' = db \<and> (\<forall>r. x = Inr r \<longrightarrow> r = record_of_row False m)"
proof -
  have "sort_key ms_sequence (filter (terminal_of t run_id) (db_messages db)) = [m]"
    using terminal_rows [OF assms(1-3)] by simp
  then show ?thesis using assms(4)
    by (cases x) (auto simp: append_assistant_once_def transaction_Inr transaction_Inl bind_res_eq_Inr)
qed

lemma append_once_again:
  assumes "messages_ok (db_messages db)" "append_assistant_once env t run_id content db = (Inr r, db1)"
    "message_transaction\<^sup>*\<^sup>* db1 db2" "append_assistant_once env' t run_id content' db2 = (x, db3)"
  shows "db3 = db2 \<and> (\<forall>r'. x = Inr r' \<longrightarrow> r' = r\<lparr>mr_created := False\<rparr>)"
proof -
  have ok: "messages_ok (db_messages db1)"
    using append_once_appended [OF assms(2)] assms(1) by (auto simp: appended_def)
  obtain m where m: "m \<in> set (db_messages db1)" "terminal_of t run_id m" "r = record_of_row (mr_created r) m"
    using assms(2) by (rule append_once_Inr)
  have "messages_ok (db_messages db2)" "m \<in> set (db_messages db2)"
    using messages_history [OF assms(3) ok] m(1) by auto
  moreover have "record_of_row False m = r\<lparr>mr_created := False\<rparr>" using m(3) by (metis (no_types, lifting) message_record.update_convs(10) record_of_row_def)
  ultimately show ?thesis using append_once_existing m(2) assms(4) by metis
qed

text \<open>The same for the message of a user: the client message id names one message with one text.\<close>

lemma append_user_Inr:
  assumes "append_user env t content client_id run_id db = (Inr r, db')"
  obtains m where "m \<in> set (db_messages db')" "has_client_id t client_id m" "r = record_of_row (mr_created r) m"
    "ms_hash m = me_sha env content"
proof (cases "find_user_by_client_message_id t client_id db")
  case None
  then have "new_message env t ''user'' content run_id (Some client_id) False db = Inr (r, db')"
    using assms by (auto simp: append_user_def transaction_Inr bind_res_eq_Inr)
  then show ?thesis
    by (rule new_message_Inr) (auto intro!: that simp: has_client_id_def record_of_row_def)
next
  case (Some x)
  then have "db' = db" "r = x" "mr_hash r = me_sha env content"
    using assms by (auto simp: append_user_def transaction_Inr bind_res_eq_Inr)
  moreover obtain m where "select_one (has_client_id t client_id) (db_messages db) = Some m" "x = record_of_row False m"
    using Some by (auto simp: find_user_by_client_message_id_def split: if_splits)
  moreover have "m \<in> set (db_messages db) \<and> has_client_id t client_id m" using calculation(4) by (rule select_one_Some)
  ultimately show ?thesis by (intro that [of m]) (auto simp: record_of_row_def)
qed

lemma client_row:
  assumes "messages_ok rows" "m \<in> set rows" "has_client_id t client_id m"
  shows "select_one (has_client_id t client_id) rows = Some m"
proof -
  have "select_one (has_client_id t client_id) rows \<noteq> None" using assms(2,3) by (auto simp: select_one_None)
  then obtain b where b: "select_one (has_client_id t client_id) rows = Some b" by blast
  then have "b \<in> set rows \<and> has_client_id t client_id b" by (rule select_one_Some)
  then have "b = m"
    using distinct_keysD [of client_key rows b m "(mt_conversation_id t, client_id)"] assms
    by (simp add: messages_ok_def client_key_def has_client_id_def)
  then show ?thesis using b by simp
qed

lemma append_user_again:
  assumes "messages_ok (db_messages db)" "append_user env t content client_id run_id db = (Inr r, db1)"
    "message_transaction\<^sup>*\<^sup>* db1 db2" "append_user env' t content' client_id run_id' db2 = (x, db3)"
  shows "db3 = db2 \<and> (\<forall>r'. x = Inr r' \<longrightarrow> r' = r\<lparr>mr_created := False\<rparr> \<and> me_sha env' content' = me_sha env content)"
proof -
  have ok: "messages_ok (db_messages db1)"
    using append_user_appended [OF assms(2)] assms(1) by (auto simp: appended_def)
  obtain m where m: "m \<in> set (db_messages db1)" "has_client_id t client_id m" "r = record_of_row (mr_created r) m"
    "ms_hash m = me_sha env content"
    using assms(2) by (rule append_user_Inr)
  have "messages_ok (db_messages db2)" "m \<in> set (db_messages db2)"
    using messages_history [OF assms(3) ok] m(1) by auto
  then have f: "find_user_by_client_message_id t client_id db2 =
      (if target_visible t db2 then Some (record_of_row False m) else None)"
    using client_row m(2) by (simp add: find_user_by_client_message_id_def)
  have r: "record_of_row False m = r\<lparr>mr_created := False\<rparr>"
    using m(3) by (metis (no_types, lifting) message_record.update_convs(10) record_of_row_def)
  have "mr_hash (record_of_row False m) = me_sha env content" using m(4) by (simp add: record_of_row_def)
  then show ?thesis using assms(4) f r
    by (cases x) (auto simp: append_user_def transaction_Inr transaction_Inl bind_res_eq_Inr split: if_splits)
qed


section \<open>The log of a conversation\<close>

definition messages_of :: "runtime_db \<Rightarrow> string \<Rightarrow> message_row list" where
  "messages_of db conversation_id = filter (\<lambda>m. ms_conversation_id m = conversation_id) (db_messages db)"

definition message_logs_ok :: "runtime_db \<Rightarrow> bool" where
  "message_logs_ok db \<longleftrightarrow> (\<forall>conversation_id. numbered (map ms_sequence (messages_of db conversation_id)))"

lemma next_sequence_numbered:
  assumes "numbered (map ms_sequence (messages_of db c))"
  shows "next_sequence c db = int (length (messages_of db c)) + 1"
proof -
  let ?n = "int (length (messages_of db c))"
  have "map ms_sequence (messages_of db c) = [1..?n]" using assms by (simp add: numbered_def)
  then have "next_sequence c db = foldl max 0 [1..?n] + 1" by (simp add: next_sequence_def messages_of_def)
  then show ?thesis by (simp add: foldl_max_upto)
qed

lemma message_logs_appended:
  assumes "appended db db'" "message_logs_ok db"
  shows "message_logs_ok db'"
proof (cases "db_messages db' = db_messages db")
  case True
  then show ?thesis using assms(2) by (simp add: message_logs_ok_def messages_of_def)
next
  case False
  then obtain m where m: "db_messages db' = db_messages db @ [m]" "ms_sequence m = next_sequence (ms_conversation_id m) db"
    using assms(1) by (auto simp: appended_def)
  have "numbered (map ms_sequence (messages_of db' c))" for c
  proof (cases "ms_conversation_id m = c")
    case True
    have n: "numbered (map ms_sequence (messages_of db c))" using assms(2) by (simp add: message_logs_ok_def)
    then have "ms_sequence m = int (length (messages_of db c)) + 1" using m(2) True next_sequence_numbered by simp
    moreover have "messages_of db' c = messages_of db c @ [m]" using m(1) True by (simp add: messages_of_def)
    ultimately show ?thesis using n upto_append [of "int (length (messages_of db c))" 1] by (simp add: numbered_def add.commute)
  next
    case False
    then show ?thesis using m(1) assms(2) by (simp add: message_logs_ok_def messages_of_def)
  qed
  then show ?thesis by (simp add: message_logs_ok_def)
qed

lemma message_logs_history:
  "message_transaction\<^sup>*\<^sup>* db db' \<Longrightarrow> message_logs_ok db \<Longrightarrow> message_logs_ok db'"
  by (induction rule: rtranclp_induct) (auto dest: message_transaction_appended intro: message_logs_appended)

lemma numbered_nth:
  assumes "numbered (map f xs)" "i < length xs"
  shows "f (xs ! i) = int i + 1"
proof -
  have "map f xs ! i = [1..int (length xs)] ! i" using assms(1) by (simp add: numbered_def)
  then show ?thesis using assms(2) by simp
qed

lemma numbered_sorted:
  assumes "numbered (map f xs)"
  shows "sort_key f xs = xs" "filter (\<lambda>x. int k < f x) xs = drop k xs"
proof -
  have "sorted (map f xs)" using assms by (metis numbered_def sorted_upto)
  then show "sort_key f xs = xs" by (rule sort_key_id_if_sorted)
  have "filter (\<lambda>x. int k < f x) (take k xs) = []"
    using numbered_nth [OF assms] by (auto simp: filter_empty_conv in_set_conv_nth)
  moreover have "filter (\<lambda>x. int k < f x) (drop k xs) = drop k xs"
    using numbered_nth [OF assms] by (auto simp: filter_id_conv in_set_conv_nth)
  ultimately show "filter (\<lambda>x. int k < f x) xs = drop k xs"
    by (metis append_self_conv2 append_take_drop_id filter_append)
qed

lemma numbered_drop_sorted: "numbered (map f xs) \<Longrightarrow> sort_key f (drop k xs) = drop k xs"
  by (rule sort_key_id_if_sorted) (metis drop_map numbered_def sorted_wrt_drop sorted_upto)

text \<open>A page of the list is the segment of the log behind its cursor.\<close>

lemma list_messages_page:
  assumes "message_logs_ok db" "1 \<le> n" "n \<le> 500" "target_visible t db"
  shows "list_messages t (int k) n db =
    Inr (map (record_of_row False) (take (nat n) (drop k (messages_of db (mt_conversation_id t)))))"
proof -
  have num: "numbered (map ms_sequence (messages_of db (mt_conversation_id t)))"
    using assms(1) by (simp add: message_logs_ok_def)
  have "filter (\<lambda>m. ms_conversation_id m = mt_conversation_id t \<and> int k < ms_sequence m) (db_messages db) =
      drop k (messages_of db (mt_conversation_id t))"
    using numbered_sorted(2) [OF num, of k] by (simp add: messages_of_def conj_commute)
  then show ?thesis
    using assms(2-4) numbered_drop_sorted [OF num, of k] by (simp add: list_messages_def)
qed

end
