(* ===== verification/TerminalResponse.thy ===== *)
theory TerminalResponse
  imports Messages
begin

text \<open>
  \<open>src/orchestration/terminal_response.py\<close>: the response a user sees when a run pauses or ends. The texts
  are those of the source; \<open>str\<close> of a state value that is not a string is the parameter \<open>pb_repr\<close>. A
  publication is a sequence of transactions; \<open>pb_now\<close> and \<open>pb_uuid\<close> number its readings of the clock and
  its draws of UUIDs.
\<close>

section \<open>The content\<close>

definition reason_codes :: "(string \<times> string) list" where
  "reason_codes =
     [(''decision_rejected'', ''DECISION_REJECTED''), (''model_unavailable'', ''MODEL_GATEWAY_ERROR''),
      (''tool_execution_failed'', ''TOOL_EXECUTION_FAILED''), (''max_steps_exceeded'', ''MAX_STEPS_EXCEEDED''),
      (''token_budget_exhausted'', ''TOKEN_BUDGET_EXHAUSTED''), (''deadline_exceeded'', ''DEADLINE_EXCEEDED''),
      (''cancelled_by_user'', ''CANCELLED_BY_USER''), (''cancelled'', ''CANCELLED_BY_USER''),
      (''readonly_loop_no_progress'', ''NO_PROGRESS'')]"

definition stable_reason_code :: "string option \<Rightarrow> string option" where
  "stable_reason_code reason =
     (case reason of
        None \<Rightarrow> None
      | Some r \<Rightarrow> if r = [] then None else Some (dget_or reason_codes r (slice_to (upper r) 128)))"

definition status_labels :: "(string \<times> string) list" where
  "status_labels = [(''shipped'', [CHR 0xE5, CHR 0xB7, CHR 0xB2, CHR 0xE5, CHR 0x8F, CHR 0x91, CHR 0xE8, CHR 0xB4,
      CHR 0xA7]), (''delivered'', [CHR 0xE5, CHR 0xB7, CHR 0xB2, CHR 0xE9, CHR 0x80, CHR 0x81, CHR 0xE8, CHR 0xBE,
      CHR 0xBE]), (''processing'', [CHR 0xE5, CHR 0xA4, CHR 0x84, CHR 0xE7, CHR 0x90, CHR 0x86, CHR 0xE4, CHR 0xB8,
      CHR 0xAD]), (''paid'', [CHR 0xE5, CHR 0xB7, CHR 0xB2, CHR 0xE6, CHR 0x94, CHR 0xAF, CHR 0xE4, CHR 0xBB,
      CHR 0x98])]"

definition status_label :: "string \<Rightarrow> string" where
  "status_label s = dget_or status_labels s s"

definition dict_at :: "pydict \<Rightarrow> string \<Rightarrow> pydict option" where
  "dict_at d k = (case dget d k of Some (PDict e) \<Rightarrow> Some e | _ \<Rightarrow> None)"

definition text_at :: "pydict \<Rightarrow> string \<Rightarrow> string option" where
  "text_at d k = (case dget d k of Some (PStr s) \<Rightarrow> if s = [] then None else Some s | _ \<Rightarrow> None)"

definition order_details :: "pydict \<Rightarrow> string" where
  "order_details order =
     (case (text_at order ''order_id'', text_at order ''status'') of
        (Some order_id, Some status) \<Rightarrow>
          [CHR 0xE8, CHR 0xAE, CHR 0xA2, CHR 0xE5, CHR 0x8D, CHR 0x95, CHR 0x20] @ order_id @ [CHR 0x20, CHR 0xE5, CHR 0xB7, CHR 0xB2, CHR 0xE6, CHR 0x9F, CHR 0xA5, CHR 0xE8,
      CHR 0xAF, CHR 0xA2, CHR 0xE5, CHR 0x88, CHR 0xB0, CHR 0xEF, CHR 0xBC,
      CHR 0x9A, CHR 0xE5, CHR 0xBD, CHR 0x93, CHR 0xE5, CHR 0x89, CHR 0x8D] @ status_label status @
          (case text_at order ''eta'' of None \<Rightarrow> [] | Some eta \<Rightarrow> [CHR 0xEF, CHR 0xBC, CHR 0x8C, CHR 0xE9, CHR 0xA2, CHR 0x84, CHR 0xE8, CHR 0xAE,
      CHR 0xA1, CHR 0x20] @ eta) @
          (case text_at order ''tracking_id'' of None \<Rightarrow> [] | Some tracking \<Rightarrow> [CHR 0xEF, CHR 0xBC, CHR 0x8C, CHR 0xE7, CHR 0x89, CHR 0xA9, CHR 0xE6, CHR 0xB5,
      CHR 0x81, CHR 0xE5, CHR 0x8D, CHR 0x95, CHR 0xE5, CHR 0x8F, CHR 0xB7,
      CHR 0xE4, CHR 0xB8, CHR 0xBA, CHR 0x20] @ tracking) @ [CHR 0xE3, CHR 0x80, CHR 0x82]
      | _ \<Rightarrow> [])"

definition order_partial_result :: "run_context \<Rightarrow> string" where
  "order_partial_result c =
     (case Option.bind (dict_at (rc_state c) ''tool_data_by_name'')
        (\<lambda>d. Option.bind (dict_at d ''get_order_status'') (\<lambda>d. dict_at d ''order'')) of
        None \<Rightarrow> [] | Some order \<Rightarrow> order_details order)"

definition reason_texts :: "(string \<times> string) list" where
  "reason_texts =
     [(''MODEL_GATEWAY_ERROR'', [CHR 0xE6, CHR 0xA8, CHR 0xA1, CHR 0xE5, CHR 0x9E, CHR 0x8B, CHR 0xE6, CHR 0x9C,
      CHR 0x8D, CHR 0xE5, CHR 0x8A, CHR 0xA1, CHR 0xE6, CHR 0x9A, CHR 0x82,
      CHR 0xE6, CHR 0x97, CHR 0xB6, CHR 0xE4, CHR 0xB8, CHR 0x8D, CHR 0xE5,
      CHR 0x8F, CHR 0xAF, CHR 0xE7, CHR 0x94, CHR 0xA8]),
      (''TOOL_EXECUTION_FAILED'', [CHR 0xE5, CHR 0xB7, CHR 0xA5, CHR 0xE5, CHR 0x85, CHR 0xB7, CHR 0xE8, CHR 0xB0,
      CHR 0x83, CHR 0xE7, CHR 0x94, CHR 0xA8, CHR 0xE6, CHR 0x9C, CHR 0xAA,
      CHR 0xE5, CHR 0xAE, CHR 0x8C, CHR 0xE6, CHR 0x88, CHR 0x90]),
      (''UPSTREAM_UNAVAILABLE'', [CHR 0xE4, CHR 0xB8, CHR 0x8A, CHR 0xE6, CHR 0xB8, CHR 0xB8, CHR 0xE6, CHR 0x9C,
      CHR 0x8D, CHR 0xE5, CHR 0x8A, CHR 0xA1, CHR 0xE6, CHR 0x9A, CHR 0x82,
      CHR 0xE6, CHR 0x97, CHR 0xB6, CHR 0xE4, CHR 0xB8, CHR 0x8D, CHR 0xE5,
      CHR 0x8F, CHR 0xAF, CHR 0xE7, CHR 0x94, CHR 0xA8]),
      (''UNEXPECTED_EXECUTION_ERROR'', [CHR 0xE7, CHR 0xB3, CHR 0xBB, CHR 0xE7, CHR 0xBB, CHR 0x9F, CHR 0xE5, CHR 0xA4,
      CHR 0x84, CHR 0xE7, CHR 0x90, CHR 0x86, CHR 0xE5, CHR 0xBC, CHR 0x82,
      CHR 0xE5, CHR 0xB8, CHR 0xB8])]"

definition failed_content :: "run_context \<Rightarrow> string option \<Rightarrow> bool \<Rightarrow> string" where
  "failed_content c reason retryable =
     (if reason = Some ''DECISION_REJECTED''
      then (let partial = order_partial_result c in
        if partial \<noteq> []
        then partial @ [CHR 0xE4, CHR 0xB8, CHR 0x8B, CHR 0xE4, CHR 0xB8, CHR 0x80, CHR 0xE6, CHR 0xAD,
      CHR 0xA5, CHR 0xE5, CHR 0xA4, CHR 0x84, CHR 0xE7, CHR 0x90, CHR 0x86,
      CHR 0xE6, CHR 0x9C, CHR 0xAA, CHR 0xE9, CHR 0x80, CHR 0x9A, CHR 0xE8,
      CHR 0xBF, CHR 0x87, CHR 0xE5, CHR 0xAE, CHR 0x89, CHR 0xE5, CHR 0x85,
      CHR 0xA8, CHR 0xE6, CHR 0xA3, CHR 0x80, CHR 0xE6, CHR 0x9F, CHR 0xA5,
      CHR 0xEF, CHR 0xBC, CHR 0x8C, CHR 0xE6, CHR 0xB5, CHR 0x81, CHR 0xE7,
      CHR 0xA8, CHR 0x8B, CHR 0xE6, CHR 0x9C, CHR 0xAA, CHR 0xE7, CHR 0xBB,
      CHR 0xA7, CHR 0xE7, CHR 0xBB, CHR 0xAD, CHR 0xE6, CHR 0x89, CHR 0xA7,
      CHR 0xE8, CHR 0xA1, CHR 0x8C, CHR 0xE3, CHR 0x80, CHR 0x82] @
          (if retryable then [CHR 0xE4, CHR 0xBD, CHR 0xA0, CHR 0xE5, CHR 0x8F, CHR 0xAF, CHR 0xE4, CHR 0xBB,
      CHR 0xA5, CHR 0xE7, CHR 0x82, CHR 0xB9, CHR 0xE5, CHR 0x87, CHR 0xBB,
      CHR 0xE9, CHR 0x87, CHR 0x8D, CHR 0xE8, CHR 0xAF, CHR 0x95, CHR 0xEF,
      CHR 0xBC, CHR 0x8C, CHR 0xE6, CHR 0x88, CHR 0x96, CHR 0xE8, CHR 0xBD,
      CHR 0xAC, CHR 0xE4, CHR 0xBA, CHR 0xBA, CHR 0xE5, CHR 0xB7, CHR 0xA5,
      CHR 0xE7, CHR 0xBB, CHR 0xA7, CHR 0xE7, CHR 0xBB, CHR 0xAD, CHR 0xE5,
      CHR 0xA4, CHR 0x84, CHR 0xE7, CHR 0x90, CHR 0x86, CHR 0xE3, CHR 0x80,
      CHR 0x82] else [])
        else [CHR 0x41, CHR 0x67, CHR 0x65, CHR 0x6E, CHR 0x74, CHR 0x20, CHR 0xE7, CHR 0x9A,
      CHR 0x84, CHR 0xE4, CHR 0xB8, CHR 0x8B, CHR 0xE4, CHR 0xB8, CHR 0x80,
      CHR 0xE6, CHR 0xAD, CHR 0xA5, CHR 0xE5, CHR 0x86, CHR 0xB3, CHR 0xE7,
      CHR 0xAD, CHR 0x96, CHR 0xE6, CHR 0x9C, CHR 0xAA, CHR 0xE9, CHR 0x80,
      CHR 0x9A, CHR 0xE8, CHR 0xBF, CHR 0x87, CHR 0xE5, CHR 0xAE, CHR 0x89,
      CHR 0xE5, CHR 0x85, CHR 0xA8, CHR 0xE6, CHR 0xA3, CHR 0x80, CHR 0xE6,
      CHR 0x9F, CHR 0xA5, CHR 0xEF, CHR 0xBC, CHR 0x8C, CHR 0xE6, CHR 0x9C,
      CHR 0xAC, CHR 0xE6, CHR 0xAC, CHR 0xA1, CHR 0xE8, CHR 0xAF, CHR 0xB7,
      CHR 0xE6, CHR 0xB1, CHR 0x82, CHR 0xE6, CHR 0x9C, CHR 0xAA, CHR 0xE5,
      CHR 0xAE, CHR 0x8C, CHR 0xE6, CHR 0x88, CHR 0x90, CHR 0xE3, CHR 0x80,
      CHR 0x82, CHR 0xE4, CHR 0xBD, CHR 0xA0, CHR 0xE5, CHR 0x8F, CHR 0xAF,
      CHR 0xE4, CHR 0xBB, CHR 0xA5, CHR 0xE7, CHR 0x82, CHR 0xB9, CHR 0xE5,
      CHR 0x87, CHR 0xBB, CHR 0xE9, CHR 0x87, CHR 0x8D, CHR 0xE8, CHR 0xAF,
      CHR 0x95, CHR 0xE6, CHR 0x88, CHR 0x96, CHR 0xE8, CHR 0xBD, CHR 0xAC,
      CHR 0xE4, CHR 0xBA, CHR 0xBA, CHR 0xE5, CHR 0xB7, CHR 0xA5, CHR 0xE5,
      CHR 0xA4, CHR 0x84, CHR 0xE7, CHR 0x90, CHR 0x86, CHR 0xE3, CHR 0x80,
      CHR 0x82])
      else dget_or reason_texts (case reason of None \<Rightarrow> [] | Some r \<Rightarrow> r) [CHR 0xE6, CHR 0x9C, CHR 0xAC, CHR 0xE6, CHR 0xAC, CHR 0xA1, CHR 0xE5, CHR 0xA4,
      CHR 0x84, CHR 0xE7, CHR 0x90, CHR 0x86, CHR 0xE6, CHR 0x9C, CHR 0xAA,
      CHR 0xE5, CHR 0xAE, CHR 0x8C, CHR 0xE6, CHR 0x88, CHR 0x90] @
        [CHR 0xEF, CHR 0xBC, CHR 0x8C, CHR 0xE6, CHR 0x9C, CHR 0xAC, CHR 0xE6, CHR 0xAC,
      CHR 0xA1, CHR 0xE8, CHR 0xAF, CHR 0xB7, CHR 0xE6, CHR 0xB1, CHR 0x82,
      CHR 0xE6, CHR 0x9C, CHR 0xAA, CHR 0xE5, CHR 0xAE, CHR 0x8C, CHR 0xE6,
      CHR 0x88, CHR 0x90, CHR 0xE3, CHR 0x80, CHR 0x82] @ (if retryable then [CHR 0xE4, CHR 0xBD, CHR 0xA0, CHR 0xE5, CHR 0x8F, CHR 0xAF, CHR 0xE4, CHR 0xBB,
      CHR 0xA5, CHR 0xE7, CHR 0x82, CHR 0xB9, CHR 0xE5, CHR 0x87, CHR 0xBB,
      CHR 0xE9, CHR 0x87, CHR 0x8D, CHR 0xE8, CHR 0xAF, CHR 0x95, CHR 0xE3,
      CHR 0x80, CHR 0x82] else []))"

definition fallback_content :: "run_context \<Rightarrow> run_status \<Rightarrow> string option \<Rightarrow> bool \<Rightarrow> string" where
  "fallback_content c status reason retryable =
     (case status of
        RS_COMPLETED \<Rightarrow> [CHR 0xE6, CHR 0x9C, CHR 0xAC, CHR 0xE6, CHR 0xAC, CHR 0xA1, CHR 0xE8, CHR 0xAF,
      CHR 0xB7, CHR 0xE6, CHR 0xB1, CHR 0x82, CHR 0xE5, CHR 0xB7, CHR 0xB2,
      CHR 0xE5, CHR 0xAE, CHR 0x8C, CHR 0xE6, CHR 0x88, CHR 0x90, CHR 0xE3,
      CHR 0x80, CHR 0x82]
      | RS_WAITING_USER \<Rightarrow> [CHR 0xE8, CHR 0xBF, CHR 0x98, CHR 0xE9, CHR 0x9C, CHR 0x80, CHR 0xE8, CHR 0xA6,
      CHR 0x81, CHR 0xE4, CHR 0xBD, CHR 0xA0, CHR 0xE8, CHR 0xA1, CHR 0xA5,
      CHR 0xE5, CHR 0x85, CHR 0x85, CHR 0xE5, CHR 0xBF, CHR 0x85, CHR 0xE8,
      CHR 0xA6, CHR 0x81, CHR 0xE4, CHR 0xBF, CHR 0xA1, CHR 0xE6, CHR 0x81,
      CHR 0xAF, CHR 0xE5, CHR 0x90, CHR 0x8E, CHR 0xE6, CHR 0x89, CHR 0x8D,
      CHR 0xE8, CHR 0x83, CHR 0xBD, CHR 0xE7, CHR 0xBB, CHR 0xA7, CHR 0xE7,
      CHR 0xBB, CHR 0xAD, CHR 0xE5, CHR 0xBD, CHR 0x93, CHR 0xE5, CHR 0x89,
      CHR 0x8D, CHR 0xE6, CHR 0xB5, CHR 0x81, CHR 0xE7, CHR 0xA8, CHR 0x8B,
      CHR 0xE3, CHR 0x80, CHR 0x82]
      | RS_WAITING_CONFIRMATION \<Rightarrow> [CHR 0xE8, CHR 0xAF, CHR 0xB7, CHR 0xE5, CHR 0x9C, CHR 0xA8, CHR 0xE7, CHR 0xA1,
      CHR 0xAE, CHR 0xE8, CHR 0xAE, CHR 0xA4, CHR 0xE5, CHR 0x8D, CHR 0xA1,
      CHR 0xE7, CHR 0x89, CHR 0x87, CHR 0xE4, CHR 0xB8, CHR 0xAD, CHR 0xE9,
      CHR 0x80, CHR 0x89, CHR 0xE6, CHR 0x8B, CHR 0xA9, CHR 0xE6, CHR 0x98,
      CHR 0xAF, CHR 0xE5, CHR 0x90, CHR 0xA6, CHR 0xE7, CHR 0xBB, CHR 0xA7,
      CHR 0xE7, CHR 0xBB, CHR 0xAD, CHR 0xE8, CHR 0xAF, CHR 0xA5, CHR 0xE6,
      CHR 0x93, CHR 0x8D, CHR 0xE4, CHR 0xBD, CHR 0x9C, CHR 0xE3, CHR 0x80,
      CHR 0x82]
      | RS_WAITING_HUMAN \<Rightarrow> [CHR 0xE8, CHR 0x87, CHR 0xAA, CHR 0xE5, CHR 0x8A, CHR 0xA8, CHR 0xE5, CHR 0xA4,
      CHR 0x84, CHR 0xE7, CHR 0x90, CHR 0x86, CHR 0xE5, CHR 0xB7, CHR 0xB2,
      CHR 0xE6, CHR 0x9A, CHR 0x82, CHR 0xE5, CHR 0x81, CHR 0x9C, CHR 0xEF,
      CHR 0xBC, CHR 0x8C, CHR 0xE5, CHR 0xBD, CHR 0x93, CHR 0xE5, CHR 0x89,
      CHR 0x8D, CHR 0xE8, CHR 0xAF, CHR 0xB7, CHR 0xE6, CHR 0xB1, CHR 0x82,
      CHR 0xE5, CHR 0xB7, CHR 0xB2, CHR 0xE8, CHR 0xBD, CHR 0xAC, CHR 0xE4,
      CHR 0xBA, CHR 0xBA, CHR 0xE5, CHR 0xB7, CHR 0xA5, CHR 0xE5, CHR 0xAE,
      CHR 0xA1, CHR 0xE6, CHR 0xA0, CHR 0xB8, CHR 0xEF, CHR 0xBC, CHR 0x8C,
      CHR 0xE8, CHR 0xAF, CHR 0xB7, CHR 0xE6, CHR 0x9F, CHR 0xA5, CHR 0xE7,
      CHR 0x9C, CHR 0x8B, CHR 0xE4, CHR 0xBA, CHR 0xBA, CHR 0xE5, CHR 0xB7,
      CHR 0xA5, CHR 0xE5, CHR 0xA4, CHR 0x84, CHR 0xE7, CHR 0x90, CHR 0x86,
      CHR 0xE7, CHR 0xAA, CHR 0x97, CHR 0xE5, CHR 0x8F, CHR 0xA3, CHR 0xE3,
      CHR 0x80, CHR 0x82]
      | RS_CANCELLED \<Rightarrow> [CHR 0xE6, CHR 0x9C, CHR 0xAC, CHR 0xE6, CHR 0xAC, CHR 0xA1, CHR 0xE8, CHR 0xAF,
      CHR 0xB7, CHR 0xE6, CHR 0xB1, CHR 0x82, CHR 0xE5, CHR 0xB7, CHR 0xB2,
      CHR 0xE5, CHR 0x8F, CHR 0x96, CHR 0xE6, CHR 0xB6, CHR 0x88, CHR 0xEF,
      CHR 0xBC, CHR 0x8C, CHR 0xE6, CHR 0x9C, CHR 0xAA, CHR 0xE7, CHR 0xBB,
      CHR 0xA7, CHR 0xE7, CHR 0xBB, CHR 0xAD, CHR 0xE6, CHR 0x89, CHR 0xA7,
      CHR 0xE8, CHR 0xA1, CHR 0x8C, CHR 0xE5, CHR 0x90, CHR 0x8E, CHR 0xE7,
      CHR 0xBB, CHR 0xAD, CHR 0xE6, CHR 0x93, CHR 0x8D, CHR 0xE4, CHR 0xBD,
      CHR 0x9C, CHR 0xE3, CHR 0x80, CHR 0x82]
      | RS_EXPIRED \<Rightarrow> [CHR 0xE6, CHR 0x9C, CHR 0xAC, CHR 0xE6, CHR 0xAC, CHR 0xA1, CHR 0xE8, CHR 0xAF,
      CHR 0xB7, CHR 0xE6, CHR 0xB1, CHR 0x82, CHR 0xE5, CHR 0xB7, CHR 0xB2,
      CHR 0xE8, CHR 0xB6, CHR 0x85, CHR 0xE6, CHR 0x97, CHR 0xB6, CHR 0xE5,
      CHR 0xA4, CHR 0xB1, CHR 0xE6, CHR 0x95, CHR 0x88, CHR 0xEF, CHR 0xBC,
      CHR 0x8C, CHR 0xE6, CHR 0x9C, CHR 0xAA, CHR 0xE8, CHR 0x83, CHR 0xBD,
      CHR 0xE7, CHR 0xA1, CHR 0xAE, CHR 0xE8, CHR 0xAE, CHR 0xA4, CHR 0xE6,
      CHR 0x9C, CHR 0x80, CHR 0xE7, CHR 0xBB, CHR 0x88, CHR 0xE7, CHR 0xBB,
      CHR 0x93, CHR 0xE6, CHR 0x9E, CHR 0x9C, CHR 0xEF, CHR 0xBC, CHR 0x8C,
      CHR 0xE8, CHR 0xAF, CHR 0xB7, CHR 0xE9, CHR 0x87, CHR 0x8D, CHR 0xE6,
      CHR 0x96, CHR 0xB0, CHR 0xE5, CHR 0x8F, CHR 0x91, CHR 0xE8, CHR 0xB5,
      CHR 0xB7, CHR 0xE3, CHR 0x80, CHR 0x82]
      | RS_FAILED \<Rightarrow> failed_content c reason retryable
      | _ \<Rightarrow> [CHR 0xE5, CHR 0xBD, CHR 0x93, CHR 0xE5, CHR 0x89, CHR 0x8D, CHR 0xE8, CHR 0xAF,
      CHR 0xB7, CHR 0xE6, CHR 0xB1, CHR 0x82, CHR 0xE5, CHR 0xB7, CHR 0xB2,
      CHR 0xE5, CHR 0x81, CHR 0x9C, CHR 0xE6, CHR 0xAD, CHR 0xA2, CHR 0xEF,
      CHR 0xBC, CHR 0x8C, CHR 0xE8, CHR 0xAF, CHR 0xB7, CHR 0xE6, CHR 0x9F,
      CHR 0xA5, CHR 0xE7, CHR 0x9C, CHR 0x8B, CHR 0xE6, CHR 0x89, CHR 0xA7,
      CHR 0xE8, CHR 0xA1, CHR 0x8C, CHR 0xE6, CHR 0x97, CHR 0xA5, CHR 0xE5,
      CHR 0xBF, CHR 0x97, CHR 0xE8, CHR 0x8E, CHR 0xB7, CHR 0xE5, CHR 0x8F,
      CHR 0x96, CHR 0xE7, CHR 0x8A, CHR 0xB6, CHR 0xE6, CHR 0x80, CHR 0x81,
      CHR 0xE3, CHR 0x80, CHR 0x82])"

section \<open>Publishing\<close>

record publish_env =
  pb_now :: "nat \<Rightarrow> int"
  pb_uuid :: "nat \<Rightarrow> string"
  pb_sha :: "string \<Rightarrow> string"
  pb_codec :: event_codec
  pb_repr :: "pyval \<Rightarrow> string"

record publication =
  pu_status :: "run_status option"
  pu_reason :: "string option"
  pu_preferred :: "string option"
  pu_retryable :: "bool option"

record terminal_response =
  tp_content :: string
  tp_reason_code :: "string option"
  tp_retryable :: bool
  tp_message :: message_record
  tp_published :: bool

definition state_reason :: "publish_env \<Rightarrow> run_context \<Rightarrow> string option" where
  "state_reason env c =
     (let pick = (\<lambda>k. case dget (rc_state c) k of Some v \<Rightarrow> if truthy v then Some v else None | None \<Rightarrow> None);
          str = (\<lambda>v. case v of PStr s \<Rightarrow> s | _ \<Rightarrow> pb_repr env v)
      in map_option str (case pick ''last_step_reason'' of Some v \<Rightarrow> Some v | None \<Rightarrow> pick ''mutation_error''))"

definition effective_status :: "run_context \<Rightarrow> publication \<Rightarrow> run_status" where
  "effective_status c p = (case pu_status p of None \<Rightarrow> rc_status c | Some s \<Rightarrow> s)"

definition publication_reason :: "publish_env \<Rightarrow> run_context \<Rightarrow> publication \<Rightarrow> string option" where
  "publication_reason env c p =
     stable_reason_code (case pu_reason p of
        Some r \<Rightarrow> if r \<noteq> [] then Some r else state_reason env c | None \<Rightarrow> state_reason env c)"

definition can_retry :: "run_context \<Rightarrow> publication \<Rightarrow> bool" where
  "can_retry c p =
     (case pu_retryable p of Some b \<Rightarrow> b | None \<Rightarrow> effective_status c p \<in> {RS_FAILED, RS_EXPIRED})"

definition preferred_text :: "publication \<Rightarrow> string" where
  "preferred_text p = strip (case pu_preferred p of None \<Rightarrow> [] | Some s \<Rightarrow> s)"

definition publication_content :: "publish_env \<Rightarrow> run_context \<Rightarrow> publication \<Rightarrow> string" where
  "publication_content env c p =
     (if preferred_text p \<noteq> [] then preferred_text p
      else fallback_content c (effective_status c p) (publication_reason env c p) (can_retry c p))"

definition message_env_of :: "publish_env \<Rightarrow> message_env" where
  "message_env_of env = \<lparr>me_now = pb_now env 0, me_message_id = pb_uuid env 0, me_sha = pb_sha env\<rparr>"

definition target_of :: "run_context \<Rightarrow> message_target" where
  "target_of c = \<lparr>mt_conversation_id = rc_conversation_id c, mt_tenant_id = rc_tenant_id c, mt_actor_id = rc_actor_id c\<rparr>"

definition response_event :: "string \<Rightarrow> pydict" where
  "response_event content = [(''status'', PStr ''published''), (''character_count'', PInt (int (py_len content)))]"

definition terminal_event :: "publish_env \<Rightarrow> run_context \<Rightarrow> publication \<Rightarrow> pydict" where
  "terminal_event env c p =
     [(''status'', PStr (status_value (effective_status c p))),
      (''reason_code'', case publication_reason env c p of None \<Rightarrow> PNone | Some r \<Rightarrow> PStr r),
      (''retryable'', PBool (can_retry c p)), (''fallback_used'', PBool (preferred_text p = []))]"

text \<open>The marks and events that follow a message that was stored; an error of the mark is ignored.\<close>

definition announce :: "publish_env \<Rightarrow> run_context \<Rightarrow> publication \<Rightarrow> runtime_db \<Rightarrow> unit result \<times> runtime_db" where
  "announce env c p db =
     (case mark_response_published (pb_now env 2) (rc_run_id c) (rc_tenant_id c) db of
        (ignored, db) \<Rightarrow>
          (case append_event (pb_codec env) (pb_now env 3) (pb_uuid env 1) (rc_run_id c) (rc_tenant_id c)
             ET_ASSISTANT_RESPONSE ''response'' (response_event (publication_content env c p)) db of
             (Inl e, db) \<Rightarrow> (Inl e, db)
           | (Inr n, db) \<Rightarrow>
               if run_terminal (effective_status c p)
               then (case append_event (pb_codec env) (pb_now env 4) (pb_uuid env 2) (rc_run_id c) (rc_tenant_id c)
                       ET_TERMINAL_RESPONSE_PUBLISHED ''terminal'' (terminal_event env c p) db of
                       (Inl e, db) \<Rightarrow> (Inl e, db) | (Inr n, db) \<Rightarrow> (Inr (), db))
               else (Inr (), db)))"

definition store_response ::
  "publish_env \<Rightarrow> run_context \<Rightarrow> publication \<Rightarrow> runtime_db \<Rightarrow> message_record result \<times> runtime_db" where
  "store_response env c p db =
     (if run_terminal (effective_status c p)
      then append_assistant_once (message_env_of env) (target_of c) (rc_run_id c) (publication_content env c p) db
      else append_assistant (message_env_of env) (target_of c) (publication_content env c p) (Some (rc_run_id c)) db)"

definition record_reason :: "publish_env \<Rightarrow> run_context \<Rightarrow> publication \<Rightarrow> runtime_db \<Rightarrow> unit result \<times> runtime_db" where
  "record_reason env c p db =
     (if run_terminal (effective_status c p) \<and> publication_reason env c p \<noteq> None
      then (case set_terminal_reason (pb_now env 1) (rc_run_id c) (rc_tenant_id c) (publication_reason env c p) db of
              (Inl e, db) \<Rightarrow> (Inl e, db) | (Inr n, db) \<Rightarrow> (Inr (), db))
      else (Inr (), db))"

definition publish_terminal_response ::
  "publish_env \<Rightarrow> run_context \<Rightarrow> publication \<Rightarrow> runtime_db \<Rightarrow> terminal_response result \<times> runtime_db" where
  "publish_terminal_response env c p db =
     (case store_response env c p db of
        (Inl e, db) \<Rightarrow> (Inl e, db)
      | (Inr m, db) \<Rightarrow>
        (case record_reason env c p db of
           (Inl e, db) \<Rightarrow> (Inl e, db)
         | (Inr u, db) \<Rightarrow>
           (case (if mr_created m then announce env c p db else (Inr (), db)) of
              (Inl e, db) \<Rightarrow> (Inl e, db)
            | (Inr u, db) \<Rightarrow>
                (Inr \<lparr>tp_content = mr_content m, tp_reason_code = publication_reason env c p,
                  tp_retryable = can_retry c p, tp_message = m, tp_published = mr_created m\<rparr>, db))))"

section \<open>What a publication changes\<close>

lemma transaction_messages:
  assumes "transaction db r = (x, db')" "\<And>y d. r = Inr (y, d) \<Longrightarrow> db_messages d = db_messages db"
  shows "db_messages db' = db_messages db"
  using assms by (cases r) auto

lemma update_runs_messages: "update_runs p f db = Inr (n, db') \<Longrightarrow> db_messages db' = db_messages db"
  by (simp add: update_runs_Inr)

lemma record_reason_messages: "record_reason env c p db = (r, db') \<Longrightarrow> db_messages db' = db_messages db"
  unfolding record_reason_def set_terminal_reason_def
  by (auto split: if_splits prod.splits sum.splits dest!: transaction_messages update_runs_messages)

lemma append_event_messages:
  "append_event ec now eid run_id tenant t step payload db = (r, db') \<Longrightarrow> db_messages db' = db_messages db"
  unfolding append_event_def
  by (erule transaction_messages) (auto simp: bind_res_eq_Inr Let_def split: option.splits dest!: insert_event_Inr)

lemma mark_response_messages: "mark_response_published now run_id tenant db = (r, db') \<Longrightarrow> db_messages db' = db_messages db"
  unfolding mark_response_published_def by (erule transaction_messages) (rule update_runs_messages)

lemma announce_messages: "announce env c p db = (r, db') \<Longrightarrow> db_messages db' = db_messages db"
  unfolding announce_def
  by (auto split: if_splits prod.splits sum.splits dest!: append_event_messages mark_response_messages)

lemma publish_messages:
  assumes "publish_terminal_response env c p db = (r, db')"
  obtains q db1 where "store_response env c p db = (q, db1)" "db_messages db' = db_messages db1"
    "\<And>t. r = Inr t \<Longrightarrow> q = Inr (tp_message t) \<and> tp_content t = mr_content (tp_message t) \<and> tp_published t = mr_created (tp_message t)"
proof -
  obtain q db1 where q: "store_response env c p db = (q, db1)" by force
  show ?thesis
  proof (cases q)
    case (Inl e)
    then show ?thesis using assms q by (intro that [OF q]) (auto simp: publish_terminal_response_def)
  next
    case (Inr m)
    obtain u db2 where u: "record_reason env c p db1 = (u, db2)" by force
    then have m2: "db_messages db2 = db_messages db1" by (rule record_reason_messages)
    obtain v db3 where v: "(if mr_created m then announce env c p db2 else (Inr (), db2)) = (v, db3)" by force
    then have m3: "db_messages db3 = db_messages db2" by (auto split: if_splits dest: announce_messages)
    show ?thesis using assms q Inr u v m2 m3
      by (intro that [OF q]) (auto simp: publish_terminal_response_def split: sum.splits)
  qed
qed


lemma publish_history:
  assumes "publish_terminal_response env c p db = (r, db')"
  shows "message_transaction\<^sup>*\<^sup>* db db'"
proof -
  obtain q db1 where q: "store_response env c p db = (q, db1)" "db_messages db' = db_messages db1"
    using assms by (rule publish_messages)
  have "message_transaction db db1"
    using q(1) unfolding store_response_def by (auto split: if_splits intro: message_transaction.intros)
  then show ?thesis using message_transaction.elsewhere [OF q(2)] by (rule converse_rtranclp_into_rtranclp [OF _ r_into_rtranclp])
qed

section \<open>Property\<close>


section \<open>Witness\<close>

definition demo_publish_env :: publish_env where
  "demo_publish_env =
     \<lparr>pb_now = int, pb_uuid = (\<lambda>n. replicate (Suc n) CHR ''m''), pb_sha = (\<lambda>s. ''sha256:''), pb_codec = demo_codec,
      pb_repr = (\<lambda>v. [])\<rparr>"

definition retry_publish_env :: publish_env where
  "retry_publish_env = demo_publish_env\<lparr>pb_uuid := (\<lambda>n. replicate (Suc n) CHR ''n'')\<rparr>"

definition demo_publication :: publication where
  "demo_publication = \<lparr>pu_status = Some RS_COMPLETED, pu_reason = None, pu_preferred = Some '' ok '', pu_retryable = None\<rparr>"

definition retry_publication :: publication where
  "retry_publication = \<lparr>pu_status = Some RS_FAILED, pu_reason = Some ''cancelled'', pu_preferred = Some ''no'', pu_retryable = None\<rparr>"

definition demo_published :: "terminal_response result \<times> runtime_db" where
  "demo_published = publish_terminal_response demo_publish_env demo_new_context demo_publication (snd demo_created)"

lemma demo_published_facts:
  "(case fst demo_published of Inl e \<Rightarrow> False | Inr t \<Rightarrow> tp_content t = ''ok'' \<and> tp_published t)"
  "messages_ok (db_messages (snd demo_created))"
  "run_terminal (effective_status demo_new_context demo_publication)"
  "run_terminal (effective_status demo_new_context retry_publication)"
  by code_simp+

lemma demo_retry: "(case fst (publish_terminal_response retry_publish_env demo_new_context retry_publication (snd demo_published)) of
    Inl e \<Rightarrow> False | Inr t \<Rightarrow> True)"
  by code_simp


end
