(* ===== verification/Release.thy ===== *)
theory Release
  imports RunEvents "HOL-Library.List_Lexorder" "HOL-Library.Char_ord" "HOL-Library.Product_Lexorder"
begin

text \<open>
  Progressive delivery: the guard of \<open>src/release/canary_guard.py\<close>, the traffic assignment of
  \<open>src/release/progressive_delivery.py\<close>, the repository \<open>src/repositories/releases.py\<close> over its own tables
  and the check of \<open>src/release/scheduler.py\<close>. Clocks, UUIDs, the hash function and the reading of a decimal
  number are arguments; a float is a rational number. \<open>release_ids_for_skill\<close> is left out.
\<close>

section \<open>The guard\<close>

record canary_metrics =
  cm_p0_events :: int
  cm_quality_gate :: "bool option"
  cm_safety_gate :: "bool option"
  cm_coverage :: "rat option"
  cm_p95 :: "rat option"
  cm_base_p95 :: "rat option"
  cm_p99 :: "rat option"
  cm_base_p99 :: "rat option"
  cm_cost :: "rat option"
  cm_base_cost :: "rat option"
  cm_handoff_rate :: "rat option"
  cm_base_handoff_rate :: "rat option"
  cm_scope_violation :: bool
  cm_slice_delta :: "rat option"

definition above :: "rat option \<Rightarrow> rat option \<Rightarrow> rat \<Rightarrow> bool" where
  "above v b multiplier = (case (v, b) of (Some v, Some b) \<Rightarrow> b * multiplier < v | _ \<Rightarrow> False)"

definition reason_if :: "bool \<Rightarrow> string \<Rightarrow> string list" where
  "reason_if b r = (if b then [r] else [])"

definition gate_reason :: "bool option \<Rightarrow> string \<Rightarrow> string \<Rightarrow> string list" where
  "gate_reason gate failed incomplete =
     (case gate of Some True \<Rightarrow> [] | Some False \<Rightarrow> [failed] | None \<Rightarrow> [incomplete])"

definition evaluate_canary :: "canary_metrics \<Rightarrow> string list" where
  "evaluate_canary m =
     gate_reason (cm_quality_gate m) ''quality_gate_failed'' ''quality_gate_incomplete'' @
     gate_reason (cm_safety_gate m) ''safety_gate_failed'' ''safety_gate_incomplete'' @
     reason_if (0 < cm_p0_events m) ''p0_safety_event'' @
     reason_if (case cm_coverage m of None \<Rightarrow> True | Some c \<Rightarrow> c < 1) ''terminal_response_coverage_below_100_percent'' @
     reason_if (above (cm_p95 m) (cm_base_p95 m) (115 / 100)) ''p95_e2e_above_15_percent'' @
     reason_if (above (cm_p99 m) (cm_base_p99 m) (125 / 100)) ''p99_e2e_above_25_percent'' @
     reason_if (above (cm_cost m) (cm_base_cost m) (110 / 100)) ''p95_cost_above_10_percent'' @
     reason_if (above (cm_handoff_rate m) (cm_base_handoff_rate m) (120 / 100)) ''low_risk_handoff_rate_regression'' @
     reason_if (cm_scope_violation m) ''skill_scope_violation'' @
     reason_if (case cm_slice_delta m of None \<Rightarrow> False | Some d \<Rightarrow> d < 0) ''skill_target_slice_quality_regression''"

definition canary_stops :: "canary_metrics \<Rightarrow> bool" where
  "canary_stops m \<longleftrightarrow> evaluate_canary m \<noteq> []"

definition release_stages :: "(string \<times> int) list" where
  "release_stages = [(''SHADOW'', 0), (''CANARY_5'', 5), (''CANARY_25'', 25), (''CANARY_50'', 50), (''FULL'', 100)]"

record stage_transition =
  sn_stage :: string
  sn_status :: string
  sn_traffic :: int
  sn_rollback :: "string option"
  sn_reasons :: "string list"

definition stop_transition :: "string \<Rightarrow> string list \<Rightarrow> stage_transition" where
  "stop_transition version reasons =
     \<lparr>sn_stage = ''STOPPED'', sn_status = ''STOPPED'', sn_traffic = 0, sn_rollback = Some version, sn_reasons = reasons\<rparr>"

fun following_stage :: "string \<Rightarrow> (string \<times> int) list \<Rightarrow> (string \<times> int) option" where
  "following_stage s (x # y # xs) = (if fst x = s then Some y else following_stage s (y # xs))"
| "following_stage s _ = None"

definition transition_stage :: "string \<Rightarrow> string \<Rightarrow> canary_metrics \<Rightarrow> stage_transition" where
  "transition_stage stage version m =
     (if canary_stops m then stop_transition version (evaluate_canary m)
      else if stage \<notin> fst ` set release_stages then stop_transition version [''unknown_release_stage'']
      else case following_stage stage release_stages of
          None \<Rightarrow> \<lparr>sn_stage = ''FULL'', sn_status = ''COMPLETED'', sn_traffic = 100, sn_rollback = None, sn_reasons = []\<rparr>
        | Some (s, traffic) \<Rightarrow>
            \<lparr>sn_stage = s, sn_status = ''ACTIVE'', sn_traffic = traffic, sn_rollback = None, sn_reasons = []\<rparr>)"

section \<open>Assigning traffic\<close>

record traffic_request =
  tq_tenant :: string
  tq_actor :: string
  tq_run :: string
  tq_conversation :: string
  tq_current :: string
  tq_candidate :: string
  tq_stage :: string
  tq_status :: string
  tq_risk_level :: request_risk_level
  tq_risk_hint :: risk_hint
  tq_runtime_available :: bool
  tq_skill_approved :: "bool option"

record traffic_assignment =
  ta_current :: string
  ta_candidate :: string
  ta_selected :: string
  ta_mode :: string
  ta_bucket :: int
  ta_percent :: int
  ta_reason :: string
  ta_allowed :: bool

definition canary_percent :: "string \<Rightarrow> int" where
  "canary_percent stage = dget_or release_stages stage 0"

text \<open>The digest is a list of bytes; the first eight are read as a big-endian number.\<close>

definition stable_bucket :: "(string \<Rightarrow> nat list) \<Rightarrow> string \<Rightarrow> string \<Rightarrow> string \<Rightarrow> int" where
  "stable_bucket sha tenant actor conversation =
     int (foldl (\<lambda>a b. a * 256 + b) 0 (take 8 (sha (tenant @ ''|'' @ actor @ ''|'' @ conversation))) mod 100)"

definition bucket_of :: "(string \<Rightarrow> nat list) \<Rightarrow> traffic_request \<Rightarrow> int" where
  "bucket_of sha q = stable_bucket sha (tq_tenant q) (tq_actor q) (tq_conversation q)"

definition keep_current :: "(string \<Rightarrow> nat list) \<Rightarrow> traffic_request \<Rightarrow> string \<Rightarrow> string \<Rightarrow> traffic_assignment" where
  "keep_current sha q mode reason =
     \<lparr>ta_current = tq_current q, ta_candidate = tq_candidate q, ta_selected = tq_current q, ta_mode = mode,
      ta_bucket = bucket_of sha q, ta_percent = canary_percent (tq_stage q), ta_reason = reason, ta_allowed = False\<rparr>"

definition assign_traffic :: "(string \<Rightarrow> nat list) \<Rightarrow> traffic_request \<Rightarrow> traffic_assignment" where
  "assign_traffic sha q =
     (if tq_status q \<noteq> ''ACTIVE'' then keep_current sha q ''current'' ''release_not_active''
      else if tq_stage q = ''SHADOW'' then keep_current sha q ''shadow'' ''shadow_never_changes_user_visible_result''
      else if \<not> tq_runtime_available q then keep_current sha q ''current'' ''candidate_runtime_unavailable''
      else if tq_skill_approved q = Some False then keep_current sha q ''current'' ''candidate_skill_not_approved''
      else if tq_risk_level q \<noteq> RL_LOW \<or> tq_risk_hint q = RH_WRITE
      then keep_current sha q ''current'' ''risk_boundary_pins_current_version''
      else if tq_candidate q \<noteq> [] \<and> bucket_of sha q < canary_percent (tq_stage q)
      then \<lparr>ta_current = tq_current q, ta_candidate = tq_candidate q, ta_selected = tq_candidate q, ta_mode = ''canary'',
            ta_bucket = bucket_of sha q, ta_percent = canary_percent (tq_stage q),
            ta_reason = ''stable_canary_bucket_selected'', ta_allowed = True\<rparr>
      else keep_current sha q ''current'' ''stable_canary_bucket_kept_current'')"

record release_comparison =
  rk_current_route :: "string option"
  rk_candidate_route :: "string option"
  rk_current_policy :: "string option"
  rk_candidate_policy :: "string option"
  rk_current_skill :: "string option"
  rk_candidate_skill :: "string option"
  rk_cost_delta :: "rat option"
  rk_runtime_available :: bool
  rk_execution_allowed :: bool

definition opt_text :: "string option \<Rightarrow> pyval" where
  "opt_text s = (case s of None \<Rightarrow> PNone | Some s \<Rightarrow> PStr s)"

definition build_release_comparison :: "release_comparison \<Rightarrow> pydict" where
  "build_release_comparison k =
     [(''current_route'', opt_text (rk_current_route k)), (''candidate_route'', opt_text (rk_candidate_route k)),
      (''current_response_policy'', opt_text (rk_current_policy k)),
      (''candidate_response_policy'', opt_text (rk_candidate_policy k)),
      (''current_skill'', opt_text (rk_current_skill k)), (''candidate_skill'', opt_text (rk_candidate_skill k)),
      (''estimated_cost_delta_microusd'', case rk_cost_delta k of None \<Rightarrow> PNone | Some c \<Rightarrow> PFloat c),
      (''candidate_runtime_available'', PBool (rk_runtime_available k)),
      (''candidate_execution_allowed'', PBool (rk_execution_allowed k)),
      (''observation_only'', PBool (\<not> rk_execution_allowed k))]"

section \<open>The tables\<close>

record release_row =
  rl_release_id :: string
  rl_tenant_id :: string
  rl_owner_ref :: string
  rl_current :: string
  rl_candidate :: string
  rl_stage :: string
  rl_status :: string
  rl_traffic :: int
  rl_started :: "int option"
  rl_ends :: "int option"
  rl_gates :: pydict
  rl_stop_reason :: "string option"
  rl_rollback :: "string option"
  rl_created_at :: int
  rl_updated_at :: int

record release_event_row =
  rv_event_id :: string
  rv_release_id :: string
  rv_type :: string
  rv_actor_ref :: string
  rv_payload :: pydict
  rv_created_at :: int

record assignment_row =
  as_assignment_id :: string
  as_release_id :: string
  as_tenant_id :: string
  as_run_id :: string
  as_actor_hash :: string
  as_conversation_hash :: string
  as_traffic :: traffic_assignment
  as_risk_level :: string
  as_risk_hint :: string
  as_reason :: string
  as_comparison :: pydict
  as_created_at :: int

record registration_row =
  rg_registration_id :: string
  rg_tenant_id :: string
  rg_version :: string
  rg_hash :: string
  rg_status :: string
  rg_metadata :: pydict
  rg_created_at :: int
  rg_retired_at :: "int option"

text \<open>\<open>rd_cost\<close> is the column \<open>total_cost_microusd\<close> of a run.\<close>

record release_db =
  rd_releases :: "release_row list"
  rd_events :: "release_event_row list"
  rd_assignments :: "assignment_row list"
  rd_registrations :: "registration_row list"
  rd_runtime :: runtime_db
  rd_cost :: "string \<Rightarrow> int option"

record release_env =
  en_now :: int
  en_check :: int
  en_start :: int
  en_release_id :: string
  en_event_id :: string
  en_row_id :: string
  en_hash :: "string \<Rightarrow> string"
  en_float :: "string \<Rightarrow> rat option"

definition insert_release :: "release_row \<Rightarrow> release_db \<Rightarrow> release_db result" where
  "insert_release r db =
     (if \<not> (py_len (rl_tenant_id r) \<le> 64 \<and> py_len (rl_owner_ref r) \<le> 128 \<and> py_len (rl_current r) \<le> 128 \<and>
            py_len (rl_candidate r) \<le> 128) then Inl (OtherError ''DataError'')
      else if rl_release_id r \<in> set (map rl_release_id (rd_releases db)) then Inl IntegrityError
      else Inr (db\<lparr>rd_releases := rd_releases db @ [r]\<rparr>))"

definition release_event :: "release_env \<Rightarrow> string \<Rightarrow> string \<Rightarrow> string \<Rightarrow> pydict \<Rightarrow> release_db \<Rightarrow> release_db result" where
  "release_event env release_id event_type actor payload db =
     (if \<not> (py_len event_type \<le> 64 \<and> py_len actor \<le> 128) then Inl (OtherError ''DataError'')
      else if en_event_id env \<in> set (map rv_event_id (rd_events db)) then Inl IntegrityError
      else Inr (db\<lparr>rd_events := rd_events db @
        [\<lparr>rv_event_id = en_event_id env, rv_release_id = release_id, rv_type = event_type, rv_actor_ref = actor,
          rv_payload = payload, rv_created_at = en_now env\<rparr>]\<rparr>))"

section \<open>Reading\<close>

record release_view =
  rx_row :: release_row
  rx_events :: "release_event_row list"
  rx_assignments :: "assignment_row list"

definition is_release :: "string \<Rightarrow> string \<Rightarrow> release_row \<Rightarrow> bool" where
  "is_release tenant release_id r \<longleftrightarrow> rl_tenant_id r = tenant \<and> rl_release_id r = release_id"

definition get_release :: "string \<Rightarrow> string \<Rightarrow> release_db \<Rightarrow> release_view option" where
  "get_release tenant release_id db =
     map_option (\<lambda>r. \<lparr>rx_row = r,
        rx_events = take 100 (sort_key (\<lambda>e. - rv_created_at e)
          (filter (\<lambda>e. rv_release_id e = release_id) (rd_events db))),
        rx_assignments = take 100 (sort_key (\<lambda>a. - as_created_at a)
          (filter (\<lambda>a. as_release_id a = release_id) (rd_assignments db)))\<rparr>)
       (select_one (is_release tenant release_id) (rd_releases db))"

definition list_releases :: "string \<Rightarrow> int \<Rightarrow> release_db \<Rightarrow> release_row list" where
  "list_releases tenant limit db =
     take (nat (max 1 (min limit 500)))
       (sort_key (\<lambda>r. - rl_updated_at r) (filter (\<lambda>r. rl_tenant_id r = tenant) (rd_releases db)))"

definition latest_active :: "string \<Rightarrow> release_db \<Rightarrow> release_row option" where
  "latest_active tenant db =
     (case sort_key (\<lambda>r. - rl_updated_at r)
        (filter (\<lambda>r. rl_tenant_id r = tenant \<and> rl_status r = ''ACTIVE'') (rd_releases db)) of
        [] \<Rightarrow> None | r # _ \<Rightarrow> Some r)"

definition runtime_available :: "string \<Rightarrow> string \<Rightarrow> release_db \<Rightarrow> bool" where
  "runtime_available tenant version db =
     list_ex (\<lambda>g. rg_tenant_id g = tenant \<and> rg_version g = version \<and> rg_status g = ''ACTIVE'') (rd_registrations db)"

definition due_for_evaluation :: "int \<Rightarrow> string \<Rightarrow> release_db \<Rightarrow> release_row list" where
  "due_for_evaluation now tenant db =
     sort_key (\<lambda>r. (rl_updated_at r, rl_release_id r))
       (filter (\<lambda>r. rl_tenant_id r = tenant \<and> rl_status r = ''ACTIVE'' \<and>
          (case rl_ends r of None \<Rightarrow> True | Some e \<Rightarrow> e \<le> now)) (rd_releases db))"

section \<open>Registering and assigning\<close>

definition register_runtime ::
  "release_env \<Rightarrow> string \<Rightarrow> string \<Rightarrow> string \<Rightarrow> pydict \<Rightarrow> release_db \<Rightarrow> string result \<times> release_db" where
  "register_runtime env tenant version runtime_hash metadata db = atomic db
     (if version = [] \<or> runtime_hash = [] then Inl (ValueError ''runtime_identity_required'')
      else case select_one (\<lambda>g. rg_tenant_id g = tenant \<and> rg_version g = version) (rd_registrations db) of
        Some g \<Rightarrow>
          if rg_hash g \<noteq> runtime_hash then Inl (ReleaseTransitionError ''runtime_definition_conflict'')
          else Inr (rg_registration_id g, db\<lparr>rd_registrations :=
            update_rows (\<lambda>x. rg_registration_id x = rg_registration_id g)
              (\<lambda>x. x\<lparr>rg_status := ''ACTIVE'', rg_retired_at := None, rg_metadata := metadata\<rparr>) (rd_registrations db)\<rparr>)
      | None \<Rightarrow>
          if \<not> (py_len tenant \<le> 64 \<and> py_len version \<le> 128 \<and> py_len runtime_hash \<le> 128) then Inl (OtherError ''DataError'')
          else if en_row_id env \<in> set (map rg_registration_id (rd_registrations db)) then Inl IntegrityError
          else Inr (en_row_id env, db\<lparr>rd_registrations := rd_registrations db @
            [\<lparr>rg_registration_id = en_row_id env, rg_tenant_id = tenant, rg_version = version, rg_hash = runtime_hash,
              rg_status = ''ACTIVE'', rg_metadata = metadata, rg_created_at = en_now env, rg_retired_at = None\<rparr>]\<rparr>))"

record assignment_request =
  aq_tenant_id :: string
  aq_release_id :: string
  aq_run_id :: string
  aq_actor_id :: string
  aq_conversation_id :: string
  aq_assignment :: traffic_assignment
  aq_risk_level :: string
  aq_risk_hint :: string
  aq_comparison :: "pydict option"

definition assignment_of :: "release_env \<Rightarrow> assignment_request \<Rightarrow> assignment_row" where
  "assignment_of env q =
     \<lparr>as_assignment_id = en_row_id env, as_release_id = aq_release_id q, as_tenant_id = aq_tenant_id q,
      as_run_id = aq_run_id q, as_actor_hash = en_hash env (aq_actor_id q),
      as_conversation_hash = en_hash env (aq_conversation_id q), as_traffic = aq_assignment q,
      as_risk_level = aq_risk_level q, as_risk_hint = aq_risk_hint q,
      as_reason = slice_to (ta_reason (aq_assignment q)) 128,
      as_comparison = (case aq_comparison q of None \<Rightarrow> [] | Some c \<Rightarrow> c), as_created_at = en_now env\<rparr>"

definition assignment_widths :: "assignment_row \<Rightarrow> bool" where
  "assignment_widths a \<longleftrightarrow>
     py_len (as_tenant_id a) \<le> 64 \<and> py_len (as_actor_hash a) \<le> 80 \<and> py_len (as_conversation_hash a) \<le> 80 \<and>
     py_len (ta_current (as_traffic a)) \<le> 128 \<and> py_len (ta_candidate (as_traffic a)) \<le> 128 \<and>
     py_len (ta_selected (as_traffic a)) \<le> 128 \<and> py_len (ta_mode (as_traffic a)) \<le> 16 \<and>
     py_len (as_risk_level a) \<le> 16 \<and> py_len (as_risk_hint a) \<le> 16"

definition assignment_checks :: "assignment_row \<Rightarrow> bool" where
  "assignment_checks a \<longleftrightarrow> ta_mode (as_traffic a) \<in> {''current'', ''shadow'', ''canary''} \<and>
     0 \<le> ta_bucket (as_traffic a) \<and> ta_bucket (as_traffic a) \<le> 99 \<and>
     0 \<le> ta_percent (as_traffic a) \<and> ta_percent (as_traffic a) \<le> 100"

text \<open>The first assignment of a run to a release stays; a later one may only replace its comparison.\<close>

definition record_assignment ::
  "release_env \<Rightarrow> assignment_request \<Rightarrow> release_db \<Rightarrow> string result \<times> release_db" where
  "record_assignment env q db = atomic db
     (let a = assignment_of env q; same = (\<lambda>x. as_release_id x = aq_release_id q \<and> as_run_id x = aq_run_id q) in
      if select_one (is_release (aq_tenant_id q) (aq_release_id q)) (rd_releases db) = None \<or>
         load_run_row (aq_run_id q) (aq_tenant_id q) (rd_runtime db) = None
      then Inl (ReleaseTransitionError ''release_or_run_not_owned'')
      else if \<not> assignment_widths a then Inl (OtherError ''DataError'')
      else if \<not> assignment_checks a then Inl IntegrityError
      else case select_one same (rd_assignments db) of
          Some x \<Rightarrow> Inr (as_assignment_id x, db\<lparr>rd_assignments :=
            update_rows same (\<lambda>x. case aq_comparison q of None \<Rightarrow> x | Some c \<Rightarrow> x\<lparr>as_comparison := c\<rparr>) (rd_assignments db)\<rparr>)
        | None \<Rightarrow>
            if as_assignment_id a \<in> set (map as_assignment_id (rd_assignments db)) then Inl IntegrityError
            else Inr (as_assignment_id a, db\<lparr>rd_assignments := rd_assignments db @ [a]\<rparr>))"

section \<open>Creating, stopping and advancing\<close>

definition day :: int where
  "day = 24 * 60 * 60 * 1000000"

definition shadow_release :: "release_env \<Rightarrow> string \<Rightarrow> string \<Rightarrow> string \<Rightarrow> string \<Rightarrow> pydict \<Rightarrow> release_row" where
  "shadow_release env tenant owner current candidate gates =
     \<lparr>rl_release_id = en_release_id env, rl_tenant_id = tenant, rl_owner_ref = owner, rl_current = current,
      rl_candidate = candidate, rl_stage = ''SHADOW'', rl_status = ''ACTIVE'', rl_traffic = 0,
      rl_started = Some (en_now env), rl_ends = Some (en_start env + day), rl_gates = gates, rl_stop_reason = None,
      rl_rollback = None, rl_created_at = en_now env, rl_updated_at = en_now env\<rparr>"

definition create_release ::
  "release_env \<Rightarrow> string \<Rightarrow> string \<Rightarrow> string \<Rightarrow> string \<Rightarrow> pydict \<Rightarrow> release_db \<Rightarrow>
   release_view option result \<times> release_db" where
  "create_release env tenant owner current candidate gates db = atomic db
     (bind_res (insert_release (shadow_release env tenant owner current candidate gates) db) (\<lambda>db.
      bind_res (release_event env (en_release_id env) ''created'' owner
         [(''stage'', PStr ''SHADOW''), (''traffic_percent'', PInt 0)] db) (\<lambda>db.
      Inr (get_release tenant (en_release_id env) db, db))))"

definition stopped_release :: "release_env \<Rightarrow> string \<Rightarrow> release_row \<Rightarrow> release_row" where
  "stopped_release env reason r =
     r\<lparr>rl_stage := ''STOPPED'', rl_status := ''STOPPED'', rl_traffic := 0, rl_stop_reason := Some (slice_to reason 128),
       rl_updated_at := en_now env\<rparr>"

definition stop_release ::
  "release_env \<Rightarrow> string \<Rightarrow> string \<Rightarrow> string \<Rightarrow> string \<Rightarrow> release_db \<Rightarrow> release_view option result \<times> release_db" where
  "stop_release env tenant release_id actor reason db = atomic db
     (let active = (\<lambda>r. is_release tenant release_id r \<and> rl_status r = ''ACTIVE'') in
      if \<not> nonblank reason then Inl (ReleaseTransitionError ''stop_reason_required'')
      else if row_count active (rd_releases db) = 0 then Inl (ReleaseTransitionError ''release_not_active'')
      else bind_res (release_event env release_id ''stopped'' actor [(''reason'', PStr (slice_to reason 128))]
             (db\<lparr>rd_releases := update_rows active (stopped_release env reason) (rd_releases db)\<rparr>)) (\<lambda>db.
           Inr (get_release tenant release_id db, db)))"

definition observation_start :: "release_env \<Rightarrow> stage_transition \<Rightarrow> int option" where
  "observation_start env x =
     (if sn_status x = ''ACTIVE'' \<and> sn_stage x \<noteq> ''FULL'' \<or> sn_status x = ''COMPLETED'' then Some (en_start env) else None)"

definition observation_end :: "release_env \<Rightarrow> stage_transition \<Rightarrow> int option" where
  "observation_end env x =
     (if sn_status x = ''ACTIVE'' \<and> sn_stage x \<noteq> ''FULL'' then Some (en_start env + day) else None)"

definition join_reasons :: "string list \<Rightarrow> string option" where
  "join_reasons rs = (case slice_to (join_with '','' rs) 128 of [] \<Rightarrow> None | s \<Rightarrow> Some s)"

definition moved_release :: "release_env \<Rightarrow> stage_transition \<Rightarrow> release_row \<Rightarrow> release_row" where
  "moved_release env x r =
     r\<lparr>rl_stage := sn_stage x, rl_status := sn_status x, rl_traffic := sn_traffic x, rl_rollback := sn_rollback x,
       rl_stop_reason := join_reasons (sn_reasons x),
       rl_started := (case observation_start env x of None \<Rightarrow> rl_started r | s \<Rightarrow> s),
       rl_ends := observation_end env x, rl_updated_at := en_now env\<rparr>"

definition evaluate_and_advance ::
  "release_env \<Rightarrow> string \<Rightarrow> string \<Rightarrow> string \<Rightarrow> canary_metrics \<Rightarrow> release_db \<Rightarrow>
   release_view option result \<times> release_db" where
  "evaluate_and_advance env tenant release_id actor m db = atomic db
     (case select_one (is_release tenant release_id) (rd_releases db) of
        None \<Rightarrow> Inl (ReleaseTransitionError ''release_not_found'')
      | Some r \<Rightarrow>
          if rl_status r \<noteq> ''ACTIVE'' then Inl (ReleaseTransitionError ''release_not_active'')
          else if \<not> runtime_available tenant (rl_candidate r) db
          then Inl (ReleaseTransitionError ''candidate_runtime_unavailable'')
          else if (case rl_ends r of None \<Rightarrow> False | Some e \<Rightarrow> en_check env < e)
          then Inl (ReleaseTransitionError ''observation_window_not_finished'')
          else (let x = transition_stage (rl_stage r) (rl_current r) m in
            bind_res (release_event env release_id ''stage_evaluated'' actor
              [(''stage'', PStr (sn_stage x)), (''status'', PStr (sn_status x)), (''traffic_percent'', PInt (sn_traffic x)),
               (''reasons'', PList (map PStr (sn_reasons x)))]
              (db\<lparr>rd_releases := update_rows (is_release tenant release_id) (moved_release env x) (rd_releases db)\<rparr>)) (\<lambda>db.
            Inr (get_release tenant release_id db, db))))"

section \<open>The evidence\<close>

fun number_of :: "(string \<Rightarrow> rat option) \<Rightarrow> pyval option \<Rightarrow> rat option" where
  "number_of read (Some (PInt i)) = Some (of_int i)"
| "number_of read (Some (PFloat x)) = Some x"
| "number_of read (Some (PStr s)) = read s"
| "number_of read _ = None"

text \<open>\<open>percentile_cont(p)\<close>: linear interpolation between the neighbours of position \<open>p * (n - 1)\<close>.\<close>

definition percentile_cont :: "rat \<Rightarrow> rat list \<Rightarrow> rat option" where
  "percentile_cont p values =
     (if values = [] then None
      else (let xs = sort values; pos = p * of_nat (length xs - 1); lo = xs ! nat \<lfloor>pos\<rfloor>; hi = xs ! nat \<lceil>pos\<rceil>
            in Some (lo + (hi - lo) * (pos - of_int \<lfloor>pos\<rfloor>))))"

definition observed_since :: "int \<Rightarrow> release_row \<Rightarrow> int" where
  "observed_since now r = (case rl_started r of None \<Rightarrow> now - day | Some s \<Rightarrow> s)"

definition candidate_assignments :: "int \<Rightarrow> release_row \<Rightarrow> release_db \<Rightarrow> assignment_row list" where
  "candidate_assignments now r db =
     filter (\<lambda>a. as_tenant_id a = rl_tenant_id r \<and> as_release_id a = rl_release_id r \<and>
        ta_mode (as_traffic a) \<in> {''shadow'', ''canary''} \<and> observed_since now r \<le> as_created_at a) (rd_assignments db)"

definition candidate_runs :: "int \<Rightarrow> release_row \<Rightarrow> release_db \<Rightarrow> run_row list" where
  "candidate_runs now r db =
     filter (\<lambda>x. rr_run_id x \<in> set (map as_run_id (candidate_assignments now r db)) \<and> rr_tenant_id x = rl_tenant_id r)
       (db_runs (rd_runtime db))"

definition latency_ms :: "run_row \<Rightarrow> rat list" where
  "latency_ms x =
     (case (rt_accepted_at (rr_times x), rt_response_published_at (rr_times x)) of
        (Some a, Some p) \<Rightarrow> [of_int (p - a) / 1000] | _ \<Rightarrow> [])"

definition run_cost :: "release_db \<Rightarrow> run_row \<Rightarrow> rat list" where
  "run_cost db x = (case rd_cost db (rr_run_id x) of None \<Rightarrow> [] | Some c \<Rightarrow> [of_int c])"

definition published_runs :: "int \<Rightarrow> release_row \<Rightarrow> release_db \<Rightarrow> string list" where
  "published_runs now r db =
     remdups (map ew_run_id (filter (\<lambda>e. ew_type e = ''terminal_response_published'' \<and>
        ew_run_id e \<in> set (map rr_run_id (candidate_runs now r db))) (db_events (rd_runtime db))))"

definition has_text :: "pyval \<Rightarrow> string \<Rightarrow> string \<Rightarrow> bool" where
  "has_text v k s = (case v of PDict d \<Rightarrow> dget d k = Some (PStr s) | _ \<Rightarrow> False)"

definition p0_event :: "event_row \<Rightarrow> bool" where
  "p0_event e \<longleftrightarrow> ew_type e = ''safety_routed'' \<and> has_text (ew_payload e) ''risk_level'' ''high'' \<and>
     has_text (ew_payload e) ''disposition'' ''continue''"

definition p0_pairs :: "int \<Rightarrow> release_row \<Rightarrow> release_db \<Rightarrow> (event_row \<times> assignment_row) list" where
  "p0_pairs now r db =
     filter (\<lambda>(e, a). as_run_id a = ew_run_id e \<and> p0_event e)
       (List.product (db_events (rd_runtime db)) (candidate_assignments now r db))"

definition low_risk_runs :: "int \<Rightarrow> release_row \<Rightarrow> release_db \<Rightarrow> string list" where
  "low_risk_runs now r db =
     remdups (map as_run_id (filter (\<lambda>a. as_risk_level a = ''low'') (candidate_assignments now r db)))"

definition handed_off :: "release_db \<Rightarrow> string \<Rightarrow> bool" where
  "handed_off db run_id = list_ex (\<lambda>e. ew_run_id e = run_id \<and> ew_type e = ''handoff_created'') (db_events (rd_runtime db))"

definition ratio_or_zero :: "nat \<Rightarrow> nat \<Rightarrow> rat" where
  "ratio_or_zero a b = (if b = 0 then 0 else of_nat a / of_nat b)"

fun gate_value :: "pyval option \<Rightarrow> bool option" where
  "gate_value (Some (PBool b)) = Some b"
| "gate_value _ = None"

definition metrics_of :: "(string \<Rightarrow> rat option) \<Rightarrow> int \<Rightarrow> release_row \<Rightarrow> release_db \<Rightarrow> canary_metrics" where
  "metrics_of read now r db =
     (let runs = candidate_runs now r db; p0 = length (p0_pairs now r db); low = low_risk_runs now r db;
          latencies = concat (map latency_ms runs); gates = rl_gates r;
          baseline = (case dget gates ''baseline'' of Some (PDict b) \<Rightarrow> b | _ \<Rightarrow> gates);
          base = (\<lambda>k. number_of read (dget baseline k))
      in \<lparr>cm_p0_events = int p0, cm_quality_gate = gate_value (dget gates ''quality_gate_pass''),
          cm_safety_gate = (case gate_value (dget gates ''safety_gate_pass'') of
             Some b \<Rightarrow> Some b | None \<Rightarrow> if 0 < p0 then Some False else None),
          cm_coverage = Some (ratio_or_zero (length (published_runs now r db)) (length runs)),
          cm_p95 = percentile_cont (95 / 100) latencies, cm_base_p95 = base ''p95_e2e_ms'',
          cm_p99 = percentile_cont (99 / 100) latencies, cm_base_p99 = base ''p99_e2e_ms'',
          cm_cost = percentile_cont (95 / 100) (concat (map (run_cost db) runs)), cm_base_cost = base ''p95_cost_microusd'',
          cm_handoff_rate = Some (ratio_or_zero (length (filter (handed_off db) low)) (length low)),
          cm_base_handoff_rate = base ''low_risk_handoff_rate'', cm_scope_violation = False, cm_slice_delta = None\<rparr>)"

definition release_metrics ::
  "(string \<Rightarrow> rat option) \<Rightarrow> int \<Rightarrow> string \<Rightarrow> string \<Rightarrow> release_db \<Rightarrow> canary_metrics result" where
  "release_metrics read now tenant release_id db =
     (case select_one (is_release tenant release_id) (rd_releases db) of
        None \<Rightarrow> Inl (ReleaseTransitionError ''release_not_found'') | Some r \<Rightarrow> Inr (metrics_of read now r db))"

section \<open>The scheduler\<close>

record scheduler_result =
  sr_release_id :: string
  sr_status :: string
  sr_stage :: "string option"
  sr_error :: "string option"

definition check_release ::
  "int \<Rightarrow> release_env \<Rightarrow> string \<Rightarrow> string \<Rightarrow> string \<Rightarrow> release_db \<Rightarrow> release_view option result \<times> release_db" where
  "check_release now env tenant actor release_id db =
     (case release_metrics (en_float env) now tenant release_id db of
        Inl e \<Rightarrow> (Inl e, db) | Inr m \<Rightarrow> evaluate_and_advance env tenant release_id actor m db)"

definition scheduler_report :: "string \<Rightarrow> release_view option result \<Rightarrow> scheduler_result result" where
  "scheduler_report release_id r =
     (case r of
        Inr None \<Rightarrow> Inr \<lparr>sr_release_id = release_id, sr_status = ''unknown'', sr_stage = None, sr_error = None\<rparr>
      | Inr (Some v) \<Rightarrow> Inr \<lparr>sr_release_id = release_id, sr_status = rl_status (rx_row v),
          sr_stage = (if rl_stage (rx_row v) = [] then None else Some (rl_stage (rx_row v))), sr_error = None\<rparr>
      | Inl (ReleaseTransitionError e) \<Rightarrow>
          Inr \<lparr>sr_release_id = release_id, sr_status = ''not_transitioned'', sr_stage = None, sr_error = Some e\<rparr>
      | Inl e \<Rightarrow> Inl e)"

text \<open>The releases that are due, one after the other; \<open>clock\<close> gives each its clocks. Another error ends the tick.\<close>

fun run_due ::
  "(nat \<Rightarrow> int \<times> release_env) \<Rightarrow> string \<Rightarrow> string \<Rightarrow> string list \<Rightarrow> nat \<Rightarrow> release_db \<Rightarrow>
   scheduler_result list result \<times> release_db" where
  "run_due clock tenant actor [] i db = (Inr [], db)"
| "run_due clock tenant actor (x # xs) i db =
     (case check_release (fst (clock i)) (snd (clock i)) tenant actor x db of
        (r, db) \<Rightarrow>
          (case scheduler_report x r of
             Inl e \<Rightarrow> (Inl e, db)
           | Inr s \<Rightarrow> (case run_due clock tenant actor xs (i + 1) db of
               (Inl e, db) \<Rightarrow> (Inl e, db) | (Inr ss, db) \<Rightarrow> (Inr (s # ss), db))))"

definition run_once ::
  "bool \<Rightarrow> (nat \<Rightarrow> int \<times> release_env) \<Rightarrow> string \<Rightarrow> string \<Rightarrow> release_db \<Rightarrow> scheduler_result list result \<times> release_db" where
  "run_once busy clock tenant actor db =
     (if busy then (Inr [], db)
      else run_due clock tenant actor (map rl_release_id (due_for_evaluation (fst (clock 0)) tenant db)) 1 db)"

section \<open>Histories\<close>

text \<open>A history of the release tables with the clock of the workers, which does not run backwards.\<close>

inductive release_tick :: "int \<times> release_db \<Rightarrow> int \<times> release_db \<Rightarrow> bool" where
  wait: "t \<le> t' \<Longrightarrow> release_tick (t, db) (t', db)"
| create: "t \<le> en_start env \<Longrightarrow> create_release env tenant owner current candidate gates db = (r, db') \<Longrightarrow>
    release_tick (t, db) (en_start env, db')"
| stop: "t \<le> en_start env \<Longrightarrow> stop_release env tenant release_id actor reason db = (r, db') \<Longrightarrow>
    release_tick (t, db) (en_start env, db')"
| evaluate: "t \<le> en_check env \<Longrightarrow> en_check env \<le> en_start env \<Longrightarrow>
    evaluate_and_advance env tenant release_id actor m db = (r, db') \<Longrightarrow> release_tick (t, db) (en_start env, db')"
| register: "t \<le> en_start env \<Longrightarrow> register_runtime env tenant version runtime_hash metadata db = (u, db') \<Longrightarrow>
    release_tick (t, db) (en_start env, db')"
| assign: "t \<le> en_start env \<Longrightarrow> record_assignment env q db = (u, db') \<Longrightarrow> release_tick (t, db) (en_start env, db')"
| elsewhere: "rd_releases db' = rd_releases db \<Longrightarrow> release_tick (t, db) (t, db')"

lemma atomic_releases:
  assumes "atomic db r = (x, db')" "\<And>y d. r = Inr (y, d) \<Longrightarrow> P (rd_releases d)" "P (rd_releases db)"
  shows "P (rd_releases db')"
  using assms by (auto simp: atomic_def split: sum.splits)

lemma release_event_releases: "release_event env release_id ty actor payload db = Inr db' \<Longrightarrow> rd_releases db' = rd_releases db"
  by (auto simp: release_event_def split: if_splits)

text \<open>A transaction leaves a row as it is, stops it or moves it by its own transition; new rows have new ids.\<close>

definition move_of :: "int \<Rightarrow> release_row \<Rightarrow> release_row \<Rightarrow> bool" where
  "move_of t r r' \<longleftrightarrow> rl_status r = ''ACTIVE'' \<and>
     ((\<exists>env reason. r' = stopped_release env reason r) \<or>
      (\<exists>env m. r' = moved_release env (transition_stage (rl_stage r) (rl_current r) m) r \<and> en_start env = t \<and>
         (case rl_ends r of None \<Rightarrow> True | Some e \<Rightarrow> e \<le> t)))"

definition rows_move :: "int \<Rightarrow> release_row list \<Rightarrow> release_row list \<Rightarrow> bool" where
  "rows_move t rows rows' \<longleftrightarrow> distinct (map rl_release_id rows') \<and>
     (\<exists>f new. rows' = map f rows @ new \<and> (\<forall>r\<in>set rows. f r = r \<or> move_of t r (f r)))"

lemma rows_move_refl: "distinct (map rl_release_id rows) \<Longrightarrow> rows_move t rows rows"
  unfolding rows_move_def by (intro conjI exI [of _ "\<lambda>x. x"] exI [of _ "[]"]) simp_all

definition identity_of :: "release_row \<Rightarrow> string \<times> string \<times> string \<times> string" where
  "identity_of r = (rl_release_id r, rl_tenant_id r, rl_current r, rl_candidate r)"

lemma move_of_identity: "move_of t r r' \<Longrightarrow> identity_of r' = identity_of r"
  by (auto simp: move_of_def stopped_release_def moved_release_def identity_of_def)

lemma move_of_id: "move_of t r r' \<Longrightarrow> rl_release_id r' = rl_release_id r"
  using move_of_identity by (simp add: identity_of_def)

lemma rows_move_update:
  assumes "distinct (map rl_release_id rows)" "\<And>r. r \<in> set rows \<Longrightarrow> p r \<Longrightarrow> move_of t r (f r)"
  shows "rows_move t rows (update_rows p f rows)"
proof -
  have "map rl_release_id (update_rows p f rows) = map rl_release_id rows"
    using assms(2) move_of_id by (auto simp: update_rows_def)
  then have "distinct (map rl_release_id (update_rows p f rows))" using assms(1) by simp
  moreover have "update_rows p f rows = map (\<lambda>r. if p r then f r else r) rows @ []" by (simp add: update_rows_def)
  ultimately show ?thesis unfolding rows_move_def
    by (intro conjI exI [of _ "\<lambda>r. if p r then f r else r"] exI [of _ "[]"]) (simp_all add: assms(2))
qed

lemma create_release_rows:
  assumes "create_release env tenant owner current candidate gates db = (x, db')" "distinct (map rl_release_id (rd_releases db))"
  shows "rows_move t (rd_releases db) (rd_releases db')"
  using assms(1) unfolding create_release_def
proof (rule atomic_releases)
  fix y d
  assume "bind_res (insert_release (shadow_release env tenant owner current candidate gates) db)
      (\<lambda>db. bind_res (release_event env (en_release_id env) ''created'' owner
         [(''stage'', PStr ''SHADOW''), (''traffic_percent'', PInt 0)] db)
      (\<lambda>db. Inr (get_release tenant (en_release_id env) db, db))) = Inr (y, d)"
  then obtain d1 where "insert_release (shadow_release env tenant owner current candidate gates) db = Inr d1"
    "rd_releases d = rd_releases d1"
    by (auto simp: bind_res_eq_Inr release_event_releases)
  then show "rows_move t (rd_releases db) (rd_releases d)"
    using assms(2) unfolding rows_move_def
    by (intro conjI exI [of _ "\<lambda>x. x"] exI [of _ "[shadow_release env tenant owner current candidate gates]"])
      (auto simp: insert_release_def split: if_splits)
qed (use assms(2) rows_move_refl in blast)

lemma stop_release_rows:
  assumes "stop_release env tenant release_id actor reason db = (x, db')" "distinct (map rl_release_id (rd_releases db))"
  shows "rows_move t (rd_releases db) (rd_releases db')"
  using assms(1) unfolding stop_release_def
proof (rule atomic_releases)
  let ?active = "\<lambda>r. is_release tenant release_id r \<and> rl_status r = ''ACTIVE''"
  have *: "rows_move t (rd_releases db) (update_rows ?active (stopped_release env reason) (rd_releases db))"
    by (rule rows_move_update [OF assms(2)]) (auto simp: move_of_def)
  show "rows_move t (rd_releases db) (rd_releases d)"
    if "(let active = ?active in
      if \<not> nonblank reason then Inl (ReleaseTransitionError ''stop_reason_required'')
      else if row_count active (rd_releases db) = 0 then Inl (ReleaseTransitionError ''release_not_active'')
      else bind_res (release_event env release_id ''stopped'' actor [(''reason'', PStr (slice_to reason 128))]
             (db\<lparr>rd_releases := update_rows active (stopped_release env reason) (rd_releases db)\<rparr>)) (\<lambda>db.
           Inr (get_release tenant release_id db, db))) = Inr (y, d)" for y d
    using that * by (auto simp: Let_def bind_res_eq_Inr release_event_releases split: if_splits)
qed (use assms(2) rows_move_refl in blast)

lemma evaluate_Inr:
  assumes "evaluate_and_advance env tenant release_id actor m db = (Inr v, db')"
  obtains r where "select_one (is_release tenant release_id) (rd_releases db) = Some r" "rl_status r = ''ACTIVE''"
    "runtime_available tenant (rl_candidate r) db" "\<forall>e. rl_ends r = Some e \<longrightarrow> e \<le> en_check env"
    "rd_releases db' = update_rows (is_release tenant release_id)
       (moved_release env (transition_stage (rl_stage r) (rl_current r) m)) (rd_releases db)"
    "v = get_release tenant release_id db'"
  using assms unfolding evaluate_and_advance_def
  by (auto simp: atomic_Inr Let_def bind_res_eq_Inr release_event_releases not_less split: option.splits if_splits)

lemma evaluate_Inl: "evaluate_and_advance env tenant release_id actor m db = (Inl e, db') \<Longrightarrow> db' = db"
  by (auto simp: evaluate_and_advance_def atomic_def split: sum.splits)

lemma evaluate_rows:
  assumes "evaluate_and_advance env tenant release_id actor m db = (x, db')" "distinct (map rl_release_id (rd_releases db))"
    "en_check env \<le> en_start env"
  shows "rows_move (en_start env) (rd_releases db) (rd_releases db')"
proof (cases x)
  case (Inl e)
  then show ?thesis using assms evaluate_Inl rows_move_refl by blast
next
  case (Inr v)
  obtain r where r: "select_one (is_release tenant release_id) (rd_releases db) = Some r" "rl_status r = ''ACTIVE''"
    "\<forall>e. rl_ends r = Some e \<longrightarrow> e \<le> en_check env"
    "rd_releases db' = update_rows (is_release tenant release_id)
       (moved_release env (transition_stage (rl_stage r) (rl_current r) m)) (rd_releases db)"
    by (rule evaluate_Inr [OF assms(1) [unfolded Inr]])
  let ?f = "moved_release env (transition_stage (rl_stage r) (rl_current r) m)"
  have same: "y = r" if "y \<in> set (rd_releases db)" "is_release tenant release_id y" for y
    using select_one_Some [OF r(1)] that assms(2) by (auto simp: is_release_def distinct_map dest: inj_onD)
  have "case rl_ends r of None \<Rightarrow> True | Some e \<Rightarrow> e \<le> en_start env"
    using r(3) assms(3) by (auto split: option.splits)
  then have "move_of (en_start env) r (?f r)" unfolding move_of_def using r(2) by blast
  then show ?thesis unfolding r(4) by (intro rows_move_update [OF assms(2)]) (use same in blast)
qed

lemma register_releases: "register_runtime env tenant version runtime_hash metadata db = (x, db') \<Longrightarrow>
    rd_releases db' = rd_releases db"
  unfolding register_runtime_def by (erule atomic_releases) (auto split: if_splits option.splits)

lemma assignment_releases: "record_assignment env q db = (x, db') \<Longrightarrow> rd_releases db' = rd_releases db"
  unfolding record_assignment_def by (erule atomic_releases) (auto simp: Let_def split: if_splits option.splits)

lemma release_tick_rows:
  assumes "release_tick (t, db) (t', db')" "distinct (map rl_release_id (rd_releases db))"
  shows "t \<le> t' \<and> rows_move t' (rd_releases db) (rd_releases db')"
  using assms(1)
proof (cases rule: release_tick.cases)
  case (create env tenant owner current candidate gates r)
  then show ?thesis using create_release_rows assms(2) by blast
next
  case (stop env tenant release_id actor reason r)
  then show ?thesis using stop_release_rows assms(2) by blast
next
  case (evaluate env tenant release_id actor m r)
  then show ?thesis using evaluate_rows [OF evaluate(4) assms(2) evaluate(3)] by simp
next
  case (register env tenant version runtime_hash metadata u)
  then show ?thesis using register_releases rows_move_refl assms(2) by metis
next
  case (assign env q u)
  then show ?thesis using assignment_releases rows_move_refl assms(2) by metis
qed (simp_all add: rows_move_refl assms(2))

lemma release_tick_row:
  assumes "release_tick (t, db) (t', db')" "distinct (map rl_release_id (rd_releases db))" "r \<in> set (rd_releases db)"
  obtains r' where "t \<le> t'" "distinct (map rl_release_id (rd_releases db'))" "r' \<in> set (rd_releases db')"
    "r' = r \<or> move_of t' r r'"
  using release_tick_rows [OF assms(1,2)] assms(3) unfolding rows_move_def by fastforce

section \<open>The schedule of a release\<close>

definition on_schedule :: "int \<Rightarrow> int \<Rightarrow> release_row \<Rightarrow> bool" where
  "on_schedule start t r \<longleftrightarrow>
     (rl_stage r = ''STOPPED'' \<and> rl_status r = ''STOPPED'' \<and> rl_traffic r = 0) \<or>
     (\<exists>k<5. (rl_stage r, rl_traffic r) = release_stages ! k \<and> start + int k * day \<le> t \<and>
        (rl_status r = ''ACTIVE'' \<or> rl_status r = ''COMPLETED'' \<and> k = 4) \<and>
        (rl_status r = ''ACTIVE'' \<and> k < 4 \<longrightarrow> (\<exists>e. rl_ends r = Some e \<and> start + int (k + 1) * day \<le> e)))"

lemma below_five: "k < 5 \<longleftrightarrow> k = 0 \<or> k = 1 \<or> k = 2 \<or> k = 3 \<or> k = (4::nat)"
  by auto

lemma stage_facts:
  assumes "k < 5"
  shows "fst (release_stages ! k) \<in> fst ` set release_stages"
    and "following_stage (fst (release_stages ! k)) release_stages = (if k < 4 then Some (release_stages ! (k + 1)) else None)"
    and "fst (release_stages ! k) = ''FULL'' \<longleftrightarrow> k = 4"
    and "canary_percent (fst (release_stages ! k)) = snd (release_stages ! k)"
  using assms unfolding below_five
  by (elim disjE; simp add: release_stages_def canary_percent_def dget_or_def)+

lemma transition_facts:
  assumes "k < 5"
  shows "transition_stage (fst (release_stages ! k)) version m =
    (if canary_stops m then stop_transition version (evaluate_canary m)
     else \<lparr>sn_stage = fst (release_stages ! min (k + 1) 4), sn_status = (if k < 4 then ''ACTIVE'' else ''COMPLETED''),
       sn_traffic = snd (release_stages ! min (k + 1) 4), sn_rollback = None, sn_reasons = []\<rparr>)"
proof (cases "k < 4")
  case True
  then have "following_stage (fst (release_stages ! k)) release_stages = Some (release_stages ! (k + 1))" "min (k + 1) 4 = k + 1"
    using stage_facts(2) [OF assms] by (simp_all add: min_def)
  then show ?thesis using stage_facts(1) [OF assms] True
    unfolding transition_stage_def by (simp only: if_True if_False option.case not_True_eq_False split_beta simp_thms)
next
  case False
  then have "k = 4" using assms by simp
  moreover have "following_stage (fst (release_stages ! 4)) release_stages = None" "min (4 + 1) 4 = (4::nat)"
    "release_stages ! 4 = (''FULL'', 100)" using stage_facts(2) [of 4] by (simp_all add: release_stages_def)
  ultimately show ?thesis using stage_facts(1) [OF assms]
    unfolding transition_stage_def by (simp only: if_True if_False option.case not_True_eq_False fst_conv snd_conv simp_thms less_irrefl)
qed

lemma on_scheduleI:
  assumes "k < 5" "rl_stage r = fst (release_stages ! k)" "rl_traffic r = snd (release_stages ! k)"
    "start + int k * day \<le> t" "rl_status r = ''ACTIVE'' \<or> rl_status r = ''COMPLETED'' \<and> k = 4"
    "rl_status r = ''ACTIVE'' \<Longrightarrow> k < 4 \<Longrightarrow> \<exists>e. rl_ends r = Some e \<and> start + int (k + 1) * day \<le> e"
  shows "on_schedule start t r"
  unfolding on_schedule_def by (intro disjI2 exI [of _ k]) (use assms in simp)

lemma on_scheduleE:
  assumes "on_schedule start t r"
  obtains (stopped) "rl_stage r = ''STOPPED''" "rl_status r = ''STOPPED''" "rl_traffic r = 0"
  | (stage) k where "k < 5" "rl_stage r = fst (release_stages ! k)" "rl_traffic r = snd (release_stages ! k)"
      "start + int k * day \<le> t" "rl_status r = ''ACTIVE'' \<or> rl_status r = ''COMPLETED'' \<and> k = 4"
      "rl_status r = ''ACTIVE'' \<and> k < 4 \<longrightarrow> (\<exists>e. rl_ends r = Some e \<and> start + int (k + 1) * day \<le> e)"
  using assms unfolding on_schedule_def by (metis fst_conv snd_conv)

lemma on_schedule_later:
  assumes "on_schedule start t r" "t \<le> t'"
  shows "on_schedule start t' r"
  using assms(1)
proof (cases rule: on_scheduleE)
  case stopped
  then show ?thesis by (simp add: on_schedule_def)
next
  case (stage k)
  then show ?thesis using assms(2) by (intro on_scheduleI [of k]) simp_all
qed

lemma on_schedule_moves:
  assumes "on_schedule start t r" "t \<le> t'" "move_of t' r r'"
  shows "on_schedule start t' r'"
proof -
  obtain k where k: "k < 5" "rl_stage r = fst (release_stages ! k)" "start + int k * day \<le> t"
    "k < 4 \<longrightarrow> (\<exists>e. rl_ends r = Some e \<and> start + int (k + 1) * day \<le> e)"
    by (rule on_scheduleE [OF assms(1)]) (use assms(3) in \<open>auto simp: move_of_def\<close>)
  consider (stopped) env reason where "r' = stopped_release env reason r"
    | (moved) env m where "r' = moved_release env (transition_stage (rl_stage r) (rl_current r) m) r" "en_start env = t'"
        "case rl_ends r of None \<Rightarrow> True | Some e \<Rightarrow> e \<le> t'"
    using assms(3) unfolding move_of_def by blast
  then show ?thesis
  proof cases
    case stopped
    then show ?thesis by (simp add: on_schedule_def stopped_release_def)
  next
    case moved
    note r' = moved(1) [unfolded k(2) transition_facts [OF k(1)]]
    have due: "start + int (min (k + 1) 4) * day \<le> t'"
    proof (cases "k < 4")
      case True
      then show ?thesis using k(4) moved(3) by (auto simp: min_def)
    next
      case False
      then have "k = 4" using k(1) by simp
      then show ?thesis using k(3) assms(2) by simp
    qed
    show ?thesis
    proof (cases "canary_stops m")
      case True
      then show ?thesis using r' by (simp add: on_schedule_def moved_release_def stop_transition_def)
    next
      case False
      have "min (k + 1) 4 < 4 \<longleftrightarrow> fst (release_stages ! min (k + 1) 4) \<noteq> ''FULL''"
        using stage_facts(3) [of "min (k + 1) 4"] by auto
      then show ?thesis
        by (intro on_scheduleI [of "min (k + 1) 4"])
          (use r' False due k(1) moved(2) in \<open>auto simp: moved_release_def observation_end_def algebra_simps\<close>)
    qed
  qed
qed

lemma release_history_schedule:
  assumes "release_tick\<^sup>*\<^sup>* x y" "distinct (map rl_release_id (rd_releases (snd x)))" "r \<in> set (rd_releases (snd x))"
    "on_schedule start (fst x) r"
  shows "distinct (map rl_release_id (rd_releases (snd y))) \<and>
    (\<exists>r'\<in>set (rd_releases (snd y)). identity_of r' = identity_of r \<and> on_schedule start (fst y) r')"
  using assms(1)
proof (induction rule: rtranclp_induct)
  case base
  then show ?case using assms(2-4) by blast
next
  case (step y z)
  then obtain r1 where r1: "r1 \<in> set (rd_releases (snd y))" "identity_of r1 = identity_of r" "on_schedule start (fst y) r1"
    and d: "distinct (map rl_release_id (rd_releases (snd y)))" by blast
  have tick: "release_tick (fst y, snd y) (fst z, snd z)" using step.hyps(2) by simp
  obtain r2 where "fst y \<le> fst z" "distinct (map rl_release_id (rd_releases (snd z)))" "r2 \<in> set (rd_releases (snd z))"
    "r2 = r1 \<or> move_of (fst z) r1 r2"
    by (rule release_tick_row [OF tick d r1(1)])
  then show ?case using on_schedule_later on_schedule_moves move_of_identity r1(2,3) by metis
qed

text \<open>As long as a release is active, its share of the traffic does not shrink.\<close>

definition grows :: "release_row \<Rightarrow> release_row \<Rightarrow> bool" where
  "grows r r' \<longleftrightarrow> identity_of r' = identity_of r \<and>
     (rl_status r' = ''ACTIVE'' \<longrightarrow> rl_status r = ''ACTIVE'' \<and>
        canary_percent (rl_stage r) \<le> canary_percent (rl_stage r') \<and>
        (rl_stage r \<noteq> ''SHADOW'' \<longrightarrow> rl_stage r' \<noteq> ''SHADOW''))"

lemma grows_refl: "grows r r"
  by (simp add: grows_def)

lemma grows_trans: "grows r r' \<Longrightarrow> grows r' r'' \<Longrightarrow> grows r r''"
  by (auto simp: grows_def)

lemma next_stage_grows:
  assumes "k < 4"
  shows "canary_percent (fst (release_stages ! k)) \<le> canary_percent (fst (release_stages ! (k + 1)))"
    and "fst (release_stages ! (k + 1)) \<noteq> ''SHADOW''"
proof -
  have "k = 0 \<or> k = 1 \<or> k = 2 \<or> k = 3" using assms by auto
  then show "canary_percent (fst (release_stages ! k)) \<le> canary_percent (fst (release_stages ! (k + 1)))"
    "fst (release_stages ! (k + 1)) \<noteq> ''SHADOW''"
    by (elim disjE; simp add: release_stages_def canary_percent_def dget_or_def)+
qed

lemma active_transition:
  assumes "sn_status (transition_stage stage version m) = ''ACTIVE''"
  obtains k where "k < 4" "stage = fst (release_stages ! k)" "sn_stage (transition_stage stage version m) = fst (release_stages ! (k + 1))"
    "sn_traffic (transition_stage stage version m) = snd (release_stages ! (k + 1))" "\<not> canary_stops m"
proof -
  have "stage \<in> fst ` set release_stages" "\<not> canary_stops m"
    using assms by (auto simp: transition_stage_def stop_transition_def split: if_splits)
  moreover have "length release_stages = 5" by (simp add: release_stages_def)
  ultimately obtain k where k: "k < 5" "stage = fst (release_stages ! k)" by (auto simp: in_set_conv_nth)
  then have "k < 4" using assms transition_facts [OF k(1)] \<open>\<not> canary_stops m\<close> by (auto split: if_splits)
  then show ?thesis using that [of k] k transition_facts [OF k(1)] \<open>\<not> canary_stops m\<close> by (auto simp: min_def)
qed

lemma move_of_grows: "move_of t r r' \<Longrightarrow> grows r r'"
proof -
  assume move: "move_of t r r'"
  have "canary_percent (rl_stage r) \<le> canary_percent (rl_stage r') \<and> rl_stage r' \<noteq> ''SHADOW''" if active: "rl_status r' = ''ACTIVE''"
  proof -
    obtain env m where r': "r' = moved_release env (transition_stage (rl_stage r) (rl_current r) m) r"
    proof -
      have "\<forall>env reason. r' \<noteq> stopped_release env reason r" using active by (auto simp: stopped_release_def)
      then show ?thesis using move that unfolding move_of_def by blast
    qed
    then have "sn_status (transition_stage (rl_stage r) (rl_current r) m) = ''ACTIVE''"
      using active by (simp add: moved_release_def)
    then show ?thesis
      by (rule active_transition) (use next_stage_grows r' in \<open>simp add: moved_release_def\<close>)
  qed
  then show ?thesis using move move_of_identity by (auto simp: grows_def move_of_def)
qed

lemma release_history_grows:
  assumes "release_tick\<^sup>*\<^sup>* x y" "distinct (map rl_release_id (rd_releases (snd x)))" "r \<in> set (rd_releases (snd x))"
  shows "distinct (map rl_release_id (rd_releases (snd y))) \<and> (\<exists>r'\<in>set (rd_releases (snd y)). grows r r')"
  using assms(1)
proof (induction rule: rtranclp_induct)
  case base
  then show ?case using assms(2,3) grows_refl by blast
next
  case (step y z)
  then obtain r1 where r1: "r1 \<in> set (rd_releases (snd y))" "grows r r1"
    and d: "distinct (map rl_release_id (rd_releases (snd y)))" by blast
  have tick: "release_tick (fst y, snd y) (fst z, snd z)" using step.hyps(2) by simp
  obtain r2 where "distinct (map rl_release_id (rd_releases (snd z)))" "r2 \<in> set (rd_releases (snd z))"
    "r2 = r1 \<or> move_of (fst z) r1 r2"
    by (rule release_tick_row [OF tick d r1(1)])
  then show ?case using move_of_grows grows_trans r1(2) by metis
qed

definition request_for :: "release_row \<Rightarrow> traffic_request \<Rightarrow> traffic_request" where
  "request_for r q = q\<lparr>tq_current := rl_current r, tq_candidate := rl_candidate r, tq_stage := rl_stage r, tq_status := rl_status r\<rparr>"

lemma assign_allowed:
  "ta_allowed (assign_traffic sha q) \<longleftrightarrow> tq_status q = ''ACTIVE'' \<and> tq_stage q \<noteq> ''SHADOW'' \<and> tq_runtime_available q \<and>
     tq_skill_approved q \<noteq> Some False \<and> tq_risk_level q = RL_LOW \<and> tq_risk_hint q \<noteq> RH_WRITE \<and> tq_candidate q \<noteq> [] \<and>
     bucket_of sha q < canary_percent (tq_stage q)"
  by (simp add: assign_traffic_def keep_current_def)

lemma assign_selected:
  "ta_selected (assign_traffic sha q) = (if ta_allowed (assign_traffic sha q) then tq_candidate q else tq_current q)"
  by (simp add: assign_traffic_def keep_current_def)

lemma bucket_for [simp]: "bucket_of sha (request_for r q) = bucket_of sha q"
  by (simp add: bucket_of_def request_for_def)

lemma bucket_bounds: "0 \<le> bucket_of sha q \<and> bucket_of sha q < 100"
  by (simp add: bucket_of_def stable_bucket_def)

section \<open>What green metrics mean\<close>

lemma ratio_at_least_one: "\<not> ratio_or_zero a b < 1 \<longleftrightarrow> 0 < b \<and> b \<le> a"
proof (cases "b = 0")
  case False
  then have "ratio_or_zero a b < 1 \<longleftrightarrow> (of_nat a :: rat) < of_nat b" by (simp add: ratio_or_zero_def divide_less_eq)
  then show ?thesis using False by auto
qed (simp add: ratio_or_zero_def)

lemma canary_continues:
  assumes "\<not> canary_stops m"
  shows "cm_quality_gate m = Some True" "cm_safety_gate m = Some True" "cm_p0_events m \<le> 0"
    "\<exists>c. cm_coverage m = Some c \<and> \<not> c < 1" "\<not> above (cm_p95 m) (cm_base_p95 m) (115 / 100)"
    "\<not> above (cm_p99 m) (cm_base_p99 m) (125 / 100)" "\<not> above (cm_cost m) (cm_base_cost m) (110 / 100)"
  using assms unfolding canary_stops_def evaluate_canary_def gate_reason_def reason_if_def
  by (auto split: if_splits option.splits bool.splits)

lemma published_all:
  assumes "length (candidate_runs now r db) \<le> length (published_runs now r db)" "x \<in> set (candidate_runs now r db)"
  shows "\<exists>e\<in>set (db_events (rd_runtime db)). ew_run_id e = rr_run_id x \<and> ew_type e = ''terminal_response_published''"
proof -
  let ?ids = "set (map rr_run_id (candidate_runs now r db))"
  have sub: "set (published_runs now r db) \<subseteq> ?ids" by (auto simp: published_runs_def)
  have "card ?ids \<le> length (candidate_runs now r db)" using card_length [of "map rr_run_id (candidate_runs now r db)"] by simp
  also have "\<dots> \<le> card (set (published_runs now r db))"
    using assms(1) distinct_card [of "published_runs now r db"] by (simp add: published_runs_def)
  finally have "set (published_runs now r db) = ?ids" using card_seteq [OF _ sub] by simp
  then have "rr_run_id x \<in> set (published_runs now r db)" using assms(2) by simp
  then show ?thesis by (auto simp: published_runs_def)
qed

definition evidence_complete :: "int \<Rightarrow> release_row \<Rightarrow> release_db \<Rightarrow> bool" where
  "evidence_complete now r db \<longleftrightarrow>
     dget (rl_gates r) ''quality_gate_pass'' = Some (PBool True) \<and> dget (rl_gates r) ''safety_gate_pass'' = Some (PBool True) \<and>
     candidate_runs now r db \<noteq> [] \<and>
     (\<forall>x\<in>set (candidate_runs now r db). \<exists>e\<in>set (db_events (rd_runtime db)).
        ew_run_id e = rr_run_id x \<and> ew_type e = ''terminal_response_published'') \<and>
     (\<forall>a\<in>set (candidate_assignments now r db). \<forall>e\<in>set (db_events (rd_runtime db)).
        ew_run_id e = as_run_id a \<longrightarrow> \<not> p0_event e)"

lemma gate_value_Some: "gate_value v = Some b \<longleftrightarrow> v = Some (PBool b)"
  by (cases v rule: gate_value.cases) auto

lemma green_metrics:
  assumes "\<not> canary_stops (metrics_of read now r db)"
  shows "evidence_complete now r db"
proof -
  let ?m = "metrics_of read now r db"
  note green = canary_continues [OF assms]
  have none: "p0_pairs now r db = []" using green(3) by (simp add: metrics_of_def Let_def)
  then have p0: "\<forall>a\<in>set (candidate_assignments now r db). \<forall>e\<in>set (db_events (rd_runtime db)).
      ew_run_id e = as_run_id a \<longrightarrow> \<not> p0_event e"
    unfolding p0_pairs_def filter_empty_conv by fastforce
  have gates: "dget (rl_gates r) ''quality_gate_pass'' = Some (PBool True)" "dget (rl_gates r) ''safety_gate_pass'' = Some (PBool True)"
    using green(1,2) none by (auto simp: metrics_of_def Let_def gate_value_Some split: option.splits)
  have "0 < length (candidate_runs now r db) \<and> length (candidate_runs now r db) \<le> length (published_runs now r db)"
    using green(4) by (simp add: metrics_of_def Let_def ratio_at_least_one)
  then show ?thesis unfolding evidence_complete_def using gates p0 published_all by blast
qed

section \<open>Properties\<close>

text \<open>C37: a release grows by one stage a day. Whatever transactions follow its creation, in any order and by
  any number of workers, its row is still there with the same versions, and it is either stopped without
  traffic or at one of the five stages with exactly the traffic of that stage, and it has reached the stage
  number \<open>k\<close> no sooner than \<open>k\<close> days after its creation.\<close>

theorem traffic_grows_day_by_day:
  assumes "create_release env tenant owner current candidate gates db0 = (Inr v, db1)"
    "distinct (map rl_release_id (rd_releases db0))" "release_tick\<^sup>*\<^sup>* (en_start env, db1) (t, db)"
  shows "\<exists>r\<in>set (rd_releases db). identity_of r = (en_release_id env, tenant, current, candidate) \<and>
    (rl_stage r = ''STOPPED'' \<and> rl_status r = ''STOPPED'' \<and> rl_traffic r = 0 \<or>
     (\<exists>k<5. rl_stage r = fst (release_stages ! k) \<and> rl_traffic r = snd (release_stages ! k) \<and>
        en_start env + int k * (24 * 60 * 60 * 1000000) \<le> t))"
proof -
  let ?r = "shadow_release env tenant owner current candidate gates"
  have mem: "?r \<in> set (rd_releases db1)"
    using assms(1) by (auto simp: create_release_def atomic_Inr bind_res_eq_Inr release_event_releases insert_release_def
        split: if_splits)
  have "rows_move 0 (rd_releases db0) (rd_releases db1)" by (rule create_release_rows [OF assms(1,2)])
  then have d: "distinct (map rl_release_id (rd_releases db1))" by (simp add: rows_move_def)
  have "on_schedule (en_start env) (en_start env) ?r"
    by (rule on_scheduleI [of 0]) (simp_all add: shadow_release_def release_stages_def)
  then obtain r where r: "r \<in> set (rd_releases db)" "identity_of r = identity_of ?r" "on_schedule (en_start env) t r"
    using release_history_schedule [OF assms(3)] mem d by auto
  show ?thesis
    by (rule bexI [OF _ r(1)], rule on_scheduleE [OF r(3)])
      (use r(2) in \<open>auto simp: identity_of_def shadow_release_def day_def\<close>)
qed

text \<open>No promotion without evidence. When the check of the scheduler leaves a release that is not stopped,
  the release was active with a registered candidate and a finished observation window, it has moved by
  exactly one stage, both gates were configured as passed, at least one run was assigned to the candidate
  since the observation began, each of these runs has published its terminal response, and none of them
  let a request of high risk continue.\<close>

theorem promotion_needs_evidence:
  assumes "check_release now env tenant actor release_id db = (Inr v, db')"
    "select_one (is_release tenant release_id) (rd_releases db') = Some r'" "rl_status r' \<noteq> ''STOPPED''"
  shows "\<exists>r k. select_one (is_release tenant release_id) (rd_releases db) = Some r \<and> rl_status r = ''ACTIVE'' \<and>
    runtime_available tenant (rl_candidate r) db \<and> (\<forall>e. rl_ends r = Some e \<longrightarrow> e \<le> en_check env) \<and>
    k < 5 \<and> rl_stage r = fst (release_stages ! k) \<and> (rl_stage r', rl_traffic r') = release_stages ! min (k + 1) 4 \<and>
    evidence_complete now r db"
proof -
  obtain m where m: "release_metrics (en_float env) now tenant release_id db = Inr m"
    "evaluate_and_advance env tenant release_id actor m db = (Inr v, db')"
    using assms(1) by (auto simp: check_release_def split: sum.splits)
  obtain r where r: "select_one (is_release tenant release_id) (rd_releases db) = Some r" "rl_status r = ''ACTIVE''"
    "runtime_available tenant (rl_candidate r) db" "\<forall>e. rl_ends r = Some e \<longrightarrow> e \<le> en_check env"
    "rd_releases db' = update_rows (is_release tenant release_id)
       (moved_release env (transition_stage (rl_stage r) (rl_current r) m)) (rd_releases db)"
    by (rule evaluate_Inr [OF m(2)])
  have met: "m = metrics_of (en_float env) now r db" using m(1) r(1) by (simp add: release_metrics_def)
  have r': "r' = moved_release env (transition_stage (rl_stage r) (rl_current r) m) r"
  proof -
    have "is_release tenant release_id (moved_release env (transition_stage (rl_stage r) (rl_current r) m) x) =
        is_release tenant release_id x" for x
      by (simp add: is_release_def moved_release_def)
    then show ?thesis using assms(2) select_one_Some [OF r(1)] unfolding r(5) by (simp add: select_one_update r(1))
  qed
  then have go: "sn_status (transition_stage (rl_stage r) (rl_current r) m) \<noteq> ''STOPPED''"
    using assms(3) by (simp add: moved_release_def)
  then have green: "\<not> canary_stops m" "rl_stage r \<in> fst ` set release_stages"
    by (auto simp: transition_stage_def stop_transition_def split: if_splits)
  moreover have "length release_stages = 5" by (simp add: release_stages_def)
  ultimately obtain k where k: "k < 5" "rl_stage r = fst (release_stages ! k)" by (auto simp: in_set_conv_nth)
  have "(rl_stage r', rl_traffic r') = release_stages ! min (k + 1) 4"
    using r' green(1) k(2) transition_facts [OF k(1)] by (simp add: moved_release_def)
  then show ?thesis using r(1-4) k green_metrics green(1) met by blast
qed

text \<open>The candidate version serves only what it may serve, and a conversation that it serves stays with it.
  An assignment selects the candidate only for an active release out of shadow, an available runtime, a
  request of low risk that does not write and a bucket below the share of the stage; otherwise it selects
  the current version. Later in the history of the release, for any run of the same tenant, actor and
  conversation, the candidate is selected again as long as the release is active, and never once it is not.\<close>

theorem conversation_stays_with_candidate:
  assumes "release_tick\<^sup>*\<^sup>* x y" "distinct (map rl_release_id (rd_releases (snd x)))" "r \<in> set (rd_releases (snd x))"
    "ta_allowed (assign_traffic sha (request_for r q))"
  shows "tq_risk_level q = RL_LOW \<and> tq_risk_hint q \<noteq> RH_WRITE \<and> tq_runtime_available q \<and> rl_status r = ''ACTIVE'' \<and>
    rl_stage r \<noteq> ''SHADOW'' \<and> bucket_of sha q < canary_percent (rl_stage r) \<and>
    (\<exists>r'\<in>set (rd_releases (snd y)). identity_of r' = identity_of r \<and>
      (\<forall>run. ta_selected (assign_traffic sha (request_for r' (q\<lparr>tq_run := run\<rparr>))) =
         (if rl_status r' = ''ACTIVE'' then rl_candidate r else rl_current r)))"
proof -
  obtain r' where r': "r' \<in> set (rd_releases (snd y))" "grows r r'"
    using release_history_grows [OF assms(1-3)] by blast
  have same: "bucket_of sha (q\<lparr>tq_run := run\<rparr>) = bucket_of sha q" for run by (simp add: bucket_of_def)
  have first: "tq_risk_level q = RL_LOW \<and> tq_risk_hint q \<noteq> RH_WRITE \<and> tq_runtime_available q \<and> rl_status r = ''ACTIVE'' \<and>
    rl_stage r \<noteq> ''SHADOW'' \<and> bucket_of sha q < canary_percent (rl_stage r) \<and> rl_candidate r \<noteq> [] \<and>
    tq_skill_approved q \<noteq> Some False"
    using assms(4) unfolding assign_allowed bucket_for by (simp add: request_for_def)
  moreover have "ta_selected (assign_traffic sha (request_for r' (q\<lparr>tq_run := run\<rparr>))) =
      (if rl_status r' = ''ACTIVE'' then rl_candidate r else rl_current r)" for run
    using r'(2) first unfolding assign_selected assign_allowed bucket_for same
    by (auto simp: request_for_def grows_def identity_of_def)
  ultimately show ?thesis using r' by (auto simp: grows_def)
qed

section \<open>Witnesses\<close>

definition demo_release_env :: "string \<Rightarrow> int \<Rightarrow> release_env" where
  "demo_release_env event_id t =
     \<lparr>en_now = t, en_check = t, en_start = t, en_release_id = ''r'', en_event_id = event_id, en_row_id = ''a'',
      en_hash = (\<lambda>s. ''h''), en_float = (\<lambda>s. None)\<rparr>"

definition demo_release_published :: event_row where
  "demo_release_published =
     \<lparr>ew_event_id = ''p'', ew_run_id = ''run'', ew_seq = 1, ew_type = ''terminal_response_published'', ew_schema = ''1'',
      ew_step = ''terminal'', ew_payload = PDict [], ew_hash = ''h'', ew_causation = None, ew_correlation = ''c'', ew_created_at = 2\<rparr>"

definition demo_release_db :: release_db where
  "demo_release_db =
     \<lparr>rd_releases = [], rd_events = [], rd_assignments = [], rd_registrations =
        [\<lparr>rg_registration_id = ''g'', rg_tenant_id = ''t'', rg_version = ''v2'', rg_hash = ''h'', rg_status = ''ACTIVE'',
          rg_metadata = [], rg_created_at = 0, rg_retired_at = None\<rparr>],
      rd_runtime = empty_db\<lparr>db_runs := [demo_run_row\<lparr>rr_run_id := ''run'', rr_tenant_id := ''t''\<rparr>], db_events := [demo_release_published]\<rparr>,
      rd_cost = (\<lambda>r. None)\<rparr>"

definition demo_creation :: "release_view option result \<times> release_db" where
  "demo_creation = create_release (demo_release_env ''e1'' 0) ''t'' ''o'' ''v1'' ''v2''
     [(''quality_gate_pass'', PBool True), (''safety_gate_pass'', PBool True)] demo_release_db"

definition demo_traffic :: traffic_request where
  "demo_traffic =
     \<lparr>tq_tenant = ''t'', tq_actor = ''a'', tq_run = ''run'', tq_conversation = ''c'', tq_current = ''v1'', tq_candidate = ''v2'',
      tq_stage = ''SHADOW'', tq_status = ''ACTIVE'', tq_risk_level = RL_LOW, tq_risk_hint = RH_READ_ONLY,
      tq_runtime_available = True, tq_skill_approved = None\<rparr>"

definition demo_assigned :: "string result \<times> release_db" where
  "demo_assigned = record_assignment (demo_release_env ''e2'' 1)
     \<lparr>aq_tenant_id = ''t'', aq_release_id = ''r'', aq_run_id = ''run'', aq_actor_id = ''a'', aq_conversation_id = ''c'',
      aq_assignment = assign_traffic (\<lambda>s. []) demo_traffic, aq_risk_level = ''low'', aq_risk_hint = ''read_only'',
      aq_comparison = None\<rparr> (snd demo_creation)"

definition demo_checked :: "release_view option result \<times> release_db" where
  "demo_checked = check_release day (demo_release_env ''e3'' day) ''t'' ''s'' ''r'' (snd demo_assigned)"

lemma demo_release_facts:
  "map rl_release_id (rd_releases (snd demo_creation)) = [''r'']"
  "isl (fst demo_creation) = False"
  "map rl_release_id (rd_releases (snd demo_assigned)) = [''r'']"
  "isl (fst demo_checked) = False"
  "map (\<lambda>r. (rl_release_id r, rl_tenant_id r, rl_stage r, rl_status r, rl_candidate r, rl_current r)) (rd_releases (snd demo_checked)) =
     [(''r'', ''t'', ''CANARY_5'', ''ACTIVE'', ''v2'', ''v1'')]"
  by code_simp+

lemma check_release_Inr:
  assumes "check_release now env tenant actor release_id db = (Inr v, db')"
  obtains m where "release_metrics (en_float env) now tenant release_id db = Inr m"
    "evaluate_and_advance env tenant release_id actor m db = (Inr v, db')"
  using assms by (auto simp: check_release_def split: sum.splits)

lemma demo_created_Inr: "create_release (demo_release_env ''e1'' 0) ''t'' ''o'' ''v1'' ''v2''
    [(''quality_gate_pass'', PBool True), (''safety_gate_pass'', PBool True)] demo_release_db =
    (Inr (projr (fst demo_creation)), snd demo_creation)"
  using demo_release_facts(2) by (metis demo_creation_def prod.collapse sum.collapse(2))

lemma demo_checked_Inr: "check_release day (demo_release_env ''e3'' day) ''t'' ''s'' ''r'' (snd demo_assigned) =
    (Inr (projr (fst demo_checked)), snd demo_checked)"
  using demo_release_facts(4) by (metis demo_checked_def prod.collapse sum.collapse(2))

lemma demo_history: "release_tick\<^sup>*\<^sup>* (0, snd demo_creation) (day, snd demo_checked)"
proof -
  have "release_tick (0, snd demo_creation) (en_start (demo_release_env ''e2'' 1), snd demo_assigned)"
    unfolding demo_assigned_def by (rule release_tick.assign [OF _ prod.collapse [symmetric]]) (simp add: demo_release_env_def)
  then have "release_tick (0, snd demo_creation) (1, snd demo_assigned)" by (simp add: demo_release_env_def)
  moreover obtain m where "evaluate_and_advance (demo_release_env ''e3'' day) ''t'' ''r'' ''s'' m (snd demo_assigned) =
      (Inr (projr (fst demo_checked)), snd demo_checked)"
    by (rule check_release_Inr [OF demo_checked_Inr])
  then have "release_tick (1, snd demo_assigned) (day, snd demo_checked)"
    using release_tick.evaluate [of 1 "demo_release_env ''e3'' day"] by (simp add: demo_release_env_def day_def)
  ultimately show ?thesis by (meson r_into_rtranclp rtranclp.rtrancl_into_rtrancl)
qed

lemma traffic_grows_day_by_day_witness:
  "\<exists>r\<in>set (rd_releases (snd demo_checked)). identity_of r = (''r'', ''t'', ''v1'', ''v2'') \<and>
    (rl_stage r = ''STOPPED'' \<and> rl_status r = ''STOPPED'' \<and> rl_traffic r = 0 \<or>
     (\<exists>k<5. rl_stage r = fst (release_stages ! k) \<and> rl_traffic r = snd (release_stages ! k) \<and>
        int k * (24 * 60 * 60 * 1000000) \<le> day))"
  using traffic_grows_day_by_day [OF demo_created_Inr] demo_history
  by (simp add: demo_release_env_def demo_release_db_def)

lemma demo_checked_row:
  obtains r' where "select_one (is_release ''t'' ''r'') (rd_releases (snd demo_checked)) = Some r'"
    "rl_stage r' = ''CANARY_5''" "rl_status r' = ''ACTIVE''"
  using demo_release_facts(5) by (auto simp: map_eq_Cons_conv is_release_def)

lemma promotion_needs_evidence_witness:
  "\<exists>r. select_one (is_release ''t'' ''r'') (rd_releases (snd demo_assigned)) = Some r \<and>
    evidence_complete day r (snd demo_assigned)"
proof -
  obtain r' where r': "select_one (is_release ''t'' ''r'') (rd_releases (snd demo_checked)) = Some r'" "rl_status r' = ''ACTIVE''"
    by (rule demo_checked_row)
  show ?thesis using promotion_needs_evidence [OF demo_checked_Inr r'(1)] r'(2) by auto
qed

text \<open>The release in its first canary stage serves the conversation, whose bucket is 0; then it is stopped.\<close>

lemma conversation_stays_with_candidate_witness:
  "\<exists>r\<in>set (rd_releases (snd (stop_release (demo_release_env ''e4'' day) ''t'' ''r'' ''o'' ''why'' (snd demo_checked)))).
    ta_selected (assign_traffic (\<lambda>s. []) (request_for r (demo_traffic\<lparr>tq_run := ''later''\<rparr>))) =
      (if rl_status r = ''ACTIVE'' then ''v2'' else ''v1'')"
proof -
  let ?db = "snd (stop_release (demo_release_env ''e4'' day) ''t'' ''r'' ''o'' ''why'' (snd demo_checked))"
  obtain r where r: "rd_releases (snd demo_checked) = [r]" "rl_stage r = ''CANARY_5''" "rl_status r = ''ACTIVE''"
    "rl_candidate r = ''v2''" "rl_current r = ''v1''"
    using demo_release_facts(5) by (auto simp: map_eq_Cons_conv)
  have "release_tick (day, snd demo_checked) (en_start (demo_release_env ''e4'' day), ?db)"
    by (rule release_tick.stop [OF _ prod.collapse [symmetric]]) (simp add: demo_release_env_def)
  then have "release_tick (day, snd demo_checked) (day, ?db)" by (simp add: demo_release_env_def)
  then have "release_tick\<^sup>*\<^sup>* (day, snd demo_checked) (day, ?db)" by blast
  moreover have "ta_allowed (assign_traffic (\<lambda>s. []) (request_for r demo_traffic))"
    using r by (simp add: assign_allowed request_for_def demo_traffic_def bucket_of_def stable_bucket_def
        canary_percent_def dget_or_def release_stages_def)
  ultimately have "\<exists>r'\<in>set (rd_releases ?db). identity_of r' = identity_of r \<and>
      (\<forall>run. ta_selected (assign_traffic (\<lambda>s. []) (request_for r' (demo_traffic\<lparr>tq_run := run\<rparr>))) =
         (if rl_status r' = ''ACTIVE'' then rl_candidate r else rl_current r))"
    using conversation_stays_with_candidate [of "(day, snd demo_checked)" "(day, ?db)" r "\<lambda>s. []" demo_traffic] r(1) by simp
  then show ?thesis unfolding r(4,5) by blast
qed

end
