(* ===== verification/Skills.thy ===== *)
theory Skills
  imports RunStateMachine Regex "HOL-Library.List_Lexorder" "HOL-Library.Char_ord" "HOL-Library.Product_Lexorder"
begin

text \<open>
  Experience skills without their storage: the lifecycle policy \<open>src/evolution/skill_lifecycle.py\<close>, the hard
  validation \<open>skill_validator.py\<close>, the generator \<open>skill_generator.py\<close> and the matching of
  \<open>skill_retriever.py\<close>. A definition is a dictionary, as it comes from JSON. \<open>casefold\<close> is \<open>lower\<close>.
\<close>

section \<open>Lifecycle\<close>

datatype skill_status =
    SK_CANDIDATE | SK_PENDING_REVIEW | SK_APPROVED | SK_CANARY | SK_ACTIVE | SK_REJECTED | SK_EXPIRED | SK_ROLLED_BACK

fun skill_transitions :: "skill_status \<Rightarrow> skill_status list" where
  "skill_transitions SK_CANDIDATE = [SK_PENDING_REVIEW, SK_EXPIRED]"
| "skill_transitions SK_PENDING_REVIEW = [SK_APPROVED, SK_REJECTED, SK_EXPIRED]"
| "skill_transitions SK_APPROVED = [SK_CANARY, SK_ROLLED_BACK, SK_EXPIRED]"
| "skill_transitions SK_CANARY = [SK_ACTIVE, SK_ROLLED_BACK, SK_EXPIRED]"
| "skill_transitions SK_ACTIVE = [SK_ROLLED_BACK, SK_EXPIRED]"
| "skill_transitions SK_REJECTED = []"
| "skill_transitions SK_EXPIRED = []"
| "skill_transitions SK_ROLLED_BACK = []"

definition can_transition :: "skill_status \<Rightarrow> skill_status \<Rightarrow> string option \<Rightarrow> bool" where
  "can_transition current target reviewer =
     (if target \<in> {SK_APPROVED, SK_REJECTED} \<and> (reviewer = None \<or> reviewer = Some []) then False
      else target \<in> set (skill_transitions current))"

definition automation_may_activate :: "skill_status \<Rightarrow> bool" where
  "automation_may_activate s =
     (if s \<in> {SK_CANDIDATE, SK_PENDING_REVIEW} then False else s \<in> {SK_APPROVED, SK_CANARY})"

definition skill_final :: "skill_status \<Rightarrow> bool" where
  "skill_final s \<longleftrightarrow> s \<in> {SK_REJECTED, SK_EXPIRED, SK_ROLLED_BACK}"

definition skill_moves :: "skill_status \<Rightarrow> skill_status \<Rightarrow> bool" where
  "skill_moves s t \<longleftrightarrow> (\<exists>reviewer. can_transition s t reviewer)"

lemma skill_moves_iff: "skill_moves s t \<longleftrightarrow> t \<in> set (skill_transitions s)"
  by (auto simp: skill_moves_def can_transition_def intro: exI [of _ "Some ''r''"])

interpretation skill_machine: guarded_machine skill_moves skill_final
  by unfold_locales (auto simp: skill_moves_iff skill_final_def)

section \<open>Validation\<close>

definition allowed_policies :: "string list" where
  "allowed_policies = [''conversational_response'', ''graceful_unsupported'', ''safety_deescalation'']"

definition allowed_skill_actions :: "string list" where
  "allowed_skill_actions = [''respond'', ''finish'']"

definition forbidden_skill_keys :: "string list" where
  "forbidden_skill_keys =
     [''tool'', ''tools'', ''allowed_tools'', ''route'', ''permissions'', ''code'', ''sql'', ''url'', ''external_url'', ''system_prompt'']"

definition dangerous_pattern :: regex where
  "dangerous_pattern = alts
     [seqs [lit_ci ''http'', opt (lit_ci ''s''), lit ''://''],
      seqs [lit_ci ''www'', lit ''.''],
      lit ''```'',
      seqs [WordBoundary, alts (map lit_ci [''select'', ''insert'', ''update'', ''delete'', ''drop'', ''alter'']),
        Rep 1 None (Cls is_white)],
      seqs [WordBoundary, alts (map lit_ci [''exec'', ''eval'', ''os.system'', ''subprocess'']),
        Rep 0 None (Cls is_white), lit ''('']]"

fun dangerous_text :: "pyval \<Rightarrow> bool"
  and dangerous_list :: "pyval list \<Rightarrow> bool"
  and dangerous_dict :: "pydict \<Rightarrow> bool" where
  "dangerous_text (PStr s) = re_search dangerous_pattern s"
| "dangerous_text (PDict d) = dangerous_dict d"
| "dangerous_text (PList xs) = dangerous_list xs"
| "dangerous_text _ = False"
| "dangerous_list [] = False"
| "dangerous_list (x # xs) = (dangerous_text x \<or> dangerous_list xs)"
| "dangerous_dict [] = False"
| "dangerous_dict ((k, v) # d) = (dangerous_text v \<or> dangerous_dict d)"

text \<open>A list of strings that are not blank and not too long.\<close>

definition stripped_len :: "string \<Rightarrow> nat" where
  "stripped_len s = py_len (strip s)"

definition short_texts :: "nat \<Rightarrow> pyval list \<Rightarrow> bool" where
  "short_texts m xs = list_all (\<lambda>x. case x of PStr s \<Rightarrow> 1 \<le> stripped_len s \<and> stripped_len s \<le> m | _ \<Rightarrow> False) xs"

definition error_if :: "bool \<Rightarrow> string \<Rightarrow> string list" where
  "error_if b e = (if b then [e] else [])"

definition trigger_errors :: "pydict \<Rightarrow> string list" where
  "trigger_errors d =
     (case dget d ''trigger'' of
        Some (PDict trigger) \<Rightarrow>
          (case dget trigger ''keywords'' of
             Some (PList ks) \<Rightarrow>
               if \<not> (1 \<le> length ks \<and> length ks \<le> 32) then [''trigger_keywords_required'']
               else error_if (\<not> short_texts 128 ks) ''invalid_trigger_keyword''
           | _ \<Rightarrow> [''trigger_keywords_required''])
      | _ \<Rightarrow> [''trigger_required''])"

definition policy_errors :: "pydict \<Rightarrow> string list" where
  "policy_errors d =
     (case dget d ''response_policy'' of
        Some (PStr p) \<Rightarrow> error_if (p \<notin> set allowed_policies) ''unsafe_response_policy''
      | _ \<Rightarrow> [''response_policy_required''])"

definition unsafe_actions :: "pydict \<Rightarrow> string \<Rightarrow> bool" where
  "unsafe_actions d k =
     (case dget d k of
        None \<Rightarrow> False
      | Some (PList xs) \<Rightarrow> \<not> list_all (\<lambda>x. case x of PStr s \<Rightarrow> s \<in> set allowed_skill_actions | _ \<Rightarrow> False) xs
      | Some _ \<Rightarrow> True)"

text \<open>\<open>scope.get("type") not in {...}\<close> raises \<open>TypeError\<close> for a list or a dictionary, which have no hash.\<close>

definition scope_errors :: "pydict \<Rightarrow> string list result" where
  "scope_errors d =
     (case dget d ''scope'' of
        Some (PDict scope) \<Rightarrow>
          (case dget scope ''type'' of
             Some (PList xs) \<Rightarrow> Inl TypeError
           | Some (PDict xs) \<Rightarrow> Inl TypeError
           | Some (PStr t) \<Rightarrow>
               if t \<notin> {''tenant'', ''route'', ''global''} then Inr [''scope_required'']
               else (case dget scope ''value'' of
                 Some (PStr v) \<Rightarrow> Inr (error_if (\<not> nonblank v) ''scope_required'') | _ \<Rightarrow> Inr [''scope_required''])
           | _ \<Rightarrow> Inr [''scope_required''])
      | _ \<Rightarrow> Inr [''scope_required''])"

definition tools_errors :: "pydict \<Rightarrow> string list" where
  "tools_errors d =
     (case dget d ''forbidden_tools'' of
        Some (PList xs) \<Rightarrow> error_if (\<not> short_texts 128 xs) ''forbidden_tools_required''
      | _ \<Rightarrow> [''forbidden_tools_required''])"

definition ttl_errors :: "pydict \<Rightarrow> string list" where
  "ttl_errors d =
     (case dget d ''ttl_seconds'' of
        Some (PInt n) \<Rightarrow> error_if (\<not> (1 \<le> n \<and> n \<le> 90 * 86400)) ''invalid_ttl'' | _ \<Rightarrow> [''invalid_ttl''])"

definition examples_errors :: "pydict \<Rightarrow> string \<Rightarrow> string list" where
  "examples_errors d field =
     (case dget d field of
        Some (PList xs) \<Rightarrow>
          error_if (\<not> (1 \<le> length xs \<and> length xs \<le> 16) \<or> \<not> short_texts 240 xs) (''invalid_'' @ field)
      | _ \<Rightarrow> [''invalid_'' @ field])"

definition item_errors :: "string \<times> pyval \<Rightarrow> string list" where
  "item_errors kv =
     error_if (lower (fst kv) \<in> set forbidden_skill_keys) ''capability_expansion'' @
     error_if (dangerous_text (snd kv)) ''unsafe_instruction_text''"

definition validate_skill_definition :: "pydict \<Rightarrow> string list result" where
  "validate_skill_definition d = bind_res (scope_errors d) (\<lambda>scope. Inr
     (trigger_errors d @ policy_errors d @
      error_if (unsafe_actions d ''allowed_actions'') ''unsafe_action'' @
      error_if (unsafe_actions d ''allowed_decisions'') ''unsafe_decision_set'' @
      scope @ tools_errors d @ ttl_errors d @
      examples_errors d ''positive_examples'' @ examples_errors d ''negative_examples'' @
      concat (map item_errors d)))"

definition skill_definition_ok :: "pydict \<Rightarrow> bool" where
  "skill_definition_ok d \<longleftrightarrow> validate_skill_definition d = Inr []"

text \<open>No string anywhere in a value has a match of the pattern.\<close>

fun texts_of :: "pyval \<Rightarrow> string list"
  and texts_of_list :: "pyval list \<Rightarrow> string list"
  and texts_of_dict :: "pydict \<Rightarrow> string list" where
  "texts_of (PStr s) = [s]"
| "texts_of (PDict d) = texts_of_dict d"
| "texts_of (PList xs) = texts_of_list xs"
| "texts_of _ = []"
| "texts_of_list [] = []"
| "texts_of_list (x # xs) = texts_of x @ texts_of_list xs"
| "texts_of_dict [] = []"
| "texts_of_dict ((k, v) # d) = texts_of v @ texts_of_dict d"

lemma dangerous_texts:
  "dangerous_text v \<longleftrightarrow> (\<exists>s\<in>set (texts_of v). re_search dangerous_pattern s)"
  "dangerous_list xs \<longleftrightarrow> (\<exists>s\<in>set (texts_of_list xs). re_search dangerous_pattern s)"
  "dangerous_dict d \<longleftrightarrow> (\<exists>s\<in>set (texts_of_dict d). re_search dangerous_pattern s)"
  by (induction v and xs and d rule: dangerous_text_dangerous_list_dangerous_dict.induct) auto

text \<open>Characters without which a pattern has no match.\<close>

definition needs :: "(string \<Rightarrow> bool) \<Rightarrow> regex \<Rightarrow> bool" where
  "needs p r \<longleftrightarrow> (\<forall>t i j. j \<in> set (ends r t i) \<longrightarrow> (\<exists>c\<in>set t. p c))"

lemma needs_Cls: "(\<And>c. q c \<Longrightarrow> p c) \<Longrightarrow> needs p (Cls q)"
  unfolding needs_def by (auto split: if_splits intro: nth_mem)

lemma needs_Seq: "needs p a \<or> needs p b \<Longrightarrow> needs p (Seq a b)"
  unfolding needs_def by fastforce

lemma needs_Alt: "needs p a \<Longrightarrow> needs p b \<Longrightarrow> needs p (Alt a b)"
  unfolding needs_def by fastforce

lemma needs_Rep:
  assumes "needs p a" "0 < lo"
  shows "needs p (Rep lo hi a)"
  unfolding needs_def
proof (intro allI impI)
  fix t i j
  assume "j \<in> set (ends (Rep lo hi a) t i)"
  then obtain n where "j \<in> set (rep_ends (ends a t) lo n i)" by auto
  then obtain k where "k \<in> set (ends a t i)" using assms(2) by (cases n) (auto split: if_splits)
  then show "\<exists>c\<in>set t. p c" using assms(1) unfolding needs_def by blast
qed

lemma needs_search: "needs p r \<Longrightarrow> re_search r s \<Longrightarrow> \<exists>c\<in>set (chars s). p c"
proof -
  assume need: "needs p r" and "re_search r s"
  then obtain k where "ends r (chars s) k \<noteq> []"
    by (auto simp: re_search_def match_from_def find_Some_iff)
  then obtain j where "j \<in> set (ends r (chars s) k)" by (cases "ends r (chars s) k") auto
  then show "\<exists>c\<in>set (chars s). p c" using need unfolding needs_def by blast
qed

definition suspicious :: "string \<Rightarrow> bool" where
  "suspicious c \<longleftrightarrow> c \<in> {'':'', ''.'', ''`'', ''(''} \<or> is_white c"

lemma dangerous_needs: "needs suspicious dangerous_pattern"
  unfolding dangerous_pattern_def
  by (auto simp: lit_def lit_ci_def suspicious_def intro!: needs_Alt needs_Seq needs_Cls needs_Rep)

lemma harmless_text: "\<not> list_ex suspicious (chars s) \<Longrightarrow> \<not> re_search dangerous_pattern s"
  using needs_search [OF dangerous_needs] by (auto simp: list_ex_iff)

lemma error_if_Nil [simp]: "error_if b e = [] \<longleftrightarrow> \<not> b"
  by (simp add: error_if_def)

lemma texts_of_dict_set: "set (texts_of_dict d) = (\<Union>kv\<in>set d. set (texts_of (snd kv)))"
  by (induction d) auto

lemma skill_definition_okD:
  assumes "skill_definition_ok d"
  shows "\<exists>p. dget d ''response_policy'' = Some (PStr p) \<and> p \<in> set allowed_policies"
    and "\<not> unsafe_actions d ''allowed_actions''" "\<not> unsafe_actions d ''allowed_decisions''"
    and "\<forall>k\<in>fst ` set d. lower k \<notin> set forbidden_skill_keys"
    and "\<forall>s\<in>set (texts_of_dict d). \<not> re_search dangerous_pattern s"
proof -
  have parts: "policy_errors d = []" "\<not> unsafe_actions d ''allowed_actions''" "\<not> unsafe_actions d ''allowed_decisions''"
    "\<forall>kv\<in>set d. item_errors kv = []"
    using assms by (auto simp: skill_definition_ok_def validate_skill_definition_def bind_res_eq_Inr)
  then show "\<exists>p. dget d ''response_policy'' = Some (PStr p) \<and> p \<in> set allowed_policies"
    "\<not> unsafe_actions d ''allowed_actions''" "\<not> unsafe_actions d ''allowed_decisions''"
    by (auto simp: policy_errors_def split: option.splits pyval.splits)
  show "\<forall>k\<in>fst ` set d. lower k \<notin> set forbidden_skill_keys"
    "\<forall>s\<in>set (texts_of_dict d). \<not> re_search dangerous_pattern s"
    using parts(4) by (auto simp: item_errors_def texts_of_dict_set dangerous_texts)
qed

section \<open>Generation\<close>

record skill_proposal =
  pp_trigger :: pydict
  pp_strategy :: pydict
  pp_provenance :: pydict
  pp_definition :: pydict

definition proposed_definition :: "string \<Rightarrow> string list \<Rightarrow> string \<Rightarrow> string \<Rightarrow> string \<Rightarrow> int \<Rightarrow> pydict" where
  "proposed_definition cluster keywords policy scope_type scope_value ttl_days =
     [(''trigger'', PDict [(''keywords'', PList (map PStr (take 32 keywords)))]),
      (''response_policy'', PStr policy),
      (''allowed_actions'', PList [PStr ''respond'']),
      (''allowed_decisions'', PList [PStr ''respond'', PStr ''finish'']),
      (''forbidden_tools'', PList [PStr ''business_write_tools'', PStr ''unknown_risk_tools'']),
      (''scope'', PDict [(''type'', PStr scope_type), (''value'', PStr scope_value)]),
      (''positive_examples'', PList [PStr [CHR 0xE5, CHR 0x90, CHR 0x8C, CHR 0xE7, CHR 0xB1, CHR 0xBB, CHR 0xE4, CHR 0xBD,
      CHR 0x8E, CHR 0xE9, CHR 0xA3, CHR 0x8E, CHR 0xE9, CHR 0x99, CHR 0xA9,
      CHR 0xE6, CHR 0xA8, CHR 0xA1, CHR 0xE7, CHR 0xB3, CHR 0x8A, CHR 0xE8,
      CHR 0xAF, CHR 0xB7, CHR 0xE6, CHR 0xB1, CHR 0x82]]),
      (''negative_examples'', PList [PStr [CHR 0xE6, CHR 0xB6, CHR 0x89, CHR 0xE5, CHR 0x8F, CHR 0x8A, CHR 0xE4, CHR 0xBA,
      CHR 0xA4, CHR 0xE6, CHR 0x98, CHR 0x93, CHR 0xE3, CHR 0x80, CHR 0x81,
      CHR 0xE8, CHR 0xB4, CHR 0xA6, CHR 0xE6, CHR 0x88, CHR 0xB7, CHR 0xE6,
      CHR 0x88, CHR 0x96, CHR 0xE9, CHR 0xAB, CHR 0x98, CHR 0xE9, CHR 0xA3,
      CHR 0x8E, CHR 0xE9, CHR 0x99, CHR 0xA9, CHR 0xE5, CHR 0x8A, CHR 0xA8,
      CHR 0xE4, CHR 0xBD, CHR 0x9C, CHR 0xE7, CHR 0x9A, CHR 0x84, CHR 0xE8,
      CHR 0xAF, CHR 0xB7, CHR 0xE6, CHR 0xB1, CHR 0x82]]),
      (''ttl_seconds'', PInt (ttl_days * 86400)),
      (''cluster_key'', PStr cluster)]"

definition build_skill_candidate ::
  "string \<Rightarrow> int \<Rightarrow> string list \<Rightarrow> string \<Rightarrow> string \<Rightarrow> string \<Rightarrow> int \<Rightarrow> skill_proposal result" where
  "build_skill_candidate cluster source_count keywords policy scope_type scope_value ttl_days =
     (let d = proposed_definition cluster keywords policy scope_type scope_value ttl_days in
      bind_res (validate_skill_definition d) (\<lambda>errors.
        if errors \<noteq> [] then Inl (ValueError (''invalid_skill_definition:'' @ join_with '','' errors))
        else Inr \<lparr>pp_trigger = [(''keywords'', PList (map PStr (take 32 keywords)))],
          pp_strategy = [(''response_policy'', PStr policy), (''allowed_decisions'', PList [PStr ''respond'', PStr ''finish'']),
            (''forbidden_tools'', PList [PStr ''business_write_tools'', PStr ''unknown_risk_tools'']),
            (''ttl_seconds'', PInt (ttl_days * 86400))],
          pp_provenance = [(''cluster_key'', PStr cluster), (''source_count'', PInt source_count)], pp_definition = d\<rparr>))"

section \<open>Matching\<close>

record skill_offer =
  so_skill_id :: string
  so_version_id :: string
  so_tenant_id :: string
  so_status :: skill_status
  so_scope_type :: string
  so_scope_value :: string
  so_trigger :: pydict
  so_strategy :: pydict
  so_expires_at :: int

record skill_match =
  mx_skill_id :: string
  mx_version_id :: string
  mx_score :: rat
  mx_scope_type :: string
  mx_scope_value :: string
  mx_mode :: string
  mx_strategy :: pydict

definition keyword_hits :: "string \<Rightarrow> pyval list \<Rightarrow> nat" where
  "keyword_hits s ks =
     length (filter (\<lambda>k. case k of PStr k \<Rightarrow> str_in (lower k) (lower s) | _ \<Rightarrow> False) (take 32 ks))"

definition match_skill :: "string \<Rightarrow> pydict \<Rightarrow> rat" where
  "match_skill s trigger =
     (case dget trigger ''keywords'' of
        Some (PList ks) \<Rightarrow>
          if ks = [] then 0 else min 1 (of_nat (keyword_hits s ks) / of_nat (max 1 (min (length ks) 8)))
      | _ \<Rightarrow> 0)"

definition match_statuses :: "string \<Rightarrow> skill_status list option" where
  "match_statuses mode =
     (if mode = ''active'' then Some [SK_ACTIVE, SK_CANARY] else if mode = ''canary'' then Some [SK_CANARY]
      else if mode = ''shadow'' then Some [SK_APPROVED, SK_CANARY, SK_ACTIVE] else None)"

definition scope_rank :: "string \<Rightarrow> int option" where
  "scope_rank t = (if t = ''route'' then Some 0 else if t = ''tenant'' then Some 1 else if t = ''global'' then Some 2 else None)"

definition scope_matches :: "string \<Rightarrow> string \<Rightarrow> string \<Rightarrow> string option \<Rightarrow> bool" where
  "scope_matches scope_type scope_value tenant route =
     (if scope_type = ''global'' then True
      else if scope_type = ''route'' then route = Some scope_value
      else scope_type = ''tenant'' \<and> scope_value = tenant)"

definition strategy_keys :: "string list" where
  "strategy_keys = [''response_policy'', ''allowed_decisions'', ''forbidden_tools'', ''ttl_seconds'']"

definition strategy_view :: "pydict \<Rightarrow> pydict" where
  "strategy_view d = List.map_filter (\<lambda>k. map_option (Pair k) (dget d k)) strategy_keys"

record skill_query =
  sq_text :: string
  sq_tenant :: string
  sq_route :: "string option"
  sq_mode :: string
  sq_minimum :: rat
  sq_now :: int

definition eligible :: "skill_query \<Rightarrow> skill_status list \<Rightarrow> skill_offer \<Rightarrow> bool" where
  "eligible q statuses x \<longleftrightarrow>
     so_tenant_id x = sq_tenant q \<and> so_status x \<in> set statuses \<and> sq_now q < so_expires_at x \<and>
     scope_rank (so_scope_type x) \<noteq> None \<and> scope_matches (so_scope_type x) (so_scope_value x) (sq_tenant q) (sq_route q) \<and>
     sq_minimum q \<le> match_skill (sq_text q) (so_trigger x)"

definition match_of :: "skill_query \<Rightarrow> skill_offer \<Rightarrow> skill_match" where
  "match_of q x =
     \<lparr>mx_skill_id = so_skill_id x, mx_version_id = so_version_id x, mx_score = match_skill (sq_text q) (so_trigger x),
      mx_scope_type = so_scope_type x, mx_scope_value = so_scope_value x, mx_mode = sq_mode q,
      mx_strategy = strategy_view (so_strategy x)\<rparr>"

definition offer_key :: "skill_query \<Rightarrow> skill_offer \<Rightarrow> rat \<times> int \<times> string" where
  "offer_key q x =
     (- match_skill (sq_text q) (so_trigger x), case scope_rank (so_scope_type x) of None \<Rightarrow> 3 | Some r \<Rightarrow> r, so_skill_id x)"

definition select_skill :: "skill_query \<Rightarrow> skill_offer list \<Rightarrow> skill_match option result" where
  "select_skill q offers =
     (case match_statuses (sq_mode q) of
        None \<Rightarrow> Inl (ValueError ''invalid_skill_match_mode'')
      | Some statuses \<Rightarrow>
          (case sort_key (offer_key q) (filter (eligible q statuses) offers) of
             [] \<Rightarrow> Inr None | x # _ \<Rightarrow> Inr (Some (match_of q x))))"

definition select_skill_from_registry :: "skill_query \<Rightarrow> skill_offer list result \<Rightarrow> skill_match option result" where
  "select_skill_from_registry q loaded = (case loaded of Inl e \<Rightarrow> Inr None | Inr offers \<Rightarrow> select_skill q offers)"

lemma select_skill_Some:
  assumes "select_skill q offers = Inr (Some m)"
  obtains x statuses where "match_statuses (sq_mode q) = Some statuses" "x \<in> set offers" "eligible q statuses x" "m = match_of q x"
    "\<forall>y\<in>set offers. eligible q statuses y \<longrightarrow> offer_key q x \<le> offer_key q y"
proof -
  obtain statuses x os where s: "match_statuses (sq_mode q) = Some statuses"
    "sort_key (offer_key q) (filter (eligible q statuses) offers) = x # os" "m = match_of q x"
    using assms by (auto simp: select_skill_def split: option.splits list.splits)
  have members: "set (x # os) = {y \<in> set offers. eligible q statuses y}" using s(2) by (metis set_filter set_sort)
  have "sorted (map (offer_key q) (x # os))" using s(2) by (metis sorted_sort_key)
  then have least: "\<forall>y\<in>set (x # os). offer_key q x \<le> offer_key q y" by simp
  have "x \<in> {y \<in> set offers. eligible q statuses y}" unfolding members [symmetric] by simp
  then have x: "x \<in> set offers" "eligible q statuses x" by simp_all
  have "\<forall>y\<in>set offers. eligible q statuses y \<longrightarrow> offer_key q x \<le> offer_key q y"
  proof (intro ballI impI)
    fix y
    assume "y \<in> set offers" "eligible q statuses y"
    then have "y \<in> set (x # os)" unfolding members by simp
    then show "offer_key q x \<le> offer_key q y" using least by blast
  qed
  then show ?thesis by (rule that [OF s(1) x s(3)])
qed

end
