(* ===== verification/Failures.thy ===== *)
theory Failures
  imports RunEvents Trace "HOL-Library.List_Lexorder" "HOL-Library.Char_ord" "HOL-Library.Product_Lexorder"
begin

text \<open>
  Failure evidence: the signals, the taxonomy, the clusters and the redaction of \<open>src/evolution\<close>
  (\<open>failure_signals.py\<close>, \<open>attribution_rules.py\<close>, \<open>clustering.py\<close>, \<open>redaction.py\<close>), the repository
  \<open>src/repositories/failures.py\<close> and the attribution service \<open>failure_attribution.py\<close> with the validation of
  \<open>attribution_llm.py\<close>. The attribution model is an argument that answers with a parsed output, with none
  when it does not parse, or with an error. The order of a list that \<open>jsonb_agg(DISTINCT ...)\<close> builds and
  the rounding of a confidence to five digits are left out.
\<close>

section \<open>Signals\<close>

datatype failure_signal =
    FS_RUN_FAILED | FS_HUMAN_HANDOFF | FS_EXPIRED | FS_LOW_CONFIDENCE | FS_USER_DOWNVOTE | FS_EVAL_FAIL
  | FS_COST_EXCEEDED | FS_HUMAN_REJECTED

fun failure_signal_value :: "failure_signal \<Rightarrow> string" where
  "failure_signal_value FS_RUN_FAILED = ''run_failed''"
| "failure_signal_value FS_HUMAN_HANDOFF = ''human_handoff''"
| "failure_signal_value FS_EXPIRED = ''expired''"
| "failure_signal_value FS_LOW_CONFIDENCE = ''low_confidence''"
| "failure_signal_value FS_USER_DOWNVOTE = ''user_downvote''"
| "failure_signal_value FS_EVAL_FAIL = ''eval_fail''"
| "failure_signal_value FS_COST_EXCEEDED = ''cost_exceeded''"
| "failure_signal_value FS_HUMAN_REJECTED = ''human_rejected''"

datatype attribution_category =
    AC_INTENT_ERROR | AC_POLICY_ERROR | AC_TOOL_ERROR | AC_RETRIEVAL_ERROR | AC_SAFETY_ERROR | AC_MODEL_ERROR
  | AC_RESPONSE_ERROR | AC_UNKNOWN

fun category_value :: "attribution_category \<Rightarrow> string" where
  "category_value AC_INTENT_ERROR = ''intent_error''"
| "category_value AC_POLICY_ERROR = ''policy_error''"
| "category_value AC_TOOL_ERROR = ''tool_error''"
| "category_value AC_RETRIEVAL_ERROR = ''retrieval_error''"
| "category_value AC_SAFETY_ERROR = ''safety_error''"
| "category_value AC_MODEL_ERROR = ''model_error''"
| "category_value AC_RESPONSE_ERROR = ''response_error''"
| "category_value AC_UNKNOWN = ''unknown''"

record signal_observation =
  ob_signal :: failure_signal
  ob_severity :: string
  ob_source :: string
  ob_reason :: string

definition observe_if :: "bool \<Rightarrow> failure_signal \<Rightarrow> string \<Rightarrow> string \<Rightarrow> string \<Rightarrow> signal_observation list" where
  "observe_if b signal severity source reason =
     (if b then [\<lparr>ob_signal = signal, ob_severity = severity, ob_source = source, ob_reason = reason\<rparr>] else [])"

definition short_reason :: "string option \<Rightarrow> string \<Rightarrow> string" where
  "short_reason reason fallback =
     slice_to (upper (case reason of None \<Rightarrow> fallback | Some r \<Rightarrow> if r = [] then fallback else r)) 64"

definition signals_for_run :: "string \<Rightarrow> string option \<Rightarrow> bool \<Rightarrow> bool \<Rightarrow> signal_observation list" where
  "signals_for_run status terminal_reason eval_failed human_rejected =
     (let reason = short_reason terminal_reason ''UNKNOWN'' in
      observe_if (status = ''failed'') FS_RUN_FAILED ''p1'' ''runtime'' reason @
      observe_if (status = ''waiting_human'') FS_HUMAN_HANDOFF ''p1'' ''runtime'' reason @
      observe_if (status = ''expired'') FS_EXPIRED ''p1'' ''runtime'' reason @
      observe_if (str_in ''LOW_CLASSIFICATION_CONFIDENCE'' reason) FS_LOW_CONFIDENCE ''p2'' ''router'' reason @
      observe_if (str_in ''COST'' reason) FS_COST_EXCEEDED ''p1'' ''budget'' reason @
      observe_if eval_failed FS_EVAL_FAIL ''p1'' ''evaluation'' reason @
      observe_if human_rejected FS_HUMAN_REJECTED ''p1'' ''human_review'' reason)"

definition signals_for_evaluation :: "bool \<Rightarrow> int option \<Rightarrow> int option \<Rightarrow> string \<Rightarrow> signal_observation list" where
  "signals_for_evaluation eval_failed cost budget failure_reason =
     observe_if eval_failed FS_EVAL_FAIL ''p1'' ''evaluation'' (short_reason (Some failure_reason) ''EVALUATION_FAILED'') @
     observe_if (case (cost, budget) of (Some c, Some b) \<Rightarrow> 0 \<le> b \<and> b < c | _ \<Rightarrow> False)
       FS_COST_EXCEEDED ''p1'' ''budget'' ''EVAL_CASE_COST_EXCEEDED''"

definition deterministic_category :: "string \<Rightarrow> string list \<Rightarrow> attribution_category" where
  "deterministic_category reason_code types =
     (let reason = upper reason_code; has = (\<lambda>m. str_in m reason) in
      if has ''SAFETY'' \<or> has ''INJECTION'' \<or> has ''CREDENTIAL'' then AC_SAFETY_ERROR
      else if has ''TOOL'' \<or> has ''MUTATION'' \<or> list_ex (starts_with ''tool_'') types then AC_TOOL_ERROR
      else if has ''RETRIEV'' \<or> has ''EVIDENCE'' then AC_RETRIEVAL_ERROR
      else if has ''CONFIDENCE'' \<or> has ''INTENT'' \<or> has ''ROUTE'' then AC_INTENT_ERROR
      else if has ''POLICY'' \<or> has ''CONFIRM'' then AC_POLICY_ERROR
      else if has ''MODEL'' \<or> has ''CLASSIFIER'' then AC_MODEL_ERROR
      else if has ''RESPONSE'' \<or> has ''PUBLISH'' \<or>
        list_ex (\<lambda>t. t = ''assistant_response'' \<or> t = ''terminal_response_publish_failed'') types then AC_RESPONSE_ERROR
      else AC_UNKNOWN)"

definition cluster_key :: "(string \<Rightarrow> string) \<Rightarrow> string \<Rightarrow> string option \<Rightarrow> string option \<Rightarrow> string" where
  "cluster_key sha category route reason =
     (let part = (\<lambda>s. slice_to (case s of None \<Rightarrow> ''unknown'' | Some x \<Rightarrow> if x = [] then ''unknown'' else x) 128) in
      ''cluster:'' @ slice_to (sha (slice_to category 64 @ ''|'' @ part route @ ''|'' @ part reason)) 32)"

definition redact_text :: "string \<Rightarrow> nat \<Rightarrow> string" where
  "redact_text s maximum =
     slice_to (re_sub card_pattern ''[PAYMENT_REDACTED]'' (re_sub email_pattern ''[EMAIL_REDACTED]'' s)) maximum"

section \<open>The tables\<close>

record failure_fact =
  ff_signal :: string
  ff_severity :: string
  ff_source :: string
  ff_reason :: string

record failure_case =
  fc_failure_id :: string
  fc_tenant_id :: string
  fc_signal :: string
  fc_severity :: string
  fc_source :: string
  fc_run_id :: "string option"
  fc_eval_run_id :: "string option"
  fc_case_id :: "string option"
  fc_trace_refs :: "string list"
  fc_signals :: "failure_fact list"
  fc_status :: string
  fc_cluster_key :: string
  fc_summary :: string
  fc_source_count :: int
  fc_created_at :: int
  fc_updated_at :: int

record attribution_row =
  ab_attribution_id :: string
  ab_failure_id :: string
  ab_category :: string
  ab_llm_category :: "string option"
  ab_confidence :: "rat option"
  ab_evidence :: "string list"
  ab_model_hash :: "string option"
  ab_prompt_hash :: "string option"
  ab_review_status :: string
  ab_rationale :: "string option"
  ab_reviewed_category :: "string option"
  ab_reviewed_by :: "string option"
  ab_reviewed_at :: "int option"
  ab_review_note :: "string option"
  ab_created_at :: int

record failure_db =
  fd_cases :: "failure_case list"
  fd_attributions :: "attribution_row list"
  fd_runtime :: runtime_db

record failure_env =
  fe_now :: int
  fe_case_id :: string
  fe_row_id :: string
  fe_sha :: "string \<Rightarrow> string"

record failure_report =
  fp_tenant_id :: string
  fp_signal :: string
  fp_severity :: string
  fp_source :: string
  fp_run_id :: "string option"
  fp_eval_run_id :: "string option"
  fp_case_id :: "string option"
  fp_cluster_key :: string
  fp_summary :: string
  fp_trace_refs :: "string list"

section \<open>The repository\<close>

definition fact_of :: "failure_report \<Rightarrow> failure_fact" where
  "fact_of p = \<lparr>ff_signal = fp_signal p, ff_severity = fp_severity p, ff_source = fp_source p,
     ff_reason = slice_to (fp_summary p) 256\<rparr>"

definition new_case :: "failure_env \<Rightarrow> failure_report \<Rightarrow> failure_case" where
  "new_case env p =
     \<lparr>fc_failure_id = fe_case_id env, fc_tenant_id = fp_tenant_id p, fc_signal = fp_signal p, fc_severity = fp_severity p,
      fc_source = fp_source p, fc_run_id = fp_run_id p, fc_eval_run_id = fp_eval_run_id p, fc_case_id = fp_case_id p,
      fc_trace_refs = fp_trace_refs p, fc_signals = [fact_of p], fc_status = ''open'', fc_cluster_key = fp_cluster_key p,
      fc_summary = fp_summary p, fc_source_count = 1, fc_created_at = fe_now env, fc_updated_at = fe_now env\<rparr>"

text \<open>The update of a conflict: the evidence is merged, the summary and the status stay.\<close>

definition merged_case :: "failure_env \<Rightarrow> failure_report \<Rightarrow> failure_case \<Rightarrow> failure_case" where
  "merged_case env p c =
     c\<lparr>fc_source_count := max (fc_source_count c) 1, fc_signal := fp_signal p, fc_severity := fp_severity p,
       fc_source := fp_source p, fc_trace_refs := remdups (fc_trace_refs c @ fp_trace_refs p),
       fc_signals := remdups (fc_signals c @ [fact_of p]), fc_updated_at := fe_now env\<rparr>"

definition case_widths :: "failure_case \<Rightarrow> bool" where
  "case_widths c \<longleftrightarrow> py_len (fc_tenant_id c) \<le> 64 \<and> py_len (fc_signal c) \<le> 64 \<and> py_len (fc_severity c) \<le> 16 \<and>
     py_len (fc_source c) \<le> 64 \<and> opt_field (\<lambda>s. py_len s \<le> 128) (fc_case_id c) \<and> py_len (fc_cluster_key c) \<le> 160"

definition same_case :: "failure_report \<Rightarrow> failure_case \<Rightarrow> bool" where
  "same_case p c \<longleftrightarrow> fp_run_id p \<noteq> None \<and> fc_tenant_id c = fp_tenant_id p \<and> fc_run_id c = fp_run_id p \<and>
     fc_cluster_key c = fp_cluster_key p"

definition record_signal :: "failure_env \<Rightarrow> failure_report \<Rightarrow> failure_db \<Rightarrow> string result \<times> failure_db" where
  "record_signal env p db = atomic db
     (if py_len (fp_summary p) > 2000 \<or> length (fp_trace_refs p) > 64 then Inl (ValueError ''failure evidence exceeds bound'')
      else if \<not> case_widths (new_case env p) then Inl (OtherError ''DataError'')
      else if fp_severity p \<notin> {''p0'', ''p1'', ''p2'', ''p3''} then Inl IntegrityError
      else case select_one (same_case p) (fd_cases db) of
          Some c \<Rightarrow> Inr (fc_failure_id c, db\<lparr>fd_cases := update_rows (same_case p) (merged_case env p) (fd_cases db)\<rparr>)
        | None \<Rightarrow>
            if fe_case_id env \<in> set (map fc_failure_id (fd_cases db)) \<or>
              (case fp_run_id p of None \<Rightarrow> False | Some r \<Rightarrow> r \<notin> set (map rr_run_id (db_runs (fd_runtime db))))
            then Inl IntegrityError
            else Inr (fe_case_id env, db\<lparr>fd_cases := fd_cases db @ [new_case env p]\<rparr>))"

definition latest_attribution :: "string \<Rightarrow> failure_db \<Rightarrow> attribution_row option" where
  "latest_attribution failure_id db =
     (case sort_key (\<lambda>a. - ab_created_at a) (filter (\<lambda>a. ab_failure_id a = failure_id) (fd_attributions db)) of
        [] \<Rightarrow> None | a # _ \<Rightarrow> Some a)"

lemma latest_attribution_mem:
  assumes "latest_attribution k db = Some a"
  shows "a \<in> set (fd_attributions db)"
proof -
  obtain as where "sort_key (\<lambda>a. - ab_created_at a) (filter (\<lambda>a. ab_failure_id a = k) (fd_attributions db)) = a # as"
    using assms by (auto simp: latest_attribution_def split: list.splits)
  then have "a \<in> set (filter (\<lambda>a. ab_failure_id a = k) (fd_attributions db))" by (metis list.set_intros(1) set_sort)
  then show ?thesis by simp
qed

definition get_failure :: "string \<Rightarrow> string \<Rightarrow> failure_db \<Rightarrow> (failure_case \<times> attribution_row option) option" where
  "get_failure tenant failure_id db =
     map_option (\<lambda>c. (c, latest_attribution failure_id db))
       (select_one (\<lambda>c. fc_tenant_id c = tenant \<and> fc_failure_id c = failure_id) (fd_cases db))"

record failure_filter =
  fl_status :: "string option"
  fl_cluster_key :: "string option"
  fl_run_id :: "string option"
  fl_eval_run_id :: "string option"
  fl_case_id :: "string option"

text \<open>A text filter that is empty does not filter; the two UUID filters have no empty value.\<close>

definition text_filter :: "string option \<Rightarrow> string option \<Rightarrow> bool" where
  "text_filter f v \<longleftrightarrow> f = None \<or> f = Some [] \<or> v = f"

definition passes_filter :: "string \<Rightarrow> failure_filter \<Rightarrow> failure_case \<Rightarrow> bool" where
  "passes_filter tenant f c \<longleftrightarrow> fc_tenant_id c = tenant \<and> text_filter (fl_status f) (Some (fc_status c)) \<and>
     text_filter (fl_cluster_key f) (Some (fc_cluster_key c)) \<and> (fl_run_id f = None \<or> fc_run_id c = fl_run_id f) \<and>
     (fl_eval_run_id f = None \<or> fc_eval_run_id c = fl_eval_run_id f) \<and> text_filter (fl_case_id f) (fc_case_id c)"

definition list_failures ::
  "string \<Rightarrow> int \<Rightarrow> failure_filter \<Rightarrow> failure_db \<Rightarrow> (failure_case \<times> attribution_row option) list" where
  "list_failures tenant limit f db =
     map (\<lambda>c. (c, latest_attribution (fc_failure_id c) db))
       (take (nat (max 1 (min limit 500))) (sort_key (\<lambda>c. - fc_updated_at c) (filter (passes_filter tenant f) (fd_cases db))))"

definition attribution_widths :: "attribution_row \<Rightarrow> bool" where
  "attribution_widths a \<longleftrightarrow> py_len (ab_category a) \<le> 64 \<and> opt_field (\<lambda>s. py_len s \<le> 64) (ab_llm_category a) \<and>
     opt_field (\<lambda>s. py_len s \<le> 80) (ab_model_hash a) \<and> opt_field (\<lambda>s. py_len s \<le> 80) (ab_prompt_hash a) \<and>
     py_len (ab_review_status a) \<le> 32 \<and> opt_field (\<lambda>s. py_len s \<le> 64) (ab_reviewed_category a) \<and>
     opt_field (\<lambda>s. py_len s \<le> 128) (ab_reviewed_by a)"

definition insert_attribution :: "attribution_row \<Rightarrow> failure_db \<Rightarrow> failure_db result" where
  "insert_attribution a db =
     (if \<not> attribution_widths a then Inl (OtherError ''DataError'')
      else if (case ab_confidence a of None \<Rightarrow> False | Some c \<Rightarrow> c < 0 \<or> 1 < c) \<or>
        ab_attribution_id a \<in> set (map ab_attribution_id (fd_attributions db)) \<or>
        ab_failure_id a \<notin> set (map fc_failure_id (fd_cases db))
      then Inl IntegrityError
      else Inr (db\<lparr>fd_attributions := fd_attributions db @ [a]\<rparr>))"

definition add_attribution :: "attribution_row \<Rightarrow> failure_db \<Rightarrow> string result \<times> failure_db" where
  "add_attribution a db = atomic db
     (bind_res (insert_attribution (a\<lparr>ab_rationale := (case ab_rationale a of None \<Rightarrow> None
        | Some r \<Rightarrow> if r = [] then None else Some (slice_to r 2000))\<rparr>) db) (\<lambda>db. Inr (ab_attribution_id a, db)))"

record attribution_review =
  aw_tenant_id :: string
  aw_failure_id :: string
  aw_outcome :: string
  aw_reviewer :: string
  aw_category :: "string option"
  aw_note :: string

definition reviewed_row :: "failure_env \<Rightarrow> attribution_review \<Rightarrow> attribution_row \<Rightarrow> attribution_row" where
  "reviewed_row env v a =
     a\<lparr>ab_review_status := aw_outcome v, ab_reviewed_category := aw_category v,
       ab_reviewed_by := Some (slice_to (aw_reviewer v) 128), ab_reviewed_at := Some (fe_now env),
       ab_review_note := Some (redact_text (aw_note v) 2000)\<rparr>"

definition blank_attribution :: "failure_env \<Rightarrow> string \<Rightarrow> attribution_row" where
  "blank_attribution env failure_id =
     \<lparr>ab_attribution_id = fe_row_id env, ab_failure_id = failure_id, ab_category = ''unknown'', ab_llm_category = None,
      ab_confidence = None, ab_evidence = [], ab_model_hash = None, ab_prompt_hash = None, ab_review_status = ''pending'',
      ab_rationale = None, ab_reviewed_category = None, ab_reviewed_by = None, ab_reviewed_at = None, ab_review_note = None,
      ab_created_at = fe_now env\<rparr>"

definition tenant_attribution :: "attribution_review \<Rightarrow> failure_db \<Rightarrow> attribution_row option" where
  "tenant_attribution v db =
     (if list_ex (\<lambda>c. fc_failure_id c = aw_failure_id v \<and> fc_tenant_id c = aw_tenant_id v) (fd_cases db)
      then latest_attribution (aw_failure_id v) db else None)"

definition review_attribution :: "failure_env \<Rightarrow> attribution_review \<Rightarrow> failure_db \<Rightarrow> string result \<times> failure_db" where
  "review_attribution env v db = atomic db
     (if aw_outcome v \<notin> {''verified_success'', ''verified_failure''} then Inl (ValueError ''invalid_review_outcome'')
      else if aw_reviewer v = [] \<or> \<not> nonblank (aw_note v) then Inl (ValueError ''reviewer_and_note_required'')
      else bind_res
        (case tenant_attribution v db of
           None \<Rightarrow> bind_res (insert_attribution (reviewed_row env v (blank_attribution env (aw_failure_id v))) db)
             (\<lambda>db. Inr (fe_row_id env, db))
         | Some a \<Rightarrow>
             if \<not> attribution_widths (reviewed_row env v a) then Inl (OtherError ''DataError'')
             else Inr (ab_attribution_id a, db\<lparr>fd_attributions :=
               update_rows (\<lambda>x. ab_attribution_id x = ab_attribution_id a) (reviewed_row env v) (fd_attributions db)\<rparr>))
        (\<lambda>(attribution_id, db). Inr (attribution_id, db\<lparr>fd_cases :=
           update_rows (\<lambda>c. fc_tenant_id c = aw_tenant_id v \<and> fc_failure_id c = aw_failure_id v)
             (\<lambda>c. c\<lparr>fc_status := ''reviewed'', fc_updated_at := fe_now env\<rparr>) (fd_cases db)\<rparr>)))"

section \<open>The service\<close>

record attribution_output =
  ao_category :: attribution_category
  ao_confidence :: rat
  ao_evidence :: "string list"
  ao_rationale :: string

record analysis_input =
  ai_signal :: string
  ai_summary :: string
  ai_category :: string
  ai_facts :: "(string \<times> string) list"

text \<open>The settings of the judge model that attribution uses, and the model.\<close>

record attribution_model =
  am_enabled :: bool
  am_model :: "string option"
  am_api_base :: "string option"
  am_api_key :: "string option"
  am_ask :: "analysis_input \<Rightarrow> attribution_output option result"

definition validate_attribution :: "string list \<Rightarrow> attribution_output option \<Rightarrow> attribution_output option" where
  "validate_attribution allowed parsed =
     (case parsed of
        None \<Rightarrow> None
      | Some x \<Rightarrow>
          if \<not> set (ao_evidence x) \<subseteq> set allowed then None
          else if allowed \<noteq> [] \<and> ao_evidence x = [] then None
          else if ao_confidence x < 7 / 10 then None
          else Some (x\<lparr>ao_rationale := redact_text (ao_rationale x) 500\<rparr>))"

definition analysis_of :: "string \<Rightarrow> string \<Rightarrow> string \<Rightarrow> (string \<times> string) list \<Rightarrow> analysis_input" where
  "analysis_of signal summary category facts =
     \<lparr>ai_signal = slice_to signal 64, ai_summary = redact_text summary 500, ai_category = slice_to category 64,
      ai_facts = map (map_prod (\<lambda>s. slice_to s 64) (\<lambda>s. slice_to s 64)) (take 64 facts)\<rparr>"

definition set_text :: "string option \<Rightarrow> bool" where
  "set_text s \<longleftrightarrow> s \<noteq> None \<and> s \<noteq> Some []"

definition model_output ::
  "attribution_model \<Rightarrow> string \<Rightarrow> string \<Rightarrow> string \<Rightarrow> (string \<times> string) list \<Rightarrow> attribution_output option" where
  "model_output am signal summary category facts =
     (if am_enabled am \<and> set_text (am_model am) \<and> set_text (am_api_base am) \<and> set_text (am_api_key am) \<and> facts \<noteq> []
      then (case am_ask am (analysis_of signal summary category facts) of
              Inl e \<Rightarrow> None | Inr parsed \<Rightarrow> validate_attribution (map fst facts) parsed)
      else None)"

definition attribution_for ::
  "failure_env \<Rightarrow> attribution_model \<Rightarrow> failure_case \<Rightarrow> string \<Rightarrow> (string \<times> string) list \<Rightarrow> string \<Rightarrow> string \<Rightarrow>
   attribution_row" where
  "attribution_for env am c category facts signal rationale =
     (case model_output am signal (fc_summary c) category facts of
        None \<Rightarrow> (blank_attribution env (fc_failure_id c))\<lparr>ab_category := category, ab_evidence := fc_trace_refs c,
          ab_rationale := Some rationale\<rparr>
      | Some x \<Rightarrow> (blank_attribution env (fc_failure_id c))\<lparr>ab_category := category,
          ab_llm_category := Some (category_value (ao_category x)), ab_confidence := Some (ao_confidence x),
          ab_evidence := ao_evidence x,
          ab_model_hash := map_option (\<lambda>m. ''sha256:'' @ slice_to (fe_sha env (''attribution-model:'' @ m)) 64) (am_model am),
          ab_prompt_hash := Some ''sha256:attribution-facts-only-v1'',
          ab_rationale := Some (if ao_rationale x = [] then rationale else ao_rationale x)\<rparr>)"

text \<open>Event replay is best effort: any error of it leaves no facts.\<close>

definition event_facts :: "event_codec \<Rightarrow> string \<Rightarrow> string \<Rightarrow> failure_db \<Rightarrow> (string \<times> string) list" where
  "event_facts ec run_id tenant db =
     (case replay_events ec run_id tenant 0 200 None (fd_runtime db) of
        Inl e \<Rightarrow> [] | Inr es \<Rightarrow> map (\<lambda>x. (vx_event_id x, event_type_value (ev_type (vx_event x)))) es)"

record run_signal =
  rn_tenant_id :: string
  rn_run_id :: string
  rn_signal :: string
  rn_source :: string
  rn_reason :: string
  rn_route :: "string option"
  rn_severity :: "string option"

definition severity_for :: "string \<Rightarrow> string" where
  "severity_for signal = (if signal \<in> {''run_failed'', ''cost_exceeded''} then ''p1'' else ''p2'')"

definition default_rationale :: string where
  "default_rationale = [CHR 0xE7, CHR 0xA1, CHR 0xAE, CHR 0xE5, CHR 0xAE, CHR 0x9A, CHR 0xE6, CHR 0x80,
      CHR 0xA7, CHR 0xE8, CHR 0xA7, CHR 0x84, CHR 0xE5, CHR 0x88, CHR 0x99,
      CHR 0xE5, CHR 0xBD, CHR 0x92, CHR 0xE5, CHR 0x9B, CHR 0xA0, CHR 0xEF,
      CHR 0xBC, CHR 0x9B, CHR 0x4C, CHR 0x4C, CHR 0x4D, CHR 0x20, CHR 0xE5,
      CHR 0xBD, CHR 0x92, CHR 0xE5, CHR 0x9B, CHR 0xA0, CHR 0xE9, CHR 0x9C,
      CHR 0x80, CHR 0xE7, CHR 0x8B, CHR 0xAC, CHR 0xE7, CHR 0xAB, CHR 0x8B,
      CHR 0xE6, CHR 0xA8, CHR 0xA1, CHR 0xE5, CHR 0x9E, CHR 0x8B, CHR 0xE5,
      CHR 0xB9, CHR 0xB6, CHR 0xE4, CHR 0xBF, CHR 0x9D, CHR 0xE6, CHR 0x8C,
      CHR 0x81, CHR 0xE5, CHR 0xBE, CHR 0x85, CHR 0xE5, CHR 0xA4, CHR 0x8D,
      CHR 0xE6, CHR 0xA0, CHR 0xB8, CHR 0xE3, CHR 0x80, CHR 0x82]"

definition evaluation_rationale :: string where
  "evaluation_rationale = [CHR 0xE8, CHR 0xAF, CHR 0x84, CHR 0xE6, CHR 0xB5, CHR 0x8B, CHR 0x2F, CHR 0xE9,
      CHR 0xA2, CHR 0x84, CHR 0xE7, CHR 0xAE, CHR 0x97, CHR 0xE4, CHR 0xBF,
      CHR 0xA1, CHR 0xE5, CHR 0x8F, CHR 0xB7, CHR 0xE5, CHR 0xB7, CHR 0xB2,
      CHR 0xE8, CHR 0xAE, CHR 0xB0, CHR 0xE5, CHR 0xBD, CHR 0x95, CHR 0xEF,
      CHR 0xBC, CHR 0x9B, CHR 0xE8, CHR 0x87, CHR 0xAA, CHR 0xE5, CHR 0x8A,
      CHR 0xA8, CHR 0xE5, CHR 0x8C, CHR 0x96, CHR 0xE7, CHR 0xBB, CHR 0x93,
      CHR 0xE6, CHR 0x9E, CHR 0x9C, CHR 0xE4, CHR 0xBB, CHR 0x8D, CHR 0xE5,
      CHR 0xBE, CHR 0x85, CHR 0xE4, CHR 0xBA, CHR 0xBA, CHR 0xE5, CHR 0xB7,
      CHR 0xA5, CHR 0xE5, CHR 0xA4, CHR 0x8D, CHR 0xE6, CHR 0xA0, CHR 0xB8,
      CHR 0xE3, CHR 0x80, CHR 0x82]"

definition reanalysis_rationale :: string where
  "reanalysis_rationale = [CHR 0xE9, CHR 0x87, CHR 0x8D, CHR 0xE6, CHR 0x96, CHR 0xB0, CHR 0xE8, CHR 0xBF,
      CHR 0x90, CHR 0xE8, CHR 0xA1, CHR 0x8C, CHR 0xE7, CHR 0xA1, CHR 0xAE,
      CHR 0xE5, CHR 0xAE, CHR 0x9A, CHR 0xE6, CHR 0x80, CHR 0xA7, CHR 0xE5,
      CHR 0xBD, CHR 0x92, CHR 0xE5, CHR 0x9B, CHR 0xA0, CHR 0xEF, CHR 0xBC,
      CHR 0x9B, CHR 0xE8, CHR 0x87, CHR 0xAA, CHR 0xE5, CHR 0x8A, CHR 0xA8,
      CHR 0xE5, CHR 0x8C, CHR 0x96, CHR 0xE8, CHR 0xAF, CHR 0x84, CHR 0xE6,
      CHR 0xB5, CHR 0x8B, CHR 0xE6, CHR 0xB2, CHR 0xA1, CHR 0xE6, CHR 0x9C,
      CHR 0x89, CHR 0xE7, CHR 0x9C, CHR 0x9F, CHR 0xE4, CHR 0xBA, CHR 0xBA,
      CHR 0xE5, CHR 0xAE, CHR 0xA1, CHR 0xE6, CHR 0x89, CHR 0xB9, CHR 0xEF,
      CHR 0xBC, CHR 0x8C, CHR 0xE5, CHR 0x9B, CHR 0xA0, CHR 0xE6, CHR 0xAD,
      CHR 0xA4, CHR 0xE4, CHR 0xBB, CHR 0x8D, CHR 0xE5, CHR 0xBE, CHR 0x85,
      CHR 0xE5, CHR 0xA4, CHR 0x8D, CHR 0xE6, CHR 0xA0, CHR 0xB8, CHR 0xE3,
      CHR 0x80, CHR 0x82]"

definition or_else :: "string option \<Rightarrow> string \<Rightarrow> string" where
  "or_else s d = (case s of None \<Rightarrow> d | Some x \<Rightarrow> if x = [] then d else x)"

definition run_report :: "(string \<Rightarrow> string) \<Rightarrow> run_signal \<Rightarrow> (string \<times> string) list \<Rightarrow> failure_report" where
  "run_report sha s facts =
     \<lparr>fp_tenant_id = rn_tenant_id s, fp_signal = rn_signal s, fp_severity = or_else (rn_severity s) (severity_for (rn_signal s)),
      fp_source = rn_source s, fp_run_id = Some (rn_run_id s), fp_eval_run_id = None, fp_case_id = None,
      fp_cluster_key = cluster_key sha ''run_signal'' (Some (or_else (rn_route s) ''terminal'')) None,
      fp_summary = redact_text (rn_signal s @ '': '' @ slice_to (rn_reason s) 256) 2000, fp_trace_refs = map fst facts\<rparr>"

text \<open>Recording a signal, attaching an attribution and reading the case back are three transactions.\<close>

definition attach ::
  "failure_env \<Rightarrow> attribution_model \<Rightarrow> failure_case \<Rightarrow> string \<Rightarrow> (string \<times> string) list \<Rightarrow> string \<Rightarrow> string \<Rightarrow> failure_db \<Rightarrow>
   (failure_case \<times> attribution_row option) option result \<times> failure_db" where
  "attach env am c category facts signal rationale db =
     (case add_attribution (attribution_for env am c category facts signal rationale) db of
        (Inl e, db) \<Rightarrow> (Inl e, db)
      | (Inr a, db) \<Rightarrow> (Inr (get_failure (fc_tenant_id c) (fc_failure_id c) db), db))"

definition record_and_attach ::
  "failure_env \<Rightarrow> attribution_model \<Rightarrow> failure_report \<Rightarrow> string \<Rightarrow> (string \<times> string) list \<Rightarrow> string \<Rightarrow> failure_db \<Rightarrow>
   (failure_case \<times> attribution_row option) option result \<times> failure_db" where
  "record_and_attach env am p category facts rationale db =
     (case record_signal env p db of
        (Inl e, db) \<Rightarrow> (Inl e, db)
      | (Inr failure_id, db) \<Rightarrow>
          (case get_failure (fp_tenant_id p) failure_id db of
             None \<Rightarrow> (Inl (OtherError ''AttributeError''), db)
           | Some (c, _) \<Rightarrow> attach env am c category facts (fp_signal p) rationale db))"

definition record_run_signal ::
  "failure_env \<Rightarrow> event_codec \<Rightarrow> attribution_model \<Rightarrow> run_signal \<Rightarrow> failure_db \<Rightarrow>
   (failure_case \<times> attribution_row option) option result \<times> failure_db" where
  "record_run_signal env ec am s db =
     (let facts = event_facts ec (rn_run_id s) (rn_tenant_id s) db;
          category = category_value (deterministic_category (rn_reason s) (map snd facts))
      in record_and_attach env am (run_report (fe_sha env) s facts) category facts default_rationale db)"

definition observed_signal :: "string \<Rightarrow> string \<Rightarrow> string option \<Rightarrow> signal_observation \<Rightarrow> run_signal" where
  "observed_signal tenant run_id route x =
     \<lparr>rn_tenant_id = tenant, rn_run_id = run_id, rn_signal = failure_signal_value (ob_signal x), rn_source = ob_source x,
      rn_reason = ob_reason x, rn_route = route, rn_severity = Some (ob_severity x)\<rparr>"

text \<open>One after the other, each with clocks and ids of its own; the first error ends the projection.\<close>

fun in_turn ::
  "(failure_env \<Rightarrow> 'x \<Rightarrow> failure_db \<Rightarrow> 'y option result \<times> failure_db) \<Rightarrow> (nat \<Rightarrow> failure_env) \<Rightarrow> nat \<Rightarrow> 'x list \<Rightarrow>
   failure_db \<Rightarrow> 'y list result \<times> failure_db" where
  "in_turn f envs i [] db = (Inr [], db)"
| "in_turn f envs i (x # xs) db =
     (case f (envs i) x db of
        (Inl e, db) \<Rightarrow> (Inl e, db)
      | (Inr y, db) \<Rightarrow>
          (case in_turn f envs (i + 1) xs db of
             (Inl e, db) \<Rightarrow> (Inl e, db)
           | (Inr ys, db) \<Rightarrow> (Inr ((case y of None \<Rightarrow> [] | Some v \<Rightarrow> [v]) @ ys), db)))"

record run_outcome =
  rm_tenant_id :: string
  rm_run_id :: string
  rm_status :: string
  rm_reason :: "string option"
  rm_route :: "string option"
  rm_eval_failed :: bool
  rm_human_rejected :: bool

definition record_run_outcome ::
  "(nat \<Rightarrow> failure_env) \<Rightarrow> event_codec \<Rightarrow> attribution_model \<Rightarrow> run_outcome \<Rightarrow> failure_db \<Rightarrow>
   (failure_case \<times> attribution_row option) list result \<times> failure_db" where
  "record_run_outcome envs ec am m db =
     in_turn (\<lambda>env x. record_run_signal env ec am (observed_signal (rm_tenant_id m) (rm_run_id m) (rm_route m) x)) envs 0
       (signals_for_run (rm_status m) (rm_reason m) (rm_eval_failed m) (rm_human_rejected m)) db"

record evaluation_outcome =
  eo_tenant_id :: string
  eo_eval_run_id :: string
  eo_case_id :: string
  eo_track :: string
  eo_failed :: bool
  eo_cost :: "int option"
  eo_budget :: "int option"
  eo_reason :: string

definition evaluation_report :: "(string \<Rightarrow> string) \<Rightarrow> evaluation_outcome \<Rightarrow> signal_observation \<Rightarrow> failure_report" where
  "evaluation_report sha m x =
     \<lparr>fp_tenant_id = eo_tenant_id m, fp_signal = failure_signal_value (ob_signal x), fp_severity = ob_severity x,
      fp_source = ob_source x, fp_run_id = None, fp_eval_run_id = Some (eo_eval_run_id m), fp_case_id = Some (eo_case_id m),
      fp_cluster_key = cluster_key sha ''evaluation'' (Some (eo_track m)) (Some (failure_signal_value (ob_signal x))),
      fp_summary = failure_signal_value (ob_signal x) @ '': '' @ ob_reason x, fp_trace_refs = []\<rparr>"

definition record_evaluation_outcome ::
  "(nat \<Rightarrow> failure_env) \<Rightarrow> attribution_model \<Rightarrow> evaluation_outcome \<Rightarrow> failure_db \<Rightarrow>
   (failure_case \<times> attribution_row option) list result \<times> failure_db" where
  "record_evaluation_outcome envs am m db =
     in_turn (\<lambda>env x. record_and_attach env am (evaluation_report (fe_sha env) m x)
         (category_value (deterministic_category (ob_reason x) [])) [] evaluation_rationale) envs 0
       (signals_for_evaluation (eo_failed m) (eo_cost m) (eo_budget m) (eo_reason m)) db"

definition reanalyze ::
  "failure_env \<Rightarrow> event_codec \<Rightarrow> attribution_model \<Rightarrow> failure_case \<Rightarrow> failure_db \<Rightarrow>
   (failure_case \<times> attribution_row option) option result \<times> failure_db" where
  "reanalyze env ec am c db =
     (let facts = (case fc_run_id c of None \<Rightarrow> [] | Some r \<Rightarrow> event_facts ec r (fc_tenant_id c) db);
          category = category_value (deterministic_category (fc_signal c) (map snd facts))
      in attach env am c category facts (fc_signal c) reanalysis_rationale db)"

section \<open>What the learning summary counts\<close>

definition counted_reviewed :: "string list" where
  "counted_reviewed = [''reviewed'', ''verified'', ''approved'']"

record cluster_summary =
  ck_cluster_key :: string
  ck_case_count :: int
  ck_max_source_count :: int
  ck_evidence_count :: int
  ck_attributed_count :: int
  ck_reviewed_count :: int

definition evidence_ref :: "failure_case \<Rightarrow> string" where
  "evidence_ref c =
     (case fc_case_id c of Some k \<Rightarrow> k | None \<Rightarrow> (case fc_run_id c of Some r \<Rightarrow> r | None \<Rightarrow> fc_failure_id c))"

definition cluster_row :: "failure_db \<Rightarrow> failure_case list \<Rightarrow> string \<Rightarrow> cluster_summary" where
  "cluster_row db cases k =
     (let cs = filter (\<lambda>c. fc_cluster_key c = k) cases;
          latest = List.map_filter (\<lambda>c. latest_attribution (fc_failure_id c) db) cs
      in \<lparr>ck_cluster_key = k, ck_case_count = int (length cs), ck_max_source_count = foldl max 0 (map fc_source_count cs),
          ck_evidence_count = int (length (remdups (map evidence_ref cs))), ck_attributed_count = int (length latest),
          ck_reviewed_count = int (length (filter (\<lambda>a. ab_review_status a \<in> set counted_reviewed) latest))\<rparr>)"

definition cluster_summaries :: "int \<Rightarrow> string \<Rightarrow> int \<Rightarrow> int \<Rightarrow> failure_db \<Rightarrow> cluster_summary list result" where
  "cluster_summaries now tenant window_days limit db =
     (if \<not> (1 \<le> window_days \<and> window_days \<le> 90) then Inl (ValueError ''window_days must be between 1 and 90'')
      else (let cases = filter (\<lambda>c. fc_tenant_id c = tenant \<and> now - window_days * (24 * 60 * 60 * 1000000) \<le> fc_created_at c)
              (fd_cases db)
            in Inr (take (nat (max 1 (min limit 100))) (sort_key (\<lambda>x. (- ck_case_count x, ck_cluster_key x))
                 (map (cluster_row db cases) (remdups (map fc_cluster_key cases)))))))"

section \<open>What a recorded signal leaves\<close>

lemma record_signal_Inr:
  assumes "record_signal env p db = (Inr k, db')"
  shows "fd_attributions db' = fd_attributions db \<and> fd_runtime db' = fd_runtime db \<and>
    length (fd_cases db') \<le> length (fd_cases db) + 1 \<and>
    (list_ex (same_case p) (fd_cases db) \<longrightarrow> length (fd_cases db') = length (fd_cases db)) \<and>
    (\<forall>c\<in>set (fd_cases db). \<not> same_case p c \<longrightarrow> c \<in> set (fd_cases db'))"
  using assms unfolding record_signal_def atomic_Inr
  by (auto simp: select_one_None list_ex_iff update_rows_def split: if_splits option.splits)

lemma record_signal_Inl: "record_signal env p db = (Inl e, db') \<Longrightarrow> db' = db"
  by (simp add: record_signal_def atomic_Inl)

lemma add_attribution_Inr:
  assumes "add_attribution a db = (Inr k, db')"
  shows "fd_cases db' = fd_cases db \<and> fd_runtime db' = fd_runtime db \<and>
    (\<exists>r. fd_attributions db' = fd_attributions db @ [a\<lparr>ab_rationale := r\<rparr>])"
  using assms unfolding add_attribution_def atomic_Inr
  by (auto simp: bind_res_eq_Inr insert_attribution_def split: if_splits)

lemma add_attribution_Inl: "add_attribution a db = (Inl e, db') \<Longrightarrow> db' = db"
  by (simp add: add_attribution_def atomic_Inl)

lemma attach_cases:
  assumes "attach env am c category facts signal rationale db = (x, db')"
  obtains (failed) e where "x = Inl e" "db' = db"
  | (attached) r where "isl x = False" "fd_cases db' = fd_cases db" "fd_runtime db' = fd_runtime db"
      "fd_attributions db' = fd_attributions db @ [(attribution_for env am c category facts signal rationale)\<lparr>ab_rationale := r\<rparr>]"
proof (cases "add_attribution (attribution_for env am c category facts signal rationale) db")
  case (Pair y db1)
  show ?thesis
  proof (cases y)
    case (Inl e)
    then have "db1 = db" using Pair add_attribution_Inl by blast
    then have "x = Inl e" "db' = db" using assms Pair Inl by (simp_all add: attach_def)
    then show ?thesis by (rule failed)
  next
    case (Inr k)
    then obtain r where "fd_cases db1 = fd_cases db" "fd_runtime db1 = fd_runtime db"
      "fd_attributions db1 = fd_attributions db @ [(attribution_for env am c category facts signal rationale)\<lparr>ab_rationale := r\<rparr>]"
      using add_attribution_Inr [of _ db k db1] Pair by metis
    moreover have "isl x = False" "db' = db1" using assms Pair Inr by (auto simp: attach_def)
    ultimately show ?thesis using attached [of r] by simp
  qed
qed

lemma model_output_Some:
  assumes "model_output am signal summary category facts = Some x"
  shows "am_enabled am \<and> facts \<noteq> [] \<and> ao_evidence x \<noteq> [] \<and> set (ao_evidence x) \<subseteq> fst ` set facts \<and> 7 / 10 \<le> ao_confidence x"
  using assms by (auto simp: model_output_def validate_attribution_def not_less split: if_splits sum.splits option.splits)

lemma attribution_for_facts:
  "ab_review_status (attribution_for env am c category facts signal rationale) = ''pending''"
  "ab_reviewed_by (attribution_for env am c category facts signal rationale) = None"
  "ab_category (attribution_for env am c category facts signal rationale) = category"
  "ab_failure_id (attribution_for env am c category facts signal rationale) = fc_failure_id c"
  by (simp_all add: attribution_for_def blank_attribution_def split: option.splits)

lemma attribution_for_evidence:
  assumes "ab_llm_category (attribution_for env am c category facts signal rationale) \<noteq> None"
  shows "am_enabled am \<and> ab_evidence (attribution_for env am c category facts signal rationale) \<noteq> [] \<and>
    set (ab_evidence (attribution_for env am c category facts signal rationale)) \<subseteq> fst ` set facts \<and>
    (\<exists>x. ab_confidence (attribution_for env am c category facts signal rationale) = Some x \<and> 7 / 10 \<le> x)"
  using assms model_output_Some [of am signal "fc_summary c" category facts]
  by (auto simp: attribution_for_def blank_attribution_def split: option.splits)

lemma record_and_attach_Inr:
  assumes "record_and_attach env am p category facts rationale db = (Inr v, db')"
  obtains c r db1 k where "record_signal env p db = (Inr k, db1)" "fd_cases db' = fd_cases db1"
    "fd_attributions db' = fd_attributions db @ [(attribution_for env am c category facts (fp_signal p) rationale)\<lparr>ab_rationale := r\<rparr>]"
proof -
  obtain k db1 c x where rec: "record_signal env p db = (Inr k, db1)"
    and att: "attach env am c category facts (fp_signal p) rationale db1 = (Inr v, db')"
    using assms unfolding record_and_attach_def by (auto split: prod.splits sum.splits option.splits)
  show ?thesis
    using att
  proof (cases rule: attach_cases)
    case (attached r)
    then show ?thesis using that [OF rec] record_signal_Inr [OF rec] by metis
  qed simp
qed

lemma event_facts_replayed:
  "facts = event_facts ec run_id tenant db \<Longrightarrow> facts \<noteq> [] \<Longrightarrow>
     \<exists>es. replay_events ec run_id tenant 0 200 None (fd_runtime db) = Inr es \<and> fst ` set facts = vx_event_id ` set es"
  by (auto simp: event_facts_def image_image split: sum.splits)

text \<open>The bound of the repository is below the page of the replay.\<close>

lemma long_run_not_recorded:
  assumes "replay_events ec (rn_run_id s) (rn_tenant_id s) 0 200 None (fd_runtime db) = Inr es" "64 < length es"
  shows "record_run_signal env ec am s db = (Inl (ValueError ''failure evidence exceeds bound''), db)"
  using assms by (simp add: record_run_signal_def record_and_attach_def record_signal_def run_report_def event_facts_def atomic_def)

section \<open>Histories\<close>

inductive failure_step :: "failure_db \<Rightarrow> failure_db \<Rightarrow> bool" where
  outcome: "record_run_outcome envs ec am m db = (x, db') \<Longrightarrow> failure_step db db'"
| signal: "record_run_signal env ec am s db = (y, db') \<Longrightarrow> failure_step db db'"
| evaluated: "record_evaluation_outcome envs am e db = (x, db') \<Longrightarrow> failure_step db db'"
| again: "reanalyze env ec am c db = (y, db') \<Longrightarrow> failure_step db db'"
| review: "review_attribution env v db = (z, db') \<Longrightarrow> failure_step db db'"
| elsewhere: "fd_attributions db' = fd_attributions db \<Longrightarrow> failure_step db db'"

definition written_statuses :: "string set" where
  "written_statuses = {''pending'', ''verified_success'', ''verified_failure''}"

definition statuses_ok :: "failure_db \<Rightarrow> bool" where
  "statuses_ok db \<longleftrightarrow> (\<forall>a\<in>set (fd_attributions db). ab_review_status a \<in> written_statuses)"

lemma attach_statuses:
  assumes "attach env am c category facts signal rationale db = (x, db')" "statuses_ok db"
  shows "statuses_ok db'"
  using assms(1)
proof (cases rule: attach_cases)
  case (attached r)
  then show ?thesis using assms(2) by (auto simp: statuses_ok_def attribution_for_facts written_statuses_def)
qed (use assms(2) in simp)

lemma record_and_attach_statuses:
  assumes "record_and_attach env am p category facts rationale db = (x, db')" "statuses_ok db"
  shows "statuses_ok db'"
proof (cases "record_signal env p db")
  case (Pair y db1)
  have "statuses_ok db1"
    using assms(2) Pair record_signal_Inr [of env p db _ db1] record_signal_Inl [of env p db _ db1]
    by (cases y) (auto simp: statuses_ok_def)
  then show ?thesis using assms(1) Pair attach_statuses unfolding record_and_attach_def
    by (auto split: sum.splits option.splits prod.splits)
qed

lemma in_turn_statuses:
  assumes "\<And>env x db y db'. f env x db = (y, db') \<Longrightarrow> statuses_ok db \<Longrightarrow> statuses_ok db'"
    "in_turn f envs i xs db = (z, db')" "statuses_ok db"
  shows "statuses_ok db'"
  using assms(2,3)
proof (induction xs arbitrary: i db z db')
  case (Cons x xs)
  obtain y db1 where one: "f (envs i) x db = (y, db1)" by (cases "f (envs i) x db")
  obtain w db2 where rest: "in_turn f envs (i + 1) xs db1 = (w, db2)" by (cases "in_turn f envs (i + 1) xs db1")
  have "statuses_ok db1" by (rule assms(1) [OF one Cons.prems(2)])
  then show ?case using Cons.prems(1) Cons.IH [OF rest] one rest by (auto split: sum.splits)
qed simp

lemma record_run_signal_statuses: "record_run_signal env ec am s db = (y, db') \<Longrightarrow> statuses_ok db \<Longrightarrow> statuses_ok db'"
  unfolding record_run_signal_def Let_def by (rule record_and_attach_statuses)

lemma review_statuses:
  assumes "review_attribution env v db = (z, db')" "statuses_ok db"
  shows "statuses_ok db'"
proof -
  have "statuses_ok d" if "review_attribution env v db = (Inr y, d)" for y d
    using that assms(2) unfolding review_attribution_def atomic_Inr
    by (auto simp: bind_res_eq_Inr insert_attribution_def statuses_ok_def reviewed_row_def blank_attribution_def
        update_rows_def written_statuses_def split: if_splits option.splits)
  then show ?thesis using assms by (cases z) (auto simp: review_attribution_def atomic_Inl)
qed

lemma failure_step_statuses: "failure_step db db' \<Longrightarrow> statuses_ok db \<Longrightarrow> statuses_ok db'"
proof (induction rule: failure_step.induct)
  case (outcome envs ec am m db x db')
  show ?case
    by (rule in_turn_statuses [OF _ outcome(1) [unfolded record_run_outcome_def] outcome(2)])
      (rule record_run_signal_statuses)
next
  case (evaluated envs am e db x db')
  show ?case
    by (rule in_turn_statuses [OF _ evaluated(1) [unfolded record_evaluation_outcome_def] evaluated(2)])
      (rule record_and_attach_statuses)
next
  case (again env ec am c db y db')
  then show ?case unfolding reanalyze_def Let_def by (metis attach_statuses)
next
  case (elsewhere db' db)
  then show ?case by (simp add: statuses_ok_def)
qed (auto intro: record_run_signal_statuses review_statuses)

section \<open>Properties\<close>

text \<open>An automatic attribution never goes beyond its evidence. Recording a signal of a run attaches exactly
  one attribution, which waits for review and names no reviewer; it has the category of the deterministic
  rules; the category of the model is added only when the model is enabled, cites at least one event, cites
  nothing but events of the replay of this run and is confident by at least 0.7. At most one case is added,
  none when the run already has a case of the cluster, and the cases of others stay as they are.\<close>

theorem attribution_stays_in_evidence:
  assumes "record_run_signal env ec am s db = (Inr v, db')"
  shows "(\<exists>a. fd_attributions db' = fd_attributions db @ [a] \<and> ab_review_status a = ''pending'' \<and> ab_reviewed_by a = None \<and>
      ab_category a = category_value (deterministic_category (rn_reason s)
        (map snd (event_facts ec (rn_run_id s) (rn_tenant_id s) db))) \<and>
      (ab_llm_category a \<noteq> None \<longrightarrow> am_enabled am \<and> ab_evidence a \<noteq> [] \<and> (\<exists>c. ab_confidence a = Some c \<and> 7 / 10 \<le> c) \<and>
        (\<exists>es. replay_events ec (rn_run_id s) (rn_tenant_id s) 0 200 None (fd_runtime db) = Inr es \<and>
          set (ab_evidence a) \<subseteq> vx_event_id ` set es))) \<and>
    (let p = run_report (fe_sha env) s (event_facts ec (rn_run_id s) (rn_tenant_id s) db) in
      length (fd_cases db') \<le> length (fd_cases db) + 1 \<and>
      (list_ex (same_case p) (fd_cases db) \<longrightarrow> length (fd_cases db') = length (fd_cases db)) \<and>
      (\<forall>c\<in>set (fd_cases db). \<not> same_case p c \<longrightarrow> c \<in> set (fd_cases db')))"
proof -
  let ?facts = "event_facts ec (rn_run_id s) (rn_tenant_id s) db"
  let ?category = "category_value (deterministic_category (rn_reason s) (map snd ?facts))"
  have run: "record_and_attach env am (run_report (fe_sha env) s ?facts) ?category ?facts default_rationale db = (Inr v, db')"
    using assms by (simp add: record_run_signal_def Let_def)
  obtain c r db1 k where one: "record_signal env (run_report (fe_sha env) s ?facts) db = (Inr k, db1)" "fd_cases db' = fd_cases db1"
    and a: "fd_attributions db' = fd_attributions db @
      [(attribution_for env am c ?category ?facts (fp_signal (run_report (fe_sha env) s ?facts)) default_rationale)\<lparr>ab_rationale := r\<rparr>]"
    by (rule record_and_attach_Inr [OF run])
  let ?a = "attribution_for env am c ?category ?facts (fp_signal (run_report (fe_sha env) s ?facts)) default_rationale"
  have evidence: "am_enabled am \<and> ab_evidence ?a \<noteq> [] \<and> (\<exists>c. ab_confidence ?a = Some c \<and> 7 / 10 \<le> c) \<and>
      (\<exists>es. replay_events ec (rn_run_id s) (rn_tenant_id s) 0 200 None (fd_runtime db) = Inr es \<and>
        set (ab_evidence ?a) \<subseteq> vx_event_id ` set es)" if "ab_llm_category ?a \<noteq> None"
  proof -
    have sub: "set (ab_evidence ?a) \<subseteq> fst ` set ?facts" and some: "am_enabled am" "ab_evidence ?a \<noteq> []"
      "\<exists>c. ab_confidence ?a = Some c \<and> 7 / 10 \<le> c" using attribution_for_evidence [OF that] by blast+
    then have "?facts \<noteq> []" by auto
    then show ?thesis using event_facts_replayed [OF refl] sub some by metis
  qed
  show ?thesis
    unfolding Let_def
    by (intro conjI exI [of _ "?a\<lparr>ab_rationale := r\<rparr>"])
      (use a one(2) record_signal_Inr [OF one(1)] evidence in \<open>simp_all add: attribution_for_facts\<close>)
qed

text \<open>C38: the learning summary never counts a review. In every history of the service and of the reviews of
  operators, the summary of each cluster reports no reviewed case, because the outcomes a review writes are
  none of the three the summary looks for.\<close>

theorem reviews_are_never_counted:
  assumes "failure_step\<^sup>*\<^sup>* db db'" "fd_attributions db = []" "cluster_summaries now tenant window_days limit db' = Inr rows"
  shows "\<forall>x\<in>set rows. ck_reviewed_count x = 0"
proof -
  have "statuses_ok db'"
    using assms(1)
  proof (induction rule: rtranclp_induct)
    case base
    then show ?case using assms(2) by (simp add: statuses_ok_def)
  qed (rule failure_step_statuses)
  then have "ab_review_status a \<notin> set counted_reviewed" if "latest_attribution k db' = Some a" for k a
    using latest_attribution_mem [OF that] \<open>statuses_ok db'\<close>
    by (auto simp: statuses_ok_def written_statuses_def counted_reviewed_def)
  then have "ck_reviewed_count (cluster_row db' cases k) = 0" for cases k
    by (auto simp: cluster_row_def Let_def filter_empty_conv List.map_filter_def)
  then show ?thesis using assms(3) by (auto simp: cluster_summaries_def Let_def dest!: in_set_takeD split: if_splits)
qed

section \<open>Witnesses\<close>

definition demo_failure_env :: "string \<Rightarrow> int \<Rightarrow> failure_env" where
  "demo_failure_env k t = \<lparr>fe_now = t, fe_case_id = k, fe_row_id = k, fe_sha = (\<lambda>s. ''h'')\<rparr>"

definition demo_attribution_model :: attribution_model where
  "demo_attribution_model =
     \<lparr>am_enabled = True, am_model = Some ''m'', am_api_base = Some ''u'', am_api_key = Some ''k'',
      am_ask = (\<lambda>x. Inr (Some \<lparr>ao_category = AC_MODEL_ERROR, ao_confidence = 9 / 10, ao_evidence = [''e''], ao_rationale = ''r''\<rparr>))\<rparr>"

definition demo_run_signal :: run_signal where
  "demo_run_signal =
     \<lparr>rn_tenant_id = ''t'', rn_run_id = ''run-1'', rn_signal = ''s'', rn_source = ''runtime'', rn_reason = ''R'',
      rn_route = None, rn_severity = None\<rparr>"

definition demo_failure_db :: failure_db where
  "demo_failure_db = \<lparr>fd_cases = [], fd_attributions = [], fd_runtime = demo_event_db\<rparr>"

definition demo_recorded :: "(failure_case \<times> attribution_row option) option result \<times> failure_db" where
  "demo_recorded = record_run_signal (demo_failure_env ''f'' 10) demo_codec demo_attribution_model demo_run_signal demo_failure_db"

definition demo_reviewed :: "string result \<times> failure_db" where
  "demo_reviewed = review_attribution (demo_failure_env ''g'' 20)
     \<lparr>aw_tenant_id = ''t'', aw_failure_id = ''f'', aw_outcome = ''verified_failure'', aw_reviewer = ''o'', aw_category = None,
      aw_note = ''n''\<rparr> (snd demo_recorded)"

lemma demo_failure_facts:
  "isl (fst demo_recorded) = False"
  "map ab_llm_category (fd_attributions (snd demo_recorded)) = [Some ''model_error'']"
  "fd_attributions demo_failure_db = []"
  "map (\<lambda>a. (ab_review_status a, ab_reviewed_by a)) (fd_attributions (snd demo_reviewed)) = [(''verified_failure'', Some ''o'')]"
  "map fc_status (fd_cases (snd demo_reviewed)) = [''reviewed'']"
  by code_simp+

lemma attribution_stays_in_evidence_witness:
  "\<exists>a. fd_attributions (snd demo_recorded) = [a] \<and> ab_review_status a = ''pending'' \<and> am_enabled demo_attribution_model \<and>
    (\<exists>es. replay_events demo_codec ''run-1'' ''t'' 0 200 None demo_event_db = Inr es \<and> set (ab_evidence a) \<subseteq> vx_event_id ` set es)"
proof -
  have "record_run_signal (demo_failure_env ''f'' 10) demo_codec demo_attribution_model demo_run_signal demo_failure_db =
      (Inr (projr (fst demo_recorded)), snd demo_recorded)"
    using demo_failure_facts(1) by (metis demo_recorded_def prod.collapse sum.collapse(2))
  from attribution_stays_in_evidence [OF this] show ?thesis
    using demo_failure_facts(2,3) by (auto simp: demo_run_signal_def demo_failure_db_def)
qed

lemma demo_failure_history: "failure_step\<^sup>*\<^sup>* demo_failure_db (snd demo_reviewed)"
proof -
  have "failure_step demo_failure_db (snd demo_recorded)"
    unfolding demo_recorded_def by (rule failure_step.signal [OF prod.collapse [symmetric]])
  moreover have "failure_step (snd demo_recorded) (snd demo_reviewed)"
    unfolding demo_reviewed_def by (rule failure_step.review [OF prod.collapse [symmetric]])
  ultimately show ?thesis by (meson r_into_rtranclp rtranclp.rtrancl_into_rtrancl)
qed

lemma reviews_are_never_counted_witness:
  "\<exists>rows. cluster_summaries 30 ''t'' 30 25 (snd demo_reviewed) = Inr rows \<and> (\<forall>x\<in>set rows. ck_reviewed_count x = 0)"
proof -
  obtain rows where "cluster_summaries 30 ''t'' 30 25 (snd demo_reviewed) = Inr rows" by (simp add: cluster_summaries_def Let_def)
  then show ?thesis using reviews_are_never_counted [OF demo_failure_history demo_failure_facts(3)] by blast
qed

end
