(* ===== verification/SkillStore.thy ===== *)
theory SkillStore
  imports Skills Failures
begin

text \<open>
  The registry of skills: \<open>src/repositories/skills.py\<close> over its own tables and the generation from a cluster of
  failures in \<open>src/evolution/skill_registry.py\<close>. The clock, the UUIDs and the hash of a definition are
  arguments. A status is a value of \<open>skill_status\<close>, as the \<open>CHECK\<close> of its column has it; text is
  ordered by code units.
\<close>

section \<open>The tables\<close>

record skill_row =
  sk_skill_id :: string
  sk_tenant_id :: string
  sk_owner :: string
  sk_kind :: string
  sk_scope_type :: string
  sk_scope_value :: string
  sk_trigger :: pydict
  sk_strategy :: pydict
  sk_provenance :: pydict
  sk_cluster_key :: string
  sk_status :: skill_status
  sk_source_count :: int
  sk_offline_gate :: bool
  sk_safety_gate :: bool
  sk_review_deadline :: int
  sk_updated_at :: int

record version_row =
  sv_version_id :: string
  sv_skill_id :: string
  sv_version_no :: int
  sv_definition :: pydict
  sv_hash :: string
  sv_approved_by :: "string option"
  sv_approved_at :: "int option"
  sv_activated_at :: "int option"
  sv_expires_at :: int
  sv_status :: skill_status

record evaluation_row =
  se_evaluation_id :: string
  se_skill_id :: string
  se_version_id :: "string option"
  se_dataset_hash :: string
  se_before :: pydict
  se_after :: pydict
  se_safety_result :: string
  se_cost_delta :: "int option"
  se_latency_delta :: "int option"
  se_gate_pass :: bool
  se_disagreements :: int
  se_created_at :: int

record match_row =
  sm_match_id :: string
  sm_tenant_id :: string
  sm_run_id :: string
  sm_skill_id :: string
  sm_version_id :: string
  sm_score :: rat
  sm_mode :: string
  sm_outcome :: "string option"

record control_row =
  sl_tenant_id :: string
  sl_enabled :: bool
  sl_updated_by :: string
  sl_reason_hash :: string
  sl_updated_at :: int

record skill_db =
  sd_skills :: "skill_row list"
  sd_versions :: "version_row list"
  sd_evaluations :: "evaluation_row list"
  sd_matches :: "match_row list"
  sd_controls :: "control_row list"
  sd_failures :: failure_db

record skill_env =
  ke_now :: int
  ke_skill_id :: string
  ke_row_id :: string
  ke_hash :: "pydict \<Rightarrow> string"

definition raise_skill :: "string \<Rightarrow> 'a result" where
  "raise_skill s = Inl (SkillTransitionError s)"

text \<open>\<open>uq_skill_candidates_active_scope\<close>\<close>

definition serving :: "skill_row \<Rightarrow> bool" where
  "serving c \<longleftrightarrow> sk_status c \<in> {SK_CANARY, SK_ACTIVE}"

definition one_serving_per_scope :: "skill_row list \<Rightarrow> bool" where
  "one_serving_per_scope rows \<longleftrightarrow>
     distinct (map (\<lambda>c. (sk_tenant_id c, sk_scope_type c, sk_scope_value c)) (filter serving rows))"

definition update_skills ::
  "(skill_row \<Rightarrow> bool) \<Rightarrow> (skill_row \<Rightarrow> skill_row) \<Rightarrow> skill_db \<Rightarrow> (nat \<times> skill_db) result" where
  "update_skills p f db =
     (if one_serving_per_scope (update_rows p f (sd_skills db))
      then Inr (row_count p (sd_skills db), db\<lparr>sd_skills := update_rows p f (sd_skills db)\<rparr>)
      else Inl IntegrityError)"

definition update_versions :: "(version_row \<Rightarrow> bool) \<Rightarrow> (version_row \<Rightarrow> version_row) \<Rightarrow> skill_db \<Rightarrow> nat \<times> skill_db" where
  "update_versions p f db = (row_count p (sd_versions db), db\<lparr>sd_versions := update_rows p f (sd_versions db)\<rparr>)"

definition with_status :: "skill_env \<Rightarrow> skill_status \<Rightarrow> skill_row \<Rightarrow> skill_row" where
  "with_status env s c = c\<lparr>sk_status := s, sk_updated_at := ke_now env\<rparr>"

definition skill_at :: "string \<Rightarrow> string \<Rightarrow> skill_row \<Rightarrow> bool" where
  "skill_at tenant skill_id c \<longleftrightarrow> sk_tenant_id c = tenant \<and> sk_skill_id c = skill_id"

section \<open>The kill switch\<close>

definition control_of :: "string \<Rightarrow> skill_db \<Rightarrow> control_row option" where
  "control_of tenant db = select_one (\<lambda>k. sl_tenant_id k = tenant) (sd_controls db)"

definition matching_enabled :: "string \<Rightarrow> skill_db \<Rightarrow> bool" where
  "matching_enabled tenant db = (case control_of tenant db of None \<Rightarrow> True | Some k \<Rightarrow> sl_enabled k)"

definition set_matching_enabled ::
  "skill_env \<Rightarrow> string \<Rightarrow> bool \<Rightarrow> string \<Rightarrow> string \<Rightarrow> skill_db \<Rightarrow> control_row result \<times> skill_db" where
  "set_matching_enabled env tenant enabled updated_by reason_hash db = atomic db
     (let k = \<lparr>sl_tenant_id = tenant, sl_enabled = enabled, sl_updated_by = updated_by, sl_reason_hash = reason_hash,
        sl_updated_at = ke_now env\<rparr> in
      if tenant = [] \<or> updated_by = [] \<or> \<not> starts_with ''sha256:'' reason_hash then Inl (ValueError ''invalid_skill_control'')
      else if \<not> (py_len tenant \<le> 64 \<and> py_len updated_by \<le> 128 \<and> py_len reason_hash \<le> 80) then Inl (OtherError ''DataError'')
      else Inr (k, db\<lparr>sd_controls :=
        (if control_of tenant db = None then sd_controls db @ [k]
         else update_rows (\<lambda>x. sl_tenant_id x = tenant) (\<lambda>x. k) (sd_controls db))\<rparr>))"

section \<open>Expiry and reading\<close>

definition of_tenant :: "string option \<Rightarrow> skill_row \<Rightarrow> bool" where
  "of_tenant tenant c \<longleftrightarrow> (case tenant of None \<Rightarrow> True | Some t \<Rightarrow> sk_tenant_id c = t)"

definition version_due :: "int \<Rightarrow> string option \<Rightarrow> skill_db \<Rightarrow> version_row \<Rightarrow> bool" where
  "version_due now tenant db v \<longleftrightarrow> sv_expires_at v \<le> now \<and>
     sv_status v \<in> {SK_PENDING_REVIEW, SK_APPROVED, SK_CANARY, SK_ACTIVE} \<and>
     list_ex (\<lambda>c. sk_skill_id c = sv_skill_id v \<and> of_tenant tenant c) (sd_skills db)"

definition review_due :: "int \<Rightarrow> string option \<Rightarrow> skill_row \<Rightarrow> bool" where
  "review_due now tenant c \<longleftrightarrow> sk_status c \<in> {SK_CANDIDATE, SK_PENDING_REVIEW} \<and> sk_review_deadline c \<le> now \<and> of_tenant tenant c"

definition has_live_version :: "int \<Rightarrow> skill_db \<Rightarrow> skill_row \<Rightarrow> bool" where
  "has_live_version now db c = list_ex (\<lambda>v. sv_skill_id v = sk_skill_id c \<and>
     sv_status v \<in> {SK_APPROVED, SK_CANARY, SK_ACTIVE} \<and> now < sv_expires_at v) (sd_versions db)"

definition serving_due :: "int \<Rightarrow> string option \<Rightarrow> skill_db \<Rightarrow> skill_row \<Rightarrow> bool" where
  "serving_due now tenant db c \<longleftrightarrow> serving c \<and> \<not> has_live_version now db c \<and> of_tenant tenant c"

definition expire_due :: "skill_env \<Rightarrow> string option \<Rightarrow> skill_db \<Rightarrow> nat result \<times> skill_db" where
  "expire_due env tenant db = atomic db
     (let now = ke_now env; (n, db) = update_versions (version_due now tenant db) (\<lambda>v. v\<lparr>sv_status := SK_EXPIRED\<rparr>) db in
      bind_res (update_skills (review_due now tenant) (with_status env SK_EXPIRED) db) (\<lambda>(m, db).
      bind_res (update_skills (serving_due now tenant db) (with_status env SK_EXPIRED) db) (\<lambda>(k, db).
      Inr (n + m + k, db))))"

record skill_view =
  sw_skill :: skill_row
  sw_versions :: "version_row list"
  sw_evaluations :: "evaluation_row list"

definition view_of :: "skill_db \<Rightarrow> skill_row \<Rightarrow> skill_view" where
  "view_of db c =
     \<lparr>sw_skill = c, sw_versions = sort_key (\<lambda>v. - sv_version_no v) (filter (\<lambda>v. sv_skill_id v = sk_skill_id c) (sd_versions db)),
      sw_evaluations = take 20 (sort_key (\<lambda>e. - se_created_at e)
        (filter (\<lambda>e. se_skill_id e = sk_skill_id c) (sd_evaluations db)))\<rparr>"

text \<open>Every read first expires what is due, in a transaction of its own.\<close>

definition after_expiry :: "skill_env \<Rightarrow> string \<Rightarrow> (skill_db \<Rightarrow> 'a) \<Rightarrow> skill_db \<Rightarrow> 'a result \<times> skill_db" where
  "after_expiry env tenant read db =
     (case expire_due env (Some tenant) db of (Inl e, db) \<Rightarrow> (Inl e, db) | (Inr n, db) \<Rightarrow> (Inr (read db), db))"

definition get_skill :: "skill_env \<Rightarrow> string \<Rightarrow> string \<Rightarrow> skill_db \<Rightarrow> skill_view option result \<times> skill_db" where
  "get_skill env tenant skill_id =
     after_expiry env tenant (\<lambda>db. map_option (view_of db) (select_one (skill_at tenant skill_id) (sd_skills db)))"

definition passes_skill_filter :: "string \<Rightarrow> skill_status option \<Rightarrow> string option \<Rightarrow> skill_row \<Rightarrow> bool" where
  "passes_skill_filter tenant status cluster c \<longleftrightarrow> sk_tenant_id c = tenant \<and> (status = None \<or> status = Some (sk_status c)) \<and>
     (cluster = None \<or> cluster = Some [] \<or> cluster = Some (sk_cluster_key c))"

definition latest_evaluation :: "skill_db \<Rightarrow> skill_row \<Rightarrow> evaluation_row option" where
  "latest_evaluation db c =
     (case sort_key (\<lambda>e. - se_created_at e) (filter (\<lambda>e. se_skill_id e = sk_skill_id c) (sd_evaluations db)) of
        [] \<Rightarrow> None | e # _ \<Rightarrow> Some e)"

definition list_skills ::
  "skill_env \<Rightarrow> string \<Rightarrow> skill_status option \<Rightarrow> int \<Rightarrow> string option \<Rightarrow> skill_db \<Rightarrow>
   (skill_row \<times> evaluation_row option) list result \<times> skill_db" where
  "list_skills env tenant status limit cluster = after_expiry env tenant (\<lambda>db.
     map (\<lambda>c. (c, latest_evaluation db c)) (take (nat (max 1 (min limit 500)))
       (sort_key (\<lambda>c. - sk_updated_at c) (filter (passes_skill_filter tenant status cluster) (sd_skills db)))))"

definition offer_of :: "skill_row \<Rightarrow> version_row \<Rightarrow> skill_offer" where
  "offer_of c v =
     \<lparr>so_skill_id = sk_skill_id c, so_version_id = sv_version_id v, so_tenant_id = sk_tenant_id c, so_status = sk_status c,
      so_scope_type = sk_scope_type c, so_scope_value = sk_scope_value c, so_trigger = sk_trigger c,
      so_strategy = sk_strategy c, so_expires_at = sv_expires_at v\<rparr>"

definition offered :: "int \<Rightarrow> string \<Rightarrow> skill_status list \<Rightarrow> skill_row \<times> version_row \<Rightarrow> bool" where
  "offered now tenant statuses cv \<longleftrightarrow> sk_tenant_id (fst cv) = tenant \<and> sv_skill_id (snd cv) = sk_skill_id (fst cv) \<and>
     sk_status (fst cv) \<in> set statuses \<and> sv_status (snd cv) = sk_status (fst cv) \<and> now < sv_expires_at (snd cv)"

definition candidates_for_match ::
  "skill_env \<Rightarrow> string \<Rightarrow> string \<Rightarrow> int \<Rightarrow> skill_db \<Rightarrow> skill_offer list result \<times> skill_db" where
  "candidates_for_match env tenant mode limit db =
     (case after_expiry env tenant id db of
        (Inl e, db) \<Rightarrow> (Inl e, db)
      | (Inr _, db) \<Rightarrow>
          (case match_statuses mode of
             None \<Rightarrow> (Inl (ValueError ''invalid_skill_match_mode''), db)
           | Some statuses \<Rightarrow>
               (Inr (map (\<lambda>(c, v). offer_of c v) (take (nat (max 1 (min limit 500)))
                 (sort_key (\<lambda>cv. - sk_updated_at (fst cv))
                   (filter (offered (ke_now env) tenant statuses) (List.product (sd_skills db) (sd_versions db)))))), db)))"

section \<open>Evaluations and matches\<close>

definition rate_metrics :: "string list" where
  "rate_metrics = [''quality'', ''safety_pass_rate'', ''handoff_rate'']"

definition amount_metrics :: "string list" where
  "amount_metrics = [''p95_latency_ms'', ''p95_cost_microusd'']"

definition check_metric :: "string \<times> pyval \<Rightarrow> unit result" where
  "check_metric kv =
     (case snd kv of
        PNone \<Rightarrow> Inr ()
      | PBool b \<Rightarrow> raise_skill ''skill_evaluation_metric_value_invalid''
      | v \<Rightarrow> (case num_of v of
            None \<Rightarrow> raise_skill ''skill_evaluation_metric_value_invalid''
          | Some x \<Rightarrow>
              if fst kv \<in> set rate_metrics \<and> \<not> (0 \<le> x \<and> x \<le> 1) then raise_skill ''skill_evaluation_metric_range_invalid''
              else if fst kv \<in> set amount_metrics \<and> x < 0 then raise_skill ''skill_evaluation_metric_range_invalid''
              else Inr ()))"

definition metric_map :: "pydict \<Rightarrow> pydict result" where
  "metric_map d =
     (if \<not> list_all (\<lambda>kv. fst kv \<in> set (rate_metrics @ amount_metrics)) d
      then raise_skill ''skill_evaluation_metric_not_allowed''
      else bind_res (map_res check_metric d) (\<lambda>_. Inr d))"

definition record_skill_evaluation ::
  "skill_env \<Rightarrow> string \<Rightarrow> evaluation_row \<Rightarrow> skill_db \<Rightarrow> evaluation_row result \<times> skill_db" where
  "record_skill_evaluation env tenant q db = atomic db
     (let e = q\<lparr>se_evaluation_id := ke_row_id env, se_created_at := ke_now env\<rparr> in
      if \<not> starts_with ''sha256:'' (se_dataset_hash q) \<or> se_safety_result q \<notin> {''pass'', ''fail'', ''incomplete''}
      then raise_skill ''invalid_skill_evaluation''
      else if se_disagreements q < 0 \<or> (se_gate_pass q \<and> 0 < se_disagreements q)
      then raise_skill ''judge_disagreement_blocks_gate''
      else bind_res (metric_map (se_before q)) (\<lambda>_. bind_res (metric_map (se_after q)) (\<lambda>_.
        if \<not> list_ex (skill_at tenant (se_skill_id q)) (sd_skills db) then raise_skill ''skill_not_found''
        else if (case se_version_id q of None \<Rightarrow> False
          | Some k \<Rightarrow> \<not> list_ex (\<lambda>v. sv_skill_id v = se_skill_id q \<and> sv_version_id v = k) (sd_versions db))
        then raise_skill ''skill_version_not_found''
        else if 80 < py_len (se_dataset_hash q) then Inl (OtherError ''DataError'')
        else if ke_row_id env \<in> set (map se_evaluation_id (sd_evaluations db)) then Inl IntegrityError
        else Inr (e, db\<lparr>sd_evaluations := sd_evaluations db @ [e]\<rparr>))))"

definition record_match :: "skill_env \<Rightarrow> match_row \<Rightarrow> skill_db \<Rightarrow> string result \<times> skill_db" where
  "record_match env q db = atomic db
     (let m = q\<lparr>sm_match_id := ke_row_id env\<rparr> in
      if sm_mode q \<notin> {''shadow'', ''canary'', ''active''} \<or> \<not> (0 \<le> sm_score q \<and> sm_score q \<le> 1)
      then Inl (ValueError ''invalid_skill_match'')
      else if \<not> (py_len (sm_tenant_id q) \<le> 64 \<and> opt_field (\<lambda>s. py_len s \<le> 32) (sm_outcome q))
      then Inl (OtherError ''DataError'')
      else if ke_row_id env \<in> set (map sm_match_id (sd_matches db)) \<or>
        sm_run_id q \<notin> set (map rr_run_id (db_runs (fd_runtime (sd_failures db)))) \<or>
        sm_skill_id q \<notin> set (map sk_skill_id (sd_skills db)) \<or> sm_version_id q \<notin> set (map sv_version_id (sd_versions db))
      then Inl IntegrityError
      else Inr (ke_row_id env, db\<lparr>sd_matches := sd_matches db @ [m]\<rparr>))"

section \<open>Creating a candidate\<close>

definition cluster_cases :: "string \<Rightarrow> string \<Rightarrow> skill_db \<Rightarrow> failure_case list" where
  "cluster_cases tenant cluster db =
     filter (\<lambda>c. fc_tenant_id c = tenant \<and> fc_cluster_key c = cluster) (fd_cases (sd_failures db))"

definition cluster_evidence_refs :: "string \<Rightarrow> string \<Rightarrow> int \<Rightarrow> skill_db \<Rightarrow> string list" where
  "cluster_evidence_refs tenant cluster limit db =
     take (nat (max 5 (min limit 5000))) (sort (remdups (map evidence_ref (cluster_cases tenant cluster db))))"

record skill_draft =
  dr_tenant_id :: string
  dr_scope_type :: string
  dr_scope_value :: string
  dr_trigger :: pydict
  dr_strategy :: pydict
  dr_provenance :: pydict
  dr_cluster_key :: string
  dr_source_count :: int
  dr_offline_gate :: bool
  dr_safety_gate :: bool
  dr_definition :: pydict
  dr_ttl_days :: int
  dr_owner :: string
  dr_kind :: string

definition check_draft :: "skill_draft \<Rightarrow> unit result" where
  "check_draft d =
     (if dr_source_count d < 5 then raise_skill ''skill_generation_threshold_not_met''
      else if \<not> dr_safety_gate d \<or> \<not> dr_offline_gate d then raise_skill ''skill_gate_not_passed''
      else if dr_scope_type d \<notin> {''tenant'', ''route'', ''global''} \<or> dr_scope_value d = [] then raise_skill ''invalid_skill_scope''
      else if dr_owner d \<notin> {''tenant'', ''project''} \<or> dr_kind d \<notin> {''experience'', ''safety''}
      then raise_skill ''invalid_skill_owner_or_kind''
      else if dr_scope_type d = ''global'' \<and> (dr_owner d \<noteq> ''project'' \<or> dr_kind d \<noteq> ''safety'')
      then raise_skill ''global_skill_requires_project_safety''
      else if \<not> (1 \<le> dr_ttl_days d \<and> dr_ttl_days d \<le> 90) then raise_skill ''invalid_skill_ttl''
      else bind_res (validate_skill_definition (dr_definition d)) (\<lambda>errors.
        if errors \<noteq> [] then raise_skill (''invalid_skill_definition:'' @ join_with '','' errors) else Inr ()))"

definition days :: "int \<Rightarrow> int" where
  "days n = n * (24 * 60 * 60 * 1000000)"

definition drafted_skill :: "skill_env \<Rightarrow> skill_draft \<Rightarrow> int \<Rightarrow> skill_row" where
  "drafted_skill env d verified =
     \<lparr>sk_skill_id = ke_skill_id env, sk_tenant_id = dr_tenant_id d, sk_owner = dr_owner d, sk_kind = dr_kind d,
      sk_scope_type = dr_scope_type d, sk_scope_value = dr_scope_value d, sk_trigger = dr_trigger d,
      sk_strategy = dr_strategy d, sk_provenance = dset (dr_provenance d) ''verified_source_count'' (PInt verified),
      sk_cluster_key = dr_cluster_key d, sk_status = SK_CANDIDATE, sk_source_count = verified,
      sk_offline_gate = dr_offline_gate d, sk_safety_gate = dr_safety_gate d,
      sk_review_deadline = ke_now env + days (dr_ttl_days d), sk_updated_at = ke_now env\<rparr>"

definition drafted_version :: "skill_env \<Rightarrow> skill_draft \<Rightarrow> version_row" where
  "drafted_version env d =
     \<lparr>sv_version_id = ke_row_id env, sv_skill_id = ke_skill_id env, sv_version_no = 1, sv_definition = dr_definition d,
      sv_hash = ke_hash env (dr_definition d), sv_approved_by = None, sv_approved_at = None, sv_activated_at = None,
      sv_expires_at = ke_now env + days (dr_ttl_days d), sv_status = SK_PENDING_REVIEW\<rparr>"

definition skill_widths :: "skill_row \<Rightarrow> bool" where
  "skill_widths c \<longleftrightarrow> py_len (sk_tenant_id c) \<le> 64 \<and> py_len (sk_scope_value c) \<le> 128 \<and> py_len (sk_cluster_key c) \<le> 160"

text \<open>The definition was validated, so it has the keys that the \<open>CHECK\<close> of the versions asks for.\<close>

definition create_candidate :: "skill_env \<Rightarrow> skill_draft \<Rightarrow> skill_db \<Rightarrow> string result \<times> skill_db" where
  "create_candidate env d db = atomic db
     (bind_res (check_draft d) (\<lambda>_.
      let verified = int (length (remdups (map evidence_ref (cluster_cases (dr_tenant_id d) (dr_cluster_key d) db))));
          c = drafted_skill env d verified; v = drafted_version env d
      in if verified < 5 then raise_skill ''skill_generation_distinct_evidence_threshold_not_met''
         else if \<not> skill_widths c \<or> 80 < py_len (sv_hash v) then Inl (OtherError ''DataError'')
         else if dget (dr_trigger d) ''keywords'' = None \<or> dget (dr_strategy d) ''response_policy'' = None \<or>
           sk_skill_id c \<in> set (map sk_skill_id (sd_skills db)) \<or> sv_version_id v \<in> set (map sv_version_id (sd_versions db)) \<or>
           sv_hash v \<in> set (map sv_hash (sd_versions db))
         then Inl IntegrityError
         else Inr (sk_skill_id c, db\<lparr>sd_skills := sd_skills db @ [c], sd_versions := sd_versions db @ [v]\<rparr>)))"

section \<open>Transitions\<close>

text \<open>A transition commits, then the skill is read back.\<close>

definition then_get ::
  "skill_env \<Rightarrow> string \<Rightarrow> string \<Rightarrow> unit result \<times> skill_db \<Rightarrow> skill_view option result \<times> skill_db" where
  "then_get env tenant skill_id r = (case r of (Inl e, db) \<Rightarrow> (Inl e, db) | (Inr _, db) \<Rightarrow> get_skill env tenant skill_id db)"

definition move_skill ::
  "skill_env \<Rightarrow> (skill_db \<Rightarrow> skill_row \<Rightarrow> bool) \<Rightarrow> (skill_row \<Rightarrow> skill_row) \<Rightarrow> string \<Rightarrow>
   (version_row \<Rightarrow> bool) \<Rightarrow> (version_row \<Rightarrow> version_row) \<Rightarrow> skill_db \<Rightarrow> unit result \<times> skill_db" where
  "move_skill env p f missing q g db = atomic db
     (bind_res (update_skills (p db) f db) (\<lambda>(n, db).
        if n = 0 then raise_skill missing else Inr ((), snd (update_versions q g db))))"

definition submit_for_review ::
  "skill_env \<Rightarrow> string \<Rightarrow> string \<Rightarrow> skill_db \<Rightarrow> skill_view option result \<times> skill_db" where
  "submit_for_review env tenant skill_id db = then_get env tenant skill_id
     (move_skill env (\<lambda>_ c. skill_at tenant skill_id c \<and> sk_status c = SK_CANDIDATE) (with_status env SK_PENDING_REVIEW)
       ''skill_transition_requires_candidate'' (\<lambda>_. False) id db)"

definition passed_evaluation :: "skill_db \<Rightarrow> skill_row \<Rightarrow> bool" where
  "passed_evaluation db c = list_ex (\<lambda>e. se_skill_id e = sk_skill_id c \<and> se_gate_pass e \<and> se_safety_result e = ''pass'' \<and>
     se_disagreements e = 0) (sd_evaluations db)"

definition approvable :: "string \<Rightarrow> string \<Rightarrow> skill_db \<Rightarrow> skill_row \<Rightarrow> bool" where
  "approvable tenant skill_id db c \<longleftrightarrow> skill_at tenant skill_id c \<and> sk_status c = SK_PENDING_REVIEW \<and>
     sk_offline_gate c \<and> sk_safety_gate c \<and> passed_evaluation db c"

definition approved_version :: "skill_env \<Rightarrow> string \<Rightarrow> version_row \<Rightarrow> version_row" where
  "approved_version env reviewer v =
     v\<lparr>sv_status := SK_APPROVED, sv_approved_by := Some reviewer, sv_approved_at := Some (ke_now env)\<rparr>"

definition approve_skill ::
  "skill_env \<Rightarrow> string \<Rightarrow> string \<Rightarrow> string \<Rightarrow> skill_db \<Rightarrow> skill_view option result \<times> skill_db" where
  "approve_skill env tenant skill_id reviewer db =
     (if reviewer = [] then (raise_skill ''reviewer_required'', db)
      else if py_len reviewer > 128 \<and> list_ex (approvable tenant skill_id db) (sd_skills db) \<and>
        list_ex (\<lambda>v. sv_skill_id v = skill_id \<and> sv_status v = SK_PENDING_REVIEW) (sd_versions db)
      then (Inl (OtherError ''DataError''), db)
      else then_get env tenant skill_id (move_skill env (approvable tenant skill_id) (with_status env SK_APPROVED)
        ''skill_not_pending_or_evaluation_gate_failed''
        (\<lambda>v. sv_skill_id v = skill_id \<and> sv_status v = SK_PENDING_REVIEW) (approved_version env reviewer) db))"

definition rejected_skill :: "skill_env \<Rightarrow> string \<Rightarrow> string \<Rightarrow> skill_row \<Rightarrow> skill_row" where
  "rejected_skill env reviewer reason c =
     (with_status env SK_REJECTED c)\<lparr>sk_provenance :=
       dset (dset (sk_provenance c) ''review_reason'' (PStr (slice_to reason 500))) ''reviewer'' (PStr reviewer)\<rparr>"

definition rolled_back :: "version_row \<Rightarrow> version_row" where
  "rolled_back v = v\<lparr>sv_status := SK_ROLLED_BACK\<rparr>"

definition reject_skill ::
  "skill_env \<Rightarrow> string \<Rightarrow> string \<Rightarrow> string \<Rightarrow> string \<Rightarrow> skill_db \<Rightarrow> skill_view option result \<times> skill_db" where
  "reject_skill env tenant skill_id reviewer reason db =
     (if reviewer = [] \<or> \<not> nonblank reason then (raise_skill ''reviewer_and_reason_required'', db)
      else then_get env tenant skill_id (move_skill env (\<lambda>_ c. skill_at tenant skill_id c \<and> sk_status c = SK_PENDING_REVIEW)
        (rejected_skill env reviewer reason) ''skill_not_pending''
        (\<lambda>v. sv_skill_id v = skill_id \<and> sv_status v \<in> {SK_PENDING_REVIEW, SK_APPROVED}) rolled_back db))"

definition canary_version :: "skill_env \<Rightarrow> version_row \<Rightarrow> version_row" where
  "canary_version env v = v\<lparr>sv_status := SK_CANARY, sv_activated_at := Some (ke_now env)\<rparr>"

definition canary_skill ::
  "skill_env \<Rightarrow> string \<Rightarrow> string \<Rightarrow> skill_db \<Rightarrow> skill_view option result \<times> skill_db" where
  "canary_skill env tenant skill_id db = then_get env tenant skill_id
     (move_skill env (\<lambda>_ c. skill_at tenant skill_id c \<and> sk_status c = SK_APPROVED) (with_status env SK_CANARY)
       ''skill_transition_requires_approved'' (\<lambda>v. sv_skill_id v = skill_id \<and> sv_status v = SK_APPROVED)
       (canary_version env) db)"

definition rollback_skill ::
  "skill_env \<Rightarrow> string \<Rightarrow> string \<Rightarrow> string \<Rightarrow> skill_db \<Rightarrow> skill_view option result \<times> skill_db" where
  "rollback_skill env tenant skill_id reason db =
     (if \<not> nonblank reason then (raise_skill ''rollback_reason_required'', db)
      else then_get env tenant skill_id (move_skill env (\<lambda>_ c. skill_at tenant skill_id c \<and> serving c)
        (with_status env SK_ROLLED_BACK) ''skill_transition_requires_canary_or_active''
        (\<lambda>v. sv_skill_id v = skill_id \<and> sv_status v \<in> {SK_CANARY, SK_ACTIVE}) rolled_back db))"

section \<open>Generation from a cluster\<close>

record skill_generation =
  sg_tenant_id :: string
  sg_cluster_key :: string
  sg_scope_type :: string
  sg_scope_value :: string
  sg_keywords :: "string list"
  sg_policy :: string
  sg_offline_gate :: bool
  sg_safety_gate :: bool
  sg_provenance :: pydict
  sg_ttl_days :: int
  sg_owner :: string
  sg_kind :: string

definition generation_provenance :: "skill_generation \<Rightarrow> string list \<Rightarrow> pydict" where
  "generation_provenance g refs =
     dset (dset (dset (dset (sg_provenance g) ''generation'' (PStr ''failure_cluster''))
       ''cluster_key'' (PStr (sg_cluster_key g))) ''evidence_refs'' (PList (map PStr refs)))
       ''evidence_count'' (PInt (int (length refs)))"

definition draft_of :: "skill_generation \<Rightarrow> string list \<Rightarrow> skill_proposal \<Rightarrow> skill_draft" where
  "draft_of g refs p =
     \<lparr>dr_tenant_id = sg_tenant_id g, dr_scope_type = sg_scope_type g, dr_scope_value = sg_scope_value g,
      dr_trigger = pp_trigger p, dr_strategy = pp_strategy p, dr_provenance = generation_provenance g refs,
      dr_cluster_key = sg_cluster_key g, dr_source_count = int (length refs), dr_offline_gate = sg_offline_gate g,
      dr_safety_gate = sg_safety_gate g, dr_definition = pp_definition p, dr_ttl_days = sg_ttl_days g,
      dr_owner = sg_owner g, dr_kind = sg_kind g\<rparr>"

definition generate_from_cluster :: "skill_env \<Rightarrow> skill_generation \<Rightarrow> skill_db \<Rightarrow> string result \<times> skill_db" where
  "generate_from_cluster env g db =
     (if sg_scope_type g = ''global'' \<and> (sg_owner g \<noteq> ''project'' \<or> sg_kind g \<noteq> ''safety'')
      then (raise_skill ''global_skill_requires_project_safety'', db)
      else (let refs = cluster_evidence_refs (sg_tenant_id g) (sg_cluster_key g) 500 db in
        if length refs < 5 then (raise_skill ''skill_generation_distinct_evidence_threshold_not_met'', db)
        else (case build_skill_candidate (sg_cluster_key g) (int (length refs)) (sg_keywords g) (sg_policy g)
                (sg_scope_type g) (sg_scope_value g) (sg_ttl_days g) of
                Inl e \<Rightarrow> (Inl e, db) | Inr p \<Rightarrow> create_candidate env (draft_of g refs p) db)))"

section \<open>What a transaction keeps\<close>

text \<open>A skill keeps its contents and moves along the lifecycle; a new skill started as a candidate.\<close>

definition kept_skill :: "skill_row \<Rightarrow> skill_row \<Rightarrow> bool" where
  "kept_skill c c' \<longleftrightarrow> sk_skill_id c' = sk_skill_id c \<and> sk_tenant_id c' = sk_tenant_id c \<and> sk_strategy c' = sk_strategy c \<and>
     sk_offline_gate c' = sk_offline_gate c \<and> sk_safety_gate c' = sk_safety_gate c \<and> sk_source_count c' = sk_source_count c \<and>
     skill_moves\<^sup>*\<^sup>* (sk_status c) (sk_status c')"

definition fresh_skill :: "skill_row \<Rightarrow> bool" where
  "fresh_skill c \<longleftrightarrow> skill_moves\<^sup>*\<^sup>* SK_CANDIDATE (sk_status c) \<and> sk_status c \<noteq> SK_ACTIVE"

definition skills_follow :: "skill_db \<Rightarrow> skill_db \<Rightarrow> bool" where
  "skills_follow db db' \<longleftrightarrow> (\<exists>f new. sd_skills db' = map f (sd_skills db) @ new \<and>
     (\<forall>c\<in>set (sd_skills db). kept_skill c (f c) \<and> (sk_status (f c) = SK_ACTIVE \<longrightarrow> sk_status c = SK_ACTIVE)) \<and>
     (\<forall>c\<in>set new. fresh_skill c))"

definition safe_strategy :: "pydict \<Rightarrow> bool" where
  "safe_strategy d \<longleftrightarrow> (\<exists>p. dget d ''response_policy'' = Some (PStr p) \<and> p \<in> set allowed_policies) \<and>
     dget d ''allowed_decisions'' = Some (PList [PStr ''respond'', PStr ''finish''])"

definition skill_ok :: "skill_db \<Rightarrow> skill_row \<Rightarrow> bool" where
  "skill_ok db c \<longleftrightarrow> sk_offline_gate c \<and> sk_safety_gate c \<and> 5 \<le> sk_source_count c \<and> safe_strategy (sk_strategy c) \<and>
     (sk_status c \<in> {SK_APPROVED, SK_CANARY, SK_ACTIVE} \<longrightarrow> passed_evaluation db c)"

definition version_ok :: "version_row \<Rightarrow> bool" where
  "version_ok v \<longleftrightarrow> skill_definition_ok (sv_definition v) \<and>
     (sv_status v \<in> {SK_APPROVED, SK_CANARY, SK_ACTIVE} \<longrightarrow> (\<exists>r. sv_approved_by v = Some r \<and> r \<noteq> []))"

definition store_ok :: "skill_db \<Rightarrow> bool" where
  "store_ok db \<longleftrightarrow> (\<forall>c\<in>set (sd_skills db). skill_ok db c) \<and> (\<forall>v\<in>set (sd_versions db). version_ok v)"

definition sound_step :: "skill_db \<Rightarrow> skill_db \<Rightarrow> bool" where
  "sound_step db db' \<longleftrightarrow> skills_follow db db' \<and> (store_ok db \<longrightarrow> store_ok db')"

lemma kept_skill_refl: "kept_skill c c"
  by (simp add: kept_skill_def)

lemma kept_skill_trans: "kept_skill a b \<Longrightarrow> kept_skill b c \<Longrightarrow> kept_skill a c"
  by (auto simp: kept_skill_def)

lemma skills_follow_same: "sd_skills db' = sd_skills db \<Longrightarrow> skills_follow db db'"
  unfolding skills_follow_def by (intro exI [of _ "\<lambda>c. c"] exI [of _ "[]"]) (simp add: kept_skill_refl)

lemma skills_follow_update:
  assumes "\<And>c. c \<in> set (sd_skills db) \<Longrightarrow> p c \<Longrightarrow> kept_skill c (f c) \<and> sk_status (f c) \<noteq> SK_ACTIVE"
    "sd_skills db' = update_rows p f (sd_skills db)"
  shows "skills_follow db db'"
  unfolding skills_follow_def
  by (intro exI [of _ "\<lambda>c. if p c then f c else c"] exI [of _ "[]"])
    (use assms in \<open>auto simp: update_rows_def kept_skill_refl\<close>)

lemma moved_skill: "skill_moves (sk_status c) s \<Longrightarrow> kept_skill c (with_status env s c)"
  by (auto simp: kept_skill_def with_status_def)

lemma update_skills_Inr: "update_skills p f db = Inr (n, db') \<longleftrightarrow>
    one_serving_per_scope (update_rows p f (sd_skills db)) \<and> n = row_count p (sd_skills db) \<and>
    db' = db\<lparr>sd_skills := update_rows p f (sd_skills db)\<rparr>"
  by (auto simp: update_skills_def)

lemma passed_evaluation_mono:
  "passed_evaluation db c \<Longrightarrow> set (sd_evaluations db) \<subseteq> set (sd_evaluations db') \<Longrightarrow> sk_skill_id c' = sk_skill_id c \<Longrightarrow>
     passed_evaluation db' c'"
  by (auto simp: passed_evaluation_def list_ex_iff)

lemma sound_refl: "sound_step db db"
  by (simp add: sound_step_def skills_follow_same)

lemma sound_trans:
  assumes "sound_step a b" "sound_step b c"
  shows "sound_step a c"
proof -
  obtain f x where f: "sd_skills b = map f (sd_skills a) @ x" "\<forall>s\<in>set x. fresh_skill s"
    "\<forall>s\<in>set (sd_skills a). kept_skill s (f s) \<and> (sk_status (f s) = SK_ACTIVE \<longrightarrow> sk_status s = SK_ACTIVE)"
    using assms(1) unfolding sound_step_def skills_follow_def by blast
  obtain g y where g: "sd_skills c = map g (sd_skills b) @ y" "\<forall>s\<in>set y. fresh_skill s"
    "\<forall>s\<in>set (sd_skills b). kept_skill s (g s) \<and> (sk_status (g s) = SK_ACTIVE \<longrightarrow> sk_status s = SK_ACTIVE)"
    using assms(2) unfolding sound_step_def skills_follow_def by blast
  have fresh: "\<forall>s\<in>set x. fresh_skill (g s)"
    using f(1,2) g(3) by (auto simp: fresh_skill_def kept_skill_def intro: rtranclp_trans)
  have both: "\<forall>s\<in>set (sd_skills a). kept_skill s (g (f s)) \<and> (sk_status (g (f s)) = SK_ACTIVE \<longrightarrow> sk_status s = SK_ACTIVE)"
  proof
    fix s
    assume s: "s \<in> set (sd_skills a)"
    then have "f s \<in> set (sd_skills b)" by (simp add: f(1))
    then show "kept_skill s (g (f s)) \<and> (sk_status (g (f s)) = SK_ACTIVE \<longrightarrow> sk_status s = SK_ACTIVE)"
      using f(3) g(3) s kept_skill_trans by blast
  qed
  have "sd_skills c = map (g \<circ> f) (sd_skills a) @ map g x @ y" by (simp add: f(1) g(1))
  moreover have "\<forall>s\<in>set (map g x @ y). fresh_skill s" using fresh g(2) by auto
  ultimately have "skills_follow a c" unfolding skills_follow_def
    by (intro exI [of _ "g \<circ> f"] exI [of _ "map g x @ y"]) (use both in simp)
  then show ?thesis using assms by (simp add: sound_step_def)
qed

lemma sound_atomic:
  assumes "atomic db r = (x, db')" "\<And>y d. r = Inr (y, d) \<Longrightarrow> sound_step db d"
  shows "sound_step db db'"
  using assms by (auto simp: atomic_def sound_refl split: sum.splits)

lemma sound_versions:
  assumes "\<And>v. p v \<Longrightarrow> version_ok v \<Longrightarrow> version_ok (f v)" "db' = snd (update_versions p f db)"
  shows "sound_step db db'"
proof -
  have "skill_ok db' c = skill_ok db c" for c by (simp add: assms(2) update_versions_def skill_ok_def passed_evaluation_def)
  then show ?thesis using assms
    by (auto simp: sound_step_def store_ok_def update_versions_def update_rows_def intro: skills_follow_same)
qed

lemma sound_skills:
  assumes "update_skills p f db = Inr (n, db')"
    "\<And>c. p c \<Longrightarrow> kept_skill c (f c) \<and> sk_status (f c) \<noteq> SK_ACTIVE"
    "\<And>c. p c \<Longrightarrow> skill_ok db c \<Longrightarrow> sk_status (f c) \<in> {SK_APPROVED, SK_CANARY} \<Longrightarrow> passed_evaluation db c"
  shows "sound_step db db'"
proof -
  have db': "db' = db\<lparr>sd_skills := update_rows p f (sd_skills db)\<rparr>" using assms(1) by (simp add: update_skills_Inr)
  have "skill_ok db (f c)" if "p c" "skill_ok db c" for c
    using assms(2) [OF that(1)] assms(3) [OF that] that(2)
    by (auto simp: skill_ok_def kept_skill_def passed_evaluation_def)
  then have "store_ok db \<Longrightarrow> store_ok db'"
    by (auto simp: store_ok_def db' update_rows_def skill_ok_def passed_evaluation_def)
  moreover have "skills_follow db db'" by (rule skills_follow_update [of _ p f]) (use assms(2) db' in auto)
  ultimately show ?thesis by (simp add: sound_step_def)
qed

lemma sound_expire: "expire_due env tenant db = (x, db') \<Longrightarrow> sound_step db db'"
  unfolding expire_due_def
proof (erule sound_atomic)
  fix y d
  let ?now = "ke_now env"
  let ?d1 = "snd (update_versions (version_due ?now tenant db) (\<lambda>v. v\<lparr>sv_status := SK_EXPIRED\<rparr>) db)"
  assume "(let now = ?now; (n, db) = update_versions (version_due now tenant db) (\<lambda>v. v\<lparr>sv_status := SK_EXPIRED\<rparr>) db in
      bind_res (update_skills (review_due now tenant) (with_status env SK_EXPIRED) db) (\<lambda>(m, db).
      bind_res (update_skills (serving_due now tenant db) (with_status env SK_EXPIRED) db) (\<lambda>(k, db).
      Inr (n + m + k, db)))) = Inr (y, d)"
  then obtain m d2 k where d2: "update_skills (review_due ?now tenant) (with_status env SK_EXPIRED) ?d1 = Inr (m, d2)"
    "update_skills (serving_due ?now tenant d2) (with_status env SK_EXPIRED) d2 = Inr (k, d)"
    by (auto simp: Let_def split_beta bind_res_eq_Inr)
  have "sound_step db ?d1" by (rule sound_versions [OF _ refl]) (simp add: version_ok_def)
  moreover have "sound_step ?d1 d2"
    by (rule sound_skills [OF d2(1)])
      (auto simp: review_due_def skill_moves_iff intro!: moved_skill, auto simp: with_status_def)
  moreover have "sound_step d2 d"
    by (rule sound_skills [OF d2(2)])
      (auto simp: serving_due_def serving_def skill_moves_iff intro!: moved_skill, auto simp: with_status_def)
  ultimately show "sound_step db d" by (meson sound_trans)
qed

lemma sound_after_expiry: "after_expiry env tenant f db = (x, db') \<Longrightarrow> sound_step db db'"
  by (auto simp: after_expiry_def intro: sound_expire split: prod.splits sum.splits)

lemma sound_then_get:
  assumes "then_get env tenant skill_id r = (x, db')" "sound_step db (snd r)"
  shows "sound_step db db'"
proof (cases r)
  case (Pair y d)
  then have "sound_step d db'"
    using assms(1) sound_refl by (cases y) (auto simp: then_get_def get_skill_def intro: sound_after_expiry)
  then show ?thesis using assms(2) Pair sound_trans by simp
qed

lemma sound_move:
  assumes "\<And>c. p db c \<Longrightarrow> kept_skill c (f c) \<and> sk_status (f c) \<noteq> SK_ACTIVE"
    "\<And>c. p db c \<Longrightarrow> skill_ok db c \<Longrightarrow> sk_status (f c) \<in> {SK_APPROVED, SK_CANARY} \<Longrightarrow> passed_evaluation db c"
    "\<And>v. q v \<Longrightarrow> version_ok v \<Longrightarrow> version_ok (g v)"
  shows "sound_step db (snd (move_skill env p f missing q g db))"
  unfolding move_skill_def
proof (rule sound_atomic [OF prod.collapse [symmetric]])
  fix y d
  assume "bind_res (update_skills (p db) f db) (\<lambda>(n, db).
      if n = 0 then raise_skill missing else Inr ((), snd (update_versions q g db))) = Inr (y, d)"
  then obtain n d1 where d1: "update_skills (p db) f db = Inr (n, d1)" "d = snd (update_versions q g d1)"
    by (auto simp: bind_res_eq_Inr raise_skill_def split: if_splits)
  show "sound_step db d"
    by (rule sound_trans [OF sound_skills [OF d1(1) assms(1,2)] sound_versions [OF assms(3) d1(2)]])
qed

lemma build_skill_candidate_Inr:
  assumes "build_skill_candidate cluster n keywords policy scope_type scope_value ttl_days = Inr p"
  shows "skill_definition_ok (pp_definition p) \<and> safe_strategy (pp_strategy p)"
proof -
  let ?d = "proposed_definition cluster keywords policy scope_type scope_value ttl_days"
  have ok: "skill_definition_ok ?d" and p: "pp_definition p = ?d"
    "pp_strategy p = [(''response_policy'', PStr policy), (''allowed_decisions'', PList [PStr ''respond'', PStr ''finish'']),
      (''forbidden_tools'', PList [PStr ''business_write_tools'', PStr ''unknown_risk_tools'']),
      (''ttl_seconds'', PInt (ttl_days * 86400))]"
    using assms by (auto simp: build_skill_candidate_def Let_def bind_res_eq_Inr skill_definition_ok_def split: if_splits)
  have "dget ?d ''response_policy'' = Some (PStr policy)" by (simp add: proposed_definition_def)
  then have "policy \<in> set allowed_policies" using skill_definition_okD(1) [OF ok] by simp
  then show ?thesis using ok p by (simp add: safe_strategy_def)
qed

lemma sound_create:
  assumes "create_candidate env d db = (x, db')" "safe_strategy (dr_strategy d)"
  shows "sound_step db db'"
  using assms(1) unfolding create_candidate_def
proof (rule sound_atomic)
  fix y d1
  let ?n = "int (length (remdups (map evidence_ref (cluster_cases (dr_tenant_id d) (dr_cluster_key d) db))))"
  assume "bind_res (check_draft d) (\<lambda>_.
      let verified = ?n; c = drafted_skill env d verified; v = drafted_version env d
      in if verified < 5 then raise_skill ''skill_generation_distinct_evidence_threshold_not_met''
         else if \<not> skill_widths c \<or> 80 < py_len (sv_hash v) then Inl (OtherError ''DataError'')
         else if dget (dr_trigger d) ''keywords'' = None \<or> dget (dr_strategy d) ''response_policy'' = None \<or>
           sk_skill_id c \<in> set (map sk_skill_id (sd_skills db)) \<or> sv_version_id v \<in> set (map sv_version_id (sd_versions db)) \<or>
           sv_hash v \<in> set (map sv_hash (sd_versions db))
         then Inl IntegrityError
         else Inr (sk_skill_id c, db\<lparr>sd_skills := sd_skills db @ [c], sd_versions := sd_versions db @ [v]\<rparr>)) = Inr (y, d1)"
  then have "check_draft d = Inr ()" "\<not> ?n < 5"
    and d1: "d1 = db\<lparr>sd_skills := sd_skills db @ [drafted_skill env d ?n], sd_versions := sd_versions db @ [drafted_version env d]\<rparr>"
    unfolding bind_res_eq_Inr Let_def raise_skill_def by (auto split: if_splits)
  then have ok: "skill_definition_ok (dr_definition d)" "dr_safety_gate d" "dr_offline_gate d" "5 \<le> ?n"
    unfolding check_draft_def raise_skill_def skill_definition_ok_def by (auto simp: bind_res_eq_Inr split: if_splits)
  have "skill_ok d1 c" if "skill_ok db c" for c using that by (simp add: d1 skill_ok_def passed_evaluation_def)
  moreover have "skill_ok d1 (drafted_skill env d ?n)" using ok assms(2) by (simp add: skill_ok_def drafted_skill_def)
  moreover have "version_ok (drafted_version env d)" using ok by (simp add: version_ok_def drafted_version_def)
  ultimately have "store_ok db \<Longrightarrow> store_ok d1" by (auto simp: store_ok_def d1)
  moreover have "skills_follow db d1" unfolding skills_follow_def
    by (intro exI [of _ "\<lambda>c. c"] exI [of _ "[drafted_skill env d ?n]"])
      (simp add: d1 kept_skill_refl fresh_skill_def drafted_skill_def)
  ultimately show "sound_step db d1" by (simp add: sound_step_def)
qed

lemma sound_generate:
  assumes "generate_from_cluster env g db = (x, db')"
  shows "sound_step db db'"
proof -
  consider "db' = db"
    | refs p where "create_candidate env (draft_of g refs p) db = (x, db')" "safe_strategy (pp_strategy p)"
    using assms build_skill_candidate_Inr unfolding generate_from_cluster_def Let_def
    by (auto split: if_splits sum.splits)
  then show ?thesis
  proof cases
    case (2 refs p)
    then show ?thesis using sound_create by (simp add: draft_of_def)
  qed (simp add: sound_refl)
qed

lemma sound_evaluation:
  assumes "record_skill_evaluation env tenant q db = (x, db')"
  shows "sound_step db db'"
  using assms unfolding record_skill_evaluation_def
proof (rule sound_atomic)
  fix y d
  let ?e = "q\<lparr>se_evaluation_id := ke_row_id env, se_created_at := ke_now env\<rparr>"
  assume "(let e = ?e in
      if \<not> starts_with ''sha256:'' (se_dataset_hash q) \<or> se_safety_result q \<notin> {''pass'', ''fail'', ''incomplete''}
      then raise_skill ''invalid_skill_evaluation''
      else if se_disagreements q < 0 \<or> (se_gate_pass q \<and> 0 < se_disagreements q)
      then raise_skill ''judge_disagreement_blocks_gate''
      else bind_res (metric_map (se_before q)) (\<lambda>_. bind_res (metric_map (se_after q)) (\<lambda>_.
        if \<not> list_ex (skill_at tenant (se_skill_id q)) (sd_skills db) then raise_skill ''skill_not_found''
        else if (case se_version_id q of None \<Rightarrow> False
          | Some k \<Rightarrow> \<not> list_ex (\<lambda>v. sv_skill_id v = se_skill_id q \<and> sv_version_id v = k) (sd_versions db))
        then raise_skill ''skill_version_not_found''
        else if 80 < py_len (se_dataset_hash q) then Inl (OtherError ''DataError'')
        else if ke_row_id env \<in> set (map se_evaluation_id (sd_evaluations db)) then Inl IntegrityError
        else Inr (e, db\<lparr>sd_evaluations := sd_evaluations db @ [e]\<rparr>)))) = Inr (y, d)"
  then have d: "d = db\<lparr>sd_evaluations := sd_evaluations db @ [?e]\<rparr>"
    unfolding Let_def raise_skill_def by (auto simp: bind_res_eq_Inr split: if_splits)
  have "skill_ok d c" if "skill_ok db c" for c
    using that passed_evaluation_mono [of db c d c] by (auto simp: skill_ok_def d)
  then have "store_ok db \<Longrightarrow> store_ok d" by (simp add: store_ok_def d)
  then show "sound_step db d" using skills_follow_same [of d db] by (simp add: sound_step_def d)
qed

lemma sound_elsewhere:
  assumes "sd_skills db' = sd_skills db" "sd_versions db' = sd_versions db" "sd_evaluations db' = sd_evaluations db"
  shows "sound_step db db'"
  using assms by (simp add: sound_step_def skills_follow_same store_ok_def skill_ok_def passed_evaluation_def)

lemma sound_match: "record_match env q db = (x, db') \<Longrightarrow> sound_step db db'"
  unfolding record_match_def Let_def by (erule sound_atomic) (auto intro!: sound_elsewhere split: if_splits)

lemma sound_control: "set_matching_enabled env tenant enabled updated_by reason_hash db = (x, db') \<Longrightarrow> sound_step db db'"
  unfolding set_matching_enabled_def Let_def by (erule sound_atomic) (auto intro!: sound_elsewhere split: if_splits)

lemma sound_submit: "submit_for_review env tenant skill_id db = (x, db') \<Longrightarrow> sound_step db db'"
  unfolding submit_for_review_def
  by (erule sound_then_get, rule sound_move)
    (auto simp: skill_moves_iff intro!: moved_skill, auto simp: with_status_def)

lemma sound_approve: "approve_skill env tenant skill_id reviewer db = (x, db') \<Longrightarrow> sound_step db db'"
proof -
  assume *: "approve_skill env tenant skill_id reviewer db = (x, db')"
  have "sound_step db (snd (move_skill env (approvable tenant skill_id) (with_status env SK_APPROVED)
      ''skill_not_pending_or_evaluation_gate_failed''
      (\<lambda>v. sv_skill_id v = skill_id \<and> sv_status v = SK_PENDING_REVIEW) (approved_version env reviewer) db))"
    if "reviewer \<noteq> []"
    using that by (intro sound_move)
      (auto simp: approvable_def skill_moves_iff version_ok_def approved_version_def intro!: moved_skill, auto simp: with_status_def)
  then show ?thesis using * sound_refl unfolding approve_skill_def
    by (auto intro: sound_then_get split: if_splits)
qed

lemma sound_reject: "reject_skill env tenant skill_id reviewer reason db = (x, db') \<Longrightarrow> sound_step db db'"
proof -
  assume *: "reject_skill env tenant skill_id reviewer reason db = (x, db')"
  have "sound_step db (snd (move_skill env (\<lambda>_ c. skill_at tenant skill_id c \<and> sk_status c = SK_PENDING_REVIEW)
      (rejected_skill env reviewer reason) ''skill_not_pending''
      (\<lambda>v. sv_skill_id v = skill_id \<and> sv_status v \<in> {SK_PENDING_REVIEW, SK_APPROVED}) rolled_back db))"
    by (intro sound_move)
      (auto simp: rejected_skill_def with_status_def kept_skill_def skill_moves_iff version_ok_def rolled_back_def)
  then show ?thesis using * sound_refl unfolding reject_skill_def
    by (auto intro: sound_then_get split: if_splits)
qed

lemma sound_canary: "canary_skill env tenant skill_id db = (x, db') \<Longrightarrow> sound_step db db'"
  unfolding canary_skill_def
  by (erule sound_then_get, rule sound_move)
    (auto simp: skill_moves_iff skill_ok_def version_ok_def canary_version_def intro!: moved_skill, auto simp: with_status_def)

lemma sound_rollback: "rollback_skill env tenant skill_id reason db = (x, db') \<Longrightarrow> sound_step db db'"
proof -
  assume *: "rollback_skill env tenant skill_id reason db = (x, db')"
  have "sound_step db (snd (move_skill env (\<lambda>_ c. skill_at tenant skill_id c \<and> serving c)
      (with_status env SK_ROLLED_BACK) ''skill_transition_requires_canary_or_active''
      (\<lambda>v. sv_skill_id v = skill_id \<and> sv_status v \<in> {SK_CANARY, SK_ACTIVE}) rolled_back db))"
    by (intro sound_move)
      (auto simp: serving_def with_status_def kept_skill_def skill_moves_iff version_ok_def rolled_back_def)
  then show ?thesis using * sound_refl unfolding rollback_skill_def
    by (auto intro: sound_then_get split: if_splits)
qed

section \<open>Histories\<close>

inductive skill_step :: "skill_db \<Rightarrow> skill_db \<Rightarrow> bool" where
  generate: "generate_from_cluster env g db = (a, db') \<Longrightarrow> skill_step db db'"
| evaluate: "record_skill_evaluation env tenant q db = (b, db') \<Longrightarrow> skill_step db db'"
| submit: "submit_for_review env tenant skill_id db = (c, db') \<Longrightarrow> skill_step db db'"
| approve: "approve_skill env tenant skill_id reviewer db = (c, db') \<Longrightarrow> skill_step db db'"
| reject: "reject_skill env tenant skill_id reviewer reason db = (c, db') \<Longrightarrow> skill_step db db'"
| canary: "canary_skill env tenant skill_id db = (c, db') \<Longrightarrow> skill_step db db'"
| rollback: "rollback_skill env tenant skill_id reason db = (c, db') \<Longrightarrow> skill_step db db'"
| expire: "expire_due env t db = (n, db') \<Longrightarrow> skill_step db db'"
| read: "get_skill env tenant skill_id db = (c, db') \<Longrightarrow> skill_step db db'"
| listed: "list_skills env tenant status limit cluster db = (l, db') \<Longrightarrow> skill_step db db'"
| offered: "candidates_for_match env tenant mode limit db = (f, db') \<Longrightarrow> skill_step db db'"
| matched: "record_match env m db = (a, db') \<Longrightarrow> skill_step db db'"
| control: "set_matching_enabled env tenant enabled updated_by reason_hash db = (k, db') \<Longrightarrow> skill_step db db'"
| elsewhere: "skill_step db (db\<lparr>sd_failures := d\<rparr>)"

lemma sound_offered: "candidates_for_match env tenant mode limit db = (x, db') \<Longrightarrow> sound_step db db'"
  unfolding candidates_for_match_def
  by (cases "after_expiry env tenant id db") (auto dest!: sound_after_expiry split: sum.splits option.splits)

lemma skill_step_sound: "skill_step db db' \<Longrightarrow> sound_step db db'"
proof (induction rule: skill_step.induct)
  case (elsewhere db d)
  then show ?case by (simp add: sound_elsewhere)
next
  case (read env tenant skill_id db c db')
  then show ?case unfolding get_skill_def by (rule sound_after_expiry)
next
  case (listed env tenant status limit cluster db l db')
  then show ?case unfolding list_skills_def by (rule sound_after_expiry)
qed (rule sound_generate sound_evaluation sound_submit sound_approve sound_reject sound_canary sound_rollback sound_expire
    sound_offered sound_match sound_control, assumption)+

lemma skill_history_sound: "skill_step\<^sup>*\<^sup>* db db' \<Longrightarrow> sound_step db db'"
  by (induction rule: rtranclp_induct) (auto intro: sound_refl sound_trans skill_step_sound)

section \<open>Properties\<close>

lemma dget_map_filter: "dget (List.map_filter (\<lambda>k. map_option (Pair k) (dget d k)) ks) k = (if k \<in> set ks then dget d k else None)"
  by (induction ks) (auto simp: List.map_filter_simps split: option.splits)

lemma strategy_view_get: "k \<in> set strategy_keys \<Longrightarrow> dget (strategy_view d) k = dget d k"
  by (simp add: strategy_view_def dget_map_filter)

lemma strategy_view_keys: "fst ` set (strategy_view d) \<subseteq> set strategy_keys"
  by (auto simp: strategy_view_def List.map_filter_def split: option.splits)

lemma candidates_for_match_Inr:
  assumes "candidates_for_match env tenant mode limit db = (Inr offers, db')" "x \<in> set offers"
  obtains c v statuses where "x = offer_of c v" "c \<in> set (sd_skills db')" "v \<in> set (sd_versions db')"
    "match_statuses mode = Some statuses" "offered (ke_now env) tenant statuses (c, v)"
proof -
  obtain statuses where s: "match_statuses mode = Some statuses"
    "offers = map (\<lambda>(c, v). offer_of c v) (take (nat (max 1 (min limit 500)))
       (sort_key (\<lambda>cv. - sk_updated_at (fst cv))
         (filter (offered (ke_now env) tenant statuses) (List.product (sd_skills db') (sd_versions db')))))"
    using assms(1) unfolding candidates_for_match_def by (auto split: prod.splits sum.splits option.splits)
  then obtain c v where "x = offer_of c v" "(c, v) \<in> set (take (nat (max 1 (min limit 500)))
       (sort_key (\<lambda>cv. - sk_updated_at (fst cv))
         (filter (offered (ke_now env) tenant statuses) (List.product (sd_skills db') (sd_versions db')))))"
    using assms(2) by auto
  then show ?thesis using that [of c v statuses] s(1) by (auto dest!: in_set_takeD)
qed

text \<open>C39: a request is only ever matched to a reviewed skill. In every history of the registry, however its
  operations are ordered, the skill that matching selects among the offers of the repository belongs to the
  tenant of the request, a named reviewer approved its version, its gates were passed by at least five
  independent failures and a clean paired evaluation, its definition passed the hard validation, it has not
  expired, and the strategy that is handed on has only allowlisted keys, a safe response policy and no
  decision but to respond and to finish.\<close>

theorem matched_skill_is_reviewed:
  assumes "skill_step\<^sup>*\<^sup>* db0 db" "sd_skills db0 = []" "sd_versions db0 = []"
    "candidates_for_match env (sq_tenant q) (sq_mode q) limit db = (Inr offers, db')"
    "select_skill q offers = Inr (Some m)"
  shows "\<exists>c\<in>set (sd_skills db'). \<exists>v\<in>set (sd_versions db').
    mx_skill_id m = sk_skill_id c \<and> mx_version_id m = sv_version_id v \<and> sv_skill_id v = sk_skill_id c \<and>
    sk_tenant_id c = sq_tenant q \<and> sk_status c \<in> {SK_APPROVED, SK_CANARY} \<and>
    (\<exists>r. sv_approved_by v = Some r \<and> r \<noteq> []) \<and> skill_definition_ok (sv_definition v) \<and>
    sk_offline_gate c \<and> sk_safety_gate c \<and> 5 \<le> sk_source_count c \<and> passed_evaluation db' c \<and>
    ke_now env < sv_expires_at v \<and> sq_now q < sv_expires_at v \<and>
    safe_strategy (mx_strategy m) \<and> fst ` set (mx_strategy m) \<subseteq> set strategy_keys"
proof -
  have sound: "sound_step db0 db'"
    using sound_trans [OF skill_history_sound [OF assms(1)] sound_offered [OF assms(4)]] .
  then have store: "store_ok db'" and follow: "skills_follow db0 db'"
    using assms(2,3) by (simp_all add: sound_step_def store_ok_def)
  obtain x statuses where x: "x \<in> set offers" "eligible q statuses x" "m = match_of q x"
    using assms(5) by (rule select_skill_Some)
  obtain c v st where cv: "x = offer_of c v" "c \<in> set (sd_skills db')" "v \<in> set (sd_versions db')"
    "match_statuses (sq_mode q) = Some st" "offered (ke_now env) (sq_tenant q) st (c, v)"
    by (rule candidates_for_match_Inr [OF assms(4) x(1)])
  have "sk_status c \<noteq> SK_ACTIVE" using follow assms(2) cv(2) by (auto simp: skills_follow_def fresh_skill_def)
  moreover have "sk_status c \<in> {SK_APPROVED, SK_CANARY, SK_ACTIVE}"
    using cv(4,5) by (auto simp: match_statuses_def offered_def split: if_splits)
  moreover have "skill_ok db' c" "version_ok v" using store cv(2,3) by (simp_all add: store_ok_def)
  moreover have "mx_strategy m = strategy_view (sk_strategy c)" by (simp add: x(3) cv(1) match_of_def offer_of_def)
  moreover have "safe_strategy (strategy_view d) = safe_strategy d" for d
    by (simp add: safe_strategy_def strategy_view_get strategy_keys_def)
  ultimately show ?thesis using cv(2,3,5) x(2,3) strategy_view_keys
    by (intro bexI [OF _ cv(2)] bexI [OF _ cv(3)])
      (auto simp: cv(1) skill_ok_def version_ok_def offered_def eligible_def match_of_def offer_of_def)
qed


section \<open>Witnesses\<close>

definition demo_skill_env :: "string \<Rightarrow> int \<Rightarrow> skill_env" where
  "demo_skill_env k t = \<lparr>ke_now = t, ke_skill_id = ''s'', ke_row_id = k, ke_hash = (\<lambda>d. ''h'')\<rparr>"

definition demo_case :: "string \<Rightarrow> failure_case" where
  "demo_case k = new_case (demo_failure_env k 0)
     \<lparr>fp_tenant_id = ''t'', fp_signal = ''s'', fp_severity = ''p1'', fp_source = ''r'', fp_run_id = None, fp_eval_run_id = None,
      fp_case_id = None, fp_cluster_key = ''k'', fp_summary = ''x'', fp_trace_refs = []\<rparr>"

definition demo_skill_db :: skill_db where
  "demo_skill_db =
     \<lparr>sd_skills = [], sd_versions = [], sd_evaluations = [], sd_matches = [], sd_controls = [],
      sd_failures = \<lparr>fd_cases = map demo_case [''a'', ''b'', ''c'', ''d'', ''e''], fd_attributions = [], fd_runtime = empty_db\<rparr>\<rparr>"

definition demo_generation :: skill_generation where
  "demo_generation =
     \<lparr>sg_tenant_id = ''t'', sg_cluster_key = ''k'', sg_scope_type = ''tenant'', sg_scope_value = ''t'', sg_keywords = [''hi''],
      sg_policy = ''conversational_response'', sg_offline_gate = True, sg_safety_gate = True, sg_provenance = [],
      sg_ttl_days = 30, sg_owner = ''tenant'', sg_kind = ''experience''\<rparr>"

lemma no_item_errors:
  assumes "list_all (\<lambda>kv. lower (fst kv) \<notin> set forbidden_skill_keys) d"
    "list_all (\<lambda>s. \<not> list_ex suspicious (chars s)) (texts_of_dict d)"
  shows "concat (map item_errors d) = []"
  using assms harmless_text
  by (auto simp: list_all_iff item_errors_def texts_of_dict_set dangerous_texts)

definition demo_definition :: pydict where
  "demo_definition = proposed_definition ''k'' [''hi''] ''conversational_response'' ''tenant'' ''t'' 30"

lemma demo_items: "concat (map item_errors demo_definition) = []"
proof (rule no_item_errors)
  show "list_all (\<lambda>kv. lower (fst kv) \<notin> set forbidden_skill_keys) demo_definition" by code_simp
  show "list_all (\<lambda>s. \<not> list_ex suspicious (chars s)) (texts_of_dict demo_definition)" by code_simp
qed

lemma demo_definition_ok: "validate_skill_definition demo_definition = Inr []"
proof -
  have "scope_errors demo_definition = Inr []" "trigger_errors demo_definition = []" "policy_errors demo_definition = []"
    "\<not> unsafe_actions demo_definition ''allowed_actions''" "\<not> unsafe_actions demo_definition ''allowed_decisions''"
    "tools_errors demo_definition = []" "ttl_errors demo_definition = []"
    "examples_errors demo_definition ''positive_examples'' = []" "examples_errors demo_definition ''negative_examples'' = []"
    by code_simp+
  then show ?thesis using demo_items by (simp add: validate_skill_definition_def)
qed

lemma demo_refs: "cluster_evidence_refs ''t'' ''k'' 500 demo_skill_db = [''a'', ''b'', ''c'', ''d'', ''e'']"
  by code_simp

definition demo_proposal :: skill_proposal where
  "demo_proposal =
     \<lparr>pp_trigger = [(''keywords'', PList [PStr ''hi''])],
      pp_strategy = [(''response_policy'', PStr ''conversational_response''),
        (''allowed_decisions'', PList [PStr ''respond'', PStr ''finish'']),
        (''forbidden_tools'', PList [PStr ''business_write_tools'', PStr ''unknown_risk_tools'']), (''ttl_seconds'', PInt 2592000)],
      pp_provenance = [(''cluster_key'', PStr ''k''), (''source_count'', PInt 5)], pp_definition = demo_definition\<rparr>"

definition demo_draft :: skill_draft where
  "demo_draft = draft_of demo_generation [''a'', ''b'', ''c'', ''d'', ''e''] demo_proposal"

definition demo_generated_db :: skill_db where
  "demo_generated_db = demo_skill_db\<lparr>sd_skills := [drafted_skill (demo_skill_env ''v'' 0) demo_draft 5],
     sd_versions := [drafted_version (demo_skill_env ''v'' 0) demo_draft]\<rparr>"

lemma demo_built: "build_skill_candidate ''k'' 5 [''hi''] ''conversational_response'' ''tenant'' ''t'' 30 = Inr demo_proposal"
  using demo_definition_ok unfolding demo_definition_def
  by (simp add: build_skill_candidate_def demo_proposal_def demo_definition_def)

lemma demo_checked: "check_draft demo_draft = Inr ()"
  by (simp add: check_draft_def demo_draft_def draft_of_def demo_generation_def demo_proposal_def demo_definition_ok)

lemma demo_sources: "length (remdups (map evidence_ref (cluster_cases ''t'' ''k'' demo_skill_db))) = 5"
  by code_simp

lemma demo_widths: "skill_widths (drafted_skill (demo_skill_env ''v'' 0) demo_draft 5)"
  by code_simp

lemma demo_hash_width: "py_len (sv_hash (drafted_version (demo_skill_env ''v'' 0) demo_draft)) \<le> 80"
  by code_simp

lemma demo_generates:
  "generate_from_cluster (demo_skill_env ''v'' 0) demo_generation demo_skill_db = (Inr ''s'', demo_generated_db)"
proof -
  have draft: "dr_tenant_id demo_draft = ''t''" "dr_cluster_key demo_draft = ''k''" "dr_trigger demo_draft = pp_trigger demo_proposal"
    "dr_strategy demo_draft = pp_strategy demo_proposal"
    by (simp_all add: demo_draft_def draft_of_def demo_generation_def)
  have "dget (pp_trigger demo_proposal) ''keywords'' \<noteq> None" "dget (pp_strategy demo_proposal) ''response_policy'' \<noteq> None"
    by (simp_all add: demo_proposal_def)
  moreover have "sk_skill_id (drafted_skill (demo_skill_env ''v'' 0) demo_draft 5) = ''s''"
    by (simp add: drafted_skill_def demo_skill_env_def)
  moreover have "sd_skills demo_skill_db = []" "sd_versions demo_skill_db = []" by (simp_all add: demo_skill_db_def)
  ultimately have create: "create_candidate (demo_skill_env ''v'' 0) demo_draft demo_skill_db = (Inr ''s'', demo_generated_db)"
    using demo_widths demo_sources demo_hash_width
    by (simp add: create_candidate_def demo_checked draft demo_generated_db_def atomic_def Let_def)
  have "sg_tenant_id demo_generation = ''t''" "sg_cluster_key demo_generation = ''k''" "sg_scope_type demo_generation = ''tenant''"
    "sg_keywords demo_generation = [''hi'']" "sg_policy demo_generation = ''conversational_response''"
    "sg_scope_value demo_generation = ''t''" "sg_ttl_days demo_generation = 30"
    by (simp_all add: demo_generation_def)
  then show ?thesis
    by (simp add: generate_from_cluster_def demo_refs demo_built demo_draft_def [symmetric] create)
qed

definition demo_evaluation :: evaluation_row where
  "demo_evaluation =
     \<lparr>se_evaluation_id = [], se_skill_id = ''s'', se_version_id = Some ''v'', se_dataset_hash = ''sha256:x'',
      se_before = [], se_after = [], se_safety_result = ''pass'', se_cost_delta = None, se_latency_delta = None,
      se_gate_pass = True, se_disagreements = 0, se_created_at = 0\<rparr>"

definition demo_evaluated :: skill_db where
  "demo_evaluated = snd (record_skill_evaluation (demo_skill_env ''e'' 1) ''t'' demo_evaluation demo_generated_db)"

definition demo_submitted :: skill_db where
  "demo_submitted = snd (submit_for_review (demo_skill_env ''x'' 2) ''t'' ''s'' demo_evaluated)"

definition demo_approved :: skill_db where
  "demo_approved = snd (approve_skill (demo_skill_env ''x'' 3) ''t'' ''s'' ''alice'' demo_submitted)"

definition demo_canary :: skill_db where
  "demo_canary = snd (canary_skill (demo_skill_env ''x'' 4) ''t'' ''s'' demo_approved)"

lemma demo_skill_history: "skill_step\<^sup>*\<^sup>* demo_skill_db demo_canary"
proof -
  have "skill_step demo_skill_db demo_generated_db" by (rule skill_step.generate [OF demo_generates])
  moreover have "skill_step demo_generated_db demo_evaluated"
    unfolding demo_evaluated_def by (rule skill_step.evaluate [OF prod.collapse [symmetric]])
  moreover have "skill_step demo_evaluated demo_submitted"
    unfolding demo_submitted_def by (rule skill_step.submit [OF prod.collapse [symmetric]])
  moreover have "skill_step demo_submitted demo_approved"
    unfolding demo_approved_def by (rule skill_step.approve [OF prod.collapse [symmetric]])
  moreover have "skill_step demo_approved demo_canary"
    unfolding demo_canary_def by (rule skill_step.canary [OF prod.collapse [symmetric]])
  ultimately show ?thesis by (meson converse_rtranclp_into_rtranclp rtranclp.rtrancl_refl)
qed

definition demo_query :: skill_query where
  "demo_query = \<lparr>sq_text = ''hi'', sq_tenant = ''t'', sq_route = None, sq_mode = ''canary'', sq_minimum = 3 / 4, sq_now = 5\<rparr>"

definition demo_offers :: "skill_offer list result \<times> skill_db" where
  "demo_offers = candidates_for_match (demo_skill_env ''x'' 5) ''t'' ''canary'' 10 demo_canary"

definition demo_match :: "skill_match option result" where
  "demo_match = (case fst demo_offers of Inl e \<Rightarrow> Inl e | Inr offers \<Rightarrow> select_skill demo_query offers)"

lemma demo_statuses: "map sk_status (sd_skills demo_canary) = [SK_CANARY]"
  by code_simp

lemma demo_match_found: "(case demo_match of Inr (Some m) \<Rightarrow> mx_skill_id m = ''s'' | _ \<Rightarrow> False)"
  by code_simp


lemma matched_skill_is_reviewed_witness:
  "\<exists>m. demo_match = Inr (Some m) \<and> mx_skill_id m = ''s'' \<and> fst ` set (mx_strategy m) \<subseteq> set strategy_keys \<and>
     safe_strategy (mx_strategy m)"
proof -
  obtain m offers where m: "demo_match = Inr (Some m)" "mx_skill_id m = ''s''" "fst demo_offers = Inr offers"
    "select_skill demo_query offers = Inr (Some m)"
    using demo_match_found unfolding demo_match_def by (auto split: sum.splits option.splits)
  have "candidates_for_match (demo_skill_env ''x'' 5) (sq_tenant demo_query) (sq_mode demo_query) 10 demo_canary =
      (Inr offers, snd demo_offers)"
    using m(3) by (simp add: demo_query_def demo_offers_def prod_eq_iff)
  from matched_skill_is_reviewed [OF demo_skill_history _ _ this m(4)] show ?thesis
    using m(1,2) by (auto simp: demo_skill_db_def)
qed

end
