(* ===== verification/RunWorld.thy ===== *)
theory RunWorld
  imports Engine LowRisk TerminalResponse Release SkillStore Memory
begin

text \<open>
  What one accepted message is executed on (\<open>src/orchestration/demo_run_executor.py\<close>): the world outside the
  program with the log of the tool calls, the runtime database with its supply of UUIDs and clock readings, and
  the tables of the releases, the skills, the failures and the preferences. An action maps this state to a result
  and the state it leaves, an error included; \<open>catching\<close> is \<open>try\<close>/\<open>except\<close>. The models of the releases and of
  the failures read the runtime tables they refer to through a field of their own, which every action on them
  sets from the runtime database. The settings, the model gateways, the hashes and the JSON encoders are
  parameters.
\<close>

section \<open>State and actions\<close>

record 'w run_world =
  xw_tools :: "'w tool_state"
  xw_calls :: "string list"
  xw_store :: repository_state
  xw_releases :: release_db
  xw_skills :: skill_db
  xw_memory :: "memory_row list"

type_synonym ('a, 'w) action = "'w run_world \<Rightarrow> 'a result \<times> 'w run_world"

definition give :: "'a \<Rightarrow> ('a, 'w) action" where
  "give x w = (Inr x, w)"

definition give_result :: "'a result \<Rightarrow> ('a, 'w) action" where
  "give_result r w = (r, w)"

definition and_then :: "('a, 'w) action \<Rightarrow> ('a \<Rightarrow> ('b, 'w) action) \<Rightarrow> ('b, 'w) action" where
  "and_then m f w = (case m w of (Inl e, w) \<Rightarrow> (Inl e, w) | (Inr x, w) \<Rightarrow> f x w)"

definition catching :: "('a, 'w) action \<Rightarrow> (py_exn \<Rightarrow> ('a, 'w) action) \<Rightarrow> ('a, 'w) action" where
  "catching m h w = (case m w of (Inl e, w) \<Rightarrow> h e w | (Inr x, w) \<Rightarrow> (Inr x, w))"

text \<open>\<open>try: ... except Exception: pass\<close>\<close>

definition best_effort :: "('a, 'w) action \<Rightarrow> (unit, 'w) action" where
  "best_effort m w = (Inr (), snd (m w))"

definition observing :: "('w run_world \<Rightarrow> 'a) \<Rightarrow> ('a, 'w) action" where
  "observing f w = (Inr (f w), w)"

definition provided :: "bool \<Rightarrow> (unit, 'w) action \<Rightarrow> (unit, 'w) action" where
  "provided b m = (if b then m else give ())"

section \<open>The parts of the state\<close>

definition on_tools :: "('w tool_state \<Rightarrow> 'a result \<times> 'w tool_state) \<Rightarrow> ('a, 'w) action" where
  "on_tools f w = (let (r, t) = f (xw_tools w) in (r, w\<lparr>xw_tools := t\<rparr>))"

definition on_repository :: "(repository_state \<Rightarrow> 'a result \<times> repository_state) \<Rightarrow> ('a, 'w) action" where
  "on_repository f w = (let (r, s) = f (xw_store w) in (r, w\<lparr>xw_store := s\<rparr>))"

definition on_pipeline ::
  "(('w, repository_state) pipeline_state \<Rightarrow> 'a result \<times> ('w, repository_state) pipeline_state) \<Rightarrow> ('a, 'w) action" where
  "on_pipeline f w =
     (let (r, ps) = f \<lparr>ps_tools = xw_tools w, ps_store = xw_store w\<rparr> in
      (r, w\<lparr>xw_tools := ps_tools ps, xw_store := ps_store ps\<rparr>))"

definition on_boundary ::
  "(('w, repository_state) boundary_state \<Rightarrow> 'a result \<times> ('w, repository_state) boundary_state) \<Rightarrow> ('a, 'w) action" where
  "on_boundary f w =
     (let (r, b) = f \<lparr>bs_world = tst_world (xw_tools w), bs_calls = xw_calls w, bs_store = xw_store w\<rparr> in
      (r, w\<lparr>xw_tools := (xw_tools w)\<lparr>tst_world := bs_world b\<rparr>, xw_calls := bs_calls b, xw_store := bs_store b\<rparr>))"

definition on_releases :: "(release_db \<Rightarrow> 'a result \<times> release_db) \<Rightarrow> ('a, 'w) action" where
  "on_releases f w =
     (let (r, db) = f ((xw_releases w)\<lparr>rd_runtime := rs_db (xw_store w)\<rparr>) in (r, w\<lparr>xw_releases := db\<rparr>))"

definition with_runtime :: "'w run_world \<Rightarrow> skill_db" where
  "with_runtime w = (xw_skills w)\<lparr>sd_failures := (sd_failures (xw_skills w))\<lparr>fd_runtime := rs_db (xw_store w)\<rparr>\<rparr>"

definition on_skills :: "(skill_db \<Rightarrow> 'a result \<times> skill_db) \<Rightarrow> ('a, 'w) action" where
  "on_skills f w = (let (r, db) = f (with_runtime w) in (r, w\<lparr>xw_skills := db\<rparr>))"

definition on_failures :: "(failure_db \<Rightarrow> 'a result \<times> failure_db) \<Rightarrow> ('a, 'w) action" where
  "on_failures f = on_skills (\<lambda>db. let (r, d) = f (sd_failures db) in (r, db\<lparr>sd_failures := d\<rparr>))"

definition advance_supply :: "nat \<Rightarrow> (unit, 'w) action" where
  "advance_supply n = on_repository (\<lambda>s. (Inr (), s\<lparr>rs_tick := rs_tick s + n\<rparr>))"

section \<open>Environment\<close>

record run_settings =
  st_safety_v2 :: bool
  st_routing_v2 :: bool
  st_conversational :: bool
  st_experience_skills :: bool
  st_skill_shadow :: bool
  st_skill_canary :: bool
  st_model_timeout :: rat
  st_model_max_tokens :: int

record 'w run_env =
  xe_settings :: run_settings
  xe_low_risk :: low_risk_env
  xe_commit :: "'w low_risk_commit"
  xe_gateway :: "unit result"
  xe_classifier :: "'w classifier"
  xe_agent :: "'w agent_env"
  xe_attribution :: attribution_model
  xe_digest :: "string \<Rightarrow> nat list"
  xe_sha :: "string \<Rightarrow> string"
  xe_skill_hash :: "pydict \<Rightarrow> string"
  xe_float :: "string \<Rightarrow> rat option"
  xe_json :: "pyval \<Rightarrow> string"
  xe_json_sorted :: "pyval \<Rightarrow> string"
  xe_error_text :: "py_exn \<Rightarrow> string"

abbreviation flow :: "'w run_env \<Rightarrow> workflow_env" where
  "flow env \<equiv> le_workflow (xe_low_risk env)"

abbreviation repo :: "'w run_env \<Rightarrow> repository_env" where
  "repo env \<equiv> we_store (flow env)"

text \<open>A transaction of the runtime database with the current time and a fresh UUID.\<close>

definition on_runtime :: "'w run_env \<Rightarrow> (int \<Rightarrow> string \<Rightarrow> runtime_db \<Rightarrow> 'a result \<times> runtime_db) \<Rightarrow> ('a, 'w) action" where
  "on_runtime env f = on_repository (transact (flow env) f)"

section \<open>What the branches share\<close>

text \<open>The accepted message.\<close>

record run_request =
  qr_conversation_id :: string
  qr_content :: string
  qr_actor_id :: string
  qr_run_id :: string
  qr_tenant_id :: string

text \<open>\<open>observe\<close>: an event of the run; its errors are ignored.\<close>

definition observe :: "'w run_env \<Rightarrow> run_request \<Rightarrow> event_type \<Rightarrow> string \<Rightarrow> pydict \<Rightarrow> (unit, 'w) action" where
  "observe env q t step payload =
     best_effort (on_runtime env (\<lambda>now i. append_event (rv_codec (repo env)) now i (qr_run_id q) (qr_tenant_id q) t step payload))"

definition checkpoint ::
  "'w run_env \<Rightarrow> run_context \<Rightarrow> run_status \<Rightarrow> string \<Rightarrow> pydict \<Rightarrow> domain_event list \<Rightarrow> (int, 'w) action" where
  "checkpoint env c status nxt state events = on_repository (checkpoint_run (repo env) c status nxt state events)"

definition publication_at :: "'w run_env \<Rightarrow> nat \<Rightarrow> publish_env" where
  "publication_at env n =
     \<lparr>pb_now = (\<lambda>k. rv_clock (repo env) (n + k)), pb_uuid = (\<lambda>k. rv_uuid (repo env) (n + k)), pb_sha = xe_sha env,
      pb_codec = rv_codec (repo env), pb_repr = we_repr (flow env)\<rparr>"

text \<open>A publication reads the clock five times.\<close>

definition publish :: "'w run_env \<Rightarrow> run_context \<Rightarrow> string option \<Rightarrow> string option \<Rightarrow> bool option \<Rightarrow> (unit, 'w) action" where
  "publish env c preferred reason retryable = on_repository (\<lambda>s.
     let (r, db) = publish_terminal_response (publication_at env (rs_tick s)) c
           \<lparr>pu_status = None, pu_reason = reason, pu_preferred = preferred, pu_retryable = retryable\<rparr> (rs_db s)
     in (bind_res r (\<lambda>x. Inr ()), \<lparr>rs_db = db, rs_tick = rs_tick s + 5\<rparr>))"

definition failure_envs :: "'w run_env \<Rightarrow> nat \<Rightarrow> nat \<Rightarrow> failure_env" where
  "failure_envs env n i =
     \<lparr>fe_now = rv_clock (repo env) (n + 2 * i), fe_case_id = rv_uuid (repo env) (n + 2 * i),
      fe_row_id = rv_uuid (repo env) (n + 2 * i + 1), fe_sha = xe_sha env\<rparr>"

text \<open>\<open>FailureAttributionService.record_run_outcome\<close>, whose errors every caller here ignores.\<close>

definition learn_failure ::
  "'w run_env \<Rightarrow> string \<Rightarrow> string \<Rightarrow> string \<Rightarrow> string \<Rightarrow> string option \<Rightarrow> (unit, 'w) action" where
  "learn_failure env tenant run_id status reason route =
     (let m = \<lparr>rm_tenant_id = tenant, rm_run_id = run_id, rm_status = status, rm_reason = Some reason,
               rm_route = route, rm_eval_failed = False, rm_human_rejected = False\<rparr>
      in and_then (observing (\<lambda>w. rs_tick (xw_store w))) (\<lambda>n.
         and_then (best_effort (on_failures (record_run_outcome (failure_envs env n) (rv_codec (repo env))
             (xe_attribution env) m))) (\<lambda>_.
           advance_supply (2 * length (signals_for_run status (Some reason) False False)))))"

definition open_ticket :: "'w run_env \<Rightarrow> run_request \<Rightarrow> string \<Rightarrow> string option \<Rightarrow> pydict \<Rightarrow> (string, 'w) action" where
  "open_ticket env q reason operation details = on_runtime env (\<lambda>now i. create_ticket now i
     \<lparr>hr_run_id = qr_run_id q, hr_tenant_id = qr_tenant_id q, hr_actor_ref = qr_actor_id q,
      hr_reason_code = reason, hr_operation = operation, hr_details = details\<rparr>)"

text \<open>The environment of a skill operation, from the supply.\<close>

definition skill_env_at :: "'w run_env \<Rightarrow> nat \<Rightarrow> skill_env" where
  "skill_env_at env n =
     \<lparr>ke_now = rv_clock (repo env) n, ke_skill_id = rv_uuid (repo env) n, ke_row_id = rv_uuid (repo env) (n + 1),
      ke_hash = xe_skill_hash env\<rparr>"

definition on_registry :: "'w run_env \<Rightarrow> (skill_env \<Rightarrow> skill_db \<Rightarrow> 'a result \<times> skill_db) \<Rightarrow> ('a, 'w) action" where
  "on_registry env f w =
     (let (r, w) = on_skills (f (skill_env_at env (rs_tick (xw_store w)))) w in (r, snd (advance_supply 2 w)))"

end
