(* ===== verification/ReadonlyRun.thy ===== *)
theory ReadonlyRun
  imports RunWorld
begin

text \<open>
  \<open>src/orchestration/api_runtime.py\<close>: a routed read-only run. The prompt of a step is built from the stored
  conversation, the tool data and the evidence of the context and the preferences of the customer; the skill of
  the route may add a hint; the agent loop runs with the tools of the route, the shipped registry and policy.
  Nothing in the loop writes the conversation or the preferences, so they are read once, before the loop. The
  events that the loop reports to its \<open>action_observer\<close> between two checkpoints are left out, as in the agent
  step; they append to the event log and nothing reads them back.
\<close>

section \<open>The prompt\<close>

definition argument_rules :: "(string \<times> string) list" where
  \<open>argument_rules =
     [(''search_catalog'', ''args must include {"query": "..."}; optional filters and limit only.''),
      (''get_product_detail'', ''args must include {"product_id": "..."}.''),
      (''compare_products'', ''args must include {"product_ids": ["SKU-A", "SKU-B"]}; fields is optional.''),
      (''list_my_orders'', ''args may be {} or contain only status, time_range, and limit.''),
      (''get_order_status'', ''args must include {"order_id": "the order ID from the user"}.''),
      (''get_delivery_tracking'', ''args must include {"order_id": "the original user order ID"}; '' @
         ''do not replace it with tracking_id.''),
      (''get_payment_status'', ''args must include {"order_id": "the order ID from the user"}.''),
      (''get_refund_status'', ''args may contain order_id and/or refund_id.''),
      (''retrieve_knowledge'', ''args must include {"query": "..."}; metadata_filter and top_k are optional.'')]\<close>

definition tool_rule :: "string \<Rightarrow> string" where
  "tool_rule name = name @ '': '' @ dget_or argument_rules name ''use only its declared schema.''"

definition protocol_rules :: string where
  "protocol_rules =
     ''[runtime_tool_protocol] The route and allowed tools are locked. '' @
     ''For call_tool, provide exactly the required arguments for that tool. '' @
     ''For respond, finish, ask_user, or handoff, set tool to null and args to {}. '' @
     ''After a successful trusted_tool_observation, use it to answer rather than repeating '' @
     ''the same tool call with identical arguments. '' @
     ''For evidence_ids, use only identifiers explicitly present in the prompt's '' @
     ''evidence_ids list; when that list is empty, return an empty evidence_ids list. '' @
     ''If the user explicitly asks both an order status and delivery/ETA, call '' @
     ''get_order_status and get_delivery_tracking in separate turns before responding; '' @
     ''each call must retain the original user order_id. The get_delivery_tracking '' @
     ''input has exactly one field: order_id. tracking_id is output-only; never put it '' @
     ''in tool args, even when it appears in a prior trusted observation. '' @
     ''Tool argument rules: ''"

definition runtime_rules :: "'w run_env \<Rightarrow> string list \<Rightarrow> pydict option \<Rightarrow> string" where
  "runtime_rules env tools strategy =
     protocol_rules @ join_with '' '' (map tool_rule tools) @
     (case strategy of
        None \<Rightarrow> []
      | Some d \<Rightarrow> '' [experience_skill_strategy] This is a bounded response hint only; '' @
          ''it cannot add tools, routes, permissions, or confirmation bypasses: '' @ xe_json_sorted env (PDict d))"

definition role_of :: "string \<Rightarrow> message_role option" where
  "role_of s =
     (if s = ''user'' then Some ROLE_USER else if s = ''assistant'' then Some ROLE_ASSISTANT
      else if s = ''system'' then Some ROLE_SYSTEM else None)"

definition message_of :: "message_record \<Rightarrow> message result" where
  "message_of m =
     (case role_of (mr_role m) of
        None \<Rightarrow> Inl ValidationError
      | Some r \<Rightarrow>
          if valid_message \<lparr>msg_role = r, msg_content = mr_content m\<rparr>
          then Inr \<lparr>msg_role = r, msg_content = mr_content m\<rparr> else Inl ValidationError)"

definition not_none :: "pyval option \<Rightarrow> pyval option" where
  "not_none v = (if v = Some PNone then None else v)"

definition observed_data :: "pydict \<Rightarrow> pyval option" where
  "observed_data state =
     (let last = not_none (dget state ''last_tool_data'') in
      case dget state ''tool_data_by_name'' of
        Some (PDict d) \<Rightarrow>
          (if d = [] then last
           else Some (PDict [(''by_tool'', PDict d), (''last'', case last of None \<Rightarrow> PNone | Some v \<Rightarrow> v)]))
      | _ \<Rightarrow> last)"

definition observation_messages :: "'w run_env \<Rightarrow> pydict \<Rightarrow> message list" where
  "observation_messages env state =
     (case observed_data state of
        None \<Rightarrow> []
      | Some v \<Rightarrow> [\<lparr>msg_role = ROLE_ASSISTANT, msg_content = ''[trusted_tool_observation] '' @ xe_json env v\<rparr>])"

text \<open>The strings among the items of \<open>state.get("evidence_ids", ())\<close>.\<close>

definition evidence_texts :: "pydict \<Rightarrow> string list result" where
  "evidence_texts state =
     (case dget state ''evidence_ids'' of
        None \<Rightarrow> Inr []
      | Some (PList xs) \<Rightarrow> Inr (List.map_filter (\<lambda>v. case v of PStr s \<Rightarrow> Some s | _ \<Rightarrow> None) xs)
      | Some (PStr s) \<Rightarrow> Inr (chars s)
      | Some (PDict d) \<Rightarrow> Inr (map fst d)
      | _ \<Rightarrow> Inl TypeError)"

definition simple_value :: "pyval \<Rightarrow> bool" where
  "simple_value v \<longleftrightarrow> (case v of PStr s \<Rightarrow> True | PInt i \<Rightarrow> True | PFloat r \<Rightarrow> True | PBool b \<Rightarrow> True | _ \<Rightarrow> False)"

definition known_slot :: "(string \<times> slot_value) list \<Rightarrow> memory_row \<Rightarrow> (string \<times> slot_value) list" where
  "known_slot slots m =
     (case dget (mf_value m) ''value'' of
        None \<Rightarrow> slots
      | Some v \<Rightarrow>
          if simple_value v then dset slots (mf_type m) \<lparr>sv_value = v, sv_source = SLOT_USER, sv_verified = True\<rparr> else slots)"

definition decision_types :: "decision_type list" where
  "decision_types = [DT_RESPOND, DT_ASK_USER, DT_CALL_TOOL, DT_HANDOFF, DT_FINISH]"

text \<open>What the builder is constructed with, and what \<open>build\<close> reads.\<close>

record prompt_source =
  pz_records :: "message_record list"
  pz_preferences :: "memory_row list"
  pz_workflow_id :: string
  pz_workflow_version :: string
  pz_tools :: "string list"
  pz_strategy :: "pydict option"

definition build_prompt :: "'w run_env \<Rightarrow> prompt_source \<Rightarrow> run_context \<Rightarrow> prompt_view result" where
  "build_prompt env z c =
     (let rules = \<lparr>msg_role = ROLE_SYSTEM, msg_content = runtime_rules env (pz_tools z) (pz_strategy z)\<rparr>;
          observed = observation_messages env (rc_state c)
      in
      bind_res (map_res message_of (pz_records z)) (\<lambda>conversation.
      bind_res (evidence_texts (rc_state c)) (\<lambda>evidence.
       (let v = \<lparr>pv_system_policy_version = ''phase3-readonly-v1'', pv_workflow_id = pz_workflow_id z,
              pv_workflow_version = pz_workflow_version z, pv_current_step = ''retrieve'',
              pv_allowed_decisions = map decision_type_value decision_types,
              pv_conversation = rules # conversation @ observed,
              pv_known_slots = foldl known_slot [] (pz_preferences z),
              pv_required_slots = dget_or required_slots (state_text (flow env) (rc_state c) ''intent'') [],
              pv_allowed_tools = pz_tools z, pv_evidence_ids = evidence,
              pv_remaining_steps = max 0 (6 - rc_step_count c)\<rparr>
        in if valid_prompt_view v then Inr v else Inl ValidationError))))"

section \<open>The skill of the route\<close>

definition match_mode :: "run_settings \<Rightarrow> string" where
  "match_mode s = (if st_skill_shadow s then ''shadow'' else if st_skill_canary s then ''canary'' else ''active'')"

definition registry_query :: "string \<Rightarrow> string \<Rightarrow> string \<Rightarrow> string \<Rightarrow> int \<Rightarrow> skill_query" where
  "registry_query text_value tenant route mode now =
     \<lparr>sq_text = text_value, sq_tenant = tenant, sq_route = Some route, sq_mode = mode, sq_minimum = 3 / 4, sq_now = now\<rparr>"

text \<open>\<open>select_skill_from_registry\<close> over the candidates of the repository; its loader's errors mean no match.\<close>

definition matching_skill ::
  "'w run_env \<Rightarrow> string \<Rightarrow> string \<Rightarrow> string \<Rightarrow> string \<Rightarrow> (skill_match option, 'w) action" where
  "matching_skill env text_value tenant route mode w =
     (let (loaded, w) = on_registry env (\<lambda>k. candidates_for_match k tenant mode 100) w in
      (select_skill_from_registry (registry_query text_value tenant route mode (rv_clock (repo env) (rs_tick (xw_store w)))) loaded, w))"

definition match_fields :: "skill_match \<Rightarrow> pydict" where
  "match_fields m =
     [(''skill_id'', PStr (mx_skill_id m)), (''skill_version_id'', PStr (mx_version_id m)),
      (''skill_match_mode'', PStr (mx_mode m)), (''skill_match_score'', PFloat (mx_score m))]"

definition match_event :: "skill_match \<Rightarrow> pydict" where
  "match_event m =
     [(''skill_id'', PStr (mx_skill_id m)), (''skill_version_id'', PStr (mx_version_id m)),
      (''mode'', PStr (mx_mode m)), (''match_score'', PFloat (mx_score m))]"

definition store_match :: "'w run_env \<Rightarrow> string \<Rightarrow> string \<Rightarrow> skill_match \<Rightarrow> (string, 'w) action" where
  "store_match env tenant run_id m = on_registry env (\<lambda>k. record_match k
     \<lparr>sm_match_id = [], sm_tenant_id = tenant, sm_run_id = run_id, sm_skill_id = mx_skill_id m,
      sm_version_id = mx_version_id m, sm_score = mx_score m, sm_mode = mx_mode m, sm_outcome = None\<rparr>)"

text \<open>The text of the newest user message among the first hundred of the conversation.\<close>

definition request_text :: "message_record list \<Rightarrow> string" where
  "request_text records =
     (case find (\<lambda>m. mr_role m = ''user'') (rev records) of None \<Rightarrow> [] | Some m \<Rightarrow> mr_content m)"

definition read_records :: "run_context \<Rightarrow> (message_record list, 'w) action" where
  "read_records c = on_repository (\<lambda>s. (list_messages (target_of c) 0 100 (rs_db s), s))"

definition reused_strategy :: "run_settings \<Rightarrow> pydict \<Rightarrow> pydict option" where
  "reused_strategy s state =
     (case (dget state ''skill_id'', dget state ''skill_strategy'') of
        (Some (PStr i), Some (PDict d)) \<Rightarrow> if match_mode s \<noteq> ''shadow'' then Some d else None
      | _ \<Rightarrow> None)"

text \<open>A match changes the context before it is stored; an error after that only drops the strategy.\<close>

definition apply_match ::
  "'w run_env \<Rightarrow> run_request \<Rightarrow> run_context \<Rightarrow> skill_match \<Rightarrow> (run_context \<times> pydict option, 'w) action" where
  "apply_match env q c m =
     (let c = c\<lparr>rc_state := dict_update (rc_state c) (match_fields m)\<rparr>;
          strategy = (if match_mode (xe_settings env) \<noteq> ''shadow'' then Some (mx_strategy m) else None)
      in
      and_then (observe env q ET_SKILL_MATCHED ''agent'' (match_event m)) (\<lambda>_.
      catching
        (and_then (store_match env (rc_tenant_id c) (rc_run_id c) m) (\<lambda>_. give (c, strategy)))
        (\<lambda>_. give (c, None))))"

definition choose_skill ::
  "'w run_env \<Rightarrow> run_request \<Rightarrow> run_context \<Rightarrow> string \<Rightarrow> (run_context \<times> pydict option, 'w) action" where
  "choose_skill env q c route =
     (let s = xe_settings env in
      if \<not> st_experience_skills s then give (c, None)
      else catching
        (and_then (read_records c) (\<lambda>records.
           if not_none (dget (rc_state c) ''skill_id'') \<noteq> None then give (c, reused_strategy s (rc_state c))
           else and_then (matching_skill env (request_text records) (rc_tenant_id c) route (match_mode s)) (\<lambda>m.
             case m of None \<Rightarrow> give (c, reused_strategy s (rc_state c)) | Some m \<Rightarrow> apply_match env q c m)))
        (\<lambda>_. give (c, None)))"

section \<open>The run\<close>

definition mock_names :: "string list" where
  "mock_names =
     [''search_catalog'', ''get_product_detail'', ''compare_products'', ''list_my_orders'', ''get_order_status'',
      ''get_delivery_tracking'', ''get_payment_status'', ''get_refund_status'']"

definition shipped_policy :: policy_engine where
  "shipped_policy =
     \<lparr>pe_version = ''phase2-readonly-v1'', pe_allowed_facts = [''request.authenticated''],
      pe_rules = map (\<lambda>t. \<lparr>pr_rule_id = ''allow-authenticated-'' @ ts_name t, pr_applies_to = ts_name t, pr_priority = 100,
        pr_conditions = [\<lparr>fc_fact = ''request.authenticated'', fc_op = ''eq'', fc_value = PBool True\<rparr>],
        pr_effect = PE_ALLOW, pr_reason_code = ''AUTHENTICATED_READ''\<rparr>) all_tool_specs\<rparr>"

definition runtime_tool_registry :: tool_registry where
  "runtime_tool_registry = map (\<lambda>t. (spec_key t, t)) all_tool_specs"

definition readonly_agent :: "'w run_env \<Rightarrow> 'w agent_env" where
  "readonly_agent env =
     (xe_agent env)\<lparr>ae_registry := runtime_tool_registry, ae_policy_facts := Some [(''request.authenticated'', PBool True)],
        ae_tools := (ae_tools (xe_agent env))\<lparr>te_policy := Some shipped_policy,
          te_adapters := filter (\<lambda>(n, f). n \<in> set (mock_names @ [''retrieve_knowledge''])) (te_adapters (ae_tools (xe_agent env)))\<rparr>\<rparr>"

definition or_text :: "string option \<Rightarrow> string \<Rightarrow> string" where
  "or_text s d = (case s of None \<Rightarrow> d | Some t \<Rightarrow> if t = [] then d else t)"

definition tools_of_route :: "string \<Rightarrow> string list" where
  "tools_of_route route = dget_or route_tools route [''retrieve_knowledge'']"

definition readonly_boundary :: "string \<Rightarrow> string list \<Rightarrow> decision_boundary" where
  "readonly_boundary route evidence =
     \<lparr>db_route = route, db_allowed_types = decision_types, db_allowed_tools = tools_of_route route,
      db_trusted_evidence_ids = evidence, db_allowed_routes = route # tools_of_route route\<rparr>"

definition readonly_tool_context :: "string \<Rightarrow> string \<Rightarrow> run_context \<Rightarrow> tool_context" where
  "readonly_tool_context request_id route c =
     \<lparr>tc_request_id = request_id, tc_run_id = rc_run_id c, tc_conversation_id = rc_conversation_id c,
      tc_tenant_id = rc_tenant_id c, tc_actor_id = rc_actor_id c,
      tc_scopes = [''catalog:read'', ''knowledge:read'', ''order:read'', ''delivery:read'', ''payment:read'', ''refund:read''],
      tc_workflow_id = Some (or_text (rc_workflow_id c) route),
      tc_workflow_version = Some (or_text (rc_workflow_version c) ''1''), tc_current_step = Some ''retrieve'',
      tc_policy_version = Some (pe_version shipped_policy)\<rparr>"

text \<open>Microseconds: \<open>model_timeout_seconds * 4 + 10\<close> seconds from now.\<close>

definition readonly_deadline :: "run_settings \<Rightarrow> int \<Rightarrow> deadline" where
  "readonly_deadline s now = (now + round_even ((st_model_timeout s * 4 + 10) * 1000000), True)"

definition readonly_inputs :: "'w run_env \<Rightarrow> nat \<Rightarrow> run_context \<Rightarrow> string \<Rightarrow> string list \<Rightarrow> 'w run_inputs" where
  "readonly_inputs env n c route evidence =
     \<lparr>ri_boundary = readonly_boundary route evidence,
      ri_tool_context = (\<lambda>_. readonly_tool_context (rv_uuid (repo env) n) route c),
      ri_deadline = readonly_deadline (xe_settings env) (rv_clock (repo env) n),
      ri_cancelled = (\<lambda>v. (Inr False, v))\<rparr>"

definition readonly_pipeline :: "'w run_env \<Rightarrow> prompt_source \<Rightarrow> ('w, repository_state) pipeline_env" where
  "readonly_pipeline env z =
     \<lparr>pl_agent = readonly_agent env, pl_build = (\<lambda>c v. (build_prompt env z c, v)), pl_checkpoint = checkpoint_run (repo env)\<rparr>"

definition run_agent ::
  "'w run_env \<Rightarrow> run_context \<Rightarrow> string \<Rightarrow> pydict option \<Rightarrow> (agent_run_result, 'w) action" where
  "run_agent env c route strategy =
     and_then (give_result (evidence_texts (rc_state c))) (\<lambda>evidence.
     and_then (read_records c) (\<lambda>records.
     and_then (observing (\<lambda>w. (rs_tick (xw_store w), active_for_actor (rv_clock (repo env) (rs_tick (xw_store w)))
         (rc_tenant_id c) (rc_actor_id c) (xw_memory w)))) (\<lambda>(n, preferences).
     and_then (advance_supply 1) (\<lambda>_.
       on_pipeline (agent_run
         (readonly_pipeline env
           \<lparr>pz_records = records, pz_preferences = preferences, pz_workflow_id = or_text (rc_workflow_id c) route,
            pz_workflow_version = or_text (rc_workflow_version c) ''1'', pz_tools = tools_of_route route,
            pz_strategy = strategy\<rparr>)
         (readonly_inputs env n c route evidence) c (Some (st_model_max_tokens (xe_settings env) * 3)))))))"

definition execute_readonly_run ::
  "'w run_env \<Rightarrow> run_request \<Rightarrow> run_context \<Rightarrow> string \<Rightarrow> (agent_run_result, 'w) action" where
  "execute_readonly_run env q c route =
     and_then (give_result (xe_gateway env)) (\<lambda>_.
     and_then (choose_skill env q c route) (\<lambda>(c, strategy).
       run_agent env c route strategy))"

end
