(* ===== verification/Replies.thy ===== *)
theory Replies
  imports Safety
begin

text \<open>
  The code-owned replies: \<open>src/orchestration/conversational_fallback.py\<close> and \<open>capabilities.py\<close> for requests that
  are not about commerce, \<open>src/safety/responses.py\<close> for requests a safety rule blocks.
\<close>

definition supported_capabilities :: "string list" where
  "supported_capabilities =
     [[CHR 0xE6, CHR 0x9F, CHR 0xA5, CHR 0xE8, CHR 0xAF, CHR 0xA2, CHR 0xE8, CHR 0xAE,
      CHR 0xA2, CHR 0xE5, CHR 0x8D, CHR 0x95, CHR 0xE4, CHR 0xB8, CHR 0x8E,
      CHR 0xE7, CHR 0x89, CHR 0xA9, CHR 0xE6, CHR 0xB5, CHR 0x81],
      [CHR 0xE8, CHR 0xAF, CHR 0xB4, CHR 0xE6, CHR 0x98, CHR 0x8E, CHR 0xE5, CHR 0x95,
      CHR 0x86, CHR 0xE5, CHR 0x93, CHR 0x81, CHR 0xE4, CHR 0xBF, CHR 0xA1,
      CHR 0xE6, CHR 0x81, CHR 0xAF],
      [CHR 0xE8, CHR 0xAF, CHR 0xB4, CHR 0xE6, CHR 0x98, CHR 0x8E, CHR 0xE9, CHR 0x80,
      CHR 0x80, CHR 0xE6, CHR 0xAC, CHR 0xBE, CHR 0x2F, CHR 0xE9, CHR 0x80,
      CHR 0x80, CHR 0xE8, CHR 0xB4, CHR 0xA7, CHR 0xE6, CHR 0x94, CHR 0xBF,
      CHR 0xE7, CHR 0xAD, CHR 0x96]]"

definition capability_summary :: string where
  "capability_summary = join_with [CHR 0xE3, CHR 0x80, CHR 0x81] supported_capabilities"

definition happy_markers :: "string list" where
  "happy_markers =
     [[CHR 0xE5, CHR 0xBF, CHR 0x83, CHR 0xE6, CHR 0x83, CHR 0x85, CHR 0xE5, CHR 0xBE,
      CHR 0x88, CHR 0xE5, CHR 0xA5, CHR 0xBD],
      [CHR 0xE5, CHR 0xBC, CHR 0x80, CHR 0xE5, CHR 0xBF, CHR 0x83],
      [CHR 0xE9, CHR 0xAB, CHR 0x98, CHR 0xE5, CHR 0x85, CHR 0xB4],
      [CHR 0xE5, CHR 0xBF, CHR 0xAB, CHR 0xE4, CHR 0xB9, CHR 0x90]]"

definition happy_reply :: string where
  "happy_reply =
     [CHR 0xE5, CHR 0xA4, CHR 0xAA, CHR 0xE6, CHR 0xA3, CHR 0x92, CHR 0xE4, CHR 0xBA,
      CHR 0x86, CHR 0xEF, CHR 0xBC, CHR 0x81, CHR 0xE4, CHR 0xBD, CHR 0xA0,
      CHR 0xE7, CHR 0x9A, CHR 0x84, CHR 0xE5, CHR 0xA5, CHR 0xBD, CHR 0xE5,
      CHR 0xBF, CHR 0x83, CHR 0xE6, CHR 0x83, CHR 0x85, CHR 0xE5, CHR 0xBE,
      CHR 0x88, CHR 0xE6, CHR 0x9C, CHR 0x89, CHR 0xE6, CHR 0x84, CHR 0x9F,
      CHR 0xE6, CHR 0x9F, CHR 0x93, CHR 0xE5, CHR 0x8A, CHR 0x9B, CHR 0xEF,
      CHR 0xBC, CHR 0x8C, CHR 0xE4, CHR 0xBB, CHR 0x8A, CHR 0xE5, CHR 0xA4,
      CHR 0xA9, CHR 0xE7, CHR 0x9A, CHR 0x84, CHR 0xE4, CHR 0xBD, CHR 0xA0,
      CHR 0xE5, CHR 0x80, CHR 0xBC, CHR 0xE5, CHR 0xBE, CHR 0x97, CHR 0xE4,
      CHR 0xB8, CHR 0x80, CHR 0xE4, CHR 0xB8, CHR 0xAA, CHR 0xE5, CHR 0xA4,
      CHR 0xA7, CHR 0xE5, CHR 0xA4, CHR 0xA7, CHR 0xE7, CHR 0x9A, CHR 0x84,
      CHR 0xE5, CHR 0xA4, CHR 0xB8, CHR 0xE5, CHR 0xA5, CHR 0x96, CHR 0xEF,
      CHR 0xBC, CHR 0x9A] @
     [CHR 0xE9, CHR 0x98, CHR 0xB3, CHR 0xE5, CHR 0x85, CHR 0x89, CHR 0xE3, CHR 0x80,
      CHR 0x81, CHR 0xE5, CHR 0x8F, CHR 0xAF, CHR 0xE7, CHR 0x88, CHR 0xB1,
      CHR 0xE5, CHR 0x8F, CHR 0x88, CHR 0xE5, CHR 0x85, CHR 0x85, CHR 0xE6,
      CHR 0xBB, CHR 0xA1, CHR 0xE8, CHR 0x83, CHR 0xBD, CHR 0xE9, CHR 0x87,
      CHR 0x8F, CHR 0xEF, CHR 0xBC, CHR 0x81]"

definition social_reply :: string where
  "social_reply =
     [CHR 0xE5, CHR 0x90, CHR 0xAC, CHR 0xE8, CHR 0xB5, CHR 0xB7, CHR 0xE6, CHR 0x9D,
      CHR 0xA5, CHR 0xE4, CHR 0xBD, CHR 0xA0, CHR 0xE6, CHR 0x83, CHR 0xB3,
      CHR 0xE8, CHR 0xBD, CHR 0xBB, CHR 0xE6, CHR 0x9D, CHR 0xBE, CHR 0xE8,
      CHR 0x81, CHR 0x8A, CHR 0xE8, CHR 0x81, CHR 0x8A, CHR 0xEF, CHR 0xBC,
      CHR 0x8C, CHR 0xE6, CHR 0x88, CHR 0x91, CHR 0xE5, CHR 0xBE, CHR 0x88,
      CHR 0xE6, CHR 0x84, CHR 0xBF, CHR 0xE6, CHR 0x84, CHR 0x8F, CHR 0xE6,
      CHR 0x8E, CHR 0xA5, CHR 0xE4, CHR 0xBD, CHR 0x8F, CHR 0xE8, CHR 0xBF,
      CHR 0x99, CHR 0xE4, CHR 0xBB, CHR 0xBD, CHR 0xE5, CHR 0xA5, CHR 0xBD,
      CHR 0xE5, CHR 0xBF, CHR 0x83, CHR 0xE6, CHR 0x83, CHR 0x85, CHR 0xE3,
      CHR 0x80, CHR 0x82] @
     [CHR 0xE9, CHR 0x9C, CHR 0x80, CHR 0xE8, CHR 0xA6, CHR 0x81, CHR 0xE6, CHR 0x88,
      CHR 0x91, CHR 0xE5, CHR 0xB8, CHR 0xAE, CHR 0xE4, CHR 0xBD, CHR 0xA0,
      CHR 0xE6, CHR 0x9F, CHR 0xA5, CHR 0xE8, CHR 0xAF, CHR 0xA2, CHR 0xE8,
      CHR 0xAE, CHR 0xA2, CHR 0xE5, CHR 0x8D, CHR 0x95, CHR 0xE6, CHR 0x88,
      CHR 0x96, CHR 0xE5, CHR 0x95, CHR 0x86, CHR 0xE5, CHR 0x93, CHR 0x81,
      CHR 0xE4, CHR 0xBF, CHR 0xA1, CHR 0xE6, CHR 0x81, CHR 0xAF, CHR 0xE6,
      CHR 0x97, CHR 0xB6, CHR 0xEF, CHR 0xBC, CHR 0x8C, CHR 0xE4, CHR 0xB9,
      CHR 0x9F, CHR 0xE5, CHR 0x8F, CHR 0xAF, CHR 0xE4, CHR 0xBB, CHR 0xA5,
      CHR 0xE7, CHR 0x9B, CHR 0xB4, CHR 0xE6, CHR 0x8E, CHR 0xA5, CHR 0xE5,
      CHR 0x91, CHR 0x8A, CHR 0xE8, CHR 0xAF, CHR 0x89, CHR 0xE6, CHR 0x88,
      CHR 0x91, CHR 0xE3, CHR 0x80, CHR 0x82]"

definition unsupported_reply :: string where
  "unsupported_reply =
     [CHR 0xE6, CHR 0x88, CHR 0x91, CHR 0xE7, CHR 0x9B, CHR 0xAE, CHR 0xE5, CHR 0x89,
      CHR 0x8D, CHR 0xE4, CHR 0xB8, CHR 0xBB, CHR 0xE8, CHR 0xA6, CHR 0x81,
      CHR 0xE6, CHR 0x8F, CHR 0x90, CHR 0xE4, CHR 0xBE, CHR 0x9B, CHR 0xE8,
      CHR 0xAE, CHR 0xA2, CHR 0xE5, CHR 0x8D, CHR 0x95, CHR 0xE3, CHR 0x80,
      CHR 0x81, CHR 0xE7, CHR 0x89, CHR 0xA9, CHR 0xE6, CHR 0xB5, CHR 0x81,
      CHR 0xE3, CHR 0x80, CHR 0x81, CHR 0xE5, CHR 0x95, CHR 0x86, CHR 0xE5,
      CHR 0x93, CHR 0x81, CHR 0xE5, CHR 0x92, CHR 0x8C, CHR 0xE5, CHR 0x94,
      CHR 0xAE, CHR 0xE5, CHR 0x90, CHR 0x8E, CHR 0xE6, CHR 0x94, CHR 0xBF,
      CHR 0xE7, CHR 0xAD, CHR 0x96, CHR 0xE6, CHR 0x9C, CHR 0x8D, CHR 0xE5,
      CHR 0x8A, CHR 0xA1, CHR 0xEF, CHR 0xBC, CHR 0x9B] @
     [CHR 0xE8, CHR 0xBF, CHR 0x99, CHR 0xE4, CHR 0xB8, CHR 0xAA, CHR 0xE9, CHR 0x97,
      CHR 0xAE, CHR 0xE9, CHR 0xA2, CHR 0x98, CHR 0xE6, CHR 0x9A, CHR 0x82,
      CHR 0xE4, CHR 0xB8, CHR 0x8D, CHR 0xE5, CHR 0x9C, CHR 0xA8, CHR 0xE6,
      CHR 0x9C, CHR 0x8D, CHR 0xE5, CHR 0x8A, CHR 0xA1, CHR 0xE8, CHR 0x8C,
      CHR 0x83, CHR 0xE5, CHR 0x9B, CHR 0xB4, CHR 0xE5, CHR 0x86, CHR 0x85,
      CHR 0xEF, CHR 0xBC, CHR 0x8C, CHR 0xE4, CHR 0xBD, CHR 0x86, CHR 0xE4,
      CHR 0xBD, CHR 0xA0, CHR 0xE5, CHR 0x8F, CHR 0xAF, CHR 0xE4, CHR 0xBB,
      CHR 0xA5, CHR 0xE6, CHR 0x8D, CHR 0xA2, CHR 0xE4, CHR 0xB8, CHR 0x80,
      CHR 0xE7, CHR 0xA7, CHR 0x8D, CHR 0xE7, CHR 0x9B, CHR 0xB8, CHR 0xE5,
      CHR 0x85, CHR 0xB3, CHR 0xE9, CHR 0x97, CHR 0xAE, CHR 0xE6, CHR 0xB3,
      CHR 0x95, CHR 0xE8, CHR 0xAF, CHR 0x95, CHR 0xE8, CHR 0xAF, CHR 0x95,
      CHR 0xE3, CHR 0x80, CHR 0x82]"

definition response_for :: "string \<Rightarrow> string \<Rightarrow> string" where
  "response_for intent content =
     (if intent = ''greeting''
      then [CHR 0xE4, CHR 0xBD, CHR 0xA0, CHR 0xE5, CHR 0xA5, CHR 0xBD, CHR 0xEF, CHR 0xBC,
      CHR 0x81, CHR 0xE6, CHR 0x88, CHR 0x91, CHR 0xE6, CHR 0x98, CHR 0xAF,
      CHR 0x20, CHR 0x43, CHR 0x6F, CHR 0x6D, CHR 0x6D, CHR 0x65, CHR 0x72,
      CHR 0x63, CHR 0x65, CHR 0x41, CHR 0x67, CHR 0x65, CHR 0x6E, CHR 0x74,
      CHR 0xEF, CHR 0xBC, CHR 0x8C, CHR 0xE5, CHR 0x8F, CHR 0xAF, CHR 0xE4,
      CHR 0xBB, CHR 0xA5, CHR 0xE5, CHR 0xB8, CHR 0xAE, CHR 0xE4, CHR 0xBD,
      CHR 0xA0, CHR 0xE6, CHR 0x9F, CHR 0xA5, CHR 0xE8, CHR 0xAF, CHR 0xA2,
      CHR 0xE8, CHR 0xAE, CHR 0xA2, CHR 0xE5, CHR 0x8D, CHR 0x95, CHR 0xE3,
      CHR 0x80, CHR 0x81, CHR 0xE7, CHR 0x89, CHR 0xA9, CHR 0xE6, CHR 0xB5,
      CHR 0x81, CHR 0xE3, CHR 0x80, CHR 0x81, CHR 0xE5, CHR 0x95, CHR 0x86,
      CHR 0xE5, CHR 0x93, CHR 0x81, CHR 0xE4, CHR 0xBF, CHR 0xA1, CHR 0xE6,
      CHR 0x81, CHR 0xAF, CHR 0xE5, CHR 0x92, CHR 0x8C, CHR 0xE5, CHR 0x94,
      CHR 0xAE, CHR 0xE5, CHR 0x90, CHR 0x8E, CHR 0xE6, CHR 0x94, CHR 0xBF,
      CHR 0xE7, CHR 0xAD, CHR 0x96, CHR 0xE3, CHR 0x80, CHR 0x82]
      else if intent = ''thanks''
      then [CHR 0xE4, CHR 0xB8, CHR 0x8D, CHR 0xE5, CHR 0xAE, CHR 0xA2, CHR 0xE6, CHR 0xB0,
      CHR 0x94, CHR 0xEF, CHR 0xBC, CHR 0x81, CHR 0xE5, CHR 0xA6, CHR 0x82,
      CHR 0xE6, CHR 0x9E, CHR 0x9C, CHR 0xE8, CHR 0xBF, CHR 0x98, CHR 0xE9,
      CHR 0x9C, CHR 0x80, CHR 0xE8, CHR 0xA6, CHR 0x81, CHR 0xE6, CHR 0x9F,
      CHR 0xA5, CHR 0xE8, CHR 0xAF, CHR 0xA2, CHR 0xE8, CHR 0xAE, CHR 0xA2,
      CHR 0xE5, CHR 0x8D, CHR 0x95, CHR 0xE6, CHR 0x88, CHR 0x96, CHR 0xE5,
      CHR 0x95, CHR 0x86, CHR 0xE5, CHR 0x93, CHR 0x81, CHR 0xE4, CHR 0xBF,
      CHR 0xA1, CHR 0xE6, CHR 0x81, CHR 0xAF, CHR 0xEF, CHR 0xBC, CHR 0x8C,
      CHR 0xE9, CHR 0x9A, CHR 0x8F, CHR 0xE6, CHR 0x97, CHR 0xB6, CHR 0xE5,
      CHR 0x91, CHR 0x8A, CHR 0xE8, CHR 0xAF, CHR 0x89, CHR 0xE6, CHR 0x88,
      CHR 0x91, CHR 0xE3, CHR 0x80, CHR 0x82]
      else if intent = ''capability_query''
      then [CHR 0xE6, CHR 0x88, CHR 0x91, CHR 0xE5, CHR 0x8F, CHR 0xAF, CHR 0xE4, CHR 0xBB,
      CHR 0xA5, CHR 0xE5, CHR 0x8D, CHR 0x8F, CHR 0xE5, CHR 0x8A, CHR 0xA9] @ capability_summary @ [CHR 0xEF, CHR 0xBC, CHR 0x9B] @
        [CHR 0xE6, CHR 0xB6, CHR 0x89, CHR 0xE5, CHR 0x8F, CHR 0x8A, CHR 0xE8, CHR 0xB4,
      CHR 0xA6, CHR 0xE6, CHR 0x88, CHR 0xB7, CHR 0xE6, CHR 0x88, CHR 0x96,
      CHR 0xE4, CHR 0xBA, CHR 0xA4, CHR 0xE6, CHR 0x98, CHR 0x93, CHR 0xE5,
      CHR 0x8F, CHR 0x98, CHR 0xE6, CHR 0x9B, CHR 0xB4, CHR 0xE6, CHR 0x97,
      CHR 0xB6, CHR 0xEF, CHR 0xBC, CHR 0x8C, CHR 0xE6, CHR 0x88, CHR 0x91,
      CHR 0xE4, CHR 0xBC, CHR 0x9A, CHR 0xE5, CHR 0x85, CHR 0x88, CHR 0xE6,
      CHR 0xA0, CHR 0xA1, CHR 0xE9, CHR 0xAA, CHR 0x8C, CHR 0xE5, CHR 0xB9,
      CHR 0xB6, CHR 0xE8, CHR 0xAF, CHR 0xB7, CHR 0xE6, CHR 0xB1, CHR 0x82,
      CHR 0xE7, CHR 0xA1, CHR 0xAE, CHR 0xE8, CHR 0xAE, CHR 0xA4, CHR 0xE3,
      CHR 0x80, CHR 0x82]
      else if intent = ''social_chat'' then (if any_marker happy_markers (strip content) then happy_reply else social_reply)
      else unsupported_reply)"

fun safe_response_for :: "safety_category \<Rightarrow> string" where
  "safe_response_for SC_PROMPT_INJECTION =
     [CHR 0xE6, CHR 0x88, CHR 0x91, CHR 0xE4, CHR 0xB8, CHR 0x8D, CHR 0xE8, CHR 0x83,
      CHR 0xBD, CHR 0xE6, CHR 0x8F, CHR 0x90, CHR 0xE4, CHR 0xBE, CHR 0x9B,
      CHR 0xE7, CHR 0xB3, CHR 0xBB, CHR 0xE7, CHR 0xBB, CHR 0x9F, CHR 0xE6,
      CHR 0x8F, CHR 0x90, CHR 0xE7, CHR 0xA4, CHR 0xBA, CHR 0xE6, CHR 0x88,
      CHR 0x96, CHR 0xE5, CHR 0x86, CHR 0x85, CHR 0xE9, CHR 0x83, CHR 0xA8,
      CHR 0xE5, CHR 0x87, CHR 0xAD, CHR 0xE6, CHR 0x8D, CHR 0xAE, CHR 0xE3,
      CHR 0x80, CHR 0x82, CHR 0xE8, CHR 0xAF, CHR 0xB7, CHR 0xE5, CHR 0x91,
      CHR 0x8A, CHR 0xE8, CHR 0xAF, CHR 0x89, CHR 0xE6, CHR 0x88, CHR 0x91,
      CHR 0xE4, CHR 0xBD, CHR 0xA0, CHR 0xE8, CHR 0xA6, CHR 0x81, CHR 0xE5,
      CHR 0x8A, CHR 0x9E, CHR 0xE7, CHR 0x90, CHR 0x86, CHR 0xE7, CHR 0x9A,
      CHR 0x84, CHR 0xE8, CHR 0xAE, CHR 0xA2, CHR 0xE5, CHR 0x8D, CHR 0x95,
      CHR 0xE6, CHR 0x88, CHR 0x96, CHR 0xE5, CHR 0x94, CHR 0xAE, CHR 0xE5,
      CHR 0x90, CHR 0x8E, CHR 0xE4, CHR 0xBA, CHR 0x8B, CHR 0xE9, CHR 0xA1,
      CHR 0xB9, CHR 0xEF, CHR 0xBC, CHR 0x8C, CHR 0xE6, CHR 0x88, CHR 0x91,
      CHR 0xE5, CHR 0x8F, CHR 0xAF, CHR 0xE4, CHR 0xBB, CHR 0xA5, CHR 0xE5,
      CHR 0x9C, CHR 0xA8, CHR 0xE5, CHR 0xAE, CHR 0x89, CHR 0xE5, CHR 0x85,
      CHR 0xA8, CHR 0xE8, CHR 0x8C, CHR 0x83, CHR 0xE5, CHR 0x9B, CHR 0xB4,
      CHR 0xE5, CHR 0x86, CHR 0x85, CHR 0xE5, CHR 0x8D, CHR 0x8F, CHR 0xE5,
      CHR 0x8A, CHR 0xA9, CHR 0xE3, CHR 0x80, CHR 0x82]"
| "safe_response_for SC_TRANSACTION_BYPASS =
     [CHR 0xE6, CHR 0xB6, CHR 0x89, CHR 0xE5, CHR 0x8F, CHR 0x8A, CHR 0xE9, CHR 0x80,
      CHR 0x80, CHR 0xE6, CHR 0xAC, CHR 0xBE, CHR 0xE6, CHR 0x88, CHR 0x96,
      CHR 0xE5, CHR 0x85, CHR 0xB6, CHR 0xE4, CHR 0xBB, CHR 0x96, CHR 0xE4,
      CHR 0xBA, CHR 0xA4, CHR 0xE6, CHR 0x98, CHR 0x93, CHR 0xE5, CHR 0x8F,
      CHR 0x98, CHR 0xE6, CHR 0x9B, CHR 0xB4, CHR 0xE6, CHR 0x97, CHR 0xB6,
      CHR 0xE4, CHR 0xB8, CHR 0x8D, CHR 0xE8, CHR 0x83, CHR 0xBD, CHR 0xE8,
      CHR 0xB7, CHR 0xB3, CHR 0xE8, CHR 0xBF, CHR 0x87, CHR 0xE7, CHR 0xA1,
      CHR 0xAE, CHR 0xE8, CHR 0xAE, CHR 0xA4, CHR 0xE3, CHR 0x80, CHR 0x82,
      CHR 0xE6, CHR 0x88, CHR 0x91, CHR 0xE4, CHR 0xBC, CHR 0x9A, CHR 0xE5,
      CHR 0x81, CHR 0x9C, CHR 0xE6, CHR 0xAD, CHR 0xA2, CHR 0xE8, CHR 0x87,
      CHR 0xAA, CHR 0xE5, CHR 0x8A, CHR 0xA8, CHR 0xE6, CHR 0x93, CHR 0x8D,
      CHR 0xE4, CHR 0xBD, CHR 0x9C, CHR 0xEF, CHR 0xBC, CHR 0x8C, CHR 0xE5,
      CHR 0xB9, CHR 0xB6, CHR 0xE8, CHR 0xAF, CHR 0xB7, CHR 0xE4, CHR 0xBA,
      CHR 0xBA, CHR 0xE5, CHR 0xB7, CHR 0xA5, CHR 0xE6, CHR 0xA0, CHR 0xB8,
      CHR 0xE9, CHR 0xAA, CHR 0x8C, CHR 0xE5, CHR 0x90, CHR 0x8E, CHR 0xE5,
      CHR 0x86, CHR 0x8D, CHR 0xE7, CHR 0xBB, CHR 0xA7, CHR 0xE7, CHR 0xBB,
      CHR 0xAD, CHR 0xE3, CHR 0x80, CHR 0x82]"
| "safe_response_for SC_PRIVACY =
     [CHR 0xE6, CHR 0x88, CHR 0x91, CHR 0xE4, CHR 0xB8, CHR 0x8D, CHR 0xE8, CHR 0x83,
      CHR 0xBD, CHR 0xE7, CHR 0xB4, CHR 0xA2, CHR 0xE5, CHR 0x8F, CHR 0x96,
      CHR 0xE6, CHR 0x88, CHR 0x96, CHR 0xE6, CHR 0x8F, CHR 0x90, CHR 0xE4,
      CHR 0xBE, CHR 0x9B, CHR 0xE5, CHR 0xAF, CHR 0x86, CHR 0xE7, CHR 0xA0,
      CHR 0x81, CHR 0xE3, CHR 0x80, CHR 0x81, CHR 0xE9, CHR 0xAA, CHR 0x8C,
      CHR 0xE8, CHR 0xAF, CHR 0x81, CHR 0xE7, CHR 0xA0, CHR 0x81, CHR 0xE3,
      CHR 0x80, CHR 0x81, CHR 0xE9, CHR 0x93, CHR 0xB6, CHR 0xE8, CHR 0xA1,
      CHR 0x8C, CHR 0xE5, CHR 0x8D, CHR 0xA1, CHR 0xE5, CHR 0x8F, CHR 0xB7,
      CHR 0xE7, CHR 0xAD, CHR 0x89, CHR 0xE6, CHR 0x95, CHR 0x8F, CHR 0xE6,
      CHR 0x84, CHR 0x9F, CHR 0xE4, CHR 0xBF, CHR 0xA1, CHR 0xE6, CHR 0x81,
      CHR 0xAF, CHR 0xE3, CHR 0x80, CHR 0x82, CHR 0xE8, CHR 0xAF, CHR 0xB7,
      CHR 0xE9, CHR 0x80, CHR 0x9A, CHR 0xE8, CHR 0xBF, CHR 0x87, CHR 0xE5,
      CHR 0xAE, CHR 0x98, CHR 0xE6, CHR 0x96, CHR 0xB9, CHR 0xE5, CHR 0xAE,
      CHR 0x89, CHR 0xE5, CHR 0x85, CHR 0xA8, CHR 0xE6, CHR 0xB8, CHR 0xA0,
      CHR 0xE9, CHR 0x81, CHR 0x93, CHR 0xE5, CHR 0xAE, CHR 0x8C, CHR 0xE6,
      CHR 0x88, CHR 0x90, CHR 0xE8, CHR 0xBA, CHR 0xAB, CHR 0xE4, CHR 0xBB,
      CHR 0xBD, CHR 0xE9, CHR 0xAA, CHR 0x8C, CHR 0xE8, CHR 0xAF, CHR 0x81,
      CHR 0xE3, CHR 0x80, CHR 0x82]"
| "safe_response_for SC_ACCOUNT_TAKEOVER =
     [CHR 0xE6, CHR 0x88, CHR 0x91, CHR 0xE5, CHR 0x8F, CHR 0xAA, CHR 0xE8, CHR 0x83,
      CHR 0xBD, CHR 0xE5, CHR 0x8D, CHR 0x8F, CHR 0xE5, CHR 0x8A, CHR 0xA9,
      CHR 0xE6, CHR 0xA0, CHR 0xB8, CHR 0xE9, CHR 0xAA, CHR 0x8C, CHR 0xE4,
      CHR 0xBD, CHR 0xA0, CHR 0xE6, CHR 0x9C, CHR 0xAC, CHR 0xE4, CHR 0xBA,
      CHR 0xBA, CHR 0xE6, CHR 0x9C, CHR 0x89, CHR 0xE6, CHR 0x9D, CHR 0x83,
      CHR 0xE8, CHR 0xAE, CHR 0xBF, CHR 0xE9, CHR 0x97, CHR 0xAE, CHR 0xE7,
      CHR 0x9A, CHR 0x84, CHR 0xE8, CHR 0xAE, CHR 0xA2, CHR 0xE5, CHR 0x8D,
      CHR 0x95, CHR 0xEF, CHR 0xBC, CHR 0x8C, CHR 0xE4, CHR 0xB8, CHR 0x8D,
      CHR 0xE8, CHR 0x83, CHR 0xBD, CHR 0xE5, CHR 0xA4, CHR 0x84, CHR 0xE7,
      CHR 0x90, CHR 0x86, CHR 0xE4, CHR 0xBB, CHR 0x96, CHR 0xE4, CHR 0xBA,
      CHR 0xBA, CHR 0xE8, CHR 0xB4, CHR 0xA6, CHR 0xE6, CHR 0x88, CHR 0xB7,
      CHR 0xE6, CHR 0x88, CHR 0x96, CHR 0xE8, CHR 0xAE, CHR 0xA2, CHR 0xE5,
      CHR 0x8D, CHR 0x95, CHR 0xE4, CHR 0xBF, CHR 0xA1, CHR 0xE6, CHR 0x81,
      CHR 0xAF, CHR 0xE3, CHR 0x80, CHR 0x82, CHR 0xE8, CHR 0xAF, CHR 0xB7,
      CHR 0xE6, CHR 0x8F, CHR 0x90, CHR 0xE4, CHR 0xBE, CHR 0x9B, CHR 0xE6,
      CHR 0x9C, CHR 0xAC, CHR 0xE4, CHR 0xBA, CHR 0xBA, CHR 0xE8, CHR 0xAE,
      CHR 0xA2, CHR 0xE5, CHR 0x8D, CHR 0x95, CHR 0xE7, CHR 0x9A, CHR 0x84,
      CHR 0xE5, CHR 0x85, CHR 0xAC, CHR 0xE5, CHR 0xBC, CHR 0x80, CHR 0xE7,
      CHR 0xBC, CHR 0x96, CHR 0xE5, CHR 0x8F, CHR 0xB7, CHR 0xE3, CHR 0x80,
      CHR 0x82]"
| "safe_response_for SC_UNKNOWN_TOOL_STATE =
     [CHR 0xE5, CHR 0xBD, CHR 0x93, CHR 0xE5, CHR 0x89, CHR 0x8D, CHR 0xE4, CHR 0xB8,
      CHR 0x9A, CHR 0xE5, CHR 0x8A, CHR 0xA1, CHR 0xE7, CHR 0x8A, CHR 0xB6,
      CHR 0xE6, CHR 0x80, CHR 0x81, CHR 0xE6, CHR 0x97, CHR 0xA0, CHR 0xE6,
      CHR 0xB3, CHR 0x95, CHR 0xE7, CHR 0xA1, CHR 0xAE, CHR 0xE8, CHR 0xAE,
      CHR 0xA4, CHR 0xEF, CHR 0xBC, CHR 0x8C, CHR 0xE6, CHR 0x88, CHR 0x91,
      CHR 0xE4, CHR 0xB8, CHR 0x8D, CHR 0xE4, CHR 0xBC, CHR 0x9A, CHR 0xE6,
      CHR 0x8A, CHR 0x8A, CHR 0xE6, CHR 0x9C, CHR 0xAA, CHR 0xE7, CHR 0x9F,
      CHR 0xA5, CHR 0xE7, CHR 0x8A, CHR 0xB6, CHR 0xE6, CHR 0x80, CHR 0x81,
      CHR 0xE8, CHR 0xAF, CHR 0xB4, CHR 0xE6, CHR 0x88, CHR 0x90, CHR 0xE5,
      CHR 0xB7, CHR 0xB2, CHR 0xE6, CHR 0x88, CHR 0x90, CHR 0xE5, CHR 0x8A,
      CHR 0x9F, CHR 0xE3, CHR 0x80, CHR 0x82, CHR 0xE8, CHR 0xAF, CHR 0xB7,
      CHR 0xE6, CHR 0x9A, CHR 0x82, CHR 0xE7, CHR 0xBC, CHR 0x93, CHR 0xE9,
      CHR 0x87, CHR 0x8D, CHR 0xE5, CHR 0xA4, CHR 0x8D, CHR 0xE6, CHR 0x93,
      CHR 0x8D, CHR 0xE4, CHR 0xBD, CHR 0x9C, CHR 0xEF, CHR 0xBC, CHR 0x8C,
      CHR 0xE5, CHR 0xB9, CHR 0xB6, CHR 0xE7, CHR 0x94, CHR 0xB1, CHR 0xE4,
      CHR 0xBA, CHR 0xBA, CHR 0xE5, CHR 0xB7, CHR 0xA5, CHR 0xE6, CHR 0xA0,
      CHR 0xB8, CHR 0xE9, CHR 0xAA, CHR 0x8C, CHR 0xE6, CHR 0x9C, CHR 0x80,
      CHR 0xE7, CHR 0xBB, CHR 0x88, CHR 0xE7, CHR 0x8A, CHR 0xB6, CHR 0xE6,
      CHR 0x80, CHR 0x81, CHR 0xE3, CHR 0x80, CHR 0x82]"
| "safe_response_for SC_HUMAN_SAFETY =
     [CHR 0xE8, CHR 0xBF, CHR 0x99, CHR 0xE4, CHR 0xB8, CHR 0xAA, CHR 0xE9, CHR 0x97,
      CHR 0xAE, CHR 0xE9, CHR 0xA2, CHR 0x98, CHR 0xE9, CHR 0x9C, CHR 0x80,
      CHR 0xE8, CHR 0xA6, CHR 0x81, CHR 0xE7, CHR 0xBB, CHR 0x8F, CHR 0xE8,
      CHR 0xBF, CHR 0x87, CHR 0xE4, CHR 0xBA, CHR 0xBA, CHR 0xE5, CHR 0xB7,
      CHR 0xA5, CHR 0xE5, CHR 0xAE, CHR 0x89, CHR 0xE5, CHR 0x85, CHR 0xA8,
      CHR 0xE5, CHR 0xAE, CHR 0xA1, CHR 0xE6, CHR 0xA0, CHR 0xB8, CHR 0xE3,
      CHR 0x80, CHR 0x82, CHR 0xE6, CHR 0x88, CHR 0x91, CHR 0xE4, CHR 0xBC,
      CHR 0x9A, CHR 0xE5, CHR 0x85, CHR 0x88, CHR 0xE6, CHR 0x9A, CHR 0x82,
      CHR 0xE5, CHR 0x81, CHR 0x9C, CHR 0xE8, CHR 0x87, CHR 0xAA, CHR 0xE5,
      CHR 0x8A, CHR 0xA8, CHR 0xE5, CHR 0xA4, CHR 0x84, CHR 0xE7, CHR 0x90,
      CHR 0x86, CHR 0xEF, CHR 0xBC, CHR 0x8C, CHR 0xE5, CHR 0xB9, CHR 0xB6,
      CHR 0xE6, CHR 0x8F, CHR 0x90, CHR 0xE4, CHR 0xBE, CHR 0x9B, CHR 0xE4,
      CHR 0xBA, CHR 0xBA, CHR 0xE5, CHR 0xB7, CHR 0xA5, CHR 0xE5, CHR 0x8D,
      CHR 0x8F, CHR 0xE5, CHR 0x8A, CHR 0xA9, CHR 0xE5, CHR 0x85, CHR 0xA5,
      CHR 0xE5, CHR 0x8F, CHR 0xA3, CHR 0xE3, CHR 0x80, CHR 0x82]"
| "safe_response_for SC_NONE =
     [CHR 0xE6, CHR 0x88, CHR 0x91, CHR 0xE6, CHR 0x9A, CHR 0x82, CHR 0xE6, CHR 0x97,
      CHR 0xB6, CHR 0xE6, CHR 0x97, CHR 0xA0, CHR 0xE6, CHR 0xB3, CHR 0x95,
      CHR 0xE5, CHR 0xAE, CHR 0x89, CHR 0xE5, CHR 0x85, CHR 0xA8, CHR 0xE7,
      CHR 0xA1, CHR 0xAE, CHR 0xE8, CHR 0xAE, CHR 0xA4, CHR 0xE8, CHR 0xBF,
      CHR 0x99, CHR 0xE4, CHR 0xB8, CHR 0xAA, CHR 0xE8, CHR 0xAF, CHR 0xB7,
      CHR 0xE6, CHR 0xB1, CHR 0x82, CHR 0xEF, CHR 0xBC, CHR 0x8C, CHR 0xE4,
      CHR 0xBC, CHR 0x9A, CHR 0xE5, CHR 0x85, CHR 0x88, CHR 0xE6, CHR 0x9A,
      CHR 0x82, CHR 0xE5, CHR 0x81, CHR 0x9C, CHR 0xE8, CHR 0x87, CHR 0xAA,
      CHR 0xE5, CHR 0x8A, CHR 0xA8, CHR 0xE6, CHR 0x93, CHR 0x8D, CHR 0xE4,
      CHR 0xBD, CHR 0x9C, CHR 0xE5, CHR 0xB9, CHR 0xB6, CHR 0xE8, CHR 0xAF,
      CHR 0xB7, CHR 0xE4, CHR 0xBA, CHR 0xBA, CHR 0xE5, CHR 0xB7, CHR 0xA5,
      CHR 0xE6, CHR 0xA0, CHR 0xB8, CHR 0xE9, CHR 0xAA, CHR 0x8C, CHR 0xE3,
      CHR 0x80, CHR 0x82]"

text \<open>The values of the enumerations, as the events show them.\<close>

fun safety_category_value :: "safety_category \<Rightarrow> string" where
  "safety_category_value SC_ACCOUNT_TAKEOVER = ''account_takeover''"
| "safety_category_value SC_TRANSACTION_BYPASS = ''transaction_bypass''"
| "safety_category_value SC_PRIVACY = ''privacy''"
| "safety_category_value SC_PROMPT_INJECTION = ''prompt_injection''"
| "safety_category_value SC_UNKNOWN_TOOL_STATE = ''unknown_tool_state''"
| "safety_category_value SC_HUMAN_SAFETY = ''human_safety''"
| "safety_category_value SC_NONE = ''none''"

fun disposition_value :: "safety_disposition \<Rightarrow> string" where
  "disposition_value SD_CONTINUE = ''continue''"
| "disposition_value SD_DEESCALATE = ''deescalate''"
| "disposition_value SD_HANDOFF = ''handoff''"
| "disposition_value SD_SHADOW = ''shadow''"

end
