(* ===== verification/MessageRun.thy ===== *)
theory MessageRun
  imports ReadonlyRun Replies
begin

text \<open>
  \<open>src/orchestration/demo_run_executor.py\<close>: what happens to one accepted message, from the dispatch to the
  published response. The safety boundary decides first; then the message continues the run that waits for it or
  is classified and routed; the release and the skill registry observe; the route ends in a handoff, a question, a
  conversational reply, the read-only agent, a prepared mutation or a low-risk request. Every error ends in
  \<open>mark_failed\<close>, at the latest in the outer boundary \<open>execute_message_run\<close>.
\<close>

section \<open>Failing a run\<close>

definition failable :: "string \<Rightarrow> string \<Rightarrow> run_row \<Rightarrow> bool" where
  "failable run_id tenant r \<longleftrightarrow> owned_run run_id tenant r \<and> \<not> run_terminal (rr_status r)"

definition failed_row :: "int \<Rightarrow> string \<Rightarrow> run_row \<Rightarrow> run_row" where
  "failed_row now reason r =
     (touch_times now (\<lambda>t. t\<lparr>rt_terminal_at := coalesce_now now (rt_terminal_at t)\<rparr>) r)
       \<lparr>rr_status := RS_FAILED, rr_step := ''terminal'', rr_reason := Some reason, rr_version := rr_version r + 1\<rparr>"

definition fail_runs :: "int \<Rightarrow> string \<Rightarrow> string \<Rightarrow> string \<Rightarrow> runtime_db \<Rightarrow> nat result \<times> runtime_db" where
  "fail_runs now run_id tenant reason db =
     transaction db (update_runs (failable run_id tenant) (failed_row now reason) db)"

definition state_route :: "'w run_env \<Rightarrow> pydict \<Rightarrow> string" where
  "state_route env state =
     (case dget state ''route'' of
        Some v \<Rightarrow> if truthy v then text_of (we_repr (flow env)) v else ''terminal'' | None \<Rightarrow> ''terminal'')"

text \<open>\<open>_mark_failed\<close>; \<open>watched\<close> tells whether its \<open>observe\<close> reaches the event log.\<close>

definition mark_failed :: "'w run_env \<Rightarrow> run_request \<Rightarrow> bool \<Rightarrow> run_context \<Rightarrow> string \<Rightarrow> (unit, 'w) action" where
  "mark_failed env q watched c reason =
     and_then (on_runtime env (\<lambda>now i. fail_runs now (rc_run_id c) (rc_tenant_id c) reason)) (\<lambda>_.
     and_then (catching
       (publish env (c\<lparr>rc_status := RS_FAILED, rc_state := dset (rc_state c) ''last_step_reason'' (PStr reason)\<rparr>)
          None (Some reason) None)
       (\<lambda>_. best_effort (on_runtime env (\<lambda>now i. append_event (rv_codec (repo env)) now i (rc_run_id c) (rc_tenant_id c)
          ET_TERMINAL_RESPONSE_PUBLISH_FAILED ''terminal'' [(''reason_code'', PStr reason)])))) (\<lambda>_.
     and_then (provided watched (observe env q ET_FAILED ''terminal'' [(''reason'', PStr reason)])) (\<lambda>_.
       learn_failure env (rc_tenant_id c) (rc_run_id c) ''failed'' reason (Some (state_route env (rc_state c))))))"

section \<open>The release assignment\<close>

definition release_env_at :: "'w run_env \<Rightarrow> nat \<Rightarrow> release_env" where
  "release_env_at env n =
     \<lparr>en_now = rv_clock (repo env) n, en_check = rv_clock (repo env) n, en_start = rv_clock (repo env) n,
      en_release_id = rv_uuid (repo env) n, en_event_id = rv_uuid (repo env) n, en_row_id = rv_uuid (repo env) n,
      en_hash = (\<lambda>s. ''sha256:'' @ xe_sha env s), en_float = xe_float env\<rparr>"

text \<open>The two routes and the two skills that are compared.\<close>

record release_view_of_run =
  rw_current :: route_decision
  rw_candidate :: "route_decision option"
  rw_current_skill :: "string option"
  rw_candidate_skill :: "string option"

definition writes_route :: "route_decision \<Rightarrow> bool" where
  "writes_route d =
     (case rd_workflow_id d of None \<Rightarrow> False | Some w \<Rightarrow> w \<noteq> [] \<and> mutation_type_for_route w \<noteq> None)"

definition traffic_of :: "run_context \<Rightarrow> release_row \<Rightarrow> bool \<Rightarrow> request_risk_level \<Rightarrow> route_decision \<Rightarrow> traffic_request" where
  "traffic_of c rel available risk d =
     \<lparr>tq_tenant = rc_tenant_id c, tq_actor = rc_actor_id c, tq_run = rc_run_id c, tq_conversation = rc_conversation_id c,
      tq_current = rl_current rel, tq_candidate = rl_candidate rel, tq_stage = rl_stage rel, tq_status = rl_status rel,
      tq_risk_level = risk, tq_risk_hint = (if writes_route d then RH_WRITE else RH_READ_ONLY),
      tq_runtime_available = available, tq_skill_approved = None\<rparr>"

definition comparison_of :: "release_view_of_run \<Rightarrow> bool \<Rightarrow> traffic_assignment \<Rightarrow> pydict" where
  "comparison_of v available a = build_release_comparison
     \<lparr>rk_current_route = rd_workflow_id (rw_current v), rk_candidate_route = Option.bind (rw_candidate v) rd_workflow_id,
      rk_current_policy = Some (response_policy_value (rd_response_policy (rw_current v))),
      rk_candidate_policy = map_option (\<lambda>d. response_policy_value (rd_response_policy d)) (rw_candidate v),
      rk_current_skill = rw_current_skill v, rk_candidate_skill = rw_candidate_skill v, rk_cost_delta = None,
      rk_runtime_available = available, rk_execution_allowed = ta_allowed a\<rparr>"

definition risk_hint_value :: "risk_hint \<Rightarrow> string" where
  "risk_hint_value h = (case h of RH_READ_ONLY \<Rightarrow> ''read_only'' | RH_WRITE \<Rightarrow> ''write'' | RH_UNKNOWN \<Rightarrow> ''unknown'')"

definition assignment_request_of ::
  "run_context \<Rightarrow> release_row \<Rightarrow> traffic_request \<Rightarrow> traffic_assignment \<Rightarrow> pydict \<Rightarrow> assignment_request" where
  "assignment_request_of c rel t a comparison =
     \<lparr>aq_tenant_id = rc_tenant_id c, aq_release_id = rl_release_id rel, aq_run_id = rc_run_id c,
      aq_actor_id = rc_actor_id c, aq_conversation_id = rc_conversation_id c, aq_assignment = a,
      aq_risk_level = risk_level_value (tq_risk_level t), aq_risk_hint = risk_hint_value (tq_risk_hint t),
      aq_comparison = Some comparison\<rparr>"

definition compared_keys :: "string list" where
  "compared_keys =
     [''current_route'', ''candidate_route'', ''current_response_policy'', ''candidate_response_policy'', ''current_skill'',
      ''candidate_skill'', ''estimated_cost_delta_microusd'', ''candidate_execution_allowed'']"

definition assigned_event :: "release_row \<Rightarrow> traffic_assignment \<Rightarrow> pydict \<Rightarrow> pydict" where
  "assigned_event rel a comparison =
     [(''release_id'', PStr (rl_release_id rel)), (''mode'', PStr (ta_mode a)), (''selected_version'', PStr (ta_selected a)),
      (''traffic_percent'', PInt (ta_percent a)), (''bucket'', PInt (ta_bucket a)), (''reason'', PStr (ta_reason a))] @
     map (\<lambda>k. (k, dget_or comparison k PNone)) compared_keys"

text \<open>\<open>_record_release_assignment\<close>: any error of it means that there is no assignment.\<close>

definition record_release_assignment ::
  "'w run_env \<Rightarrow> run_request \<Rightarrow> run_context \<Rightarrow> release_view_of_run \<Rightarrow> bool \<Rightarrow> request_risk_level \<Rightarrow>
   (traffic_assignment option, 'w) action" where
  "record_release_assignment env q c v record_event risk =
     catching
       (and_then (observing (\<lambda>w. (latest_active (rc_tenant_id c) (xw_releases w), xw_releases w, rs_tick (xw_store w))))
         (\<lambda>(found, db, n). case found of
            None \<Rightarrow> give None
          | Some rel \<Rightarrow>
             (let available = runtime_available (rc_tenant_id c) (rl_candidate rel) db;
                  t = traffic_of c rel available risk (rw_current v);
                  a = assign_traffic (xe_digest env) t;
                  comparison = comparison_of v available a
              in
              and_then (on_releases (record_assignment (release_env_at env n) (assignment_request_of c rel t a comparison))) (\<lambda>_.
              and_then (advance_supply 1) (\<lambda>_.
              and_then (provided record_event
                  (observe env q ET_RELEASE_ASSIGNED ''release_assignment'' (assigned_event rel a comparison))) (\<lambda>_.
                give (Some a)))))))
       (\<lambda>_. give None)"

section \<open>The safety boundary\<close>

record safety_verdict =
  vd_route :: safety_route
  vd_risk :: risk_assessment

definition blocked :: "safety_verdict \<Rightarrow> bool" where
  "blocked v \<longleftrightarrow> sa_hard_block (sroute_assessment (vd_route v))"

definition escalated :: "safety_verdict \<Rightarrow> bool" where
  "escalated v \<longleftrightarrow> sroute_disposition (vd_route v) = SD_HANDOFF"

definition risk_of_route :: "safety_route \<Rightarrow> string \<Rightarrow> risk_assessment" where
  "risk_of_route r content =
     (let a = sroute_assessment r in
      if sa_hard_block a \<or> sroute_disposition r = SD_HANDOFF
      then \<lparr>ra_domain = RD_UNKNOWN, ra_risk_level = sa_risk_level a, ra_reason_code = sa_reason_code a,
            ra_hard_block = sa_hard_block a, ra_safety_category = sa_category a\<rparr>
      else assess_request content)"

text \<open>\<open>SafetyRouter\<close> is built without the semantic triage.\<close>

definition judge_message :: "'w run_env \<Rightarrow> string \<Rightarrow> safety_verdict result" where
  "judge_message env content =
     bind_res (safety_route_of (st_safety_v2 (xe_settings env)) None content) (\<lambda>r.
       Inr \<lparr>vd_route = r, vd_risk = risk_of_route r content\<rparr>)"

definition safety_event :: "safety_verdict \<Rightarrow> pydict" where
  "safety_event v =
     (let r = vd_route v; k = vd_risk v in
      [(''domain'', PStr (domain_value (ra_domain k))), (''risk_level'', PStr (risk_level_value (ra_risk_level k))),
       (''category'', PStr (safety_category_value (ra_safety_category k))),
       (''disposition'', PStr (disposition_value (sroute_disposition r))), (''shadow_only'', PBool (sroute_shadow_only r)),
       (''detector_version'', PStr (sa_detector_version (sroute_assessment r))), (''reason_code'', PStr (ra_reason_code k))])"

definition safety_audit :: "'w run_env \<Rightarrow> run_request \<Rightarrow> safety_verdict \<Rightarrow> (string, 'w) action" where
  "safety_audit env q v =
     (let a = sroute_assessment (vd_route v); category = safety_category_value (sa_category a) in
      on_runtime env (\<lambda>now i. append_audit now i (Some (qr_tenant_id q)) (Some ''safety-router'') ''safety_p0_detected''
        [(''run_id'', PStr (qr_run_id q)), (''category'', PStr category), (''reason_code'', PStr (sa_reason_code a)),
         (''detector_version'', PStr (sa_detector_version a)),
         (''disposition'', PStr (disposition_value (sroute_disposition (vd_route v))))]
        (we_hash_secret (flow env) (qr_run_id q @ '':'' @ category @ '':'' @ sa_reason_code a))))"

definition apply_safety :: "'w run_env \<Rightarrow> run_request \<Rightarrow> (safety_verdict, 'w) action" where
  "apply_safety env q =
     and_then (give_result (judge_message env (qr_content q))) (\<lambda>v.
     and_then (observe env q ET_SAFETY_ROUTED ''safety_router'' (safety_event v)) (\<lambda>_.
     and_then (provided (blocked v) (best_effort (safety_audit env q v))) (\<lambda>_. give v)))"

section \<open>Routing\<close>

record routing =
  ro_decision :: route_decision
  ro_shadow :: "route_decision option"
  ro_current :: "route_decision option"
  ro_assignment :: "traffic_assignment option"
  ro_recorded :: bool

definition plain_routing :: "route_decision \<Rightarrow> routing" where
  "plain_routing d = \<lparr>ro_decision = d, ro_shadow = None, ro_current = None, ro_assignment = None, ro_recorded = False\<rparr>"

definition safety_decision :: "safety_verdict \<Rightarrow> route_decision result" where
  "safety_decision v = make_route_decision
     ((bare_decision RO_HANDOFF (ra_reason_code (vd_risk v)))\<lparr>rd_response_policy := RP_HUMAN_HANDOFF,
        rd_request_domain := ra_domain (vd_risk v), rd_request_risk_level := ra_risk_level (vd_risk v)\<rparr>)"

text \<open>A run that waits for its customer continues with the executor it has.\<close>

definition continues :: "run_context \<Rightarrow> bool" where
  "continues c \<longleftrightarrow> rc_status c \<in> {RS_RUNNING_WORKFLOW, RS_RUNNING_READONLY} \<and>
     rc_workflow_id c \<noteq> None \<and> rc_workflow_id c \<noteq> Some []"

definition continued_intent :: "'w run_env \<Rightarrow> pydict \<Rightarrow> string" where
  "continued_intent env state =
     (case dget state ''intent'' of
        Some v \<Rightarrow> if truthy v then text_of (we_repr (flow env)) v else ''continuation'' | None \<Rightarrow> ''continuation'')"

definition continuation_decision :: "'w run_env \<Rightarrow> run_context \<Rightarrow> route_decision result" where
  "continuation_decision env c = make_route_decision
     ((bare_decision RO_EXECUTE ''CONTINUATION'')\<lparr>rd_execution_mode := rc_execution_mode c,
        rd_workflow_id := rc_workflow_id c, rd_workflow_version := rc_workflow_version c,
        rd_intent := Some (continued_intent env (rc_state c))\<rparr>)"

text \<open>What the classifier leaves unknown is taken from the risk assessment.\<close>

definition completed_candidate :: "risk_assessment \<Rightarrow> intent_classification \<Rightarrow> intent_classification" where
  "completed_candidate k x =
     x\<lparr>ic_domain := (if ic_domain x = RD_UNKNOWN \<and> ra_domain k \<noteq> RD_UNKNOWN then ra_domain k else ic_domain x),
       ic_request_risk_level := (if ic_request_risk_level x = RL_UNKNOWN \<and> ra_risk_level k \<noteq> RL_UNKNOWN
         then ra_risk_level k else ic_request_risk_level x)\<rparr>"

definition classified_event :: "intent_classification \<Rightarrow> calibrated_confidence \<Rightarrow> pydict" where
  "classified_event x k =
     [(''purpose'', PStr ''routing''), (''outcome'', PStr ''classified''), (''intent'', PStr (ic_intent x)),
      (''domain'', PStr (domain_value (ic_domain x))),
      (''request_risk_level'', PStr (risk_level_value (ic_request_risk_level x))),
      (''confidence'', PFloat (ic_confidence x)), (''domain_confidence'', PFloat (cal_domain k)),
      (''risk_confidence'', PFloat (cal_risk k)),
      (''confidence_calibration_version'', PStr ''risk-domain-conservative-v1''),
      (''alternative_count'', PInt (int (length (ic_alternatives x))))]"

definition outcome_text :: "route_outcome \<Rightarrow> string" where
  "outcome_text o' = (case o' of RO_EXECUTE \<Rightarrow> ''execute'' | RO_ASK_USER \<Rightarrow> ''ask_user'' | RO_HANDOFF \<Rightarrow> ''handoff'')"

definition route_diff :: "route_decision \<Rightarrow> route_decision \<Rightarrow> string list" where
  "route_diff d e =
     (if rd_outcome d \<noteq> rd_outcome e then [''outcome''] else []) @
     (if rd_workflow_id d \<noteq> rd_workflow_id e then [''workflow_id''] else []) @
     (if rd_intent d \<noteq> rd_intent e then [''intent''] else []) @
     (if rd_reason_code d \<noteq> rd_reason_code e then [''reason_code''] else []) @
     (if rd_response_policy d \<noteq> rd_response_policy e then [''response_policy''] else []) @
     (if rd_request_domain d \<noteq> rd_request_domain e then [''request_domain''] else []) @
     (if rd_request_risk_level d \<noteq> rd_request_risk_level e then [''request_risk_level''] else [])"

definition shadow_event :: "run_settings \<Rightarrow> route_decision \<Rightarrow> route_decision \<Rightarrow> pydict" where
  "shadow_event s d e =
     [(''current_router'', PStr (if st_routing_v2 s \<and> st_conversational s then ''v2'' else ''v1'')), (''shadow_router'', PStr ''v2''),
      (''current_outcome'', PStr (outcome_text (rd_outcome d))), (''current_reason_code'', PStr (rd_reason_code d)),
      (''current_intent'', opt_text (rd_intent d)),
      (''current_response_policy'', PStr (response_policy_value (rd_response_policy d))),
      (''shadow_outcome'', PStr (outcome_text (rd_outcome e))), (''shadow_reason_code'', PStr (rd_reason_code e)),
      (''shadow_intent'', opt_text (rd_intent e)),
      (''shadow_response_policy'', PStr (response_policy_value (rd_response_policy e))),
      (''different'', PBool (route_diff d e \<noteq> [])), (''diff_fields'', PList (map PStr (route_diff d e))),
      (''shadow_is_observation_only'', PBool True)]"

definition routing_prompt :: "intent_route_rule list \<Rightarrow> string \<Rightarrow> routing_prompt_view result" where
  "routing_prompt rules content =
     (let p = \<lparr>rpv_conversation = [\<lparr>msg_role = ROLE_USER, msg_content = content\<rparr>],
               rpv_allowed_intents = map ir_intent rules, rpv_known_slots = []\<rparr>
      in if valid_routing_prompt p then Inr p else Inl ValidationError)"

definition ask_classifier ::
  "'w run_env \<Rightarrow> run_request \<Rightarrow> run_context \<Rightarrow> intent_route_rule list \<Rightarrow> (intent_classification, 'w) action" where
  "ask_classifier env q c rules =
     and_then (give_result (routing_prompt rules (qr_content q))) (\<lambda>prompt.
     and_then (give_result (xe_gateway env)) (\<lambda>_.
       on_tools (on_world (classify (xe_classifier env) c prompt))))"

definition routed_by :: "intent_route_rule list \<Rightarrow> intent_classification \<Rightarrow> route_decision result" where
  "routed_by rules x = bind_res (make_router rules) (\<lambda>rs. decide rs x None)"

text \<open>A canary may execute the shadow route, when that route executes something.\<close>

definition canary_route :: "traffic_assignment option \<Rightarrow> route_decision \<Rightarrow> route_decision \<Rightarrow> route_decision" where
  "canary_route a d shadow =
     (case a of
        None \<Rightarrow> d
      | Some x \<Rightarrow> if ta_mode x = ''canary'' \<and> ta_allowed x \<and> rd_outcome shadow = RO_EXECUTE then shadow else d)"

definition select_run_route :: "'w run_env \<Rightarrow> run_context \<Rightarrow> route_decision \<Rightarrow> (unit, 'w) action" where
  "select_run_route env c d = on_runtime env (\<lambda>now i. select_route now (c\<lparr>rc_status := RS_ROUTING\<rparr>) d)"

definition routes_view :: "route_decision \<Rightarrow> route_decision option \<Rightarrow> release_view_of_run" where
  "routes_view d shadow = \<lparr>rw_current = d, rw_candidate = shadow, rw_current_skill = None, rw_candidate_skill = None\<rparr>"

definition settle_route ::
  "'w run_env \<Rightarrow> run_request \<Rightarrow> run_context \<Rightarrow> risk_assessment \<Rightarrow> route_decision \<Rightarrow> route_decision \<Rightarrow> (routing, 'w) action" where
  "settle_route env q c k d shadow =
     and_then (observe env q ET_ROUTING_SHADOW_COMPARED ''route_intent_risk'' (shadow_event (xe_settings env) d shadow)) (\<lambda>_.
     and_then (record_release_assignment env q c (routes_view d (Some shadow)) True (ra_risk_level k)) (\<lambda>a.
     and_then (select_run_route env c (canary_route a d shadow)) (\<lambda>_.
       give \<lparr>ro_decision = canary_route a d shadow, ro_shadow = Some shadow, ro_current = Some d, ro_assignment = a,
             ro_recorded = True\<rparr>)))"

definition route_by_classifier :: "'w run_env \<Rightarrow> run_request \<Rightarrow> run_context \<Rightarrow> risk_assessment \<Rightarrow> (routing, 'w) action" where
  "route_by_classifier env q c k =
     (let s = xe_settings env; rules = intent_route_rules (st_routing_v2 s) (st_conversational s) in
      and_then (observe env q ET_MODEL_REQUEST_STARTED ''route_intent_risk'' [(''purpose'', PStr ''routing'')]) (\<lambda>_.
      and_then (ask_classifier env q c rules) (\<lambda>x.
       (let x = completed_candidate k x in
        and_then (give_result (calibrate_classification x)) (\<lambda>confidence.
        and_then (observe env q ET_MODEL_REQUEST_SUCCEEDED ''route_intent_risk'' (classified_event x confidence)) (\<lambda>_.
        and_then (give_result (routed_by rules x)) (\<lambda>d.
        and_then (give_result (routed_by (intent_route_rules True True) x)) (\<lambda>shadow.
          settle_route env q c k d shadow))))))))"

definition route_message :: "'w run_env \<Rightarrow> run_request \<Rightarrow> run_context \<Rightarrow> safety_verdict \<Rightarrow> (routing, 'w) action" where
  "route_message env q c v =
     and_then
       (if escalated v then and_then (give_result (safety_decision v)) (\<lambda>d. give (plain_routing d))
        else if continues c then and_then (give_result (continuation_decision env c)) (\<lambda>d. give (plain_routing d))
        else route_by_classifier env q c (vd_risk v))
       (\<lambda>r. and_then
          (if ro_recorded r then give None
           else record_release_assignment env q c (routes_view (ro_decision r) (ro_shadow r)) True (ra_risk_level (vd_risk v)))
          (\<lambda>_. give r))"

section \<open>Handing off and asking\<close>

definition policy_entries :: "route_decision \<Rightarrow> response_policy \<Rightarrow> pydict" where
  "policy_entries d p =
     [(''response_policy'', PStr (response_policy_value p)), (''request_domain'', PStr (domain_value (rd_request_domain d))),
      (''request_risk_level'', PStr (risk_level_value (rd_request_risk_level d)))]"

definition needs_human_text :: string where
  "needs_human_text = [CHR 0xE8, CHR 0xAF, CHR 0xB7, CHR 0xE6, CHR 0xB1, CHR 0x82, CHR 0xE9, CHR 0x9C,
      CHR 0x80, CHR 0xE8, CHR 0xA6, CHR 0x81, CHR 0xE4, CHR 0xBA, CHR 0xBA,
      CHR 0xE5, CHR 0xB7, CHR 0xA5, CHR 0xE5, CHR 0xA4, CHR 0x84, CHR 0xE7,
      CHR 0x90, CHR 0x86]"

definition review_prompt :: string where
  "review_prompt = [CHR 0xE8, CHR 0xAF, CHR 0xA5, CHR 0xE8, CHR 0xAF, CHR 0xB7, CHR 0xE6, CHR 0xB1,
      CHR 0x82, CHR 0xE9, CHR 0x9C, CHR 0x80, CHR 0xE8, CHR 0xA6, CHR 0x81,
      CHR 0xE4, CHR 0xBA, CHR 0xBA, CHR 0xE5, CHR 0xB7, CHR 0xA5, CHR 0xE5,
      CHR 0xAE, CHR 0xA1, CHR 0xE6, CHR 0xA0, CHR 0xB8, CHR 0xEF, CHR 0xBC,
      CHR 0x8C, CHR 0xE8, CHR 0xAF, CHR 0xB7, CHR 0xE6, CHR 0x9F, CHR 0xA5,
      CHR 0xE7, CHR 0x9C, CHR 0x8B, CHR 0xE5, CHR 0x8F, CHR 0xB3, CHR 0xE4,
      CHR 0xBE, CHR 0xA7, CHR 0xE7, CHR 0x9A, CHR 0x84, CHR 0xE4, CHR 0xBA,
      CHR 0xBA, CHR 0xE5, CHR 0xB7, CHR 0xA5, CHR 0xE5, CHR 0xA4, CHR 0x84,
      CHR 0xE7, CHR 0x90, CHR 0x86, CHR 0xE7, CHR 0xAA, CHR 0x97, CHR 0xE5,
      CHR 0x8F, CHR 0xA3, CHR 0xE5, CHR 0xB9, CHR 0xB6, CHR 0xE9, CHR 0x80,
      CHR 0x89, CHR 0xE6, CHR 0x8B, CHR 0xA9, CHR 0xE5, CHR 0xAE, CHR 0xA1,
      CHR 0xE6, CHR 0xA0, CHR 0xB8, CHR 0xE7, CHR 0xBB, CHR 0x93, CHR 0xE6,
      CHR 0x9E, CHR 0x9C, CHR 0xE3, CHR 0x80, CHR 0x82]"

definition unavailable_prompt :: string where
  "unavailable_prompt = [CHR 0xE5, CHR 0xBD, CHR 0x93, CHR 0xE5, CHR 0x89, CHR 0x8D, CHR 0xE8, CHR 0xAF,
      CHR 0xB7, CHR 0xE6, CHR 0xB1, CHR 0x82, CHR 0xE9, CHR 0x9C, CHR 0x80,
      CHR 0xE8, CHR 0xA6, CHR 0x81, CHR 0xE4, CHR 0xBA, CHR 0xBA, CHR 0xE5,
      CHR 0xB7, CHR 0xA5, CHR 0xE5, CHR 0xAE, CHR 0xA1, CHR 0xE6, CHR 0xA0,
      CHR 0xB8, CHR 0xEF, CHR 0xBC, CHR 0x8C, CHR 0xE8, CHR 0xAF, CHR 0xB7,
      CHR 0xE6, CHR 0x9F, CHR 0xA5, CHR 0xE7, CHR 0x9C, CHR 0x8B, CHR 0xE5,
      CHR 0x8F, CHR 0xB3, CHR 0xE4, CHR 0xBE, CHR 0xA7, CHR 0xE7, CHR 0x9A,
      CHR 0x84, CHR 0xE4, CHR 0xBA, CHR 0xBA, CHR 0xE5, CHR 0xB7, CHR 0xA5,
      CHR 0xE5, CHR 0xA4, CHR 0x84, CHR 0xE7, CHR 0x90, CHR 0x86, CHR 0xE7,
      CHR 0xAA, CHR 0x97, CHR 0xE5, CHR 0x8F, CHR 0xA3, CHR 0xE5, CHR 0xB9,
      CHR 0xB6, CHR 0xE9, CHR 0x80, CHR 0x89, CHR 0xE6, CHR 0x8B, CHR 0xA9,
      CHR 0xE5, CHR 0xAE, CHR 0xA1, CHR 0xE6, CHR 0xA0, CHR 0xB8, CHR 0xE7,
      CHR 0xBB, CHR 0x93, CHR 0xE6, CHR 0x9E, CHR 0x9C, CHR 0xE3, CHR 0x80,
      CHR 0x82]"

definition clarify_prompt :: string where
  "clarify_prompt = [CHR 0xE6, CHR 0x88, CHR 0x91, CHR 0xE8, CHR 0xBF, CHR 0x98, CHR 0xE4, CHR 0xB8,
      CHR 0x8D, CHR 0xE7, CHR 0xA1, CHR 0xAE, CHR 0xE5, CHR 0xAE, CHR 0x9A,
      CHR 0xE4, CHR 0xBD, CHR 0xA0, CHR 0xE7, CHR 0x9A, CHR 0x84, CHR 0xE5,
      CHR 0x85, CHR 0xB7, CHR 0xE4, CHR 0xBD, CHR 0x93, CHR 0xE9, CHR 0x9C,
      CHR 0x80, CHR 0xE6, CHR 0xB1, CHR 0x82, CHR 0xEF, CHR 0xBC, CHR 0x8C,
      CHR 0xE5, CHR 0x8F, CHR 0xAF, CHR 0xE4, CHR 0xBB, CHR 0xA5, CHR 0xE8,
      CHR 0xA1, CHR 0xA5, CHR 0xE5, CHR 0x85, CHR 0x85, CHR 0xE4, CHR 0xB8,
      CHR 0x80, CHR 0xE4, CHR 0xB8, CHR 0x8B, CHR 0xE4, CHR 0xBD, CHR 0xA0,
      CHR 0xE6, CHR 0x83, CHR 0xB3, CHR 0xE6, CHR 0x9F, CHR 0xA5, CHR 0xE8,
      CHR 0xAF, CHR 0xA2, CHR 0xE6, CHR 0x88, CHR 0x96, CHR 0xE5, CHR 0x8A,
      CHR 0x9E, CHR 0xE7, CHR 0x90, CHR 0x86, CHR 0xE7, CHR 0x9A, CHR 0x84,
      CHR 0xE4, CHR 0xBA, CHR 0x8B, CHR 0xE9, CHR 0xA1, CHR 0xB9, CHR 0xE5,
      CHR 0x90, CHR 0x97, CHR 0xEF, CHR 0xBC, CHR 0x9F]"

definition ticket_details :: "string \<Rightarrow> pydict" where
  "ticket_details reason = [(''message'', PStr needs_human_text), (''route_reason'', PStr reason)]"

definition ticket_event :: "string \<Rightarrow> string \<Rightarrow> domain_event" where
  "ticket_event ticket reason =
     event ET_HANDOFF_CREATED [(''handoff_ticket_id'', PStr ticket), (''reason'', PStr reason)]"

definition handoff_prompt :: "safety_verdict \<Rightarrow> string" where
  "handoff_prompt v =
     (if ra_hard_block (vd_risk v) then safe_response_for (ra_safety_category (vd_risk v)) else review_prompt)"

definition hand_off_route ::
  "'w run_env \<Rightarrow> run_request \<Rightarrow> run_context \<Rightarrow> safety_verdict \<Rightarrow> route_decision \<Rightarrow> (unit, 'w) action" where
  "hand_off_route env q c v d =
     and_then (open_ticket env q (rd_reason_code d) (rd_workflow_id d) (ticket_details (rd_reason_code d))) (\<lambda>ticket.
      (let state = dict_update (dset (rc_state c) ''handoff_ticket_id'' (PStr ticket)) (policy_entries d (rd_response_policy d)) in
       and_then (checkpoint env c RS_WAITING_HUMAN ''terminal'' state [ticket_event ticket (rd_reason_code d)]) (\<lambda>_.
       and_then (learn_failure env (qr_tenant_id q) (qr_run_id q) ''waiting_human'' (rd_reason_code d) (rd_workflow_id d)) (\<lambda>_.
         publish env (c\<lparr>rc_status := RS_WAITING_HUMAN, rc_state := state\<rparr>) (Some (handoff_prompt v))
           (Some (rd_reason_code d)) (Some False)))))"

definition ask_customer :: "'w run_env \<Rightarrow> run_request \<Rightarrow> run_context \<Rightarrow> route_decision \<Rightarrow> (unit, 'w) action" where
  "ask_customer env q c d =
     (let state = dict_update (dset (rc_state c) ''route_reason'' (PStr (rd_reason_code d))) (policy_entries d RP_ASK_USER) in
      and_then (checkpoint env c RS_WAITING_USER ''clarify'' state
        [event ET_WAITING_FOR_USER [(''reason'', PStr (rd_reason_code d))]]) (\<lambda>_.
      and_then (provided (rd_reason_code d = ''LOW_CLASSIFICATION_CONFIDENCE'')
        (learn_failure env (qr_tenant_id q) (qr_run_id q) ''waiting_user'' (rd_reason_code d) (rd_workflow_id d))) (\<lambda>_.
        publish env (c\<lparr>rc_status := RS_WAITING_USER, rc_state := state\<rparr>) (Some clarify_prompt)
          (Some (rd_reason_code d)) (Some False))))"

text \<open>The handler of \<open>ModelGatewayError\<close>.\<close>

definition classifier_unavailable :: "'w run_env \<Rightarrow> run_request \<Rightarrow> run_context \<Rightarrow> (unit, 'w) action" where
  "classifier_unavailable env q c =
     and_then (give_result (make_route_decision (bare_decision RO_HANDOFF ''CLASSIFIER_UNAVAILABLE''))) (\<lambda>d.
     and_then (select_run_route env c d) (\<lambda>_.
     and_then (open_ticket env q (rd_reason_code d) None (ticket_details (rd_reason_code d))) (\<lambda>ticket.
      (let state = dset (rc_state c) ''handoff_ticket_id'' (PStr ticket) in
       and_then (learn_failure env (qr_tenant_id q) (qr_run_id q) ''waiting_human'' (rd_reason_code d) (rd_workflow_id d)) (\<lambda>_.
       and_then (checkpoint env c RS_WAITING_HUMAN ''terminal'' state [ticket_event ticket (rd_reason_code d)]) (\<lambda>_.
       and_then (publish env (c\<lparr>rc_status := RS_WAITING_HUMAN, rc_state := state\<rparr>) (Some unavailable_prompt)
         (Some (rd_reason_code d)) (Some False)) (\<lambda>_.
         observe env q ET_MODEL_REQUEST_FAILED ''route_intent_risk'' [(''error_code'', PStr ''CLASSIFIER_UNAVAILABLE'')])))))))"

section \<open>Executing a route\<close>

definition executing_state :: "run_context \<Rightarrow> route_decision \<Rightarrow> string \<Rightarrow> pydict" where
  "executing_state c d w = dict_update (rc_state c)
     ([(''intent'', PStr (or_text (rd_intent d) [])), (''route'', PStr w)] @ policy_entries d (rd_response_policy d))"

text \<open>The release comparison once a skill has matched.\<close>

definition compare_skill :: "'w run_env \<Rightarrow> run_request \<Rightarrow> run_context \<Rightarrow> safety_verdict \<Rightarrow> routing \<Rightarrow> skill_match \<Rightarrow>
    (traffic_assignment option, 'w) action" where
  "compare_skill env q c v r m =
     (case (ro_assignment r, ro_current r) of
        (Some a, Some d) \<Rightarrow> record_release_assignment env q c
          \<lparr>rw_current = d, rw_candidate = ro_shadow r,
           rw_current_skill = (if mx_mode m = ''active'' \<or> (mx_mode m = ''canary'' \<and> ta_mode a = ''current'')
             then Some (mx_skill_id m) else None),
           rw_candidate_skill = (if mx_mode m \<in> {''shadow'', ''canary''} then Some (mx_skill_id m) else None)\<rparr>
          False (ra_risk_level (vd_risk v))
      | _ \<Rightarrow> give None)"

definition matched_state :: "pydict \<Rightarrow> skill_match \<Rightarrow> pydict" where
  "matched_state state m = dict_update state (match_fields m @ [(''skill_strategy'', PDict (mx_strategy m))])"

text \<open>The state keeps the match also when storing it fails.\<close>

definition note_skill ::
  "'w run_env \<Rightarrow> run_request \<Rightarrow> run_context \<Rightarrow> safety_verdict \<Rightarrow> routing \<Rightarrow> string \<Rightarrow> pydict \<Rightarrow> (pydict, 'w) action" where
  "note_skill env q c v r w state =
     (let s = xe_settings env in
      and_then (observing (\<lambda>x. st_experience_skills s \<and> matching_enabled (qr_tenant_id q) (xw_skills x))) (\<lambda>enabled.
        if \<not> enabled then give state
        else catching
          (and_then (matching_skill env (qr_content q) (qr_tenant_id q) w (match_mode s)) (\<lambda>found. case found of
             None \<Rightarrow> give state
           | Some m \<Rightarrow>
               and_then (observe env q ET_SKILL_MATCHED ''skill_match'' (match_event m)) (\<lambda>_.
               and_then (best_effort (and_then (store_match env (qr_tenant_id q) (qr_run_id q) m) (\<lambda>_.
                 compare_skill env q c v r m))) (\<lambda>_.
                 give (matched_state state m)))))
          (\<lambda>_. give state)))"

definition executing_context :: "run_context \<Rightarrow> route_decision \<Rightarrow> pydict \<Rightarrow> run_context" where
  "executing_context c d state =
     c\<lparr>rc_status := (if rd_execution_mode d = Some EM_READONLY_LOOP then RS_RUNNING_READONLY else RS_RUNNING_WORKFLOW),
       rc_execution_mode := rd_execution_mode d, rc_workflow_id := rd_workflow_id d,
       rc_workflow_version := rd_workflow_version d, rc_state := state\<rparr>"

definition reply_to_customer ::
  "'w run_env \<Rightarrow> run_request \<Rightarrow> run_context \<Rightarrow> route_decision \<Rightarrow> string \<Rightarrow> (unit, 'w) action" where
  "reply_to_customer env q c d w =
     and_then (checkpoint env c RS_COMPLETED ''terminal'' (rc_state c)
       [event ET_STEP_COMPLETED [(''route'', PStr w), (''response_policy'', PStr (response_policy_value (rd_response_policy d)))]])
     (\<lambda>_. publish env (c\<lparr>rc_status := RS_COMPLETED\<rparr>)
        (Some (response_for (or_text (rd_intent d) ''unsupported_low_risk'') (qr_content q))) None (Some False))"

text \<open>The last response of the steps that is not empty.\<close>

definition last_response :: "loop_result list \<Rightarrow> string option" where
  "last_response steps =
     Option.bind (find (\<lambda>x. lr_response x \<noteq> None \<and> lr_response x \<noteq> Some []) (rev steps)) lr_response"

definition reason_of_run :: "pydict \<Rightarrow> string option" where
  "reason_of_run state = (case dget state ''last_step_reason'' of Some (PStr s) \<Rightarrow> Some s | _ \<Rightarrow> None)"

definition publish_readonly :: "'w run_env \<Rightarrow> run_request \<Rightarrow> agent_run_result \<Rightarrow> (unit, 'w) action" where
  "publish_readonly env q x =
     (let c = ar_context x; reason = reason_of_run (rc_state c) in
      provided (rc_status c \<noteq> RS_RUNNING_READONLY)
        (and_then (provided (reason \<noteq> None \<and> reason \<noteq> Some [])
           (and_then (on_runtime env (\<lambda>now i. set_terminal_reason now (qr_run_id q) (qr_tenant_id q) reason)) (\<lambda>_. give ())))
          (\<lambda>_. publish env c (last_response (ar_steps x)) reason None)))"

definition run_readonly :: "'w run_env \<Rightarrow> run_request \<Rightarrow> run_context \<Rightarrow> string \<Rightarrow> (unit, 'w) action" where
  "run_readonly env q c w =
     catching
       (and_then (execute_readonly_run env q c w) (publish_readonly env q))
       (\<lambda>_. and_then (observe env q ET_MODEL_REQUEST_FAILED ''readonly_loop''
              [(''purpose'', PStr ''agent''), (''error_code'', PStr ''UPSTREAM_UNAVAILABLE'')]) (\<lambda>_.
            mark_failed env q True c ''UPSTREAM_UNAVAILABLE''))"

section \<open>Mutations and low-risk requests\<close>

definition workflow_arguments :: "run_context \<Rightarrow> route_decision \<Rightarrow> string \<Rightarrow> string \<Rightarrow> pydict" where
  "workflow_arguments c d w content =
     (case mutation_type_for_route w of
        Some t \<Rightarrow>
          dict_update (case dget (rc_state c) ''mutation_args'' of Some (PDict a) \<Rightarrow> a | _ \<Rightarrow> []) (extract_arguments t content)
      | None \<Rightarrow> if w \<in> set low_risk_routes then extract_low_risk_arguments w content (rd_intent d) else [])"

definition preview_prompt :: "mutation_preview \<Rightarrow> string" where
  "preview_prompt p = [CHR 0xE5, CHR 0xB7, CHR 0xB2, CHR 0xE7, CHR 0x94, CHR 0x9F, CHR 0xE6, CHR 0x88,
      CHR 0x90, CHR 0xE6, CHR 0x93, CHR 0x8D, CHR 0xE4, CHR 0xBD, CHR 0x9C,
      CHR 0xE9, CHR 0xA2, CHR 0x84, CHR 0xE8, CHR 0xA7, CHR 0x88, CHR 0xEF,
      CHR 0xBC, CHR 0x9A] @ mp_summary p @ [CHR 0xE3, CHR 0x80, CHR 0x82, CHR 0xE8, CHR 0xAF, CHR 0xB7, CHR 0xE5, CHR 0x9C,
      CHR 0xA8, CHR 0xE7, CHR 0xA1, CHR 0xAE, CHR 0xE8, CHR 0xAE, CHR 0xA4,
      CHR 0xE5, CHR 0x8D, CHR 0xA1, CHR 0xE7, CHR 0x89, CHR 0x87, CHR 0xE4,
      CHR 0xB8, CHR 0xAD, CHR 0xE9, CHR 0x80, CHR 0x89, CHR 0xE6, CHR 0x8B,
      CHR 0xA9, CHR 0xE6, CHR 0x98, CHR 0xAF, CHR 0xE5, CHR 0x90, CHR 0xA6,
      CHR 0xE7, CHR 0xBB, CHR 0xA7, CHR 0xE7, CHR 0xBB, CHR 0xAD, CHR 0xE3,
      CHR 0x80, CHR 0x82]"

definition prepare_for_customer :: "'w run_env \<Rightarrow> run_request \<Rightarrow> run_context \<Rightarrow> string \<Rightarrow> pydict \<Rightarrow> (unit, 'w) action" where
  "prepare_for_customer env q c t args =
     and_then (on_repository (prepare_mutation (flow env) c t args)) (\<lambda>(prepared, preview, token).
     and_then (observe env q ET_TOOL_REQUEST_SUCCEEDED ''prepare_confirmation'' [(''tool'', PStr t), (''status'', PStr ''prepared'')])
       (\<lambda>_. publish env prepared (Some (preview_prompt preview)) None (Some False)))"

definition low_risk_reply :: "run_context \<Rightarrow> string" where
  "low_risk_reply c =
     (if rc_status c = RS_COMPLETED then [CHR 0xE5, CHR 0xB7, CHR 0xB2, CHR 0xE6, CHR 0x8F, CHR 0x90, CHR 0xE4, CHR 0xBA,
      CHR 0xA4, CHR 0xE8, CHR 0xAF, CHR 0xB7, CHR 0xE6, CHR 0xB1, CHR 0x82,
      CHR 0xEF, CHR 0xBC, CHR 0x8C, CHR 0xE7, CHR 0xB3, CHR 0xBB, CHR 0xE7,
      CHR 0xBB, CHR 0x9F, CHR 0xE5, CHR 0xB7, CHR 0xB2, CHR 0xE8, CHR 0xAE,
      CHR 0xB0, CHR 0xE5, CHR 0xBD, CHR 0x95, CHR 0xE3, CHR 0x80, CHR 0x82]
      else [CHR 0xE8, CHR 0xAF, CHR 0xB7, CHR 0xE6, CHR 0xB1, CHR 0x82, CHR 0xE7, CHR 0x8A,
      CHR 0xB6, CHR 0xE6, CHR 0x80, CHR 0x81, CHR 0xE6, CHR 0x9A, CHR 0x82,
      CHR 0xE6, CHR 0x97, CHR 0xB6, CHR 0xE6, CHR 0x97, CHR 0xA0, CHR 0xE6,
      CHR 0xB3, CHR 0x95, CHR 0xE7, CHR 0xA1, CHR 0xAE, CHR 0xE8, CHR 0xAE,
      CHR 0xA4, CHR 0xEF, CHR 0xBC, CHR 0x8C, CHR 0xE5, CHR 0xB7, CHR 0xB2,
      CHR 0xE8, CHR 0xBD, CHR 0xAC, CHR 0xE4, CHR 0xBA, CHR 0xBA, CHR 0xE5,
      CHR 0xB7, CHR 0xA5, CHR 0xE5, CHR 0xA4, CHR 0x84, CHR 0xE7, CHR 0x90,
      CHR 0x86, CHR 0xE3, CHR 0x80, CHR 0x82])"

definition submit_low_risk :: "'w run_env \<Rightarrow> run_request \<Rightarrow> run_context \<Rightarrow> string \<Rightarrow> pydict \<Rightarrow> (unit, 'w) action" where
  "submit_low_risk env q c w args =
     and_then (on_boundary (execute_low_risk (xe_low_risk env) (xe_commit env) c w args)) (\<lambda>x.
       publish env (lw_context x) (Some (low_risk_reply (lw_context x))) None (Some False))"

definition try_workflow :: "'w run_env \<Rightarrow> run_request \<Rightarrow> run_context \<Rightarrow> string \<Rightarrow> pydict \<Rightarrow> (unit, 'w) action" where
  "try_workflow env q c w args =
     (case mutation_type_for_route w of
        Some t \<Rightarrow> prepare_for_customer env q c t args
      | None \<Rightarrow>
          if w \<in> set low_risk_routes then submit_low_risk env q c w args
          else give_result (Inl (MutationWorkflowError ''UNKNOWN_MUTATION'' [])))"

definition given_detail :: "'w run_env \<Rightarrow> pydict \<Rightarrow> string \<Rightarrow> pydict" where
  "given_detail env args k =
     (case dget args k of
        Some v \<Rightarrow> if truthy v then [(k, PStr (text_of (we_repr (flow env)) v))] else [] | None \<Rightarrow> [])"

text \<open>
  The handler of \<open>MutationWorkflowError\<close> and \<open>LowRiskWorkflowError\<close>. It opens a ticket for every error but
  missing slots and records the failure; then the events of its checkpoint read the local \<open>handoff_id\<close>, which only
  the other branches assign, so Python raises \<open>UnboundLocalError\<close> before the checkpoint. What the code has after
  that expression, the checkpoint and the two prompts, is never reached.
\<close>

definition workflow_failed ::
  "'w run_env \<Rightarrow> run_request \<Rightarrow> run_context \<Rightarrow> string \<Rightarrow> pydict \<Rightarrow> py_exn \<Rightarrow> string \<Rightarrow> (unit, 'w) action" where
  "workflow_failed env q c w args e code =
     and_then
       (provided (code \<noteq> ''MISSING_SLOTS'')
         (and_then (open_ticket env q code (mutation_type_for_route w)
            (dict_update [(''mutation_error'', PStr code), (''message'', PStr (xe_error_text env e))]
              (given_detail env args ''order_id'' @ given_detail env args ''item_id''))) (\<lambda>ticket.
          learn_failure env (qr_tenant_id q) (qr_run_id q) ''waiting_human'' code (rc_workflow_id c))))
       (\<lambda>_. give_result (Inl (OtherError ''UnboundLocalError'')))"

definition run_workflow ::
  "'w run_env \<Rightarrow> run_request \<Rightarrow> run_context \<Rightarrow> route_decision \<Rightarrow> string \<Rightarrow> (unit, 'w) action" where
  "run_workflow env q c d w =
     (let args = workflow_arguments c d w (qr_content q) in
      catching (try_workflow env q c w args)
        (\<lambda>e. case e of
           MutationWorkflowError code missing \<Rightarrow> workflow_failed env q c w args e code
         | LowRiskWorkflowError code missing \<Rightarrow> workflow_failed env q c w args e code
         | _ \<Rightarrow> give_result (Inl e)))"

section \<open>The message\<close>

definition execute_route ::
  "'w run_env \<Rightarrow> run_request \<Rightarrow> run_context \<Rightarrow> safety_verdict \<Rightarrow> routing \<Rightarrow> (unit, 'w) action" where
  "execute_route env q c v r =
     (let d = ro_decision r in
      case (rd_execution_mode d, rd_workflow_id d) of
        (Some mode, Some w) \<Rightarrow>
          and_then (note_skill env q c v r w (executing_state c d w)) (\<lambda>state.
           (let c = executing_context c d state in
            if rd_response_policy d \<in> {RP_CONVERSATIONAL_RESPONSE, RP_GRACEFUL_UNSUPPORTED} then reply_to_customer env q c d w
            else if mode = EM_READONLY_LOOP then run_readonly env q c w
            else run_workflow env q c d w))
      | _ \<Rightarrow> give_result (Inl (OtherError ''AssertionError'')))"

definition follow_route ::
  "'w run_env \<Rightarrow> run_request \<Rightarrow> run_context \<Rightarrow> safety_verdict \<Rightarrow> routing \<Rightarrow> (unit, 'w) action" where
  "follow_route env q c v r =
     (case rd_outcome (ro_decision r) of
        RO_HANDOFF \<Rightarrow> hand_off_route env q c v (ro_decision r)
      | RO_ASK_USER \<Rightarrow> ask_customer env q c (ro_decision r)
      | RO_EXECUTE \<Rightarrow> execute_route env q c v r)"

definition accept_message :: "'w run_env \<Rightarrow> run_request \<Rightarrow> run_context \<Rightarrow> (safety_verdict, 'w) action" where
  "accept_message env q c =
     and_then (provided (rc_status c = RS_CREATED)
       (observe env q ET_RUN_CREATED ''accept'' [(''message_id'', PStr ''[REDACTED]'')])) (\<lambda>_. apply_safety env q)"

definition process_message :: "'w run_env \<Rightarrow> run_request \<Rightarrow> run_context \<Rightarrow> (unit, 'w) action" where
  "process_message env q c =
     and_then (accept_message env q c) (\<lambda>v. and_then (route_message env q c v) (\<lambda>r. follow_route env q c v r))"

definition new_context :: "run_request \<Rightarrow> run_context" where
  "new_context q =
     \<lparr>rc_run_id = qr_run_id q, rc_conversation_id = qr_conversation_id q, rc_tenant_id = qr_tenant_id q,
      rc_actor_id = qr_actor_id q, rc_execution_mode = None, rc_workflow_id = None, rc_workflow_version = None,
      rc_status = RS_CREATED, rc_state = [], rc_step_count = 0, rc_checkpoint_version = 0\<rparr>"

definition make_context :: "run_request \<Rightarrow> run_context result" where
  "make_context q = (if valid_run_context (new_context q) then Inr (new_context q) else Inl ValidationError)"

text \<open>The context the run is resumed with; a run that waited for its customer is running again.\<close>

definition resumed_context :: "run_request \<Rightarrow> run_context option \<Rightarrow> run_context result" where
  "resumed_context q found =
     (case found of
        None \<Rightarrow> make_context q
      | Some c \<Rightarrow> Inr (if rc_status c = RS_WAITING_USER then c\<lparr>rc_status := RS_RUNNING_WORKFLOW\<rparr> else c))"

definition load_run_context :: "run_request \<Rightarrow> (run_context, 'w) action" where
  "load_run_context q =
     and_then (on_repository (\<lambda>s. (resume_run (qr_run_id q) (qr_tenant_id q) s, s))) (\<lambda>found.
       give_result (resumed_context q found))"

definition note_dispatch :: "'w run_env \<Rightarrow> run_request \<Rightarrow> (unit, 'w) action" where
  "note_dispatch env q =
     best_effort (on_runtime env (\<lambda>now i. mark_dispatch_started now (qr_run_id q) (qr_tenant_id q)))"

definition run_accepted_message :: "'w run_env \<Rightarrow> run_request \<Rightarrow> (unit, 'w) action" where
  "run_accepted_message env q =
     and_then (note_dispatch env q) (\<lambda>_.
     and_then (load_run_context q) (\<lambda>c.
       catching (process_message env q c)
         (\<lambda>e. case e of
            ModelGatewayError msg \<Rightarrow> classifier_unavailable env q c
          | _ \<Rightarrow> mark_failed env q True c ''UNEXPECTED_EXECUTION_ERROR'')))"

definition recovery_context :: "run_request \<Rightarrow> run_context option \<Rightarrow> run_context result" where
  "recovery_context q found =
     bind_res (make_context q) (\<lambda>fresh.
       Inr (case found of None \<Rightarrow> fresh | Some c \<Rightarrow> if valid_run_context c then c else fresh))"

definition execute_message_run :: "'w run_env \<Rightarrow> run_request \<Rightarrow> (unit, 'w) action" where
  "execute_message_run env q =
     catching (run_accepted_message env q)
       (\<lambda>_. and_then (observing (\<lambda>w. load_latest_checkpoint (qr_run_id q) (qr_tenant_id q) (rs_db (xw_store w)))) (\<lambda>found.
          and_then (give_result (recovery_context q found)) (\<lambda>c.
            best_effort (mark_failed env q False c ''UNEXPECTED_EXECUTION_ERROR''))))"

end
