(* ===== verification/Gateway.thy ===== *)
theory Gateway
  imports MessageRun
begin

text \<open>
  \<open>models/gateway.py\<close>: the client of an OpenAI-compatible provider, which asks for decisions and for intent
  classifications, retries a failed request and repairs an invalid answer once, and reads what an untrusted provider
  returns. The HTTP client, the clock, \<open>json\<close> and the validation of the two pydantic contracts are functions of the
  client; the requests sent are kept in the state.
\<close>

section \<open>The client\<close>

text \<open>What \<open>httpx.Client.post\<close> does: a status with the JSON of its body, a timeout or transport error, or another \<open>HTTPError\<close>.\<close>

datatype http_outcome =
    Responded int "pyval result"
  | TransportFailed
  | OtherHttpError

record model_settings =
  ms_model :: "string option"
  ms_api_base :: "string option"
  ms_api_key :: "string option"
  ms_max_tokens :: int
  ms_retry_attempts :: nat
  ms_classifier_model :: "string option"
  ms_classifier_api_base :: "string option"
  ms_classifier_api_key :: "string option"
  ms_classifier_temperature :: "rat option"
  ms_classifier_max_tokens :: int

record 'w model_client =
  mc_post :: "string \<Rightarrow> string \<Rightarrow> pydict \<Rightarrow> 'w \<Rightarrow> http_outcome \<times> 'w"
  mc_clock :: "'w \<Rightarrow> rat \<times> 'w"
  mc_loads :: "string \<Rightarrow> pyval result"
  mc_list_json :: "string list \<Rightarrow> string"
  mc_prompt_json :: "prompt_view \<Rightarrow> string"
  mc_routing_json :: "routing_prompt_view \<Rightarrow> string"
  mc_decision :: "string \<Rightarrow> decision result"
  mc_classification :: "pydict \<Rightarrow> intent_classification result"

record model_gateway =
  mg_model :: string
  mg_base_url :: string
  mg_api_key :: string
  mg_max_tokens :: int
  mg_retry_attempts :: nat
  mg_classifier_model :: string
  mg_classifier_base_url :: string
  mg_classifier_api_key :: string
  mg_classifier_temperature :: rat
  mg_classifier_max_tokens :: int

record 'w gateway_state =
  gs_world :: 'w
  gs_posts :: "(string \<times> string \<times> pydict) list"

definition http_error :: py_exn where
  "http_error = OtherError ''HTTPError''"

text \<open>\<open>compare_digest\<close> takes ASCII strings only.\<close>

definition compare_digest :: "string \<Rightarrow> string \<Rightarrow> bool result" where
  "compare_digest a b = (if list_ex (\<lambda>c. 128 \<le> (of_char c :: nat)) (a @ b) then Inl TypeError else Inr (a = b))"

definition present :: "string option \<Rightarrow> bool" where
  "present s \<longleftrightarrow> s \<noteq> None \<and> s \<noteq> Some []"

definition classifier_configuration_is_valid :: "model_settings \<Rightarrow> bool result" where
  "classifier_configuration_is_valid s =
     (if \<not> (present (ms_model s) \<and> present (ms_api_base s) \<and> ms_api_key s \<noteq> None \<and> present (ms_classifier_model s) \<and>
          present (ms_classifier_api_base s) \<and> ms_classifier_api_key s \<noteq> None \<and> ms_classifier_temperature s \<noteq> None)
      then Inr False
      else bind_res (compare_digest (the (ms_model s)) (the (ms_classifier_model s))) (\<lambda>model.
        if \<not> model then Inr False
        else bind_res (compare_digest (the (ms_api_base s)) (the (ms_classifier_api_base s))) (\<lambda>base.
          if \<not> base then Inr False
          else bind_res (compare_digest (the (ms_api_key s)) (the (ms_classifier_api_key s))) (\<lambda>key.
            Inr (key \<and> ms_classifier_temperature s = Some (1 / 10))))))"

definition without_slashes :: "string \<Rightarrow> string" where
  "without_slashes s = rev (dropWhile (\<lambda>c. c = CHR ''/'') (rev s))"

text \<open>\<open>__init__\<close>; the length of a secret is its truth value.\<close>

definition make_gateway :: "model_settings \<Rightarrow> model_gateway result" where
  "make_gateway s =
     (if \<not> (present (ms_model s) \<and> present (ms_api_base s) \<and> present (ms_api_key s))
      then Inl (ModelGatewayError ''model configuration is unavailable'')
      else bind_res (classifier_configuration_is_valid s) (\<lambda>valid.
        if \<not> valid then Inl (ModelGatewayError ''classifier configuration is unavailable'')
        else Inr
          \<lparr>mg_model = the (ms_model s), mg_base_url = without_slashes (the (ms_api_base s)), mg_api_key = the (ms_api_key s),
           mg_max_tokens = ms_max_tokens s, mg_retry_attempts = ms_retry_attempts s,
           mg_classifier_model = the (ms_classifier_model s),
           mg_classifier_base_url = without_slashes (the (ms_classifier_api_base s)),
           mg_classifier_api_key = the (ms_classifier_api_key s), mg_classifier_temperature = the (ms_classifier_temperature s),
           mg_classifier_max_tokens = ms_classifier_max_tokens s\<rparr>))"

section \<open>Requests\<close>

definition send_post :: "'w model_client \<Rightarrow> string \<Rightarrow> string \<Rightarrow> pydict \<Rightarrow> 'w gateway_state \<Rightarrow> http_outcome \<times> 'w gateway_state" where
  "send_post mc url key payload st =
     (let (r, w) = mc_post mc url key payload (gs_world st) in
      (r, st\<lparr>gs_world := w, gs_posts := gs_posts st @ [(url, key, payload)]\<rparr>))"

text \<open>\<open>_post_to\<close>; the result is the JSON of the response, which only \<open>response.json()\<close> reads.\<close>

fun post_attempts ::
  "'w model_client \<Rightarrow> string \<Rightarrow> string \<Rightarrow> pydict \<Rightarrow> nat \<Rightarrow> 'w gateway_state \<Rightarrow> pyval result result \<times> 'w gateway_state" where
  "post_attempts mc url key payload 0 st = (Inl (RuntimeError ''unreachable retry state''), st)"
| "post_attempts mc url key payload (Suc n) st =
     (case send_post mc url key payload st of
        (Responded status body, st) \<Rightarrow>
          if 200 \<le> status \<and> status < 300 then (Inr body, st)
          else if status < 500 \<or> n = 0 then (Inl http_error, st)
          else post_attempts mc url key payload n st
      | (TransportFailed, st) \<Rightarrow> if n = 0 then (Inl http_error, st) else post_attempts mc url key payload n st
      | (OtherHttpError, st) \<Rightarrow> (Inl http_error, st))"

definition post_to ::
  "'w model_client \<Rightarrow> model_gateway \<Rightarrow> string \<Rightarrow> string \<Rightarrow> pydict \<Rightarrow> 'w gateway_state \<Rightarrow> pyval result \<times> 'w gateway_state" where
  "post_to mc mg base_url key payload st =
     (let (r, st) = post_attempts mc (base_url @ ''/chat/completions'') key payload (mg_retry_attempts mg) st in
      (bind_res r (\<lambda>body. body), st))"

definition gateway_clock :: "'w model_client \<Rightarrow> 'w gateway_state \<Rightarrow> rat \<times> 'w gateway_state" where
  "gateway_clock mc st = (let (t, w) = mc_clock mc (gs_world st) in (t, st\<lparr>gs_world := w\<rparr>))"

text \<open>\<open>body["choices"][0]["message"]["content"]\<close> on what JSON can be.\<close>

definition index_key :: "string \<Rightarrow> pyval \<Rightarrow> pyval result" where
  "index_key k v =
     (case v of PDict d \<Rightarrow> (case dget d k of None \<Rightarrow> Inl KeyError | Some x \<Rightarrow> Inr x) | _ \<Rightarrow> Inl TypeError)"

definition index_first :: "pyval \<Rightarrow> pyval result" where
  "index_first v =
     (case v of
        PList (x # xs) \<Rightarrow> Inr x | PList [] \<Rightarrow> Inl IndexError
      | PStr s \<Rightarrow> (case chars s of [] \<Rightarrow> Inl IndexError | c # _ \<Rightarrow> Inr (PStr c))
      | PDict d \<Rightarrow> Inl KeyError | _ \<Rightarrow> Inl TypeError)"

definition answer_content :: "pyval \<Rightarrow> pyval result" where
  "answer_content body =
     bind_res (index_key ''choices'' body) (\<lambda>c. bind_res (index_first c) (\<lambda>x.
     bind_res (index_key ''message'' x) (index_key ''content'')))"

section \<open>Usage\<close>

definition make_usage :: "token_usage \<Rightarrow> token_usage result" where
  "make_usage u = (if valid_token_usage u then Inr u else Inl ValidationError)"

definition non_negative_int :: "pyval \<Rightarrow> int option" where
  "non_negative_int v = (case v of PInt n \<Rightarrow> if n < 0 then None else Some n | _ \<Rightarrow> None)"

text \<open>A count of the usage, or of one of its details.\<close>

definition detail_count :: "pydict \<Rightarrow> string \<Rightarrow> string \<Rightarrow> string \<Rightarrow> int option" where
  "detail_count raw own details inner =
     (case non_negative_int (dget_or raw own PNone) of
        Some n \<Rightarrow> Some n
      | None \<Rightarrow> (case dget raw details of Some (PDict d) \<Rightarrow> non_negative_int (dget_or d inner PNone) | _ \<Rightarrow> None))"

definition usage_version :: "pydict \<Rightarrow> string option" where
  "usage_version raw =
     (case dget raw ''provider_usage_version'' of Some (PStr s) \<Rightarrow> if nonblank s then Some s else None | _ \<Rightarrow> None)"

definition normalize_token_usage :: "pyval \<Rightarrow> token_usage option result" where
  "normalize_token_usage v =
     (case v of
        PDict raw \<Rightarrow>
          (let input = non_negative_int (dget_or raw ''input_tokens'' (dget_or raw ''prompt_tokens'' PNone));
               output = non_negative_int (dget_or raw ''output_tokens'' (dget_or raw ''completion_tokens'' PNone));
               total = non_negative_int (dget_or raw ''total_tokens'' PNone);
               cached = detail_count raw ''cached_input_tokens'' ''prompt_tokens_details'' ''cached_tokens'';
               reasoning = detail_count raw ''reasoning_tokens'' ''completion_tokens_details'' ''reasoning_tokens''
           in
           if list_all (\<lambda>n. n = None) [input, output, total, cached, reasoning] then Inr None
           else bind_res (make_usage
             \<lparr>tu_input_tokens = input, tu_output_tokens = output, tu_cached_input_tokens = cached,
              tu_reasoning_tokens = reasoning, tu_total_tokens = total,
              tu_estimated = list_ex (\<lambda>n. n = None) [input, output, total], tu_provider_usage_version = usage_version raw\<rparr>)
             (\<lambda>u. Inr (Some u)))
      | _ \<Rightarrow> Inr None)"

definition usage_of_body :: "pyval \<Rightarrow> token_usage option result" where
  "usage_of_body body = (case body of PDict d \<Rightarrow> normalize_token_usage (dget_or d ''usage'' PNone) | _ \<Rightarrow> Inr None)"

definition conservative_usage :: "int \<Rightarrow> token_usage" where
  "conservative_usage n =
     \<lparr>tu_input_tokens = None, tu_output_tokens = None, tu_cached_input_tokens = None, tu_reasoning_tokens = None,
      tu_total_tokens = Some n, tu_estimated = True, tu_provider_usage_version = Some ''conservative-v1''\<rparr>"

definition sum_counts :: "int option list \<Rightarrow> int option" where
  "sum_counts ns = (if None \<in> set ns then None else Some (sum_list (map the ns)))"

definition combine_token_usage :: "token_usage option list \<Rightarrow> token_usage option result" where
  "combine_token_usage attempts =
     (if attempts = [] \<or> None \<in> set attempts then Inr None
      else
       (let us = map the attempts; versions = remdups (map tu_provider_usage_version us) in
        bind_res (make_usage
          \<lparr>tu_input_tokens = sum_counts (map tu_input_tokens us), tu_output_tokens = sum_counts (map tu_output_tokens us),
           tu_cached_input_tokens = sum_counts (map tu_cached_input_tokens us),
           tu_reasoning_tokens = sum_counts (map tu_reasoning_tokens us),
           tu_total_tokens = sum_counts (map tu_total_tokens us), tu_estimated = list_ex tu_estimated us,
           tu_provider_usage_version = (if length versions = 1 then hd versions else Some ''aggregate-v1'')\<rparr>)
          (\<lambda>u. Inr (Some u))))"

section \<open>Reading a decision\<close>

definition fence :: string where
  "fence = [CHR 0x60, CHR 0x60, CHR 0x60]"

definition ends_fenced :: "string \<Rightarrow> bool" where
  "ends_fenced s \<longleftrightarrow> take 3 (rev s) = fence"

definition between :: "nat \<Rightarrow> string \<Rightarrow> string" where
  "between n s = drop n (take (length s - 3) s)"

text \<open>The content without white space and without the fence of a code block.\<close>

definition unfenced :: "string \<Rightarrow> string" where
  "unfenced content =
     (let s = strip content in
      if take 7 s = fence @ ''json'' \<and> ends_fenced s then strip (between 7 s)
      else if take 3 s = fence \<and> ends_fenced s then strip (between 3 s)
      else s)"

definition make_decision :: "decision \<Rightarrow> decision result" where
  "make_decision d = (if valid_decision d then Inr d else Inl ValidationError)"

definition legacy_types :: "decision_type list" where
  "legacy_types = [DT_RESPOND, DT_ASK_USER, DT_HANDOFF, DT_FINISH]"

text \<open>The older answers, a decision name with a rationale; a list or an object is not hashable.\<close>

definition legacy_decision :: "py_exn \<Rightarrow> prompt_view \<Rightarrow> pyval \<Rightarrow> decision result" where
  "legacy_decision strict_error prompt raw =
     (let get = (\<lambda>k. case raw of PDict d \<Rightarrow> dget_or d k PNone | _ \<Rightarrow> PNone) in
      case get ''decision'' of
        PList xs \<Rightarrow> Inl TypeError
      | PDict d \<Rightarrow> Inl TypeError
      | PStr name \<Rightarrow>
          (case (find (\<lambda>t. decision_type_value t = name) legacy_types, get ''rationale'') of
             (Some t, PStr rationale) \<Rightarrow> make_decision
               \<lparr>de_type = t, de_intent = pv_workflow_id prompt, de_route = pv_workflow_id prompt, de_confidence = 0,
                de_missing_slots = [], de_tool = None, de_args = [], de_evidence_ids = [], de_response = Some rationale,
                de_handoff_reason = None\<rparr>
           | _ \<Rightarrow> Inl strict_error)
      | _ \<Rightarrow> Inl strict_error)"

definition parse_decision :: "'w model_client \<Rightarrow> prompt_view \<Rightarrow> pyval \<Rightarrow> decision result" where
  "parse_decision mc prompt content =
     (case content of
        PStr s \<Rightarrow>
          (case mc_decision mc (unfenced s) of
             Inr d \<Rightarrow> Inr d
           | Inl e \<Rightarrow>
               if is_value_error e then bind_res (mc_loads mc (unfenced s)) (legacy_decision e prompt) else Inl e)
      | _ \<Rightarrow> Inl (OtherError ''AttributeError''))"

section \<open>Asking for a decision\<close>

record gateway_decision =
  gd_decision :: decision
  gd_latency_ms :: int
  gd_repaired :: bool
  gd_usage_tokens :: "int option"
  gd_token_usage :: "token_usage option"

text \<open>\<open>ModelDecision.normalized_token_usage\<close>\<close>

definition normalized_usage :: "gateway_decision \<Rightarrow> token_usage option result" where
  "normalized_usage d =
     (case gd_token_usage d of
        Some u \<Rightarrow> Inr (Some u)
      | None \<Rightarrow> (case gd_usage_tokens d of
          None \<Rightarrow> Inr None
        | Some n \<Rightarrow> bind_res (make_usage
            \<lparr>tu_input_tokens = None, tu_output_tokens = None, tu_cached_input_tokens = None, tu_reasoning_tokens = None,
             tu_total_tokens = Some n, tu_estimated = False, tu_provider_usage_version = None\<rparr>) (\<lambda>u. Inr (Some u))))"

definition decision_instruction :: "'w model_client \<Rightarrow> prompt_view \<Rightarrow> bool \<Rightarrow> string" where
  "decision_instruction mc prompt repair =
     ''Return exactly one JSON object and no prose or markdown. '' @
     ''Required fields: type, intent, route, confidence. '' @
     ''route must equal the locked workflow route '' @ [CHR 0x27] @ pv_workflow_id prompt @ [CHR 0x27] @ ''. '' @
     ''Optional fields: missing_slots, tool, args, evidence_ids, response, handoff_reason. '' @
     ''type must be one of '' @ mc_list_json mc (pv_allowed_decisions prompt) @ ''; tool must be null or one of '' @
     mc_list_json mc (pv_allowed_tools prompt) @ ''; '' @
     ''confidence must be a number from 0 through 1; args must be one JSON object. '' @
     ''evidence_ids must be a subset of exactly '' @ mc_list_json mc (pv_evidence_ids prompt) @ ''; never invent or '' @
     ''copy identifiers that are not listed there. '' @
     ''Never include tenant_id, actor_id, owner_id, scopes, idempotency_key, '' @
     ''confirmation_token, or policy_version in args.'' @
     (if repair then '' This is the single format-repair attempt; output valid JSON only.'' else [])"

definition chat_messages :: "string \<Rightarrow> string \<Rightarrow> pyval" where
  "chat_messages instruction prompt =
     PList [PDict [(''role'', PStr ''system''), (''content'', PStr instruction)],
            PDict [(''role'', PStr ''user''), (''content'', PStr prompt)]]"

definition decision_payload :: "'w model_client \<Rightarrow> model_gateway \<Rightarrow> prompt_view \<Rightarrow> bool \<Rightarrow> pydict" where
  "decision_payload mc mg prompt repair =
     [(''model'', PStr (mg_model mg)), (''temperature'', PInt 0), (''max_tokens'', PInt (mg_max_tokens mg)),
      (''response_format'', PDict [(''type'', PStr ''json_object'')]),
      (''messages'', chat_messages (decision_instruction mc prompt repair) (mc_prompt_json mc prompt))]"

definition body_usage :: "int \<Rightarrow> pyval \<Rightarrow> token_usage result" where
  "body_usage charge body =
     bind_res (usage_of_body body) (\<lambda>u. case u of Some u \<Rightarrow> Inr u | None \<Rightarrow> make_usage (conservative_usage charge))"

text \<open>\<open>_request\<close>\<close>

definition request_decision ::
  "'w model_client \<Rightarrow> model_gateway \<Rightarrow> prompt_view \<Rightarrow> bool \<Rightarrow> 'w gateway_state \<Rightarrow> gateway_decision result \<times> 'w gateway_state" where
  "request_decision mc mg prompt repair st =
     (let (started, st) = gateway_clock mc st;
          (r, st) = post_to mc mg (mg_base_url mg) (mg_api_key mg) (decision_payload mc mg prompt repair) st in
      case bind_res r (\<lambda>body. bind_res (answer_content body) (\<lambda>content. bind_res (body_usage (mg_max_tokens mg) body) (\<lambda>usage.
             bind_res (parse_decision mc prompt content) (\<lambda>d. Inr (d, usage))))) of
        Inl e \<Rightarrow> (Inl e, st)
      | Inr (d, usage) \<Rightarrow>
          (let (ended, st) = gateway_clock mc st in
           (Inr \<lparr>gd_decision = d, gd_latency_ms = round_even ((ended - started) * 1000), gd_repaired = repair,
              gd_usage_tokens = tu_total_tokens usage, gd_token_usage = Some usage\<rparr>, st)))"

definition format_error :: "py_exn \<Rightarrow> bool" where
  "format_error e \<longleftrightarrow> is_value_error e \<or> e = KeyError \<or> e = TypeError"

definition gateway_decide ::
  "'w model_client \<Rightarrow> model_gateway \<Rightarrow> prompt_view \<Rightarrow> 'w gateway_state \<Rightarrow> gateway_decision result \<times> 'w gateway_state" where
  "gateway_decide mc mg prompt st =
     (case request_decision mc mg prompt False st of
        (Inr d, st) \<Rightarrow> (Inr d, st)
      | (Inl e, st) \<Rightarrow>
          if format_error e then
            (case request_decision mc mg prompt True st of
               (Inr d, st) \<Rightarrow> (Inr d, st)
             | (Inl e, st) \<Rightarrow>
                 (Inl (if format_error e then ModelGatewayError ''model decision is invalid after one repair''
                       else if e = http_error then ModelGatewayError ''model provider request failed'' else e), st))
          else (Inl (if e = http_error then ModelGatewayError ''model provider request failed'' else e), st))"

text \<open>\<open>DeterministicFakeModel.decide\<close>: the world is its queues and the prompts it has seen.\<close>

definition fake_decide ::
  "(unit \<Rightarrow> rat) \<Rightarrow> prompt_view \<Rightarrow> decision list \<times> int option list \<times> prompt_view list \<Rightarrow>
   gateway_decision result \<times> decision list \<times> int option list \<times> prompt_view list" where
  "fake_decide elapsed prompt w =
     (case w of
        ([], usage, seen) \<Rightarrow> (Inl (ModelGatewayError ''fake model has no remaining decision''), [], usage, seen @ [prompt])
      | (d # ds, usage, seen) \<Rightarrow>
          (Inr \<lparr>gd_decision = d, gd_latency_ms = max 0 (round_even (elapsed () * 1000)), gd_repaired = False,
              gd_usage_tokens = (case usage of [] \<Rightarrow> None | u # _ \<Rightarrow> u), gd_token_usage = None\<rparr>,
           ds, tl usage, seen @ [prompt]))"

section \<open>Reading a classification\<close>

definition domain_aliases :: "(string \<times> string) list" where
  "domain_aliases =
     [(''ecommerce'', ''commerce''), (''commerce'', ''commerce''), (''social'', ''social''), (''capability'', ''capability''),
      (''unsupported'', ''unsupported''), (''unknown'', ''unknown'')]"

text \<open>A value that is looked up in a set has to be hashable.\<close>

definition in_set :: "pyval \<Rightarrow> string list \<Rightarrow> bool result" where
  "in_set v names =
     (case v of PList xs \<Rightarrow> Inl TypeError | PDict d \<Rightarrow> Inl TypeError | PStr s \<Rightarrow> Inr (s \<in> set names) | _ \<Rightarrow> Inr False)"

definition risk_label :: "pyval \<Rightarrow> pyval result" where
  "risk_label v =
     bind_res (in_set v [''read_only'', ''write'', ''unknown'']) (\<lambda>known.
       Inr (if known then v else if v = PStr ''low'' then PStr ''read_only'' else PStr ''unknown''))"

definition domain_label :: "pyval \<Rightarrow> pyval" where
  "domain_label v = (case v of PStr s \<Rightarrow> PStr (dget_or domain_aliases s ''unknown'') | _ \<Rightarrow> PStr ''unknown'')"

definition level_label :: "pyval \<Rightarrow> pyval result" where
  "level_label v = bind_res (in_set v [''low'', ''medium'', ''high'', ''unknown'']) (\<lambda>known. Inr (if known then v else PStr ''unknown''))"

definition alternative_intent :: "pyval \<Rightarrow> string result" where
  "alternative_intent v =
     (case v of
        PStr s \<Rightarrow> Inr s
      | PDict d \<Rightarrow> (case dget d ''intent'' of Some (PStr s) \<Rightarrow> Inr s
          | _ \<Rightarrow> Inl (ValueError ''classification alternative has an invalid shape''))
      | _ \<Rightarrow> Inl (ValueError ''classification alternative has an invalid shape''))"

definition alternative_intents :: "pyval \<Rightarrow> string list result" where
  "alternative_intents v =
     (case v of
        PNone \<Rightarrow> Inr []
      | PList xs \<Rightarrow> map_res alternative_intent xs
      | _ \<Rightarrow> Inl (ValueError ''classification alternatives must be a list''))"

definition copied_fields :: "string list" where
  "copied_fields = [''intent'', ''route_hint'', ''confidence'', ''domain_confidence'', ''risk_confidence'', ''required_slots'']"

definition copy_fields :: "pydict \<Rightarrow> pydict" where
  "copy_fields raw = concat (map (\<lambda>k. case dget raw k of None \<Rightarrow> [] | Some v \<Rightarrow> [(k, v)]) copied_fields)"

text \<open>The object that is validated: nothing of the provider's other fields, and labels of the contract only.\<close>

definition normalized_candidate :: "pydict \<Rightarrow> pydict result" where
  "normalized_candidate raw =
     (let get = (\<lambda>k. dget_or raw k PNone) in
      bind_res (risk_label (get ''risk_hint'')) (\<lambda>hint.
      bind_res (level_label (get ''request_risk_level'')) (\<lambda>level.
      bind_res (alternative_intents (dget_or raw ''alternatives'' PNone)) (\<lambda>alternatives.
        Inr (copy_fields raw @
             [(''risk_hint'', hint), (''domain'', domain_label (get ''domain'')), (''request_risk_level'', level),
              (''alternatives'', PList (map PStr alternatives))])))))"

definition parse_classification :: "'w model_client \<Rightarrow> pyval \<Rightarrow> intent_classification result" where
  "parse_classification mc content =
     (case content of
        PStr s \<Rightarrow>
          bind_res (mc_loads mc (unfenced s)) (\<lambda>v. case v of
            PDict raw \<Rightarrow> bind_res (normalized_candidate raw) (mc_classification mc)
          | _ \<Rightarrow> Inl (ValueError ''classification must be a JSON object''))
      | _ \<Rightarrow> Inl (ValueError ''classification content must be a JSON string''))"

section \<open>Asking for a classification\<close>

definition classifier_instruction :: "bool \<Rightarrow> string" where
  "classifier_instruction repair =
     ''Return exactly one JSON object and no prose or markdown. '' @
     ''Required fields: intent, risk_hint, route_hint, confidence, domain_confidence, '' @
     ''risk_confidence, required_slots, domain, request_risk_level, alternatives. '' @
     ''risk_hint must be read_only, write, or unknown; '' @
     ''All confidence fields must be 0 through 1. confidence is overall; '' @
     ''domain_confidence is only for domain and risk_confidence is only for content risk. '' @
     ''domain must be commerce, social, capability, unsupported, or unknown; '' @
     ''request_risk_level must be low, medium, high, or unknown; '' @
     ''alternatives must be a list of intent strings. '' @
     ''Never return execution_mode, workflow_id, tool calls, identities, scopes, tokens, '' @
     ''or policy values.'' @
     (if repair then '' Output valid JSON only; do not include reasoning.'' else [])"

definition classifier_payload :: "'w model_client \<Rightarrow> model_gateway \<Rightarrow> routing_prompt_view \<Rightarrow> bool \<Rightarrow> pydict" where
  "classifier_payload mc mg prompt repair =
     [(''model'', PStr (mg_classifier_model mg)), (''temperature'', PFloat (mg_classifier_temperature mg)),
      (''max_tokens'', PInt (if repair then max (mg_classifier_max_tokens mg) 2048 else mg_classifier_max_tokens mg)),
      (''thinking'', PDict [(''type'', PStr ''disabled'')]), (''response_format'', PDict [(''type'', PStr ''json_object'')]),
      (''messages'', chat_messages (classifier_instruction repair) (mc_routing_json mc prompt))]"

record gateway_classification =
  gc_classification :: intent_classification
  gc_latency_ms :: int
  gc_token_usage :: "token_usage option"
  gc_repaired :: bool

definition charged_usage :: "model_gateway \<Rightarrow> token_usage option list \<Rightarrow> token_usage result" where
  "charged_usage mg observed =
     bind_res (combine_token_usage observed) (\<lambda>u. case u of
       Some u \<Rightarrow> Inr u | None \<Rightarrow> make_usage (conservative_usage (mg_classifier_max_tokens mg)))"

text \<open>What an attempt reads of its answer, and the usages observed after it.\<close>

definition read_classification ::
  "'w model_client \<Rightarrow> model_gateway \<Rightarrow> token_usage option list \<Rightarrow> pyval result \<Rightarrow>
   (intent_classification \<times> token_usage) result \<times> token_usage option list" where
  "read_classification mc mg observed r =
     (case bind_res r (\<lambda>body. bind_res (usage_of_body body) (\<lambda>u. Inr (body, u))) of
        Inl e \<Rightarrow> (Inl e, observed)
      | Inr (body, u) \<Rightarrow>
          (bind_res (answer_content body) (\<lambda>content. bind_res (parse_classification mc content) (\<lambda>x.
             bind_res (charged_usage mg (observed @ [u])) (\<lambda>usage. Inr (x, usage)))), observed @ [u]))"

fun classify_attempts ::
  "'w model_client \<Rightarrow> model_gateway \<Rightarrow> routing_prompt_view \<Rightarrow> rat \<Rightarrow> bool list \<Rightarrow> token_usage option list \<Rightarrow> 'w gateway_state \<Rightarrow>
   gateway_classification result \<times> 'w gateway_state" where
  "classify_attempts mc mg prompt started [] observed st =
     (Inl (ModelGatewayError ''intent classification is invalid or unavailable''), st)"
| "classify_attempts mc mg prompt started (repair # repairs) observed st =
     (let (r, st) = post_to mc mg (mg_classifier_base_url mg) (mg_classifier_api_key mg)
            (classifier_payload mc mg prompt repair) st;
          (q, seen) = read_classification mc mg observed r
      in case q of
        Inr (x, usage) \<Rightarrow>
          (let (ended, st) = gateway_clock mc st in
           (Inr \<lparr>gc_classification = x, gc_latency_ms = elapsed_ms started ended, gc_token_usage = Some usage,
              gc_repaired = repair\<rparr>, st))
      | Inl e \<Rightarrow>
          if format_error e \<or> e = http_error then classify_attempts mc mg prompt started repairs seen st else (Inl e, st))"

definition gateway_classify ::
  "'w model_client \<Rightarrow> model_gateway \<Rightarrow> routing_prompt_view \<Rightarrow> 'w gateway_state \<Rightarrow> gateway_classification result \<times> 'w gateway_state" where
  "gateway_classify mc mg prompt st =
     (let (started, st) = gateway_clock mc st in classify_attempts mc mg prompt started [False, True] [] st)"

text \<open>The gateway as the classifier's gateway: \<open>ClassificationResult\<close> carries its own latency and usage.\<close>

definition classifier_gateway ::
  "'w model_client \<Rightarrow> model_gateway \<Rightarrow> routing_prompt_view \<Rightarrow> 'w gateway_state \<Rightarrow> classifier_answer result \<times> 'w gateway_state" where
  "classifier_gateway mc mg prompt st =
     (let (r, st) = gateway_classify mc mg prompt st in
      (bind_res r (\<lambda>x. Inr (TimedClassification (gc_classification x) (gc_latency_ms x) (gc_token_usage x))), st))"

section \<open>How often a provider is asked\<close>

definition post_of :: "string \<Rightarrow> string \<Rightarrow> string \<Rightarrow> string \<times> string \<times> pydict \<Rightarrow> bool" where
  "post_of base_url key model x \<longleftrightarrow>
     fst x = base_url @ ''/chat/completions'' \<and> fst (snd x) = key \<and> dget (snd (snd x)) ''model'' = Some (PStr model)"

definition asked_at_most ::
  "nat \<Rightarrow> string \<Rightarrow> string \<Rightarrow> string \<Rightarrow> 'w gateway_state \<Rightarrow> 'w gateway_state \<Rightarrow> bool" where
  "asked_at_most n base_url key model st st' \<longleftrightarrow>
     (\<exists>new. gs_posts st' = gs_posts st @ new \<and> length new \<le> n \<and> list_all (post_of base_url key model) new)"

lemma asked_trans: "asked_at_most m b k x st st1 \<Longrightarrow> asked_at_most n b k x st1 st2 \<Longrightarrow> asked_at_most (m + n) b k x st st2"
proof -
  assume "asked_at_most m b k x st st1" "asked_at_most n b k x st1 st2"
  then obtain c d where "gs_posts st1 = gs_posts st @ c" "gs_posts st2 = gs_posts st1 @ d" "length c \<le> m" "length d \<le> n"
    "list_all (post_of b k x) c" "list_all (post_of b k x) d"
    unfolding asked_at_most_def by blast
  then show ?thesis unfolding asked_at_most_def by (intro exI [of _ "c @ d"]) simp
qed

lemma asked_clock: "gateway_clock mc st = (t, st') \<Longrightarrow> asked_at_most n b k x st st'"
  by (auto simp: gateway_clock_def asked_at_most_def split: prod.splits)

lemma asked_none: "asked_at_most n b k x st st"
  by (simp add: asked_at_most_def)

lemma asked_mono: "asked_at_most m b k x st st' \<Longrightarrow> m \<le> n \<Longrightarrow> asked_at_most n b k x st st'"
  by (auto simp: asked_at_most_def)

lemma asked_once:
  assumes "send_post mc (b @ ''/chat/completions'') k payload st = (o1, st1)" "dget payload ''model'' = Some (PStr x)"
  shows "asked_at_most 1 b k x st st1"
  using assms by (auto simp: send_post_def asked_at_most_def post_of_def split: prod.splits)

lemma post_attempts_asked:
  "dget payload ''model'' = Some (PStr x) \<Longrightarrow> post_attempts mc (b @ ''/chat/completions'') k payload n st = (r, st') \<Longrightarrow>
     asked_at_most n b k x st st'"
proof (induction n arbitrary: st)
  case 0
  then show ?case by (simp add: asked_none)
next
  case (Suc n)
  obtain o1 st1 where one: "send_post mc (b @ ''/chat/completions'') k payload st = (o1, st1)" by force
  have first: "asked_at_most 1 b k x st st1" using one Suc.prems(1) by (rule asked_once)
  have "st' = st1 \<or> post_attempts mc (b @ ''/chat/completions'') k payload n st1 = (r, st')"
    using Suc.prems(2) one by (auto split: http_outcome.splits if_splits)
  then show ?case
  proof
    assume "st' = st1"
    then show ?thesis using asked_mono [OF first] by simp
  next
    assume "post_attempts mc (b @ ''/chat/completions'') k payload n st1 = (r, st')"
    then have "asked_at_most n b k x st1 st'" using Suc.IH [OF Suc.prems(1)] by blast
    then show ?thesis using asked_trans [OF first] by simp
  qed
qed

lemma post_to_asked:
  "post_to mc mg b k payload st = (r, st') \<Longrightarrow> dget payload ''model'' = Some (PStr x) \<Longrightarrow>
     asked_at_most (mg_retry_attempts mg) b k x st st'"
  by (auto simp: post_to_def split: prod.splits dest: post_attempts_asked)

lemma request_asked:
  assumes "request_decision mc mg prompt repair st = (r, st')"
  shows "asked_at_most (mg_retry_attempts mg) (mg_base_url mg) (mg_api_key mg) (mg_model mg) st st'"
proof -
  let ?n = "mg_retry_attempts mg" and ?b = "mg_base_url mg" and ?k = "mg_api_key mg" and ?x = "mg_model mg"
  obtain t st1 where t: "gateway_clock mc st = (t, st1)" by force
  obtain q st2 where q: "post_to mc mg ?b ?k (decision_payload mc mg prompt repair) st1 = (q, st2)" by force
  have "asked_at_most ?n ?b ?k ?x st1 st2" using q by (rule post_to_asked) (simp add: decision_payload_def)
  then have "asked_at_most (0 + ?n) ?b ?k ?x st st2" using asked_trans [OF asked_clock [OF t]] by blast
  moreover have "asked_at_most 0 ?b ?k ?x st2 st'"
    using assms t q
    by (auto simp: request_decision_def Let_def asked_none dest: asked_clock split: sum.splits prod.splits)
  ultimately show ?thesis using asked_trans by fastforce
qed

lemma classify_asked:
  "classify_attempts mc mg prompt t repairs observed st = (r, st') \<Longrightarrow>
     asked_at_most (length repairs * mg_retry_attempts mg) (mg_classifier_base_url mg) (mg_classifier_api_key mg)
       (mg_classifier_model mg) st st'"
proof (induction repairs arbitrary: observed st)
  case Nil
  then show ?case by (simp add: asked_none)
next
  case (Cons repair repairs)
  let ?n = "mg_retry_attempts mg" and ?b = "mg_classifier_base_url mg" and ?k = "mg_classifier_api_key mg"
    and ?x = "mg_classifier_model mg"
  obtain q st1 where q: "post_to mc mg ?b ?k (classifier_payload mc mg prompt repair) st = (q, st1)" by force
  have first: "asked_at_most ?n ?b ?k ?x st st1" using q by (rule post_to_asked) (simp add: classifier_payload_def)
  have "asked_at_most (length repairs * ?n) ?b ?k ?x st1 st'"
    using Cons.prems q Cons.IH
    by (auto simp: Let_def asked_none dest: asked_clock split: sum.splits prod.splits if_splits)
  then show ?case using asked_trans [OF first, of "length repairs * ?n" st'] by simp
qed

text \<open>C13: a request to a model is bounded and goes where it belongs. Whatever the provider answers, a decision and a
  classification send at most two rounds of \<open>model_retry_attempts\<close> requests each, only to the completions of
  their own endpoint, with their own key and their own model.\<close>

theorem provider_asked_at_most:
  "asked_at_most (2 * mg_retry_attempts mg) (mg_base_url mg) (mg_api_key mg) (mg_model mg) st
     (snd (gateway_decide mc mg prompt st)) \<and>
   asked_at_most (2 * mg_retry_attempts mg) (mg_classifier_base_url mg) (mg_classifier_api_key mg) (mg_classifier_model mg) st
     (snd (gateway_classify mc mg routing st))"
proof
  let ?asked = "\<lambda>n. asked_at_most n (mg_base_url mg) (mg_api_key mg) (mg_model mg)"
  obtain r1 st1 where one: "request_decision mc mg prompt False st = (r1, st1)" by force
  obtain r2 st2 where two: "request_decision mc mg prompt True st1 = (r2, st2)" by force
  have "?asked (mg_retry_attempts mg + mg_retry_attempts mg) st st2"
    using asked_trans [OF request_asked [OF one] request_asked [OF two]] .
  moreover have "?asked (2 * mg_retry_attempts mg) st st1" using request_asked [OF one] by (rule asked_mono) simp
  ultimately show "?asked (2 * mg_retry_attempts mg) st (snd (gateway_decide mc mg prompt st))"
    using one two by (auto simp: gateway_decide_def mult_2 split: sum.splits)
next
  let ?asked = "\<lambda>n. asked_at_most n (mg_classifier_base_url mg) (mg_classifier_api_key mg) (mg_classifier_model mg)"
  obtain t st1 where t: "gateway_clock mc st = (t, st1)" by force
  obtain r st2 where r: "classify_attempts mc mg routing t [False, True] [] st1 = (r, st2)" by force
  have "?asked (0 + 2 * mg_retry_attempts mg) st st2"
    using asked_trans [OF asked_clock [OF t, of 0] classify_asked [OF r]] by (simp add: mult_2)
  then show "?asked (2 * mg_retry_attempts mg) st (snd (gateway_classify mc mg routing st))"
    by (simp add: gateway_classify_def t r del: classify_attempts.simps)
qed

section \<open>Labels of a provider\<close>

text \<open>What validation is relied on for: the labels of the result are those of the validated object.\<close>

definition reads_labels :: "'w model_client \<Rightarrow> bool" where
  "reads_labels mc \<longleftrightarrow> (\<forall>d x. mc_classification mc d = Inr x \<longrightarrow>
     dget d ''domain'' = Some (PStr (domain_value (ic_domain x))) \<and>
     dget d ''risk_hint'' = Some (PStr (risk_hint_value (ic_risk_hint x))) \<and>
     dget d ''request_risk_level'' = Some (PStr (risk_level_value (ic_request_risk_level x))))"

lemma copied_keys: "fst ` set (copy_fields raw) \<subseteq> set copied_fields"
  by (auto simp: copy_fields_def split: option.splits)

lemma after_copied: "l \<notin> set copied_fields \<Longrightarrow> dget (copy_fields raw @ rest) l = dget rest l"
proof -
  assume "l \<notin> set copied_fields"
  then have "dget (copy_fields raw) l = None" using copied_keys by (auto simp: map_of_eq_None_iff)
  then show ?thesis by (simp add: map_add_def)
qed

lemma normalized_labels:
  assumes "normalized_candidate raw = Inr d"
  shows "dget d ''domain'' = Some (domain_label (dget_or raw ''domain'' PNone)) \<and>
    (\<exists>h. dget d ''risk_hint'' = Some h \<and> risk_label (dget_or raw ''risk_hint'' PNone) = Inr h) \<and>
    (\<exists>l. dget d ''request_risk_level'' = Some l \<and> level_label (dget_or raw ''request_risk_level'' PNone) = Inr l)"
proof -
  have "''domain'' \<notin> set copied_fields" "''risk_hint'' \<notin> set copied_fields" "''request_risk_level'' \<notin> set copied_fields"
    by (simp_all add: copied_fields_def)
  then show ?thesis using assms by (auto simp: normalized_candidate_def Let_def bind_res_eq_Inr after_copied simp del: map_of_append)
qed

lemma risk_label_Inr:
  assumes "risk_label v = Inr (PStr s)"
  shows "(s = ''write'' \<longrightarrow> v = PStr ''write'') \<and> (s = ''read_only'' \<longrightarrow> v = PStr ''read_only'' \<or> v = PStr ''low'')"
  using assms by (auto simp: risk_label_def bind_res_eq_Inr in_set_def split: pyval.splits if_splits)

lemma level_label_Inr:
  assumes "level_label v = Inr (PStr s)" "s \<noteq> ''unknown''"
  shows "v = PStr s"
  using assms by (auto simp: level_label_def bind_res_eq_Inr in_set_def split: pyval.splits if_splits)

lemma domain_label_known:
  assumes "domain_label v = PStr s" "s \<noteq> ''unknown''"
  shows "v = PStr s \<or> v = PStr ''ecommerce'' \<and> s = ''commerce''"
  using assms by (auto simp: domain_label_def domain_aliases_def dget_or_def split: pyval.splits if_splits)

text \<open>C14: a label of the provider grants nothing. A classification is known to write, or to only read, or to be of a
  known risk or domain, only when the provider said so in a label of the contract (or one of the two accepted aliases,
  \<open>low\<close> for reading and \<open>ecommerce\<close> for commerce); every other label is unknown.\<close>

theorem labels_grant_nothing:
  assumes "reads_labels mc" "mc_loads mc (unfenced s) = Inr (PDict raw)" "parse_classification mc (PStr s) = Inr x"
  shows "(ic_risk_hint x = RH_WRITE \<longrightarrow> dget raw ''risk_hint'' = Some (PStr ''write'')) \<and>
    (ic_risk_hint x = RH_READ_ONLY \<longrightarrow> dget raw ''risk_hint'' \<in> {Some (PStr ''read_only''), Some (PStr ''low'')}) \<and>
    (ic_request_risk_level x \<noteq> RL_UNKNOWN \<longrightarrow>
       dget raw ''request_risk_level'' = Some (PStr (risk_level_value (ic_request_risk_level x)))) \<and>
    (ic_domain x \<noteq> RD_UNKNOWN \<longrightarrow> dget raw ''domain'' = Some (PStr (domain_value (ic_domain x))) \<or>
       ic_domain x = RD_COMMERCE \<and> dget raw ''domain'' = Some (PStr ''ecommerce''))"
proof -
  obtain d where d: "normalized_candidate raw = Inr d" "mc_classification mc d = Inr x"
    using assms(2,3) by (auto simp: parse_classification_def bind_res_eq_Inr)
  have labels: "dget d ''domain'' = Some (PStr (domain_value (ic_domain x)))"
    "dget d ''risk_hint'' = Some (PStr (risk_hint_value (ic_risk_hint x)))"
    "dget d ''request_risk_level'' = Some (PStr (risk_level_value (ic_request_risk_level x)))"
    using assms(1) d(2) unfolding reads_labels_def by blast+
  have got: "dget_or raw k PNone = PStr t \<Longrightarrow> dget raw k = Some (PStr t)" for k t
    by (simp add: dget_or_def split: option.splits)
  have "domain_label (dget_or raw ''domain'' PNone) = PStr (domain_value (ic_domain x))"
    "risk_label (dget_or raw ''risk_hint'' PNone) = Inr (PStr (risk_hint_value (ic_risk_hint x)))"
    "level_label (dget_or raw ''request_risk_level'' PNone) = Inr (PStr (risk_level_value (ic_request_risk_level x)))"
    using normalized_labels [OF d(1)] labels by auto
  note read = domain_label_known [OF this(1)] risk_label_Inr [OF this(2)] level_label_Inr [OF this(3)]
  have "ic_domain x \<noteq> RD_UNKNOWN \<Longrightarrow> domain_value (ic_domain x) \<noteq> ''unknown''"
    "domain_value (ic_domain x) = ''commerce'' \<Longrightarrow> ic_domain x = RD_COMMERCE"
    "ic_request_risk_level x \<noteq> RL_UNKNOWN \<Longrightarrow> risk_level_value (ic_request_risk_level x) \<noteq> ''unknown''"
    by (cases "ic_domain x"; simp; fail | cases "ic_request_risk_level x"; simp; fail)+
  then show ?thesis using read got by (auto simp: risk_hint_value_def)
qed

section \<open>Errors\<close>

text \<open>Reading JSON and validating a contract raise subclasses of \<open>ValueError\<close> only.\<close>

definition raises_values :: "'w model_client \<Rightarrow> bool" where
  "raises_values mc \<longleftrightarrow> (\<forall>s e. mc_loads mc s = Inl e \<longrightarrow> is_value_error e) \<and>
     (\<forall>s e. mc_decision mc s = Inl e \<longrightarrow> is_value_error e) \<and> (\<forall>d e. mc_classification mc d = Inl e \<longrightarrow> is_value_error e) \<and>
     (\<forall>url key p w status e w'. mc_post mc url key p w = (Responded status (Inl e), w') \<longrightarrow> is_value_error e)"

lemma value_errors [simp]:
  "format_error (ValueError m)" "format_error ValidationError" "format_error KeyError" "format_error TypeError"
  "is_value_error e \<Longrightarrow> format_error e" "\<not> format_error IndexError" "\<not> format_error (OtherError m)"
  by (simp_all add: format_error_def is_value_error_def)

lemma bind_res_eq_Inl: "bind_res r f = Inl e \<longleftrightarrow> r = Inl e \<or> (\<exists>x. r = Inr x \<and> f x = Inl e)"
  by (cases r) auto

lemma index_error:
  "index_key k v = Inl e \<Longrightarrow> e = KeyError \<or> e = TypeError"
  "index_first v = Inl e \<Longrightarrow> e = KeyError \<or> e = TypeError \<or> e = IndexError"
  by (auto simp: index_key_def index_first_def split: pyval.splits option.splits list.splits)

lemma answer_content_error: "answer_content body = Inl e \<Longrightarrow> e = KeyError \<or> e = TypeError \<or> e = IndexError"
  by (auto simp: answer_content_def bind_res_eq_Inl dest!: index_error)

lemma usage_error: "usage_of_body body = Inl e \<Longrightarrow> e = ValidationError"
  by (auto simp: usage_of_body_def normalize_token_usage_def make_usage_def Let_def bind_res_eq_Inl split: pyval.splits if_splits)

lemma post_attempts_error:
  assumes "raises_values mc"
  shows "post_attempts mc url key payload n st = (r, st') \<Longrightarrow> 0 < n \<Longrightarrow>
    (case r of Inl e \<Rightarrow> e = http_error | Inr (Inl e) \<Rightarrow> is_value_error e | _ \<Rightarrow> True)"
proof (induction n arbitrary: st)
  case (Suc n)
  obtain o1 st1 where one: "send_post mc url key payload st = (o1, st1)" by force
  obtain w where w: "mc_post mc url key payload (gs_world st) = (o1, w)"
    using one by (auto simp: send_post_def split: prod.splits)
  show ?case
  proof (cases o1)
    case (Responded status body)
    have "is_value_error e" if "body = Inl e" for e
      using w Responded that assms unfolding raises_values_def by blast
    then show ?thesis
      using Suc one Responded by (cases n) (auto split: if_splits sum.splits)
  next
    case TransportFailed
    then show ?thesis using Suc one by (cases n) (auto split: if_splits)
  next
    case OtherHttpError
    then show ?thesis using Suc.prems one by auto
  qed
qed simp

lemma post_to_error:
  assumes "raises_values mc" "0 < mg_retry_attempts mg" "post_to mc mg b key payload st = (Inl e, st')"
  shows "format_error e \<or> e = http_error"
proof -
  obtain r where "post_attempts mc (b @ ''/chat/completions'') key payload (mg_retry_attempts mg) st = (r, st')"
    "bind_res r (\<lambda>body. body) = Inl e"
    using assms(3) by (auto simp: post_to_def split: prod.splits)
  then show ?thesis
    using post_attempts_error [OF assms(1), of "b @ ''/chat/completions''" key payload "mg_retry_attempts mg" st r st'] assms(2)
    by (cases r) (auto split: sum.splits)
qed

lemma legacy_error: "format_error e \<Longrightarrow> legacy_decision e prompt raw = Inl f \<Longrightarrow> format_error f"
  by (auto simp: legacy_decision_def Let_def make_decision_def split: pyval.splits option.splits if_splits)

lemma parse_decision_error:
  assumes "raises_values mc" "parse_decision mc prompt content = Inl e"
  shows "format_error e \<or> e = OtherError ''AttributeError''"
proof (cases content)
  case (PStr s)
  have v: "is_value_error x" if "mc_decision mc (unfenced s) = Inl x \<or> mc_loads mc (unfenced s) = Inl x" for x
    using assms(1) that unfolding raises_values_def by blast
  consider x where "mc_decision mc (unfenced s) = Inl x" "\<not> is_value_error x"
    | "mc_loads mc (unfenced s) = Inl e"
    | x raw where "mc_decision mc (unfenced s) = Inl x" "legacy_decision x prompt raw = Inl e"
    using assms(2) PStr by (auto simp: parse_decision_def bind_res_eq_Inl split: sum.splits if_splits)
  then show ?thesis
  proof cases
    case (3 x raw)
    then show ?thesis using legacy_error [of x prompt raw e] v by simp
  qed (use v in auto)
qed (use assms(2) in \<open>auto simp: parse_decision_def\<close>)

lemma request_error:
  assumes "raises_values mc" "0 < mg_retry_attempts mg" "request_decision mc mg prompt repair st = (Inl e, st')"
  shows "format_error e \<or> e = http_error \<or> e = IndexError \<or> e = OtherError ''AttributeError''"
proof -
  obtain t st1 where t: "gateway_clock mc st = (t, st1)" by force
  obtain r st2 where r: "post_to mc mg (mg_base_url mg) (mg_api_key mg) (decision_payload mc mg prompt repair) st1 = (r, st2)"
    by force
  have "bind_res r (\<lambda>body. bind_res (answer_content body) (\<lambda>content. bind_res (body_usage (mg_max_tokens mg) body) (\<lambda>usage.
             bind_res (parse_decision mc prompt content) (\<lambda>d. Inr (d, usage))))) = Inl e"
    using assms(3) t r by (auto simp: request_decision_def Let_def split: sum.splits prod.splits)
  then consider "r = Inl e" | body where "answer_content body = Inl e" | body where "body_usage (mg_max_tokens mg) body = Inl e"
    | content where "parse_decision mc prompt content = Inl e"
    by (auto simp: bind_res_eq_Inl)
  then show ?thesis
  proof cases
    case 1
    then show ?thesis using post_to_error [OF assms(1,2)] r by blast
  next
    case (2 body)
    then show ?thesis using answer_content_error by fastforce
  next
    case (3 body)
    then have "e = ValidationError"
      using usage_error by (auto simp: body_usage_def bind_res_eq_Inl make_usage_def split: option.splits if_splits)
    then show ?thesis by simp
  next
    case (4 content)
    then show ?thesis using parse_decision_error [OF assms(1)] by blast
  qed
qed

lemma alternatives_error: "map_res alternative_intent xs = Inl e \<Longrightarrow> format_error e"
proof (induction xs)
  case (Cons v xs)
  have "alternative_intent v = Inl e \<Longrightarrow> format_error e"
    by (auto simp: alternative_intent_def split: pyval.splits option.splits)
  then show ?case using Cons by (auto simp: bind_res_eq_Inl)
qed simp

lemma label_errors: "risk_label v = Inl e \<Longrightarrow> format_error e" "level_label v = Inl e \<Longrightarrow> format_error e"
  by (auto simp: risk_label_def level_label_def in_set_def bind_res_eq_Inl split: pyval.splits)

lemma candidate_error: "normalized_candidate raw = Inl e \<Longrightarrow> format_error e"
proof -
  assume run: "normalized_candidate raw = Inl e"
  have "alternative_intents v = Inl e \<Longrightarrow> format_error e" for v
    by (auto simp: alternative_intents_def dest: alternatives_error split: pyval.splits)
  then show ?thesis using run label_errors by (auto simp: normalized_candidate_def Let_def bind_res_eq_Inl)
qed

lemma classification_error:
  assumes "raises_values mc" "read_classification mc mg observed r = (Inl e, seen)" "\<And>f. r = Inl f \<Longrightarrow> format_error f \<or> f = http_error"
  shows "format_error e \<or> e = http_error \<or> e = IndexError"
proof -
  have charged: "charged_usage mg us = Inl e \<Longrightarrow> e = ValidationError" for us
    by (auto simp: charged_usage_def combine_token_usage_def make_usage_def Let_def bind_res_eq_Inl bind_res_eq_Inr
      split: option.splits if_splits)
  have loads: "mc_loads mc s = Inl x \<Longrightarrow> format_error x" "mc_classification mc d = Inl x \<Longrightarrow> format_error x" for s d x
    using assms(1) value_errors(5) unfolding raises_values_def by blast+
  have parsed: "format_error e" if "parse_classification mc content = Inl e" for content
  proof (cases content)
    case (PStr s)
    then have read: "mc_loads mc (unfenced s) = Inl e \<or> (\<exists>v. (case v of
        PDict raw \<Rightarrow> bind_res (normalized_candidate raw) (mc_classification mc)
      | _ \<Rightarrow> Inl (ValueError ''classification must be a JSON object'')) = Inl e)"
      using that by (auto simp: parse_classification_def bind_res_eq_Inl)
    have "format_error e" if "(case v of
        PDict raw \<Rightarrow> bind_res (normalized_candidate raw) (mc_classification mc)
      | _ \<Rightarrow> Inl (ValueError ''classification must be a JSON object'')) = Inl e" for v
      using that loads candidate_error by (cases v) (auto simp: bind_res_eq_Inl)
    then show ?thesis using read loads by auto
  qed (use that in \<open>auto simp: parse_classification_def\<close>)
  consider "r = Inl e" | body where "usage_of_body body = Inl e" | body where "answer_content body = Inl e"
    | content where "parse_classification mc content = Inl e" | us where "charged_usage mg us = Inl e"
    using assms(2) by (auto simp: read_classification_def bind_res_eq_Inl split: sum.splits prod.splits)
  then show ?thesis
  proof cases
    case (2 body)
    then have "e = ValidationError" by (rule usage_error)
    then show ?thesis by simp
  next
    case (3 body)
    then show ?thesis using answer_content_error [of body e] by auto
  next
    case (5 us)
    then have "e = ValidationError" by (rule charged)
    then show ?thesis by simp
  qed (use assms(3) parsed in auto)
qed

lemma classify_error:
  assumes "raises_values mc" "0 < mg_retry_attempts mg"
  shows "classify_attempts mc mg prompt t repairs observed st = (Inl e, st') \<Longrightarrow>
    (\<exists>m. e = ModelGatewayError m) \<or> e = IndexError"
proof (induction repairs arbitrary: observed st)
  case (Cons repair repairs)
  obtain r st1 where r: "post_to mc mg (mg_classifier_base_url mg) (mg_classifier_api_key mg)
      (classifier_payload mc mg prompt repair) st = (r, st1)" by force
  obtain q seen where q: "read_classification mc mg observed r = (q, seen)" by force
  have f: "format_error f \<or> f = http_error \<or> f = IndexError" if "q = Inl f" for f
    using classification_error [OF assms(1), of mg observed r f seen] q that post_to_error [OF assms] r by blast
  show ?case using Cons r q f by (auto simp: Let_def split: sum.splits if_splits prod.splits)
qed auto

text \<open>C15: what a provider can make the gateway raise. With at least one attempt, a decision that fails is a
  \<open>ModelGatewayError\<close>, except that an empty list of choices is an \<open>IndexError\<close> and a content that is not a
  string an \<open>AttributeError\<close>, which neither the repair nor the callers of the gateway expect; a classification
  that fails is a \<open>ModelGatewayError\<close> or an \<open>IndexError\<close>.\<close>

theorem gateway_errors:
  assumes "raises_values mc" "0 < mg_retry_attempts mg"
  shows "(\<forall>e st'. gateway_decide mc mg prompt st = (Inl e, st') \<longrightarrow>
       (\<exists>m. e = ModelGatewayError m) \<or> e = IndexError \<or> e = OtherError ''AttributeError'') \<and>
    (\<forall>e st'. gateway_classify mc mg routing st = (Inl e, st') \<longrightarrow> (\<exists>m. e = ModelGatewayError m) \<or> e = IndexError)"
proof (intro conjI allI impI)
  fix e st'
  assume "gateway_decide mc mg prompt st = (Inl e, st')"
  then show "(\<exists>m. e = ModelGatewayError m) \<or> e = IndexError \<or> e = OtherError ''AttributeError''"
    using request_error [OF assms] by (fastforce simp: gateway_decide_def split: sum.splits prod.splits if_splits)
next
  fix e st'
  assume "gateway_classify mc mg routing st = (Inl e, st')"
  then show "(\<exists>m. e = ModelGatewayError m) \<or> e = IndexError"
    using classify_error [OF assms] by (auto simp: gateway_classify_def simp del: classify_attempts.simps split: prod.splits)
qed

section \<open>Witnesses\<close>

text \<open>A provider that answers with one canned body.\<close>

definition demo_answer :: pydict where
  "demo_answer =
     [(''intent'', PStr ''order_status''), (''route_hint'', PStr ''order_status''), (''confidence'', PFloat (9 / 10)),
      (''risk_hint'', PStr ''low''), (''domain'', PStr ''ecommerce''), (''request_risk_level'', PStr ''severe''),
      (''alternatives'', PList [PDict [(''intent'', PStr ''faq'')]])]"

definition demo_validated :: "pydict \<Rightarrow> intent_classification result" where
  "demo_validated d =
     (if dget d ''domain'' = Some (PStr ''commerce'') \<and> dget d ''risk_hint'' = Some (PStr ''read_only'') \<and>
        dget d ''request_risk_level'' = Some (PStr ''unknown'')
      then Inr \<lparr>ic_intent = ''order_status'', ic_risk_hint = RH_READ_ONLY, ic_route_hint = ''order_status'',
        ic_confidence = 9 / 10, ic_domain_confidence = None, ic_risk_confidence = None, ic_required_slots = [],
        ic_domain = RD_COMMERCE, ic_request_risk_level = RL_UNKNOWN, ic_alternatives = [''faq'']\<rparr>
      else Inl ValidationError)"

definition demo_client :: "http_outcome \<Rightarrow> unit model_client" where
  "demo_client r =
     \<lparr>mc_post = (\<lambda>url key p w. (r, w)), mc_clock = (\<lambda>w. (0, w)), mc_loads = (\<lambda>s. Inr (PDict demo_answer)),
      mc_list_json = (\<lambda>xs. []), mc_prompt_json = (\<lambda>p. []), mc_routing_json = (\<lambda>p. []),
      mc_decision = (\<lambda>s. Inl ValidationError), mc_classification = demo_validated\<rparr>"

definition demo_gateway :: model_gateway where
  "demo_gateway =
     \<lparr>mg_model = ''m'', mg_base_url = ''u'', mg_api_key = ''k'', mg_max_tokens = 2048, mg_retry_attempts = 2,
      mg_classifier_model = ''m'', mg_classifier_base_url = ''u'', mg_classifier_api_key = ''k'',
      mg_classifier_temperature = 1 / 10, mg_classifier_max_tokens = 1024\<rparr>"

lemma demo_reads: "reads_labels (demo_client r)" "raises_values (demo_client (Responded 200 (Inr v)))"
  by (auto simp: reads_labels_def raises_values_def demo_client_def demo_validated_def risk_hint_value_def is_value_error_def
    split: if_splits)

definition demo_classified :: intent_classification where
  "demo_classified = projr (parse_classification (demo_client TransportFailed) (PStr ''{}''))"

lemma demo_parsed: "parse_classification (demo_client TransportFailed) (PStr ''{}'') = Inr demo_classified"
  "ic_risk_hint demo_classified = RH_READ_ONLY"
  by code_simp+

lemma labels_grant_nothing_witness:
  "dget demo_answer ''risk_hint'' \<in> {Some (PStr ''read_only''), Some (PStr ''low'')} \<and> ic_risk_hint demo_classified = RH_READ_ONLY"
proof -
  have "mc_loads (demo_client TransportFailed) (unfenced ''{}'') = Inr (PDict demo_answer)" by (simp add: demo_client_def)
  then show ?thesis using labels_grant_nothing [OF demo_reads(1) _ demo_parsed(1)] demo_parsed(2) by blast
qed

text \<open>An empty list of choices leaves the classifier as an \<open>IndexError\<close>.\<close>

definition demo_empty_answer :: "gateway_classification result \<times> unit gateway_state" where
  "demo_empty_answer = gateway_classify (demo_client (Responded 200 (Inr (PDict [(''choices'', PList [])])))) demo_gateway
     \<lparr>rpv_conversation = [], rpv_allowed_intents = [''faq''], rpv_known_slots = []\<rparr> \<lparr>gs_world = (), gs_posts = []\<rparr>"

lemma demo_empty_answer_raises: "fst demo_empty_answer = Inl IndexError"
  by code_simp

lemma gateway_errors_witness: "\<exists>e. fst demo_empty_answer = Inl e \<and> ((\<exists>m. e = ModelGatewayError m) \<or> e = IndexError)"
proof -
  have "0 < mg_retry_attempts demo_gateway" by (simp add: demo_gateway_def)
  then show ?thesis
    using gateway_errors [OF demo_reads(2)] demo_empty_answer_raises unfolding demo_empty_answer_def
    by (metis prod.collapse)
qed

end
