(* ===== verification/MessageEffects.thy ===== *)
theory MessageEffects
  imports MessageRun
begin

text \<open>
  What executing a message may do to the tables: the transactions on the runtime database as a step relation, and
  every action of the executor as a sequence of such steps. \<open>quiet\<close> actions leave the world outside, the tool
  calls and the tables of the mutations alone.
\<close>

section \<open>Actions inside a relation\<close>

definition inside :: "('w run_world \<Rightarrow> 'w run_world \<Rightarrow> bool) \<Rightarrow> ('a, 'w) action \<Rightarrow> bool" where
  "inside R m \<longleftrightarrow> (\<forall>w. R w (snd (m w)))"

lemma inside_mono: "inside R m \<Longrightarrow> (\<And>w w'. R w w' \<Longrightarrow> S w w') \<Longrightarrow> inside S m"
  by (simp add: inside_def)

lemma insideI: "(\<And>w r w'. m w = (r, w') \<Longrightarrow> R w w') \<Longrightarrow> inside R m"
  unfolding inside_def by (metis prod.collapse)

lemma insideD: "inside R m \<Longrightarrow> m w = (r, w') \<Longrightarrow> R w w'"
  by (metis inside_def snd_conv)

locale run_relation =
  fixes R :: "'w run_world \<Rightarrow> 'w run_world \<Rightarrow> bool"
  assumes refl: "R w w" and trans: "R a b \<Longrightarrow> R b c \<Longrightarrow> R a c"
begin

lemma give: "inside R (give x)"
  by (simp add: inside_def give_def refl)

lemma give_result: "inside R (give_result x)"
  by (simp add: inside_def give_result_def refl)

lemma observing: "inside R (observing f)"
  by (simp add: inside_def observing_def refl)

lemma and_then_if:
  assumes "inside R m" "\<And>x w w'. m w = (Inr x, w') \<Longrightarrow> inside R (f x)"
  shows "inside R (and_then m f)"
proof (rule insideI)
  fix w q w'
  assume run: "and_then m f w = (q, w')"
  obtain r w1 where e: "m w = (r, w1)" by force
  then have one: "R w w1" using assms(1) insideD by metis
  show "R w w'"
  proof (cases r)
    case (Inl x)
    then show ?thesis using run e one by (simp add: and_then_def)
  next
    case (Inr x)
    then have "R w1 w'" using run e assms(2) [of w x w1] insideD by (fastforce simp: and_then_def)
    then show ?thesis using one trans by blast
  qed
qed

lemma and_then: "inside R m \<Longrightarrow> (\<And>x. inside R (f x)) \<Longrightarrow> inside R (and_then m f)"
  by (rule and_then_if)

lemma catching: "inside R m \<Longrightarrow> (\<And>e. inside R (h e)) \<Longrightarrow> inside R (catching m h)"
  unfolding inside_def
proof
  fix w
  assume m: "\<forall>w. R w (snd (m w))" and h: "\<And>e. \<forall>w. R w (snd (h e w))"
  obtain r w1 where e: "m w = (r, w1)" by force
  then have "R w w1" using m by (metis snd_conv)
  moreover have "R w1 (snd (h x w1))" for x using h by blast
  ultimately show "R w (snd (catching m h w))" using trans by (cases r) (auto simp: catching_def e)
qed

lemma best_effort: "inside R m \<Longrightarrow> inside R (best_effort m)"
  by (simp add: inside_def best_effort_def)

lemma provided: "(b \<Longrightarrow> inside R m) \<Longrightarrow> inside R (provided b m)"
  by (simp add: provided_def give)

lemma choice: "(b \<Longrightarrow> inside R m) \<Longrightarrow> (\<not> b \<Longrightarrow> inside R n) \<Longrightarrow> inside R (if b then m else n)"
  by simp

lemma pair_case: "(\<And>a b. x = (a, b) \<Longrightarrow> inside R (f a b)) \<Longrightarrow> inside R (case x of (a, b) \<Rightarrow> f a b)"
  by (cases x) simp

lemma option_case:
  "(x = None \<Longrightarrow> inside R m) \<Longrightarrow> (\<And>y. x = Some y \<Longrightarrow> inside R (f y)) \<Longrightarrow>
     inside R (case x of None \<Rightarrow> m | Some y \<Rightarrow> f y)"
  by (cases x) simp_all

lemma named: "(\<And>y. y = x \<Longrightarrow> inside R (f y)) \<Longrightarrow> inside R (let y = x in f y)"
  by simp

lemmas rules = give give_result observing and_then catching best_effort provided choice pair_case option_case named

end

section \<open>Steps on the runtime database\<close>

text \<open>A \<open>note\<close> writes events, messages, tickets and marks; a \<open>quiet\<close> step may also move a run.\<close>

inductive note_step :: "runtime_db \<Rightarrow> runtime_db \<Rightarrow> bool" where
  event: "append_event ec now i run_id tenant t step payload db = (r, db') \<Longrightarrow> note_step db db'"
| dispatched: "mark_dispatch_started now run_id tenant db = (n, db') \<Longrightarrow> note_step db db'"
| marked: "mark_response_published now run_id tenant db = (n, db') \<Longrightarrow> note_step db db'"
| message: "append_assistant menv t content run db = (m, db') \<Longrightarrow> note_step db db'"
| message_once: "append_assistant_once menv t run_id content db = (m, db') \<Longrightarrow> note_step db db'"
| reason: "set_terminal_reason now run_id tenant why db = (n, db') \<Longrightarrow> note_step db db'"
| ticket: "create_ticket now i q db = (s, db') \<Longrightarrow> note_step db db'"
| audit: "append_audit now i tenant' actor s payload h db = (z, db') \<Longrightarrow> note_step db db'"

inductive quiet_step :: "runtime_db \<Rightarrow> runtime_db \<Rightarrow> bool" where
  noted: "note_step db db' \<Longrightarrow> quiet_step db db'"
| failed: "fail_runs now run_id tenant reason db = (n, db') \<Longrightarrow> quiet_step db db'"
| routed: "select_route now c d db = (u, db') \<Longrightarrow> quiet_step db db'"
| checkpoint: "commit_step now k db = (x, db') \<Longrightarrow> sc_completion k = None \<Longrightarrow> rc_run_id (sc_checkpoint k) = sc_run_id k \<Longrightarrow>
    rc_tenant_id (sc_checkpoint k) = sc_tenant_id k \<Longrightarrow> quiet_step db db'"

abbreviation runtime :: "'w run_world \<Rightarrow> runtime_db" where
  "runtime w \<equiv> rs_db (xw_store w)"

definition moving :: "(runtime_db \<Rightarrow> runtime_db \<Rightarrow> bool) \<Rightarrow> 'w run_world \<Rightarrow> 'w run_world \<Rightarrow> bool" where
  "moving S w w' \<longleftrightarrow> S\<^sup>*\<^sup>* (runtime w) (runtime w') \<and> xw_tools w' = xw_tools w \<and> xw_calls w' = xw_calls w \<and>
     xw_memory w' = xw_memory w"

lemma moving_relation: "run_relation (moving S)"
  by unfold_locales (auto simp: moving_def)

abbreviation noting :: "'w run_world \<Rightarrow> 'w run_world \<Rightarrow> bool" where
  "noting \<equiv> moving note_step"

abbreviation quiet :: "'w run_world \<Rightarrow> 'w run_world \<Rightarrow> bool" where
  "quiet \<equiv> moving quiet_step"

interpretation noting: run_relation "moving note_step"
  by (rule moving_relation)

interpretation quiet: run_relation "moving quiet_step"
  by (rule moving_relation)

lemma moving_runtime:
  assumes "\<And>now i db r db'. f now i db = (r, db') \<Longrightarrow> S\<^sup>*\<^sup>* db db'"
  shows "inside (moving S) (on_runtime env f)"
proof (rule insideI)
  fix w q w'
  assume run: "on_runtime env f w = (q, w')"
  obtain r db where "f (read_time (flow env) (xw_store w)) (draw_uuid (flow env) (xw_store w)) (runtime w) = (r, db)" by force
  then show "moving S w w'"
    using assms run by (auto simp: moving_def on_runtime_def on_repository_def transact_def tick_def)
qed

lemma moving_read: "inside (moving S) (on_repository (\<lambda>s. (f s, s)))"
  by (simp add: inside_def on_repository_def moving_def)

lemma moving_supply: "inside (moving S) (advance_supply n)"
  by (simp add: inside_def advance_supply_def on_repository_def moving_def)

lemma moving_releases: "inside (moving S) (on_releases f)"
  by (simp add: inside_def on_releases_def moving_def split: prod.splits)

lemma moving_skills: "inside (moving S) (on_skills f)"
  by (simp add: inside_def on_skills_def moving_def split: prod.splits)

lemma moving_failures: "inside (moving S) (on_failures f)"
  by (simp add: on_failures_def moving_skills)

lemma moving_registry: "inside (moving S) (on_registry env f)"
proof (rule insideI)
  fix w q w'
  assume run: "on_registry env f w = (q, w')"
  obtain r w1 where e: "on_skills (f (skill_env_at env (rs_tick (xw_store w)))) w = (r, w1)" by force
  have "moving S w w1" using e by (rule insideD [OF moving_skills])
  moreover have "moving S w1 (snd (advance_supply 2 w1))"
    using moving_supply [of S 2] unfolding inside_def by blast
  ultimately show "moving S w w'" using run_relation.trans [OF moving_relation] run by (auto simp: on_registry_def e)
qed

lemma moving_publish:
  assumes "\<And>penv c p db r db'. publish_terminal_response penv c p db = (r, db') \<Longrightarrow> S\<^sup>*\<^sup>* db db'"
  shows "inside (moving S) (publish env c preferred why retryable)"
proof (rule insideI)
  fix w q w'
  assume run: "publish env c preferred why retryable w = (q, w')"
  obtain y db where e: "publish_terminal_response (publication_at env (rs_tick (xw_store w))) c
      \<lparr>pu_status = None, pu_reason = why, pu_preferred = preferred, pu_retryable = retryable\<rparr> (runtime w) = (y, db)" by force
  then show "moving S w w'"
    using assms [OF e] run by (auto simp: publish_def on_repository_def moving_def)
qed

lemma announce_steps: "announce penv c p db = (r, db') \<Longrightarrow> note_step\<^sup>*\<^sup>* db db'"
  unfolding announce_def
  by (auto split: prod.splits sum.splits if_splits
    dest!: note_step.event note_step.marked intro: converse_rtranclp_into_rtranclp)

lemma publish_steps:
  assumes "publish_terminal_response penv c p db = (r, db')"
  shows "note_step\<^sup>*\<^sup>* db db'"
proof -
  obtain q db1 where q: "store_response penv c p db = (q, db1)" by force
  then have one: "note_step db db1"
    unfolding store_response_def by (auto split: if_splits intro: note_step.message note_step.message_once)
  obtain u db2 where u: "record_reason penv c p db1 = (u, db2)" by force
  then have two: "note_step\<^sup>*\<^sup>* db1 db2"
    unfolding record_reason_def by (auto split: if_splits prod.splits sum.splits intro: note_step.reason)
  obtain v db3 where v: "announce penv c p db2 = (v, db3)" by force
  then have three: "note_step\<^sup>*\<^sup>* db2 db3" by (rule announce_steps)
  have "db' \<in> {db1, db2, db3}"
    using assms unfolding publish_terminal_response_def by (auto simp: q u v split: sum.splits if_splits)
  then show ?thesis using one two three by (auto intro: converse_rtranclp_into_rtranclp rtranclp_trans)
qed

section \<open>Noting actions\<close>

lemma noting_runtime:
  assumes "\<And>now i db r db'. f now i db = (r, db') \<Longrightarrow> note_step db db'"
  shows "inside noting (on_runtime env f)"
  using assms by (intro moving_runtime) blast

lemma noting_observe: "inside noting (observe env q t step payload)"
  unfolding observe_def by (intro noting.rules noting_runtime) (rule note_step.event)

lemma noting_learn: "inside noting (learn_failure env tenant run_id status why route)"
  unfolding learn_failure_def by (intro noting.rules moving_failures moving_supply)

lemma noting_ticket: "inside noting (open_ticket env q why operation details)"
  unfolding open_ticket_def by (rule noting_runtime) (rule note_step.ticket)

lemma noting_publish: "inside noting (publish env c preferred why retryable)"
  by (rule moving_publish) (rule publish_steps)

lemmas noting_parts = noting.rules noting_observe noting_learn noting_ticket noting_publish moving_registry
  moving_failures moving_skills moving_releases moving_supply moving_read

lemma noting_release_assignment: "inside noting (record_release_assignment env q c v b risk)"
  unfolding record_release_assignment_def by (intro noting_parts)

lemma noting_safety: "inside noting (apply_safety env q)"
  unfolding apply_safety_def safety_audit_def Let_def
  by (intro noting_parts noting_runtime) (erule note_step.audit)

lemma noting_accept: "inside noting (accept_message env q c)"
  unfolding accept_message_def by (intro noting_parts noting_safety)

lemma noting_matching: "inside noting (matching_skill env s tenant route mode)"
proof (rule insideI)
  fix w q w'
  assume run: "matching_skill env s tenant route mode w = (q, w')"
  obtain l w1 where e: "on_registry env (\<lambda>k. candidates_for_match k tenant mode 100) w = (l, w1)" by force
  then have "noting w w1" using moving_registry insideD by metis
  then show "noting w w'" using run by (simp add: matching_skill_def e)
qed

lemma noting_store_match: "inside noting (store_match env tenant run_id m)"
  unfolding store_match_def by (rule moving_registry)

lemma noting_compare_skill: "inside noting (compare_skill env q c v r m)"
  unfolding compare_skill_def by (intro noting_parts noting_release_assignment)

lemma noting_note_skill: "inside noting (note_skill env q c v r x state)"
  unfolding note_skill_def by (intro noting_parts noting_matching noting_store_match noting_compare_skill)

lemma noting_choose_skill: "inside noting (choose_skill env q c route)"
  unfolding choose_skill_def apply_match_def read_records_def
  by (intro noting_parts noting_matching noting_store_match)

lemma noting_publish_readonly: "inside noting (publish_readonly env q x)"
  unfolding publish_readonly_def by (intro noting_parts noting_runtime) (erule note_step.reason)

lemma noting_workflow_failed: "inside noting (workflow_failed env q c x args e code)"
  unfolding workflow_failed_def by (intro noting_parts)

lemma noting_load: "inside noting (load_run_context q)"
  unfolding load_run_context_def by (intro noting_parts)

lemma noting_dispatch: "inside noting (note_dispatch env q)"
  unfolding note_dispatch_def by (intro noting_parts noting_runtime) (rule note_step.dispatched)

section \<open>Quiet actions\<close>

lemma noting_quiet: "inside noting m \<Longrightarrow> inside quiet m"
  by (erule inside_mono) (auto simp: moving_def quiet_step.noted elim: rtranclp_mono [THEN predicate2D, rotated])

lemma quiet_runtime:
  assumes "\<And>now i db r db'. f now i db = (r, db') \<Longrightarrow> quiet_step db db'"
  shows "inside quiet (on_runtime env f)"
  using assms by (intro moving_runtime) blast

lemma checkpoint_run_step:
  assumes "checkpoint_run renv c status nxt state events s = (r, s')"
  shows "quiet_step\<^sup>*\<^sup>* (rs_db s) (rs_db s')"
proof -
  obtain now n x db where e: "commit_step now (checkpoint_commit renv None c status nxt state events n) (rs_db s) = (x, db)"
    "rs_db s' = db"
    using assms by (auto simp: checkpoint_run_def commit_checkpoint_def Let_def split: prod.splits sum.splits)
  have "sc_completion (checkpoint_commit renv None c status nxt state events n) = None"
    "rc_run_id (sc_checkpoint (checkpoint_commit renv None c status nxt state events n)) = rc_run_id c"
    "rc_tenant_id (sc_checkpoint (checkpoint_commit renv None c status nxt state events n)) = rc_tenant_id c"
    by (simp_all add: checkpoint_commit_def checkpointed_context_def Let_def)
  then show ?thesis using quiet_step.checkpoint [OF e(1)] e(2) by simp
qed

lemma quiet_checkpoint: "inside quiet (checkpoint env c status nxt state events)"
proof (rule insideI)
  fix w q w'
  assume run: "checkpoint env c status nxt state events w = (q, w')"
  obtain r s where e: "checkpoint_run (repo env) c status nxt state events (xw_store w) = (r, s)" by force
  then show "quiet w w'"
    using checkpoint_run_step [OF e] run by (auto simp: checkpoint_def on_repository_def moving_def)
qed

lemma quiet_fail: "inside quiet (on_runtime env (\<lambda>now i. fail_runs now run_id tenant why))"
  by (rule quiet_runtime) (rule quiet_step.failed)

lemma quiet_select: "inside quiet (select_run_route env c d)"
  unfolding select_run_route_def by (rule quiet_runtime) (rule quiet_step.routed)

lemmas quiet_parts = quiet.rules quiet_checkpoint quiet_fail quiet_select noting_observe [THEN noting_quiet]
  noting_learn [THEN noting_quiet] noting_ticket [THEN noting_quiet] noting_publish [THEN noting_quiet]
  noting_release_assignment [THEN noting_quiet] noting_note_skill [THEN noting_quiet]

lemma noting_failed_event: "inside noting (on_runtime env (\<lambda>now i. append_event ec now i run_id tenant t step payload))"
  by (rule noting_runtime) (rule note_step.event)

lemma quiet_mark_failed: "inside quiet (mark_failed env q watched c why)"
  unfolding mark_failed_def by (intro quiet_parts noting_quiet [OF noting_failed_event])

lemma quiet_hand_off: "inside quiet (hand_off_route env q c v d)"
  unfolding hand_off_route_def by (intro quiet_parts)

lemma quiet_ask: "inside quiet (ask_customer env q c d)"
  unfolding ask_customer_def by (intro quiet_parts)

lemma quiet_unavailable: "inside quiet (classifier_unavailable env q c)"
  unfolding classifier_unavailable_def by (intro quiet_parts)

lemma quiet_reply: "inside quiet (reply_to_customer env q c d x)"
  unfolding reply_to_customer_def by (intro quiet_parts)

lemma quiet_settle: "inside quiet (settle_route env q c k d shadow)"
  unfolding settle_route_def by (intro quiet_parts)

section \<open>What quiet steps keep\<close>

lemma transaction_keeps:
  assumes "transaction db r = (x, db')" "\<And>y d. r = Inr (y, d) \<Longrightarrow> P d" "P db"
  shows "P db'"
  using assms by (auto simp: transaction_def split: sum.splits)

definition guard_tables_kept :: "runtime_db \<Rightarrow> runtime_db \<Rightarrow> bool" where
  "guard_tables_kept db db' \<longleftrightarrow> db_idempotency db' = db_idempotency db \<and> db_tokens db' = db_tokens db"

definition table_ok :: "runtime_db \<Rightarrow> bool" where
  "table_ok db \<longleftrightarrow> runs_ok (db_runs db) \<and> list_all run_widths (db_runs db)"

lemma update_runs_table:
  assumes "update_runs p f db = Inr (n, db')"
  shows "guard_tables_kept db db'" "table_ok db \<Longrightarrow> table_ok db'"
  using assms by (auto simp: update_runs_Inr guard_tables_kept_def table_ok_def update_rows_def list_all_iff)

lemma runs_transaction:
  assumes "transaction db (update_runs p f db) = (x, db')"
  shows "guard_tables_kept db db' \<and> (table_ok db \<longrightarrow> table_ok db')"
  using assms update_runs_table by (auto simp: transaction_def guard_tables_kept_def split: sum.splits)

lemma new_message_table:
  "new_message env t role content run_id client_id final db = Inr (r, db') \<Longrightarrow>
     guard_tables_kept db db' \<and> db_runs db' = db_runs db"
  by (auto simp: new_message_def Let_def bind_res_eq_Inr insert_message_def touch_conversation_def guard_tables_kept_def
    split: if_splits)

lemma append_assistant_table:
  "append_assistant env t content run db = (m, db') \<Longrightarrow> guard_tables_kept db db' \<and> db_runs db' = db_runs db"
  unfolding append_assistant_def
  by (erule transaction_keeps) (auto simp: bind_res_eq_Inr guard_tables_kept_def dest!: new_message_table)

lemma append_once_table:
  "append_assistant_once env t run_id content db = (m, db') \<Longrightarrow> guard_tables_kept db db' \<and> db_runs db' = db_runs db"
  unfolding append_assistant_once_def
  by (erule transaction_keeps) (auto simp: bind_res_eq_Inr guard_tables_kept_def split: list.splits dest!: new_message_table)

lemma append_event_table:
  "append_event ec now i run_id tenant t step payload db = (r, db') \<Longrightarrow> guard_tables_kept db db' \<and> db_runs db' = db_runs db"
  unfolding append_event_def
  by (erule transaction_keeps)
    (auto simp: bind_res_eq_Inr Let_def guard_tables_kept_def split: option.splits dest!: insert_event_Inr)

lemma select_route_table:
  "select_route now c d db = (r, db') \<Longrightarrow> guard_tables_kept db db' \<and> (table_ok db \<longrightarrow> table_ok db')"
  unfolding select_route_def
  by (auto simp: guard_tables_kept_def split: if_splits sum.splits prod.splits dest!: runs_transaction)

lemma commit_step_rows: "commit_step now k db = (x, db') \<Longrightarrow> table_ok db \<Longrightarrow> table_ok db'"
  using commit_step_cases [of now k db x db'] commit_step_widths [of now k db x db'] by (auto simp: table_ok_def)

lemma commit_step_table:
  assumes "commit_step now k db = (x, db')" "sc_completion k = None"
  shows "guard_tables_kept db db' \<and> (table_ok db \<longrightarrow> table_ok db')"
  using commit_step_cases [OF assms(1)] commit_step_rows [OF assms(1)]
  by (auto simp: guard_tables_kept_def commit_effect_def Let_def completed_rows_def assms(2))

lemma note_step_table: "note_step db db' \<Longrightarrow> guard_tables_kept db db' \<and> (table_ok db \<longrightarrow> table_ok db')"
proof (induction rule: note_step.induct)
  case (ticket now i q db s db')
  then show ?case using create_ticket_frame [of now i q db s db'] by (simp add: guard_tables_kept_def table_ok_def)
next
  case (audit now i tenant' actor s payload h db z db')
  then show ?case using append_audit_frame [of now i tenant' actor s payload h db z db'] by (simp add: guard_tables_kept_def table_ok_def)
next
  case (event ec now i run_id tenant t step payload db r db')
  then show ?case using append_event_table by (fastforce simp: table_ok_def)
next
  case (message menv t content run db m db')
  then show ?case using append_assistant_table by (fastforce simp: table_ok_def)
next
  case (message_once menv t run_id content db m db')
  then show ?case using append_once_table by (fastforce simp: table_ok_def)
qed (auto simp: mark_dispatch_started_def mark_response_published_def set_terminal_reason_def dest!: runs_transaction)

lemma quiet_step_table: "quiet_step db db' \<Longrightarrow> guard_tables_kept db db' \<and> (table_ok db \<longrightarrow> table_ok db')"
proof (induction rule: quiet_step.induct)
  case (noted db db')
  then show ?case by (rule note_step_table)
next
  case (failed now run_id tenant reason db n db')
  then show ?case unfolding fail_runs_def by (rule runs_transaction)
next
  case (routed now c d db u db')
  then show ?case by (rule select_route_table)
next
  case (checkpoint now k db x db')
  then show ?case using commit_step_table by blast
qed

lemma quiet_steps_table: "quiet_step\<^sup>*\<^sup>* db db' \<Longrightarrow> guard_tables_kept db db' \<and> (table_ok db \<longrightarrow> table_ok db')"
  by (induction rule: rtranclp_induct) (auto simp: guard_tables_kept_def dest!: quiet_step_table)

lemma quiet_guards: "quiet w w' \<Longrightarrow> guard_tables_kept (runtime w) (runtime w')"
  unfolding moving_def using quiet_steps_table by blast

lemma quiet_table: "quiet w w' \<Longrightarrow> table_ok (runtime w) \<Longrightarrow> table_ok (runtime w')"
  unfolding moving_def using quiet_steps_table by blast

section \<open>Blocked messages\<close>

lemma blocked_verdict:
  assumes "judge_message env content = Inr v" "sa_hard_block (detect content)"
  shows "blocked v \<and> escalated v"
  using assms by (auto simp: judge_message_def bind_res_eq_Inr safety_route_of_def Let_def blocked_def escalated_def)

lemma apply_safety_verdict: "apply_safety env q w = (Inr v, w') \<Longrightarrow> judge_message env (qr_content q) = Inr v"
  by (auto simp: apply_safety_def and_then_def give_result_def give_def split: prod.splits sum.splits)

lemma plain_route:
  assumes "escalated v"
  shows "inside quiet (route_message env q c v)"
  unfolding route_message_def using assms by (simp, intro quiet_parts)

lemma escalated_route:
  assumes "route_message env q c v w = (Inr r, w')" "escalated v"
  shows "rd_outcome (ro_decision r) = RO_HANDOFF"
  using assms
  by (auto simp: route_message_def and_then_def give_def give_result_def plain_routing_def safety_decision_def
    make_route_decision_Inr bind_res_eq_Inr split: prod.splits sum.splits if_splits)

lemma accept_verdict: "accept_message env q c w = (Inr v, w') \<Longrightarrow> judge_message env (qr_content q) = Inr v"
  by (auto simp: accept_message_def and_then_def dest!: apply_safety_verdict split: prod.splits sum.splits)

lemma blocked_process:
  assumes "sa_hard_block (detect (qr_content q))"
  shows "inside quiet (process_message env q c)"
  unfolding process_message_def
proof (intro quiet.and_then_if [OF noting_accept [THEN noting_quiet]])
  fix v w w'
  assume "accept_message env q c w = (Inr v, w')"
  then have "escalated v" using accept_verdict blocked_verdict assms by blast
  then show "inside quiet (and_then (route_message env q c v) (follow_route env q c v))"
  proof (intro quiet.and_then_if [OF plain_route])
    fix r w w'
    assume "route_message env q c v w = (Inr r, w')"
    then have "rd_outcome (ro_decision r) = RO_HANDOFF" using \<open>escalated v\<close> by (rule escalated_route)
    then show "inside quiet (follow_route env q c v r)" by (simp add: follow_route_def quiet_hand_off)
  qed
qed

lemma quiet_handler:
  "inside quiet (case e of ModelGatewayError msg \<Rightarrow> classifier_unavailable env q c
      | _ \<Rightarrow> mark_failed env q True c ''UNEXPECTED_EXECUTION_ERROR'')"
  by (cases e) (simp_all add: quiet_unavailable quiet_mark_failed)

lemma blocked_run:
  assumes "sa_hard_block (detect (qr_content q))"
  shows "inside quiet (execute_message_run env q)"
  unfolding execute_message_run_def run_accepted_message_def
  by (intro quiet.rules noting_load [THEN noting_quiet] noting_dispatch [THEN noting_quiet] quiet_mark_failed
    blocked_process [OF assms] quiet_handler)

text \<open>C3: a blocked message stays inside. Whatever run a message continues and whatever the settings, the releases
  and the registry say, a message in which the deterministic detector finds a hard block reaches no model, no tool
  and no external system, and leaves every confirmation token and every mutation intent as they are.\<close>

theorem blocked_message_stays_inside:
  assumes "sa_hard_block (detect (qr_content q))" "execute_message_run env q w = (r, w')"
  shows "xw_tools w' = xw_tools w \<and> xw_calls w' = xw_calls w \<and> xw_memory w' = xw_memory w \<and>
    db_tokens (runtime w') = db_tokens (runtime w) \<and> db_idempotency (runtime w') = db_idempotency (runtime w)"
  using insideD [OF blocked_run [OF assms(1)] assms(2)] quiet_guards [of w w'] by (simp add: moving_def guard_tables_kept_def)

section \<open>Failing settles a run\<close>

definition settled :: "string \<Rightarrow> string \<Rightarrow> runtime_db \<Rightarrow> bool" where
  "settled run_id tenant db \<longleftrightarrow> (\<forall>r\<in>set (db_runs db). owned_run run_id tenant r \<longrightarrow> run_terminal (rr_status r))"

text \<open>Every row of the run is failed, or one was already terminal.\<close>

definition failed_or_over :: "string \<Rightarrow> string \<Rightarrow> runtime_db \<Rightarrow> runtime_db \<Rightarrow> bool" where
  "failed_or_over run_id tenant db db' \<longleftrightarrow>
     (\<exists>r\<in>set (db_runs db). owned_run run_id tenant r \<and> run_terminal (rr_status r)) \<or>
     (\<forall>r\<in>set (db_runs db'). owned_run run_id tenant r \<longrightarrow> rr_status r = RS_FAILED)"

definition same_statuses :: "runtime_db \<Rightarrow> runtime_db \<Rightarrow> bool" where
  "same_statuses db db' \<longleftrightarrow> map (\<lambda>r. (rr_run_id r, rr_tenant_id r, rr_status r, rr_mode r)) (db_runs db') =
     map (\<lambda>r. (rr_run_id r, rr_tenant_id r, rr_status r, rr_mode r)) (db_runs db)"

lemma same_statuses_transaction:
  assumes "transaction db (update_runs p f db) = (x, db')"
    "\<And>r. rr_run_id (f r) = rr_run_id r \<and> rr_tenant_id (f r) = rr_tenant_id r \<and> rr_status (f r) = rr_status r \<and> rr_mode (f r) = rr_mode r"
  shows "same_statuses db db'"
  using assms
  by (auto simp: transaction_def update_runs_Inr same_statuses_def map_update_rows_same split: sum.splits)

lemma touch_times_fields [simp]:
  "rr_run_id (touch_times now f r) = rr_run_id r" "rr_tenant_id (touch_times now f r) = rr_tenant_id r"
  "rr_status (touch_times now f r) = rr_status r" "rr_mode (touch_times now f r) = rr_mode r"
  by (simp_all add: touch_times_def)

lemma note_step_statuses: "note_step db db' \<Longrightarrow> same_statuses db db'"
proof (induction rule: note_step.induct)
  case (ticket now i q db s db')
  then show ?case using create_ticket_frame [of now i q db s db'] by (simp add: same_statuses_def)
next
  case (audit now i tenant' actor s payload h db z db')
  then show ?case using append_audit_frame [of now i tenant' actor s payload h db z db'] by (simp add: same_statuses_def)
next
  case (event ec now i run_id tenant t step payload db r db')
  then show ?case using append_event_table by (fastforce simp: same_statuses_def)
next
  case (message menv t content run db m db')
  then show ?case using append_assistant_table by (fastforce simp: same_statuses_def)
next
  case (message_once menv t run_id content db m db')
  then show ?case using append_once_table by (fastforce simp: same_statuses_def)
qed (auto simp: mark_dispatch_started_def mark_response_published_def set_terminal_reason_def elim: same_statuses_transaction)

lemma note_steps_statuses: "note_step\<^sup>*\<^sup>* db db' \<Longrightarrow> same_statuses db db'"
  by (induction rule: rtranclp_induct) (auto simp: same_statuses_def dest!: note_step_statuses)

lemma noting_statuses: "noting w w' \<Longrightarrow> same_statuses (runtime w) (runtime w')"
  unfolding moving_def using note_steps_statuses by blast

lemma noting_table: "noting w w' \<Longrightarrow> table_ok (runtime w) \<Longrightarrow> table_ok (runtime w')"
proof -
  assume "noting w w'" "table_ok (runtime w)"
  then show ?thesis unfolding moving_def
    by (elim conjE rtranclp_induct [where P = table_ok]) (simp_all add: note_step_table)
qed

lemma same_statuses_rows:
  assumes "same_statuses db db'" "r' \<in> set (db_runs db')"
  shows "\<exists>r\<in>set (db_runs db). rr_run_id r = rr_run_id r' \<and> rr_tenant_id r = rr_tenant_id r' \<and> rr_status r = rr_status r' \<and>
    rr_mode r = rr_mode r'"
proof -
  have "(rr_run_id r', rr_tenant_id r', rr_status r', rr_mode r') \<in>
      set (map (\<lambda>r. (rr_run_id r, rr_tenant_id r, rr_status r, rr_mode r)) (db_runs db'))" using assms(2) by force
  then show ?thesis unfolding assms(1) [unfolded same_statuses_def] by auto
qed

lemma settled_statuses: "same_statuses db db' \<Longrightarrow> settled run_id tenant db \<Longrightarrow> settled run_id tenant db'"
  unfolding settled_def owned_run_def by (metis same_statuses_rows)

lemma failed_or_over_statuses:
  "same_statuses db1 db' \<Longrightarrow> failed_or_over run_id tenant db db1 \<Longrightarrow> failed_or_over run_id tenant db db'"
  unfolding failed_or_over_def owned_run_def by (metis same_statuses_rows)

text \<open>The statement of \<open>_mark_failed\<close> keeps every constraint of the table.\<close>

lemma failed_row_checks:
  assumes "run_checks r" "run_widths r" "py_len why \<le> 128"
  shows "run_checks (failed_row now why r)" "run_widths (failed_row now why r)" "executor_selection_kept r (failed_row now why r)"
  using assms
  by (auto simp: failed_row_def touch_times_def run_checks_def executor_shape_def mode_matches_status_def run_widths_def
    executor_selection_kept_def py_len_def)

lemma one_active_fewer:
  assumes "\<And>r. rr_conversation_id (f r) = rr_conversation_id r" "\<And>r. p r \<Longrightarrow> run_terminal (rr_status (f r))"
    "distinct (map rr_conversation_id (filter (\<lambda>r. \<not> run_terminal (rr_status r)) rows))"
  shows "distinct (map rr_conversation_id (filter (\<lambda>r. \<not> run_terminal (rr_status r)) (update_rows p f rows)))"
proof -
  have "filter (\<lambda>r. \<not> run_terminal (rr_status r)) (update_rows p f rows) =
      filter (\<lambda>r. \<not> p r) (filter (\<lambda>r. \<not> run_terminal (rr_status r)) rows)"
    using assms(2) by (induction rows) auto
  then show ?thesis using distinct_map_filter [OF assms(3)] by simp
qed

lemma fail_runs_settles:
  assumes "table_ok db" "py_len why \<le> 128"
  shows "\<exists>n db'. fail_runs now run_id tenant why db = (Inr n, db') \<and> settled run_id tenant db' \<and> table_ok db' \<and>
    failed_or_over run_id tenant db db'"
proof -
  let ?p = "failable run_id tenant" and ?f = "failed_row now why"
  have ok: "runs_ok (db_runs db)" "list_all run_widths (db_runs db)" using assms(1) by (simp_all add: table_ok_def)
  have each: "\<And>r. r \<in> set (db_runs db) \<Longrightarrow> run_checks r \<and> run_widths r" using ok by (auto simp: runs_ok_def list_all_iff)
  have "list_all run_checks (update_rows ?p ?f (db_runs db))"
    using each failed_row_checks(1) assms(2) by (auto simp: list_all_iff update_rows_def)
  moreover have "map rr_run_id (update_rows ?p ?f (db_runs db)) = map rr_run_id (db_runs db)"
    by (rule map_update_rows_same) (simp add: failed_row_def)
  moreover have "one_active_run (update_rows ?p ?f (db_runs db))"
    using ok(1) unfolding one_active_run_def runs_ok_def
    by (intro one_active_fewer) (auto simp: failed_row_def touch_times_def run_terminal_def)
  ultimately have "runs_ok (update_rows ?p ?f (db_runs db))" using ok(1) by (simp add: runs_ok_def)
  then have u: "update_runs ?p ?f db = Inr (row_count ?p (db_runs db), db\<lparr>db_runs := update_rows ?p ?f (db_runs db)\<rparr>)"
    using each failed_row_checks assms(2) by (auto simp: update_runs_Inr list_all_iff)
  have "settled run_id tenant (db\<lparr>db_runs := update_rows ?p ?f (db_runs db)\<rparr>)"
    by (auto simp: settled_def update_rows_def failable_def failed_row_def run_terminal_def)
  moreover have "failed_or_over run_id tenant db (db\<lparr>db_runs := update_rows ?p ?f (db_runs db)\<rparr>)"
    by (auto simp: failed_or_over_def update_rows_def failable_def failed_row_def)
  ultimately show ?thesis using u update_runs_table(2) [OF u assms(1)] by (simp add: fail_runs_def)
qed

lemma and_then_Inr: "m w = (Inr x, w') \<Longrightarrow> and_then m f w = f x w'"
  by (simp add: and_then_def)

lemma best_effort_Inr: "best_effort m w = (Inr (), snd (m w))"
  by (simp add: best_effort_def)

lemma learn_failure_Inr: "\<exists>w'. learn_failure env tenant run_id status why route w = (Inr (), w')"
  by (auto simp: learn_failure_def Let_def and_then_def observing_def best_effort_def advance_supply_def on_repository_def)

lemma catching_best_effort_Inr: "\<exists>w'. catching m (\<lambda>_. best_effort h) w = (Inr (), w')"
proof -
  obtain r w1 where "m w = (r, w1)" by force
  then show ?thesis by (cases r) (auto simp: catching_def best_effort_def)
qed

lemma mark_failed_settles:
  assumes "table_ok (runtime w)" "py_len why \<le> 128"
  shows "\<exists>w'. mark_failed env q watched c why w = (Inr (), w') \<and> settled (rc_run_id c) (rc_tenant_id c) (runtime w') \<and>
    table_ok (runtime w') \<and> failed_or_over (rc_run_id c) (rc_tenant_id c) (runtime w) (runtime w')"
proof -
  let ?now = "read_time (flow env) (xw_store w)"
  obtain n db where db: "fail_runs ?now (rc_run_id c) (rc_tenant_id c) why (runtime w) = (Inr n, db)"
    "settled (rc_run_id c) (rc_tenant_id c) db" "table_ok db" "failed_or_over (rc_run_id c) (rc_tenant_id c) (runtime w) db"
    using fail_runs_settles [OF assms] by blast
  define w1 where "w1 = w\<lparr>xw_store := tick ((xw_store w)\<lparr>rs_db := db\<rparr>)\<rparr>"
  have one: "on_runtime env (\<lambda>now i. fail_runs now (rc_run_id c) (rc_tenant_id c) why) w = (Inr n, w1)"
    by (simp add: on_runtime_def on_repository_def transact_def db(1) w1_def)
  define rest where "rest = (\<lambda>_ :: nat. and_then (catching
       (publish env (c\<lparr>rc_status := RS_FAILED, rc_state := dset (rc_state c) ''last_step_reason'' (PStr why)\<rparr>)
          None (Some why) None)
       (\<lambda>_. best_effort (on_runtime env (\<lambda>now i. append_event (rv_codec (repo env)) now i (rc_run_id c) (rc_tenant_id c)
          ET_TERMINAL_RESPONSE_PUBLISH_FAILED ''terminal'' [(''reason_code'', PStr why)])))) (\<lambda>_.
     and_then (provided watched (observe env q ET_FAILED ''terminal'' [(''reason'', PStr why)])) (\<lambda>_.
       learn_failure env (rc_tenant_id c) (rc_run_id c) ''failed'' why (Some (state_route env (rc_state c))))))"
  have m: "mark_failed env q watched c why w = rest n w1"
    unfolding mark_failed_def rest_def using one by (rule and_then_Inr)
  have "inside noting (rest n)" unfolding rest_def by (intro noting_parts noting_failed_event)
  moreover obtain w' where w': "rest n w1 = (Inr (), w')"
  proof -
    obtain w2 where x: "catching
       (publish env (c\<lparr>rc_status := RS_FAILED, rc_state := dset (rc_state c) ''last_step_reason'' (PStr why)\<rparr>)
          None (Some why) None)
       (\<lambda>_. best_effort (on_runtime env (\<lambda>now i. append_event (rv_codec (repo env)) now i (rc_run_id c) (rc_tenant_id c)
          ET_TERMINAL_RESPONSE_PUBLISH_FAILED ''terminal'' [(''reason_code'', PStr why)]))) w1 = (Inr (), w2)"
      by (rule exE [OF catching_best_effort_Inr])
    obtain w3 where y: "provided watched (observe env q ET_FAILED ''terminal'' [(''reason'', PStr why)]) w2 = (Inr (), w3)"
      by (cases watched) (simp_all add: provided_def give_def observe_def best_effort_def)
    have "rest n w1 = learn_failure env (rc_tenant_id c) (rc_run_id c) ''failed'' why (Some (state_route env (rc_state c))) w3"
      unfolding rest_def by (simp add: and_then_def x y)
    then show ?thesis using learn_failure_Inr that by metis
  qed
  ultimately have "noting w1 w'" by (metis insideD)
  moreover have "runtime w1 = db" by (simp add: w1_def tick_def)
  ultimately have "settled (rc_run_id c) (rc_tenant_id c) (runtime w')" "table_ok (runtime w')"
    "failed_or_over (rc_run_id c) (rc_tenant_id c) (runtime w) (runtime w')"
    using noting_statuses [of w1 w'] noting_table [of w1 w'] settled_statuses failed_or_over_statuses db(2-4) by simp_all
  then show ?thesis using m w' by simp
qed

section \<open>What is left after an error\<close>

lemma accepted_error:
  assumes "note_dispatch env q w = (Inr (), w0)" "load_run_context q w0 = (Inr c, w1)"
    "process_message env q c w1 = (Inl e, w2)" "table_ok (runtime w2)"
    "\<forall>m. e \<noteq> ModelGatewayError m"
  shows "\<exists>w'. run_accepted_message env q w = (Inr (), w') \<and> settled (rc_run_id c) (rc_tenant_id c) (runtime w') \<and>
    failed_or_over (rc_run_id c) (rc_tenant_id c) (runtime w2) (runtime w')"
proof -
  have "run_accepted_message env q w = mark_failed env q True c ''UNEXPECTED_EXECUTION_ERROR'' w2"
    using assms(5) by (cases e) (simp_all add: run_accepted_message_def and_then_def catching_def assms(1-3))
  moreover have "py_len ''UNEXPECTED_EXECUTION_ERROR'' \<le> 128" by code_simp
  ultimately show ?thesis using mark_failed_settles [OF assms(4)] by metis
qed

lemma execute_accepted: "run_accepted_message env q w = (Inr (), w') \<Longrightarrow> execute_message_run env q w = (Inr (), w')"
  by (simp add: execute_message_run_def catching_def)

lemma open_ticket_error: "open_ticket env q why operation details w = (Inl e, w') \<Longrightarrow> e \<noteq> ModelGatewayError m"
  unfolding open_ticket_def on_runtime_def on_repository_def transact_def create_ticket_def insert_ticket_def
  by (auto simp: transaction_def bind_res_def Let_def split: if_splits prod.splits sum.splits)

lemma workflow_failed_raises:
  "\<exists>e w'. workflow_failed env q c x args err code w = (Inl e, w') \<and> (\<forall>m. e \<noteq> ModelGatewayError m)"
proof -
  obtain r w1 where r: "provided (code \<noteq> ''MISSING_SLOTS'')
         (and_then (open_ticket env q code (mutation_type_for_route x)
            (dict_update [(''mutation_error'', PStr code), (''message'', PStr (xe_error_text env err))]
              (given_detail env args ''order_id'' @ given_detail env args ''item_id''))) (\<lambda>ticket.
          learn_failure env (qr_tenant_id q) (qr_run_id q) ''waiting_human'' code (rc_workflow_id c))) w = (r, w1)" by force
  have "e \<noteq> ModelGatewayError m" if "r = Inl e" for e m
  proof -
    let ?t = "open_ticket env q code (mutation_type_for_route x)
            (dict_update [(''mutation_error'', PStr code), (''message'', PStr (xe_error_text env err))]
              (given_detail env args ''order_id'' @ given_detail env args ''item_id'')) w"
    obtain u w2 where u: "?t = (u, w2)" by force
    then have "u = Inl e"
      using r that learn_failure_Inr [of env "qr_tenant_id q" "qr_run_id q" "''waiting_human''" code "rc_workflow_id c" w2]
      by (cases u) (auto simp: provided_def give_def and_then_def split: if_splits)
    then show ?thesis using u open_ticket_error by blast
  qed
  then show ?thesis by (cases r) (auto simp: workflow_failed_def and_then_def give_result_def r)
qed

lemma mutation_args_kept:
  assumes "note_skill env q c v r x (executing_state c d x) w = (Inr state, w')"
  shows "dget state ''mutation_args'' = dget (rc_state c) ''mutation_args''"
proof -
  have e: "dget (executing_state c d x) ''mutation_args'' = dget (rc_state c) ''mutation_args''"
    by (simp add: executing_state_def policy_entries_def dict_update_def)
  have "dget (matched_state s m) ''mutation_args'' = dget s ''mutation_args''" for s m
    by (simp add: matched_state_def match_fields_def dict_update_def)
  then have "state = executing_state c d x \<or> (\<exists>m. state = matched_state (executing_state c d x) m)"
    using assms
    by (auto simp: note_skill_def Let_def and_then_def observing_def catching_def best_effort_def give_def observe_def
      split: if_splits prod.splits sum.splits option.splits)
  then show ?thesis using e \<open>\<And>s m. dget (matched_state s m) _ = _\<close> by auto
qed

section \<open>The state a message leaves\<close>

text \<open>Every checkpoint is of the run it is stored for, in the tenant of that run.\<close>

definition checkpoints_ok :: "runtime_db \<Rightarrow> bool" where
  "checkpoints_ok db \<longleftrightarrow> (\<forall>x\<in>set (db_checkpoints db). rc_run_id (cp_state x) = cp_run_id x \<and>
     (\<forall>r\<in>set (db_runs db). rr_run_id r = cp_run_id x \<longrightarrow> rr_tenant_id r = rc_tenant_id (cp_state x)))"

definition same_identities :: "runtime_db \<Rightarrow> runtime_db \<Rightarrow> bool" where
  "same_identities db db' \<longleftrightarrow> db_checkpoints db' = db_checkpoints db \<and>
     map (\<lambda>r. (rr_run_id r, rr_tenant_id r)) (db_runs db') = map (\<lambda>r. (rr_run_id r, rr_tenant_id r)) (db_runs db)"

lemma same_identities_refl [simp]: "same_identities db db"
  by (simp add: same_identities_def)

lemma same_identities_ok: "same_identities db db' \<Longrightarrow> checkpoints_ok db \<Longrightarrow> checkpoints_ok db'"
proof -
  assume same: "same_identities db db'" and ok: "checkpoints_ok db"
  have "\<exists>r\<in>set (db_runs db). rr_run_id r = rr_run_id r' \<and> rr_tenant_id r = rr_tenant_id r'" if "r' \<in> set (db_runs db')" for r'
  proof -
    have "(rr_run_id r', rr_tenant_id r') \<in> set (map (\<lambda>r. (rr_run_id r, rr_tenant_id r)) (db_runs db'))" using that by force
    then show ?thesis using same unfolding same_identities_def by auto
  qed
  then show ?thesis using same ok unfolding same_identities_def checkpoints_ok_def by metis
qed

lemma identities_transaction:
  assumes "transaction db (update_runs p f db) = (x, db')"
    "\<And>r. rr_run_id (f r) = rr_run_id r \<and> rr_tenant_id (f r) = rr_tenant_id r"
  shows "same_identities db db'"
  using assms
  by (auto simp: transaction_def update_runs_Inr same_identities_def map_update_rows_same split: sum.splits)

lemma append_event_checkpoints:
  "append_event ec now i run_id tenant t step payload db = (r, db') \<Longrightarrow> db_checkpoints db' = db_checkpoints db"
  unfolding append_event_def
  by (erule transaction_keeps) (auto simp: bind_res_eq_Inr Let_def split: option.splits dest!: insert_event_Inr)

lemma new_message_checkpoints:
  "new_message env t role content run_id client_id final db = Inr (r, db') \<Longrightarrow> db_checkpoints db' = db_checkpoints db"
  by (auto simp: new_message_def Let_def bind_res_eq_Inr insert_message_def touch_conversation_def split: if_splits)

lemma append_assistant_checkpoints:
  "append_assistant env t content run db = (m, db') \<Longrightarrow> db_checkpoints db' = db_checkpoints db"
  unfolding append_assistant_def
  by (erule transaction_keeps) (auto simp: bind_res_eq_Inr dest!: new_message_checkpoints)

lemma append_once_checkpoints:
  "append_assistant_once env t run_id content db = (m, db') \<Longrightarrow> db_checkpoints db' = db_checkpoints db"
  unfolding append_assistant_once_def
  by (erule transaction_keeps) (auto simp: bind_res_eq_Inr split: list.splits dest!: new_message_checkpoints)

lemma note_step_identities: "note_step db db' \<Longrightarrow> same_identities db db'"
proof (induction rule: note_step.induct)
  case (ticket now i q db s db')
  then show ?case using create_ticket_frame [of now i q db s db'] by (simp add: same_identities_def)
next
  case (audit now i tenant' actor s payload h db z db')
  then show ?case using append_audit_frame [of now i tenant' actor s payload h db z db'] by (simp add: same_identities_def)
next
  case (event ec now i run_id tenant t step payload db r db')
  then show ?case using append_event_table append_event_checkpoints by (fastforce simp: same_identities_def)
next
  case (message menv t content run db m db')
  then show ?case using append_assistant_table append_assistant_checkpoints by (fastforce simp: same_identities_def)
next
  case (message_once menv t run_id content db m db')
  then show ?case using append_once_table append_once_checkpoints by (fastforce simp: same_identities_def)
qed (auto simp: mark_dispatch_started_def mark_response_published_def set_terminal_reason_def elim: identities_transaction)

lemma commit_effect_checkpoints_ok:
  assumes c: "select_one (commit_target k) (db_runs db) = Some current" "distinct (map rr_run_id (db_runs db))"
      "db' = commit_effect now k current db"
    and ok: "checkpoints_ok db" "rc_run_id (sc_checkpoint k) = sc_run_id k" "rc_tenant_id (sc_checkpoint k) = sc_tenant_id k"
  shows "checkpoints_ok db'"
proof -
  have cur: "current \<in> set (db_runs db)" "rr_run_id current = sc_run_id k" "rr_tenant_id current = sc_tenant_id k"
    using select_one_Some [OF c(1)] by (auto dest: commit_targetD)
  have same: "map (\<lambda>r. (rr_run_id r, rr_tenant_id r)) (db_runs db') = map (\<lambda>r. (rr_run_id r, rr_tenant_id r)) (db_runs db)"
    unfolding c(3) effect_runs by (rule map_update_rows_same) simp
  have rows: "\<exists>r\<in>set (db_runs db). rr_run_id r = rr_run_id r' \<and> rr_tenant_id r = rr_tenant_id r'" if "r' \<in> set (db_runs db')" for r'
  proof -
    have "(rr_run_id r', rr_tenant_id r') \<in> set (map (\<lambda>r. (rr_run_id r, rr_tenant_id r)) (db_runs db'))" using that by force
    then show ?thesis unfolding same by auto
  qed
  have own: "rr_tenant_id r = sc_tenant_id k" if "r \<in> set (db_runs db)" "rr_run_id r = sc_run_id k" for r
    using that cur c(2) by (metis same_run)
  have new: "db_checkpoints db' = db_checkpoints db @ [checkpoint_row_of k (rr_checkpoint_seq current + 1) (last_event_seq (sc_run_id k) db + 1)]"
    unfolding c(3) commit_effect_def Let_def by simp
  show ?thesis unfolding checkpoints_ok_def new
  proof (intro ballI)
    fix y
    assume "y \<in> set (db_checkpoints db @ [checkpoint_row_of k (rr_checkpoint_seq current + 1) (last_event_seq (sc_run_id k) db + 1)])"
    then consider "y \<in> set (db_checkpoints db)" | "cp_run_id y = sc_run_id k" "cp_state y = sc_checkpoint k"
      by (auto simp: checkpoint_row_of_def)
    then show "rc_run_id (cp_state y) = cp_run_id y \<and>
        (\<forall>r\<in>set (db_runs db'). rr_run_id r = cp_run_id y \<longrightarrow> rr_tenant_id r = rc_tenant_id (cp_state y))"
    proof cases
      case 1
      then show ?thesis using ok(1) rows unfolding checkpoints_ok_def by metis
    next
      case 2
      then show ?thesis using own rows ok(2,3) by metis
    qed
  qed
qed

lemma commit_checkpoints_ok:
  assumes "commit_step now k db = (x, db')" "checkpoints_ok db"
    "rc_run_id (sc_checkpoint k) = sc_run_id k" "rc_tenant_id (sc_checkpoint k) = sc_tenant_id k"
  shows "checkpoints_ok db'"
  using commit_step_cases [OF assms(1)] commit_effect_checkpoints_ok assms(2-4) by blast

definition stored_ok :: "runtime_db \<Rightarrow> bool" where
  "stored_ok db \<longleftrightarrow> table_ok db \<and> checkpoints_ok db"

lemma quiet_step_ok: "quiet_step db db' \<Longrightarrow> stored_ok db \<Longrightarrow> stored_ok db'"
proof -
  assume step: "quiet_step db db'" and ok: "stored_ok db"
  from step have "checkpoints_ok db \<longrightarrow> checkpoints_ok db'"
  proof (induction rule: quiet_step.induct)
    case (noted db db')
    then show ?case using note_step_identities same_identities_ok by blast
  next
    case (failed now run_id tenant reason db n db')
    have "same_identities db db'"
      using failed unfolding fail_runs_def by (rule identities_transaction) (simp add: failed_row_def)
    then show ?case using same_identities_ok by blast
  next
    case (routed now c d db u db')
    have "same_identities db db'"
      using routed unfolding select_route_def
      by (auto simp: route_update_def split: if_splits sum.splits prod.splits route_outcome.splits option.splits
        elim!: identities_transaction)
    then show ?case using same_identities_ok by blast
  next
    case (checkpoint now k db x db')
    then show ?case using commit_checkpoints_ok by blast
  qed
  then show ?thesis using quiet_step_table [OF step] ok by (simp add: stored_ok_def)
qed

lemma latest_of_run:
  assumes "load_latest_checkpoint run_id tenant db = Some c" "checkpoints_ok db"
  shows "rc_run_id c = run_id \<and> rc_tenant_id c = tenant"
proof -
  have row: "list_ex (owned_run run_id tenant) (db_runs db)"
    using assms(1) by (auto simp: load_latest_checkpoint_def split: if_splits)
  let ?cs = "filter (\<lambda>c. cp_run_id c = run_id) (db_checkpoints db)"
  obtain x xs where x: "rev (sort_key cp_seq ?cs) = x # xs" "c = cp_state x"
    using assms(1) by (auto simp: load_latest_checkpoint_def split: if_splits list.splits)
  have "x \<in> set (rev (sort_key cp_seq ?cs))" unfolding x(1) by simp
  then have "x \<in> set (db_checkpoints db)" "cp_run_id x = run_id" by auto
  then show ?thesis using assms(2) row x(2) by (auto simp: checkpoints_ok_def list_ex_iff owned_run_def)
qed

end
