(* ===== verification/MessageOutcomes.thy ===== *)
theory MessageOutcomes
  imports MessageEffects
begin

text \<open>
  What is left of a run when handling its message goes wrong: \<open>execute_message_run\<close> of
  \<open>orchestration/demo_run_executor.py\<close> around the errors of the mutation workflow, an answered clarification and the
  errors that leave the inner handler.
\<close>

section \<open>What the database of a message goes through\<close>

text \<open>Unlike a quiet action, one that asks the classifier may change the model and the tools.\<close>

definition storing :: "(runtime_db \<Rightarrow> runtime_db \<Rightarrow> bool) \<Rightarrow> 'w run_world \<Rightarrow> 'w run_world \<Rightarrow> bool" where
  "storing S w w' \<longleftrightarrow> S\<^sup>*\<^sup>* (runtime w) (runtime w')"

lemma storing_relation: "run_relation (storing S)"
  by unfold_locales (auto simp: storing_def)

interpretation storing: run_relation "storing quiet_step"
  by (rule storing_relation)

lemma moving_storing: "inside (moving S) m \<Longrightarrow> inside (storing S) m"
  by (erule inside_mono) (simp add: moving_def storing_def)

lemma storing_tools: "inside (storing S) (on_tools f)"
  by (simp add: inside_def on_tools_def storing_def split: prod.splits)

lemma storing_ask: "inside (storing quiet_step) (ask_classifier env q c rules)"
  unfolding ask_classifier_def by (intro storing.rules storing_tools)

lemma storing_route: "inside (storing quiet_step) (route_message env q c v)"
  unfolding route_message_def route_by_classifier_def Let_def
  by (intro storing.rules storing_ask moving_storing [OF quiet_settle] moving_storing [OF noting_quiet [OF noting_observe]]
    moving_storing [OF noting_quiet [OF noting_release_assignment]])

lemma storing_table: "storing quiet_step w w' \<Longrightarrow> table_ok (runtime w) \<Longrightarrow> table_ok (runtime w')"
  using quiet_steps_table by (auto simp: storing_def)

lemma storing_accept: "inside (storing quiet_step) (accept_message env q c)"
  by (rule moving_storing [OF noting_quiet [OF noting_accept]])

section \<open>Errors of the mutation workflow\<close>

lemma note_skill_Inr: "\<exists>state w'. note_skill env q c v r x s w = (Inr state, w')"
proof -
  have handled: "\<exists>y w'. catching m (\<lambda>_. give s) w = (Inr y, w')" for m w
    by (cases "m w") (auto simp: catching_def give_def split: sum.splits)
  show ?thesis
    by (simp add: note_skill_def Let_def and_then_def observing_def) (use handled in \<open>auto simp: give_def\<close>)
qed

definition plan_of_message :: "'w run_env \<Rightarrow> run_request \<Rightarrow> run_context \<Rightarrow> route_decision \<Rightarrow> string \<Rightarrow> string \<Rightarrow> mutation_preview result" where
  "plan_of_message env q c d x t =
     prepare_plan (we_repr (flow env)) default_demo_orders t (rc_actor_id c) (workflow_arguments c d x (qr_content q)) ''phase4-policy-v1''"

lemma workflow_arguments_state:
  "dget state ''mutation_args'' = dget (rc_state c) ''mutation_args'' \<Longrightarrow>
     workflow_arguments (executing_context c d state) d x content = workflow_arguments c d x content"
  by (cases "mutation_type_for_route x") (simp_all add: workflow_arguments_def executing_context_def)

lemma plan_error_raises:
  assumes "rd_execution_mode (ro_decision r) = Some EM_WORKFLOW" "rd_workflow_id (ro_decision r) = Some x"
    "rd_response_policy (ro_decision r) \<notin> {RP_CONVERSATIONAL_RESPONSE, RP_GRACEFUL_UNSUPPORTED}"
    "mutation_type_for_route x = Some t"
    "plan_of_message env q c (ro_decision r) x t = Inl (MutationPlanningError code missing)"
  shows "\<exists>e w'. execute_route env q c v r w = (Inl e, w') \<and> (\<forall>m. e \<noteq> ModelGatewayError m) \<and> noting w w'"
proof -
  let ?d = "ro_decision r"
  obtain state w1 where s: "note_skill env q c v r x (executing_state c ?d x) w = (Inr state, w1)"
    using note_skill_Inr by blast
  define c' where "c' = executing_context c ?d state"
  have c': "workflow_arguments c' ?d x (qr_content q) = workflow_arguments c ?d x (qr_content q)" "rc_actor_id c' = rc_actor_id c"
    using mutation_args_kept [OF s] by (simp_all add: c'_def workflow_arguments_state) (simp add: executing_context_def)
  define args where "args = workflow_arguments c ?d x (qr_content q)"
  have "prepare_mutation (flow env) c' t args z = (Inl (MutationWorkflowError code missing), z)" for z
    using assms(5) c' by (simp add: prepare_mutation_def plan_of_message_def args_def plan_error_def)
  then have "try_workflow env q c' x args w1 = (Inl (MutationWorkflowError code missing), w1)"
    by (simp add: try_workflow_def assms(4) prepare_for_customer_def and_then_def on_repository_def)
  then have "run_workflow env q c' ?d x w1 = workflow_failed env q c' x args (MutationWorkflowError code missing) code w1"
    by (simp add: run_workflow_def Let_def catching_def c' args_def)
  moreover obtain e w' where f: "workflow_failed env q c' x args (MutationWorkflowError code missing) code w1 = (Inl e, w')"
    "\<forall>m. e \<noteq> ModelGatewayError m" using workflow_failed_raises by blast
  ultimately have "execute_route env q c v r w = (Inl e, w')"
    using assms(1-3) by (simp add: execute_route_def Let_def and_then_def s flip: c'_def)
  moreover have "noting w w1" "noting w1 w'"
    using insideD [OF noting_note_skill s] insideD [OF noting_workflow_failed f(1)] by blast+
  ultimately show ?thesis using f(2) noting.trans by blast
qed

lemma failed_or_over_earlier:
  "same_statuses db db1 \<Longrightarrow> failed_or_over run_id tenant db1 db' \<Longrightarrow> failed_or_over run_id tenant db db'"
proof -
  assume same: "same_statuses db db1" and later: "failed_or_over run_id tenant db1 db'"
  show ?thesis
  proof (cases "\<exists>r\<in>set (db_runs db1). owned_run run_id tenant r \<and> run_terminal (rr_status r)")
    case True
    then obtain r where r: "r \<in> set (db_runs db1)" "owned_run run_id tenant r" "run_terminal (rr_status r)" by blast
    obtain r' where "r' \<in> set (db_runs db)" "rr_run_id r' = rr_run_id r" "rr_tenant_id r' = rr_tenant_id r"
      "rr_status r' = rr_status r" using same_statuses_rows [OF same r(1)] by blast
    then show ?thesis using r(2,3) unfolding failed_or_over_def owned_run_def by (intro disjI1 bexI [of _ r']) simp_all
  next
    case False
    then show ?thesis using later unfolding failed_or_over_def by blast
  qed
qed

text \<open>C11: an error of the mutation planner fails the run. When the planner refuses the mutation a message asks for
  (no order of this id, missing arguments, an unknown item), the handler ends without an exception, but the run is
  not waiting for a person or for the customer, as the branches of that handler intend: every row of the run that
  was not terminal is failed, whatever else the handler stored before.\<close>

theorem planner_error_fails_run:
  assumes "table_ok (runtime w)"
    "note_dispatch env q w = (Inr (), w0)" "load_run_context q w0 = (Inr c, w1)"
    "accept_message env q c w1 = (Inr v, w2)" "route_message env q c v w2 = (Inr r, w3)"
    "rd_outcome (ro_decision r) = RO_EXECUTE" "rd_execution_mode (ro_decision r) = Some EM_WORKFLOW"
    "rd_workflow_id (ro_decision r) = Some x"
    "rd_response_policy (ro_decision r) \<notin> {RP_CONVERSATIONAL_RESPONSE, RP_GRACEFUL_UNSUPPORTED}"
    "mutation_type_for_route x = Some t"
    "plan_of_message env q c (ro_decision r) x t = Inl (MutationPlanningError code missing)"
  shows "\<exists>w'. execute_message_run env q w = (Inr (), w') \<and> settled (rc_run_id c) (rc_tenant_id c) (runtime w') \<and>
    failed_or_over (rc_run_id c) (rc_tenant_id c) (runtime w3) (runtime w')"
proof -
  obtain e w4 where e: "execute_route env q c v r w3 = (Inl e, w4)" "\<forall>m. e \<noteq> ModelGatewayError m" "noting w3 w4"
    using plan_error_raises [OF assms(7-11)] by blast
  have "storing quiet_step w w3"
    using insideD [OF moving_storing [OF noting_quiet [OF noting_dispatch]] assms(2)]
      insideD [OF moving_storing [OF noting_quiet [OF noting_load]] assms(3)]
      insideD [OF storing_accept assms(4)] insideD [OF storing_route assms(5)] storing.trans by metis
  then have "table_ok (runtime w4)" using storing_table noting_table e(3) assms(1) by metis
  moreover have "process_message env q c w1 = (Inl e, w4)"
    by (simp add: process_message_def and_then_def assms(4,5) follow_route_def assms(6) e(1))
  ultimately obtain w' where w': "run_accepted_message env q w = (Inr (), w')"
      "settled (rc_run_id c) (rc_tenant_id c) (runtime w')"
      "failed_or_over (rc_run_id c) (rc_tenant_id c) (runtime w4) (runtime w')"
    using accepted_error [OF assms(2,3)] e(2) by blast
  have "failed_or_over (rc_run_id c) (rc_tenant_id c) (runtime w3) (runtime w')"
    using w'(3) noting_statuses [OF e(3)] failed_or_over_earlier by blast
  then show ?thesis using execute_accepted [OF w'(1)] w'(2) by blast
qed

section \<open>An answered clarification\<close>

definition all_waiting :: "string \<Rightarrow> string \<Rightarrow> 'w run_world \<Rightarrow> bool" where
  "all_waiting run_id tenant w \<longleftrightarrow>
     (\<forall>r\<in>set (db_runs (runtime w)). owned_run run_id tenant r \<longrightarrow> rr_status r = RS_WAITING_USER)"

text \<open>Raising for a run that waits, with nothing stored before but notes.\<close>

definition always_raises :: "string \<Rightarrow> string \<Rightarrow> ('a, 'w) action \<Rightarrow> bool" where
  "always_raises run_id tenant m \<longleftrightarrow>
     (\<forall>w. all_waiting run_id tenant w \<longrightarrow> (\<exists>e w'. m w = (Inl e, w') \<and> storing note_step w w'))"

interpretation noted: run_relation "storing note_step"
  by (rule storing_relation)

lemma storing_statuses: "storing note_step w w' \<Longrightarrow> same_statuses (runtime w) (runtime w')"
  unfolding storing_def by (rule note_steps_statuses)

lemma all_waiting_storing: "storing note_step w w' \<Longrightarrow> all_waiting run_id tenant w \<Longrightarrow> all_waiting run_id tenant w'"
  unfolding all_waiting_def owned_run_def using storing_statuses same_statuses_rows by metis

lemma raises_later:
  assumes "inside (storing note_step) m" "\<And>x. always_raises run_id tenant (f x)"
  shows "always_raises run_id tenant (and_then m f)"
  unfolding always_raises_def
proof (intro allI impI)
  fix w :: "'a run_world"
  assume w: "all_waiting run_id tenant w"
  obtain r w1 where m: "m w = (r, w1)" by force
  then have one: "storing note_step w w1" using assms(1) insideD by metis
  show "\<exists>e w'. and_then m f w = (Inl e, w') \<and> storing note_step w w'"
  proof (cases r)
    case (Inl e)
    then show ?thesis using m one by (simp add: and_then_def)
  next
    case (Inr x)
    have "all_waiting run_id tenant w1" using all_waiting_storing [OF one w] .
    then obtain e w' where "f x w1 = (Inl e, w')" "storing note_step w1 w'" using assms(2) unfolding always_raises_def by blast
    then show ?thesis using m Inr one noted.trans by (auto simp: and_then_def)
  qed
qed

lemma raises_now: "always_raises run_id tenant m \<Longrightarrow> always_raises run_id tenant (and_then m f)"
  unfolding always_raises_def and_then_def by fastforce

lemma select_waiting:
  assumes "rc_run_id c = run_id" "rc_tenant_id c = tenant"
  shows "always_raises run_id tenant (select_run_route env c d)"
  unfolding always_raises_def
proof (intro allI impI)
  fix w :: "'a run_world"
  assume "all_waiting run_id tenant w"
  then have none: "\<not> selects_executor (rc_run_id c) (rc_tenant_id c) r" if "r \<in> set (db_runs (runtime w))" for r
    using that assms by (auto simp: all_waiting_def selects_executor_def owned_run_def)
  have "\<exists>e. select_route now (c\<lparr>rc_status := RS_ROUTING\<rparr>) d (runtime w) = (Inl e, runtime w)" for now
  proof -
    let ?p = "selects_executor (rc_run_id c) (rc_tenant_id c)"
    have "filter ?p (db_runs (runtime w)) = []" using none by (simp add: filter_empty_conv)
    moreover have "update_rows ?p f (db_runs (runtime w)) = db_runs (runtime w)" for f
      unfolding update_rows_def by (rule map_idI) (simp add: none)
    ultimately have u: "(\<exists>e. update_runs ?p f (runtime w) = Inl e) \<or> update_runs ?p f (runtime w) = Inr (0, runtime w)" for f
      by (cases "runtime w") (simp add: update_runs_def Let_def)
    show ?thesis
    proof (cases "route_update now d")
      case (Inr f)
      then show ?thesis using u [of f] by (auto simp: select_route_def transaction_def)
    qed (simp add: select_route_def)
  qed
  then obtain e where "select_route (read_time (flow env) (xw_store w)) (c\<lparr>rc_status := RS_ROUTING\<rparr>) d (runtime w) = (Inl e, runtime w)"
    by blast
  then show "\<exists>e w'. select_run_route env c d w = (Inl e, w') \<and> storing note_step w w'"
    by (auto simp: select_run_route_def on_runtime_def on_repository_def transact_def storing_def tick_def split: prod.splits)
qed

lemma raises_pure: "(\<And>w. \<exists>e. m w = (Inl e, w)) \<Longrightarrow> always_raises run_id tenant m"
  unfolding always_raises_def storing_def by fastforce

lemma raises_given: "(\<And>y. x = Inr y \<Longrightarrow> always_raises run_id tenant (f y)) \<Longrightarrow> always_raises run_id tenant (and_then (give_result x) f)"
  by (cases x) (auto simp: always_raises_def and_then_def give_result_def storing_def)

lemma storing_note: "inside noting m \<Longrightarrow> inside (storing note_step) m"
  by (rule moving_storing)

lemma waiting_ask: "inside (storing note_step) (ask_classifier env q c rules)"
  unfolding ask_classifier_def by (intro noted.rules storing_tools)

lemmas noted_parts = storing_note [OF noting_observe] storing_note [OF noting_release_assignment] waiting_ask

lemma route_by_classifier_raises:
  "rc_run_id c = run_id \<Longrightarrow> rc_tenant_id c = tenant \<Longrightarrow> always_raises run_id tenant (route_by_classifier env q c k)"
  unfolding route_by_classifier_def settle_route_def Let_def
  by (intro raises_later raises_given noted_parts raises_now [OF select_waiting])

lemma unavailable_raises:
  "rc_run_id c = run_id \<Longrightarrow> rc_tenant_id c = tenant \<Longrightarrow> always_raises run_id tenant (classifier_unavailable env q c)"
  unfolding classifier_unavailable_def by (intro raises_given raises_now [OF select_waiting])

lemma always_raisesD:
  "always_raises run_id tenant m \<Longrightarrow> all_waiting run_id tenant w \<Longrightarrow> \<exists>e w'. m w = (Inl e, w') \<and> storing note_step w w'"
  by (simp add: always_raises_def)

lemma process_raises:
  assumes "rc_run_id c = run_id" "rc_tenant_id c = tenant" "\<not> continues c"
    "\<forall>v. judge_message env (qr_content q) = Inr v \<longrightarrow> \<not> escalated v" "all_waiting run_id tenant w"
  shows "\<exists>e w'. process_message env q c w = (Inl e, w') \<and> storing note_step w w'"
proof -
  obtain x w1 where a: "accept_message env q c w = (x, w1)" by force
  have one: "storing note_step w w1" using insideD [OF storing_note [OF noting_accept] a] .
  show ?thesis
  proof (cases x)
    case (Inl e)
    then show ?thesis using a one by (simp add: process_message_def and_then_def)
  next
    case (Inr v)
    then have "\<not> escalated v" using accept_verdict [of env q c w v w1] a assms(4) by blast
    then have "route_message env q c v = and_then (route_by_classifier env q c (vd_risk v))
       (\<lambda>r. and_then
          (if ro_recorded r then give None
           else record_release_assignment env q c (routes_view (ro_decision r) (ro_shadow r)) True (ra_risk_level (vd_risk v)))
          (\<lambda>_. give r))"
      using assms(3) by (simp add: route_message_def)
    then have "always_raises run_id tenant (and_then (route_message env q c v) (follow_route env q c v))"
      using raises_now [OF raises_now [OF route_by_classifier_raises [OF assms(1,2)]]] by simp
    then obtain e w' where "and_then (route_message env q c v) (follow_route env q c v) w1 = (Inl e, w')" "storing note_step w1 w'"
      using always_raisesD all_waiting_storing [OF one assms(5)] by blast
    then show ?thesis using a Inr one noted.trans by (auto simp: process_message_def and_then_def)
  qed
qed

section \<open>The outer handler\<close>

lemma latest_identities: "same_identities db db' \<Longrightarrow> load_latest_checkpoint run_id tenant db' = load_latest_checkpoint run_id tenant db"
proof -
  assume same: "same_identities db db'"
  have rows: "list_ex (owned_run run_id tenant) rs = ((run_id, tenant) \<in> set (map (\<lambda>r. (rr_run_id r, rr_tenant_id r)) rs))" for rs
    by (auto simp: list_ex_iff owned_run_def)
  show ?thesis using same unfolding load_latest_checkpoint_def rows same_identities_def by simp
qed

lemma note_steps_identities: "note_step\<^sup>*\<^sup>* db db' \<Longrightarrow> same_identities db db'"
  by (induction rule: rtranclp_induct) (auto simp: same_identities_def dest: note_step_identities)

lemma storing_identities: "storing note_step w w' \<Longrightarrow> same_identities (runtime w) (runtime w')"
  unfolding storing_def by (rule note_steps_identities)

lemma recovered_identity:
  assumes "recovery_context q (load_latest_checkpoint (qr_run_id q) (qr_tenant_id q) db) = Inr c" "checkpoints_ok db"
  shows "rc_run_id c = qr_run_id q \<and> rc_tenant_id c = qr_tenant_id q"
  using assms latest_of_run [of "qr_run_id q" "qr_tenant_id q" db]
  by (auto simp: recovery_context_def bind_res_eq_Inr make_context_def new_context_def split: option.splits if_splits)

lemma outer_settles:
  assumes "run_accepted_message env q w = (Inl e, w1)" "valid_run_context (new_context q)" "stored_ok (runtime w1)"
  shows "\<exists>w'. execute_message_run env q w = (Inr (), w') \<and> settled (qr_run_id q) (qr_tenant_id q) (runtime w') \<and>
    failed_or_over (qr_run_id q) (qr_tenant_id q) (runtime w1) (runtime w')"
proof -
  let ?found = "load_latest_checkpoint (qr_run_id q) (qr_tenant_id q) (runtime w1)"
  obtain c where c: "recovery_context q ?found = Inr c"
    using assms(2) by (auto simp: recovery_context_def make_context_def)
  have id: "rc_run_id c = qr_run_id q" "rc_tenant_id c = qr_tenant_id q"
    using recovered_identity [OF c] assms(3) by (simp_all add: stored_ok_def)
  have "execute_message_run env q w = best_effort (mark_failed env q False c ''UNEXPECTED_EXECUTION_ERROR'') w1"
    by (simp add: execute_message_run_def catching_def assms(1) and_then_def observing_def give_result_def c)
  then have "execute_message_run env q w = (Inr (), snd (mark_failed env q False c ''UNEXPECTED_EXECUTION_ERROR'' w1))"
    by (simp add: best_effort_def)
  moreover have "py_len ''UNEXPECTED_EXECUTION_ERROR'' \<le> 128" by code_simp
  ultimately show ?thesis using mark_failed_settles [of w1 "''UNEXPECTED_EXECUTION_ERROR''" env q False c] assms(3) id
    by (auto simp: stored_ok_def)
qed

lemma note_stored_ok: "storing note_step w w' \<Longrightarrow> stored_ok (runtime w) \<Longrightarrow> stored_ok (runtime w')"
proof -
  assume "storing note_step w w'" "stored_ok (runtime w)"
  then have "note_step\<^sup>*\<^sup>* (runtime w) (runtime w')" "stored_ok (runtime w)" by (simp_all add: storing_def)
  then show ?thesis by (induction rule: rtranclp_induct) (auto dest: quiet_step_ok [OF quiet_step.noted])
qed

lemma failed_or_over_waiting:
  assumes "failed_or_over run_id tenant (runtime w) (runtime w')" "all_waiting run_id tenant w"
  shows "\<forall>r\<in>set (db_runs (runtime w')). owned_run run_id tenant r \<longrightarrow> rr_status r = RS_FAILED"
proof -
  have "\<not> run_terminal RS_WAITING_USER" by code_simp
  then show ?thesis using assms unfolding failed_or_over_def all_waiting_def by metis
qed

text \<open>A clarification is resumed as a running workflow that has no workflow to continue.\<close>

lemma resumed_clarification:
  assumes "load_latest_checkpoint (qr_run_id q) (qr_tenant_id q) (runtime w) = Some k" "rc_status k = RS_WAITING_USER"
    "rc_workflow_id k = None" "load_run_context q w = (Inr c, w')"
  shows "w' = w \<and> rc_run_id c = rc_run_id k \<and> rc_tenant_id c = rc_tenant_id k \<and> \<not> continues c"
  using assms
  by (auto simp: load_run_context_def and_then_def on_repository_def resume_run_def resumed_context_def give_result_def continues_def
    split: if_splits sum.splits)

lemma clarification_run:
  assumes "stored_ok (runtime w)" "all_waiting (qr_run_id q) (qr_tenant_id q) w"
    "load_latest_checkpoint (qr_run_id q) (qr_tenant_id q) (runtime w) = Some k" "rc_status k = RS_WAITING_USER"
    "rc_workflow_id k = None" "\<forall>v. judge_message env (qr_content q) = Inr v \<longrightarrow> \<not> escalated v"
    "run_accepted_message env q w = (x, w')"
  shows "(x = Inr () \<and> failed_or_over (qr_run_id q) (qr_tenant_id q) (runtime w) (runtime w')) \<or>
    ((\<exists>e. x = Inl e) \<and> storing note_step w w')"
proof -
  obtain w0 where w0: "note_dispatch env q w = (Inr (), w0)" by (simp add: note_dispatch_def best_effort_def)
  have s0: "storing note_step w w0" using insideD [OF storing_note [OF noting_dispatch] w0] .
  have latest: "load_latest_checkpoint (qr_run_id q) (qr_tenant_id q) (runtime w0) = Some k"
    using latest_identities [OF storing_identities [OF s0]] assms(3) by simp
  have id: "rc_run_id k = qr_run_id q" "rc_tenant_id k = qr_tenant_id q"
    using latest_of_run [OF assms(3)] assms(1) by (simp_all add: stored_ok_def)
  obtain y w1 where load: "load_run_context q w0 = (y, w1)" by force
  have s1: "storing note_step w w1" using insideD [OF storing_note [OF noting_load] load] s0 noted.trans by blast
  show ?thesis
  proof (cases y)
    case (Inl e)
    then have "run_accepted_message env q w = (Inl e, w1)" by (simp add: run_accepted_message_def and_then_def w0 load)
    then show ?thesis using assms(7) s1 by simp
  next
    case (Inr c)
    have c: "rc_run_id c = qr_run_id q" "rc_tenant_id c = qr_tenant_id q" "\<not> continues c"
      using resumed_clarification [OF latest assms(4,5) load [unfolded Inr]] id by simp_all
    obtain e w2 where p: "process_message env q c w1 = (Inl e, w2)" "storing note_step w1 w2"
      using process_raises [OF c assms(6) all_waiting_storing [OF s1 assms(2)]] by blast
    have s2: "storing note_step w w2" using s1 p(2) noted.trans by blast
    have run: "run_accepted_message env q w = (case e of ModelGatewayError msg \<Rightarrow> classifier_unavailable env q c
          | _ \<Rightarrow> mark_failed env q True c ''UNEXPECTED_EXECUTION_ERROR'') w2"
      by (simp add: run_accepted_message_def and_then_def w0 load Inr catching_def p(1))
    show ?thesis
    proof (cases "\<exists>m. e = ModelGatewayError m")
      case True
      then have "run_accepted_message env q w = classifier_unavailable env q c w2" using run by auto
      moreover obtain e' w3 where "classifier_unavailable env q c w2 = (Inl e', w3)" "storing note_step w2 w3"
        using always_raisesD [OF unavailable_raises [OF c(1,2)] all_waiting_storing [OF s2 assms(2)]] by blast
      ultimately show ?thesis using assms(7) s2 noted.trans by auto
    next
      case False
      then have "run_accepted_message env q w = mark_failed env q True c ''UNEXPECTED_EXECUTION_ERROR'' w2"
        using run by (cases e) simp_all
      moreover have "py_len ''UNEXPECTED_EXECUTION_ERROR'' \<le> 128" by code_simp
      moreover have "table_ok (runtime w2)" using note_stored_ok [OF s2 assms(1)] by (simp add: stored_ok_def)
      ultimately have "x = Inr () \<and> failed_or_over (qr_run_id q) (qr_tenant_id q) (runtime w2) (runtime w')"
        using mark_failed_settles [of w2 "''UNEXPECTED_EXECUTION_ERROR''" env q True c] assms(7) c(1,2) by auto
      then show ?thesis using failed_or_over_earlier [OF storing_statuses [OF s2]] by blast
    qed
  qed
qed

text \<open>C12: an answered clarification fails its run. \<open>ask_customer\<close> leaves a run that waits for its customer without a
  workflow. When the customer answers, the run is resumed as a running workflow, so the message is routed again; but
  the row still waits for its customer, and the route can only be stored for a run that was not routed before. Whatever
  the answer says and whatever the classifier makes of it, unless the message is escalated, the run ends as failed.\<close>

theorem answered_clarification_fails:
  assumes "stored_ok (runtime w)" "valid_run_context (new_context q)" "all_waiting (qr_run_id q) (qr_tenant_id q) w"
    "load_latest_checkpoint (qr_run_id q) (qr_tenant_id q) (runtime w) = Some k" "rc_status k = RS_WAITING_USER"
    "rc_workflow_id k = None" "\<forall>v. judge_message env (qr_content q) = Inr v \<longrightarrow> \<not> escalated v"
    "execute_message_run env q w = (x, w')"
  shows "x = Inr () \<and> (\<forall>r\<in>set (db_runs (runtime w')). owned_run (qr_run_id q) (qr_tenant_id q) r \<longrightarrow> rr_status r = RS_FAILED)"
proof -
  obtain y w1 where run: "run_accepted_message env q w = (y, w1)" by force
  then consider "y = Inr ()" "failed_or_over (qr_run_id q) (qr_tenant_id q) (runtime w) (runtime w1)"
    | e where "y = Inl e" "storing note_step w w1"
    using clarification_run [OF assms(1,3-7) run] by blast
  then have "x = Inr () \<and> failed_or_over (qr_run_id q) (qr_tenant_id q) (runtime w) (runtime w')"
  proof cases
    case 1
    then show ?thesis using execute_accepted [of env q w w1] run assms(8) by simp
  next
    case 2
    have "stored_ok (runtime w1)" using note_stored_ok [OF 2(2) assms(1)] .
    then show ?thesis
      using outer_settles [OF run [unfolded 2(1)] assms(2)] assms(8) failed_or_over_earlier [OF storing_statuses [OF 2(2)]] by auto
  qed
  then show ?thesis using failed_or_over_waiting assms(3) by blast
qed

end
