(* ===== verification/MessageGuards.thy ===== *)
theory MessageGuards
  imports MessageOutcomes
begin

text \<open>
  What any message may do: the read-only agent, a prepared mutation and a low-risk request as steps on the runtime
  database, whatever they return, and from there what holds of every execution of
  \<open>orchestration/demo_run_executor.py\<close>.
\<close>

section \<open>Steps of a message\<close>

definition low_risk_operations :: "string list" where
  "low_risk_operations = map low_risk_operation low_risk_routes"

text \<open>No step consumes, rotates or rejects a confirmation token; intents are those of low-risk operations.\<close>

inductive message_step :: "runtime_db \<Rightarrow> runtime_db \<Rightarrow> bool" where
  quiet: "quiet_step db db' \<Longrightarrow> message_step db db'"
| issued: "issue_token now i t db = (r, db') \<Longrightarrow> message_step db db'"
| reserved: "reserve_intent h i expires db = (r, db') \<Longrightarrow> mi_operation i \<in> set low_risk_operations \<Longrightarrow> message_step db db'"
| claimed: "claim_intent i db = (r, db') \<Longrightarrow> mi_operation i \<in> set low_risk_operations \<Longrightarrow> message_step db db'"
| completed: "commit_step now k db = (x, db') \<Longrightarrow> rc_run_id (sc_checkpoint k) = sc_run_id k \<Longrightarrow>
    rc_tenant_id (sc_checkpoint k) = sc_tenant_id k \<Longrightarrow> message_step db db'"

definition shipped_read :: "string \<times> pydict \<Rightarrow> bool" where
  "shipped_read x \<longleftrightarrow> (\<exists>spec\<in>set all_tool_specs. ts_name spec = fst x \<and> ts_risk spec = TR_READ_ONLY)"

definition guarded :: "'w run_world \<Rightarrow> 'w run_world \<Rightarrow> bool" where
  "guarded w w' \<longleftrightarrow> message_step\<^sup>*\<^sup>* (runtime w) (runtime w') \<and>
     (\<exists>new. tst_calls (xw_tools w') = tst_calls (xw_tools w) @ new \<and> list_all shipped_read new)"

lemma guarded_relation: "run_relation guarded"
proof
  show "guarded w w" for w :: "'w run_world" by (simp add: guarded_def)
next
  fix a b c :: "'w run_world"
  assume "guarded a b" "guarded b c"
  then show "guarded a c" by (auto simp: guarded_def intro: rtranclp_trans)
qed

interpretation guarded: run_relation guarded
  by (rule guarded_relation)

lemma quiet_steps_message: "quiet_step\<^sup>*\<^sup>* db db' \<Longrightarrow> message_step\<^sup>*\<^sup>* db db'"
  by (induction rule: rtranclp_induct) (auto intro: message_step.quiet rtranclp.rtrancl_into_rtrancl)

lemma quiet_guarded: "inside quiet m \<Longrightarrow> inside guarded m"
  by (erule inside_mono) (auto simp: moving_def guarded_def intro: quiet_steps_message)

lemma guarded_same_calls:
  assumes "message_step\<^sup>*\<^sup>* (runtime w) (runtime w')" "tst_calls (xw_tools w') = tst_calls (xw_tools w)"
  shows "guarded w w'"
  using assms by (simp add: guarded_def)

lemma guarded_ask: "inside guarded (ask_classifier env q c rules)"
  unfolding ask_classifier_def
proof (intro guarded.rules insideI guarded_same_calls)
  fix p :: routing_prompt_view and w w' :: "'a run_world" and r
  assume "on_tools (on_world (classify (xe_classifier env) c p)) w = (r, w')"
  then show "message_step\<^sup>*\<^sup>* (runtime w) (runtime w')" "tst_calls (xw_tools w') = tst_calls (xw_tools w)"
    by (auto simp: on_tools_def on_world_def split: prod.splits)
qed

section \<open>Mutations\<close>

lemma execute_claimed_related:
  assumes "execute_claimed i adapter keep after st = (r, st')" "\<And>m s u s'. keep m s = (u, s') \<Longrightarrow> R s s'"
    "\<And>s. R s s"
  shows "R (bs_store st) (bs_store st')"
  using assms(1) assms(2) [of _ "bs_store st"] assms(3)
  by (auto simp: execute_claimed_def complete_execution_def call_adapter_def Let_def split: prod.splits sum.splits)

lemma execute_related:
  assumes "execute_mutation load claim i adapter keep after st = (r, st')"
    and refl: "\<And>s. R s s" and trans: "\<And>s t u. R s t \<Longrightarrow> R t u \<Longrightarrow> R s u"
    and claim: "\<And>s c s'. claim i s = (c, s') \<Longrightarrow> R s s'"
    and keep: "\<And>m s u s'. keep m s = (u, s') \<Longrightarrow> R s s'"
  shows "R (bs_store st) (bs_store st')"
proof -
  obtain c s where c: "claim i (bs_store st) = (c, s)" by force
  then have one: "R (bs_store st) s" by (rule claim)
  have "R s (bs_store st')" if "execute_claimed i adapter keep after (st\<lparr>bs_store := s\<rparr>) = (r, st')"
    using execute_claimed_related [of i adapter keep after "st\<lparr>bs_store := s\<rparr>" r st' R, OF that keep refl] by simp
  then show ?thesis
    using assms(1) c one refl trans
    by (auto simp: execute_mutation_def Let_def split: sum.splits option.splits if_splits)
qed

definition message_store :: "repository_state \<Rightarrow> repository_state \<Rightarrow> bool" where
  "message_store s s' \<longleftrightarrow> message_step\<^sup>*\<^sup>* (rs_db s) (rs_db s')"

lemma message_store_refl [simp]: "message_store s s"
  by (simp add: message_store_def)

lemma message_store_trans: "message_store s t \<Longrightarrow> message_store t u \<Longrightarrow> message_store s u"
  unfolding message_store_def by (rule rtranclp_trans)

lemma message_store_step: "message_step (rs_db s) (rs_db s') \<Longrightarrow> message_store s s'"
  by (simp add: message_store_def)

lemma checkpoint_run_store: "checkpoint_run renv c status nxt state events s = (r, s') \<Longrightarrow> message_store s s'"
  unfolding message_store_def by (intro quiet_steps_message checkpoint_run_step)

lemma completion_store:
  assumes "checkpoint_mutation renv m c status nxt state evs s = (r, s')"
  shows "message_store s s'"
proof (cases "evs = []")
  case True
  then have "rs_db s' = rs_db s" using assms by (auto simp: checkpoint_mutation_def commit_checkpoint_def Let_def)
  then show ?thesis by (simp add: message_store_def)
next
  case False
  then obtain now n x where e: "commit_step now (checkpoint_commit renv (Some m) c status nxt state evs n) (rs_db s) = (x, rs_db s')"
    using assms by (auto simp: checkpoint_mutation_def commit_checkpoint_def Let_def split: prod.splits sum.splits)
  have "rc_run_id (sc_checkpoint (checkpoint_commit renv (Some m) c status nxt state evs n)) =
      sc_run_id (checkpoint_commit renv (Some m) c status nxt state evs n)"
    "rc_tenant_id (sc_checkpoint (checkpoint_commit renv (Some m) c status nxt state evs n)) =
      sc_tenant_id (checkpoint_commit renv (Some m) c status nxt state evs n)"
    by (simp_all add: checkpoint_commit_def checkpointed_context_def Let_def)
  then show ?thesis using message_step.completed [OF e] by (intro message_store_step)
qed

lemma transact_store:
  assumes "transact env f s = (r, s')" "\<And>now i x db. f now i (rs_db s) = (x, db) \<Longrightarrow> message_step (rs_db s) db"
  shows "message_store s s'"
  using assms by (auto simp: transact_def tick_def message_store_def split: prod.splits)

lemma tick_store: "message_store (tick s) s' \<Longrightarrow> message_store s s'"
  by (simp add: message_store_def tick_def)

lemma prepare_store:
  assumes "prepare_mutation env c t args s = (r, s')"
  shows "message_store s s'"
proof (cases "prepare_plan (we_repr env) default_demo_orders t (rc_actor_id c) args ''phase4-policy-v1''")
  case (Inl e)
  then show ?thesis using assms by (simp add: prepare_mutation_def)
next
  case (Inr p)
  let ?expires = "read_time env s + we_token_ttl env"
  obtain q s1 where q: "transact env (\<lambda>now i. issue_token now i (token_input_of env c (we_token env (rs_tick s)) p ?expires)) (tick s) = (q, s1)"
    by force
  have "message_store (tick s) s1" by (rule transact_store [OF q]) (rule message_step.issued)
  then have one: "message_store s s1" by (rule tick_store)
  then show ?thesis
    using assms Inr q message_store_trans [OF one checkpoint_run_store]
    by (cases q) (auto simp: prepare_mutation_def Let_def split: prod.splits sum.splits)
qed

lemma execute_noted_store:
  assumes "execute_noted renv i adapter plan st = (r, n, st')" "mi_operation i \<in> set low_risk_operations"
  shows "message_store (bs_store st) (bs_store st')"
proof -
  let ?start = "\<lparr>bs_world = bs_world st, bs_calls = bs_calls st, bs_store = (bs_store st, None :: commit_note option)\<rparr>"
  let ?R = "\<lambda>x y :: repository_state \<times> commit_note option. message_store (fst x) (fst y)"
  obtain q where q: "execute_mutation noted_load noted_claim i adapter (noted_checkpoint renv plan) (Inr ()) ?start = (r, q)"
    "st' = \<lparr>bs_world = bs_world q, bs_calls = bs_calls q, bs_store = fst (bs_store q)\<rparr>"
    using assms(1) by (auto simp: execute_noted_def split: prod.splits)
  have "?R (bs_store ?start) (bs_store q)"
  proof (rule execute_related [OF q(1)])
    fix s c s'
    assume "noted_claim i s = (c, s')"
    then show "?R s s'"
      using message_step.claimed assms(2)
      by (auto simp: noted_claim_def claim_state_def intro!: message_store_step split: prod.splits)
  next
    fix m s u s'
    assume "noted_checkpoint renv plan m s = (u, s')"
    then show "?R s s'"
      using completion_store by (auto simp: noted_checkpoint_def split: prod.splits sum.splits)
  qed (auto intro: message_store_trans)
  then show ?thesis by (simp add: q(2))
qed

lemma file_ticket_store: "file_ticket env q t payload h s = (r, s') \<Longrightarrow> message_store s s'"
proof -
  assume run: "file_ticket env q t payload h s = (r, s')"
  have ticket: "message_store x y" if "transact env (\<lambda>now i. create_ticket now i q) x = (z, y)" for x y z
    by (rule transact_store [OF that]) (auto intro: message_step.quiet quiet_step.noted note_step.ticket)
  have audit: "message_store x y" if "transact env (\<lambda>now i. append_audit now i tn a t p h) x = (z, y)" for x y z tn a p
    by (rule transact_store [OF that]) (auto intro: message_step.quiet quiet_step.noted note_step.audit)
  show ?thesis
    using run ticket message_store_trans [OF ticket audit] audit
    by (auto simp: file_ticket_def Let_def split: prod.splits sum.splits if_splits)
qed

lemma finish_store: "finish_low_risk env c operation state out n s = (r, s') \<Longrightarrow> message_store s s'"
proof -
  assume run: "finish_low_risk env c operation state out n s = (r, s')"
  have ticket: "message_store x y" if "low_risk_handoff env c operation x = (z, y)" for x y z
    using that by (auto simp: low_risk_handoff_def Let_def dest: file_ticket_store)
  show ?thesis
    using run ticket message_store_trans [OF ticket checkpoint_run_store]
    by (auto simp: finish_low_risk_def Let_def split: prod.splits sum.splits if_splits)
qed

lemma reserve_low_risk_store:
  "reserve_low_risk env i s = (r, s') \<Longrightarrow> mi_operation i \<in> set low_risk_operations \<Longrightarrow> message_store s s'"
  by (auto simp: reserve_low_risk_def intro!: message_store_step message_step.reserved split: prod.splits)

lemma on_store_store:
  "on_store f st = (r, st') \<Longrightarrow> (\<And>s x s'. f s = (x, s') \<Longrightarrow> message_store s s') \<Longrightarrow> message_store (bs_store st) (bs_store st')"
  by (auto simp: on_store_def split: prod.splits)

lemma low_risk_store:
  assumes "execute_low_risk env commit c route args st = (r, st')"
  shows "message_store (bs_store st) (bs_store st')"
proof -
  let ?i = "low_risk_intent env c (low_risk_operation route) args"
  have op: "mi_operation ?i \<in> set low_risk_operations"
    by (simp add: low_risk_intent_def low_risk_operations_def low_risk_operation_def low_risk_routes_def)
  have reserve: "message_store (bs_store st) (bs_store st1)" if "on_store (reserve_low_risk env ?i) st = (q, st1)" for q st1
    using that by (rule on_store_store) (rule reserve_low_risk_store [OF _ op])
  show ?thesis using execute_low_risk_parts [OF assms]
  proof (elim disjE exE conjE)
    fix q st1 x n st2 adapter plan out
    assume a: "on_store (reserve_low_risk env ?i) st = (q, st1)"
      "execute_noted (we_store (le_workflow env)) ?i adapter (low_risk_plan c (low_risk_operation route) plan) st1 = (x, n, st2)"
      "on_store (finish_low_risk env c (low_risk_operation route) plan out n) st2 = (r, st')"
    show ?thesis
      using message_store_trans [OF reserve [OF a(1)] message_store_trans [OF execute_noted_store [OF a(2) op]
        on_store_store [OF a(3) finish_store]]] .
  next
    fix q st1 x n st2 adapter plan e
    assume a: "on_store (reserve_low_risk env ?i) st = (q, st1)" "st' = st2"
      "execute_noted (we_store (le_workflow env)) ?i adapter (low_risk_plan c (low_risk_operation route) plan) st1 = (x, n, st2)"
    show ?thesis unfolding a(2) using message_store_trans [OF reserve [OF a(1)] execute_noted_store [OF a(3) op]] .
  qed (use reserve in auto)
qed

lemma guarded_repository:
  assumes "\<And>s r s'. f s = (r, s') \<Longrightarrow> message_store s s'"
  shows "inside guarded (on_repository f)"
proof (rule insideI)
  fix w q w'
  assume run: "on_repository f w = (q, w')"
  obtain r s where e: "f (xw_store w) = (r, s)" by force
  then show "guarded w w'" using assms [OF e] run by (auto simp: on_repository_def message_store_def intro!: guarded_same_calls)
qed

lemma guarded_prepare: "inside guarded (prepare_for_customer env q c t args)"
  unfolding prepare_for_customer_def
proof (intro guarded.rules quiet_guarded [OF noting_quiet [OF noting_observe]] quiet_guarded [OF noting_quiet [OF noting_publish]])
  show "inside guarded (on_repository (prepare_mutation (flow env) c t args))"
    by (rule guarded_repository) (rule prepare_store)
qed

lemma guarded_low_risk: "inside guarded (submit_low_risk env q c x args)"
  unfolding submit_low_risk_def
proof (intro guarded.rules quiet_guarded [OF noting_quiet [OF noting_publish]])
  show "inside guarded (on_boundary (execute_low_risk (xe_low_risk env) (xe_commit env) c x args))"
  proof (intro insideI guarded_same_calls)
    fix w w' :: "'a run_world" and r
    assume run: "on_boundary (execute_low_risk (xe_low_risk env) (xe_commit env) c x args) w = (r, w')"
    then show "tst_calls (xw_tools w') = tst_calls (xw_tools w)"
      by (auto simp: on_boundary_def split: prod.splits)
    obtain b where b: "execute_low_risk (xe_low_risk env) (xe_commit env) c x args
        \<lparr>bs_world = tst_world (xw_tools w), bs_calls = xw_calls w, bs_store = xw_store w\<rparr> = (r, b)" "xw_store w' = bs_store b"
      using run by (auto simp: on_boundary_def split: prod.splits)
    then show "message_step\<^sup>*\<^sup>* (runtime w) (runtime w')" using low_risk_store [OF b(1)] by (simp add: message_store_def)
  qed
qed

lemma guarded_workflow: "inside guarded (run_workflow env q c d x)"
proof -
  have handled: "inside guarded (case e of
           MutationWorkflowError code missing \<Rightarrow> workflow_failed env q c x args e code
         | LowRiskWorkflowError code missing \<Rightarrow> workflow_failed env q c x args e code
         | _ \<Rightarrow> give_result (Inl e))" for e :: py_exn and args
    by (cases e) (simp_all add: quiet_guarded [OF noting_quiet [OF noting_workflow_failed]] guarded.give_result)
  show ?thesis
    unfolding run_workflow_def try_workflow_def
    by (intro guarded.rules guarded_prepare guarded_low_risk handled)
qed

section \<open>The agent loop, whatever it returns\<close>

lemma run_loop_related:
  assumes refl: "\<And>x. R x x" and trans: "\<And>x y z. R x y \<Longrightarrow> R y z \<Longrightarrow> R x z"
    and step: "\<And>c budget x r y. run_advance env i c budget x = (r, y) \<Longrightarrow> R x y"
    and handoff: "\<And>c why x r y. pipeline_handoff env c why x = (r, y) \<Longrightarrow> R x y"
    and run: "run_loop env i c steps budget previous ps = (r, ps')"
  shows "R ps ps'"
  using run
proof (induction "nat (6 - rc_step_count c)" arbitrary: c steps budget previous ps rule: less_induct)
  case less
  obtain q ps1 where q: "run_advance env i c budget ps = (q, ps1)" by force
  have one: "R ps ps1" using q by (rule step)
  show ?case
  proof (cases "rc_status c = RS_RUNNING_READONLY \<and> (\<exists>x b. q = Inr x \<and> charge_budget env budget (pr_loop x) = Inr b)")
    case False
    then have "ps' = ps \<or> ps' = ps1"
      using less.prems q
      by (cases q; cases "charge_budget env budget (pr_loop (projr q))")
        (auto simp: run_loop.simps [of env i c] split: if_splits)
    then show ?thesis using one refl by auto
  next
    case True
    then obtain x b where x: "q = Inr x" "charge_budget env budget (pr_loop x) = Inr b" "rc_status c = RS_RUNNING_READONLY"
      by blast
    note unfolded = less.prems [unfolded run_loop.simps [of env i c], simplified x q prod.case sum.case]
    show ?thesis
    proof (cases "rc_status (pr_context x) = RS_RUNNING_READONLY \<and>
        \<not> (decision_signature (pr_loop x) \<noteq> None \<and> same_signature (decision_signature (pr_loop x)) previous)")
      case True
      then have "run_loop env i (pr_context x) (steps @ [pr_loop x]) b (decision_signature (pr_loop x)) ps1 = (r, ps')"
        using unfolded by (simp split: if_splits)
      moreover have "nat (6 - rc_step_count (pr_context x)) < nat (6 - rc_step_count c)"
        using run_advance_running [of env i c budget ps x ps1] q x True by simp
      ultimately have "R ps1 ps'" using less.hyps by blast
      then show ?thesis using one trans by blast
    next
      case False
      obtain h ps2 where h: "pipeline_handoff env (pr_context x) ''readonly_loop_no_progress'' ps1 = (h, ps2)" by force
      have "ps' = ps1 \<or> ps' = ps2"
        using unfolded False h by (auto simp: stop_no_progress_def split: if_splits sum.splits)
      then show ?thesis using one handoff [OF h] trans by blast
    qed
  qed
qed

lemma execute_step_calls:
  assumes "execute_step env c prompt b t dl cancelled budget ts = (r, ts')" "registry_valid (ae_registry env)"
  shows "\<exists>new. tst_calls ts' = tst_calls ts @ new \<and> list_all (\<lambda>call. \<exists>spec. dget (ae_registry env) (fst call, ''1'') = Some spec \<and>
    ts_risk spec = TR_READ_ONLY) new"
proof (cases r)
  case (Inl e)
  then have "tst_calls ts' = tst_calls ts" using execute_step_ok assms(1) by (metis step_ok_Inl)
  then show ?thesis by simp
next
  case (Inr x)
  obtain loop marks where x: "x = (loop, marks)" by force
  then have ok: "step_ok env b t ts (Inr (loop, marks), ts')"
    using execute_step_ok assms(1) Inr by metis
  show ?thesis
  proof (cases "lr_execution loop")
    case None
    then show ?thesis using ok by (simp add: step_ok_def)
  next
    case (Some out)
    then have "execution_of_decision env b t ts loop out ts'" using ok by (simp add: step_ok_def)
    then obtain d :: decision and spec n where e: "registry_resolve (ae_registry env) (ts_name spec) ''1'' t True = Inr spec"
      "ts_risk spec = TR_READ_ONLY" "tst_calls ts' = tst_calls ts @ replicate n (ts_name spec, de_args d)"
      unfolding execution_of_decision_def by blast
    have "dget (ae_registry env) (ts_name spec, ''1'') = Some spec" using e(1) by (simp add: registry_resolve_Inr)
    then show ?thesis using e(2,3) by (auto simp: list_all_iff)
  qed
qed

text \<open>A step leaves the store alone or checkpoints it once.\<close>

lemma advance_related:
  assumes "advance env c b t dl cancelled budget ps = (r, ps')"
  shows "\<exists>ts. tst_calls ts = tst_calls (ps_tools ps) \<and>
    (ps' = ps\<lparr>ps_tools := ts\<rparr> \<or>
     (\<exists>prompt x. execute_step (pl_agent env) c prompt (extend_boundary c b) t (fst dl) cancelled budget ts = (x, ps_tools ps')) \<and>
     (ps_store ps' = ps_store ps \<or> (\<exists>c status nxt state events v.
        pl_checkpoint env c status nxt state events (ps_store ps) = (v, ps_store ps'))))"
proof -
  obtain p ts where p: "prepare_step env c (extend_boundary c b) t dl (ps_tools ps) = (p, ts)" by force
  then have c0: "tst_calls ts = tst_calls (ps_tools ps)" by (rule prepare_step_calls)
  show ?thesis
  proof (cases p)
    case (Inl e)
    then have "ps' = ps\<lparr>ps_tools := ts\<rparr>" using assms p by (simp add: advance_def Let_def)
    then show ?thesis using c0 by blast
  next
    case (Inr prompt)
    obtain x ts2 where x: "execute_step (pl_agent env) c prompt (extend_boundary c b) t (fst dl) cancelled budget ts = (x, ts2)"
      by force
    have j: "journal_record [] ''build_prompt'' ''completed'' \<noteq> Inl e" for e
      by code_simp
    obtain j0 where j0: "journal_record [] ''build_prompt'' ''completed'' = Inr j0"
      using j by (cases "journal_record [] ''build_prompt'' ''completed''") auto
    have "ps_tools ps' = ts2 \<and> (ps_store ps' = ps_store ps \<or>
      (\<exists>c status nxt state events v. pl_checkpoint env c status nxt state events (ps_store ps) = (v, ps_store ps')))"
      using assms p Inr x j0
      by (auto simp: advance_def Let_def persist_step_def split: sum.splits prod.splits)
    then show ?thesis using c0 x by blast
  qed
qed


section \<open>The read-only agent\<close>

definition guarded_pipeline :: "('w, repository_state) pipeline_state \<Rightarrow> ('w, repository_state) pipeline_state \<Rightarrow> bool" where
  "guarded_pipeline ps ps' \<longleftrightarrow> message_store (ps_store ps) (ps_store ps') \<and>
     (\<exists>new. tst_calls (ps_tools ps') = tst_calls (ps_tools ps) @ new \<and> list_all shipped_read new)"

lemma guarded_pipeline_trans: "guarded_pipeline x y \<Longrightarrow> guarded_pipeline y z \<Longrightarrow> guarded_pipeline x z"
  by (auto simp: guarded_pipeline_def intro: message_store_trans)

lemma shipped_registry_valid: "registry_valid runtime_tool_registry"
  by code_simp

lemma shipped_spec: "dget runtime_tool_registry (n, v) = Some spec \<Longrightarrow> spec \<in> set all_tool_specs \<and> ts_name spec = n"
  by (auto simp: runtime_tool_registry_def spec_key_def dest!: map_of_SomeD)

lemma shipped_calls:
  assumes "execute_step (readonly_agent env) c prompt b t dl cancelled budget ts = (r, ts')"
  shows "\<exists>new. tst_calls ts' = tst_calls ts @ new \<and> list_all shipped_read new"
proof -
  have reg: "ae_registry (readonly_agent env) = runtime_tool_registry" by (simp add: readonly_agent_def)
  obtain new where new: "tst_calls ts' = tst_calls ts @ new"
    "list_all (\<lambda>call. \<exists>spec. dget runtime_tool_registry (fst call, ''1'') = Some spec \<and> ts_risk spec = TR_READ_ONLY) new"
    using execute_step_calls [OF assms] shipped_registry_valid unfolding reg by blast
  have "list_all shipped_read new"
    using new(2) by (auto simp: list_all_iff shipped_read_def dest!: shipped_spec)
  then show ?thesis using new(1) by blast
qed

lemma readonly_parts [simp]:
  "pl_agent (readonly_pipeline env z) = readonly_agent env" "pl_checkpoint (readonly_pipeline env z) = checkpoint_run (repo env)"
  by (simp_all add: readonly_pipeline_def)

lemma advance_guarded:
  assumes "run_advance (readonly_pipeline env z) i c budget ps = (r, ps')"
  shows "guarded_pipeline ps ps'"
proof -
  obtain ts where ts: "tst_calls ts = tst_calls (ps_tools ps)"
    "ps' = ps\<lparr>ps_tools := ts\<rparr> \<or>
     (\<exists>prompt x. execute_step (readonly_agent env) c prompt (extend_boundary c (ri_boundary i)) (ri_tool_context i c)
        (fst (ri_deadline i)) (ri_cancelled i) budget ts = (x, ps_tools ps')) \<and>
     (ps_store ps' = ps_store ps \<or> (\<exists>c status nxt state events v.
        checkpoint_run (repo env) c status nxt state events (ps_store ps) = (v, ps_store ps')))"
    using advance_related [OF assms [unfolded run_advance_def]] unfolding readonly_parts by blast
  show ?thesis using ts(2)
  proof (elim disjE conjE exE)
    assume "ps' = ps\<lparr>ps_tools := ts\<rparr>"
    then show ?thesis using ts(1) by (simp add: guarded_pipeline_def)
  next
    fix prompt x
    assume "execute_step (readonly_agent env) c prompt (extend_boundary c (ri_boundary i)) (ri_tool_context i c)
        (fst (ri_deadline i)) (ri_cancelled i) budget ts = (x, ps_tools ps')" "ps_store ps' = ps_store ps"
    then show ?thesis using shipped_calls ts(1) by (fastforce simp: guarded_pipeline_def)
  next
    fix prompt x c' status nxt state events v
    assume a: "execute_step (readonly_agent env) c prompt (extend_boundary c (ri_boundary i)) (ri_tool_context i c)
        (fst (ri_deadline i)) (ri_cancelled i) budget ts = (x, ps_tools ps')"
      "checkpoint_run (repo env) c' status nxt state events (ps_store ps) = (v, ps_store ps')"
    show ?thesis using shipped_calls [OF a(1)] checkpoint_run_store [OF a(2)] ts(1) by (simp add: guarded_pipeline_def)
  qed
qed

lemma handoff_guarded:
  assumes "pipeline_handoff (readonly_pipeline env z) c why ps = (r, ps')"
  shows "guarded_pipeline ps ps'"
  using assms
  by (auto simp: pipeline_handoff_def Let_def guarded_pipeline_def dest!: checkpoint_run_store split: sum.splits prod.splits)

lemma agent_run_guarded:
  assumes "agent_run (readonly_pipeline env z) i c budget ps = (r, ps')"
  shows "guarded_pipeline ps ps'"
proof (rule run_loop_related [OF _ guarded_pipeline_trans advance_guarded handoff_guarded assms [unfolded agent_run_def]])
  show "guarded_pipeline x x" for x by (simp add: guarded_pipeline_def)
qed

lemma guarded_pipelines:
  assumes "\<And>ps r ps'. f ps = (r, ps') \<Longrightarrow> guarded_pipeline ps ps'"
  shows "inside guarded (on_pipeline f)"
proof (rule insideI)
  fix w q w'
  assume run: "on_pipeline f w = (q, w')"
  obtain r ps where e: "f \<lparr>ps_tools = xw_tools w, ps_store = xw_store w\<rparr> = (r, ps)" by force
  then show "guarded w w'"
    using assms [OF e] run by (auto simp: on_pipeline_def guarded_def guarded_pipeline_def message_store_def)
qed

lemma guarded_agent: "inside guarded (run_agent env c x strategy)"
  unfolding run_agent_def read_records_def
  by (intro guarded.rules guarded_pipelines quiet_guarded [OF moving_read] quiet_guarded [OF moving_supply]) (rule agent_run_guarded)

lemma guarded_readonly: "inside guarded (execute_readonly_run env q c x)"
  unfolding execute_readonly_run_def
  by (intro guarded.rules guarded_agent quiet_guarded [OF noting_quiet [OF noting_choose_skill]])

lemma guarded_run_readonly: "inside guarded (run_readonly env q c x)"
  unfolding run_readonly_def
  by (intro guarded.rules guarded_readonly quiet_guarded [OF noting_quiet [OF noting_publish_readonly]]
    quiet_guarded [OF noting_quiet [OF noting_observe]] quiet_guarded [OF quiet_mark_failed])

section \<open>The message\<close>

lemma guarded_route: "inside guarded (route_message env q c v)"
  unfolding route_message_def route_by_classifier_def Let_def
  by (intro guarded.rules guarded_ask quiet_guarded [OF quiet_settle] quiet_guarded [OF noting_quiet [OF noting_observe]]
    quiet_guarded [OF noting_quiet [OF noting_release_assignment]])

lemma guarded_execute: "inside guarded (execute_route env q c v r)"
proof (cases "rd_execution_mode (ro_decision r)"; cases "rd_workflow_id (ro_decision r)")
  fix mode x
  assume "rd_execution_mode (ro_decision r) = Some mode" "rd_workflow_id (ro_decision r) = Some x"
  then show ?thesis
    by (simp only: execute_route_def Let_def option.case prod.case)
      (intro guarded.rules quiet_guarded [OF noting_quiet [OF noting_note_skill]] quiet_guarded [OF quiet_reply]
        guarded_run_readonly guarded_workflow)
qed (simp_all add: execute_route_def Let_def guarded.give_result)

lemma guarded_follow: "inside guarded (follow_route env q c v r)"
  by (cases "rd_outcome (ro_decision r)")
    (simp_all add: follow_route_def guarded_execute quiet_guarded [OF quiet_hand_off] quiet_guarded [OF quiet_ask])

lemma guarded_accepted: "inside guarded (run_accepted_message env q)"
  unfolding run_accepted_message_def process_message_def
  by (intro guarded.rules guarded_follow guarded_route quiet_guarded [OF noting_quiet [OF noting_accept]]
    quiet_guarded [OF noting_quiet [OF noting_load]] quiet_guarded [OF noting_quiet [OF noting_dispatch]]
    quiet_guarded [OF quiet_handler])

lemma guarded_message: "inside guarded (execute_message_run env q)"
  unfolding execute_message_run_def
  by (intro guarded.rules guarded_accepted quiet_guarded [OF quiet_mark_failed])

section \<open>What the steps keep\<close>

text \<open>Tokens are only added, waiting; an intent that needs a confirmation is neither added nor claimed.\<close>

definition tokens_kept :: "runtime_db \<Rightarrow> runtime_db \<Rightarrow> bool" where
  "tokens_kept db db' \<longleftrightarrow> (\<exists>new. db_tokens db' = db_tokens db @ new \<and> list_all (\<lambda>t. tk_status t = ''waiting'') new)"

definition same_intent_row :: "idempotency_row \<Rightarrow> idempotency_row \<Rightarrow> bool" where
  "same_intent_row r r' \<longleftrightarrow> im_record_id r' = im_record_id r \<and> im_tenant_id r' = im_tenant_id r \<and> im_operation r' = im_operation r \<and>
     im_fingerprint r' = im_fingerprint r \<and> (im_status r \<noteq> ''in_progress'' \<longrightarrow> r' = r)"

definition intents_kept :: "runtime_db \<Rightarrow> runtime_db \<Rightarrow> bool" where
  "intents_kept db db' \<longleftrightarrow> (\<forall>r'\<in>set (db_idempotency db'). im_operation r' \<in> set low_risk_operations \<or>
     (\<exists>r\<in>set (db_idempotency db). same_intent_row r r'))"

lemma tokens_kept_refl [simp]: "db_tokens db' = db_tokens db \<Longrightarrow> tokens_kept db db'"
  by (simp add: tokens_kept_def)

lemma same_intent_row_refl [simp]: "same_intent_row r r"
  by (simp add: same_intent_row_def)

lemma intents_kept_refl [simp]: "db_idempotency db' = db_idempotency db \<Longrightarrow> intents_kept db db'"
  unfolding intents_kept_def using same_intent_row_refl by metis

lemma added_intents_kept:
  "db_idempotency db' = db_idempotency db @ new \<Longrightarrow> \<forall>r\<in>set new. im_operation r \<in> set low_risk_operations \<Longrightarrow> intents_kept db db'"
  unfolding intents_kept_def using same_intent_row_refl by (metis Un_iff set_append)

lemma tokens_kept_trans: "tokens_kept x y \<Longrightarrow> tokens_kept y z \<Longrightarrow> tokens_kept x z"
  by (auto simp: tokens_kept_def)

lemma intents_kept_trans: "intents_kept x y \<Longrightarrow> intents_kept y z \<Longrightarrow> intents_kept x z"
  unfolding intents_kept_def same_intent_row_def by metis

lemma updated_intents_kept:
  assumes "\<And>r. r \<in> set (db_idempotency db) \<Longrightarrow> p r \<Longrightarrow> im_operation (f r) \<in> set low_risk_operations \<or> same_intent_row r (f r)"
    "db_idempotency db' = update_rows p f (db_idempotency db)"
  shows "intents_kept db db'"
  using assms(1) by (fastforce simp: intents_kept_def assms(2) update_rows_def)

lemma issue_kept:
  assumes "issue_token now i t db = (r, db')"
  shows "tokens_kept db db' \<and> db_idempotency db' = db_idempotency db \<and> db_runs db' = db_runs db \<and> db_checkpoints db' = db_checkpoints db"
  using assms
  by (auto simp: issue_token_def insert_token_def transaction_def bind_res_def tokens_kept_def token_row_of_def
    split: sum.splits if_splits)

lemma reserve_kept:
  assumes "reserve_intent h i expires db = (r, db')" "mi_operation i \<in> set low_risk_operations"
  shows "intents_kept db db' \<and> db_tokens db' = db_tokens db \<and> db_runs db' = db_runs db \<and> db_checkpoints db' = db_checkpoints db"
proof -
  let ?row = "reserved_row (mi_record_id i) (mi_tenant_id i) (mi_operation i) (h (mi_record_id i)) (mi_fingerprint i) expires"
  have "db' = db \<or> db' = db\<lparr>db_idempotency := db_idempotency db @ [?row]\<rparr>"
    using assms(1)
    by (auto simp: reserve_intent_def insert_idempotency_def transaction_def Let_def split: sum.splits if_splits prod.splits)
  moreover have "im_operation ?row \<in> set low_risk_operations" using assms(2) by (simp add: reserved_row_def)
  ultimately show ?thesis using added_intents_kept [of db' db "[?row]"] by auto
qed

lemma claim_kept:
  assumes "claim_intent i db = (r, db')" "mi_operation i \<in> set low_risk_operations"
  shows "intents_kept db db' \<and> db_tokens db' = db_tokens db \<and> db_runs db' = db_runs db \<and> db_checkpoints db' = db_checkpoints db"
proof -
  have "intents_kept db (db\<lparr>db_idempotency := update_rows (claimable i) claimed_row (db_idempotency db)\<rparr>)"
    by (rule updated_intents_kept [where p = "claimable i" and f = claimed_row])
      (use assms(2) in \<open>auto simp: claimable_def claimed_row_def\<close>)
  then show ?thesis
    using assms(1)
    by (auto simp: claim_intent_def update_idempotency_def transaction_def split: option.splits sum.splits if_splits prod.splits)
qed

lemma commit_effect_kept:
  assumes d: "db' = commit_effect now k current db"
  shows "intents_kept db db' \<and> db_tokens db' = db_tokens db"
proof -
  have "intents_kept db db'"
  proof (cases "sc_completion k")
    case None
    then show ?thesis by (simp add: d commit_effect_def completed_rows_def Let_def)
  next
    case (Some m)
    show ?thesis
      by (rule updated_intents_kept [where p = "open_intent (sc_tenant_id k) m" and f = "completed_row m"])
        (auto simp: d commit_effect_def completed_rows_def Some Let_def open_intent_def completed_row_def same_intent_row_def)
  qed
  then show ?thesis by (simp add: d commit_effect_def Let_def)
qed

lemma commit_kept: "commit_step now k db = (x, db') \<Longrightarrow> intents_kept db db' \<and> db_tokens db' = db_tokens db"
proof -
  assume run: "commit_step now k db = (x, db')"
  have "db' = db \<or> (\<exists>current. db' = commit_effect now k current db)" using commit_step_cases [OF run] by blast
  then show ?thesis
  proof (elim disjE exE)
    fix current
    assume "db' = commit_effect now k current db"
    then show ?thesis by (rule commit_effect_kept)
  qed simp
qed

lemma message_step_kept: "message_step db db' \<Longrightarrow> tokens_kept db db' \<and> intents_kept db db' \<and> (stored_ok db \<longrightarrow> stored_ok db')"
proof (induction rule: message_step.induct)
  case (quiet db db')
  then show ?case using quiet_step_table quiet_step_ok by (auto simp: guard_tables_kept_def)
next
  case (issued now i t db r db')
  then show ?case using issue_kept [OF issued] by (simp add: stored_ok_def table_ok_def checkpoints_ok_def)
next
  case (reserved h i expires db r db')
  then show ?case using reserve_kept [OF reserved] by (simp add: stored_ok_def table_ok_def checkpoints_ok_def)
next
  case (claimed i db r db')
  then show ?case using claim_kept [OF claimed] by (simp add: stored_ok_def table_ok_def checkpoints_ok_def)
next
  case (completed now k db x db')
  then show ?case using commit_kept [OF completed(1)] commit_checkpoints_ok [OF completed(1)] commit_step_rows [OF completed(1)] by (simp add: stored_ok_def)
qed

lemma message_steps_kept:
  "message_step\<^sup>*\<^sup>* db db' \<Longrightarrow> tokens_kept db db' \<and> intents_kept db db' \<and> (stored_ok db \<longrightarrow> stored_ok db')"
proof (induction rule: rtranclp_induct)
  case (step y z)
  then show ?case using message_step_kept [OF step(2)] by (blast intro: tokens_kept_trans intents_kept_trans)
qed simp

section \<open>Properties\<close>

text \<open>C2: a message only reads. Whatever a message says, whatever the classifier, the agent's model and the registry of
  skills return: the tools called while the message is handled are read-only tools of the shipped catalog. Confirmation
  tokens are only issued, waiting for their customer; none is consumed. Every mutation that needs a confirmation and is
  reserved stays exactly as it is, and none is added: the intents a message adds are those of the two low-risk
  operations.\<close>

theorem message_only_reads:
  assumes "execute_message_run env q w = (r, w')"
  shows "(\<exists>new. tst_calls (xw_tools w') = tst_calls (xw_tools w) @ new \<and> list_all shipped_read new) \<and>
    tokens_kept (runtime w) (runtime w') \<and> intents_kept (runtime w) (runtime w')"
  using insideD [OF guarded_message assms] message_steps_kept unfolding guarded_def by blast

text \<open>C4: handling a message always returns, and never leaves its run open after an error that escaped its
  handlers. The tables keep their constraints, and when \<open>run_accepted_message\<close> raises, every row of the run is
  in a terminal state afterwards.\<close>

theorem message_run_returns:
  assumes "stored_ok (runtime w)" "valid_run_context (new_context q)"
  shows "\<exists>w'. execute_message_run env q w = (Inr (), w') \<and> stored_ok (runtime w') \<and>
    (\<forall>e w1. run_accepted_message env q w = (Inl e, w1) \<longrightarrow> settled (qr_run_id q) (qr_tenant_id q) (runtime w'))"
proof -
  obtain x w' where run: "execute_message_run env q w = (x, w')" by force
  have "stored_ok (runtime w')"
    using insideD [OF guarded_message run] message_steps_kept assms(1) unfolding guarded_def by blast
  obtain y w1 where accepted: "run_accepted_message env q w = (y, w1)" by force
  show ?thesis
  proof (cases y)
    case (Inl e)
    have "stored_ok (runtime w1)"
      using insideD [OF guarded_accepted accepted] message_steps_kept assms(1) unfolding guarded_def by blast
    then show ?thesis
      using outer_settles [OF accepted [unfolded Inl] assms(2)] run \<open>stored_ok (runtime w')\<close> accepted Inl by auto
  next
    case (Inr u)
    then show ?thesis using execute_accepted [of env q w w1] accepted run \<open>stored_ok (runtime w')\<close> by simp
  qed
qed

end
