(* ===== verification/RunApi.thy ===== *)
theory RunApi
  imports MessageGuards
begin

text \<open>
  The requests of a customer about a run (\<open>apps/api/main.py\<close>): sending a message, retrying, confirming or rejecting
  a mutation, refreshing its token, cancelling, reading and resolving a human review, and the checks in front of
  them. A request is an action on the state of \<open>RunWorld\<close> that returns the response or the \<open>HTTPException\<close> the
  code raises; an exception the handler lets through is the error of the action. A message is executed later by
  the one worker thread of the process: what \<open>run_executor.submit\<close> is given is part of the response here.
\<close>

section \<open>Replies\<close>

datatype 'a reply = Answered 'a | HttpError int pyval

type_synonym ('a, 'w) request = "('a reply, 'w) action"

definition refuse :: "int \<Rightarrow> string \<Rightarrow> ('a, 'w) request" where
  "refuse status detail = give (HttpError status (PStr detail))"

definition answer :: "'a \<Rightarrow> ('a, 'w) request" where
  "answer x = give (Answered x)"

definition answered_by :: "'a reply \<Rightarrow> ('a \<Rightarrow> ('b, 'w) request) \<Rightarrow> ('b, 'w) request" where
  "answered_by r f = (case r of HttpError status detail \<Rightarrow> give (HttpError status detail) | Answered x \<Rightarrow> f x)"

definition demo_tenant :: string where
  "demo_tenant = ''demo-tenant''"

record 'w api_env =
  ax_run :: "'w run_env"
  ax_system :: "'w mutation_system"
  ax_model :: "string option"
  ax_api_base :: "string option"
  ax_demo_mode :: bool
  ax_demo_actors :: "string list"
  ax_admin_token :: "string option"
  ax_approver_token :: "string option"

section \<open>Who asks\<close>

text \<open>The header of a request, \<open>None\<close> when it is missing. \<open>compare_digest\<close> compares for equality.\<close>

definition get_demo_actor :: "'w api_env \<Rightarrow> string option \<Rightarrow> string reply" where
  "get_demo_actor env header =
     (if \<not> ax_demo_mode env then HttpError 404 (PStr ''not_found'')
      else (let actor = or_text header ''demo-user-001'' in
        if actor \<in> set (ax_demo_actors env) then Answered actor else HttpError 403 (PStr ''actor_not_allowed'')))"

definition presented_token :: "string option \<Rightarrow> string" where
  "presented_token authorization =
     (case authorization of None \<Rightarrow> [] | Some a \<Rightarrow> if a = [] then [] else strip (remove_prefix ''Bearer '' a))"

definition authorize ::
  "'w api_env \<Rightarrow> string option \<Rightarrow> string \<Rightarrow> string \<Rightarrow> string \<Rightarrow> string option \<Rightarrow> string option \<Rightarrow> string reply" where
  "authorize env configured role demo_role detail authorization header =
     (let secret = or_text configured []; known = (case header of None \<Rightarrow> False | Some a \<Rightarrow> a \<in> set (ax_demo_actors env)) in
      if secret = [] then (if ax_demo_mode env \<and> known then Answered demo_role else HttpError 403 (PStr detail))
      else if presented_token authorization \<noteq> [] \<and> presented_token authorization = secret then Answered role
      else HttpError 403 (PStr detail))"

definition require_admin :: "'w api_env \<Rightarrow> string option \<Rightarrow> string option \<Rightarrow> string reply" where
  "require_admin env = authorize env (ax_admin_token env) ''admin'' ''demo-admin'' ''admin_required''"

definition require_approver :: "'w api_env \<Rightarrow> string option \<Rightarrow> string option \<Rightarrow> string reply" where
  "require_approver env = authorize env (ax_approver_token env) ''approver'' ''demo-approver'' ''approver_required''"

definition require_action_confirmation :: "string \<Rightarrow> string \<Rightarrow> string \<Rightarrow> unit reply" where
  "require_action_confirmation act resource confirmation =
     (if strip confirmation = ''CONFIRM '' @ upper act @ '' '' @ resource then Answered ()
      else HttpError 400 (PStr ''confirmation_required''))"

section \<open>What the requests share\<close>

text \<open>\<open>uuid4()\<close> and \<open>datetime.now(UTC)\<close> of the request itself.\<close>

definition draw :: "'w run_env \<Rightarrow> (int \<times> string, 'w) action" where
  "draw env = on_runtime env (\<lambda>now i db. (Inr (now, i), db))"

definition with_run :: "string \<Rightarrow> string \<Rightarrow> (run_snapshot \<Rightarrow> ('a, 'w) request) \<Rightarrow> ('a, 'w) request" where
  "with_run run_id actor f =
     and_then (observing (\<lambda>w. load_run run_id demo_tenant (Some actor) (runtime w))) (\<lambda>found.
       case found of None \<Rightarrow> refuse 404 ''run_not_found'' | Some s \<Rightarrow> f s)"

definition checkpoint_context :: "string \<Rightarrow> string \<Rightarrow> runtime_db \<Rightarrow> run_context reply" where
  "checkpoint_context run_id actor db =
     (case load_latest_checkpoint run_id demo_tenant db of
        None \<Rightarrow> HttpError 409 (PStr ''run_checkpoint_unavailable'')
      | Some c \<Rightarrow>
          if \<not> valid_run_context c then HttpError 500 (PStr ''run_checkpoint_invalid'')
          else if rc_actor_id c \<noteq> actor \<or> rc_tenant_id c \<noteq> demo_tenant then HttpError 404 (PStr ''run_not_found'')
          else Answered c)"

definition with_context :: "string \<Rightarrow> string \<Rightarrow> (run_context \<Rightarrow> ('a, 'w) request) \<Rightarrow> ('a, 'w) request" where
  "with_context run_id actor f =
     and_then (observing (\<lambda>w. checkpoint_context run_id actor (runtime w))) (\<lambda>r. answered_by r f)"

definition customer_target :: "string \<Rightarrow> string \<Rightarrow> message_target" where
  "customer_target conversation_id actor =
     \<lparr>mt_conversation_id = conversation_id, mt_tenant_id = demo_tenant, mt_actor_id = actor\<rparr>"

definition append_request ::
  "'w run_env \<Rightarrow> message_target \<Rightarrow> string \<Rightarrow> string \<Rightarrow> string \<Rightarrow> (message_record, 'w) action" where
  "append_request env t content client_id run_id = on_runtime env (\<lambda>now i.
     append_user \<lparr>me_now = now, me_message_id = i, me_sha = xe_sha env\<rparr> t content client_id (Some run_id))"

definition settings_hash :: "'w api_env \<Rightarrow> string" where
  "settings_hash env = xe_sha (ax_run env)
     (or_text (ax_model env) ''unconfigured'' @ ''|'' @ or_text (ax_api_base env) ''unconfigured'')"

definition creation_spec :: "'w api_env \<Rightarrow> int \<Rightarrow> string option \<Rightarrow> run_creation_spec" where
  "creation_spec env now parent =
     \<lparr>cs_mode = None, cs_policy_version = ''phase3-readonly-v1'', cs_model_config_hash = settings_hash env,
      cs_prompt_version = ''agent-v1'', cs_current_step = ''route'', cs_max_steps = 6,
      cs_deadline_at = now + 60 * 1000000, cs_parent_run_id = parent\<rparr>"

text \<open>The run of a new message: its context and configuration are validated before the repository is called.\<close>

definition new_run :: "'w api_env \<Rightarrow> run_request \<Rightarrow> string option \<Rightarrow> (run_context \<times> run_creation_spec, 'w) action" where
  "new_run env q parent =
     and_then (give_result (make_context q)) (\<lambda>c.
     and_then (draw (ax_run env)) (\<lambda>(now, i).
       let s = creation_spec env now parent in
       give_result (if valid_creation_spec s then Inr (c, s) else Inl ValidationError)))"

definition reserve_run :: "'w api_env \<Rightarrow> run_context \<Rightarrow> run_creation_spec \<Rightarrow> (unit, 'w) action" where
  "reserve_run env c s = on_runtime (ax_run env) (\<lambda>now i. create_run now c s)"

definition cancel_reservation :: "'w api_env \<Rightarrow> string \<Rightarrow> string \<Rightarrow> (unit, 'w) action" where
  "cancel_reservation env run_id reason =
     and_then (on_runtime (ax_run env) (\<lambda>now i. cancel_unstarted_run now run_id demo_tenant reason)) (\<lambda>n. give ())"

record sent_message =
  se_message_id :: string
  se_run_id :: string
  se_status :: run_status
  se_refresh :: bool
  se_job :: "run_request option"

definition worker_request :: "message_target \<Rightarrow> string \<Rightarrow> string \<Rightarrow> run_request" where
  "worker_request t content run_id =
     \<lparr>qr_conversation_id = mt_conversation_id t, qr_content = content, qr_actor_id = mt_actor_id t, qr_run_id = run_id,
      qr_tenant_id = demo_tenant\<rparr>"

definition sent :: "string \<Rightarrow> string \<Rightarrow> run_status \<Rightarrow> run_request \<Rightarrow> (sent_message, 'w) request" where
  "sent message_id run_id status q = answer
     \<lparr>se_message_id = message_id, se_run_id = run_id, se_status = status, se_refresh = False, se_job = Some q\<rparr>"

section \<open>Sending a message\<close>

text \<open>\<open>try\<close> with the rest of the handler behind it: the handler of an error may answer or raise again.\<close>

definition trying ::
  "('a, 'w) action \<Rightarrow> (py_exn \<Rightarrow> ('b, 'w) request) \<Rightarrow> ('a \<Rightarrow> ('b, 'w) request) \<Rightarrow> ('b, 'w) request" where
  "trying m h f w = (case m w of (Inl e, w) \<Rightarrow> h e w | (Inr x, w) \<Rightarrow> f x w)"

definition active_run_text :: string where
  "active_run_text = [CHR 0xE5, CHR 0xBD, CHR 0x93, CHR 0xE5, CHR 0x89, CHR 0x8D, CHR 0xE4, CHR 0xBC,
      CHR 0x9A, CHR 0xE8, CHR 0xAF, CHR 0x9D, CHR 0xE5, CHR 0xB7, CHR 0xB2,
      CHR 0xE6, CHR 0x9C, CHR 0x89, CHR 0xE6, CHR 0x9C, CHR 0xAA, CHR 0xE7,
      CHR 0xBB, CHR 0x93, CHR 0xE6, CHR 0x9D, CHR 0x9F, CHR 0xE4, CHR 0xBB,
      CHR 0xBB, CHR 0xE5, CHR 0x8A, CHR 0xA1, CHR 0xEF, CHR 0xBC, CHR 0x8C,
      CHR 0xE8, CHR 0xAF, CHR 0xB7, CHR 0xE7, CHR 0xBB, CHR 0xA7, CHR 0xE7,
      CHR 0xBB, CHR 0xAD, CHR 0xE6, CHR 0x9F, CHR 0xA5, CHR 0xE7, CHR 0x9C,
      CHR 0x8B, CHR 0xE8, CHR 0xAF, CHR 0xA5, CHR 0xE4, CHR 0xBB, CHR 0xBB,
      CHR 0xE5, CHR 0x8A, CHR 0xA1, CHR 0xE3, CHR 0x80, CHR 0x82]"

text \<open>The snapshot of the error is the active run \<open>create_run\<close> has found.\<close>

definition refuse_active :: "(run_snapshot option \<Rightarrow> pyval) \<Rightarrow> message_target \<Rightarrow> ('a, 'w) request" where
  "refuse_active detail t =
     and_then (observing (\<lambda>w. active_for_conversation (mt_conversation_id t) demo_tenant (mt_actor_id t) (runtime w)))
       (\<lambda>s. give (HttpError 409 (detail s)))"

definition active_detail :: "run_snapshot option \<Rightarrow> pyval" where
  "active_detail found =
     (case found of
        None \<Rightarrow> PStr ''ACTIVE_RUN_EXISTS''
      | Some s \<Rightarrow> PDict [(''code'', PStr ''ACTIVE_RUN_EXISTS''), (''run_id'', PStr (sn_run_id s)),
          (''status'', PStr (status_value (run_snapshot.sn_status s))), (''message'', PStr active_run_text)])"

definition retry_detail :: "run_snapshot option \<Rightarrow> pyval" where
  "retry_detail found = PDict
     [(''code'', PStr ''ACTIVE_RUN_EXISTS''), (''run_id'', opt_str (map_option sn_run_id found)),
      (''status'', opt_str (map_option (\<lambda>s. status_value (run_snapshot.sn_status s)) found))]"

text \<open>A message the table has already: its run is reported, nothing is executed.\<close>

definition repeated_message :: "string \<Rightarrow> message_record \<Rightarrow> (sent_message, 'w) request" where
  "repeated_message actor m =
     (case mr_run_id m of
        None \<Rightarrow> refuse 500 ''message_run_missing''
      | Some run_id \<Rightarrow>
        and_then (observing (\<lambda>w. load_run run_id demo_tenant (Some actor) (runtime w))) (\<lambda>found.
          let status = (case found of None \<Rightarrow> RS_CREATED | Some s \<Rightarrow> run_snapshot.sn_status s) in
          answer \<lparr>se_message_id = mr_message_id m, se_run_id = run_id, se_status = status,
            se_refresh = (status = RS_WAITING_CONFIRMATION), se_job = None\<rparr>))"

definition continue_run ::
  "'w api_env \<Rightarrow> message_target \<Rightarrow> string \<Rightarrow> string \<Rightarrow> string \<Rightarrow> (sent_message, 'w) request" where
  "continue_run env t content client_id run_id =
     trying (append_request (ax_run env) t content client_id run_id)
       (\<lambda>e. if e = MessageConflictError then refuse 409 ''client_message_id_conflict'' else give_result (Inl e))
       (\<lambda>m. sent (mr_message_id m) run_id RS_RUNNING_WORKFLOW (worker_request t content run_id))"

definition append_refused :: "'w api_env \<Rightarrow> string \<Rightarrow> py_exn \<Rightarrow> ('a, 'w) request" where
  "append_refused env run_id e =
     (case e of
        MessageConflictError \<Rightarrow>
          and_then (cancel_reservation env run_id ''MESSAGE_IDEMPOTENCY_CONFLICT'') (\<lambda>_.
            refuse 409 ''client_message_id_conflict'')
      | ValueError m \<Rightarrow> refuse 404 ''conversation_not_found''
      | _ \<Rightarrow> give_result (Inl e))"

definition start_run ::
  "'w api_env \<Rightarrow> message_target \<Rightarrow> string \<Rightarrow> string \<Rightarrow> string \<Rightarrow> (sent_message, 'w) request" where
  "start_run env t content client_id run_id =
     (let q = worker_request t content run_id in
      and_then (new_run env q None) (\<lambda>(c, s).
        trying (reserve_run env c s)
          (\<lambda>e. if e = ActiveRunConflictError then refuse_active active_detail t
               else refuse 503 ''run_creation_unavailable'')
          (\<lambda>_. trying (append_request (ax_run env) t content client_id run_id)
            (append_refused env run_id)
            (\<lambda>m. if \<not> mr_created m then repeated_message (mt_actor_id t) m
                 else sent (mr_message_id m) run_id RS_CREATED q))))"

definition send_message ::
  "'w api_env \<Rightarrow> string \<Rightarrow> string \<Rightarrow> string \<Rightarrow> string \<Rightarrow> (sent_message, 'w) request" where
  "send_message env actor conversation_id content client_id =
     (let t = customer_target conversation_id actor in
      and_then (draw (ax_run env)) (\<lambda>(now, run_id).
      and_then (observing (\<lambda>w. find_user_by_client_message_id t client_id (runtime w))) (\<lambda>found.
        case found of
          Some m \<Rightarrow> repeated_message actor m
        | None \<Rightarrow>
          and_then (observing (\<lambda>w. (target_visible t (runtime w),
              active_for_conversation conversation_id demo_tenant actor (runtime w)))) (\<lambda>(known, active).
            if \<not> known then refuse 404 ''conversation_not_found''
            else case active of
                None \<Rightarrow> start_run env t content client_id run_id
              | Some s \<Rightarrow> if run_snapshot.sn_status s = RS_WAITING_USER then continue_run env t content client_id (sn_run_id s)
                          else start_run env t content client_id run_id))))"

section \<open>Retrying\<close>

definition retry_run :: "'w api_env \<Rightarrow> string \<Rightarrow> string \<Rightarrow> string \<Rightarrow> (sent_message, 'w) request" where
  "retry_run env actor run_id client_id =
     with_run run_id actor (\<lambda>source.
       if run_snapshot.sn_status source \<notin> {RS_FAILED, RS_EXPIRED} then refuse 409 ''run_not_retryable''
       else (let t = customer_target (sn_conversation_id source) actor in
         and_then (observing (\<lambda>w. latest_user_for_run t run_id (runtime w))) (\<lambda>found.
           case found of
             None \<Rightarrow> refuse 409 ''retry_source_message_missing''
           | Some original \<Rightarrow>
             and_then (draw (ax_run env)) (\<lambda>(now, child).
               let q = worker_request t (mr_content original) child in
               and_then (new_run env q (Some run_id)) (\<lambda>(c, s).
                 trying (reserve_run env c s)
                   (\<lambda>e. if e = ActiveRunConflictError then refuse_active retry_detail t else give_result (Inl e))
                   (\<lambda>_. trying (append_request (ax_run env) t (mr_content original) client_id child)
                     (\<lambda>e. and_then (cancel_reservation env child ''RETRY_MESSAGE_PROJECTION_FAILED'') (\<lambda>_.
                        refuse 503 ''retry_unavailable''))
                     (\<lambda>m. sent (mr_message_id m) child RS_CREATED q)))))))"

section \<open>Confirming\<close>

record confirmation_request =
  cq_accept :: bool
  cq_token :: string
  cq_key :: string

record confirmation_response =
  cw_run_id :: string
  cw_status :: run_status
  cw_accepted :: bool
  cw_response :: string

definition rejected_text :: string where
  "rejected_text = [CHR 0xE5, CHR 0xB7, CHR 0xB2, CHR 0xE5, CHR 0x8F, CHR 0x96, CHR 0xE6, CHR 0xB6,
      CHR 0x88, CHR 0xE8, CHR 0xAF, CHR 0xA5, CHR 0xE6, CHR 0x93, CHR 0x8D,
      CHR 0xE4, CHR 0xBD, CHR 0x9C, CHR 0xEF, CHR 0xBC, CHR 0x8C, CHR 0xE6,
      CHR 0x9C, CHR 0xAA, CHR 0xE4, CHR 0xBA, CHR 0xA7, CHR 0xE7, CHR 0x94,
      CHR 0x9F, CHR 0xE4, CHR 0xBB, CHR 0xBB, CHR 0xE4, CHR 0xBD, CHR 0x95,
      CHR 0xE4, CHR 0xB8, CHR 0x9A, CHR 0xE5, CHR 0x8A, CHR 0xA1, CHR 0xE5,
      CHR 0x8F, CHR 0x98, CHR 0xE6, CHR 0x9B, CHR 0xB4, CHR 0xE3, CHR 0x80,
      CHR 0x82]"

definition submitted_text :: string where
  "submitted_text = [CHR 0xE6, CHR 0x93, CHR 0x8D, CHR 0xE4, CHR 0xBD, CHR 0x9C, CHR 0xE5, CHR 0xB7,
      CHR 0xB2, CHR 0xE6, CHR 0x8F, CHR 0x90, CHR 0xE4, CHR 0xBA, CHR 0xA4,
      CHR 0xE5, CHR 0xB9, CHR 0xB6, CHR 0xE5, CHR 0xAE, CHR 0x8C, CHR 0xE6,
      CHR 0x88, CHR 0x90, CHR 0xE7, CHR 0x8A, CHR 0xB6, CHR 0xE6, CHR 0x80,
      CHR 0x81, CHR 0xE6, CHR 0xA0, CHR 0xA1, CHR 0xE9, CHR 0xAA, CHR 0x8C,
      CHR 0xE3, CHR 0x80, CHR 0x82]"

definition unsettled_text :: string where
  "unsettled_text = [CHR 0xE6, CHR 0x93, CHR 0x8D, CHR 0xE4, CHR 0xBD, CHR 0x9C, CHR 0xE7, CHR 0x8A,
      CHR 0xB6, CHR 0xE6, CHR 0x80, CHR 0x81, CHR 0xE6, CHR 0x9A, CHR 0x82,
      CHR 0xE6, CHR 0x97, CHR 0xB6, CHR 0xE6, CHR 0x97, CHR 0xA0, CHR 0xE6,
      CHR 0xB3, CHR 0x95, CHR 0xE7, CHR 0xA1, CHR 0xAE, CHR 0xE8, CHR 0xAE,
      CHR 0xA4, CHR 0xEF, CHR 0xBC, CHR 0x8C, CHR 0xE5, CHR 0xB7, CHR 0xB2,
      CHR 0xE8, CHR 0xBD, CHR 0xAC, CHR 0xE4, CHR 0xBA, CHR 0xBA, CHR 0xE5,
      CHR 0xB7, CHR 0xA5, CHR 0xE5, CHR 0xA4, CHR 0x84, CHR 0xE7, CHR 0x90,
      CHR 0x86, CHR 0xE3, CHR 0x80, CHR 0x82]"

text \<open>Both repositories of the hand-off are passed to \<open>confirm_mutation\<close>.\<close>

definition request_flow :: "'w api_env \<Rightarrow> workflow_env" where
  "request_flow env = (flow (ax_run env))\<lparr>we_handoffs := True, we_audit := True\<rparr>"

definition decide_mutation ::
  "'w api_env \<Rightarrow> run_context \<Rightarrow> confirmation_request \<Rightarrow> (run_context, 'w) action" where
  "decide_mutation env c p =
     (if cq_accept p then on_boundary (confirm_mutation (request_flow env) (ax_system env) c (cq_token p) (cq_key p))
      else on_repository (reject_mutation (request_flow env) c (we_hash_secret (request_flow env) (cq_token p))))"

definition confirmation_refused :: "py_exn \<Rightarrow> ('a, 'w) request" where
  "confirmation_refused e =
     (case e of
        MutationWorkflowError code missing \<Rightarrow>
          refuse (if code \<in> {''CONFIRMATION_UNAVAILABLE'', ''CONFIRMATION_CONFLICT'', ''PREVIEW_CHANGED''} then 409 else 400)
            code
      | _ \<Rightarrow> give_result (Inl e))"

definition waiting_run ::
  "string \<Rightarrow> string \<Rightarrow> run_status \<Rightarrow> string \<Rightarrow> (run_snapshot \<Rightarrow> ('a, 'w) request) \<Rightarrow> ('a, 'w) request" where
  "waiting_run run_id actor status detail f =
     with_run run_id actor (\<lambda>s. if run_snapshot.sn_status s \<noteq> status then refuse 409 detail else f s)"

definition report_confirmation ::
  "'w api_env \<Rightarrow> string \<Rightarrow> confirmation_request \<Rightarrow> run_context \<Rightarrow> (confirmation_response, 'w) request" where
  "report_confirmation env run_id p updated =
     (let accepted = cq_accept p \<and> rc_status updated = RS_COMPLETED;
          message = (if \<not> cq_accept p then rejected_text else if accepted then submitted_text else unsettled_text) in
      and_then (publish (ax_run env) updated (Some message)
          (if accepted then None else Some ''CONFIRMATION_REJECTED'') (Some False)) (\<lambda>_.
        answer \<lparr>cw_run_id = run_id, cw_status = rc_status updated, cw_accepted = accepted, cw_response = message\<rparr>))"

definition confirm_run ::
  "'w api_env \<Rightarrow> string \<Rightarrow> string \<Rightarrow> confirmation_request \<Rightarrow> (confirmation_response, 'w) request" where
  "confirm_run env actor run_id p =
     waiting_run run_id actor RS_WAITING_CONFIRMATION ''run_not_waiting_confirmation'' (\<lambda>s.
     with_context run_id actor (\<lambda>c.
       trying (decide_mutation env c p) confirmation_refused (report_confirmation env run_id p)))"

record refresh_response =
  rf_run_id :: string
  rf_token :: string
  rf_preview :: pydict
  rf_expires_at :: string

definition refresh_confirmation :: "'w api_env \<Rightarrow> string \<Rightarrow> string \<Rightarrow> (refresh_response, 'w) request" where
  "refresh_confirmation env actor run_id =
     waiting_run run_id actor RS_WAITING_CONFIRMATION ''run_not_waiting_confirmation'' (\<lambda>s.
     with_context run_id actor (\<lambda>c.
       trying (on_repository (refresh_mutation_token (request_flow env) c))
         (\<lambda>e. case e of MutationWorkflowError code missing \<Rightarrow> refuse 409 code | _ \<Rightarrow> give_result (Inl e))
         (\<lambda>(token, expires, preview). answer
            \<lparr>rf_run_id = run_id, rf_token = token, rf_preview = preview, rf_expires_at = expires\<rparr>)))"

section \<open>Reading a run\<close>

record run_view =
  vw_run_id :: string
  vw_conversation_id :: string
  vw_status :: run_status
  vw_current_step :: string
  vw_step_count :: int
  vw_checkpoint_seq :: int
  vw_terminal_reason :: "string option"
  vw_preview :: "pydict option"
  vw_expires_at :: "string option"
  vw_refresh :: bool
  vw_actions :: "string list"
  vw_retryable :: bool
  vw_terminal_at :: "int option"
  vw_published_at :: "int option"

definition run_response :: "run_snapshot \<Rightarrow> pydict option \<Rightarrow> string option \<Rightarrow> run_view" where
  "run_response s preview expires =
     (let waiting = run_snapshot.sn_status s = RS_WAITING_CONFIRMATION; actions = allowed_actions (run_snapshot.sn_status s) in
      \<lparr>vw_run_id = sn_run_id s, vw_conversation_id = sn_conversation_id s, vw_status = run_snapshot.sn_status s,
       vw_current_step = sn_current_step s, vw_step_count = sn_step_count s,
       vw_checkpoint_seq = sn_last_checkpoint_seq s, vw_terminal_reason = sn_terminal_reason s,
       vw_preview = (if waiting then preview else None), vw_expires_at = (if waiting then expires else None),
       vw_refresh = waiting, vw_actions = actions, vw_retryable = (''retry'' \<in> set actions),
       vw_terminal_at = sn_terminal_at s, vw_published_at = sn_response_published_at s\<rparr>)"

definition get_run :: "string \<Rightarrow> string \<Rightarrow> (run_view, 'w) request" where
  "get_run actor run_id =
     with_run run_id actor (\<lambda>s.
       and_then (observing (\<lambda>w. load_latest_checkpoint run_id demo_tenant (runtime w))) (\<lambda>found.
         let state = (case found of None \<Rightarrow> [] | Some c \<Rightarrow> rc_state c) in
         answer (run_response s
           (case dget state ''mutation_preview'' of Some (PDict d) \<Rightarrow> Some d | _ \<Rightarrow> None)
           (is_text (dget state ''mutation_expires_at'')))))"

section \<open>Cancelling\<close>

definition withdraw_token :: "string \<Rightarrow> string \<Rightarrow> pydict \<Rightarrow> 'w api_env \<Rightarrow> (unit, 'w) action" where
  "withdraw_token run_id actor state env =
     (case dget state ''mutation_preview_hash'' of
        Some (PStr h) \<Rightarrow>
          best_effort (on_runtime (ax_run env) (\<lambda>now i. invalidate_waiting run_id demo_tenant actor h))
      | _ \<Rightarrow> give ())"

definition record_run_reason :: "'w api_env \<Rightarrow> string \<Rightarrow> string \<Rightarrow> (unit, 'w) action" where
  "record_run_reason env run_id reason =
     and_then (on_runtime (ax_run env) (\<lambda>now i. set_terminal_reason now run_id demo_tenant (Some reason))) (\<lambda>n. give ())"

definition cancel_run :: "'w api_env \<Rightarrow> string \<Rightarrow> string \<Rightarrow> (run_view, 'w) request" where
  "cancel_run env actor run_id =
     with_run run_id actor (\<lambda>s.
     with_context run_id actor (\<lambda>c.
       if rc_status c \<notin> {RS_WAITING_CONFIRMATION, RS_WAITING_USER} then refuse 409 ''run_not_cancellable''
       else (let state = dset (rc_state c) ''mutation_outcome'' (PStr ''cancelled'') in
         and_then (withdraw_token run_id actor state env) (\<lambda>_.
         and_then (checkpoint (ax_run env) c RS_CANCELLED ''terminal'' state
             [event ET_FAILED [(''reason'', PStr ''cancelled_by_user'')]]) (\<lambda>version.
         and_then (record_run_reason env run_id ''CANCELLED_BY_USER'') (\<lambda>_.
         and_then (publish (ax_run env) (c\<lparr>rc_status := RS_CANCELLED, rc_state := state\<rparr>) None
             (Some ''CANCELLED_BY_USER'') (Some False)) (\<lambda>_.
         and_then (observing (\<lambda>w. load_run run_id demo_tenant (Some actor) (runtime w))) (\<lambda>latest.
           answer (run_response (case latest of
               None \<Rightarrow> s\<lparr>run_snapshot.sn_status := RS_CANCELLED, sn_step_count := sn_step_count s + 1, sn_row_version := version\<rparr>
             | Some t \<Rightarrow> t) None None)))))))))"

section \<open>Human review\<close>

datatype review_outcome = VERIFIED_SUCCESS | VERIFIED_FAILURE

fun review_outcome_value :: "review_outcome \<Rightarrow> string" where
  "review_outcome_value VERIFIED_SUCCESS = ''verified_success''"
| "review_outcome_value VERIFIED_FAILURE = ''verified_failure''"

definition approved_text :: string where
  "approved_text = [CHR 0xE4, CHR 0xBA, CHR 0xBA, CHR 0xE5, CHR 0xB7, CHR 0xA5, CHR 0xE5, CHR 0xAE,
      CHR 0xA1, CHR 0xE6, CHR 0xA0, CHR 0xB8, CHR 0xE5, CHR 0xB7, CHR 0xB2,
      CHR 0xE6, CHR 0x89, CHR 0xB9, CHR 0xE5, CHR 0x87, CHR 0x86, CHR 0xEF,
      CHR 0xBC, CHR 0x8C, CHR 0xE6, CHR 0x9C, CHR 0xAC, CHR 0xE6, CHR 0xAC,
      CHR 0xA1, CHR 0xE6, CHR 0xB5, CHR 0x81, CHR 0xE7, CHR 0xA8, CHR 0x8B,
      CHR 0xE5, CHR 0xB7, CHR 0xB2, CHR 0xE5, CHR 0xAE, CHR 0x8C, CHR 0xE6,
      CHR 0x88, CHR 0x90, CHR 0xE3, CHR 0x80, CHR 0x82]"

definition not_approved_text :: string where
  "not_approved_text = [CHR 0xE4, CHR 0xBA, CHR 0xBA, CHR 0xE5, CHR 0xB7, CHR 0xA5, CHR 0xE5, CHR 0xAE,
      CHR 0xA1, CHR 0xE6, CHR 0xA0, CHR 0xB8, CHR 0xE6, CHR 0x9C, CHR 0xAA,
      CHR 0xE6, CHR 0x89, CHR 0xB9, CHR 0xE5, CHR 0x87, CHR 0x86, CHR 0xEF,
      CHR 0xBC, CHR 0x8C, CHR 0xE6, CHR 0x9C, CHR 0xAC, CHR 0xE6, CHR 0xAC,
      CHR 0xA1, CHR 0xE6, CHR 0xB5, CHR 0x81, CHR 0xE7, CHR 0xA8, CHR 0x8B,
      CHR 0xE5, CHR 0xB7, CHR 0xB2, CHR 0xE7, CHR 0xBB, CHR 0x88, CHR 0xE6,
      CHR 0xAD, CHR 0xA2, CHR 0xE3, CHR 0x80, CHR 0x82]"

definition resolved_state :: "pydict \<Rightarrow> review_outcome \<Rightarrow> string \<Rightarrow> pydict" where
  "resolved_state state verdict remark = dict_update state
     [(''handoff_resolution'', PStr (review_outcome_value verdict)), (''handoff_resolution_note'', PStr remark),
      (''mutation_outcome'', PStr (review_outcome_value verdict))]"

definition learn_rejection :: "'w run_env \<Rightarrow> string \<Rightarrow> string \<Rightarrow> (unit, 'w) action" where
  "learn_rejection env run_id route =
     (let m = \<lparr>rm_tenant_id = demo_tenant, rm_run_id = run_id, rm_status = ''failed'',
               rm_reason = Some ''HUMAN_REVIEW_REJECTED'', rm_route = Some route, rm_eval_failed = False,
               rm_human_rejected = True\<rparr>
      in and_then (observing (\<lambda>w. rs_tick (xw_store w))) (\<lambda>n.
         and_then (best_effort (on_failures (record_run_outcome (failure_envs env n) (rv_codec (repo env))
             (xe_attribution env) m))) (\<lambda>_.
           advance_supply (2 * length (signals_for_run ''failed'' (Some ''HUMAN_REVIEW_REJECTED'') False True)))))"

record handoff_response =
  hs_ticket_id :: string
  hs_run_id :: string
  hs_status :: string
  hs_run_status :: run_status
  hs_reason_code :: string
  hs_resolution :: "string option"

definition truthy_at :: "pydict \<Rightarrow> string \<Rightarrow> pyval option" where
  "truthy_at d k = (case dget d k of None \<Rightarrow> None | Some v \<Rightarrow> if truthy v then Some v else None)"

definition text_at_or :: "'w run_env \<Rightarrow> pydict \<Rightarrow> string \<Rightarrow> string \<Rightarrow> string" where
  "text_at_or env d k other = (case truthy_at d k of None \<Rightarrow> other | Some v \<Rightarrow> text_of (we_repr (flow env)) v)"

definition settle_review ::
  "'w api_env \<Rightarrow> string \<Rightarrow> handoff_ticket \<Rightarrow> run_context \<Rightarrow> review_outcome \<Rightarrow> string \<Rightarrow> (handoff_response, 'w) request" where
  "settle_review env actor ticket c verdict remark =
     (let target = (if verdict = VERIFIED_SUCCESS then RS_COMPLETED else RS_FAILED);
          state = resolved_state (rc_state c) verdict remark; ticket_id = ht_ticket_id ticket;
          code = review_outcome_value verdict in
      and_then (checkpoint (ax_run env) c target ''terminal'' state
          [event ET_HANDOFF_RESOLVED [(''ticket_id'', PStr ticket_id), (''outcome'', PStr code)]]) (\<lambda>v.
      and_then (on_runtime (ax_run env) (\<lambda>now i. resolve_ticket now ticket_id demo_tenant remark ''open'')) (\<lambda>resolved.
        case resolved of
          None \<Rightarrow> refuse 409 ''handoff_resolution_conflict''
        | Some r \<Rightarrow>
          and_then (publish (ax_run env) (c\<lparr>rc_status := target, rc_state := state\<rparr>)
              (Some (if verdict = VERIFIED_SUCCESS then approved_text else not_approved_text))
              (if target = RS_FAILED then Some ''HUMAN_REVIEW_REJECTED'' else None) (Some False)) (\<lambda>_.
          and_then (provided (target = RS_FAILED) (learn_rejection (ax_run env) (ht_run_id ticket)
              (case rc_workflow_id c of
                 Some x \<Rightarrow> if x = [] then text_at_or (ax_run env) (rc_state c) ''route'' ''terminal'' else x
               | None \<Rightarrow> text_at_or (ax_run env) (rc_state c) ''route'' ''terminal''))) (\<lambda>_.
          and_then (on_runtime (ax_run env) (\<lambda>now i. append_audit now i (Some demo_tenant) (Some actor)
              ''mutation_handoff_resolved''
              [(''ticket_id'', PStr ticket_id), (''run_id'', PStr (ht_run_id ticket)), (''outcome'', PStr code)]
              (we_hash_secret (request_flow env) (ticket_id @ '':'' @ code @ '':'' @ remark)))) (\<lambda>x.
            answer \<lparr>hs_ticket_id = ticket_id, hs_run_id = ht_run_id ticket, hs_status = ht_status r,
              hs_run_status = target, hs_reason_code = ht_reason_code ticket, hs_resolution = ht_resolution r\<rparr>))))))"

definition resolve_handoff ::
  "'w api_env \<Rightarrow> string \<Rightarrow> string \<Rightarrow> review_outcome \<Rightarrow> string \<Rightarrow> (handoff_response, 'w) request" where
  "resolve_handoff env actor ticket_id verdict remark =
     and_then (on_repository (\<lambda>s. (get_for_actor ticket_id demo_tenant actor (rs_db s), s))) (\<lambda>found.
       case found of
         None \<Rightarrow> refuse 404 ''handoff_not_found''
       | Some ticket \<Rightarrow>
           if ht_status ticket \<noteq> ''open'' then refuse 409 ''handoff_already_resolved''
           else with_run (ht_run_id ticket) actor (\<lambda>s.
             with_context (ht_run_id ticket) actor (\<lambda>c.
               if rc_status c \<noteq> RS_WAITING_HUMAN then refuse 409 ''run_not_waiting_human''
               else settle_review env actor ticket c verdict remark)))"

text \<open>A review without a ticket gets one from the newest checkpoint.\<close>

definition review_needed_text :: string where
  "review_needed_text = [CHR 0xE8, CHR 0xAF, CHR 0xB7, CHR 0xE6, CHR 0xB1, CHR 0x82, CHR 0xE9, CHR 0x9C,
      CHR 0x80, CHR 0xE8, CHR 0xA6, CHR 0x81, CHR 0xE4, CHR 0xBA, CHR 0xBA,
      CHR 0xE5, CHR 0xB7, CHR 0xA5, CHR 0xE5, CHR 0xA4, CHR 0x84, CHR 0xE7,
      CHR 0x90, CHR 0x86]"

definition review_request :: "'w run_env \<Rightarrow> string \<Rightarrow> run_snapshot \<Rightarrow> pydict \<Rightarrow> handoff_request" where
  "review_request env actor s state =
     (let args = (case dget state ''mutation_args'' of Some (PDict d) \<Rightarrow> d | _ \<Rightarrow> []);
          other = or_text (sn_terminal_reason s) ''HUMAN_REVIEW_REQUIRED'';
          detail = (\<lambda>k. case truthy_at args k of
             None \<Rightarrow> [] | Some v \<Rightarrow> [(k, PStr (slice_to (text_of (we_repr (flow env)) v) 128))]) in
      \<lparr>hr_run_id = sn_run_id s, hr_tenant_id = demo_tenant, hr_actor_ref = actor,
       hr_reason_code = slice_to (text_at_or env state ''mutation_error'' other) 128,
       hr_operation = Some (text_at_or env state ''mutation_type'' (text_at_or env state ''route'' ''human_review'')),
       hr_details = [(''message'', PStr (slice_to (text_at_or env state ''mutation_message'' review_needed_text) 500))]
         @ detail ''order_id'' @ detail ''item_id''\<rparr>)"

definition get_human_review :: "'w api_env \<Rightarrow> string \<Rightarrow> string \<Rightarrow> (handoff_ticket, 'w) request" where
  "get_human_review env actor run_id =
     waiting_run run_id actor RS_WAITING_HUMAN ''run_not_waiting_human'' (\<lambda>s.
     and_then (on_repository (\<lambda>x. (get_open_for_run run_id demo_tenant actor (rs_db x), x))) (\<lambda>found.
       case found of
         Some t \<Rightarrow> answer t
       | None \<Rightarrow>
         and_then (observing (\<lambda>w. load_latest_checkpoint run_id demo_tenant (runtime w))) (\<lambda>checkpointed.
         and_then (on_runtime (ax_run env) (\<lambda>now i. get_or_create_open_for_run now i
             (review_request (ax_run env) actor s (case checkpointed of None \<Rightarrow> [] | Some c \<Rightarrow> rc_state c)))) (\<lambda>made.
           case made of None \<Rightarrow> refuse 404 ''human_review_not_found'' | Some t \<Rightarrow> answer t))))"

section \<open>Restart\<close>

primrec for_each :: "('x \<Rightarrow> (unit, 'w) action) \<Rightarrow> 'x list \<Rightarrow> (unit, 'w) action" where
  "for_each f [] = give ()"
| "for_each f (x # xs) = and_then (f x) (\<lambda>_. for_each f xs)"

definition unfinished :: "run_row \<Rightarrow> bool" where
  "unfinished r \<longleftrightarrow> rr_tenant_id r = demo_tenant \<and>
     rr_status r \<in> {RS_CREATED, RS_ROUTING, RS_RUNNING_READONLY, RS_RUNNING_WORKFLOW}"

definition overdue :: "int \<Rightarrow> run_row \<Rightarrow> bool" where
  "overdue now r \<longleftrightarrow> unfinished r \<and> pin_deadline_at (rr_pins r) \<le> now"

definition expired_row :: "int \<Rightarrow> run_row \<Rightarrow> run_row" where
  "expired_row now r = (touch_times now id r)
     \<lparr>rr_status := RS_EXPIRED, rr_step := ''terminal'', rr_reason := Some ''DEADLINE_EXCEEDED_DURING_RESTART'',
      rr_version := rr_version r + 1\<rparr>"

definition expire_runs :: "int \<Rightarrow> runtime_db \<Rightarrow> string list result \<times> runtime_db" where
  "expire_runs now db = transaction db
     (bind_res (update_runs (overdue now) (expired_row now) db) (\<lambda>(n, db').
        Inr (map rr_run_id (filter (overdue now) (db_runs db)), db')))"

definition repair_context :: "string \<Rightarrow> run_snapshot \<Rightarrow> run_context option \<Rightarrow> string option \<Rightarrow> run_context option" where
  "repair_context tenant s stored owner =
     (case owner of
        None \<Rightarrow> None
      | Some actor \<Rightarrow>
        (let c = (case stored of
               None \<Rightarrow> new_context \<lparr>qr_conversation_id = sn_conversation_id s, qr_content = [], qr_actor_id = actor,
                   qr_run_id = sn_run_id s, qr_tenant_id = tenant\<rparr>
             | Some c \<Rightarrow> c\<lparr>rc_run_id := sn_run_id s, rc_conversation_id := sn_conversation_id s, rc_tenant_id := tenant,
                   rc_actor_id := actor\<rparr>);
             d = c\<lparr>rc_status := run_snapshot.sn_status s\<rparr>
         in if valid_run_context d then Some d else None))"

definition repair_response :: "'w run_env \<Rightarrow> string \<Rightarrow> run_snapshot \<Rightarrow> (unit, 'w) action" where
  "repair_response env tenant s =
     and_then (observing (\<lambda>w. repair_context tenant s (load_latest_checkpoint (sn_run_id s) tenant (runtime w))
         (actor_for_run (sn_run_id s) tenant (runtime w)))) (\<lambda>found.
       case found of None \<Rightarrow> give () | Some c \<Rightarrow> best_effort (publish env c None None None))"

definition repair_missing_terminal_responses :: "'w run_env \<Rightarrow> string \<Rightarrow> int \<Rightarrow> (unit, 'w) action" where
  "repair_missing_terminal_responses env tenant limit =
     and_then (on_repository (\<lambda>s. (terminal_runs_without_response tenant limit (rs_db s), s))) (\<lambda>runs.
       for_each (repair_response env tenant) runs)"

definition continue_text :: string where
  "continue_text = [CHR 0xE7, CHR 0xBB, CHR 0xA7, CHR 0xE7, CHR 0xBB, CHR 0xAD, CHR 0xE5, CHR 0xA4,
      CHR 0x84, CHR 0xE7, CHR 0x90, CHR 0x86, CHR 0xE5, CHR 0xBD, CHR 0x93,
      CHR 0xE5, CHR 0x89, CHR 0x8D, CHR 0xE4, CHR 0xBB, CHR 0xBB, CHR 0xE5,
      CHR 0x8A, CHR 0xA1]"

definition latest_request :: "message_record list \<Rightarrow> string" where
  "latest_request history =
     (case find (\<lambda>m. mr_role m = ''user'') (rev history) of None \<Rightarrow> continue_text | Some m \<Rightarrow> mr_content m)"

definition resumed_request :: "runtime_db \<Rightarrow> run_row \<Rightarrow> run_request result" where
  "resumed_request db r =
     (let t = customer_target (rr_conversation_id r) (rr_actor_ref r) in
      bind_res (list_messages t 0 500 db) (\<lambda>history. Inr (worker_request t (latest_request history) (rr_run_id r))))"

definition recover_runs :: "'w api_env \<Rightarrow> (run_request list, 'w) action" where
  "recover_runs env =
     (let e = ax_run env in
      and_then (on_runtime e (\<lambda>now i. expire_runs now)) (\<lambda>expired.
      and_then (for_each (\<lambda>run_id. learn_failure e demo_tenant run_id ''expired'' ''DEADLINE_EXCEEDED_DURING_RESTART''
          (Some ''terminal'')) expired) (\<lambda>_.
      and_then (on_runtime e (\<lambda>now i db.
          (Inr (filter (\<lambda>r. unfinished r \<and> now < pin_deadline_at (rr_pins r)) (db_runs db)), db))) (\<lambda>rows.
      and_then (repair_missing_terminal_responses e demo_tenant 100) (\<lambda>_.
        on_repository (\<lambda>s. (map_res (resumed_request (rs_db s)) rows, s)))))))"

definition recover_active_runs :: "'w api_env \<Rightarrow> (run_request list, 'w) action" where
  "recover_active_runs env = catching (recover_runs env) (\<lambda>e. give [])"

end
