(* ===== verification/WorkflowHistory.thy ===== *)
theory WorkflowHistory
  imports LowRisk
begin

text \<open>
  All mutation workflows side by side: prepared, rejected, refreshed and confirmed mutations, low-risk
  operations, recoveries and the transactions of everybody else, in any order and for any runs. Each of
  them is a history of the mutation boundary, so the single call per intent holds of the whole system.
\<close>

lemma on_tick: "store_history (tick s) s' \<Longrightarrow> store_history s s'"
  using tick_history by (rule rtranclp_trans)

lemma prepare_history [histories]:
  assumes "prepare_mutation env c mutation_type args s = (r, s')"
  shows "store_history s s'"
proof (cases "prepare_plan (we_repr env) default_demo_orders mutation_type (rc_actor_id c) args ''phase4-policy-v1''")
  case (Inl e)
  then show ?thesis using assms by (simp add: prepare_mutation_def)
next
  case (Inr p)
  let ?expires = "read_time env s + we_token_ttl env"
  obtain q s1 where q: "transact env (\<lambda>now i. issue_token now i (token_input_of env c (we_token env (rs_tick s)) p ?expires)) (tick s) = (q, s1)"
    by force
  have "store_history (tick s) s1" using q by (rule transact_history) (auto intro: confirm_step.issue)
  then have h: "store_history s s1" by (rule on_tick)
  show ?thesis
  proof (cases q)
    case (Inl e)
    then show ?thesis using assms Inr q h by (simp add: prepare_mutation_def Let_def)
  next
    case (Inr i)
    then show ?thesis
      using assms \<open>prepare_plan _ _ _ _ _ _ = Inr p\<close> q h checkpoint_history
      by (auto simp: prepare_mutation_def Let_def split: prod.splits sum.splits intro: rtranclp_trans)
  qed
qed

lemma reject_history [histories]:
  assumes "reject_mutation env c h s = (r, s')"
  shows "store_history s s'"
proof (cases "waiting_token c h s")
  case (Inl e)
  then show ?thesis using assms by (simp add: reject_mutation_def)
next
  case (Inr t)
  obtain q s1 where q: "transact env (\<lambda>now i. reject_token now h (rc_tenant_id c) (rc_actor_id c) (tk_version t)) s = (q, s1)"
    by force
  have h: "store_history s s1" using q by (rule transact_history) (auto intro: confirm_step.reject)
  show ?thesis
    using assms Inr q h checkpoint_history
    by (cases q) (auto simp: reject_mutation_def Let_def split: prod.splits sum.splits intro: rtranclp_trans)
qed

lemma refresh_cases:
  assumes "refresh_mutation_token env c s = (r, s')"
  shows "s' = s \<or> (\<exists>p t q s1. transact env (\<lambda>now i. rotate_waiting now i (rc_run_id c) (rc_tenant_id c) (rc_actor_id c) p t)
      (tick s) = (q, s1) \<and> (s' = s1 \<or> (\<exists>state evs k. checkpoint_run (we_store env) c RS_WAITING_CONFIRMATION
        ''confirm_mutation'' state evs s1 = (k, s'))))"
  using assms unfolding refresh_mutation_token_def Let_def
  by (auto split: if_splits option.splits pyval.splits prod.splits sum.splits)

lemma refresh_history [histories]:
  assumes "refresh_mutation_token env c s = (r, s')"
  shows "store_history s s'"
  using refresh_cases [OF assms]
proof (elim disjE exE conjE)
  fix p t q s1
  assume q: "transact env (\<lambda>now i. rotate_waiting now i (rc_run_id c) (rc_tenant_id c) (rc_actor_id c) p t) (tick s) = (q, s1)"
  have "store_history (tick s) s1" using q by (rule transact_history) (auto intro: confirm_step.rotate)
  then have h: "store_history s s1" by (rule on_tick)
  {
    assume "s' = s1"
    then show ?thesis using h by simp
  next
    fix state evs k
    assume "checkpoint_run (we_store env) c RS_WAITING_CONFIRMATION ''confirm_mutation'' state evs s1 = (k, s')"
    then show ?thesis using h checkpoint_history by (blast intro: rtranclp_trans)
  }
qed simp

section \<open>The system\<close>

inductive workflow_step ::
  "repository_env \<Rightarrow> ('w, repository_state) boundary_state \<Rightarrow> ('w, repository_state) boundary_state \<Rightarrow> bool"
  for renv where
  prepare: "we_store env = renv \<Longrightarrow> on_store (prepare_mutation env c mutation_type args) st = (r, st') \<Longrightarrow>
    workflow_step renv st st'"
| reject: "we_store env = renv \<Longrightarrow> on_store (reject_mutation env c h) st = (r, st') \<Longrightarrow> workflow_step renv st st'"
| refresh: "we_store env = renv \<Longrightarrow> on_store (refresh_mutation_token env c) st = (r, st') \<Longrightarrow> workflow_step renv st st'"
| confirm: "we_store env = renv \<Longrightarrow> confirm_mutation env sys c token key st = (r, st') \<Longrightarrow> workflow_step renv st st'"
| low_risk: "we_store (le_workflow lenv) = renv \<Longrightarrow> execute_low_risk lenv commit c route args st = (r, st') \<Longrightarrow>
    workflow_step renv st st'"
| others: "mutation_step renv st st' \<Longrightarrow> workflow_step renv st st'"

lemma workflow_step_history:
  assumes "workflow_step renv st st'"
  shows "(mutation_step renv)\<^sup>*\<^sup>* st st'"
  using assms
proof (cases rule: workflow_step.cases)
  case prepare
  then show ?thesis using on_store_history prepare_history by blast
next
  case reject
  then show ?thesis using on_store_history reject_history by blast
next
  case refresh
  then show ?thesis using on_store_history refresh_history by blast
next
  case confirm
  then show ?thesis using confirm_steps by blast
next
  case low_risk
  then show ?thesis using low_risk_history by blast
qed simp

section \<open>Property\<close>

text \<open>The whole system calls the external system at most once per mutation. Whatever mutations are
  prepared, rejected, refreshed, confirmed, requested as low-risk operations or recovered, concurrently,
  repeatedly and with any outcome: no two calls carry the same idempotency key, and every key belongs
  to an intent that was claimed.\<close>

theorem workflows_call_once:
  assumes "(workflow_step renv)\<^sup>*\<^sup>* st st'" "intents_ok (bs_store st)" "bs_calls st = []"
  shows "distinct (bs_calls st') \<and>
    (\<forall>k\<in>set (bs_calls st'). stored_status (bs_store st') k \<notin> {None, Some MX_RESERVED})"
proof -
  have "(mutation_step renv)\<^sup>*\<^sup>* st st'"
    using assms(1) by (induction rule: rtranclp_induct) (auto dest: workflow_step_history intro: rtranclp_trans)
  moreover have "calls_ok st" using assms(2,3) by (simp add: calls_ok_def)
  ultimately have "calls_ok st'" by (rule calls_ok_history)
  then show ?thesis by (auto simp: calls_ok_def list_all_iff started_in_def stored_status_def)
qed

section \<open>Witness\<close>

text \<open>The same invoice requested twice.\<close>

definition demo_invoice_again ::
  "low_risk_result result \<times> ((string \<times> low_risk_request) list, repository_state) boundary_state" where
  "demo_invoice_again = execute_low_risk demo_low_risk demo_low_risk_commit demo_confirmed_run ''invoice_request''
     demo_invoice_args (snd demo_invoice)"

lemma demo_invoice_again_facts:
  "bs_calls (snd demo_invoice_again) = [''r'']" "bs_calls demo_invoice_start = []"
  by code_simp+

lemma demo_low_risk_store: "we_store (le_workflow demo_low_risk) = demo_repository"
  by (simp add: demo_low_risk_def demo_workflow_def)

lemma workflows_call_once_witness:
  "distinct (bs_calls (snd demo_invoice_again)) \<and> bs_calls (snd demo_invoice_again) = [''r'']"
proof -
  have step: "workflow_step demo_repository st (snd (execute_low_risk demo_low_risk demo_low_risk_commit demo_confirmed_run
      ''invoice_request'' demo_invoice_args st))" for st
    using demo_low_risk_store by (rule workflow_step.low_risk [OF _ prod.collapse [symmetric]])
  have "(workflow_step demo_repository)\<^sup>*\<^sup>* demo_invoice_start (snd demo_invoice_again)"
    unfolding demo_invoice_again_def demo_invoice_def
    by (rule converse_rtranclp_into_rtranclp [OF step r_into_rtranclp [of "workflow_step demo_repository", OF step]])
  then show ?thesis using workflows_call_once demo_invoice_facts(2) demo_invoice_again_facts(1,2) by blast
qed

end
