(* ===== verification/ServiceHistory.thy ===== *)
theory ServiceHistory
  imports RunApi WorkflowHistory
begin

text \<open>
  The service as a whole: requests of customers, answered one at a time, the one worker that executes the messages
  they left in its queue, and restarts that lose the queue. Every request and every executed message is a history
  of the mutation repositories and calls no tool but the read-only ones of the catalog.
\<close>

section \<open>Served actions\<close>

definition boundary :: "'w run_world \<Rightarrow> ('w, repository_state) boundary_state" where
  "boundary w = \<lparr>bs_world = tst_world (xw_tools w), bs_calls = xw_calls w, bs_store = xw_store w\<rparr>"

definition mutating :: "repository_env \<Rightarrow> 'w run_world \<Rightarrow> 'w run_world \<Rightarrow> bool" where
  "mutating renv w w' \<longleftrightarrow> (mutation_step renv)\<^sup>*\<^sup>* (boundary w) (boundary w')"

definition reading :: "'w run_world \<Rightarrow> 'w run_world \<Rightarrow> bool" where
  "reading w w' \<longleftrightarrow> (\<exists>new. tst_calls (xw_tools w') = tst_calls (xw_tools w) @ new \<and> list_all shipped_read new)"

definition served :: "repository_env \<Rightarrow> 'w run_world \<Rightarrow> 'w run_world \<Rightarrow> bool" where
  "served renv w w' \<longleftrightarrow> mutating renv w w' \<and> reading w w'"

lemma served_relation: "run_relation (served renv)"
proof
  show "served renv w w" for w :: "'w run_world" by (simp add: served_def mutating_def reading_def)
next
  fix a b c :: "'w run_world"
  assume "served renv a b" "served renv b c"
  then show "served renv a c" by (auto simp: served_def mutating_def reading_def intro: rtranclp_trans)
qed

interpretation served: run_relation "served renv" for renv
  by (rule served_relation)

lemma served_store:
  assumes "store_history (xw_store w) (xw_store w')" "xw_calls w' = xw_calls w" "reading w w'"
  shows "served renv w w'"
proof -
  let ?m = "(boundary w)\<lparr>bs_store := xw_store w'\<rparr>"
  have "(mutation_step renv)\<^sup>*\<^sup>* (boundary w) ?m"
    using assms(1) by (rule store_history_mutation_steps) (simp add: boundary_def)
  moreover have "mutation_step renv ?m (?m\<lparr>bs_world := tst_world (xw_tools w'), bs_store := xw_store w'\<rparr>)"
    by (rule mutation_step.elsewhere) simp_all
  moreover have "?m\<lparr>bs_world := tst_world (xw_tools w'), bs_store := xw_store w'\<rparr> = boundary w'"
    using assms(2) by (simp add: boundary_def)
  ultimately have "mutating renv w w'" unfolding mutating_def by (metis rtranclp.rtrancl_into_rtrancl)
  then show ?thesis using assms(3) by (simp add: served_def)
qed

lemma kept_history: "guard_tables_kept (rs_db s) (rs_db s') \<Longrightarrow> store_history s s'"
  by (rule r_into_rtranclp, rule store_step.elsewhere) (simp_all add: guard_tables_kept_def)

lemma reading_same: "tst_calls (xw_tools w') = tst_calls (xw_tools w) \<Longrightarrow> reading w w'"
  by (simp add: reading_def)

lemma quiet_served: "inside quiet m \<Longrightarrow> inside (served renv) m"
  by (erule inside_mono) (auto simp: moving_def intro!: served_store kept_history reading_same quiet_guards [unfolded moving_def])

lemmas noting_served = quiet_served [OF noting_quiet]

lemma served_repository:
  assumes "\<And>s r s'. f s = (r, s') \<Longrightarrow> store_history s s'"
  shows "inside (served renv) (on_repository f)"
proof (rule insideI)
  fix w q w'
  assume run: "on_repository f w = (q, w')"
  obtain r s where e: "f (xw_store w) = (r, s)" by force
  then show "served renv w w'"
    using assms [OF e] run by (auto simp: on_repository_def intro!: served_store reading_same)
qed

lemma served_runtime:
  assumes "\<And>now i db r db'. f now i db = (r, db') \<Longrightarrow> guard_tables_kept db db'"
  shows "inside (served renv) (on_runtime env f)"
  unfolding on_runtime_def
proof (rule served_repository)
  fix s r s'
  assume "transact (flow env) f s = (r, s')"
  then show "store_history s s'"
    using assms by (auto simp: transact_def tick_def split: prod.splits intro!: kept_history)
qed

lemma served_boundary:
  assumes "\<And>st r st'. f st = (r, st') \<Longrightarrow> (mutation_step renv)\<^sup>*\<^sup>* st st'"
  shows "inside (served renv) (on_boundary f)"
proof (rule insideI)
  fix w q w'
  assume run: "on_boundary f w = (q, w')"
  obtain r b where e: "f (boundary w) = (r, b)" by force
  then have w': "w' = w\<lparr>xw_tools := (xw_tools w)\<lparr>tst_world := bs_world b\<rparr>, xw_calls := bs_calls b, xw_store := bs_store b\<rparr>"
    using run by (simp add: on_boundary_def boundary_def)
  then have "boundary w' = b" by (simp add: boundary_def)
  then have "mutating renv w w'" using assms [OF e] by (simp add: mutating_def)
  moreover have "reading w w'" by (rule reading_same) (simp add: w')
  ultimately show "served renv w w'" by (simp add: served_def)
qed

section \<open>The message\<close>

lemma served_ask: "inside (served renv) (ask_classifier env q c rules)"
  unfolding ask_classifier_def
proof (intro served.rules insideI)
  fix p :: routing_prompt_view and w w' :: "'a run_world" and r
  assume "on_tools (on_world (classify (xe_classifier env) c p)) w = (r, w')"
  then show "served renv w w'"
    by (auto simp: on_tools_def on_world_def split: prod.splits intro!: served_store reading_same)
qed

lemma served_workflow:
  assumes renv: "renv = repo env"
  shows "inside (served renv) (run_workflow env q c d x)"
proof -
  have handled: "inside (served renv) (case e of
           MutationWorkflowError code missing \<Rightarrow> workflow_failed env q c x args e code
         | LowRiskWorkflowError code missing \<Rightarrow> workflow_failed env q c x args e code
         | _ \<Rightarrow> give_result (Inl e))" for e :: py_exn and args
    by (cases e) (simp_all add: noting_served [OF noting_workflow_failed] served.give_result)
  have "inside (served renv) (on_repository (prepare_mutation (flow env) c t args))" for t args
    by (rule served_repository) (rule prepare_history)
  moreover have "inside (served renv) (on_boundary (execute_low_risk (xe_low_risk env) (xe_commit env) c x args))" for args
    unfolding renv by (rule served_boundary) (rule low_risk_history)
  ultimately show ?thesis
    unfolding run_workflow_def try_workflow_def prepare_for_customer_def submit_low_risk_def
    by (intro served.rules handled noting_served [OF noting_observe] noting_served [OF noting_publish])
qed

definition served_pipeline :: "('w, repository_state) pipeline_state \<Rightarrow> ('w, repository_state) pipeline_state \<Rightarrow> bool" where
  "served_pipeline ps ps' \<longleftrightarrow> store_history (ps_store ps) (ps_store ps')"

lemma advance_served:
  assumes "run_advance (readonly_pipeline env z) i c budget ps = (r, ps')"
  shows "served_pipeline ps ps'"
proof -
  obtain ts where "ps' = ps\<lparr>ps_tools := ts\<rparr> \<or> ps_store ps' = ps_store ps \<or> (\<exists>c status nxt state events v.
        checkpoint_run (repo env) c status nxt state events (ps_store ps) = (v, ps_store ps'))"
    using advance_related [OF assms [unfolded run_advance_def]] unfolding readonly_parts by blast
  then show ?thesis by (auto simp: served_pipeline_def dest: checkpoint_history)
qed

lemma handoff_served:
  assumes "pipeline_handoff (readonly_pipeline env z) c why ps = (r, ps')"
  shows "served_pipeline ps ps'"
  using assms
  by (auto simp: pipeline_handoff_def Let_def served_pipeline_def dest!: checkpoint_history split: sum.splits prod.splits)

lemma agent_run_served:
  assumes "agent_run (readonly_pipeline env z) i c budget ps = (r, ps')"
  shows "served_pipeline ps ps'"
proof (rule run_loop_related [OF _ _ advance_served handoff_served assms [unfolded agent_run_def]])
  show "served_pipeline x x" for x by (simp add: served_pipeline_def)
  show "served_pipeline x y \<Longrightarrow> served_pipeline y z \<Longrightarrow> served_pipeline x z" for x y z by (simp add: served_pipeline_def)
qed

lemma served_pipelines:
  assumes "\<And>ps r ps'. f ps = (r, ps') \<Longrightarrow> guarded_pipeline ps ps' \<and> served_pipeline ps ps'"
  shows "inside (served renv) (on_pipeline f)"
proof (rule insideI)
  fix w q w'
  assume run: "on_pipeline f w = (q, w')"
  obtain r ps where e: "f \<lparr>ps_tools = xw_tools w, ps_store = xw_store w\<rparr> = (r, ps)" by force
  then show "served renv w w'"
    using assms [OF e] run
    by (auto simp: on_pipeline_def guarded_pipeline_def served_pipeline_def reading_def intro!: served_store)
qed

lemma served_readonly: "inside (served renv) (run_readonly env q c x)"
  unfolding run_readonly_def execute_readonly_run_def run_agent_def read_records_def
  by (intro served.rules served_pipelines conjI noting_served [OF noting_choose_skill] noting_served [OF noting_publish_readonly]
      noting_served [OF noting_observe] quiet_served [OF quiet_mark_failed] quiet_served [OF moving_read]
      quiet_served [OF moving_supply])
    (rule agent_run_guarded agent_run_served, assumption)+

lemma served_route: "inside (served renv) (route_message env q c v)"
  unfolding route_message_def route_by_classifier_def Let_def
  by (intro served.rules served_ask quiet_served [OF quiet_settle] noting_served [OF noting_observe]
    noting_served [OF noting_release_assignment])

lemma served_execute:
  assumes renv: "renv = repo env"
  shows "inside (served renv) (execute_route env q c v r)"
proof (cases "rd_execution_mode (ro_decision r)"; cases "rd_workflow_id (ro_decision r)")
  fix mode x
  assume "rd_execution_mode (ro_decision r) = Some mode" "rd_workflow_id (ro_decision r) = Some x"
  then show ?thesis
    by (simp only: execute_route_def Let_def option.case prod.case)
      (intro served.rules noting_served [OF noting_note_skill] quiet_served [OF quiet_reply] served_readonly
        served_workflow [OF renv])
qed (simp_all add: execute_route_def Let_def served.give_result)

lemma served_follow: "renv = repo env \<Longrightarrow> inside (served renv) (follow_route env q c v r)"
  by (cases "rd_outcome (ro_decision r)")
    (simp_all add: follow_route_def served_execute quiet_served [OF quiet_hand_off] quiet_served [OF quiet_ask])

lemma served_message: "renv = repo env \<Longrightarrow> inside (served renv) (execute_message_run env q)"
  unfolding execute_message_run_def run_accepted_message_def process_message_def
  by (intro served.rules served_follow served_route noting_served [OF noting_accept] noting_served [OF noting_load]
    noting_served [OF noting_dispatch] quiet_served [OF quiet_handler] quiet_served [OF quiet_mark_failed])

section \<open>The requests\<close>

context run_relation
begin

lemma answered_by: "(\<And>x. inside R (f x)) \<Longrightarrow> inside R (answered_by r f)"
  by (cases r) (simp_all add: answered_by_def give)

lemma refuse: "inside R (refuse status detail)"
  by (simp add: refuse_def give)

lemma answer: "inside R (answer x)"
  by (simp add: answer_def give)

lemma trying: "inside R m \<Longrightarrow> (\<And>e. inside R (h e)) \<Longrightarrow> (\<And>x. inside R (f x)) \<Longrightarrow> inside R (trying m h f)"
  unfolding inside_def
proof
  fix w
  assume m: "\<forall>w. R w (snd (m w))" and h: "\<And>e. \<forall>w. R w (snd (h e w))" and f: "\<And>x. \<forall>w. R w (snd (f x w))"
  obtain r w1 where e: "m w = (r, w1)" by force
  then have "R w w1" using m by (metis snd_conv)
  moreover have "R w1 (snd (h x w1))" "R w1 (snd (f y w1))" for x y using h f by blast+
  ultimately show "R w (snd (trying m h f w))" using trans by (cases r) (auto simp: trying_def e)
qed

lemma with_run: "(\<And>s. inside R (f s)) \<Longrightarrow> inside R (with_run run_id actor f)"
  unfolding with_run_def by (intro rules refuse)

lemma with_context: "(\<And>c. inside R (f c)) \<Longrightarrow> inside R (with_context run_id actor f)"
  unfolding with_context_def by (intro rules answered_by)

lemma waiting_run: "(\<And>s. inside R (f s)) \<Longrightarrow> inside R (waiting_run run_id actor status detail f)"
  unfolding waiting_run_def by (intro with_run rules refuse)

lemma for_each: "(\<And>x. inside R (f x)) \<Longrightarrow> inside R (for_each f xs)"
  by (induction xs) (auto intro!: give and_then)

lemmas request_rules = rules answered_by refuse answer trying with_run with_context waiting_run for_each

end

lemma kept_transaction:
  assumes "transaction db q = (x, db')" "\<And>y db1. q = Inr (y, db1) \<Longrightarrow> guard_tables_kept db db1"
  shows "guard_tables_kept db db'"
  using assms by (cases q) (auto simp: transaction_def guard_tables_kept_def)

lemma served_append: "inside (served renv) (append_request env t content client_id run_id)"
  unfolding append_request_def
proof (rule served_runtime)
  fix now i db r db'
  assume "append_user \<lparr>me_now = now, me_message_id = i, me_sha = xe_sha env\<rparr> t content client_id (Some run_id) db = (r, db')"
  then show "guard_tables_kept db db'"
    unfolding append_user_def
    by (elim kept_transaction)
      (auto simp: bind_res_eq_Inr new_message_def insert_message_Inr touch_conversation_def guard_tables_kept_def Let_def
        split: option.splits)
qed

lemma served_draw: "inside (served renv) (draw env)"
  unfolding draw_def by (rule served_runtime) (simp add: guard_tables_kept_def)

lemma update_runs_tables: "update_runs p f db = Inr (n, db') \<Longrightarrow> guard_tables_kept db db'"
  by (auto simp: update_runs_Inr guard_tables_kept_def)

lemma served_reserve: "inside (served renv) (reserve_run env c s)"
  unfolding reserve_run_def
proof (rule served_runtime)
  fix now i db r db'
  assume run: "create_run now c s db = (r, db')"
  obtain x db1 where t: "transaction db (insert_created_run now c s db) = (x, db1)" by force
  then have "guard_tables_kept db db1"
    by (rule kept_transaction)
      (auto simp: insert_created_run_def bind_res_eq_Inr insert_run_Inr guard_tables_kept_def split: option.splits)
  moreover have "db' = db \<or> db' = db1"
    using run t by (auto simp: create_run_def split: sum.splits if_splits)
  ultimately show "guard_tables_kept db db'" by (auto simp: guard_tables_kept_def)
qed

lemma served_cancel_reservation: "inside (served renv) (cancel_reservation env run_id reason)"
  unfolding cancel_reservation_def
  by (intro served.rules served_runtime) (auto simp: cancel_unstarted_run_def elim!: kept_transaction dest: update_runs_tables)

lemma served_reason: "inside (served renv) (record_run_reason env run_id reason)"
  unfolding record_run_reason_def
  by (intro served.rules served_runtime) (auto simp: set_terminal_reason_def elim!: kept_transaction dest: update_runs_tables)

lemma served_repeated: "inside (served renv) (repeated_message actor m)"
  unfolding repeated_message_def by (intro served.request_rules)

lemma served_sent: "inside (served renv) (sent message_id run_id status q)"
  unfolding sent_def by (rule served.answer)

lemma served_refuse_active: "inside (served renv) (refuse_active detail t)"
  unfolding refuse_active_def by (intro served.rules)

lemma served_refused: "inside (served renv) (append_refused env run_id e)"
  by (cases e) (simp_all add: append_refused_def served.give_result served.refuse served.and_then served_cancel_reservation)

lemma served_start: "inside (served renv) (start_run env t content client_id run_id)"
  unfolding start_run_def new_run_def
  by (intro served.request_rules served_draw served_reserve served_append served_refused served_repeated served_sent
    served_refuse_active)

lemma served_send: "inside (served renv) (send_message env actor conversation_id content client_id)"
  unfolding send_message_def continue_run_def
  by (intro served.request_rules served_draw served_append served_repeated served_sent served_start)

lemma served_retry: "inside (served renv) (retry_run env actor run_id client_id)"
  unfolding retry_run_def new_run_def
  by (intro served.request_rules served_draw served_reserve served_append served_refuse_active served_sent
    served_cancel_reservation)

lemma served_decide:
  fixes env :: "'w api_env"
  assumes renv: "renv = repo (ax_run env)"
  shows "inside (served renv) (decide_mutation env c p)"
proof -
  have "we_store (request_flow env) = renv" by (simp add: request_flow_def renv)
  then have "inside (served renv) (on_boundary (confirm_mutation (request_flow env) (ax_system env) c (cq_token p) (cq_key p)))"
    using served_boundary confirm_steps by metis
  moreover have "inside (served renv) (on_repository (reject_mutation (request_flow env) c h) :: (run_context, 'w) action)" for h
    by (rule served_repository) (rule reject_history)
  ultimately show ?thesis unfolding decide_mutation_def by simp
qed

lemma served_confirm:
  assumes "renv = repo (ax_run env)"
  shows "inside (served renv) (confirm_run env actor run_id p)"
proof -
  have "inside (served renv) (confirmation_refused e :: ('b, 'a) request)" for e
    by (cases e) (simp_all add: confirmation_refused_def served.give_result served.refuse)
  then show ?thesis
    unfolding confirm_run_def report_confirmation_def
    by (intro served.request_rules served_decide [OF assms] noting_served [OF noting_publish])
qed

lemma served_refresh: "inside (served renv) (refresh_confirmation env actor run_id)"
proof -
  have "inside (served renv) (on_repository (refresh_mutation_token (request_flow env) c))" for c
    by (rule served_repository) (rule refresh_history)
  moreover have "inside (served renv) (case e of MutationWorkflowError code missing \<Rightarrow> refuse 409 code
      | _ \<Rightarrow> give_result (Inl e))" for e
    by (cases e) (simp_all add: served.give_result served.refuse)
  ultimately show ?thesis unfolding refresh_confirmation_def by (intro served.request_rules)
qed

lemma served_withdraw: "inside (served renv) (withdraw_token run_id actor state env)"
proof -
  have "inside (served renv) (on_runtime (ax_run env) (\<lambda>now i. invalidate_waiting run_id demo_tenant actor h))" for h
    unfolding on_runtime_def
    by (intro served_repository) (auto elim!: transact_history intro: confirm_step.invalidate)
  then show ?thesis
    by (auto simp: withdraw_token_def served.give split: option.splits pyval.splits intro!: served.best_effort)
qed

lemma served_cancel: "inside (served renv) (cancel_run env actor run_id)"
  unfolding cancel_run_def
  by (intro served.request_rules served_withdraw quiet_served [OF quiet_checkpoint] served_reason noting_served [OF noting_publish])

lemma resolve_ticket_tables: "resolve_ticket now i tenant remark expected db = (r, db') \<Longrightarrow> guard_tables_kept db db'"
  by (auto simp: resolve_ticket_def guard_tables_kept_def split: option.splits if_splits)

lemma served_resolve: "inside (served renv) (resolve_handoff env actor ticket_id verdict remark)"
  unfolding resolve_handoff_def settle_review_def learn_rejection_def Let_def
  by (intro served.request_rules quiet_served [OF quiet_checkpoint] noting_served [OF noting_publish] quiet_served [OF moving_read]
      quiet_served [OF moving_failures] quiet_served [OF moving_supply] served_runtime [OF resolve_ticket_tables]
      noting_served [OF noting_runtime [OF note_step.audit]])
    assumption+

lemma served_review: "inside (served renv) (get_human_review env actor run_id)"
  unfolding get_human_review_def
proof (intro served.request_rules quiet_served [OF moving_read] served_runtime)
  fix s c now i db r db'
  assume run: "get_or_create_open_for_run now i (review_request (ax_run env) actor s c) db = (r, db')"
  obtain x db1 where t: "transaction db
      (if newest_open (hr_run_id (review_request (ax_run env) actor s c)) (hr_tenant_id (review_request (ax_run env) actor s c))
           (hr_actor_ref (review_request (ax_run env) actor s c)) db = None
       then insert_ticket (open_ticket_row now i (review_request (ax_run env) actor s c)) db else Inr ((), db)) = (x, db1)"
    by force
  then have "guard_tables_kept db db1"
    by (rule kept_transaction) (auto simp: insert_ticket_def guard_tables_kept_def split: if_splits)
  moreover have "db' = db \<or> db' = db1"
    using run t by (auto simp: get_or_create_open_for_run_def split: sum.splits if_splits)
  ultimately show "guard_tables_kept db db'" by (auto simp: guard_tables_kept_def)
qed

lemma served_recover: "inside (served renv) (recover_active_runs env)"
proof -
  have "inside (served renv) (on_runtime e (\<lambda>now i. expire_runs now))" for e
    by (rule served_runtime)
      (auto simp: expire_runs_def bind_res_eq_Inr dest: update_runs_tables elim!: kept_transaction)
  moreover have "inside (served renv) (on_runtime e (\<lambda>now i db. (Inr (f now db), db)))" for e f
    by (rule served_runtime) (simp add: guard_tables_kept_def)
  ultimately show ?thesis
    unfolding recover_active_runs_def recover_runs_def repair_missing_terminal_responses_def repair_response_def Let_def
    by (intro served.request_rules noting_served [OF noting_learn] noting_served [OF noting_publish] quiet_served [OF moving_read])
qed

section \<open>The service\<close>

text \<open>The queue of \<open>run_executor\<close>, a thread pool with one worker.\<close>

record 'w service =
  sv_world :: "'w run_world"
  sv_jobs :: "run_request list"

definition submitted :: "sent_message reply result \<Rightarrow> run_request list" where
  "submitted r = (case r of Inr (Answered m) \<Rightarrow> (case se_job m of None \<Rightarrow> [] | Some q \<Rightarrow> [q]) | _ \<Rightarrow> [])"

text \<open>
  The steps: one rule per request, asked by whoever \<open>get_demo_actor\<close> lets in, one for the worker, one for a
  restart. \<open>opened\<close> is \<open>POST /v1/conversations\<close>.
\<close>

inductive service_step :: "'w api_env \<Rightarrow> 'w service \<Rightarrow> 'w service \<Rightarrow> bool" for env where
  opened: "get_demo_actor env header = Answered actor \<Longrightarrow>
    on_runtime (ax_run env) (\<lambda>now i. create_or_get_conversation now i demo_tenant actor key) (sv_world sv) = (x, w) \<Longrightarrow>
    service_step env sv (sv\<lparr>sv_world := w\<rparr>)"
| messaged: "get_demo_actor env header = Answered actor \<Longrightarrow>
    send_message env actor conversation_id content client_id (sv_world sv) = (r, w) \<Longrightarrow>
    service_step env sv \<lparr>sv_world = w, sv_jobs = sv_jobs sv @ submitted r\<rparr>"
| retried: "get_demo_actor env header = Answered actor \<Longrightarrow>
    retry_run env actor run_id client_id (sv_world sv) = (r, w) \<Longrightarrow>
    service_step env sv \<lparr>sv_world = w, sv_jobs = sv_jobs sv @ submitted r\<rparr>"
| confirmed: "get_demo_actor env header = Answered actor \<Longrightarrow>
    confirm_run env actor run_id p (sv_world sv) = (c, w) \<Longrightarrow> service_step env sv (sv\<lparr>sv_world := w\<rparr>)"
| refreshed: "get_demo_actor env header = Answered actor \<Longrightarrow>
    refresh_confirmation env actor run_id (sv_world sv) = (f, w) \<Longrightarrow> service_step env sv (sv\<lparr>sv_world := w\<rparr>)"
| cancelled: "get_demo_actor env header = Answered actor \<Longrightarrow>
    cancel_run env actor run_id (sv_world sv) = (v, w) \<Longrightarrow> service_step env sv (sv\<lparr>sv_world := w\<rparr>)"
| resolved: "get_demo_actor env header = Answered actor \<Longrightarrow>
    resolve_handoff env actor ticket_id verdict remark (sv_world sv) = (h, w) \<Longrightarrow>
    service_step env sv (sv\<lparr>sv_world := w\<rparr>)"
| reviewed: "get_demo_actor env header = Answered actor \<Longrightarrow>
    get_human_review env actor run_id (sv_world sv) = (t, w) \<Longrightarrow> service_step env sv (sv\<lparr>sv_world := w\<rparr>)"
| worked: "sv_jobs sv = q # qs \<Longrightarrow> execute_message_run (ax_run env) q (sv_world sv) = (u, w) \<Longrightarrow>
    service_step env sv \<lparr>sv_world = w, sv_jobs = qs\<rparr>"
| restarted: "recover_active_runs env (sv_world sv) = (j, w) \<Longrightarrow>
    service_step env sv \<lparr>sv_world = w, sv_jobs = (case j of Inl e \<Rightarrow> [] | Inr qs \<Rightarrow> qs)\<rparr>"

lemma served_opened:
  "inside (served renv) (on_runtime env (\<lambda>now i. create_or_get_conversation now i tenant actor key))"
proof (rule served_runtime)
  fix now i db r db'
  assume "create_or_get_conversation now i tenant actor key db = (r, db')"
  then show "guard_tables_kept db db'"
    unfolding create_or_get_conversation_def
    by (auto simp: insert_conversation_def guard_tables_kept_def transaction_def bind_res_eq_Inr
        split: option.splits if_splits sum.splits)
qed

lemma service_step_served:
  assumes "service_step env sv sv'"
  shows "served (repo (ax_run env)) (sv_world sv) (sv_world sv')"
  using assms
proof (cases rule: service_step.cases)
  case opened
  then show ?thesis using insideD [OF served_opened] by fastforce
next
  case messaged
  then show ?thesis using insideD [OF served_send] by fastforce
next
  case retried
  then show ?thesis using insideD [OF served_retry] by fastforce
next
  case confirmed
  then show ?thesis using insideD [OF served_confirm [OF refl]] by fastforce
next
  case refreshed
  then show ?thesis using insideD [OF served_refresh] by fastforce
next
  case cancelled
  then show ?thesis using insideD [OF served_cancel] by fastforce
next
  case resolved
  then show ?thesis using insideD [OF served_resolve] by fastforce
next
  case reviewed
  then show ?thesis using insideD [OF served_review] by fastforce
next
  case worked
  then show ?thesis using insideD [OF served_message [OF refl]] by fastforce
next
  case restarted
  then show ?thesis using insideD [OF served_recover] by fastforce
qed

lemma service_history_served:
  assumes "(service_step env)\<^sup>*\<^sup>* sv sv'"
  shows "served (repo (ax_run env)) (sv_world sv) (sv_world sv')"
  using assms by (induction rule: rtranclp_induct) (auto intro: served.refl served.trans service_step_served)

section \<open>Property\<close>


end
