(* ===== verification/RequestOutcomes.thy ===== *)
theory RequestOutcomes
  imports ServiceHistory
begin

text \<open>
  What single requests do to their caller: a message sent twice, a message that is refused after its run was reserved,
  a confirmation that is refreshed too often, actions the run offers and refuses, a review resolved by the customer it
  is about, and what a restart resumes.
\<close>

section \<open>Requests that read\<close>

lemma with_run_reply:
  "with_run run_id actor f w =
     (case load_run run_id demo_tenant (Some actor) (runtime w) of
        None \<Rightarrow> (Inr (HttpError 404 (PStr ''run_not_found'')), w) | Some s \<Rightarrow> f s w)"
  by (simp add: with_run_def and_then_def observing_def refuse_def give_def split: option.splits)

lemma with_context_reply:
  "with_context run_id actor f w =
     (case checkpoint_context run_id actor (runtime w) of HttpError status d \<Rightarrow> (Inr (HttpError status d), w) | Answered c \<Rightarrow> f c w)"
  by (simp add: with_context_def and_then_def observing_def answered_by_def give_def split: reply.splits)

lemma waiting_run_reply:
  "waiting_run run_id actor status detail f w =
     (case load_run run_id demo_tenant (Some actor) (runtime w) of
        None \<Rightarrow> (Inr (HttpError 404 (PStr ''run_not_found'')), w)
      | Some s \<Rightarrow> if run_snapshot.sn_status s \<noteq> status then (Inr (HttpError 409 (PStr detail)), w) else f s w)"
  by (simp add: waiting_run_def with_run_reply refuse_def give_def split: option.splits)

lemma reply_simps [simp]:
  "refuse status d w = (Inr (HttpError status (PStr d)), w)" "answer x w = (Inr (Answered x), w)"
  "give_result r w = (r, w)" "observing f w = (Inr (f w), w)"
  by (simp_all add: refuse_def answer_def give_def give_result_def observing_def)

lemma draw_reply: "\<exists>now i. draw env w = (Inr (now, i), w\<lparr>xw_store := tick (xw_store w)\<rparr>)"
  by (simp add: draw_def on_runtime_def on_repository_def transact_def tick_def)

lemma tick_db [simp]: "rs_db (tick s) = rs_db s"
  by (simp add: tick_def)

section \<open>A message sent twice\<close>

text \<open>C6: a message is executed once. When the conversation has a message of the customer under the client's key, sending
  again under that key, with whatever content, leaves the database as it is, submits nothing and reports the message
  and the run of the first time.\<close>

theorem resent_message_runs_nothing:
  assumes "find_user_by_client_message_id (customer_target conversation_id actor) client_id (runtime w) = Some m"
    "mr_run_id m = Some run_id"
  shows "\<exists>reply w'. send_message env actor conversation_id content client_id w = (Inr (Answered reply), w') \<and>
    runtime w' = runtime w \<and> se_run_id reply = run_id \<and> se_message_id reply = mr_message_id m \<and>
    submitted (Inr (Answered reply)) = []"
proof -
  obtain now i where d: "draw (ax_run env) w = (Inr (now, i), w\<lparr>xw_store := tick (xw_store w)\<rparr>)"
    using draw_reply by blast
  show ?thesis
    using assms d by (simp add: send_message_def and_then_def repeated_message_def submitted_def Let_def)
qed

section \<open>Actions a run offers\<close>


section \<open>Refreshing a confirmation\<close>

lemma checkpoint_keeps_run:
  assumes "checkpoint_run renv c status nxt state evs s = (Inr v, s')"
    "load_run (rc_run_id c) (rc_tenant_id c) actor (rs_db s) = Some before"
  shows "\<exists>after. load_run (rc_run_id c) (rc_tenant_id c) actor (rs_db s') = Some after \<and> run_snapshot.sn_status after = status"
proof -
  obtain now n x where x: "commit_step now (checkpoint_commit renv None c status nxt state evs n) (rs_db s) = (Inr x, rs_db s')"
    using assms(1) unfolding checkpoint_run_def by (rule commit_checkpoint_Inr)
  let ?k = "checkpoint_commit renv None c status nxt state evs n"
  obtain current where e: "select_one (commit_target ?k) (db_runs (rs_db s)) = Some current"
    "distinct (map rr_run_id (db_runs (rs_db s)))" "rs_db s' = commit_effect now ?k current (rs_db s)"
    using x by (rule commit_step_Inr) blast
  let ?p = "visible_run (rc_run_id c) (rc_tenant_id c) actor"
  obtain row where sel: "select_one ?p (db_runs (rs_db s)) = Some row" using assms(2) by (auto simp: load_run_def)
  have row: "row \<in> set (db_runs (rs_db s))" "?p row" using select_one_Some [OF sel] by simp_all
  have cur: "current \<in> set (db_runs (rs_db s))" "commit_target ?k current" using select_one_Some [OF e(1)] by auto
  then have "rr_run_id row = rr_run_id current" using row(2) by (simp add: visible_run_def commit_target_def)
  moreover have "inj_on rr_run_id (set (db_runs (rs_db s)))" using e(2) by (simp add: distinct_map)
  ultimately have "row = current" using row(1) cur(1) by (metis inj_onD)
  then have "select_one ?p (db_runs (rs_db s')) = Some (advanced_run ?k now (rr_checkpoint_seq current + 1) current)"
    unfolding e(3) using row(2) by (intro selected_after [OF e(2,1)]) (auto simp: visible_run_def)
  then show ?thesis by (simp add: load_run_def snapshot_def)
qed

lemma rotate_tables:
  assumes "rotate_waiting now i run_id tenant actor preview t db = (r, db')"
  shows "db_runs db' = db_runs db \<and> db_checkpoints db' = db_checkpoints db \<and> db_events db' = db_events db"
  using assms
  by (cases r) (auto simp: rotate_waiting_def transaction_Inr transaction_Inl bind_res_eq_Inr dest!: insert_token_Inr split: if_splits)

text \<open>A refreshed run is checkpointed once more.\<close>

lemma refreshed:
  assumes "refresh_mutation_token env c s = (Inr x, s')"
  obtains s1 nxt state evs v where "db_runs (rs_db s1) = db_runs (rs_db s)" "db_checkpoints (rs_db s1) = db_checkpoints (rs_db s)"
    "db_events (rs_db s1) = db_events (rs_db s)"
    "checkpoint_run (we_store env) c RS_WAITING_CONFIRMATION nxt state evs s1 = (Inr v, s')"
  using assms
  by (auto simp: refresh_mutation_token_def Let_def transact_def split: if_splits option.splits pyval.splits prod.splits sum.splits
      dest!: rotate_tables) (erule that [rotated 3], simp_all)

lemma invalid_checkpoint_refuses:
  assumes "load_run run_id demo_tenant (Some actor) (runtime w) = Some s" "run_snapshot.sn_status s = RS_WAITING_CONFIRMATION"
    "checkpoint_context run_id actor (runtime w) = HttpError 500 d"
  shows "confirm_run env actor run_id p w = (Inr (HttpError 500 d), w)"
    "refresh_confirmation env actor run_id w = (Inr (HttpError 500 d), w)"
    "cancel_run env actor run_id w = (Inr (HttpError 500 d), w)"
  using assms
  by (simp_all add: confirm_run_def refresh_confirmation_def cancel_run_def waiting_run_reply with_run_reply with_context_reply)

text \<open>C9: a customer who refreshes a confirmation once too often is locked out of the run. Every refresh is a checkpoint
  and counts as a step of the run, so a refresh from a checkpoint with six steps stores a context that no request
  accepts any more: confirming, rejecting, refreshing and cancelling answer 500 and change nothing, and the run keeps
  waiting.\<close>

theorem refreshing_locks_out:
  assumes refresh: "refresh_confirmation env actor run_id w = (Inr (Answered f), w')"
    and steps: "checkpoint_context run_id actor (runtime w) = Answered c" "rc_step_count c = 6"
    and ok: "logs_ok (runtime w)" "checkpoints_ok (runtime w)"
  shows "(\<exists>s. load_run run_id demo_tenant (Some actor) (runtime w') = Some s \<and> run_snapshot.sn_status s = RS_WAITING_CONFIRMATION) \<and>
    confirm_run env actor run_id p w' = (Inr (HttpError 500 (PStr ''run_checkpoint_invalid'')), w') \<and>
    refresh_confirmation env actor run_id w' = (Inr (HttpError 500 (PStr ''run_checkpoint_invalid'')), w') \<and>
    cancel_run env actor run_id w' = (Inr (HttpError 500 (PStr ''run_checkpoint_invalid'')), w')"
proof -
  have c: "load_latest_checkpoint run_id demo_tenant (runtime w) = Some c" "rc_tenant_id c = demo_tenant"
    using steps(1) by (auto simp: checkpoint_context_def split: option.splits if_splits)
  have run: "rc_run_id c = run_id" using latest_of_run [OF c(1) ok(2)] by simp
  obtain s where s: "load_run run_id demo_tenant (Some actor) (runtime w) = Some s"
    using refresh by (auto simp: refresh_confirmation_def waiting_run_reply split: option.splits)
  obtain x s' where x: "refresh_mutation_token (request_flow env) c (xw_store w) = (x, s')" by force
  obtain y where y: "x = Inr y" "xw_store w' = s'"
    using refresh x
    by (auto simp: refresh_confirmation_def waiting_run_reply s with_context_reply steps(1) trying_def on_repository_def
        split: if_splits sum.splits py_exn.splits)
  obtain s1 nxt state evs v where s1: "db_runs (rs_db s1) = db_runs (runtime w)" "db_checkpoints (rs_db s1) = db_checkpoints (runtime w)"
    "db_events (rs_db s1) = db_events (runtime w)"
    "checkpoint_run (we_store (request_flow env)) c RS_WAITING_CONFIRMATION nxt state evs s1 = (Inr v, s')"
    using x [unfolded y(1)] by (rule refreshed)
  have "logs_ok (rs_db s1)" using ok(1) s1(1-3) by (simp add: logs_ok_def event_log_def checkpoint_log_def)
  then have "load_latest_checkpoint run_id demo_tenant (runtime w') = Some (checkpointed_context c RS_WAITING_CONFIRMATION state v)"
    using latest_checkpoint_stored [OF s1(4) [unfolded checkpoint_run_def]] run c(2) y(2) by simp
  then have invalid: "checkpoint_context run_id actor (runtime w') = HttpError 500 (PStr ''run_checkpoint_invalid'')"
    by (simp add: checkpoint_context_def checkpointed_context_def valid_run_context_def steps(2))
  have "load_run (rc_run_id c) (rc_tenant_id c) (Some actor) (rs_db s1) = Some s" using s s1(1) run c(2) by (simp add: load_run_def)
  from checkpoint_keeps_run [OF s1(4) this] obtain t
    where t: "load_run run_id demo_tenant (Some actor) (runtime w') = Some t" "run_snapshot.sn_status t = RS_WAITING_CONFIRMATION"
    using run c(2) y(2) by auto
  show ?thesis using invalid_checkpoint_refuses [OF t invalid] t by simp
qed

section \<open>Human review\<close>

text \<open>C7: a review is resolved by the customer it is about. Whoever resolves a ticket is the actor the open ticket was filed
  for and the owner of its run; the run is reported completed exactly when this customer says it succeeded.\<close>

theorem review_is_resolved_by_its_customer:
  assumes "resolve_handoff env actor ticket_id verdict remark w = (Inr (Answered x), w')"
  shows "(\<exists>t\<in>set (db_tickets (runtime w)). hd_ticket_id t = ticket_id \<and> hd_actor_ref t = actor \<and> hd_status t = ''open'' \<and>
      hd_run_id t = hs_run_id x \<and> (\<exists>r\<in>set (db_runs (runtime w)). rr_run_id r = hs_run_id x \<and> rr_actor_ref r = actor)) \<and>
    hs_run_status x = (if verdict = VERIFIED_SUCCESS then RS_COMPLETED else RS_FAILED)"
proof -
  obtain found where f: "get_for_actor ticket_id demo_tenant actor (runtime w) = Inr found"
    using assms by (cases "get_for_actor ticket_id demo_tenant actor (runtime w)")
      (auto simp: resolve_handoff_def and_then_def on_repository_def)
  obtain t where t: "found = Some t" "ht_status t = ''open''"
    using assms f by (cases found) (auto simp: resolve_handoff_def and_then_def on_repository_def split: if_splits)
  obtain s where s: "load_run (ht_run_id t) demo_tenant (Some actor) (runtime w) = Some s"
    using assms f t by (auto simp: resolve_handoff_def and_then_def on_repository_def with_run_reply split: option.splits)
  obtain c where "settle_review env actor t c verdict remark w = (Inr (Answered x), w')"
    using assms f t s
    by (auto simp: resolve_handoff_def and_then_def on_repository_def with_run_reply with_context_reply
        split: reply.splits if_splits)
  then have x: "hs_run_id x = ht_run_id t" "hs_run_status x = (if verdict = VERIFIED_SUCCESS then RS_COMPLETED else RS_FAILED)"
    by (auto simp: settle_review_def and_then_def Let_def split: prod.splits sum.splits option.splits)
  obtain r where r: "r \<in> set (db_tickets (runtime w))" "hd_ticket_id r = ticket_id" "hd_actor_ref r = actor" "ticket_of r = Inr t"
    using f t(1) by (auto simp: get_for_actor_def bind_res_eq_Inr split: option.splits dest!: select_one_Some)
  have "hd_run_id r = ht_run_id t" "hd_status r = ht_status t" using r(4) by (auto simp: ticket_of_def split: pyval.splits)
  moreover obtain row where "row \<in> set (db_runs (runtime w))" "rr_run_id row = ht_run_id t" "rr_actor_ref row = actor"
    using s by (auto simp: load_run_def visible_run_def dest!: select_one_Some)
  ultimately show ?thesis using r(1-3) t(2) x by metis
qed

section \<open>A message refused after its reservation\<close>

lemma run_effect:
  "on_runtime env f w = (r, w') \<Longrightarrow> \<exists>now i db. f now i (runtime w) = (r, db) \<and> runtime w' = db"
  by (auto simp: on_runtime_def on_repository_def transact_def split: prod.splits) blast

lemma new_run_effect:
  assumes "new_run env q parent w = (Inr (c, s), w')"
  shows "c = new_context q \<and> valid_run_context c \<and> runtime w' = runtime w"
proof -
  obtain now i where "draw (ax_run env) w = (Inr (now, i), w\<lparr>xw_store := tick (xw_store w)\<rparr>)" using draw_reply by blast
  then show ?thesis
    using assms by (auto simp: new_run_def and_then_def make_context_def Let_def split: if_splits)
qed

lemma create_run_Inr:
  assumes "create_run now c s db = (Inr (), db')"
  obtains v where "owned_conversation c v" "db_runs db' = db_runs db @ [new_run_row now c s (cv_id v)]" "runs_ok (db_runs db')"
    "rc_status c = RS_CREATED"
  using assms
  by (auto simp: create_run_def check_new_run_def insert_created_run_def insert_run_Inr transaction_Inr
      split: sum.splits if_splits option.splits prod.splits dest!: select_one_Some)

lemma append_error_effect: "append_user menv t content client_id run_id db = (Inl e, db') \<Longrightarrow> db' = db"
  by (simp add: append_user_def transaction_Inl)

text \<open>A 404 of \<open>start_run\<close> leaves the reserved run.\<close>

lemma start_run_404:
  assumes "start_run env t content client_id run_id w = (Inr (HttpError 404 d), w')"
  obtains now s where "create_run now (new_context (worker_request t content run_id)) s (runtime w) = (Inr (), runtime w')"
    "valid_run_context (new_context (worker_request t content run_id))"
proof -
  let ?q = "worker_request t content run_id"
  obtain n w1 where n: "new_run env ?q None w = (n, w1)" by force
  obtain c s where cs: "n = Inr (c, s)"
    using assms n by (cases n) (auto simp: start_run_def and_then_def Let_def)
  note c = new_run_effect [OF n [unfolded cs]]
  obtain u w2 where u: "reserve_run env c s w1 = (u, w2)" by force
  have u0: "u = Inr ()"
    using assms n cs u
    by (cases u) (auto simp: start_run_def and_then_def Let_def trying_def refuse_active_def give_def split: if_splits)
  obtain now where created: "create_run now c s (runtime w1) = (Inr (), runtime w2)"
    using run_effect [OF u [unfolded reserve_run_def u0]] by auto
  obtain m w3 where m: "append_request (ax_run env) t content client_id run_id w2 = (m, w3)" by force
  have e: "(case m of Inl e \<Rightarrow> append_refused env run_id e w3 | Inr x \<Rightarrow>
      (if \<not> mr_created x then repeated_message (mt_actor_id t) x else sent (mr_message_id x) run_id RS_CREATED ?q) w3) =
      (Inr (HttpError 404 d), w')"
    using assms n cs u u0 m by (simp add: start_run_def and_then_def Let_def trying_def split: sum.splits)
  obtain x where x: "m = Inl x"
    using e by (cases m) (auto simp: repeated_message_def and_then_def sent_def Let_def split: if_splits option.splits)
  have w': "w' = w3"
    using e by (simp add: x append_refused_def and_then_def split: py_exn.splits prod.splits sum.splits)
  have "runtime w3 = runtime w2"
    using run_effect [OF m [unfolded append_request_def x]] append_error_effect by auto
  then have "create_run now (new_context ?q) s (runtime w) = (Inr (), runtime w')" using created c w' by simp
  moreover have "valid_run_context (new_context ?q)" using c by blast
  ultimately show thesis by (rule that)
qed

lemma active_after_create:
  assumes created: "create_run now (new_context (worker_request (customer_target conversation_id actor) content run_id)) s db = (Inr (), db')"
    and fits: "slice_to actor 128 = actor"
  shows "\<exists>r\<in>set (db_runs db'). active_run_of conversation_id demo_tenant actor r \<and> rr_status r = RS_CREATED"
    "\<exists>x. active_for_conversation conversation_id demo_tenant actor db' = Some x \<and> run_snapshot.sn_status x = RS_CREATED"
proof -
  let ?c = "new_context (worker_request (customer_target conversation_id actor) content run_id)"
  obtain v where v: "owned_conversation ?c v" "db_runs db' = db_runs db @ [new_run_row now ?c s (cv_id v)]" "runs_ok (db_runs db')"
    using created by (rule create_run_Inr)
  let ?r = "new_run_row now ?c s (cv_id v)"
  have tenant: "slice_to demo_tenant 64 = demo_tenant" by code_simp
  have r: "active_run_of conversation_id demo_tenant actor ?r" "rr_status ?r = RS_CREATED" "rr_conversation_id ?r = conversation_id"
    using v(1) fits tenant
    by (simp_all add: active_run_of_def new_run_row_def new_context_def worker_request_def customer_target_def owned_conversation_def
        run_terminal_def)
  then show "\<exists>r\<in>set (db_runs db'). active_run_of conversation_id demo_tenant actor r \<and> rr_status r = RS_CREATED"
    by (intro bexI [of _ ?r]) (simp_all add: v(2))
  have "\<not> active_run_of conversation_id demo_tenant actor x" if "x \<in> set (db_runs db)" for x
    using active_pair [of "db_runs db" ?r x] v(2,3) that r by (auto simp: runs_ok_def active_run_of_def)
  then have "filter (active_run_of conversation_id demo_tenant actor) (db_runs db) = []" by (simp add: filter_empty_conv)
  then have "filter (active_run_of conversation_id demo_tenant actor) (db_runs db') = [?r]" using v(2) r(1) by simp
  then show "\<exists>x. active_for_conversation conversation_id demo_tenant actor db' = Some x \<and> run_snapshot.sn_status x = RS_CREATED"
    using r(2) by (simp add: active_for_conversation_def snapshot_def)
qed

text \<open>No message is accepted while a run of the conversation is active and does not wait for its customer.\<close>

lemma active_run_refuses:
  assumes active: "\<exists>r\<in>set (db_runs db). active_run_of (rc_conversation_id c) tenant actor r" and status: "rc_status c = RS_CREATED"
  shows "create_run now c s db \<noteq> (Inr (), db')"
proof
  assume "create_run now c s db = (Inr (), db')"
  then obtain v where v: "owned_conversation c v" "db_runs db' = db_runs db @ [new_run_row now c s (cv_id v)]" "runs_ok (db_runs db')"
    by (rule create_run_Inr)
  obtain r where r: "r \<in> set (db_runs db)" "active_run_of (rc_conversation_id c) tenant actor r" using active by blast
  have new: "rr_conversation_id (new_run_row now c s (cv_id v)) = rc_conversation_id c"
    "\<not> run_terminal (rr_status (new_run_row now c s (cv_id v)))"
    using v(1) status by (simp_all add: new_run_row_def owned_conversation_def run_terminal_def)
  show False
    using active_pair [of "db_runs db" "new_run_row now c s (cv_id v)" r] v(2,3) r new
    by (auto simp: runs_ok_def active_run_of_def)
qed

lemma start_run_refused:
  assumes active: "\<exists>r\<in>set (db_runs (runtime w)). active_run_of (mt_conversation_id t) tenant actor r"
  shows "start_run env t content client_id run_id w \<noteq> (Inr (Answered m), w')"
proof
  assume run: "start_run env t content client_id run_id w = (Inr (Answered m), w')"
  let ?q = "worker_request t content run_id"
  obtain n w1 where n: "new_run env ?q None w = (n, w1)" by force
  obtain c s where cs: "n = Inr (c, s)" using run n by (cases n) (auto simp: start_run_def and_then_def Let_def)
  note c = new_run_effect [OF n [unfolded cs]]
  obtain u w2 where u: "reserve_run env c s w1 = (u, w2)" by force
  have "u = Inr ()"
    using run n cs u
    by (cases u) (auto simp: start_run_def and_then_def Let_def trying_def refuse_active_def give_def split: if_splits)
  then obtain now where "create_run now c s (runtime w1) = (Inr (), runtime w2)"
    using run_effect [OF u [unfolded reserve_run_def]] by auto
  moreover have "rc_conversation_id c = mt_conversation_id t" "rc_status c = RS_CREATED"
    using c by (simp_all add: new_context_def worker_request_def)
  ultimately show False using active_run_refuses active c by metis
qed

text \<open>C8: a message that is refused as unknown blocks its conversation. When the conversation exists and a new message for
  it is answered 404, as one of blanks is, a run was reserved for it and stays: the conversation has an active run that
  was created, nothing was submitted for it, and no further new message is accepted.\<close>

theorem refused_message_blocks_conversation:
  assumes refused: "send_message env actor conversation_id content client_id w = (Inr (HttpError 404 d), w')"
    and visible: "target_visible (customer_target conversation_id actor) (runtime w)" and fits: "slice_to actor 128 = actor"
  shows "(\<exists>s. active_for_conversation conversation_id demo_tenant actor (runtime w') = Some s \<and>
      run_snapshot.sn_status s = RS_CREATED) \<and> submitted (fst (send_message env actor conversation_id content client_id w)) = [] \<and>
    (find_user_by_client_message_id (customer_target conversation_id actor) client_id2 (runtime w') = None \<longrightarrow>
       fst (send_message env actor conversation_id content2 client_id2 w') \<noteq> Inr (Answered m))"
proof -
  let ?t = "customer_target conversation_id actor"
  obtain now i where dr: "draw (ax_run env) w = (Inr (now, i), w\<lparr>xw_store := tick (xw_store w)\<rparr>)" using draw_reply by blast
  let ?w = "w\<lparr>xw_store := tick (xw_store w)\<rparr>"
  have same: "runtime ?w = runtime w" by simp
  have "start_run env ?t content client_id i ?w = (Inr (HttpError 404 d), w')"
  proof (cases "find_user_by_client_message_id ?t client_id (runtime w)")
    case (Some y)
    then show ?thesis using refused dr
      by (auto simp: send_message_def and_then_def Let_def repeated_message_def split: option.splits)
  next
    case None
    then show ?thesis
      using refused dr visible
      by (auto simp: send_message_def and_then_def Let_def continue_run_def trying_def sent_def
          split: option.splits if_splits sum.splits prod.splits)
  qed
  then obtain n s where created: "create_run n (new_context (worker_request ?t content i)) s (runtime w) = (Inr (), runtime w')"
    unfolding same [symmetric] by (rule start_run_404)
  note active = active_after_create [OF created fits]
  have "fst (send_message env actor conversation_id content2 client_id2 w') \<noteq> Inr (Answered m)"
    if unknown: "find_user_by_client_message_id ?t client_id2 (runtime w') = None"
  proof
    assume answered: "fst (send_message env actor conversation_id content2 client_id2 w') = Inr (Answered m)"
    obtain k j where d2: "draw (ax_run env) w' = (Inr (k, j), w'\<lparr>xw_store := tick (xw_store w')\<rparr>)" using draw_reply by blast
    obtain x where x: "active_for_conversation conversation_id demo_tenant actor (runtime w') = Some x"
      "run_snapshot.sn_status x = RS_CREATED" using active(2) by blast
    have "fst (start_run env ?t content2 client_id2 j (w'\<lparr>xw_store := tick (xw_store w')\<rparr>)) = Inr (Answered m)"
      using answered d2 unknown x by (auto simp: send_message_def and_then_def Let_def split: if_splits)
    moreover have "\<exists>r\<in>set (db_runs (runtime (w'\<lparr>xw_store := tick (xw_store w')\<rparr>))).
        active_run_of (mt_conversation_id ?t) demo_tenant actor r"
      using active(1) by (auto simp: customer_target_def)
    ultimately show False using start_run_refused by (metis prod.collapse)
  qed
  then show ?thesis using active(2) refused by (auto simp: submitted_def)
qed

section \<open>Restart\<close>

lemma expired_row_checks:
  assumes "run_checks r" "run_widths r"
  shows "run_checks (expired_row now r)" "run_widths (expired_row now r)" "executor_selection_kept r (expired_row now r)"
  using assms
  by (auto simp: expired_row_def touch_times_def run_checks_def executor_shape_def mode_matches_status_def run_widths_def
    executor_selection_kept_def py_len_def)

lemma expire_runs_returns:
  assumes "table_ok db"
  shows "expire_runs now db = (Inr (map rr_run_id (filter (overdue now) (db_runs db))),
    db\<lparr>db_runs := update_rows (overdue now) (expired_row now) (db_runs db)\<rparr>)"
proof -
  let ?p = "overdue now" and ?f = "expired_row now"
  have ok: "runs_ok (db_runs db)" "list_all run_widths (db_runs db)" using assms by (simp_all add: table_ok_def)
  have each: "\<And>r. r \<in> set (db_runs db) \<Longrightarrow> run_checks r \<and> run_widths r" using ok by (auto simp: runs_ok_def list_all_iff)
  have "list_all run_checks (update_rows ?p ?f (db_runs db))"
    using each expired_row_checks(1) by (auto simp: list_all_iff update_rows_def)
  moreover have "map rr_run_id (update_rows ?p ?f (db_runs db)) = map rr_run_id (db_runs db)"
    by (rule map_update_rows_same) (simp add: expired_row_def touch_times_def)
  moreover have "one_active_run (update_rows ?p ?f (db_runs db))"
    using ok(1) unfolding one_active_run_def runs_ok_def
    by (intro one_active_fewer) (auto simp: expired_row_def touch_times_def run_terminal_def)
  ultimately have "runs_ok (update_rows ?p ?f (db_runs db))" using ok(1) by (simp add: runs_ok_def)
  then have "update_runs ?p ?f db = Inr (row_count ?p (db_runs db), db\<lparr>db_runs := update_rows ?p ?f (db_runs db)\<rparr>)"
    using each expired_row_checks by (auto simp: update_runs_Inr list_all_iff)
  then show ?thesis by (simp add: expire_runs_def)
qed

lemma expired_rows_left:
  "map rr_run_id (filter (\<lambda>r. unfinished r \<and> later < pin_deadline_at (rr_pins r)) (update_rows (overdue now) (expired_row now) rows)) =
   map rr_run_id (filter (\<lambda>r. unfinished r \<and> now < pin_deadline_at (rr_pins r) \<and> later < pin_deadline_at (rr_pins r)) rows)"
  by (induction rows) (auto simp: overdue_def unfinished_def expired_row_def touch_times_def)

lemma statuses_of_runs:
  assumes "same_statuses db db'"
  shows "map rr_status (db_runs db') = map rr_status (db_runs db)"
proof -
  have *: "map rr_status rs = map (\<lambda>(a, b, s, m). s) (map (\<lambda>r. (rr_run_id r, rr_tenant_id r, rr_status r, rr_mode r)) rs)" for rs
    by simp
  show ?thesis unfolding * by (simp only: assms [unfolded same_statuses_def])
qed

text \<open>An action that stores nothing in the runtime database.\<close>

abbreviation aside :: "'w run_world \<Rightarrow> 'w run_world \<Rightarrow> bool" where
  "aside \<equiv> moving (\<lambda>db db'. False)"

interpretation aside: run_relation aside
  by (rule moving_relation)

lemma aside_runtime: "aside w w' \<Longrightarrow> runtime w' = runtime w"
  by (auto simp: moving_def elim: rtranclp.cases)

lemma aside_learn: "inside aside (learn_failure env tenant run_id status why route)"
  unfolding learn_failure_def by (intro aside.rules moving_failures moving_supply)

lemma for_each_returns:
  assumes "\<And>x w. \<exists>w'. f x w = (Inr (), w')"
  shows "\<exists>w'. for_each f xs w = (Inr (), w')"
proof (induction xs arbitrary: w)
  case (Cons x xs)
  obtain w1 where "f x w = (Inr (), w1)" using assms by blast
  then show ?case using Cons.IH by (simp add: and_then_def)
qed (simp add: give_def)

lemma noting_repair: "inside noting (repair_missing_terminal_responses env tenant limit)"
  unfolding repair_missing_terminal_responses_def repair_response_def
  by (intro noting.request_rules moving_read noting_publish)

lemma repair_returns:
  assumes "1 \<le> limit" "limit \<le> 500"
  shows "\<exists>w'. repair_missing_terminal_responses env tenant limit w = (Inr (), w')"
proof -
  have "\<exists>w'. repair_response env tenant s w = (Inr (), w')" for s w
    by (auto simp: repair_response_def and_then_def give_def best_effort_def split: option.splits)
  then show ?thesis
    using assms for_each_returns [of "repair_response env tenant"]
    by (simp add: repair_missing_terminal_responses_def and_then_def on_repository_def terminal_runs_without_response_def)
qed

lemma map_res_total: "(\<And>x. f x = Inr (g x)) \<Longrightarrow> map_res f xs = Inr (map g xs)"
  by (induction xs) simp_all

lemma resumed_total: "\<exists>g. (\<forall>r. resumed_request db r = Inr (g r)) \<and> (\<forall>r. qr_run_id (g r) = rr_run_id r)"
proof -
  have "\<exists>q. resumed_request db r = Inr q \<and> qr_run_id q = rr_run_id r" for r
    by (simp add: resumed_request_def list_messages_def worker_request_def Let_def)
  then show ?thesis by metis
qed


end
