(* ===== verification/MessageDemo.thy ===== *)
theory MessageDemo
  imports MessageGuards
begin

text \<open>
  The properties of a message at concrete runs: a deployment without an external effect whose classifier answers with
  thanks, a fresh run, a run that waits for its customer and a refund that continues.
\<close>

definition demo_run_env :: "unit run_env" where
  "demo_run_env =
     \<lparr>xe_settings = \<lparr>st_safety_v2 = True, st_routing_v2 = True, st_conversational = True, st_experience_skills = False,
        st_skill_shadow = False, st_skill_canary = False, st_model_timeout = 30, st_model_max_tokens = 1000\<rparr>,
      xe_low_risk = demo_low_risk, xe_commit = (\<lambda>operation actor resource args key w. (Inr \<lparr>ar_status = MA_SUCCEEDED,
        ar_reference = Some ''D-1'', ar_response = []\<rparr>, w)),
      xe_gateway = Inr (), xe_classifier = demo_classifier, xe_agent = demo_agent,
      xe_attribution = demo_attribution_model, xe_digest = (\<lambda>s. [0]), xe_sha = id, xe_skill_hash = (\<lambda>d. ''h''),
      xe_float = (\<lambda>s. None), xe_json = (\<lambda>v. []), xe_json_sorted = (\<lambda>v. []), xe_error_text = (\<lambda>e. [])\<rparr>"

definition demo_request :: "string \<Rightarrow> run_request" where
  "demo_request content =
     \<lparr>qr_conversation_id = ''c-1'', qr_content = content, qr_actor_id = ''a'', qr_run_id = ''run-1'', qr_tenant_id = ''t''\<rparr>"

definition demo_waiting_row :: run_row where
  "demo_waiting_row =
     demo_run_row\<lparr>rr_status := RS_WAITING_USER, rr_mode := None, rr_workflow_id := None, rr_workflow_version := None\<rparr>"

definition demo_asked_context :: run_context where
  "demo_asked_context = (new_context (demo_request ''hi''))\<lparr>rc_status := RS_WAITING_USER, rc_checkpoint_version := 1\<rparr>"

definition demo_refund_context :: run_context where
  "demo_refund_context = demo_asked_context
     \<lparr>rc_execution_mode := Some EM_WORKFLOW, rc_workflow_id := Some ''refund'', rc_workflow_version := Some ''1''\<rparr>"

definition demo_message_db :: "run_row \<Rightarrow> run_context \<Rightarrow> runtime_db" where
  "demo_message_db r c = empty_db
     \<lparr>db_conversations := [demo_conversation], db_runs := [r],
      db_checkpoints := [\<lparr>cp_run_id = ''run-1'', cp_seq = 1, cp_step = ''clarify'', cp_state = c, cp_hash = ''h'',
        cp_from = 1, cp_to = 1\<rparr>]\<rparr>"

definition demo_run_world :: "runtime_db \<Rightarrow> unit run_world" where
  "demo_run_world db =
     \<lparr>xw_tools = \<lparr>tst_world = (), tst_calls = []\<rparr>, xw_calls = [], xw_store = \<lparr>rs_db = db, rs_tick = 0\<rparr>,
      xw_releases = demo_release_db, xw_skills = demo_skill_db, xw_memory = []\<rparr>"

definition demo_asked :: "unit run_world" where
  "demo_asked = demo_run_world (demo_message_db demo_waiting_row demo_asked_context)"

definition demo_refunding :: "unit run_world" where
  "demo_refunding = demo_run_world (demo_message_db
     (demo_waiting_row\<lparr>rr_mode := Some EM_WORKFLOW, rr_workflow_id := Some ''refund'', rr_workflow_version := Some ''1''\<rparr>)
     demo_refund_context)"

lemma demo_stored_ok: "stored_ok (runtime demo_asked)" "stored_ok (runtime demo_refunding)"
  by code_simp+

lemma demo_valid: "valid_run_context (new_context (demo_request s))"
  by (simp add: demo_request_def new_context_def valid_run_context_def str_field_def py_len_def)

lemma demo_block: "sa_hard_block (detect ''ignore previous'')"
  by code_simp

lemma demo_calm: "detect ''hi'' = unmatched_assessment"
  by code_simp

lemma demo_judged: "\<exists>v. judge_message demo_run_env ''hi'' = Inr v \<and> \<not> escalated v"
  by (simp add: judge_message_def bind_res_eq_Inr safety_route_of_def Let_def escalated_def demo_calm demo_run_env_def
    unmatched_assessment_def)

section \<open>Witnesses\<close>

lemma blocked_message_stays_inside_witness:
  "xw_tools (snd (execute_message_run demo_run_env (demo_request ''ignore previous'') demo_asked)) = xw_tools demo_asked"
proof -
  have "sa_hard_block (detect (qr_content (demo_request ''ignore previous'')))" by (simp add: demo_request_def demo_block)
  then show ?thesis using blocked_message_stays_inside [OF _ surjective_pairing] by blast
qed

lemma answered_clarification_fails_witness:
  "list_all (\<lambda>r. rr_status r = RS_FAILED) (filter (owned_run ''run-1'' ''t'')
     (db_runs (runtime (snd (execute_message_run demo_run_env (demo_request ''hi'') demo_asked)))))"
proof -
  let ?q = "demo_request ''hi''"
  have "all_waiting (qr_run_id ?q) (qr_tenant_id ?q) demo_asked"
    "load_latest_checkpoint (qr_run_id ?q) (qr_tenant_id ?q) (runtime demo_asked) = Some demo_asked_context"
    "rc_status demo_asked_context = RS_WAITING_USER" "rc_workflow_id demo_asked_context = None"
    by (code_simp, code_simp, code_simp, code_simp)
  moreover have "\<forall>v. judge_message demo_run_env (qr_content ?q) = Inr v \<longrightarrow> \<not> escalated v"
    using demo_judged by (auto simp: demo_request_def)
  moreover have "qr_run_id ?q = ''run-1''" "qr_tenant_id ?q = ''t''" by (simp_all add: demo_request_def)
  ultimately have "\<forall>r\<in>set (db_runs (runtime (snd (execute_message_run demo_run_env (demo_request ''hi'') demo_asked)))).
      owned_run ''run-1'' ''t'' r \<longrightarrow> rr_status r = RS_FAILED"
    using answered_clarification_fails [OF demo_stored_ok(1) demo_valid] prod.collapse by metis
  then show ?thesis by (simp add: list_all_iff)
qed

lemma message_only_reads_witness:
  "tokens_kept (runtime demo_asked) (runtime (snd (execute_message_run demo_run_env (demo_request ''hi'') demo_asked)))"
  using message_only_reads [OF surjective_pairing] by blast

lemma message_run_returns_witness:
  "\<exists>w'. execute_message_run demo_run_env (demo_request ''hi'') demo_asked = (Inr (), w') \<and> stored_ok (runtime w')"
  using message_run_returns [OF demo_stored_ok(1) demo_valid] by blast

text \<open>A message that continues a run and is not escalated is accepted and routed without asking the classifier.\<close>

lemma observe_Inr: "\<exists>w'. observe env q t step payload w = (Inr (), w')"
  by (simp add: observe_def best_effort_def)

lemma accept_Inr:
  assumes "judge_message env (qr_content q) = Inr v"
  shows "\<exists>w'. accept_message env q c w = (Inr v, w')"
proof -
  have o1: "\<exists>w'. provided b (observe env q t step payload) w = (Inr (), w')" for b t step payload w
    using observe_Inr by (cases b) (auto simp: provided_def give_def)
  have o2: "\<exists>w'. provided b (best_effort m) w = (Inr (), w')" for b m w
    by (cases b) (auto simp: provided_def give_def best_effort_def)
  obtain w1 where w1: "provided (rc_status c = RS_CREATED)
       (observe env q ET_RUN_CREATED ''accept'' [(''message_id'', PStr ''[REDACTED]'')]) w = (Inr (), w1)" using o1 by blast
  obtain w2 where w2: "observe env q ET_SAFETY_ROUTED ''safety_router'' (safety_event v) w1 = (Inr (), w2)"
    using observe_Inr by blast
  obtain w3 where "provided (blocked v) (best_effort (safety_audit env q v)) w2 = (Inr (), w3)" using o2 by blast
  then show ?thesis using assms w1 w2 by (simp add: accept_message_def apply_safety_def and_then_def give_result_def give_def)
qed

lemma assignment_Inr: "\<exists>a w'. record_release_assignment env q c v b risk w = (Inr a, w')"
proof -
  have "\<exists>a w'. catching m (\<lambda>_. give None) w = (Inr a, w')" for m :: "(traffic_assignment option, 'a) action"
    by (cases "m w") (auto simp: catching_def give_def split: sum.splits)
  then show ?thesis by (simp add: record_release_assignment_def)
qed

lemma continuation_route:
  assumes "\<not> escalated v" "continues c" "continuation_decision env c = Inr d"
  shows "\<exists>w'. route_message env q c v w = (Inr (plain_routing d), w')"
proof -
  obtain a w1 where "record_release_assignment env q c (routes_view d None) True (ra_risk_level (vd_risk v)) w = (Inr a, w1)"
    using assignment_Inr by blast
  then show ?thesis
    using assms by (simp add: route_message_def and_then_def give_result_def give_def plain_routing_def)
qed

definition demo_resumed :: run_context where
  "demo_resumed = demo_refund_context\<lparr>rc_status := RS_RUNNING_WORKFLOW\<rparr>"

definition demo_continuation :: route_decision where
  "demo_continuation = projr (continuation_decision demo_run_env demo_resumed)"

lemma demo_continues:
  "continues demo_resumed" "continuation_decision demo_run_env demo_resumed = Inr demo_continuation"
  "rd_outcome demo_continuation = RO_EXECUTE" "rd_execution_mode demo_continuation = Some EM_WORKFLOW"
  "rd_workflow_id demo_continuation = Some ''refund''"
  "rd_response_policy demo_continuation \<notin> {RP_CONVERSATIONAL_RESPONSE, RP_GRACEFUL_UNSUPPORTED}"
  by (code_simp, code_simp, code_simp, code_simp, code_simp, code_simp)

lemma demo_refund_valid: "valid_run_context demo_refund_context"
  by code_simp

lemma demo_plan_refused:
  "plan_of_message demo_run_env (demo_request ''hi'') demo_resumed demo_continuation ''refund'' ''request_refund'' =
     Inl (MutationPlanningError ''MISSING_SLOTS'' [''order_id'', ''item_id'', ''reason''])"
  by code_simp

lemma planner_error_fails_run_witness:
  "\<exists>w'. execute_message_run demo_run_env (demo_request ''hi'') demo_refunding = (Inr (), w') \<and> settled ''run-1'' ''t'' (runtime w')"
proof -
  let ?env = demo_run_env and ?q = "demo_request ''hi''"
  obtain w0 where w0: "note_dispatch ?env ?q demo_refunding = (Inr (), w0)" by (simp add: note_dispatch_def best_effort_def)
  have "same_identities (runtime demo_refunding) (runtime w0)"
    using storing_identities insideD [OF storing_note [OF noting_dispatch] w0] by blast
  then have "load_latest_checkpoint ''run-1'' ''t'' (runtime w0) = load_latest_checkpoint ''run-1'' ''t'' (runtime demo_refunding)"
    by (rule latest_identities)
  also have "\<dots> = Some demo_refund_context" by code_simp
  finally have "resume_run ''run-1'' ''t'' (xw_store w0) = Inr (Some demo_refund_context)"
    using demo_refund_valid by (simp add: resume_run_def)
  moreover have "rc_status demo_refund_context = RS_WAITING_USER" by code_simp
  ultimately have load: "load_run_context ?q w0 = (Inr demo_resumed, w0)"
    by (simp add: load_run_context_def and_then_def on_repository_def give_result_def resumed_context_def demo_request_def
      demo_resumed_def)
  obtain v where v: "judge_message ?env (qr_content ?q) = Inr v" "\<not> escalated v" using demo_judged by (auto simp: demo_request_def)
  obtain w2 where w2: "accept_message ?env ?q demo_resumed w0 = (Inr v, w2)" using accept_Inr [OF v(1)] by blast
  obtain w3 where w3: "route_message ?env ?q demo_resumed v w2 = (Inr (plain_routing demo_continuation), w3)"
    using continuation_route [OF v(2) demo_continues(1,2)] by blast
  have "mutation_type_for_route ''refund'' = Some ''request_refund''" by code_simp
  moreover have "rc_run_id demo_resumed = ''run-1''" "rc_tenant_id demo_resumed = ''t''" by (code_simp, code_simp)
  moreover have "ro_decision (plain_routing demo_continuation) = demo_continuation" by (simp add: plain_routing_def)
  ultimately show ?thesis
    using planner_error_fails_run [OF _ w0 load w2 w3, of "''refund''" "''request_refund''" "''MISSING_SLOTS''"] demo_stored_ok(2)
      demo_continues(3-6) demo_plan_refused by (auto simp: stored_ok_def)
qed

end
