(* ===== verification/RequestDemo.thy ===== *)
theory RequestDemo
  imports RequestOutcomes MessageDemo
begin

text \<open>The properties of the requests and of the service at concrete runs of one customer.\<close>

definition demo_api :: "unit api_env" where
  "demo_api =
     \<lparr>ax_run = demo_run_env,
      ax_system = \<lparr>sy_commit = (\<lambda>operation actor resource args key w. (Inr \<lparr>ar_status = MA_SUCCEEDED,
          ar_reference = Some ''D-1'', ar_response = []\<rparr>, w)), sy_verify = (\<lambda>actor key reference w. True), sy_readback = None\<rparr>,
      ax_model = None, ax_api_base = None, ax_demo_mode = True, ax_demo_actors = [''a''], ax_admin_token = None,
      ax_approver_token = None\<rparr>"

definition demo_open_conversation :: conversation_row where
  "demo_open_conversation = demo_conversation\<lparr>cv_id := ''c-1'', cv_tenant_id := demo_tenant\<rparr>"

definition demo_customer :: "unit run_world" where
  "demo_customer = demo_run_world (empty_db\<lparr>db_conversations := [demo_open_conversation]\<rparr>)"

definition demo_sent :: "sent_message reply result \<times> unit run_world" where
  "demo_sent = send_message demo_api ''a'' ''c-1'' ''hi'' ''k'' demo_customer"

definition demo_blank :: "sent_message reply result \<times> unit run_world" where
  "demo_blank = send_message demo_api ''a'' ''c-1'' '' '' ''k'' demo_customer"

definition demo_owned_row :: "run_status \<Rightarrow> run_row" where
  "demo_owned_row status = demo_run_row
     \<lparr>rr_tenant_id := demo_tenant, rr_status := status, rr_mode := Some EM_WORKFLOW, rr_workflow_id := Some ''refund'',
      rr_checkpoint_seq := 1, rr_version := 1\<rparr>"

definition demo_owned_context :: "run_status \<Rightarrow> int \<Rightarrow> run_context" where
  "demo_owned_context status steps =
     \<lparr>rc_run_id = ''run-1'', rc_conversation_id = ''c-1'', rc_tenant_id = demo_tenant, rc_actor_id = ''a'',
      rc_execution_mode = Some EM_WORKFLOW, rc_workflow_id = Some ''refund'', rc_workflow_version = Some ''1'',
      rc_status = status,
      rc_state = [(''mutation_type'', PStr ''request_refund''), (''mutation_preview'', PDict []),
        (''mutation_preview_hash'', PStr ''p''), (''mutation_arguments_hash'', PStr ''f''),
        (''mutation_resource_ref'', PStr ''O-1''), (''mutation_operation'', PStr ''commit_refund'')],
      rc_step_count = steps, rc_checkpoint_version = 1\<rparr>"

definition demo_owned_token :: token_row where
  "demo_owned_token = demo_waiting_token\<lparr>tk_hash := ''old'', tk_run_id := ''run-1'', tk_tenant_id := demo_tenant\<rparr>"

definition demo_open_ticket :: ticket_row where
  "demo_open_ticket =
     \<lparr>hd_ticket_id = ''t-1'', hd_run_id = ''run-1'', hd_tenant_id = demo_tenant, hd_actor_ref = ''a'',
      hd_reason_code = ''UNSETTLED'', hd_status = ''open'', hd_operation = None, hd_details = PDict [], hd_created_at = 0,
      hd_resolved_at = None, hd_resolution = None\<rparr>"

definition demo_owned :: "run_status \<Rightarrow> int \<Rightarrow> unit run_world" where
  "demo_owned status steps = demo_run_world (empty_db
     \<lparr>db_conversations := [demo_open_conversation], db_runs := [demo_owned_row status],
      db_checkpoints := [\<lparr>cp_run_id = ''run-1'', cp_seq = 1, cp_step = ''step'', cp_state = demo_owned_context status steps,
        cp_hash = ''h'', cp_from = 1, cp_to = 0\<rparr>],
      db_tokens := [demo_owned_token], db_tickets := [demo_open_ticket]\<rparr>)"

definition demo_refreshed :: "refresh_response reply result \<times> unit run_world" where
  "demo_refreshed = refresh_confirmation demo_api ''a'' ''run-1'' (demo_owned RS_WAITING_CONFIRMATION 6)"

definition demo_confirmation :: confirmation_request where
  "demo_confirmation = \<lparr>cq_accept = True, cq_token = ''old'', cq_key = ''i''\<rparr>"

definition demo_accepted :: "confirmation_response reply result \<times> unit run_world" where
  "demo_accepted = confirm_run demo_api ''a'' ''run-1'' demo_confirmation (demo_owned RS_WAITING_CONFIRMATION 1)"

text \<open>A run under review whose customer was told the final word before.\<close>

definition demo_final_word :: message_row where
  "demo_final_word =
     \<lparr>ms_message_id = ''m'', ms_conversation_id = ''c-1'', ms_run_id = Some ''run-1'', ms_client_id = None, ms_role = ''assistant'',
      ms_content = ''ok'', ms_hash = ''h'', ms_sequence = 1, ms_terminal = True, ms_created_at = 0\<rparr>"

definition demo_reviewing :: "unit run_world" where
  "demo_reviewing = (let w = demo_owned RS_WAITING_HUMAN 1 in
     w\<lparr>xw_store := (xw_store w)\<lparr>rs_db := (runtime w)\<lparr>db_messages := [demo_final_word]\<rparr>\<rparr>\<rparr>)"

definition demo_resolved :: "handoff_response reply result \<times> unit run_world" where
  "demo_resolved = resolve_handoff demo_api ''a'' ''t-1'' VERIFIED_SUCCESS ''ok'' demo_reviewing"

definition demo_interrupted :: "unit run_world" where
  "demo_interrupted = demo_run_world (empty_db\<lparr>db_conversations := [demo_open_conversation], db_runs :=
     [(demo_owned_row RS_RUNNING_WORKFLOW)\<lparr>rr_pins := (rr_pins demo_run_row)\<lparr>pin_deadline_at := 0\<rparr>\<rparr>,
      (demo_owned_row RS_COMMITTING)\<lparr>rr_run_id := ''run-2'', rr_conversation_id := ''c-2''\<rparr>]\<rparr>)"

section \<open>What the requests answer\<close>

lemma demo_sent_facts:
  "(case find_user_by_client_message_id (customer_target ''c-1'' ''a'') ''k'' (runtime (snd demo_sent)) of
      None \<Rightarrow> False | Some m \<Rightarrow> mr_run_id m \<noteq> None) \<and>
   (case fst demo_blank of Inr (HttpError status d) \<Rightarrow> status = 404 | _ \<Rightarrow> False) \<and>
   find_user_by_client_message_id (customer_target ''c-1'' ''a'') ''k2'' (runtime (snd demo_blank)) = None \<and>
   target_visible (customer_target ''c-1'' ''a'') (runtime demo_customer) \<and> slice_to ''a'' 128 = ''a''"
  by code_simp

lemma demo_refreshed_facts:
  "(case fst demo_refreshed of Inr (Answered f) \<Rightarrow> True | _ \<Rightarrow> False) \<and>
   (case checkpoint_context ''run-1'' ''a'' (runtime (demo_owned RS_WAITING_CONFIRMATION 6)) of
      Answered c \<Rightarrow> rc_step_count c = 6 | _ \<Rightarrow> False) \<and>
   logs_ok (runtime (demo_owned RS_WAITING_CONFIRMATION 6)) \<and> checkpoints_ok (runtime (demo_owned RS_WAITING_CONFIRMATION 6)) \<and>
   (case fst (get_run ''a'' ''run-1'' (demo_owned RS_CANCELLED 1)) of
      Inr (Answered v) \<Rightarrow> vw_status v = RS_CANCELLED | _ \<Rightarrow> False) \<and>
   get_demo_actor demo_api (Some ''a'') = Answered ''a''"
  by code_simp

definition demo_decided :: "run_context result \<times> unit run_world" where
  "demo_decided = decide_mutation demo_api (demo_owned_context RS_WAITING_CONFIRMATION 1) demo_confirmation
     (demo_owned RS_WAITING_CONFIRMATION 1)"

lemma demo_decided_facts:
  "length (xw_calls (snd demo_decided)) = 1 \<and> intents_ok (xw_store (demo_owned RS_WAITING_CONFIRMATION 1)) \<and>
   xw_calls (demo_owned RS_WAITING_CONFIRMATION 1) = [] \<and> tst_calls (xw_tools (demo_owned RS_WAITING_CONFIRMATION 1)) = [] \<and>
   (case load_run ''run-1'' demo_tenant (Some ''a'') (runtime (demo_owned RS_WAITING_CONFIRMATION 1)) of
      None \<Rightarrow> False | Some s \<Rightarrow> run_snapshot.sn_status s = RS_WAITING_CONFIRMATION) \<and>
   checkpoint_context ''run-1'' ''a'' (runtime (demo_owned RS_WAITING_CONFIRMATION 1)) =
     Answered (demo_owned_context RS_WAITING_CONFIRMATION 1)"
  by code_simp

text \<open>The calls of a confirmation are those of its decision.\<close>

lemma confirm_calls:
  assumes "load_run run_id demo_tenant (Some actor) (runtime w) = Some s" "run_snapshot.sn_status s = RS_WAITING_CONFIRMATION"
    "checkpoint_context run_id actor (runtime w) = Answered c"
  shows "xw_calls (snd (confirm_run env actor run_id p w)) = xw_calls (snd (decide_mutation env c p w))"
proof -
  obtain r w1 where d: "decide_mutation env c p w = (r, w1)" by force
  show ?thesis
  proof (cases r)
    case (Inl e)
    then show ?thesis
      using d by (cases e)
        (simp_all add: confirm_run_def waiting_run_reply with_context_reply assms trying_def confirmation_refused_def)
  next
    case (Inr x)
    have "inside noting (report_confirmation env run_id p x)"
      unfolding report_confirmation_def by (intro noting.request_rules noting_publish)
    then have "xw_calls (snd (report_confirmation env run_id p x w1)) = xw_calls w1" by (simp add: inside_def moving_def)
    then show ?thesis using d Inr by (simp add: confirm_run_def waiting_run_reply with_context_reply assms trying_def)
  qed
qed

lemma demo_accepted_facts: "length (xw_calls (snd demo_accepted)) = 1"
proof -
  obtain s where "load_run ''run-1'' demo_tenant (Some ''a'') (runtime (demo_owned RS_WAITING_CONFIRMATION 1)) = Some s"
    "run_snapshot.sn_status s = RS_WAITING_CONFIRMATION"
    using demo_decided_facts by (auto split: option.splits)
  from confirm_calls [OF this, of "demo_owned_context RS_WAITING_CONFIRMATION 1" demo_api demo_confirmation] demo_decided_facts
  show ?thesis by (simp add: demo_accepted_def demo_decided_def)
qed

lemma demo_resolved_facts:
  "(case fst demo_resolved of Inr (Answered x) \<Rightarrow> hs_run_id x = ''run-1'' | _ \<Rightarrow> False)"
  by code_simp

lemma demo_interrupted_facts:
  "table_ok (runtime demo_interrupted) \<and>
   map (overdue (read_time (flow (ax_run demo_api)) (xw_store demo_interrupted))) (db_runs (runtime demo_interrupted)) = [True, False] \<and>
   map rr_status (db_runs (runtime demo_interrupted)) = [RS_RUNNING_WORKFLOW, RS_COMMITTING]"
  by code_simp

section \<open>Witnesses\<close>

definition demo_again :: "confirmation_response reply result \<times> unit run_world" where
  "demo_again = confirm_run demo_api ''a'' ''run-1'' demo_confirmation (snd demo_accepted)"


lemma resent_message_runs_nothing_witness:
  "runtime (snd (send_message demo_api ''a'' ''c-1'' ''another'' ''k'' (snd demo_sent))) = runtime (snd demo_sent)"
proof -
  obtain m r where m: "find_user_by_client_message_id (customer_target ''c-1'' ''a'') ''k'' (runtime (snd demo_sent)) = Some m"
    "mr_run_id m = Some r"
    using demo_sent_facts by (auto split: option.splits)
  then show ?thesis using resent_message_runs_nothing [OF m, of demo_api "''another''"] by auto
qed


lemma refreshing_locks_out_witness:
  "fst (cancel_run demo_api ''a'' ''run-1'' (snd demo_refreshed)) = Inr (HttpError 500 (PStr ''run_checkpoint_invalid''))"
proof -
  let ?w = "demo_owned RS_WAITING_CONFIRMATION 6"
  obtain f where "fst demo_refreshed = Inr (Answered f)" using demo_refreshed_facts by (auto split: sum.splits reply.splits)
  then have f: "refresh_confirmation demo_api ''a'' ''run-1'' ?w = (Inr (Answered f), snd demo_refreshed)"
    unfolding demo_refreshed_def by (metis prod.collapse)
  obtain c where c: "checkpoint_context ''run-1'' ''a'' (runtime ?w) = Answered c" "rc_step_count c = 6"
    using demo_refreshed_facts by (auto split: reply.splits)
  show ?thesis using refreshing_locks_out [OF f c] demo_refreshed_facts by simp
qed

lemma review_is_resolved_by_its_customer_witness:
  "\<exists>t\<in>set (db_tickets (runtime demo_reviewing)). hd_actor_ref t = ''a'' \<and> hd_run_id t = ''run-1''"
proof -
  obtain x where x: "fst demo_resolved = Inr (Answered x)" "hs_run_id x = ''run-1''"
    using demo_resolved_facts by (auto split: sum.splits reply.splits)
  then have "resolve_handoff demo_api ''a'' ''t-1'' VERIFIED_SUCCESS ''ok'' demo_reviewing =
      (Inr (Answered x), snd demo_resolved)"
    unfolding demo_resolved_def by (metis prod.collapse)
  from review_is_resolved_by_its_customer [OF this] x(2) show ?thesis by auto
qed

lemma refused_message_blocks_conversation_witness:
  "\<not> (\<exists>m. fst (send_message demo_api ''a'' ''c-1'' ''hello'' ''k2'' (snd demo_blank)) = Inr (Answered m))"
proof -
  obtain d where "fst demo_blank = Inr (HttpError 404 d)" using demo_sent_facts by (auto split: sum.splits reply.splits)
  then have "send_message demo_api ''a'' ''c-1'' '' '' ''k'' demo_customer = (Inr (HttpError 404 d), snd demo_blank)"
    unfolding demo_blank_def by (metis prod.collapse)
  from refused_message_blocks_conversation [OF this, of "''k2''" "''hello''"] demo_sent_facts show ?thesis by simp
qed


end
