(* ===== verification/Spec2Isabelle.thy ===== *)
theory Spec2Isabelle
  imports Policy Outbox Memory Feedback Gateway RequestDemo
begin

text \<open>
  Verification library of the commerce agent runtime: the Python packages under \<open>src/src\<close> and the requests of
  customers in \<open>src/apps/api\<close>.

  \<^bold>\<open>The program.\<close> A message of a customer becomes a run. The safety boundary and the intent router decide
  who handles it: a read-only agent, a fixed workflow, or a person. The agent is a loop of at most six
  steps; a step asks a model for one decision, validates it, executes at most one read-only tool behind
  the tool boundary and reduces the answer into the state. Every step ends in one database transaction that
  advances the run under an optimistic lock. A change of the outside world never comes from the agent: the
  mutation workflow previews it, waits for a confirmation token, claims a durable intent, calls the
  external system and commits the outcome with the checkpoint. Around this, failures are attributed and
  turned into reviewed experience skills, and releases are rolled out in guarded stages.

  \<^bold>\<open>Theories.\<close>

  \<^item> \<open>Prelude\<close>: exceptions and results, Python strings, dictionaries, dynamic values and comparisons.
  \<^item> \<open>Protocols\<close> (\<open>protocols.py\<close>): enums and models, field constraints as \<open>valid_\<close> predicates.
  \<^item> \<open>RunStateMachine\<close> (\<open>orchestration/state_machine.py\<close>): transition table and guard; the interface
    \<open>guarded_machine\<close> of lifecycles guarded by a table.
  \<^item> \<open>Routing\<close> (\<open>orchestration/router.py\<close>, \<open>confidence.py\<close>, \<open>response_policy.py\<close>, \<open>route_catalog.py\<close>):
    calibration curves, the fail-closed \<open>decide\<close>, the shipped catalog.
  \<^item> \<open>Safety\<close> (\<open>safety/\<close>, \<open>orchestration/risk_router.py\<close>): marker rules, semantic triage, routes.
  \<^item> \<open>Policy\<close> (\<open>policies/engine.py\<close>): constructor checks and the evaluation of rules.
  \<^item> \<open>Tools\<close> (\<open>tools/\<close>): registry, executor with its guards and retries, tool catalogs.
  \<^item> \<open>Validation\<close> (\<open>agent/validation.py\<close>): the boundary of a model decision.
  \<^item> \<open>AgentStep\<close>, \<open>AgentLoop\<close> (\<open>agent/loop.py\<close>): one step, and the loop of steps.
  \<^item> \<open>Pipeline\<close> (\<open>orchestration/pipeline.py\<close>): stage journal, input checks, reducer, \<open>advance\<close>; the
    interface \<open>checkpoint_store\<close>.
  \<^item> \<open>Database\<close> (\<open>infra/migrations/versions\<close>): tables, checks, unique indexes and trigger of the runtime.
  \<^item> \<open>RunEvents\<close>, \<open>RunStore\<close> (\<open>repositories/runs.py\<close>, \<open>orchestration/persistence.py\<close>): event replay, the
    transaction of a step, checkpoints; the provider of \<open>checkpoint_store\<close>.
  \<^item> \<open>MutationSafety\<close> (\<open>mutation_safety.py\<close>): the values of a mutation and the in-process guards.
  \<^item> \<open>MutationBoundary\<close> (\<open>orchestration/mutation_execution.py\<close>): execute and recover over the interface
    \<open>intent_store\<close>.
  \<^item> \<open>MutationStore\<close> (\<open>repositories/mutations.py\<close>): tokens and intents in the database; the provider of
    \<open>intent_store\<close> and a refinement of the in-process guards.
  \<^item> \<open>MutationHistory\<close>: executions, recoveries and transactions of many workers interleaved.
  \<^item> \<open>Handoffs\<close> (\<open>repositories/handoffs.py\<close>, \<open>audit.py\<close>): tickets of human reviewers, the audit log.
  \<^item> \<open>MutationPlanner\<close> (\<open>workflows/mutations.py\<close>): extraction, normalization, eligibility and previews.
  \<^item> \<open>MutationWorkflow\<close>, \<open>LowRisk\<close> (\<open>orchestration/mutation_workflow.py\<close>, \<open>low_risk_workflow.py\<close>):
    preparing, confirming, rejecting and refreshing mutations, and the two operations without a confirmation.
  \<^item> \<open>WorkflowHistory\<close>: both workflows of many runs interleaved.
  \<^item> \<open>RunLifecycle\<close> (\<open>orchestration/run_creation.py\<close>, \<open>repositories/run_lifecycle.py\<close>): creating a run and
    selecting its executor.
  \<^item> \<open>Engine\<close> (\<open>orchestration/engine.py\<close>, \<open>workflows.py\<close>, \<open>agent/intent_classifier.py\<close>): workflow registry,
    classifier, and the engine that routes, resumes and cancels runs.
  \<^item> \<open>Regex\<close>, \<open>Trace\<close> (\<open>telemetry/trace.py\<close>): regular expressions with a backtracking matcher, redaction.
  \<^item> \<open>Messages\<close>, \<open>TerminalResponse\<close> (\<open>repositories/conversations.py\<close>, \<open>messages.py\<close>,
    \<open>orchestration/terminal_response.py\<close>): conversations and the one terminal response of a run.
  \<^item> \<open>Outbox\<close> (\<open>repositories/outbox.py\<close>): leasing and finishing outbox rows.
  \<^item> \<open>Release\<close> (\<open>release/\<close>, \<open>repositories/releases.py\<close>): guard, traffic assignment, releases, scheduler.
  \<^item> \<open>Failures\<close> (\<open>evolution/\<close>, \<open>repositories/failures.py\<close>): signals, cases, attribution and review.
  \<^item> \<open>Skills\<close>, \<open>SkillStore\<close> (\<open>evolution/skill_*.py\<close>, \<open>repositories/skills.py\<close>): lifecycle, validation and
    matching of experience skills, and their repository.
  \<^item> \<open>Memory\<close>, \<open>Feedback\<close> (\<open>repositories/memory.py\<close>, \<open>feedback.py\<close>): preferences and feedback of customers.
  \<^item> \<open>RunWorld\<close>: the state behind the message executor, and actions on its parts that may raise.
  \<^item> \<open>ReadonlyRun\<close> (\<open>orchestration/api_runtime.py\<close>): the prompt and the agent run of a read-only route.
  \<^item> \<open>Replies\<close> (\<open>orchestration/conversational_fallback.py\<close>, \<open>capabilities.py\<close>, \<open>safety/responses.py\<close>).
  \<^item> \<open>MessageRun\<close> (\<open>orchestration/demo_run_executor.py\<close>): the handling of a message from its safety verdict
    over routing to the read-only run, the mutation, the handoff or the question to the customer.
  \<^item> \<open>MessageEffects\<close>, \<open>MessageOutcomes\<close>, \<open>MessageGuards\<close>: what a message does to the database, as steps over
    the interface \<open>run_relation\<close>; what errors leave behind; what no message can do. \<open>MessageDemo\<close> has their
    concrete runs.
  \<^item> \<open>Gateway\<close> (\<open>models/gateway.py\<close>): requests to the provider with retries and one repair, and the parsers
    of its answers.
  \<^item> \<open>RunApi\<close> (\<open>apps/api/main.py\<close>): authentication, the requests of a customer about a run, the recovery at startup.
  \<^item> \<open>ServiceHistory\<close>: requests, the worker that executes messages and restarts as steps of one service, and the
    relation \<open>served\<close> every one of them stays in.
  \<^item> \<open>RequestOutcomes\<close>: what single requests and a restart leave behind. \<open>RequestDemo\<close> has their concrete runs.

  \<^bold>\<open>Correspondence.\<close> A function of the code is a definition of the same name, split where the code has a
  long body; a method takes its object as an argument. State is passed explicitly: the world behind the
  adapters, the database, and a counter that numbers the draws of UUIDs and the readings of clocks. An
  exception is a value of \<open>py_exn\<close>, a fallible call returns \<open>py_exn + 'a\<close>. A transaction returns the old
  database when it fails; concurrent workers are sequences of transactions, because each of them is one
  conditional update of what the database holds.

  \<^bold>\<open>Lemma groups.\<close> Every component has the inversion lemmas of its operations (\<open>_Inr\<close>, \<open>_cases\<close>), its
  invariant with the preservation lemmas, and its properties at the end. Contracts between components are
  locales, proved once and interpreted on the model of the provider.

  \<^bold>\<open>Bounds and termination.\<close> Loops are structural or have a measure: the agent loop ends because a step that
  leaves the run running commits one more of at most six steps; the retries of a tool call are bounded by
  its retry policy, the requests of a model call by the settings. No fuel is used.

  \<^bold>\<open>Parameters.\<close> Model gateway, tool adapters, clocks, UUIDs, hashes, JSON codecs and the external order
  system are arguments. A Python float is a rational. Case mapping is that of ASCII. What validation by
  pydantic is relied on for is stated by the predicates \<open>reads_labels\<close> and \<open>raises_values\<close> of \<open>Gateway\<close>.

  \<^bold>\<open>Not modelled.\<close> The HTTP handlers of the control plane, of reports and of event streams (glue over the
  modelled operations), the validation of request bodies by pydantic, the admission gate, the front end of
  \<open>apps/web\<close>, the evaluation harness, the synthesis of data and the scripts (offline tools), the document search
  and the reporting queries (work of PostgreSQL), the fixture data of the demo adapters, and metrics. Three
  simplifications concern modelled code: the events an agent run reports to its observer between two checkpoints
  are left out, because nothing reads them back; the connections of a database are serial transactions; and in
  \<open>ServiceHistory\<close> a request is one step, where the histories of \<open>MutationHistory\<close> interleave transactions.
\<close>

end
